(* ===== verification/Py_Prelude.thy ===== *)
theory Py_Prelude
  imports Main "HOL-Library.AList" "HOL-Library.Monad_Syntax"
begin

text \<open>
  The Python values and string operations the components share: strings as character lists
  (one character per code point; case mapping, white space and digits are those of Python on
  the code points 0 to 255 that HOL characters have, case mapping restricted to ASCII letters),
  \<open>int()\<close> and \<open>str()\<close> on integers, \<open>split\<close>, \<open>join\<close>, \<open>strip\<close>, \<open>replace\<close>, \<open>ljust\<close>
  and \<open>splitlines\<close>, dictionaries in insertion order as association lists, and the
  exceptions that the modelled code raises, as the left summand of a result type.
\<close>

named_theorems py_str \<open>rewrite rules for Python string operations\<close>
named_theorems py_dict \<open>rewrite rules for dictionaries\<close>

section \<open>Exceptions and results\<close>

datatype exn =
    ValueError string
  | ValidationError string
  | KeyError string
  | AttributeError string
  | TypeError string
  | IndexError string
  | RuntimeError string
  | AssertionError string
  | UnknownRPSLObjectClassException string
  | ROAParserException string
  | NRTMGeneratorException string
  | RPSLImportError string
  | InvalidQueryException string
  | WhoisQueryError string
  | DatabaseError string
  | OSError string
  | NRTM4ClientError string
  | JoseError string
  | UnsupportedAlgorithm string
  | GenericException string
  | StopIteration

type_synonym 'a res = "exn + 'a"

definition rbind :: "'a res \<Rightarrow> ('a \<Rightarrow> 'b res) \<Rightarrow> 'b res" where
  "rbind r f = (case r of Inl e \<Rightarrow> Inl e | Inr x \<Rightarrow> f x)"

lemma rbind_simps [simp]:
  "rbind (Inl e) f = Inl e"
  "rbind (Inr x) f = f x"
  by (simp_all add: rbind_def)

lemma rbind_cong [fundef_cong]:
  "r = r' \<Longrightarrow> (\<And>x. r' = Inr x \<Longrightarrow> f x = g x) \<Longrightarrow> rbind r f = rbind r' g"
  by (auto simp: rbind_def split: sum.splits)

lemma rbind_Inr_conv: "rbind r f = Inr y \<longleftrightarrow> (\<exists>x. r = Inr x \<and> f x = Inr y)"
  by (cases r) simp_all

section \<open>Characters\<close>

definition ord :: "char \<Rightarrow> nat" where
  "ord c = of_char c"

definition chr :: "nat \<Rightarrow> char" where
  "chr n = char_of n"

abbreviation NL :: char where "NL \<equiv> CHR 0x0A"
abbreviation CR :: char where "CR \<equiv> CHR 0x0D"
abbreviation TAB :: char where "TAB \<equiv> CHR 0x09"

definition isspace :: "char \<Rightarrow> bool" where
  "isspace c \<longleftrightarrow> (let n = ord c in 9 \<le> n \<and> n \<le> 13 \<or> 28 \<le> n \<and> n \<le> 32 \<or> n = 133 \<or> n = 160)"

definition isdigit :: "char \<Rightarrow> bool" where
  "isdigit c \<longleftrightarrow> 48 \<le> ord c \<and> ord c \<le> 57"

definition islower :: "char \<Rightarrow> bool" where
  "islower c \<longleftrightarrow> 97 \<le> ord c \<and> ord c \<le> 122"

definition isupper :: "char \<Rightarrow> bool" where
  "isupper c \<longleftrightarrow> 65 \<le> ord c \<and> ord c \<le> 90"

definition isprintable :: "char \<Rightarrow> bool" where
  "isprintable c \<longleftrightarrow> (let n = ord c in 32 \<le> n \<and> n \<le> 126 \<or> 161 \<le> n \<and> n \<noteq> 173)"

definition upper_char :: "char \<Rightarrow> char" where
  "upper_char c = (if islower c then chr (ord c - 32) else c)"

definition lower_char :: "char \<Rightarrow> char" where
  "lower_char c = (if isupper c then chr (ord c + 32) else c)"

definition digit_val :: "char \<Rightarrow> nat" where
  "digit_val c = ord c - 48"

definition digit_char :: "nat \<Rightarrow> char" where
  "digit_char d = chr (48 + d)"

section \<open>Strings\<close>

definition py_upper :: "string \<Rightarrow> string" where
  "py_upper s = map upper_char s"

definition py_lower :: "string \<Rightarrow> string" where
  "py_lower s = map lower_char s"

definition lstrip_by :: "(char \<Rightarrow> bool) \<Rightarrow> string \<Rightarrow> string" where
  "lstrip_by p s = dropWhile p s"

definition strip_by :: "(char \<Rightarrow> bool) \<Rightarrow> string \<Rightarrow> string" where
  "strip_by p s = rev (dropWhile p (rev (dropWhile p s)))"

definition py_strip :: "string \<Rightarrow> string" where
  "py_strip s = strip_by isspace s"

definition py_strip_chars :: "string \<Rightarrow> string \<Rightarrow> string" where
  "py_strip_chars cs s = strip_by (\<lambda>c. c \<in> set cs) s"

fun py_startswith :: "string \<Rightarrow> string \<Rightarrow> bool" where
  "py_startswith s [] = True"
| "py_startswith [] (p # ps) = False"
| "py_startswith (c # s) (p # ps) = (c = p \<and> py_startswith s ps)"

fun py_contains :: "string \<Rightarrow> string \<Rightarrow> bool" where
  "py_contains pat [] = (pat = [])"
| "py_contains pat (c # s) = (py_startswith (c # s) pat \<or> py_contains pat s)"

fun py_split :: "char \<Rightarrow> string \<Rightarrow> string list" where
  "py_split sep [] = [[]]"
| "py_split sep (c # s) =
     (if c = sep then [] # py_split sep s
      else case py_split sep s of [] \<Rightarrow> [[c]] | p # ps \<Rightarrow> (c # p) # ps)"

text \<open>\<open>s.split(sep, maxsplit=1)\<close>, where the separator occurs in \<open>s\<close>.\<close>

definition py_split1 :: "char \<Rightarrow> string \<Rightarrow> string \<times> string" where
  "py_split1 sep s = (takeWhile (\<lambda>c. c \<noteq> sep) s, tl (dropWhile (\<lambda>c. c \<noteq> sep) s))"

fun py_join :: "string \<Rightarrow> string list \<Rightarrow> string" where
  "py_join sep [] = []"
| "py_join sep [x] = x"
| "py_join sep (x # y # xs) = x @ sep @ py_join sep (y # xs)"

definition py_ljust :: "nat \<Rightarrow> string \<Rightarrow> string" where
  "py_ljust w s = s @ replicate (w - length s) CHR '' ''"

text \<open>
  \<open>s.replace(old, new)\<close>: non-overlapping occurrences from the left; an empty \<open>old\<close>
  matches before every character and at the end. The counter skips the rest of an occurrence
  that was just replaced.
\<close>

fun replace_skip :: "nat \<Rightarrow> string \<Rightarrow> string \<Rightarrow> string \<Rightarrow> string" where
  "replace_skip k old new [] = []"
| "replace_skip (Suc k) old new (c # s) = replace_skip k old new s"
| "replace_skip 0 old new (c # s) =
     (if py_startswith (c # s) old then new @ replace_skip (length old - 1) old new s
      else c # replace_skip 0 old new s)"

definition py_replace :: "string \<Rightarrow> string \<Rightarrow> string \<Rightarrow> string" where
  "py_replace old new s =
     (if old = [] then concat (map (\<lambda>c. new @ [c]) s) @ new
      else replace_skip 0 old new s)"

text \<open>\<open>str.title\<close>: a letter is upper case after a non-letter and lower case after a letter.\<close>

fun title_from :: "bool \<Rightarrow> string \<Rightarrow> string" where
  "title_from prev [] = []"
| "title_from prev (c # s) =
     (let letter = islower c \<or> isupper c
      in (if prev then lower_char c else upper_char c) # title_from letter s)"

definition py_title :: "string \<Rightarrow> string" where
  "py_title s = title_from False s"

text \<open>
  \<open>str.splitlines\<close>: the line boundaries of Python among the code points up to 255, the pair
  CR LF counting as one; \<open>keepends\<close> keeps them at the end of each line.
\<close>

definition is_linebreak :: "char \<Rightarrow> bool" where
  "is_linebreak c \<longleftrightarrow> (let n = ord c in 10 \<le> n \<and> n \<le> 13 \<or> 28 \<le> n \<and> n \<le> 30 \<or> n = 133)"

fun splitlines_acc :: "bool \<Rightarrow> string \<Rightarrow> string \<Rightarrow> string list" where
  "splitlines_acc keep acc [] = (if acc = [] then [] else [rev acc])"
| "splitlines_acc keep acc (c # s) =
     (if c = CR \<and> take 1 s = [NL]
      then (rev acc @ (if keep then [CR, NL] else [])) # splitlines_acc keep [] (drop 1 s)
      else if is_linebreak c
      then (rev acc @ (if keep then [c] else [])) # splitlines_acc keep [] s
      else splitlines_acc keep (c # acc) s)"

definition py_splitlines :: "string \<Rightarrow> string list" where
  "py_splitlines s = splitlines_acc False [] s"

text \<open>\<open>textwrap.indent(text, prefix)\<close>: the prefix before each line that is not white space only.\<close>

definition textwrap_indent :: "string \<Rightarrow> string \<Rightarrow> string" where
  "textwrap_indent txt pre =
     concat (map (\<lambda>l. if py_strip l \<noteq> [] then pre @ l else l) (splitlines_acc True [] txt))"

section \<open>Integers\<close>

fun str_nat :: "nat \<Rightarrow> string" where
  "str_nat n = (if n < 10 then [digit_char n] else str_nat (n div 10) @ [digit_char (n mod 10)])"

declare str_nat.simps [simp del]

definition str_int :: "int \<Rightarrow> string" where
  "str_int i = (if i < 0 then CHR ''-'' # str_nat (nat (- i)) else str_nat (nat i))"

text \<open>
  The digits of an \<open>int()\<close> argument: decimal digits, single underscores between them. CPython
  refuses more than 4300 digits.
\<close>

fun int_digits :: "nat \<Rightarrow> bool \<Rightarrow> string \<Rightarrow> nat option" where
  "int_digits acc prev [] = (if prev then Some acc else None)"
| "int_digits acc prev (c # s) =
     (if isdigit c then int_digits (10 * acc + digit_val c) True s
      else if c = CHR ''_'' \<and> prev then int_digits acc False s
      else None)"

definition py_int :: "string \<Rightarrow> int option" where
  "py_int s0 =
     (let s = py_strip s0;
          neg = py_startswith s ''-'';
          ds = (if neg \<or> py_startswith s ''+'' then tl s else s)
      in if 4300 < int (length (filter isdigit ds)) then None
         else map_option (\<lambda>n. if neg then - int n else int n) (int_digits 0 False ds))"

section \<open>Dictionaries\<close>

text \<open>
  A dictionary in insertion order: assignment to a present key keeps its place, a new key goes
  to the end (\<open>AList.update\<close>).
\<close>

type_synonym ('k, 'v) dict = "('k \<times> 'v) list"

definition dict_get :: "('k, 'v) dict \<Rightarrow> 'k \<Rightarrow> 'v option" where
  "dict_get d k = map_of d k"

definition dict_set :: "'k \<Rightarrow> 'v \<Rightarrow> ('k, 'v) dict \<Rightarrow> ('k, 'v) dict" where
  "dict_set k v d = AList.update k v d"

definition dict_del :: "'k \<Rightarrow> ('k, 'v) dict \<Rightarrow> ('k, 'v) dict" where
  "dict_del k d = filter (\<lambda>p. fst p \<noteq> k) d"

definition dict_keys :: "('k, 'v) dict \<Rightarrow> 'k list" where
  "dict_keys d = map fst d"

lemma dict_get_set [simp, py_dict]: "dict_get (dict_set k v d) k' = (if k' = k then Some v else dict_get d k')"
  by (simp add: dict_get_def dict_set_def update_conv')

lemma dict_get_Nil [simp, py_dict]: "dict_get [] k = None"
  by (simp add: dict_get_def)

lemma dict_get_Cons [simp, py_dict]: "dict_get ((a, v) # d) k = (if k = a then Some v else dict_get d k)"
  by (simp add: dict_get_def)

lemma dict_get_del [simp, py_dict]: "dict_get (dict_del k d) k' = (if k' = k then None else dict_get d k')"
  by (induction d) (auto simp: dict_del_def dict_get_def)

lemma dict_set_simps [simp, py_dict]:
  "dict_set k v [] = [(k, v)]"
  "dict_set k v ((a, w) # d) = (if a = k then (k, v) # d else (a, w) # dict_set k v d)"
  by (simp_all add: dict_set_def)

lemma dict_keys_set: "set (dict_keys (dict_set k v d)) = insert k (set (dict_keys d))"
  by (simp add: dict_keys_def dict_set_def dom_update)

lemma distinct_dict_keys_set: "distinct (dict_keys d) \<Longrightarrow> distinct (dict_keys (dict_set k v d))"
  by (simp add: dict_keys_def dict_set_def distinct_update)

lemma distinct_dict_keys_del: "distinct (dict_keys d) \<Longrightarrow> distinct (dict_keys (dict_del k d))"
  by (simp add: dict_keys_def dict_del_def AList.delete_eq distinct_map_filter)

lemma dict_get_iff: "distinct (dict_keys d) \<Longrightarrow> (k, v) \<in> set d \<longleftrightarrow> dict_get d k = Some v"
  by (simp add: dict_get_def dict_keys_def)

lemma dict_get_in: "dict_get d k = Some v \<Longrightarrow> (k, v) \<in> set d"
  by (simp add: dict_get_def map_of_SomeD)

lemma dict_get_None_iff: "dict_get d k = None \<longleftrightarrow> k \<notin> set (dict_keys d)"
  by (simp add: dict_get_def dict_keys_def map_of_eq_None_iff)

section \<open>Lemmas on characters\<close>

lemma ord_chr [simp]: "n < 256 \<Longrightarrow> ord (chr n) = n"
  by (simp add: ord_def chr_def)

lemma chr_ord [simp]: "chr (ord c) = c"
  by (simp add: ord_def chr_def)

lemma ord_less_256 [simp]: "ord c < 256"
  unfolding ord_def by simp

lemma ord_eq_iff: "ord c = ord d \<longleftrightarrow> c = d"
  by (metis chr_ord)

lemma upper_char_upper [simp]: "upper_char (upper_char c) = upper_char c"
  by (auto simp: upper_char_def islower_def)

lemma isdigit_digit_char [simp]: "d < 10 \<Longrightarrow> isdigit (digit_char d)"
  by (simp add: isdigit_def digit_char_def)

lemma digit_val_digit_char [simp]: "d < 10 \<Longrightarrow> digit_val (digit_char d) = d"
  by (simp add: digit_val_def digit_char_def)

lemma isdigit_not_isspace: "isdigit c \<Longrightarrow> \<not> isspace c"
  by (auto simp: isdigit_def isspace_def Let_def)

lemma upper_char_digit: "isdigit c \<Longrightarrow> upper_char c = c"
  by (auto simp: isdigit_def upper_char_def islower_def)

section \<open>Lemmas on strings\<close>

lemma py_startswith_append [simp, py_str]: "py_startswith (p @ s) p"
  by (induction p) auto

lemma py_startswith_iff: "py_startswith s p \<longleftrightarrow> (\<exists>t. s = p @ t)"
  by (induction s p rule: py_startswith.induct) auto

lemma py_split_not_Nil [simp, py_str]: "py_split sep s \<noteq> []"
  by (induction s) (auto split: list.splits)

lemma py_split_no_sep: "sep \<notin> set s \<Longrightarrow> py_split sep s = [s]"
  by (induction s) auto

lemma py_split_append: "sep \<notin> set p \<Longrightarrow> py_split sep (p @ sep # s) = p # py_split sep s"
  by (induction p) auto

lemma py_split_pieces: "p \<in> set (py_split sep s) \<Longrightarrow> sep \<notin> set p"
proof (induction s arbitrary: p)
  case (Cons c s)
  then show ?case by (auto split: if_splits list.splits)
qed simp

lemma py_join_Cons: "ps \<noteq> [] \<Longrightarrow> py_join sep (p # ps) = p @ sep @ py_join sep ps"
  by (cases ps) auto

lemma py_join_split [py_str]: "py_join [sep] (py_split sep s) = s"
proof (induction s)
  case (Cons c s)
  obtain p ps where ps: "py_split sep s = p # ps"
    by (cases "py_split sep s") auto
  show ?case
  proof (cases "c = sep")
    case True
    with Cons ps show ?thesis by simp
  next
    case False
    with Cons ps show ?thesis by (cases ps) auto
  qed
qed simp

lemma py_split_join [py_str]:
  "ps \<noteq> [] \<Longrightarrow> (\<And>p. p \<in> set ps \<Longrightarrow> sep \<notin> set p) \<Longrightarrow> py_split sep (py_join [sep] ps) = ps"
proof (induction ps rule: list_nonempty_induct)
  case (single p)
  then show ?case by (simp add: py_split_no_sep)
next
  case (cons p ps)
  then show ?case by (simp add: py_join_Cons py_split_append)
qed

lemma py_split1_append: "sep \<notin> set p \<Longrightarrow> py_split1 sep (p @ sep # s) = (p, s)"
  by (induction p) (auto simp: py_split1_def)

lemma strip_by_id: "s = [] \<or> \<not> p (hd s) \<and> \<not> p (last s) \<Longrightarrow> strip_by p s = s"
proof (cases "s = []")
  case False
  assume "s = [] \<or> \<not> p (hd s) \<and> \<not> p (last s)"
  with False have "dropWhile p s = s" and "dropWhile p (rev s) = rev s"
    by (auto simp: dropWhile_eq_self_iff hd_rev)
  then show ?thesis by (simp add: strip_by_def)
qed (simp add: strip_by_def)

lemma strip_by_all: "\<forall>c \<in> set s. p c \<Longrightarrow> strip_by p s = []"
  by (simp add: strip_by_def dropWhile_eq_Nil_conv [THEN iffD2])

lemma strip_by_ends:
  "strip_by p s \<noteq> [] \<Longrightarrow> \<not> p (hd (strip_by p s)) \<and> \<not> p (last (strip_by p s))"
proof -
  define t where "t = dropWhile p s"
  assume ne: "strip_by p s \<noteq> []"
  then have r: "dropWhile p (rev t) \<noteq> []" by (simp add: strip_by_def t_def)
  then have last_ok: "\<not> p (hd (dropWhile p (rev t)))" by (rule hd_dropWhile)
  from r have "t \<noteq> []" by auto
  then have hd_t: "\<not> p (hd t)" unfolding t_def by (rule hd_dropWhile)
  have "rev t = takeWhile p (rev t) @ dropWhile p (rev t)" by simp
  then have "t = rev (dropWhile p (rev t)) @ rev (takeWhile p (rev t))"
    by (metis rev_append rev_rev_ident)
  then have "hd t = hd (rev (dropWhile p (rev t)))"
    using r by (metis hd_append2 rev_is_Nil_conv)
  with hd_t last_ok show ?thesis
    by (simp add: strip_by_def t_def last_rev)
qed

lemma strip_by_idem [simp, py_str]: "strip_by p (strip_by p s) = strip_by p s"
  using strip_by_ends [of p s] by (intro strip_by_id) blast

lemma set_strip_by: "set (strip_by p s) \<subseteq> set s"
  by (auto simp: strip_by_def dest!: set_dropWhileD)

lemma py_upper_idem [simp, py_str]: "py_upper (py_upper s) = py_upper s"
  by (simp add: py_upper_def)

lemma py_upper_append [py_str]: "py_upper (s @ t) = py_upper s @ py_upper t"
  by (simp add: py_upper_def)

section \<open>Lemmas on integers\<close>

lemma str_nat_not_Nil [simp]: "str_nat n \<noteq> []"
  by (subst str_nat.simps) simp

lemma str_nat_digits: "c \<in> set (str_nat n) \<Longrightarrow> isdigit c"
proof (induction n rule: str_nat.induct)
  case (1 n)
  then show ?case
    by (cases "n < 10") (auto simp: str_nat.simps [of n])
qed

lemma int_digits_append_digit:
  "(\<And>c. c \<in> set s \<Longrightarrow> isdigit c) \<Longrightarrow> s \<noteq> [] \<Longrightarrow> isdigit d \<Longrightarrow>
   int_digits acc p (s @ [d]) = map_option (\<lambda>n. 10 * n + digit_val d) (int_digits acc p s)"
proof (induction s arbitrary: acc p)
  case (Cons c s)
  show ?case
  proof (cases "s = []")
    case True
    with Cons.prems show ?thesis by simp
  next
    case False
    with Cons.prems Cons.IH [of "10 * acc + digit_val c" True] show ?thesis by simp
  qed
qed simp

lemma int_digits_str_nat: "int_digits 0 p (str_nat n) = Some n"
proof (induction n rule: str_nat.induct)
  case (1 n)
  show ?case
  proof (cases "n < 10")
    case True
    then show ?thesis by (simp add: str_nat.simps [of n])
  next
    case False
    with 1 have "int_digits 0 p (str_nat (n div 10)) = Some (n div 10)" by simp
    with False show ?thesis
      by (simp add: str_nat.simps [of n] int_digits_append_digit str_nat_digits)
  qed
qed

lemma length_str_nat: "n < 10 ^ k \<Longrightarrow> 0 < k \<Longrightarrow> length (str_nat n) \<le> k"
proof (induction k arbitrary: n)
  case (Suc k)
  show ?case
  proof (cases "n < 10")
    case True
    then show ?thesis by (simp add: str_nat.simps [of n])
  next
    case False
    with Suc.prems have "n div 10 < 10 ^ k" and "0 < k"
      by (auto simp: less_mult_imp_div_less mult.commute intro: ccontr)
    with Suc.IH have "length (str_nat (n div 10)) \<le> k" by blast
    with False show ?thesis by (simp add: str_nat.simps [of n])
  qed
qed simp

lemma py_strip_digits: "(\<And>c. c \<in> set s \<Longrightarrow> isdigit c) \<Longrightarrow> py_strip s = s"
  unfolding py_strip_def
  by (rule strip_by_id) (metis hd_in_set isdigit_not_isspace last_in_set)

lemma isdigit_sign [simp]: "\<not> isdigit CHR ''-''" "\<not> isdigit CHR ''+''"
  by (simp_all add: isdigit_def ord_def)

lemma py_startswith_single: "py_startswith s [c] \<longleftrightarrow> s \<noteq> [] \<and> hd s = c"
  by (cases s) auto

lemma digits_no_sign:
  assumes "\<And>c. c \<in> set s \<Longrightarrow> isdigit c"
  shows "\<not> py_startswith s ''-''" "\<not> py_startswith s ''+''"
  using assms hd_in_set [of s] isdigit_sign by (metis py_startswith_single)+

lemma py_int_digits:
  assumes "\<And>c. c \<in> set s \<Longrightarrow> isdigit c" and "length s \<le> 4300"
  shows "py_int s = map_option int (int_digits 0 False s)"
proof -
  have "length (filter isdigit s) \<le> 4300"
    using assms(2) length_filter_le [of isdigit s] by linarith
  then show ?thesis
    using assms(1) by (simp add: py_int_def py_strip_digits digits_no_sign Let_def)
qed

lemma py_int_str_nat: "n < 10 ^ k \<Longrightarrow> 0 < k \<Longrightarrow> k \<le> 4300 \<Longrightarrow> py_int (str_nat n) = Some (int n)"
  using length_str_nat [of n k]
  by (simp add: py_int_digits str_nat_digits int_digits_str_nat)

end
