(* ===== verification/Conf.thy ===== *)
theory Conf
  imports Py_Prelude
begin

text \<open>
  The configuration (\<^verbatim>\<open>irrd/conf\<close>): YAML values as a datatype, the dotted lookup of
  \<^verbatim>\<open>vendor/dotted\<close>, the table of known keys, and \<open>get_setting_live\<close> with its layers
  (environment, testing overrides, user configuration, defaults). The components take the
  settings as an argument \<open>gs\<close> of type \<open>settings\<close>, a function from a setting name to the
  value found in the layers, and read it with \<open>get_setting\<close>; \<open>settings_of\<close> is that
  function for a configuration.
\<close>

section \<open>Configuration values\<close>

datatype cval =
    CNull
  | CBool bool
  | CInt int
  | CStr string
  | CList "cval list"
  | CDict "(string \<times> cval) list"

fun truthy :: "cval \<Rightarrow> bool" where
  "truthy CNull = False"
| "truthy (CBool b) = b"
| "truthy (CInt i) = (i \<noteq> 0)"
| "truthy (CStr s) = (s \<noteq> [])"
| "truthy (CList vs) = (vs \<noteq> [])"
| "truthy (CDict d) = (d \<noteq> [])"

fun is_collection :: "cval \<Rightarrow> bool" where
  "is_collection (CList vs) = True"
| "is_collection (CDict d) = True"
| "is_collection v = False"

text \<open>\<open>d.get(key)\<close> on a dictionary value; \<open>None\<close> when the key is absent.\<close>

fun cval_get :: "cval \<Rightarrow> string \<Rightarrow> cval" where
  "cval_get (CDict d) k = (case dict_get d k of None \<Rightarrow> CNull | Some v \<Rightarrow> v)"
| "cval_get v k = CNull"

fun cval_items :: "cval \<Rightarrow> (string \<times> cval) list" where
  "cval_items (CDict d) = d"
| "cval_items v = []"

fun cval_list :: "cval \<Rightarrow> cval list" where
  "cval_list (CList vs) = vs"
| "cval_list (CDict d) = map (\<lambda>p. CStr (fst p)) d"
| "cval_list v = []"

text \<open>\<open>str(v)\<close> and \<open>int(v)\<close> for the scalar values settings hold.\<close>

fun cval_str :: "cval \<Rightarrow> string" where
  "cval_str (CStr s) = s"
| "cval_str (CInt i) = str_int i"
| "cval_str (CBool b) = (if b then ''True'' else ''False'')"
| "cval_str v = ''None''"

fun cval_int :: "cval \<Rightarrow> int res" where
  "cval_int (CInt i) = Inr i"
| "cval_int (CBool b) = Inr (if b then 1 else 0)"
| "cval_int (CStr s) = (case py_int s of None \<Rightarrow> Inl (ValueError s) | Some i \<Rightarrow> Inr i)"
| "cval_int v = Inl (TypeError ''int() argument'')"

text \<open>Iteration over a configuration value.\<close>

fun cval_iter :: "cval \<Rightarrow> cval list res" where
  "cval_iter (CList vs) = Inr vs"
| "cval_iter (CDict d) = Inr (map (\<lambda>p. CStr (fst p)) d)"
| "cval_iter (CStr s) = Inr (map (\<lambda>c. CStr [c]) s)"
| "cval_iter v = Inl (TypeError ''object is not iterable'')"

section \<open>Dotted lookup\<close>

fun split_key_from :: "char \<Rightarrow> string \<Rightarrow> string list" where
  "split_key_from prev [] = [[]]"
| "split_key_from prev (c # s) =
     (if c = CHR ''.'' \<and> prev \<noteq> CHR 0x5C then [] # split_key_from c s
      else case split_key_from c s of [] \<Rightarrow> [[c]] | p # ps \<Rightarrow> (c # p) # ps)"

definition split_key :: "string \<Rightarrow> string list" where
  "split_key key = split_key_from CHR '' '' key"

definition isdigit_str :: "string \<Rightarrow> bool" where
  "isdigit_str s \<longleftrightarrow> s \<noteq> [] \<and> list_all isdigit s"

definition list_item :: "cval list \<Rightarrow> string \<Rightarrow> cval res" where
  "list_item vs k =
     (case py_int k of
        None \<Rightarrow> Inl (ValueError k)
      | Some i \<Rightarrow> if 0 \<le> i \<and> i < int (length vs) then Inr (vs ! nat i) else Inl (IndexError k))"

fun dotted_get :: "string list \<Rightarrow> cval \<Rightarrow> cval res" where
  "dotted_get [] v = Inr v"
| "dotted_get [k] (CDict d) = (case dict_get d k of None \<Rightarrow> Inl (KeyError k) | Some v \<Rightarrow> Inr v)"
| "dotted_get (k # k2 # ks) (CDict d) =
     (case dict_get d k of
        None \<Rightarrow> Inl (KeyError k)
      | Some v \<Rightarrow> if is_collection v then dotted_get (k2 # ks) v else Inl (KeyError k))"
| "dotted_get [k] (CList vs) = (if isdigit_str k then list_item vs k else Inl (IndexError k))"
| "dotted_get (k # k2 # ks) (CList vs) =
     (case list_item vs k of
        Inl e \<Rightarrow> Inl e
      | Inr v \<Rightarrow> if is_collection v then dotted_get (k2 # ks) v else Inl (IndexError k))"
| "dotted_get (k # ks) v = Inl (KeyError k)"

section \<open>Known keys\<close>

definition SET_CREATION_CLASSES :: "string list" where
  "SET_CREATION_CLASSES =
     [''as-set'', ''filter-set'', ''peering-set'', ''route-set'', ''rtr-set'', ''COMMON'']"

definition leaf :: "string \<Rightarrow> string \<times> cval" where
  "leaf k = (k, CDict [])"

definition KNOWN_CONFIG_KEYS :: cval where
  "KNOWN_CONFIG_KEYS = CDict
     [leaf ''database_url'', leaf ''readonly_standby'', leaf ''redis_url'', leaf ''piddir'',
      leaf ''user'', leaf ''group'', leaf ''download_timeout'',
      (''server'', CDict
        [(''http'', CDict (map leaf
           [''interface'', ''port'', ''status_access_list'', ''event_stream_access_list'',
            ''workers'', ''forwarded_allowed_ips'', ''url''])),
         (''whois'', CDict (map leaf [''interface'', ''port'', ''access_list'', ''max_connections'']))]),
      (''route_object_preference'', CDict [leaf ''update_timer'']),
      (''email'', CDict (map leaf
        [''from'', ''footer'', ''smtp'', ''recipient_override'', ''notification_header''])),
      (''auth'', CDict
        [leaf ''override_password'', leaf ''authenticate_parents_route_creation'',
         leaf ''gnupg_keyring'', leaf ''irrd_internal_migration_enabled'',
         leaf ''webui_auth_failure_rate_limit'',
         (''set_creation'', CDict (map (\<lambda>c. (c, CDict
            [leaf ''prefix_required'', leaf ''autnum_authentication''])) SET_CREATION_CLASSES)),
         (''password_hashers'', CDict (map leaf [''crypt-pw'', ''md5-pw'', ''bcrypt-pw'']))]),
      (''rpki'', CDict (map leaf
        [''roa_source'', ''roa_import_timer'', ''slurm_source'', ''pseudo_irr_remarks'',
         ''notify_invalid_enabled'', ''notify_invalid_subject'', ''notify_invalid_header''])),
      (''scopefilter'', CDict (map leaf [''prefixes'', ''asns''])),
      (''log'', CDict (map leaf [''logfile_path'', ''level'', ''logging_config_path''])),
      leaf ''sources_default'',
      (''compatibility'', CDict (map leaf
        [''inetnum_search_disabled'', ''ipv4_only_route_set_members'', ''asdot_queries'']))]"

definition KNOWN_FLEXIBLE_KEYS :: "string list" where
  "KNOWN_FLEXIBLE_KEYS = [''access_lists'', ''source_aliases'']"

definition KNOWN_SOURCES_KEYS :: "string list" where
  "KNOWN_SOURCES_KEYS =
     [''authoritative'', ''authoritative_non_strict_mode_dangerous'', ''keep_journal'',
      ''nrtm_host'', ''nrtm_port'', ''import_source'', ''import_serial_source'', ''import_timer'',
      ''object_class_filter'', ''export_destination'', ''export_destination_unfiltered'',
      ''export_timer'', ''nrtm_access_list'', ''nrtm_access_list_unfiltered'',
      ''nrtm_query_serial_days_limit'', ''nrtm_query_serial_range_limit'', ''nrtm_response_header'',
      ''nrtm_dummified_attributes'', ''nrtm_dummified_object_classes'', ''nrtm_dummified_remarks'',
      ''nrtm4_client_notification_file_url'', ''nrtm4_client_initial_public_key'',
      ''nrtm4_server_private_key'', ''nrtm4_server_private_key_next'', ''nrtm4_server_local_path'',
      ''nrtm4_server_snapshot_frequency'', ''strict_import_keycert_objects'', ''rpki_excluded'',
      ''scopefilter_excluded'', ''suspension_enabled'', ''route_object_preference'',
      ''authoritative_retain_last_modified'', ''nrtm3_client_timeout'']"

section \<open>Reading a setting\<close>

record conf =
  environ :: "(string, string) dict"
  testing_overrides :: cval
  user_config_live :: cval
  default_config :: cval

definition check_known :: "string \<Rightarrow> unit res" where
  "check_known setting_name =
     (if py_startswith setting_name ''sources''
      then (let components = py_split CHR ''.'' setting_name
            in if length components = 3 \<and> components ! 2 \<notin> set KNOWN_SOURCES_KEYS
               then Inl (ValueError (''Unknown setting '' @ setting_name)) else Inr ())
      else if \<not> list_ex (\<lambda>k. py_startswith setting_name k) KNOWN_FLEXIBLE_KEYS
      then (case dotted_get (split_key setting_name) KNOWN_CONFIG_KEYS of
              Inl (KeyError k) \<Rightarrow> Inl (ValueError (''Unknown setting '' @ setting_name))
            | Inl e \<Rightarrow> Inl e
            | Inr v \<Rightarrow> Inr ())
      else Inr ())"

text \<open>A lookup that turns a \<open>KeyError\<close> into \<open>None\<close> and lets every other exception through.\<close>

definition try_key :: "string list \<Rightarrow> cval \<Rightarrow> cval option res" where
  "try_key ks v =
     (case dotted_get ks v of Inl (KeyError k) \<Rightarrow> Inr None | Inl e \<Rightarrow> Inl e | Inr x \<Rightarrow> Inr (Some x))"

definition env_key :: "string \<Rightarrow> string" where
  "env_key setting_name = ''IRRD_'' @ py_replace ''.'' ''_'' (py_upper setting_name)"

definition lookup_setting :: "conf \<Rightarrow> string \<Rightarrow> cval option res" where
  "lookup_setting c setting_name =
     rbind (check_known setting_name) (\<lambda>_.
       (case dict_get (environ c) (env_key setting_name) of
          Some s \<Rightarrow> Inr (Some (CStr s))
        | None \<Rightarrow>
            rbind (if truthy (testing_overrides c)
                   then try_key (split_key setting_name) (testing_overrides c) else Inr None) (\<lambda>o1.
              (case o1 of
                 Some v \<Rightarrow> Inr (Some v)
               | None \<Rightarrow>
                   rbind (try_key (split_key setting_name) (user_config_live c)) (\<lambda>o2.
                     (case o2 of
                        Some v \<Rightarrow> Inr (Some v)
                      | None \<Rightarrow> try_key (split_key setting_name) (default_config c)))))))"

definition get_setting_live :: "conf \<Rightarrow> string \<Rightarrow> cval \<Rightarrow> cval res" where
  "get_setting_live c setting_name dflt =
     rbind (lookup_setting c setting_name)
       (\<lambda>r. Inr (case r of None \<Rightarrow> dflt | Some v \<Rightarrow> v))"

type_synonym settings = "string \<Rightarrow> cval option"

definition settings_of :: "conf \<Rightarrow> settings" where
  "settings_of c n = (case lookup_setting c n of Inr r \<Rightarrow> r | Inl e \<Rightarrow> None)"

definition get_setting_or :: "settings \<Rightarrow> string \<Rightarrow> cval \<Rightarrow> cval" where
  "get_setting_or gs n dflt = (case gs n of None \<Rightarrow> dflt | Some v \<Rightarrow> v)"

definition get_setting :: "settings \<Rightarrow> string \<Rightarrow> cval" where
  "get_setting gs n = get_setting_or gs n CNull"

definition source_key :: "string \<Rightarrow> string \<Rightarrow> string" where
  "source_key source key = ''sources.'' @ source @ ''.'' @ key"

definition source_setting :: "settings \<Rightarrow> string \<Rightarrow> string \<Rightarrow> cval" where
  "source_setting gs source key = get_setting gs (source_key source key)"

text \<open>\<open>[c.strip().lower() for c in v]\<close>; an item that is no string has no \<open>strip\<close>.\<close>

fun strip_lower_items :: "cval list \<Rightarrow> string list res" where
  "strip_lower_items [] = Inr []"
| "strip_lower_items (CStr s # vs) =
     rbind (strip_lower_items vs) (\<lambda>r. Inr (py_lower (py_strip s) # r))"
| "strip_lower_items (v # vs) = Inl (AttributeError ''strip'')"

definition stripped_lower :: "cval \<Rightarrow> string list res" where
  "stripped_lower v = strip_lower_items (case v of CStr s \<Rightarrow> [v] | _ \<Rightarrow> cval_list v)"

definition get_object_class_filter_for_source :: "settings \<Rightarrow> string \<Rightarrow> string list option res" where
  "get_object_class_filter_for_source gs source =
     (let object_class_filter = source_setting gs source ''object_class_filter''
      in if truthy object_class_filter
         then rbind (stripped_lower object_class_filter) (\<lambda>r. Inr (Some r))
         else Inr None)"

section \<open>Constants\<close>

definition PASSWORD_HASH_DUMMY_VALUE :: string where
  "PASSWORD_HASH_DUMMY_VALUE = ''DummyValue''"

definition RPKI_IRR_PSEUDO_SOURCE :: string where
  "RPKI_IRR_PSEUDO_SOURCE = ''RPKI''"

definition AUTH_SET_CREATION_COMMON_KEY :: string where
  "AUTH_SET_CREATION_COMMON_KEY = ''COMMON''"

definition RPSL_MNTNER_AUTH_INTERNAL :: string where
  "RPSL_MNTNER_AUTH_INTERNAL = ''IRRD-INTERNAL-AUTH''"

section \<open>Lemmas\<close>

lemma try_key_not_KeyError: "try_key ks v \<noteq> Inl (KeyError k)"
  by (auto simp: try_key_def split: sum.splits exn.splits)

lemma py_split_source_key:
  assumes "CHR ''.'' \<notin> set source" and "CHR ''.'' \<notin> set key"
  shows "py_split CHR ''.'' (source_key source key) = [''sources'', source, key]"
proof -
  have "py_split CHR ''.'' (''sources'' @ CHR ''.'' # source @ CHR ''.'' # key)
      = ''sources'' # source # py_split CHR ''.'' key"
    by (subst py_split_append; simp add: py_split_append assms)
  then show ?thesis
    by (simp add: source_key_def py_split_no_sep assms)
qed

lemma check_known_source_key:
  assumes "CHR ''.'' \<notin> set source" and "CHR ''.'' \<notin> set key"
  shows "check_known (source_key source key) =
    (if key \<in> set KNOWN_SOURCES_KEYS then Inr ()
     else Inl (ValueError (''Unknown setting '' @ source_key source key)))"
proof -
  have "py_startswith (source_key source key) ''sources''"
    by (simp add: source_key_def)
  then show ?thesis
    using py_split_source_key [OF assms] by (simp add: check_known_def Let_def)
qed

text \<open>
  Conf: the layers of a setting. A known setting is taken from the environment when the
  variable is set, whatever the files say.
\<close>

lemma lookup_setting_env:
  "check_known n = Inr () \<Longrightarrow> dict_get (environ c) (env_key n) = Some s \<Longrightarrow>
   lookup_setting c n = Inr (Some (CStr s))"
  by (simp add: lookup_setting_def)

end
