(* ===== verification/Text_Utils.thy ===== *)
theory Text_Utils
  imports Conf
begin

text \<open>
  \<^verbatim>\<open>irrd/utils/text.py\<close>: removal of password hashes and of last-modified lines, splitting of
  RPSL text into lines and paragraphs, camel case, cleaning of IP error messages, and the
  replacement of attributes by dummy values for NRTM clients.
\<close>

named_theorems text_simps \<open>rewrite rules for text utilities\<close>

section \<open>Password hashes\<close>

definition PASSWORD_HASHERS_ALL :: "string list" where
  "PASSWORD_HASHERS_ALL = [''CRYPT-PW'', ''MD5-PW'', ''BCRYPT-PW'']"

definition HASH_MASK :: string where
  "HASH_MASK = '' '' @ PASSWORD_HASH_DUMMY_VALUE @ ''  # Filtered for security''"

text \<open>
  The group of \<open>re_remove_passwords\<close> at the start of a string, ignoring case. The three names
  start with different letters, so at most one alternative applies.
\<close>

definition match_hasher :: "string \<Rightarrow> string option" where
  "match_hasher s = find (\<lambda>h. py_startswith (py_upper s) h) PASSWORD_HASHERS_ALL"

text \<open>\<open>re_remove_passwords.sub\<close>: a match takes the name and at least one more character of its line.\<close>

lemma length_dropWhile_takeWhile:
  "takeWhile p xs \<noteq> [] \<Longrightarrow> length (dropWhile p xs) < length xs"
  by (metis length_append length_greater_0_conv less_add_same_cancel2 takeWhile_dropWhile_id)

function sub_passwords :: "string \<Rightarrow> string" where
  "sub_passwords [] = []"
| "sub_passwords (c # s) =
     (case match_hasher (c # s) of
        None \<Rightarrow> c # sub_passwords s
      | Some h \<Rightarrow>
          (let rest = drop (length h) (c # s)
           in if takeWhile (\<lambda>d. d \<noteq> NL) rest \<noteq> []
              then take (length h) (c # s) @ HASH_MASK
                   @ sub_passwords (dropWhile (\<lambda>d. d \<noteq> NL) rest)
              else c # sub_passwords s))"
  by pat_completeness auto
termination
proof (relation "measure length", goal_cases)
  case (3 c s h rest)
  then have "length (dropWhile (\<lambda>d. d \<noteq> NL) rest) < length rest"
    by (intro length_dropWhile_takeWhile)
  also have "\<dots> \<le> length (c # s)" using 3 by simp
  finally show ?case by simp
qed auto

definition remove_auth_hashes :: "string \<Rightarrow> string" where
  "remove_auth_hashes input =
     (if input = [] then input
      else if \<not> list_ex (\<lambda>pw_hash. py_contains (py_lower pw_hash) (py_lower input)) PASSWORD_HASHERS_ALL
      then input
      else sub_passwords input)"

section \<open>Last-modified lines\<close>

text \<open>
  \<open>re_remove_last_modified.sub\<close>; the flag says whether the position is the start of a line.
\<close>

function sub_last_modified :: "bool \<Rightarrow> string \<Rightarrow> string" where
  "sub_last_modified bol [] = []"
| "sub_last_modified bol (c # s) =
     (let rest = drop 15 (c # s)
      in if bol \<and> py_startswith (c # s) ''last-modified: ''
            \<and> takeWhile (\<lambda>d. d \<noteq> NL) rest \<noteq> [] \<and> dropWhile (\<lambda>d. d \<noteq> NL) rest \<noteq> []
         then sub_last_modified True (tl (dropWhile (\<lambda>d. d \<noteq> NL) rest))
         else c # sub_last_modified (c = NL) s)"
  by pat_completeness auto
termination
proof (relation "measure (\<lambda>(bol, s). length s)", goal_cases)
  case (2 bol c s rest)
  have "length (tl (dropWhile (\<lambda>d. d \<noteq> NL) rest)) \<le> length rest - 1"
    by (simp add: length_dropWhile_le diff_le_mono)
  also have "\<dots> < length (c # s)" using 2(1) by simp
  finally show ?case by simp
qed auto

definition remove_last_modified :: "string \<Rightarrow> string" where
  "remove_last_modified rpsl_text = sub_last_modified True rpsl_text"

section \<open>Lines and paragraphs\<close>

definition splitline_unicodesafe :: "string \<Rightarrow> string list" where
  "splitline_unicodesafe input =
     (if input = [] then []
      else map (py_strip_chars [CR]) (py_split NL (py_strip_chars [NL] input)))"

text \<open>
  The loop of \<open>split_paragraphs_rpsl\<close> over the lines of its input; the accumulator is
  \<open>current_paragraph\<close>. The comment test is the source's
  \<^verbatim>\<open>strip_comments and line.startswith("%") or line.startswith("#")\<close>, where \<open>and\<close> binds
  stronger than \<open>or\<close>.
\<close>

fun paragraphs_from :: "bool \<Rightarrow> string \<Rightarrow> string list \<Rightarrow> string list" where
  "paragraphs_from strip_comments cur [] = (if py_strip cur \<noteq> [] then [cur] else [])"
| "paragraphs_from strip_comments cur (l # ls) =
     (let line = py_strip_chars [CR, NL] l
      in if (strip_comments \<and> py_startswith line ''%'') \<or> py_startswith line ''#''
         then paragraphs_from strip_comments cur ls
         else if line \<noteq> [] then paragraphs_from strip_comments (cur @ line @ [NL]) ls
         else if cur \<noteq> [] then cur # paragraphs_from strip_comments [] ls
         else paragraphs_from strip_comments [] ls)"

definition split_paragraphs_lines :: "bool \<Rightarrow> string list \<Rightarrow> string list" where
  "split_paragraphs_lines strip_comments ls = paragraphs_from strip_comments [] ls"

definition split_paragraphs_rpsl :: "bool \<Rightarrow> string \<Rightarrow> string list" where
  "split_paragraphs_rpsl strip_comments input =
     split_paragraphs_lines strip_comments (splitline_unicodesafe input)"

section \<open>Names and messages\<close>

definition str_to_camel_case :: "string \<Rightarrow> string" where
  "str_to_camel_case snake_str =
     (let components = py_split CHR ''-'' (py_replace ''_'' ''-'' snake_str)
      in hd components @ concat (map py_title (tl components)))"

definition snake_to_camel_case :: "string list \<Rightarrow> string list" where
  "snake_to_camel_case snake = map str_to_camel_case snake"

definition ip_error_char :: "char \<Rightarrow> bool" where
  "ip_error_char c \<longleftrightarrow> isdigit c \<or> upper_char c \<in> set ''ABCDEF'' \<or> c \<in> set '':./''"

text \<open>
  A match of \<^verbatim>\<open>IP\('[A-F0-9:./]+'\) has \<close> at the start of a string, as the text after it. The
  quote is not in the class, so the run of the class has one possible end.
\<close>

definition match_ip_error :: "string \<Rightarrow> string option" where
  "match_ip_error s =
     (if py_startswith (py_upper s) ''IP('' \<and> py_startswith (drop 3 s) [CHR 0x27]
      then (let body = takeWhile ip_error_char (drop 4 s);
                rest = dropWhile ip_error_char (drop 4 s)
            in if body \<noteq> [] \<and> py_startswith (py_lower rest) (CHR 0x27 # '') has '')
               then Some (drop 7 rest) else None)
      else None)"

lemma match_ip_error_shorter: "match_ip_error s = Some r \<Longrightarrow> length r < length s"
proof -
  assume m: "match_ip_error s = Some r"
  define rest where "rest = dropWhile ip_error_char (drop 4 s)"
  from m have r: "r = drop 7 rest" and sw: "py_startswith (py_upper s) ''IP(''"
    by (auto simp: match_ip_error_def Let_def rest_def split: if_splits)
  from sw have "s \<noteq> []" by (auto simp: py_upper_def)
  moreover have "length rest \<le> length s - 4"
    unfolding rest_def using length_dropWhile_le [of ip_error_char "drop 4 s"] by simp
  ultimately show ?thesis using r by (cases s) auto
qed

function clean_ip_value_error :: "string \<Rightarrow> string" where
  "clean_ip_value_error [] = []"
| "clean_ip_value_error (c # s) =
     (case match_ip_error (c # s) of
        Some r \<Rightarrow> clean_ip_value_error r
      | None \<Rightarrow> c # clean_ip_value_error s)"
  by pat_completeness auto
termination
  by (relation "measure length") (auto dest: match_ip_error_shorter)

section \<open>Dummy values for NRTM clients\<close>

definition RPSL_ATTRIBUTE_TEXT_WIDTH :: nat where
  "RPSL_ATTRIBUTE_TEXT_WIDTH = 16"

definition get_nrtm_dummified_object_classes_for_source :: "settings \<Rightarrow> string \<Rightarrow> string list res" where
  "get_nrtm_dummified_object_classes_for_source gs source =
     (let dummy_object_class = source_setting gs source ''nrtm_dummified_object_classes''
      in if truthy dummy_object_class then stripped_lower dummy_object_class else Inr [])"

text \<open>The inner loop over the configured attributes, for one line: the last match wins.\<close>

fun dummify_line :: "string \<Rightarrow> string \<Rightarrow> (string \<times> cval) list \<Rightarrow> string \<Rightarrow> string" where
  "dummify_line pk line [] out = out"
| "dummify_line pk line ((key, v) # attrs) out =
     (let txt = (if py_contains ''%s'' (cval_str v) then py_replace ''%s'' pk (cval_str v)
                 else cval_str v)
      in dummify_line pk line attrs
           (if py_startswith line (key @ '':'')
            then py_ljust RPSL_ATTRIBUTE_TEXT_WIDTH (key @ '':'') @ txt else out))"

definition dummify_lines :: "string \<Rightarrow> (string \<times> cval) list \<Rightarrow> string list \<Rightarrow> string list" where
  "dummify_lines pk attrs ls = map (\<lambda>l. dummify_line pk l attrs l) ls"

definition dummify_object_text :: "settings \<Rightarrow> string \<Rightarrow> string \<Rightarrow> string \<Rightarrow> string \<Rightarrow> string res" where
  "dummify_object_text gs rpsl_text object_class source pk =
     (if rpsl_text = [] then Inr rpsl_text
      else rbind (get_nrtm_dummified_object_classes_for_source gs source) (\<lambda>classes.
        if object_class \<notin> set classes then Inr rpsl_text
        else (let dummified_attributes = source_setting gs source ''nrtm_dummified_attributes''
              in if \<not> truthy dummified_attributes then Inr rpsl_text
                 else (let remarks = source_setting gs source ''nrtm_dummified_remarks'';
                           dummy_remarks =
                             (if truthy remarks
                              then Some (py_strip (textwrap_indent (cval_str remarks)
                                     (py_ljust RPSL_ATTRIBUTE_TEXT_WIDTH ''remarks:'')) @ [NL])
                              else None);
                           ls = dummify_lines pk (cval_items dummified_attributes) (py_splitlines rpsl_text);
                           dummified = py_join [NL] ls @ [NL]
                       in Inr (if rpsl_text \<noteq> dummified
                               then (case dummy_remarks of None \<Rightarrow> dummified | Some r \<Rightarrow> dummified @ r)
                               else dummified)))))"

end
