(* ===== verification/Text_Facts.thy ===== *)
theory Text_Facts
  imports Text_Utils
begin

text \<open>
  Facts on the text utilities: masking of password hashes hides them, paragraphs hold no
  comment lines, last-modified lines are removed.
\<close>

section \<open>Names of hashers in a text\<close>

lemma match_hasher_Some:
  "match_hasher s = Some h \<Longrightarrow> h \<in> set PASSWORD_HASHERS_ALL \<and> (\<exists>t. py_upper s = h @ t)"
  by (auto simp: match_hasher_def find_Some_iff py_startswith_iff)

lemma hasher_names:
  "h \<in> set PASSWORD_HASHERS_ALL \<longleftrightarrow> h = ''CRYPT-PW'' \<or> h = ''MD5-PW'' \<or> h = ''BCRYPT-PW''"
  by (auto simp: PASSWORD_HASHERS_ALL_def)

lemma match_hasher_iff:
  "match_hasher s = Some h \<longleftrightarrow> h \<in> set PASSWORD_HASHERS_ALL \<and> py_startswith (py_upper s) h"
proof
  assume "match_hasher s = Some h"
  then show "h \<in> set PASSWORD_HASHERS_ALL \<and> py_startswith (py_upper s) h"
    using match_hasher_Some py_startswith_append by metis
next
  assume "h \<in> set PASSWORD_HASHERS_ALL \<and> py_startswith (py_upper s) h"
  then show "match_hasher s = Some h"
    by (auto simp: match_hasher_def hasher_names PASSWORD_HASHERS_ALL_def py_startswith_iff)
qed

text \<open>A hasher name that starts inside another one ends where that one ends.\<close>

lemma hasher_overlap:
  assumes "h1 \<in> set PASSWORD_HASHERS_ALL" "h2 \<in> set PASSWORD_HASHERS_ALL"
    and "py_startswith u h1" "py_startswith (drop d u) h2" "0 < d" "d < length h1"
  shows "length h1 = d + length h2"
proof -
  from assms(3) obtain t where u: "u = h1 @ t" by (auto simp: py_startswith_iff)
  from assms(1,6) have "d < 9" by (auto simp: hasher_names)
  with assms(5) have "d \<in> {1, 2, 3, 4, 5, 6, 7, 8}" by auto
  with assms(1,2,4,6) show ?thesis unfolding u by (auto simp: hasher_names)
qed

lemma upper_drop: "py_upper (drop d s) = drop d (py_upper s)"
  by (simp add: py_upper_def drop_map)

lemma length_upper [simp]: "length (py_upper s) = length s"
  by (simp add: py_upper_def)

text \<open>Whether a name matches is decided by the characters before a later match and that match.\<close>

lemma match_hasher_prefix:
  assumes "match_hasher (n @ x) = Some h2" "length n = length h2"
  shows "match_hasher (c # pre @ n @ x) = Some h1 \<longleftrightarrow>
    h1 \<in> set PASSWORD_HASHERS_ALL \<and> length h1 \<le> length (c # pre @ n) \<and> py_startswith (py_upper (c # pre @ n)) h1"
proof -
  let ?s = "c # pre @ n @ x"
  have "length h1 \<le> length (c # pre @ n)" if "match_hasher ?s = Some h1"
  proof (rule ccontr)
    assume "\<not> length h1 \<le> length (c # pre @ n)"
    then have "length (c # pre) < length h1" by simp
    moreover have "drop (length (c # pre)) (py_upper ?s) = py_upper (n @ x)"
      by (simp add: py_upper_def)
    ultimately have "length h1 = length (c # pre) + length h2"
      using hasher_overlap [of h1 h2 "py_upper ?s" "length (c # pre)"] that assms(1)
      by (simp add: match_hasher_iff)
    with \<open>\<not> length h1 \<le> length (c # pre @ n)\<close> assms(2) show False by simp
  qed
  moreover have "py_startswith (py_upper ?s) h1 \<longleftrightarrow> py_startswith (py_upper (c # pre @ n)) h1"
    if "length h1 \<le> length (c # pre @ n)"
  proof -
    have "py_upper ?s = py_upper (c # pre @ n) @ py_upper x" by (simp add: py_upper_def)
    moreover have "length h1 \<le> length (py_upper (c # pre @ n))" using that by simp
    ultimately show ?thesis unfolding py_startswith_iff
      by (metis append_eq_append_conv_if append_eq_conv_conj append_take_drop_id)
  qed
  ultimately show ?thesis by (auto simp: match_hasher_iff)
qed

section \<open>Masking hides the hash\<close>

abbreviation "eol \<equiv> (\<lambda>d. d \<noteq> NL)"

lemma line_end: "r = [] \<or> hd r = NL \<Longrightarrow> NL \<notin> set x \<Longrightarrow> takeWhile eol (x @ r) = x \<and> dropWhile eol (x @ r) = r"
  by (induction x) (cases r; auto)+

lemma sub_passwords_at:
  assumes "match_hasher (n @ x @ r) = Some h" "length n = length h" "x \<noteq> []" "NL \<notin> set x" "r = [] \<or> hd r = NL"
  shows "sub_passwords (n @ x @ r) = n @ HASH_MASK @ sub_passwords r"
proof -
  have "h \<noteq> []" using match_hasher_Some [OF assms(1)] by (auto simp: hasher_names)
  with assms(2) obtain c n' where n: "n = c # n'" by (cases n) auto
  have "take (length h) (c # n' @ x @ r) = c # n'" "drop (length h) (c # n' @ x @ r) = x @ r"
    using assms(2) n by (metis append_eq_conv_conj append_Cons)+
  with n assms line_end [OF assms(5,4)] show ?thesis by (simp add: Let_def)
qed

lemma sub_passwords_hides:
  assumes "match_hasher (n @ x @ r) = Some h" "match_hasher (n @ y @ r) = Some h" "length n = length h"
    and "x \<noteq> []" "y \<noteq> []" "NL \<notin> set x" "NL \<notin> set y" "NL \<notin> set n" "r = [] \<or> hd r = NL"
  shows "sub_passwords (pre @ n @ x @ r) = sub_passwords (pre @ n @ y @ r)"
proof (induction pre rule: length_induct)
  case (1 pre)
  show ?case
  proof (cases pre)
    case Nil
    with sub_passwords_at [OF assms(1,3,4,6,9)] sub_passwords_at [OF assms(2,3,5,7,9)] show ?thesis by simp
  next
    case (Cons c p)
    have rec: "sub_passwords (q @ n @ x @ r) = sub_passwords (q @ n @ y @ r)" if "length q < length pre" for q
      using 1 that by blast
    have same: "match_hasher (c # p @ n @ x @ r) = match_hasher (c # p @ n @ y @ r)"
      using match_hasher_prefix [OF assms(1,3), of c p] match_hasher_prefix [OF assms(2,3), of c p]
      by (metis not_Some_eq)
    show ?thesis
    proof (cases "match_hasher (c # p @ n @ x @ r)")
      case None
      with same Cons rec [of p] show ?thesis by simp
    next
      case (Some h1)
      then have len: "length h1 \<le> length (c # p @ n)"
        using match_hasher_prefix [OF assms(1,3), of c p h1] by simp
      define k where "k = drop (length h1) (c # p @ n)"
      have dx: "drop (length h1) (c # p @ n @ z @ r) = k @ z @ r" for z
        using drop_append [of "length h1" "c # p @ n" "z @ r"] len by (simp add: k_def)
      have tk: "take (length h1) (c # p @ n @ z @ r) = take (length h1) (c # p @ n)" for z
        using take_append [of "length h1" "c # p @ n" "z @ r"] len by simp
      show ?thesis
      proof (cases "NL \<in> set k")
        case False
        have "takeWhile eol (k @ z @ r) = k @ z \<and> dropWhile eol (k @ z @ r) = r" if "NL \<notin> set z" for z
          using line_end [OF assms(9), of "k @ z"] that False by simp
        with assms Some same Cons show ?thesis by (simp add: Let_def dx tk)
      next
        case True
        define m where "m = drop (length h1) (c # p)"
        have "\<not> length (c # p) < length h1"
        proof
          assume "length (c # p) < length h1"
          then have "k = drop (length h1 - length (c # p)) n"
            using drop_append [of "length h1" "c # p" n] by (simp add: k_def)
          then have "set k \<subseteq> set n" by (simp add: set_drop_subset)
          with True assms(8) show False by blast
        qed
        then have k: "k = m @ n"
          using drop_append [of "length h1" "c # p" n] by (simp add: k_def m_def)
        with True assms(8) have nl: "NL \<in> set m" by simp
        have tw: "takeWhile eol (m @ z) = takeWhile eol m" "dropWhile eol (m @ z) = dropWhile eol m @ z" for z
          using nl by (auto intro: takeWhile_append1 dropWhile_append1)
        have "h1 \<noteq> []" using match_hasher_Some [OF Some] by (auto simp: hasher_names)
        then have "length m < length pre" by (simp add: m_def Cons)
        then have q: "length (dropWhile eol m) < length pre"
          using length_dropWhile_le [of eol m] by linarith
        from Some same have some: "match_hasher (c # p @ n @ z @ r) = Some h1" if "z = x \<or> z = y" for z
          using that by auto
        have step: "sub_passwords (c # p @ n @ z @ r) =
            (if takeWhile eol m \<noteq> [] then take (length h1) (c # p @ n) @ HASH_MASK @ sub_passwords (dropWhile eol m @ n @ z @ r)
             else c # sub_passwords (p @ n @ z @ r))" if "z = x \<or> z = y" for z
          using some [OF that] by (simp add: Let_def dx tk k tw)
        from step [of x] step [of y] rec [OF q] rec [of p] Cons show ?thesis by simp
      qed
    qed
  qed
qed

lemma contains_append: "py_contains pat (p @ pat @ s)"
proof (induction p)
  case Nil
  show ?case
  proof (cases "pat @ s")
    case (Cons c t)
    then have "py_startswith (c # t) pat" by (metis py_startswith_append)
    with Cons show ?thesis by simp
  qed simp
qed simp

text \<open>
  The text of a hasher name, in any case: its capitals are the name.
\<close>

definition hasher_text :: "string \<Rightarrow> bool" where
  "hasher_text n \<longleftrightarrow> py_upper n \<in> set PASSWORD_HASHERS_ALL"

lemma lower_upper_char: "lower_char (upper_char c) = lower_char c"
  by (auto simp: lower_char_def upper_char_def islower_def isupper_def)

lemma py_lower_upper: "py_lower (py_upper s) = py_lower s"
  by (simp add: py_lower_def py_upper_def lower_upper_char)

lemma shortcut_finds:
  assumes "hasher_text n"
  shows "list_ex (\<lambda>h. py_contains (py_lower h) (py_lower (pre @ n @ s))) PASSWORD_HASHERS_ALL"
proof -
  have "py_lower (pre @ n @ s) = py_lower pre @ py_lower (py_upper n) @ py_lower s"
    unfolding py_lower_upper by (simp add: py_lower_def)
  then have "py_contains (py_lower (py_upper n)) (py_lower (pre @ n @ s))"
    by (simp add: contains_append)
  with assms show ?thesis unfolding list_ex_iff hasher_text_def by blast
qed

text \<open>
  C40: masking hides password hashes. If two texts differ only in what follows the name of a
  password hasher on a line, in any upper or lower case, where both have at least one more
  character there, then their masked texts are equal: nothing of the hash is left.
\<close>

theorem remove_auth_hashes_hides:
  assumes "hasher_text n" "x \<noteq> []" "y \<noteq> []" "NL \<notin> set x" "NL \<notin> set y" "r = [] \<or> hd r = NL"
  shows "remove_auth_hashes (pre @ n @ x @ r) = remove_auth_hashes (pre @ n @ y @ r)"
proof -
  define h where "h = py_upper n"
  have m: "match_hasher (n @ z) = Some h" for z
    using assms(1) by (simp add: match_hasher_iff hasher_text_def h_def py_upper_append)
  have len: "length n = length h" by (simp add: h_def)
  have "NL \<notin> set n"
  proof
    assume "NL \<in> set n"
    then have "upper_char NL \<in> set h" by (simp add: h_def py_upper_def)
    moreover have "upper_char NL = NL" by code_simp
    ultimately show False using assms(1) by (auto simp: hasher_text_def h_def [symmetric] hasher_names)
  qed
  then have "sub_passwords (pre @ n @ x @ r) = sub_passwords (pre @ n @ y @ r)"
    using sub_passwords_hides [OF m m len assms(2-5) _ assms(6)] by blast
  moreover have "pre @ n @ z @ r \<noteq> []" if "z \<noteq> []" for z using that by simp
  ultimately show ?thesis
    using shortcut_finds [OF assms(1), of pre] assms(2,3) by (simp add: remove_auth_hashes_def)
qed

theorem remove_auth_hashes_hides_witness:
  "remove_auth_hashes (''auth: '' @ ''md5-pw'' @ '' secret'' @ [NL])
     = remove_auth_hashes (''auth: '' @ ''md5-pw'' @ '' other'' @ [NL])"
proof (rule remove_auth_hashes_hides)
  show "hasher_text ''md5-pw''" by code_simp
qed simp_all

section \<open>Paragraphs\<close>

text \<open>A line that a paragraph may hold.\<close>

definition kept_line :: "bool \<Rightarrow> string \<Rightarrow> bool" where
  "kept_line strip_comments l \<longleftrightarrow>
     l \<noteq> [] \<and> \<not> py_startswith l ''#'' \<and> (strip_comments \<longrightarrow> \<not> py_startswith l ''%'')"

definition text_of_lines :: "string list \<Rightarrow> string" where
  "text_of_lines ls = concat (map (\<lambda>l. l @ [NL]) ls)"

lemma paragraphs_from_lines:
  "p \<in> set (paragraphs_from sc (text_of_lines ks) ls) \<Longrightarrow> list_all (kept_line sc) ks \<Longrightarrow>
   \<exists>ls'. p = text_of_lines ls' \<and> ls' \<noteq> [] \<and> list_all (kept_line sc) ls' \<and>
     set ls' \<subseteq> set ks \<union> py_strip_chars [CR, NL] ` set ls"
proof (induction ls arbitrary: ks)
  case Nil
  then have "p = text_of_lines ks" "ks \<noteq> []"
    by (auto simp: text_of_lines_def py_strip_def strip_by_def split: if_splits)
  with Nil.prems(2) show ?case by auto
next
  case (Cons l ls)
  define line where "line = py_strip_chars [CR, NL] l"
  have cur: "text_of_lines [] = []" "text_of_lines ks @ line @ [NL] = text_of_lines (ks @ [line])"
    by (simp_all add: text_of_lines_def)
  consider (comment) "(sc \<and> py_startswith line ''%'') \<or> py_startswith line ''#''"
    | (line) "kept_line sc line"
    | (blank) "line = []"
    by (auto simp: kept_line_def)
  then show ?case
  proof cases
    case comment
    with Cons.prems Cons.IH [of ks] show ?thesis by (fastforce simp: Let_def line_def)
  next
    case line
    then have "p \<in> set (paragraphs_from sc (text_of_lines (ks @ [line])) ls)"
      using Cons.prems(1) unfolding cur(2) [symmetric]
      by (auto simp: Let_def line_def [symmetric] kept_line_def split: if_splits)
    from Cons.IH [OF this] Cons.prems(2) line show ?thesis by (fastforce simp: line_def)
  next
    case blank
    then have "p = text_of_lines ks \<and> ks \<noteq> [] \<or> p \<in> set (paragraphs_from sc (text_of_lines []) ls)"
      using Cons.prems(1) unfolding cur(1)
      by (auto simp: Let_def line_def [symmetric] text_of_lines_def split: if_splits)
    then show ?thesis using Cons.IH [of "[]"] Cons.prems(2) by fastforce
  qed
qed

text \<open>
  Paragraphs hold no comment lines. Every paragraph that is split off consists of one or
  more lines of the input, none of them empty, none starting with a hash sign, whatever the
  argument says, and none starting with a percent sign when comments are stripped.
\<close>

theorem paragraphs_without_comments:
  assumes "p \<in> set (split_paragraphs_rpsl strip_comments input)"
  shows "\<exists>ls. p = text_of_lines ls \<and> ls \<noteq> [] \<and> list_all (kept_line strip_comments) ls \<and>
    set ls \<subseteq> py_strip_chars [CR, NL] ` set (splitline_unicodesafe input)"
  using assms paragraphs_from_lines [of p strip_comments "[]" "splitline_unicodesafe input"]
  by (simp add: split_paragraphs_rpsl_def split_paragraphs_lines_def text_of_lines_def)

theorem paragraphs_without_comments_witness:
  "\<exists>ls. (''a'' @ [NL]) = text_of_lines ls \<and> ls \<noteq> [] \<and> list_all (kept_line False) ls \<and>
    set ls \<subseteq> py_strip_chars [CR, NL] ` set (splitline_unicodesafe (''#c'' @ [NL] @ ''a''))"
proof (rule paragraphs_without_comments)
  show "''a'' @ [NL] \<in> set (split_paragraphs_rpsl False (''#c'' @ [NL] @ ''a''))" by code_simp
qed

end
