(* ===== verification/RPSL_Schema.thy ===== *)
theory RPSL_Schema
  imports Py_Prelude
begin

text \<open>
  The schema of RPSL objects: the field classes of \<^verbatim>\<open>irrd/rpsl/fields.py\<close> as a datatype with their
  constructor arguments, the field tables of the object classes of
  \<^verbatim>\<open>irrd/rpsl/rpsl_objects.py\<close>, the mapping from class names to classes, and what the
  metaclass \<open>RPSLObjectMeta\<close> and the reference methods of \<^verbatim>\<open>irrd/rpsl/parser.py\<close> derive from them.
\<close>

section \<open>Fields\<close>

datatype field_kind =
    RPSLTextField
  | RPSLIPv4PrefixField
  | RPSLIPv4PrefixesField
  | RPSLIPv6PrefixField
  | RPSLIPv6PrefixesField
  | RPSLIPv4AddressRangeField
  | RPSLRouteSetMembersField "nat option"
  | RPSLASNumberField
  | RPSLASBlockField
  | RPSLSetNameField string
  | RPSLEmailField
  | RPSLChangedField
  | RPSLDNSNameField
  | RPSLURLField
  | RPSLGenericNameField "string list" bool
  | RPSLReferenceField "string list" bool
  | RPSLReferenceListField bool "string list" bool
  | RPSLAuthField

record field =
  kind :: field_kind
  optional :: bool
  multiple :: bool
  primary_key :: bool
  lookup_key :: bool

definition fld :: "field_kind \<Rightarrow> field" where
  "fld k = \<lparr>kind = k, optional = False, multiple = False, primary_key = False, lookup_key = False\<rparr>"

fun keep_case :: "field_kind \<Rightarrow> bool" where
  "keep_case (RPSLSetNameField p) = False"
| "keep_case RPSLDNSNameField = False"
| "keep_case RPSLURLField = False"
| "keep_case (RPSLGenericNameField a n) = False"
| "keep_case (RPSLReferenceField r s) = False"
| "keep_case (RPSLReferenceListField a r s) = False"
| "keep_case k = True"

fun extracts :: "field_kind \<Rightarrow> string list" where
  "extracts RPSLIPv4PrefixField = [''ip_first'', ''ip_last'', ''prefix'', ''prefix_length'']"
| "extracts RPSLIPv4PrefixesField = [''ip_first'', ''ip_last'', ''prefix'', ''prefix_length'']"
| "extracts RPSLIPv6PrefixField = [''ip_first'', ''ip_last'', ''prefix'', ''prefix_length'']"
| "extracts RPSLIPv6PrefixesField = [''ip_first'', ''ip_last'', ''prefix'', ''prefix_length'']"
| "extracts RPSLIPv4AddressRangeField = [''ip_first'', ''ip_last'']"
| "extracts RPSLASNumberField = [''asn'']"
| "extracts RPSLASBlockField = [''asn_first'', ''asn_last'']"
| "extracts k = []"

text \<open>The attributes \<open>referring\<close> and \<open>strong\<close>, which only reference fields have.\<close>

fun referring :: "field_kind \<Rightarrow> string list option" where
  "referring (RPSLReferenceField r s) = Some r"
| "referring (RPSLReferenceListField a r s) = Some r"
| "referring k = None"

fun strong :: "field_kind \<Rightarrow> bool" where
  "strong (RPSLReferenceField r s) = s"
| "strong (RPSLReferenceListField a r s) = s"
| "strong k = False"

text \<open>The fields that inherit from \<open>RPSLFieldListMixin\<close>.\<close>

fun is_list_field :: "field_kind \<Rightarrow> bool" where
  "is_list_field RPSLIPv4PrefixesField = True"
| "is_list_field RPSLIPv6PrefixesField = True"
| "is_list_field (RPSLRouteSetMembersField v) = True"
| "is_list_field (RPSLReferenceListField a r s) = True"
| "is_list_field k = False"

section \<open>Object classes\<close>

record rpsl_class =
  is_set :: bool
  is_route :: bool
  discarded_fields :: "string list"
  class_fields :: "(string, field) dict"

definition RPSLAsBlock :: rpsl_class where
  "RPSLAsBlock = \<lparr>is_set = False, is_route = False, discarded_fields = [], class_fields =
    [(''as-block'', (fld RPSLASBlockField)\<lparr>primary_key := True, lookup_key := True\<rparr>),
     (''descr'', (fld RPSLTextField)\<lparr>optional := True, multiple := True\<rparr>),
     (''admin-c'', (fld (RPSLReferenceField [''role'', ''person''] True))\<lparr>multiple := True, lookup_key := True\<rparr>),
     (''tech-c'', (fld (RPSLReferenceField [''role'', ''person''] True))\<lparr>multiple := True, lookup_key := True\<rparr>),
     (''remarks'', (fld RPSLTextField)\<lparr>optional := True, multiple := True\<rparr>),
     (''notify'', (fld RPSLEmailField)\<lparr>optional := True, multiple := True\<rparr>),
     (''mnt-by'', (fld (RPSLReferenceListField False [''mntner''] True))\<lparr>multiple := True, lookup_key := True\<rparr>),
     (''changed'', (fld RPSLChangedField)\<lparr>optional := True, multiple := True\<rparr>),
     (''source'', fld (RPSLGenericNameField [] False))]\<rparr>"

definition RPSLAsSet :: rpsl_class where
  "RPSLAsSet = \<lparr>is_set = True, is_route = False, discarded_fields = [], class_fields =
    [(''as-set'', (fld (RPSLSetNameField ''AS''))\<lparr>primary_key := True, lookup_key := True\<rparr>),
     (''descr'', (fld RPSLTextField)\<lparr>optional := True, multiple := True\<rparr>),
     (''members'', (fld (RPSLReferenceListField False [''aut-num'', ''as-set''] False))\<lparr>optional := True, multiple := True, lookup_key := True\<rparr>),
     (''mbrs-by-ref'', (fld (RPSLReferenceListField True [''mntner''] False))\<lparr>optional := True, multiple := True, lookup_key := True\<rparr>),
     (''admin-c'', (fld (RPSLReferenceField [''role'', ''person''] True))\<lparr>optional := True, multiple := True, lookup_key := True\<rparr>),
     (''tech-c'', (fld (RPSLReferenceField [''role'', ''person''] True))\<lparr>optional := True, multiple := True, lookup_key := True\<rparr>),
     (''remarks'', (fld RPSLTextField)\<lparr>optional := True, multiple := True\<rparr>),
     (''notify'', (fld RPSLEmailField)\<lparr>optional := True, multiple := True\<rparr>),
     (''mnt-by'', (fld (RPSLReferenceListField False [''mntner''] True))\<lparr>multiple := True, lookup_key := True\<rparr>),
     (''changed'', (fld RPSLChangedField)\<lparr>optional := True, multiple := True\<rparr>),
     (''source'', fld (RPSLGenericNameField [] False))]\<rparr>"

definition RPSLAutNum :: rpsl_class where
  "RPSLAutNum = \<lparr>is_set = False, is_route = False, discarded_fields = [], class_fields =
    [(''aut-num'', (fld RPSLASNumberField)\<lparr>primary_key := True, lookup_key := True\<rparr>),
     (''as-name'', fld (RPSLGenericNameField [''AS''] False)),
     (''descr'', (fld RPSLTextField)\<lparr>optional := True, multiple := True\<rparr>),
     (''member-of'', (fld (RPSLReferenceListField False [''as-set''] False))\<lparr>optional := True, multiple := True, lookup_key := True\<rparr>),
     (''import'', (fld RPSLTextField)\<lparr>optional := True, multiple := True\<rparr>),
     (''mp-import'', (fld RPSLTextField)\<lparr>optional := True, multiple := True\<rparr>),
     (''import-via'', (fld RPSLTextField)\<lparr>optional := True, multiple := True\<rparr>),
     (''export'', (fld RPSLTextField)\<lparr>optional := True, multiple := True\<rparr>),
     (''mp-export'', (fld RPSLTextField)\<lparr>optional := True, multiple := True\<rparr>),
     (''export-via'', (fld RPSLTextField)\<lparr>optional := True, multiple := True\<rparr>),
     (''default'', (fld RPSLTextField)\<lparr>optional := True, multiple := True\<rparr>),
     (''mp-default'', (fld RPSLTextField)\<lparr>optional := True, multiple := True\<rparr>),
     (''admin-c'', (fld (RPSLReferenceField [''role'', ''person''] True))\<lparr>multiple := True, lookup_key := True\<rparr>),
     (''tech-c'', (fld (RPSLReferenceField [''role'', ''person''] True))\<lparr>multiple := True, lookup_key := True\<rparr>),
     (''remarks'', (fld RPSLTextField)\<lparr>optional := True, multiple := True\<rparr>),
     (''notify'', (fld RPSLEmailField)\<lparr>optional := True, multiple := True\<rparr>),
     (''mnt-by'', (fld (RPSLReferenceListField False [''mntner''] True))\<lparr>optional := True, multiple := True, lookup_key := True\<rparr>),
     (''changed'', (fld RPSLChangedField)\<lparr>optional := True, multiple := True\<rparr>),
     (''source'', fld (RPSLGenericNameField [] False))]\<rparr>"

definition RPSLDomain :: rpsl_class where
  "RPSLDomain = \<lparr>is_set = False, is_route = False, discarded_fields = [], class_fields =
    [(''domain'', (fld RPSLTextField)\<lparr>primary_key := True, lookup_key := True\<rparr>),
     (''descr'', (fld RPSLTextField)\<lparr>optional := True, multiple := True\<rparr>),
     (''admin-c'', (fld (RPSLReferenceField [''role'', ''person''] True))\<lparr>multiple := True, lookup_key := True\<rparr>),
     (''tech-c'', (fld (RPSLReferenceField [''role'', ''person''] True))\<lparr>multiple := True, lookup_key := True\<rparr>),
     (''zone-c'', (fld (RPSLReferenceField [''role'', ''person''] True))\<lparr>multiple := True, lookup_key := True\<rparr>),
     (''nserver'', (fld RPSLTextField)\<lparr>optional := True, multiple := True\<rparr>),
     (''sub-dom'', (fld RPSLTextField)\<lparr>optional := True, multiple := True\<rparr>),
     (''dom-net'', (fld RPSLTextField)\<lparr>optional := True, multiple := True\<rparr>),
     (''refer'', (fld RPSLTextField)\<lparr>optional := True\<rparr>),
     (''remarks'', (fld RPSLTextField)\<lparr>optional := True, multiple := True\<rparr>),
     (''notify'', (fld RPSLEmailField)\<lparr>optional := True, multiple := True\<rparr>),
     (''mnt-by'', (fld (RPSLReferenceListField False [''mntner''] True))\<lparr>optional := True, multiple := True, lookup_key := True\<rparr>),
     (''changed'', (fld RPSLChangedField)\<lparr>optional := True, multiple := True\<rparr>),
     (''source'', fld (RPSLGenericNameField [] False))]\<rparr>"

definition RPSLFilterSet :: rpsl_class where
  "RPSLFilterSet = \<lparr>is_set = True, is_route = False, discarded_fields = [], class_fields =
    [(''filter-set'', (fld (RPSLSetNameField ''FLTR''))\<lparr>primary_key := True, lookup_key := True\<rparr>),
     (''descr'', (fld RPSLTextField)\<lparr>optional := True, multiple := True\<rparr>),
     (''filter'', fld RPSLTextField),
     (''mp-filter'', (fld RPSLTextField)\<lparr>optional := True\<rparr>),
     (''admin-c'', (fld (RPSLReferenceField [''role'', ''person''] True))\<lparr>optional := True, multiple := True, lookup_key := True\<rparr>),
     (''tech-c'', (fld (RPSLReferenceField [''role'', ''person''] True))\<lparr>optional := True, multiple := True, lookup_key := True\<rparr>),
     (''remarks'', (fld RPSLTextField)\<lparr>optional := True, multiple := True\<rparr>),
     (''notify'', (fld RPSLEmailField)\<lparr>optional := True, multiple := True\<rparr>),
     (''mnt-by'', (fld (RPSLReferenceListField False [''mntner''] True))\<lparr>multiple := True, lookup_key := True\<rparr>),
     (''changed'', (fld RPSLChangedField)\<lparr>optional := True, multiple := True\<rparr>),
     (''source'', fld (RPSLGenericNameField [] False))]\<rparr>"

definition RPSLInetRtr :: rpsl_class where
  "RPSLInetRtr = \<lparr>is_set = False, is_route = False, discarded_fields = [], class_fields =
    [(''inet-rtr'', (fld RPSLDNSNameField)\<lparr>primary_key := True, lookup_key := True\<rparr>),
     (''descr'', (fld RPSLTextField)\<lparr>optional := True, multiple := True\<rparr>),
     (''alias'', (fld RPSLDNSNameField)\<lparr>optional := True, multiple := True\<rparr>),
     (''local-as'', fld RPSLASNumberField),
     (''ifaddr'', (fld RPSLTextField)\<lparr>optional := True, multiple := True\<rparr>),
     (''interface'', (fld RPSLTextField)\<lparr>optional := True, multiple := True\<rparr>),
     (''peer'', (fld RPSLTextField)\<lparr>optional := True, multiple := True\<rparr>),
     (''mp-peer'', (fld RPSLTextField)\<lparr>optional := True, multiple := True\<rparr>),
     (''member-of'', (fld (RPSLReferenceListField False [''rtr-set''] False))\<lparr>optional := True, multiple := True, lookup_key := True\<rparr>),
     (''rs-in'', (fld RPSLTextField)\<lparr>optional := True\<rparr>),
     (''rs-out'', (fld RPSLTextField)\<lparr>optional := True\<rparr>),
     (''admin-c'', (fld (RPSLReferenceField [''role'', ''person''] True))\<lparr>optional := True, multiple := True, lookup_key := True\<rparr>),
     (''tech-c'', (fld (RPSLReferenceField [''role'', ''person''] True))\<lparr>optional := True, multiple := True, lookup_key := True\<rparr>),
     (''remarks'', (fld RPSLTextField)\<lparr>optional := True, multiple := True\<rparr>),
     (''notify'', (fld RPSLEmailField)\<lparr>optional := True, multiple := True\<rparr>),
     (''mnt-by'', (fld (RPSLReferenceListField False [''mntner''] True))\<lparr>multiple := True, lookup_key := True\<rparr>),
     (''changed'', (fld RPSLChangedField)\<lparr>optional := True, multiple := True\<rparr>),
     (''source'', fld (RPSLGenericNameField [] False))]\<rparr>"

definition RPSLInet6Num :: rpsl_class where
  "RPSLInet6Num = \<lparr>is_set = False, is_route = False, discarded_fields = [], class_fields =
    [(''inet6num'', (fld RPSLIPv6PrefixField)\<lparr>primary_key := True, lookup_key := True\<rparr>),
     (''netname'', fld RPSLTextField),
     (''descr'', (fld RPSLTextField)\<lparr>optional := True, multiple := True\<rparr>),
     (''country'', (fld RPSLTextField)\<lparr>multiple := True\<rparr>),
     (''admin-c'', (fld (RPSLReferenceField [''role'', ''person''] True))\<lparr>multiple := True, lookup_key := True\<rparr>),
     (''tech-c'', (fld (RPSLReferenceField [''role'', ''person''] True))\<lparr>multiple := True, lookup_key := True\<rparr>),
     (''rev-srv'', (fld RPSLTextField)\<lparr>optional := True, multiple := True\<rparr>),
     (''status'', fld RPSLTextField),
     (''geofeed'', (fld RPSLURLField)\<lparr>optional := True\<rparr>),
     (''remarks'', (fld RPSLTextField)\<lparr>optional := True, multiple := True\<rparr>),
     (''notify'', (fld RPSLEmailField)\<lparr>optional := True, multiple := True\<rparr>),
     (''mnt-by'', (fld (RPSLReferenceListField False [''mntner''] True))\<lparr>multiple := True, lookup_key := True\<rparr>),
     (''changed'', (fld RPSLChangedField)\<lparr>optional := True, multiple := True\<rparr>),
     (''source'', fld (RPSLGenericNameField [] False))]\<rparr>"

definition RPSLInetnum :: rpsl_class where
  "RPSLInetnum = \<lparr>is_set = False, is_route = False, discarded_fields = [], class_fields =
    [(''inetnum'', (fld RPSLIPv4AddressRangeField)\<lparr>primary_key := True, lookup_key := True\<rparr>),
     (''netname'', fld RPSLTextField),
     (''descr'', (fld RPSLTextField)\<lparr>optional := True, multiple := True\<rparr>),
     (''country'', (fld RPSLTextField)\<lparr>multiple := True\<rparr>),
     (''admin-c'', (fld (RPSLReferenceField [''role'', ''person''] True))\<lparr>multiple := True, lookup_key := True\<rparr>),
     (''tech-c'', (fld (RPSLReferenceField [''role'', ''person''] True))\<lparr>multiple := True, lookup_key := True\<rparr>),
     (''rev-srv'', (fld RPSLTextField)\<lparr>optional := True, multiple := True\<rparr>),
     (''status'', fld RPSLTextField),
     (''geofeed'', (fld RPSLURLField)\<lparr>optional := True\<rparr>),
     (''remarks'', (fld RPSLTextField)\<lparr>optional := True, multiple := True\<rparr>),
     (''notify'', (fld RPSLEmailField)\<lparr>optional := True, multiple := True\<rparr>),
     (''mnt-by'', (fld (RPSLReferenceListField False [''mntner''] True))\<lparr>multiple := True, lookup_key := True\<rparr>),
     (''changed'', (fld RPSLChangedField)\<lparr>optional := True, multiple := True\<rparr>),
     (''source'', fld (RPSLGenericNameField [] False))]\<rparr>"

definition RPSLIrt :: rpsl_class where
  "RPSLIrt = \<lparr>is_set = False, is_route = False, discarded_fields = [], class_fields =
    [(''irt'', (fld (RPSLGenericNameField [] False))\<lparr>primary_key := True, lookup_key := True\<rparr>),
     (''address'', (fld RPSLTextField)\<lparr>multiple := True\<rparr>),
     (''phone'', (fld RPSLTextField)\<lparr>optional := True, multiple := True\<rparr>),
     (''fax-no'', (fld RPSLTextField)\<lparr>optional := True, multiple := True\<rparr>),
     (''e-mail'', (fld RPSLEmailField)\<lparr>multiple := True\<rparr>),
     (''abuse-mailbox'', (fld RPSLEmailField)\<lparr>multiple := True\<rparr>),
     (''admin-c'', (fld (RPSLReferenceField [''role'', ''person''] True))\<lparr>optional := True, multiple := True, lookup_key := True\<rparr>),
     (''tech-c'', (fld (RPSLReferenceField [''role'', ''person''] True))\<lparr>optional := True, multiple := True, lookup_key := True\<rparr>),
     (''remarks'', (fld RPSLTextField)\<lparr>optional := True, multiple := True\<rparr>),
     (''notify'', (fld RPSLEmailField)\<lparr>optional := True, multiple := True\<rparr>),
     (''mnt-by'', (fld (RPSLReferenceListField False [''mntner''] True))\<lparr>multiple := True, lookup_key := True\<rparr>),
     (''changed'', (fld RPSLChangedField)\<lparr>optional := True, multiple := True\<rparr>),
     (''source'', fld (RPSLGenericNameField [] False))]\<rparr>"

definition RPSLKeyCert :: rpsl_class where
  "RPSLKeyCert = \<lparr>is_set = False, is_route = False, discarded_fields = [], class_fields =
    [(''key-cert'', (fld (RPSLGenericNameField [] False))\<lparr>primary_key := True, lookup_key := True\<rparr>),
     (''method'', (fld RPSLTextField)\<lparr>optional := True\<rparr>),
     (''owner'', (fld RPSLTextField)\<lparr>optional := True, multiple := True\<rparr>),
     (''fingerpr'', (fld RPSLTextField)\<lparr>optional := True\<rparr>),
     (''certif'', (fld RPSLTextField)\<lparr>multiple := True\<rparr>),
     (''remarks'', (fld RPSLTextField)\<lparr>optional := True, multiple := True\<rparr>),
     (''admin-c'', (fld (RPSLReferenceField [''role'', ''person''] True))\<lparr>optional := True, multiple := True, lookup_key := True\<rparr>),
     (''tech-c'', (fld (RPSLReferenceField [''role'', ''person''] True))\<lparr>optional := True, multiple := True, lookup_key := True\<rparr>),
     (''notify'', (fld RPSLEmailField)\<lparr>optional := True, multiple := True\<rparr>),
     (''mnt-by'', (fld (RPSLReferenceListField False [''mntner''] True))\<lparr>multiple := True, lookup_key := True\<rparr>),
     (''changed'', (fld RPSLChangedField)\<lparr>optional := True, multiple := True\<rparr>),
     (''source'', fld (RPSLGenericNameField [] False))]\<rparr>"

definition RPSLMntner :: rpsl_class where
  "RPSLMntner = \<lparr>is_set = False, is_route = False, discarded_fields = [], class_fields =
    [(''mntner'', (fld (RPSLGenericNameField [] False))\<lparr>primary_key := True, lookup_key := True\<rparr>),
     (''descr'', (fld RPSLTextField)\<lparr>optional := True, multiple := True\<rparr>),
     (''admin-c'', (fld (RPSLReferenceField [''role'', ''person''] True))\<lparr>multiple := True, lookup_key := True\<rparr>),
     (''tech-c'', (fld (RPSLReferenceField [''role'', ''person''] True))\<lparr>optional := True, multiple := True, lookup_key := True\<rparr>),
     (''upd-to'', (fld RPSLEmailField)\<lparr>multiple := True\<rparr>),
     (''mnt-nfy'', (fld RPSLEmailField)\<lparr>optional := True, multiple := True\<rparr>),
     (''auth'', (fld RPSLAuthField)\<lparr>multiple := True\<rparr>),
     (''remarks'', (fld RPSLTextField)\<lparr>optional := True, multiple := True\<rparr>),
     (''notify'', (fld RPSLEmailField)\<lparr>optional := True, multiple := True\<rparr>),
     (''mnt-by'', (fld (RPSLReferenceListField False [''mntner''] True))\<lparr>multiple := True, lookup_key := True\<rparr>),
     (''changed'', (fld RPSLChangedField)\<lparr>optional := True, multiple := True\<rparr>),
     (''source'', fld (RPSLGenericNameField [] False))]\<rparr>"

definition RPSLOrganisation :: rpsl_class where
  "RPSLOrganisation = \<lparr>is_set = False, is_route = False, discarded_fields = [], class_fields =
    [(''organisation'', (fld (RPSLGenericNameField [] False))\<lparr>primary_key := True, lookup_key := True\<rparr>),
     (''org-name'', fld RPSLTextField),
     (''country'', (fld RPSLTextField)\<lparr>multiple := True\<rparr>),
     (''address'', (fld RPSLTextField)\<lparr>multiple := True\<rparr>),
     (''phone'', (fld RPSLTextField)\<lparr>optional := True, multiple := True\<rparr>),
     (''fax-no'', (fld RPSLTextField)\<lparr>optional := True, multiple := True\<rparr>),
     (''e-mail'', (fld RPSLEmailField)\<lparr>multiple := True\<rparr>),
     (''admin-c'', (fld (RPSLReferenceField [''role'', ''person''] True))\<lparr>optional := True, multiple := True, lookup_key := True\<rparr>),
     (''tech-c'', (fld (RPSLReferenceField [''role'', ''person''] True))\<lparr>optional := True, multiple := True, lookup_key := True\<rparr>),
     (''remarks'', (fld RPSLTextField)\<lparr>optional := True, multiple := True\<rparr>),
     (''notify'', (fld RPSLEmailField)\<lparr>optional := True, multiple := True\<rparr>),
     (''mnt-by'', (fld (RPSLReferenceListField False [''mntner''] True))\<lparr>multiple := True, lookup_key := True\<rparr>),
     (''changed'', (fld RPSLChangedField)\<lparr>optional := True, multiple := True\<rparr>),
     (''source'', fld (RPSLGenericNameField [] False))]\<rparr>"

definition RPSLPeeringSet :: rpsl_class where
  "RPSLPeeringSet = \<lparr>is_set = True, is_route = False, discarded_fields = [], class_fields =
    [(''peering-set'', (fld (RPSLSetNameField ''PRNG''))\<lparr>primary_key := True, lookup_key := True\<rparr>),
     (''descr'', (fld RPSLTextField)\<lparr>optional := True, multiple := True\<rparr>),
     (''peering'', (fld RPSLTextField)\<lparr>optional := True, multiple := True\<rparr>),
     (''mp-peering'', (fld RPSLTextField)\<lparr>optional := True, multiple := True\<rparr>),
     (''admin-c'', (fld (RPSLReferenceField [''role'', ''person''] True))\<lparr>optional := True, multiple := True, lookup_key := True\<rparr>),
     (''tech-c'', (fld (RPSLReferenceField [''role'', ''person''] True))\<lparr>optional := True, multiple := True, lookup_key := True\<rparr>),
     (''remarks'', (fld RPSLTextField)\<lparr>optional := True, multiple := True\<rparr>),
     (''notify'', (fld RPSLEmailField)\<lparr>optional := True, multiple := True\<rparr>),
     (''mnt-by'', (fld (RPSLReferenceListField False [''mntner''] True))\<lparr>multiple := True, lookup_key := True\<rparr>),
     (''changed'', (fld RPSLChangedField)\<lparr>optional := True, multiple := True\<rparr>),
     (''source'', fld (RPSLGenericNameField [] False))]\<rparr>"

definition RPSLPerson :: rpsl_class where
  "RPSLPerson = \<lparr>is_set = False, is_route = False, discarded_fields = [], class_fields =
    [(''person'', (fld RPSLTextField)\<lparr>lookup_key := True\<rparr>),
     (''address'', (fld RPSLTextField)\<lparr>multiple := True\<rparr>),
     (''phone'', (fld RPSLTextField)\<lparr>multiple := True\<rparr>),
     (''fax-no'', (fld RPSLTextField)\<lparr>optional := True, multiple := True\<rparr>),
     (''e-mail'', (fld RPSLEmailField)\<lparr>multiple := True\<rparr>),
     (''nic-hdl'', (fld (RPSLGenericNameField [] True))\<lparr>primary_key := True, lookup_key := True\<rparr>),
     (''remarks'', (fld RPSLTextField)\<lparr>optional := True, multiple := True\<rparr>),
     (''notify'', (fld RPSLEmailField)\<lparr>optional := True, multiple := True\<rparr>),
     (''mnt-by'', (fld (RPSLReferenceListField False [''mntner''] True))\<lparr>multiple := True, lookup_key := True\<rparr>),
     (''changed'', (fld RPSLChangedField)\<lparr>optional := True, multiple := True\<rparr>),
     (''source'', fld (RPSLGenericNameField [] False))]\<rparr>"

definition RPSLRole :: rpsl_class where
  "RPSLRole = \<lparr>is_set = False, is_route = False, discarded_fields = [], class_fields =
    [(''role'', (fld RPSLTextField)\<lparr>lookup_key := True\<rparr>),
     (''trouble'', (fld RPSLTextField)\<lparr>optional := True, multiple := True\<rparr>),
     (''address'', (fld RPSLTextField)\<lparr>multiple := True\<rparr>),
     (''phone'', (fld RPSLTextField)\<lparr>multiple := True\<rparr>),
     (''fax-no'', (fld RPSLTextField)\<lparr>optional := True, multiple := True\<rparr>),
     (''e-mail'', (fld RPSLEmailField)\<lparr>multiple := True\<rparr>),
     (''admin-c'', (fld (RPSLReferenceField [''role'', ''person''] True))\<lparr>optional := True, multiple := True, lookup_key := True\<rparr>),
     (''tech-c'', (fld (RPSLReferenceField [''role'', ''person''] True))\<lparr>optional := True, multiple := True, lookup_key := True\<rparr>),
     (''nic-hdl'', (fld (RPSLGenericNameField [] True))\<lparr>primary_key := True, lookup_key := True\<rparr>),
     (''remarks'', (fld RPSLTextField)\<lparr>optional := True, multiple := True\<rparr>),
     (''notify'', (fld RPSLEmailField)\<lparr>optional := True, multiple := True\<rparr>),
     (''mnt-by'', (fld (RPSLReferenceListField False [''mntner''] True))\<lparr>multiple := True, lookup_key := True\<rparr>),
     (''changed'', (fld RPSLChangedField)\<lparr>optional := True, multiple := True\<rparr>),
     (''source'', fld (RPSLGenericNameField [] False))]\<rparr>"

definition RPSLRoute :: rpsl_class where
  "RPSLRoute = \<lparr>is_set = False, is_route = True, discarded_fields = [''rpki-ov-state''], class_fields =
    [(''route'', (fld RPSLIPv4PrefixField)\<lparr>primary_key := True, lookup_key := True\<rparr>),
     (''descr'', (fld RPSLTextField)\<lparr>optional := True, multiple := True\<rparr>),
     (''origin'', (fld RPSLASNumberField)\<lparr>primary_key := True\<rparr>),
     (''holes'', (fld RPSLIPv4PrefixesField)\<lparr>optional := True, multiple := True\<rparr>),
     (''member-of'', (fld (RPSLReferenceListField False [''route-set''] False))\<lparr>optional := True, multiple := True, lookup_key := True\<rparr>),
     (''inject'', (fld RPSLTextField)\<lparr>optional := True, multiple := True\<rparr>),
     (''aggr-bndry'', (fld RPSLTextField)\<lparr>optional := True\<rparr>),
     (''aggr-mtd'', (fld RPSLTextField)\<lparr>optional := True\<rparr>),
     (''export-comps'', (fld RPSLTextField)\<lparr>optional := True\<rparr>),
     (''components'', (fld RPSLTextField)\<lparr>optional := True\<rparr>),
     (''admin-c'', (fld (RPSLReferenceField [''role'', ''person''] True))\<lparr>optional := True, multiple := True, lookup_key := True\<rparr>),
     (''tech-c'', (fld (RPSLReferenceField [''role'', ''person''] True))\<lparr>optional := True, multiple := True, lookup_key := True\<rparr>),
     (''geoidx'', (fld RPSLTextField)\<lparr>optional := True, multiple := True\<rparr>),
     (''roa-uri'', (fld RPSLTextField)\<lparr>optional := True\<rparr>),
     (''remarks'', (fld RPSLTextField)\<lparr>optional := True, multiple := True\<rparr>),
     (''notify'', (fld RPSLEmailField)\<lparr>optional := True, multiple := True\<rparr>),
     (''mnt-by'', (fld (RPSLReferenceListField False [''mntner''] True))\<lparr>multiple := True, lookup_key := True\<rparr>),
     (''changed'', (fld RPSLChangedField)\<lparr>optional := True, multiple := True\<rparr>),
     (''source'', fld (RPSLGenericNameField [] False))]\<rparr>"

definition RPSLRouteSet :: rpsl_class where
  "RPSLRouteSet = \<lparr>is_set = True, is_route = False, discarded_fields = [], class_fields =
    [(''route-set'', (fld (RPSLSetNameField ''RS''))\<lparr>primary_key := True, lookup_key := True\<rparr>),
     (''members'', (fld (RPSLRouteSetMembersField (Some 4)))\<lparr>optional := True, multiple := True, lookup_key := True\<rparr>),
     (''mp-members'', (fld (RPSLRouteSetMembersField None))\<lparr>optional := True, multiple := True, lookup_key := True\<rparr>),
     (''mbrs-by-ref'', (fld (RPSLReferenceListField True [''mntner''] False))\<lparr>optional := True, multiple := True, lookup_key := True\<rparr>),
     (''descr'', (fld RPSLTextField)\<lparr>optional := True, multiple := True\<rparr>),
     (''admin-c'', (fld (RPSLReferenceField [''role'', ''person''] True))\<lparr>optional := True, multiple := True, lookup_key := True\<rparr>),
     (''tech-c'', (fld (RPSLReferenceField [''role'', ''person''] True))\<lparr>optional := True, multiple := True, lookup_key := True\<rparr>),
     (''remarks'', (fld RPSLTextField)\<lparr>optional := True, multiple := True\<rparr>),
     (''notify'', (fld RPSLEmailField)\<lparr>optional := True, multiple := True\<rparr>),
     (''mnt-by'', (fld (RPSLReferenceListField False [''mntner''] True))\<lparr>multiple := True, lookup_key := True\<rparr>),
     (''changed'', (fld RPSLChangedField)\<lparr>optional := True, multiple := True\<rparr>),
     (''source'', fld (RPSLGenericNameField [] False))]\<rparr>"

definition RPSLRoute6 :: rpsl_class where
  "RPSLRoute6 = \<lparr>is_set = False, is_route = True, discarded_fields = [''rpki-ov-state''], class_fields =
    [(''route6'', (fld RPSLIPv6PrefixField)\<lparr>primary_key := True, lookup_key := True\<rparr>),
     (''descr'', (fld RPSLTextField)\<lparr>optional := True, multiple := True\<rparr>),
     (''origin'', (fld RPSLASNumberField)\<lparr>primary_key := True\<rparr>),
     (''holes'', (fld RPSLIPv6PrefixesField)\<lparr>optional := True, multiple := True\<rparr>),
     (''member-of'', (fld (RPSLReferenceListField False [''route-set''] False))\<lparr>optional := True, multiple := True, lookup_key := True\<rparr>),
     (''inject'', (fld RPSLTextField)\<lparr>optional := True, multiple := True\<rparr>),
     (''aggr-bndry'', (fld RPSLTextField)\<lparr>optional := True\<rparr>),
     (''aggr-mtd'', (fld RPSLTextField)\<lparr>optional := True\<rparr>),
     (''export-comps'', (fld RPSLTextField)\<lparr>optional := True\<rparr>),
     (''components'', (fld RPSLTextField)\<lparr>optional := True\<rparr>),
     (''admin-c'', (fld (RPSLReferenceField [''role'', ''person''] True))\<lparr>optional := True, multiple := True, lookup_key := True\<rparr>),
     (''tech-c'', (fld (RPSLReferenceField [''role'', ''person''] True))\<lparr>optional := True, multiple := True, lookup_key := True\<rparr>),
     (''geoidx'', (fld RPSLTextField)\<lparr>optional := True, multiple := True\<rparr>),
     (''roa-uri'', (fld RPSLTextField)\<lparr>optional := True\<rparr>),
     (''remarks'', (fld RPSLTextField)\<lparr>optional := True, multiple := True\<rparr>),
     (''notify'', (fld RPSLEmailField)\<lparr>optional := True, multiple := True\<rparr>),
     (''mnt-by'', (fld (RPSLReferenceListField False [''mntner''] True))\<lparr>multiple := True, lookup_key := True\<rparr>),
     (''changed'', (fld RPSLChangedField)\<lparr>optional := True, multiple := True\<rparr>),
     (''source'', fld (RPSLGenericNameField [] False))]\<rparr>"

definition RPSLRtrSet :: rpsl_class where
  "RPSLRtrSet = \<lparr>is_set = True, is_route = False, discarded_fields = [], class_fields =
    [(''rtr-set'', (fld (RPSLSetNameField ''RTRS''))\<lparr>primary_key := True, lookup_key := True\<rparr>),
     (''descr'', (fld RPSLTextField)\<lparr>optional := True, multiple := True\<rparr>),
     (''members'', (fld (RPSLReferenceListField False [''inet-rtr'', ''rtr-set''] False))\<lparr>optional := True, multiple := True, lookup_key := True\<rparr>),
     (''mp-members'', (fld (RPSLReferenceListField False [''inet-rtr'', ''rtr-set''] False))\<lparr>optional := True, multiple := True, lookup_key := True\<rparr>),
     (''mbrs-by-ref'', (fld (RPSLReferenceListField True [''mntner''] False))\<lparr>optional := True, multiple := True, lookup_key := True\<rparr>),
     (''admin-c'', (fld (RPSLReferenceField [''role'', ''person''] True))\<lparr>optional := True, multiple := True, lookup_key := True\<rparr>),
     (''tech-c'', (fld (RPSLReferenceField [''role'', ''person''] True))\<lparr>optional := True, multiple := True, lookup_key := True\<rparr>),
     (''remarks'', (fld RPSLTextField)\<lparr>optional := True, multiple := True\<rparr>),
     (''notify'', (fld RPSLEmailField)\<lparr>optional := True, multiple := True\<rparr>),
     (''mnt-by'', (fld (RPSLReferenceListField False [''mntner''] True))\<lparr>multiple := True, lookup_key := True\<rparr>),
     (''changed'', (fld RPSLChangedField)\<lparr>optional := True, multiple := True\<rparr>),
     (''source'', fld (RPSLGenericNameField [] False))]\<rparr>"

definition OBJECT_CLASS_MAPPING :: "(string, rpsl_class) dict" where
  "OBJECT_CLASS_MAPPING =
    [(''as-block'', RPSLAsBlock),
     (''as-set'', RPSLAsSet),
     (''aut-num'', RPSLAutNum),
     (''domain'', RPSLDomain),
     (''filter-set'', RPSLFilterSet),
     (''inet-rtr'', RPSLInetRtr),
     (''inet6num'', RPSLInet6Num),
     (''inetnum'', RPSLInetnum),
     (''irt'', RPSLIrt),
     (''key-cert'', RPSLKeyCert),
     (''mntner'', RPSLMntner),
     (''organisation'', RPSLOrganisation),
     (''peering-set'', RPSLPeeringSet),
     (''person'', RPSLPerson),
     (''role'', RPSLRole),
     (''route'', RPSLRoute),
     (''route-set'', RPSLRouteSet),
     (''route6'', RPSLRoute6),
     (''rtr-set'', RPSLRtrSet)]"

definition RPSL_ROUTE_OBJECT_CLASS_FOR_IP_VERSION :: "(nat, string) dict" where
  "RPSL_ROUTE_OBJECT_CLASS_FOR_IP_VERSION = [(4, ''route''), (6, ''route6'')]"

definition PROTECTED_NAME_OBJECT_CLASSES :: "string list" where
  "PROTECTED_NAME_OBJECT_CLASSES = [''person'', ''role'', ''mntner'']"

section \<open>What the metaclass derives\<close>

definition rpsl_object_class :: "rpsl_class \<Rightarrow> string" where
  "rpsl_object_class c = hd (dict_keys (class_fields c))"

definition field_names :: "(field \<Rightarrow> bool) \<Rightarrow> rpsl_class \<Rightarrow> string list" where
  "field_names p c = map fst (filter (\<lambda>f. p (snd f)) (class_fields c))"

definition pk_fields :: "rpsl_class \<Rightarrow> string list" where
  "pk_fields c = field_names primary_key c"

definition lookup_fields :: "rpsl_class \<Rightarrow> string list" where
  "lookup_fields c = field_names lookup_key c"

definition attrs_allowed :: "rpsl_class \<Rightarrow> string list" where
  "attrs_allowed c = dict_keys (class_fields c)"

definition attrs_required :: "rpsl_class \<Rightarrow> string list" where
  "attrs_required c = field_names (\<lambda>f. \<not> optional f) c"

definition attrs_multiple :: "rpsl_class \<Rightarrow> string list" where
  "attrs_multiple c = field_names multiple c"

definition field_extracts :: "rpsl_class \<Rightarrow> string list" where
  "field_extracts c =
     concat (map (\<lambda>f. extracts (kind (snd f)))
       (filter (\<lambda>f. primary_key (snd f) \<or> lookup_key (snd f)) (class_fields c)))"

definition referring_strong_fields :: "rpsl_class \<Rightarrow> (string \<times> string list) list" where
  "referring_strong_fields c =
     List.map_filter (\<lambda>(n, f). case referring (kind f) of
                         Some r \<Rightarrow> if strong (kind f) then Some (n, r) else None
                       | None \<Rightarrow> None) (class_fields c)"

definition RPKI_RELEVANT_OBJECT_CLASSES :: "string list" where
  "RPKI_RELEVANT_OBJECT_CLASSES =
     map rpsl_object_class (filter is_route (map snd OBJECT_CLASS_MAPPING))"

definition lookup_field_names :: "string set" where
  "lookup_field_names =
     set (''origin'' # concat (map (\<lambda>c. filter (\<lambda>f. f \<notin> set (pk_fields c)) (lookup_fields c))
       (map snd OBJECT_CLASS_MAPPING)))"

section \<open>References between classes\<close>

definition references_strong_inbound :: "string \<Rightarrow> string set" where
  "references_strong_inbound object_class =
     set (concat (map (\<lambda>c. map fst (filter (\<lambda>(n, f).
            (case referring (kind f) of None \<Rightarrow> False | Some r \<Rightarrow> object_class \<in> set r)
            \<and> strong (kind f)) (class_fields c))) (map snd OBJECT_CLASS_MAPPING)))"

text \<open>
  \<open>resolve_references\<close>: the first field of each referred class that is both a primary and a
  lookup key. The source indexes the mapping and the list, so an unknown class or a class with
  no such field is an exception.
\<close>

fun resolve_references :: "string list \<Rightarrow> field list res" where
  "resolve_references [] = Inr []"
| "resolve_references (ref # refs) =
     (case dict_get OBJECT_CLASS_MAPPING ref of
        None \<Rightarrow> Inl (KeyError ref)
      | Some c \<Rightarrow>
          (case filter (\<lambda>f. primary_key f \<and> lookup_key f) (map snd (class_fields c)) of
             [] \<Rightarrow> Inl (IndexError ref)
           | pk_field # _ \<Rightarrow> rbind (resolve_references refs) (\<lambda>fs. Inr (pk_field # fs))))"

section \<open>Templates\<close>

definition template_metadata :: "field \<Rightarrow> string list" where
  "template_metadata f =
     (if primary_key f \<and> lookup_key f then [''primary/look-up key'']
      else if primary_key f then [''primary key'']
      else if lookup_key f then [''look-up key'']
      else [])
     @ (case referring (kind f) of
          None \<Rightarrow> []
        | Some r \<Rightarrow> if r = [] then []
            else [(if strong (kind f) then ''strong'' else ''weak'') @ '' references '' @ py_join ''/'' r])"

definition template_line :: "nat \<Rightarrow> string \<times> field \<Rightarrow> string" where
  "template_line max_name_width nf =
     (let name = fst nf; f = snd nf;
          mandatory = (if optional f then ''[optional] '' else ''[mandatory]'');
          single = (if multiple f then ''[multiple]'' else ''[single]  '');
          name_padding = replicate (max_name_width - length name) CHR '' ''
      in name @ '': '' @ name_padding @ ''  '' @ mandatory @ ''  '' @ single @ ''  [''
         @ py_join '', '' (template_metadata f) @ '']'' @ [NL])"

definition generate_template :: "rpsl_class \<Rightarrow> string" where
  "generate_template c =
     (let max_name_width = Max (set (map (\<lambda>f. length (fst f)) (class_fields c)))
      in concat (map (template_line max_name_width) (class_fields c)))"

section \<open>Consistency of the schema\<close>

lemmas class_defs =
  RPSLAsBlock_def RPSLAsSet_def RPSLAutNum_def RPSLDomain_def RPSLFilterSet_def RPSLInetRtr_def
  RPSLInet6Num_def RPSLInetnum_def RPSLIrt_def RPSLKeyCert_def RPSLMntner_def RPSLOrganisation_def
  RPSLPeeringSet_def RPSLPerson_def RPSLRole_def RPSLRoute_def RPSLRouteSet_def RPSLRoute6_def
  RPSLRtrSet_def

definition class_ok :: "string \<times> rpsl_class \<Rightarrow> bool" where
  "class_ok nc \<longleftrightarrow>
     class_fields (snd nc) \<noteq> [] \<and> rpsl_object_class (snd nc) = fst nc \<and>
     distinct (dict_keys (class_fields (snd nc))) \<and>
     pk_fields (snd nc) \<noteq> [] \<and>
     list_all (\<lambda>f. is_list_field (kind (snd f)) \<longrightarrow> multiple (snd f)) (class_fields (snd nc)) \<and>
     list_all (\<lambda>f. primary_key (snd f) \<longrightarrow> \<not> multiple (snd f) \<and> \<not> optional (snd f)) (class_fields (snd nc)) \<and>
     dict_get (class_fields (snd nc)) ''source'' = Some (fld (RPSLGenericNameField [] False))"

lemma all_classes_ok: "list_all class_ok OBJECT_CLASS_MAPPING"
  by code_simp

lemma class_okD: "dict_get OBJECT_CLASS_MAPPING n = Some c \<Longrightarrow> class_ok (n, c)"
  using all_classes_ok by (auto simp: list_all_iff dict_get_def dest: map_of_SomeD)

lemma all_keys_distinct: "distinct (dict_keys OBJECT_CLASS_MAPPING)"
  by code_simp

end
