(* ===== verification/Ext_Libs.thy ===== *)
theory Ext_Libs
  imports Py_Prelude
begin

text \<open>
  What the modelled code calls in packages outside the repository, as a record of functions
  that every definition using them takes as an argument: the \<open>IP\<close> class of IPy (addresses
  and prefixes are values of an arbitrary type \<open>'ip\<close>; a set of them is given by what was
  added to it), the address conversion of the socket library (its first argument is true for
  IPv6), the hashers of passlib, the calls of the gnupg wrapper (an import gives fingerprints
  and result texts, a verification gives validity, key status and fingerprint), and the check
  of a bracketed host in \<open>urllib\<close>, which differs between Python versions. Nothing is assumed
  about them here; a theorem that relies on their documented behaviour names it as a hypothesis.
\<close>

record 'ip extlib =
  IP :: "string \<Rightarrow> nat \<Rightarrow> string + 'ip"
  ip_str :: "'ip \<Rightarrow> string"
  ip_version :: "'ip \<Rightarrow> nat"
  ip_prefixlen :: "'ip \<Rightarrow> nat"
  ip_net :: "'ip \<Rightarrow> 'ip"
  ip_broadcast :: "'ip \<Rightarrow> 'ip"
  ip_int :: "'ip \<Rightarrow> int"
  ip_overlaps :: "'ip \<Rightarrow> 'ip \<Rightarrow> int"
  ip_contains :: "'ip \<Rightarrow> 'ip \<Rightarrow> bool"
  ip_v46map :: "'ip \<Rightarrow> string + 'ip"
  ip_strbin :: "'ip \<Rightarrow> string"
  ipset_contains :: "'ip list \<Rightarrow> 'ip \<Rightarrow> bool"
  inet_pton :: "bool \<Rightarrow> string \<Rightarrow> nat list res"
  hasher_verify :: "string \<Rightarrow> string \<Rightarrow> string \<Rightarrow> bool res"
  hasher_hash :: "string \<Rightarrow> string \<Rightarrow> string"
  bracketed_host_ok :: "string \<Rightarrow> bool"
  gpg_import_keys :: "string \<Rightarrow> string list \<times> string list"
  gpg_uids :: "string \<Rightarrow> string list"
  gpg_verify :: "string \<Rightarrow> bool \<times> string option \<times> string"

section \<open>A concrete instance for examples\<close>

text \<open>
  Addresses as triples of version, integer and prefix length, with IPv4 text in dotted decimals
  only. Theorems with hypotheses on the library are applied to it, to show that the hypotheses
  can hold; no definition of a component refers to it.
\<close>

type_synonym ip3 = "nat \<times> nat \<times> nat"

definition octets :: "string \<Rightarrow> nat list option" where
  "octets s =
     (let ps = map py_int (py_split CHR ''.'' s)
      in if length ps = 4 \<and> list_all (\<lambda>p. case p of None \<Rightarrow> False | Some i \<Rightarrow> 0 \<le> i \<and> i \<le> 255) ps
         then Some (map (\<lambda>p. nat (the p)) ps) else None)"

definition octets_val :: "nat list \<Rightarrow> nat" where
  "octets_val ds = foldl (\<lambda>a d. 256 * a + d) 0 ds"

definition ip4_of_string :: "string \<Rightarrow> nat \<Rightarrow> string + ip3" where
  "ip4_of_string s v =
     (case py_split CHR ''/'' s of
        [a] \<Rightarrow> (case octets a of None \<Rightarrow> Inl ''bad address'' | Some ds \<Rightarrow>
                 if v = 6 then Inl ''bad version'' else Inr (4, octets_val ds, 32))
      | [a, l] \<Rightarrow> (case (octets a, py_int l) of
           (Some ds, Some n) \<Rightarrow>
             (if v = 6 then Inl ''bad version''
              else if n < 0 \<or> 32 < n then Inl ''bad length''
              else if octets_val ds mod 2 ^ (32 - nat n) \<noteq> 0 then Inl ''has invalid prefix length''
              else Inr (4, octets_val ds, nat n))
         | _ \<Rightarrow> Inl ''bad prefix'')
      | _ \<Rightarrow> Inl ''bad prefix'')"

definition ip4_string :: "nat \<Rightarrow> string" where
  "ip4_string n =
     py_join ''.'' (map str_nat [n div 256 div 256 div 256, n div 256 div 256 mod 256, n div 256 mod 256, n mod 256])"

fun ip3_str :: "ip3 \<Rightarrow> string" where
  "ip3_str (v, a, l) = ip4_string a @ (if l = 32 then [] else CHR ''/'' # str_nat l)"

fun ip3_broadcast :: "ip3 \<Rightarrow> ip3" where
  "ip3_broadcast (v, a, l) = (v, a + 2 ^ (32 - l) - 1, 32)"

fun ip3_overlaps :: "ip3 \<Rightarrow> ip3 \<Rightarrow> int" where
  "ip3_overlaps (v, a, l) (v', a', l') =
     (if a \<le> a' \<and> a' < a + 2 ^ (32 - l) then 1
      else if a' \<le> a \<and> a < a' + 2 ^ (32 - l') then -1 else 0)"

fun ip3_contains :: "ip3 \<Rightarrow> ip3 \<Rightarrow> bool" where
  "ip3_contains (v, a, l) (v', a', l') \<longleftrightarrow>
     v = v' \<and> a \<le> a' \<and> a' + 2 ^ (32 - l') \<le> a + 2 ^ (32 - l)"

fun ip3_strbin :: "ip3 \<Rightarrow> string" where
  "ip3_strbin (v, a, l) = map (\<lambda>i. digit_char (a div 2 ^ i mod 2)) (rev [0..<32])"

definition ip3_lib :: "ip3 extlib" where
  "ip3_lib = \<lparr>
     IP = ip4_of_string,
     ip_str = ip3_str,
     ip_version = fst,
     ip_prefixlen = (\<lambda>i. snd (snd i)),
     ip_net = (\<lambda>i. (fst i, fst (snd i), 32)),
     ip_broadcast = ip3_broadcast,
     ip_int = (\<lambda>i. int (fst (snd i))),
     ip_overlaps = ip3_overlaps,
     ip_contains = ip3_contains,
     ip_v46map = (\<lambda>ip. Inl ''not an IPv4-mapped address''),
     ip_strbin = ip3_strbin,
     ipset_contains = (\<lambda>ips ip. list_ex (\<lambda>i. ip3_contains i ip) ips),
     inet_pton = (\<lambda>v6 s. case octets s of Some ds \<Rightarrow> Inr ds | None \<Rightarrow> Inl (ValueError s)),
     hasher_verify = (\<lambda>scheme pw h. Inr (h = scheme @ pw)),
     hasher_hash = (\<lambda>scheme pw. scheme @ pw),
     bracketed_host_ok = (\<lambda>h. True),
     gpg_import_keys = (\<lambda>certif. ([], [])),
     gpg_uids = (\<lambda>fingerprint. []),
     gpg_verify = (\<lambda>message. (False, None, []))\<rparr>"

end
