(* ===== verification/RPSL_State.thy ===== *)
theory RPSL_State
  imports Text_Utils Ext_Libs
begin

text \<open>
  \<^verbatim>\<open>irrd/rpsl/parser_state.py\<close> (the message collector and the result of a field parser) and
  \<^verbatim>\<open>irrd/rpsl/auth.py\<close> (the enabled password hashers and the check of auth lines).
\<close>

section \<open>Messages\<close>

datatype level = INFO | ERROR

type_synonym messages = "(level \<times> string) list"

definition msg_error :: "string \<Rightarrow> messages \<Rightarrow> messages" where
  "msg_error m ms = ms @ [(ERROR, m)]"

definition msg_info :: "string \<Rightarrow> messages \<Rightarrow> messages" where
  "msg_info m ms = ms @ [(INFO, m)]"

definition merge_messages :: "messages \<Rightarrow> messages \<Rightarrow> messages" where
  "merge_messages other ms = ms @ other"

definition msg_texts :: "messages \<Rightarrow> string list" where
  "msg_texts ms = map snd ms"

definition errors :: "messages \<Rightarrow> string list" where
  "errors ms = map snd (filter (\<lambda>m. fst m = ERROR) ms)"

definition infos :: "messages \<Rightarrow> string list" where
  "infos ms = map snd (filter (\<lambda>m. fst m = INFO) ms)"

fun level_str :: "level \<Rightarrow> string" where
  "level_str INFO = ''INFO''"
| "level_str ERROR = ''ERROR''"

definition messages_str :: "messages \<Rightarrow> string" where
  "messages_str ms = py_join [NL] (map (\<lambda>m. level_str (fst m) @ '': '' @ snd m) ms)"

lemma errors_simps [simp]:
  "errors [] = []"
  "errors (ms @ ms') = errors ms @ errors ms'"
  "errors (msg_error m ms) = errors ms @ [m]"
  "errors (msg_info m ms) = errors ms"
  "errors (merge_messages o' ms) = errors ms @ errors o'"
  by (simp_all add: errors_def msg_error_def msg_info_def merge_messages_def)

section \<open>Results of field parsers\<close>

record 'ip parse_result =
  pr_value :: string
  pr_values_list :: "string list option"
  pr_ip_first :: "'ip option"
  pr_ip_last :: "'ip option"
  pr_prefix :: "'ip option"
  pr_prefix_length :: "nat option"
  pr_asn_first :: "int option"
  pr_asn_last :: "int option"

definition parse_result_of :: "string \<Rightarrow> 'ip parse_result" where
  "parse_result_of v = \<lparr>pr_value = v, pr_values_list = None, pr_ip_first = None, pr_ip_last = None,
     pr_prefix = None, pr_prefix_length = None, pr_asn_first = None, pr_asn_last = None\<rparr>"

lemma parse_result_of_simps [simp]:
  "pr_value (parse_result_of v) = v"
  "pr_values_list (parse_result_of v) = None"
  "pr_ip_first (parse_result_of v) = None"
  "pr_ip_last (parse_result_of v) = None"
  "pr_prefix (parse_result_of v) = None"
  "pr_prefix_length (parse_result_of v) = None"
  "pr_asn_first (parse_result_of v) = None"
  "pr_asn_last (parse_result_of v) = None"
  by (simp_all add: parse_result_of_def)

section \<open>Password hashers\<close>

datatype hasher_availability = HASHER_ENABLED | HASHER_LEGACY | HASHER_DISABLED

fun hasher_availability_of :: "string \<Rightarrow> hasher_availability res" where
  "hasher_availability_of s =
     (if s = ''ENABLED'' then Inr HASHER_ENABLED
      else if s = ''LEGACY'' then Inr HASHER_LEGACY
      else if s = ''DISABLED'' then Inr HASHER_DISABLED
      else Inl (AttributeError s))"

fun included_hashers :: "settings \<Rightarrow> hasher_availability list \<Rightarrow> string list \<Rightarrow> string list res" where
  "included_hashers gs included [] = Inr []"
| "included_hashers gs included (hasher_name # hs) =
     (case get_setting gs (''auth.password_hashers.'' @ py_lower hasher_name) of
        CStr setting \<Rightarrow>
          rbind (hasher_availability_of (py_upper setting)) (\<lambda>availability.
            rbind (included_hashers gs included hs) (\<lambda>r.
              Inr (if availability \<in> set included then hasher_name # r else r)))
      | _ \<Rightarrow> Inl (AttributeError ''upper''))"

definition get_password_hashers :: "settings \<Rightarrow> bool \<Rightarrow> string list res" where
  "get_password_hashers gs permit_legacy =
     included_hashers gs (if permit_legacy then [HASHER_ENABLED, HASHER_LEGACY] else [HASHER_ENABLED])
       PASSWORD_HASHERS_ALL"

text \<open>The loop over the passwords for one hash; a \<open>ValueError\<close> of the hasher counts as no match.\<close>

fun any_password :: "'ip extlib \<Rightarrow> string \<Rightarrow> string \<Rightarrow> string list \<Rightarrow> bool res" where
  "any_password L scheme hash [] = Inr False"
| "any_password L scheme hash (pw # pws) =
     (case hasher_verify L scheme pw hash of
        Inr True \<Rightarrow> Inr True
      | Inr False \<Rightarrow> any_password L scheme hash pws
      | Inl (ValueError e) \<Rightarrow> any_password L scheme hash pws
      | Inl e \<Rightarrow> Inl e)"

fun verify_lines :: "'ip extlib \<Rightarrow> string list \<Rightarrow> string list \<Rightarrow> string list \<Rightarrow> string option
    \<Rightarrow> string option res" where
  "verify_lines L hashers [] passwords keycert = Inr None"
| "verify_lines L hashers (auth # auths) passwords keycert =
     (if (case keycert of None \<Rightarrow> False | Some pk \<Rightarrow> pk \<noteq> [] \<and> py_upper auth = py_upper pk)
      then Inr (Some (py_upper (the keycert)))
      else if CHR '' '' \<notin> set auth then verify_lines L hashers auths passwords keycert
      else (let (scheme0, hash) = py_split1 CHR '' '' auth;
                scheme = py_upper scheme0
            in if scheme \<in> set hashers
               then rbind (any_password L scheme hash passwords) (\<lambda>ok.
                      if ok then Inr (Some scheme)
                      else verify_lines L hashers auths passwords keycert)
               else verify_lines L hashers auths passwords keycert))"

definition verify_auth_lines :: "'ip extlib \<Rightarrow> settings \<Rightarrow> string list \<Rightarrow> string list \<Rightarrow> string option
    \<Rightarrow> string option res" where
  "verify_auth_lines L gs auth_lines passwords keycert_obj_pk =
     rbind (get_password_hashers gs True) (\<lambda>hashers.
       verify_lines L hashers auth_lines passwords keycert_obj_pk)"

section \<open>What a successful check means\<close>

lemma any_password_True:
  "any_password L scheme hash pws = Inr True \<Longrightarrow> \<exists>pw \<in> set pws. hasher_verify L scheme pw hash = Inr True"
  by (induction pws) (auto split: sum.splits bool.splits exn.splits)

lemma any_password_complete:
  "(\<And>p. p \<in> set pws \<Longrightarrow> \<exists>b. hasher_verify L scheme p hash = Inr b) \<Longrightarrow>
   pw \<in> set pws \<Longrightarrow> hasher_verify L scheme pw hash = Inr True \<Longrightarrow>
   any_password L scheme hash pws = Inr True"
proof (induction pws)
  case (Cons p pws)
  then obtain b where "hasher_verify L scheme p hash = Inr b" by (meson list.set_intros(1))
  with Cons show ?case by (cases b) auto
qed simp

text \<open>
  An auth line accepts with method \<open>m\<close>: it is the key-cert that signed the request, or it
  holds an enabled scheme and a hash that one of the passwords verifies against.
\<close>

definition auth_line_accepts :: "'ip extlib \<Rightarrow> string list \<Rightarrow> string list \<Rightarrow> string option \<Rightarrow> string \<Rightarrow> string \<Rightarrow> bool" where
  "auth_line_accepts L hashers pws kc a m \<longleftrightarrow>
     (\<exists>pk. kc = Some pk \<and> pk \<noteq> [] \<and> m = py_upper pk \<and> py_upper a = py_upper pk) \<or>
     (CHR '' '' \<in> set a \<and> m = py_upper (fst (py_split1 CHR '' '' a)) \<and> m \<in> set hashers \<and>
      (\<exists>pw \<in> set pws. hasher_verify L m pw (snd (py_split1 CHR '' '' a)) = Inr True))"

lemma verify_lines_Cons_Some:
  assumes "verify_lines L hashers (a # auths) pws kc = Inr (Some m)"
  shows "auth_line_accepts L hashers pws kc a m \<or> verify_lines L hashers auths pws kc = Inr (Some m)"
proof (cases "case kc of None \<Rightarrow> False | Some pk \<Rightarrow> pk \<noteq> [] \<and> py_upper a = py_upper pk")
  case True
  with assms show ?thesis by (auto simp: auth_line_accepts_def split: option.splits)
next
  case False
  show ?thesis
  proof (cases "CHR '' '' \<in> set a \<and> py_upper (fst (py_split1 CHR '' '' a)) \<in> set hashers")
    case True
    with False assms show ?thesis
      by (cases "py_split1 CHR '' '' a")
         (auto simp: Let_def rbind_Inr_conv auth_line_accepts_def split: if_splits dest: any_password_True)
  next
    case False2: False
    with False assms show ?thesis
      by (cases "py_split1 CHR '' '' a") (auto simp: Let_def split: if_splits)
  qed
qed

lemma verify_lines_Some:
  "verify_lines L hashers auths pws kc = Inr (Some m) \<Longrightarrow>
   \<exists>a \<in> set auths. auth_line_accepts L hashers pws kc a m"
proof (induction auths)
  case (Cons a auths)
  from verify_lines_Cons_Some [OF Cons.prems] Cons.IH show ?case by auto
qed simp

lemma verify_lines_None:
  assumes "verify_lines L hashers auths pws kc = Inr None"
    and "\<And>s p h. \<exists>b. hasher_verify L s p h = Inr b"
    and "a \<in> set auths"
  shows "\<not> auth_line_accepts L hashers pws kc a m"
  using assms
proof (induction auths)
  case (Cons x auths)
  show ?case
  proof (cases "case kc of None \<Rightarrow> False | Some pk \<Rightarrow> pk \<noteq> [] \<and> py_upper x = py_upper pk")
    case True
    with Cons.prems show ?thesis by simp
  next
    case nokey: False
    have hash: "any_password L (py_upper (fst (py_split1 CHR '' '' x))) (snd (py_split1 CHR '' '' x)) pws
        \<noteq> Inr True"
      if "CHR '' '' \<in> set x" and "py_upper (fst (py_split1 CHR '' '' x)) \<in> set hashers"
      using nokey Cons.prems(1) that by (cases "py_split1 CHR '' '' x") (auto simp: Let_def rbind_Inr_conv)
    have rest: "verify_lines L hashers auths pws kc = Inr None"
      using nokey Cons.prems(1)
      by (cases "py_split1 CHR '' '' x") (auto simp: Let_def rbind_Inr_conv split: if_splits)
    have "\<not> auth_line_accepts L hashers pws kc x m"
      using nokey hash any_password_complete [OF Cons.prems(2)]
      by (auto simp: auth_line_accepts_def)
    with rest Cons show ?thesis by auto
  qed
qed simp


definition hasher_example :: settings where
  "hasher_example n = (if n = ''auth.password_hashers.crypt-pw'' then Some (CStr ''legacy'')
     else if n = ''auth.password_hashers.bcrypt-pw'' then Some (CStr ''disabled'')
     else Some (CStr ''enabled''))"

lemma hasher_example_hashers: "get_password_hashers hasher_example True = Inr [''CRYPT-PW'', ''MD5-PW'']"
  by code_simp


end
