(* ===== verification/AS_Numbers.thy ===== *)
theory AS_Numbers
  imports Conf
begin

text \<open>
  \<^verbatim>\<open>irrd/utils/validators.py\<close>: \<open>parse_as_number\<close> and the checks of the submission models.
\<close>

section \<open>AS numbers\<close>

datatype as_input = AsStr string | AsInt int

definition as_range_check :: "string \<Rightarrow> int \<Rightarrow> (string \<times> int) res" where
  "as_range_check shown value_int =
     (if \<not> (0 \<le> value_int \<and> value_int \<le> 4294967295)
      then Inl (ValidationError (''Invalid AS number '' @ shown @ '': valid range is 0-4294967295''))
      else Inr (''AS'' @ str_int value_int, value_int))"

definition as_error :: "string \<Rightarrow> string \<Rightarrow> exn" where
  "as_error value msg = ValidationError (''Invalid AS number '' @ value @ '': '' @ msg)"

definition parse_asdot :: "string \<Rightarrow> string \<Rightarrow> int res" where
  "parse_asdot value digits =
     (case py_split CHR ''.'' digits of
        [high_str, low_str] \<Rightarrow>
          (case py_int high_str of
             None \<Rightarrow> Inl (as_error value ''high order value missing or invalid'')
           | Some high \<Rightarrow>
               (case py_int low_str of
                  None \<Rightarrow> Inl (as_error value ''low order value missing or invalid'')
                | Some low \<Rightarrow>
                    if 65535 < high then Inl (as_error value ''high order value out of range'')
                    else if 65535 < low then Inl (as_error value ''low order value out of range'')
                    else Inr (high * 65536 + low)))
      | _ \<Rightarrow> Inl (as_error value ''number is not valid asdot format''))"

fun parse_as_number :: "settings \<Rightarrow> bool \<Rightarrow> bool \<Rightarrow> as_input \<Rightarrow> (string \<times> int) res" where
  "parse_as_number gs permit_plain asdot_permitted (AsStr v) =
     (let value = py_upper v
      in if \<not> permit_plain \<and> \<not> py_startswith value ''AS''
         then Inl (as_error value ''must start with \"AS\"'')
         else (let start_index = (if py_startswith value ''AS'' then 2 else 0);
                   digits = drop start_index value
               in rbind (if asdot_permitted \<and> truthy (get_setting gs ''compatibility.asdot_queries'')
                            \<and> CHR ''.'' \<in> set digits
                         then parse_asdot value digits
                         else (case py_int digits of
                                 None \<Rightarrow> Inl (as_error value ''number part is not numeric'')
                               | Some n \<Rightarrow> Inr n))
                    (as_range_check value)))"
| "parse_as_number gs permit_plain asdot_permitted (AsInt i) = as_range_check (str_int i) i"

text \<open>The call with the default arguments, as the RPSL fields make it.\<close>

definition parse_as :: "string \<Rightarrow> (string \<times> int) res" where
  "parse_as v = parse_as_number (\<lambda>_. None) False False (AsStr v)"

section \<open>Submission models\<close>

datatype attr_value = AttrStr string | AttrList "string list"

definition translate_list_to_str :: "attr_value \<Rightarrow> string" where
  "translate_list_to_str value =
     (case value of AttrStr s \<Rightarrow> s | AttrList vs \<Rightarrow> py_join '', '' vs)"

record submission_object =
  object_text :: "string option"
  attributes :: "(string \<times> attr_value) list option"

definition check_text_xor_attributes_present :: "submission_object \<Rightarrow> submission_object res" where
  "check_text_xor_attributes_present obj =
     (let has_text = (case object_text obj of None \<Rightarrow> False | Some t \<Rightarrow> t \<noteq> []);
          has_attrs = (case attributes obj of None \<Rightarrow> False | Some a \<Rightarrow> a \<noteq> [])
      in if has_text = has_attrs
         then Inl (ValueError ''You must describe each object with either \"object_text\" or \"attributes\"'')
         else Inr obj)"

section \<open>Lemmas\<close>

declare parse_as_number.simps [simp del]

lemma as_range_check_Inr:
  "as_range_check v n = Inr r \<longleftrightarrow> 0 \<le> n \<and> n \<le> 4294967295 \<and> r = (''AS'' @ str_int n, n)"
  by (auto simp: as_range_check_def)

lemma parse_as_number_Inr_range:
  "parse_as_number gs p a v = Inr (s, n) \<Longrightarrow> 0 \<le> n \<and> n \<le> 4294967295 \<and> s = ''AS'' @ str_int n"
  by (cases v)
     (auto simp: parse_as_number.simps as_range_check_Inr rbind_Inr_conv Let_def split: if_splits)

lemma py_upper_AS_digits:
  assumes "\<And>c. c \<in> set ds \<Longrightarrow> isdigit c"
  shows "py_upper (''AS'' @ ds) = ''AS'' @ ds"
proof -
  have "py_upper ds = ds"
    using assms by (induction ds) (auto simp: py_upper_def upper_char_digit)
  moreover have "py_upper ''AS'' = ''AS''"
    by (simp add: py_upper_def upper_char_def islower_def ord_def)
  ultimately show ?thesis by (simp only: py_upper_append)
qed

lemma isdigit_dot: "\<not> isdigit CHR ''.''"
  by (simp add: isdigit_def ord_def)

lemma no_dot_digits: "(\<And>c. c \<in> set ds \<Longrightarrow> isdigit c) \<Longrightarrow> CHR ''.'' \<notin> set ds"
  using isdigit_dot by blast

lemma parse_as_number_canonical:
  assumes "0 \<le> n" "n \<le> 4294967295"
  shows "parse_as_number gs p a (AsStr (''AS'' @ str_int n)) = Inr (''AS'' @ str_int n, n)"
proof -
  define ds where "ds = str_nat (nat n)"
  have ds: "str_int n = ds" using assms by (simp add: ds_def str_int_def)
  have digits: "\<And>c. c \<in> set ds \<Longrightarrow> isdigit c"
    by (auto simp: ds_def dest: str_nat_digits)
  have int: "py_int ds = Some n"
    using py_int_str_nat [of "nat n" 10] assms by (simp add: ds_def)
  have up: "py_upper (''AS'' @ ds) = ''AS'' @ ds"
    by (rule py_upper_AS_digits) (rule digits)
  have nodot: "CHR ''.'' \<notin> set ds"
    by (rule no_dot_digits) (rule digits)
  have sw: "py_startswith (''AS'' @ ds) ''AS''"
    by (rule py_startswith_append)
  have "drop 2 (''AS'' @ ds) = ds" by simp
  then show ?thesis
    unfolding ds parse_as_number.simps Let_def up
    using sw int nodot assms by (simp add: as_range_check_def ds)
qed

text \<open>
  AS numbers round trip. Printing any 32-bit AS number in ASxxxx form and parsing it gives
  the number and the same text, whatever the arguments \<open>permit_plain\<close> and
  \<open>asdot_permitted\<close> and the configuration.
\<close>

theorem parse_as_number_roundtrip:
  "0 \<le> n \<Longrightarrow> n \<le> 4294967295 \<Longrightarrow>
   parse_as_number gs p a (AsStr (''AS'' @ str_int n)) = Inr (''AS'' @ str_int n, n)"
  by (rule parse_as_number_canonical)

theorem parse_as_number_roundtrip_witness:
  "(0::int) \<le> 65537 \<and> (65537::int) \<le> 4294967295 \<and>
   parse_as_number (\<lambda>_. None) False False (AsStr (''AS'' @ str_int 65537))
     = Inr (''AS'' @ str_int 65537, 65537)"
  using parse_as_number_roundtrip [of 65537 "\<lambda>_. None" False False] by simp

text \<open>
  C39: every AS number that parses, from text in any accepted form or from an integer, lies
  between 0 and 4294967295, is returned with its canonical text, and that text parses back to
  the same pair: parsing is idempotent on its own output.
\<close>

theorem parse_as_number_bounds:
  "parse_as_number gs p a v = Inr (s, n) \<Longrightarrow>
   0 \<le> n \<and> n \<le> 4294967295 \<and> s = ''AS'' @ str_int n \<and>
   parse_as_number gs' p' a' (AsStr s) = Inr (s, n)"
  using parse_as_number_Inr_range [of gs p a v s n] parse_as_number_canonical [of n gs' p' a'] by simp

theorem parse_as_number_bounds_witness:
  "parse_as_number (\<lambda>_. None) False False (AsStr ''as 1_5'') = Inr (''AS15'', 15) \<and>
   parse_as_number (\<lambda>_. None) True True (AsStr ''AS15'') = Inr (''AS15'', 15)"
proof -
  have h: "parse_as_number (\<lambda>_. None) False False (AsStr ''as 1_5'') = Inr (''AS15'', 15)"
    by code_simp
  show ?thesis
    using h parse_as_number_bounds [OF h, of "\<lambda>_. None" True True] by (intro conjI) blast+
qed

end
