(* ===== verification/Py_Regex.thy ===== *)
theory Py_Regex
  imports Py_Prelude
begin

text \<open>
  The regular expressions of the code, as data, with an executable matcher. A Python pattern
  \<open>^r$\<close> applied with \<open>re.match\<close> and no flags but \<open>IGNORECASE\<close> accepts a string of
  the language of \<open>r\<close>, optionally followed by one line feed, since \<open>$\<close> also matches just
  before a final line feed; \<open>re_match\<close> is that test. The matcher takes Brzozowski
  derivatives; \<open>rex_match_lang\<close> relates it to the language.
\<close>

section \<open>Expressions and their language\<close>

datatype rex =
    RZero
  | ROne
  | RCls "char \<Rightarrow> bool"
  | RSeq rex rex
  | RAlt rex rex
  | RStar rex

inductive in_lang :: "rex \<Rightarrow> string \<Rightarrow> bool" where
  in_one: "in_lang ROne []"
| in_cls: "p c \<Longrightarrow> in_lang (RCls p) [c]"
| in_seq: "in_lang r s \<Longrightarrow> in_lang q t \<Longrightarrow> in_lang (RSeq r q) (s @ t)"
| in_alt1: "in_lang r s \<Longrightarrow> in_lang (RAlt r q) s"
| in_alt2: "in_lang q s \<Longrightarrow> in_lang (RAlt r q) s"
| in_star_Nil: "in_lang (RStar r) []"
| in_star_app: "in_lang r s \<Longrightarrow> in_lang (RStar r) t \<Longrightarrow> in_lang (RStar r) (s @ t)"

inductive_simps in_zero_iff [simp]: "in_lang RZero s"
inductive_simps in_one_iff [simp]: "in_lang ROne s"
inductive_simps in_cls_iff [simp]: "in_lang (RCls p) s"
inductive_simps in_seq_iff: "in_lang (RSeq r q) s"
inductive_simps in_alt_iff [simp]: "in_lang (RAlt r q) s"

section \<open>The matcher\<close>

fun nullable :: "rex \<Rightarrow> bool" where
  "nullable RZero = False"
| "nullable ROne = True"
| "nullable (RCls p) = False"
| "nullable (RSeq r q) = (nullable r \<and> nullable q)"
| "nullable (RAlt r q) = (nullable r \<or> nullable q)"
| "nullable (RStar r) = True"

fun mk_seq :: "rex \<Rightarrow> rex \<Rightarrow> rex" where
  "mk_seq RZero q = RZero"
| "mk_seq ROne q = q"
| "mk_seq r q = RSeq r q"

fun mk_alt :: "rex \<Rightarrow> rex \<Rightarrow> rex" where
  "mk_alt RZero q = q"
| "mk_alt r RZero = r"
| "mk_alt r q = RAlt r q"

fun deriv :: "char \<Rightarrow> rex \<Rightarrow> rex" where
  "deriv c RZero = RZero"
| "deriv c ROne = RZero"
| "deriv c (RCls p) = (if p c then ROne else RZero)"
| "deriv c (RSeq r q) =
     (if nullable r then mk_alt (mk_seq (deriv c r) q) (deriv c q) else mk_seq (deriv c r) q)"
| "deriv c (RAlt r q) = mk_alt (deriv c r) (deriv c q)"
| "deriv c (RStar r) = mk_seq (deriv c r) (RStar r)"

fun rex_match :: "rex \<Rightarrow> string \<Rightarrow> bool" where
  "rex_match r [] = nullable r"
| "rex_match r (c # s) = rex_match (deriv c r) s"

definition ropt :: "rex \<Rightarrow> rex" where
  "ropt r = RAlt ROne r"

definition rplus :: "rex \<Rightarrow> rex" where
  "rplus r = RSeq r (RStar r)"

definition rchr :: "char \<Rightarrow> rex" where
  "rchr c = RCls (\<lambda>d. d = c)"

fun rrep :: "nat \<Rightarrow> rex \<Rightarrow> rex" where
  "rrep 0 r = ROne"
| "rrep (Suc n) r = RSeq r (rrep n r)"

fun rseqs :: "rex list \<Rightarrow> rex" where
  "rseqs [] = ROne"
| "rseqs [r] = r"
| "rseqs (r # q # rs) = RSeq r (rseqs (q # rs))"

definition rlit :: "string \<Rightarrow> rex" where
  "rlit s = rseqs (map rchr s)"

definition re_match :: "rex \<Rightarrow> string \<Rightarrow> bool" where
  "re_match r s = rex_match (RSeq r (ropt (rchr NL))) s"

section \<open>Correctness of the matcher\<close>

lemma nullable_lang: "nullable r \<longleftrightarrow> in_lang r []"
  by (induction r) (auto simp: in_seq_iff intro: in_star_Nil)

lemma mk_seq_lang [simp]: "in_lang (mk_seq r q) s \<longleftrightarrow> in_lang (RSeq r q) s"
  by (cases r) (auto simp: in_seq_iff)

lemma mk_alt_lang [simp]: "in_lang (mk_alt r q) s \<longleftrightarrow> in_lang (RAlt r q) s"
  by (cases "(r, q)" rule: mk_alt.cases) auto

lemma in_star_ConsD:
  assumes "in_lang (RStar r) (c # s)"
  shows "\<exists>t u. s = t @ u \<and> in_lang r (c # t) \<and> in_lang (RStar r) u"
proof -
  have "in_lang q w \<Longrightarrow> q = RStar r \<Longrightarrow> w = c # s \<Longrightarrow>
      \<exists>t u. s = t @ u \<and> in_lang r (c # t) \<and> in_lang (RStar r) u" for q w
  proof (induction arbitrary: s rule: in_lang.induct)
    case (in_star_app r' a b)
    then show ?case by (cases a) auto
  qed auto
  with assms show ?thesis by blast
qed

lemma in_seq_Cons:
  "in_lang (RSeq r q) (c # s) \<longleftrightarrow>
     (\<exists>t u. s = t @ u \<and> in_lang r (c # t) \<and> in_lang q u) \<or> in_lang r [] \<and> in_lang q (c # s)"
  by (auto simp: in_seq_iff Cons_eq_append_conv)

lemma deriv_lang: "in_lang (deriv c r) s \<longleftrightarrow> in_lang r (c # s)"
proof (induction r arbitrary: s)
  case (RSeq r q)
  have "in_lang (RSeq (deriv c r) q) s \<longleftrightarrow> (\<exists>t u. s = t @ u \<and> in_lang r (c # t) \<and> in_lang q u)"
    using RSeq.IH(1) by (auto simp: in_seq_iff)
  then show ?case
    using RSeq.IH(2) by (auto simp: in_seq_Cons nullable_lang)
next
  case (RStar r)
  show ?case
  proof
    assume "in_lang (deriv c (RStar r)) s"
    then obtain t u where "s = t @ u" "in_lang r (c # t)" "in_lang (RStar r) u"
      using RStar.IH by (auto simp: in_seq_iff)
    then show "in_lang (RStar r) (c # s)"
      using in_star_app [of r "c # t" u] by simp
  next
    assume "in_lang (RStar r) (c # s)"
    then show "in_lang (deriv c (RStar r)) s"
      using RStar.IH in_star_ConsD [of r c s] by (auto simp: in_seq_iff)
  qed
qed auto

lemma rex_match_lang: "rex_match r s \<longleftrightarrow> in_lang r s"
  by (induction s arbitrary: r) (simp_all add: nullable_lang deriv_lang)

lemma in_opt_NL: "in_lang (ropt (rchr NL)) t \<longleftrightarrow> t = [] \<or> t = [NL]"
  by (auto simp: ropt_def rchr_def)

lemma re_match_lang: "re_match r s \<longleftrightarrow> in_lang r s \<or> (\<exists>t. s = t @ [NL] \<and> in_lang r t)"
  unfolding re_match_def rex_match_lang in_seq_iff in_opt_NL by auto

text \<open>A string of a language uses the characters the classes of the expression admit.\<close>

fun rchars :: "rex \<Rightarrow> char \<Rightarrow> bool" where
  "rchars RZero c = False"
| "rchars ROne c = False"
| "rchars (RCls p) c = p c"
| "rchars (RSeq r q) c = (rchars r c \<or> rchars q c)"
| "rchars (RAlt r q) c = (rchars r c \<or> rchars q c)"
| "rchars (RStar r) c = rchars r c"

lemma in_lang_rchars: "in_lang r s \<Longrightarrow> c \<in> set s \<Longrightarrow> rchars r c"
  by (induction rule: in_lang.induct) auto

lemma re_match_chars: "re_match r s \<Longrightarrow> c \<in> set s \<Longrightarrow> c \<noteq> NL \<Longrightarrow> rchars r c"
  by (auto simp: re_match_lang dest: in_lang_rchars)

end
