(* ===== verification/RPSL_Fields.thy ===== *)
theory RPSL_Fields
  imports RPSL_Schema RPSL_State AS_Numbers Py_Regex
begin

text \<open>
  \<^verbatim>\<open>irrd/rpsl/fields.py\<close>: the parsers of the RPSL field classes. A parser takes the normalised
  value, the messages collected so far and the strictness, and returns the parse result, if
  any, with the messages after the call, or an exception that the source does not catch.
\<close>

type_synonym 'ip field_res = "('ip parse_result option \<times> messages) res"

definition parsed :: "'ip parse_result \<Rightarrow> messages \<Rightarrow> 'ip field_res" where
  "parsed r ms = Inr (Some r, ms)"

definition failed :: "string \<Rightarrow> messages \<Rightarrow> 'ip field_res" where
  "failed msg ms = Inr (None, msg_error msg ms)"

definition info_if :: "bool \<Rightarrow> string \<Rightarrow> messages \<Rightarrow> messages" where
  "info_if b msg ms = (if b then msg_info msg ms else ms)"

section \<open>Regular expressions\<close>

definition isalpha :: "char \<Rightarrow> bool" where
  "isalpha c \<longleftrightarrow> islower c \<or> isupper c"

definition rdigits :: rex where
  "rdigits = rplus (RCls isdigit)"

definition rdotted :: rex where
  "rdotted = rseqs [rdigits, rchr CHR ''.'', rdigits, rchr CHR ''.'', rdigits, rchr CHR ''.'', rdigits]"

definition re_ipv4_prefix :: rex where
  "re_ipv4_prefix = rseqs [rdotted, rchr CHR ''/'', rdigits]"

definition ipv6_char :: "char \<Rightarrow> bool" where
  "ipv6_char c \<longleftrightarrow> upper_char c \<in> set ''ABCDEF'' \<or> isdigit c \<or> c = CHR '':''"

definition re_ipv6_prefix :: rex where
  "re_ipv6_prefix =
     rseqs [rplus (RCls ipv6_char),
            rchr CHR ''/'', rdigits]"

text \<open>
  The class \<open>[A-f\d:]\<close> of \<open>re_email\<close> is the range from \<open>A\<close> to lower case \<open>f\<close>, which
  under \<open>IGNORECASE\<close> also admits the other lower case letters.
\<close>

definition email_local_char :: "char \<Rightarrow> bool" where
  "email_local_char c \<longleftrightarrow>
     isalpha c \<or> isdigit c \<or> c \<in> set (CHR 0x22 # ''$!#%&*+/=?^_`{|}~.-'') \<or> ord c = 92"

definition email_domain_char :: "char \<Rightarrow> bool" where
  "email_domain_char c \<longleftrightarrow> isalpha c \<or> isdigit c \<or> c \<in> set ''.-'' \<or> ord c = 92"

definition email_ipv6_char :: "char \<Rightarrow> bool" where
  "email_ipv6_char c \<longleftrightarrow> 65 \<le> ord c \<and> ord c \<le> 122 \<or> isdigit c \<or> c = CHR '':''"

definition re_email :: rex where
  "re_email =
     rseqs [rplus (RCls email_local_char),
            rchr CHR ''@'',
            RAlt (rplus (RCls email_domain_char))
              (RAlt (rseqs [rchr CHR ''['', rdotted, rchr CHR '']''])
                 (rseqs [rchr CHR ''['',
                         rplus (RCls email_ipv6_char),
                         rchr CHR '']'']))]"

definition upper_hex_char :: "char \<Rightarrow> bool" where
  "upper_hex_char c \<longleftrightarrow> c \<in> set ''ABCDEF'' \<or> isdigit c"

definition re_pgpkey :: rex where
  "re_pgpkey = RSeq (rlit ''PGPKEY-'') (rrep 8 (RCls upper_hex_char))"

definition isalnum :: "char \<Rightarrow> bool" where
  "isalnum c \<longleftrightarrow> isalpha c \<or> isdigit c"

definition ralnum :: rex where
  "ralnum = RCls isalnum"

definition dns_char :: "char \<Rightarrow> bool" where
  "dns_char c \<longleftrightarrow> isalnum c \<or> c = CHR ''-''"

definition name_char :: "char \<Rightarrow> bool" where
  "name_char c \<longleftrightarrow> isalnum c \<or> c = CHR ''_'' \<or> c = CHR ''-''"

definition rdnslabel :: rex where
  "rdnslabel =
     RAlt ralnum (rseqs [ralnum, RStar (RCls dns_char), ralnum])"

definition re_dnsname :: rex where
  "re_dnsname = RSeq (RStar (RSeq rdnslabel (rchr CHR ''.''))) rdnslabel"

definition re_generic_name :: rex where
  "re_generic_name =
     rseqs [RCls isalpha, RStar (RCls name_char), ralnum]"

text \<open>
  The groups of \<open>re_range_operator\<close>: \<open>start\<close> and \<open>end\<close>, or \<open>single\<close>, or none of them
  for a minus or a plus sign. As \<open>$\<close> allows it, one final line feed is ignored.
\<close>

datatype range_match = RangeStartEnd string string | RangeSingle string | RangeSign

definition chomp :: "string \<Rightarrow> string" where
  "chomp s = (if s \<noteq> [] \<and> last s = NL then butlast s else s)"

definition range_digits :: "string \<Rightarrow> bool" where
  "range_digits s \<longleftrightarrow> s \<noteq> [] \<and> length s \<le> 3 \<and> list_all isdigit s"

definition match_range_operator :: "string \<Rightarrow> range_match option" where
  "match_range_operator s0 =
     (let s = chomp s0 in
      if s = ''-'' \<or> s = ''+'' then Some RangeSign
      else if range_digits s then Some (RangeSingle s)
      else (case py_split CHR ''-'' s of
              [a, b] \<Rightarrow> if range_digits a \<and> range_digits b then Some (RangeStartEnd a b) else None
            | _ \<Rightarrow> None))"

section \<open>Constants\<close>

definition reserved_words :: "string list" where
  "reserved_words = [''ANY'', ''AS-ANY'', ''RS_ANY'', ''PEERAS'', ''AND'', ''OR'', ''NOT'', ''ATOMIC'',
     ''FROM'', ''TO'', ''AT'', ''ACTION'', ''ACCEPT'', ''ANNOUNCE'', ''EXCEPT'', ''REFINE'', ''NETWORKS'',
     ''INTO'', ''INBOUND'', ''OUTBOUND'']"

definition reserved_prefixes :: "string list" where
  "reserved_prefixes = [''AS-'', ''RS-'', ''RTRS-'', ''FLTR-'', ''PRNG-'']"

text \<open>\<open>NOPRINT_TRANS_TABLE\<close> maps to \<open>None\<close> the characters that \<open>translate\<close> drops.\<close>

definition noprint :: "char \<Rightarrow> bool" where
  "noprint c \<longleftrightarrow> \<not> isprintable c \<and> c \<notin> {NL, CR, TAB}"

section \<open>Parsers of single values\<close>

definition RPSLTextField_parse :: "string \<Rightarrow> messages \<Rightarrow> bool \<Rightarrow> 'ip field_res" where
  "RPSLTextField_parse value ms strict = parsed (parse_result_of (filter (\<lambda>c. \<not> noprint c) value)) ms"

text \<open>The common body of the IPv4 and the IPv6 prefix field.\<close>

definition prefix_parse :: "'ip extlib \<Rightarrow> rex \<Rightarrow> nat \<Rightarrow> nat \<Rightarrow> string \<Rightarrow> string \<Rightarrow> messages \<Rightarrow> 'ip field_res" where
  "prefix_parse L re ver host_length suffix value ms =
     (if \<not> re_match re value then failed (''Invalid address prefix: '' @ value) ms
      else (case IP L value ver of
              Inl ve \<Rightarrow> failed (''Invalid address prefix: '' @ value @ '': '' @ clean_ip_value_error ve) ms
            | Inr ip \<Rightarrow>
                (let parsed_ip_str = ip_str L ip @ (if ip_prefixlen L ip = host_length then suffix else [])
                 in parsed ((parse_result_of parsed_ip_str)\<lparr>pr_ip_first := Some (ip_net L ip),
                       pr_ip_last := Some (ip_broadcast L ip), pr_prefix := Some ip,
                       pr_prefix_length := Some (ip_prefixlen L ip)\<rparr>)
                     (info_if (parsed_ip_str \<noteq> value)
                       (''Address prefix '' @ value @ '' was reformatted as '' @ parsed_ip_str) ms))))"

definition RPSLIPv4PrefixField_parse :: "'ip extlib \<Rightarrow> string \<Rightarrow> messages \<Rightarrow> bool \<Rightarrow> 'ip field_res" where
  "RPSLIPv4PrefixField_parse L value ms strict = prefix_parse L re_ipv4_prefix 4 32 ''/32'' value ms"

definition RPSLIPv6PrefixField_parse :: "'ip extlib \<Rightarrow> string \<Rightarrow> messages \<Rightarrow> bool \<Rightarrow> 'ip field_res" where
  "RPSLIPv6PrefixField_parse L value ms strict = prefix_parse L re_ipv6_prefix 6 128 ''/128'' value ms"

definition address_range_inputs :: "string \<Rightarrow> string \<times> string" where
  "address_range_inputs value =
     (if CHR ''-'' \<in> set value then py_split1 CHR ''-'' value else (value, value))"

definition RPSLIPv4AddressRangeField_parse :: "'ip extlib \<Rightarrow> string \<Rightarrow> messages \<Rightarrow> bool \<Rightarrow> 'ip field_res" where
  "RPSLIPv4AddressRangeField_parse L value0 ms strict =
     (let value = py_replace '','' [] value0;
          (ip1_input, ip2_input) = address_range_inputs value;
          invalid = ''Invalid address range: '' @ value @ '': ''
      in case IP L ip1_input 0 of
           Inl ve \<Rightarrow> failed (invalid @ clean_ip_value_error ve) ms
         | Inr ip1 \<Rightarrow>
             (case IP L ip2_input 0 of
                Inl ve \<Rightarrow> failed (invalid @ clean_ip_value_error ve) ms
              | Inr ip2 \<Rightarrow>
                  if \<not> (ip_version L ip1 = ip_version L ip2 \<and> ip_version L ip2 = 4)
                  then failed (invalid @ ''IP version mismatch'') ms
                  else if ip_int L ip1 > ip_int L ip2
                  then failed (invalid @ ''first IP is higher than second IP'') ms
                  else (let parsed_value = (if CHR ''-'' \<in> set value
                              then ip_str L ip1 @ '' - '' @ ip_str L ip2 else ip_str L ip1)
                        in parsed ((parse_result_of parsed_value)\<lparr>pr_ip_first := Some ip1, pr_ip_last := Some ip2\<rparr>)
                             (info_if (parsed_value \<noteq> value)
                               (''Address range '' @ value @ '' was reformatted as '' @ parsed_value) ms))))"

definition starts_with_any :: "string \<Rightarrow> string list \<Rightarrow> bool" where
  "starts_with_any s prefixes = list_ex (py_startswith s) prefixes"

text \<open>The loop of \<open>parse_set_name\<close> over the components; the accumulator is \<open>output_components\<close>.\<close>

fun set_components :: "string list \<Rightarrow> string \<Rightarrow> bool \<Rightarrow> string list \<Rightarrow> string list \<Rightarrow> string + string list" where
  "set_components prefixes value strict [] out = Inr out"
| "set_components prefixes value strict (component # cs) out =
     (if strict \<and> py_upper component \<in> set reserved_words
      then Inl (''Invalid set name '' @ value @ '': component '' @ component @ '' is a reserved word'')
      else (let parsed_as_number = (case parse_as component of Inl e \<Rightarrow> None | Inr (s, n) \<Rightarrow> Some s)
            in if \<not> re_match re_generic_name (py_upper component) \<and> parsed_as_number = None
               then Inl (''Invalid set '' @ value @ '': component '' @ component
                         @ '' is not a valid AS number nor a valid set name'')
               else if strict \<and> parsed_as_number = None \<and> \<not> starts_with_any (py_upper component) prefixes
               then Inl (''Invalid set '' @ value @ '': component '' @ component
                         @ '' is not a valid AS number, nor does it start with '' @ py_join ''/'' prefixes)
               else set_components prefixes value strict cs
                      (out @ [case parsed_as_number of Some s \<Rightarrow> s | None \<Rightarrow> component])))"

definition parse_set_name :: "string list \<Rightarrow> string \<Rightarrow> messages \<Rightarrow> bool \<Rightarrow> 'ip field_res" where
  "parse_set_name prefixes value ms strict =
     (if \<not> list_all (\<lambda>p. p \<in> set reserved_prefixes) prefixes then Inl (AssertionError ''prefixes'')
      else (let input_components = py_split CHR '':'' value
            in if strict \<and> 5 < length input_components
               then failed ''Set names can have a maximum of five components.'' ms
               else if strict \<and> \<not> list_ex (\<lambda>c. starts_with_any (py_upper c) prefixes) input_components
               then failed (''Invalid set name '' @ value @ '': at least one component must be ''
                      @ ''an actual set name (i.e. start with '' @ py_join ''/'' prefixes @ '')'') ms
               else (case set_components prefixes value strict input_components [] of
                       Inl msg \<Rightarrow> failed msg ms
                     | Inr output_components \<Rightarrow>
                         (let parsed_value = py_join '':'' output_components
                          in parsed (parse_result_of parsed_value)
                               (info_if (parsed_value \<noteq> value)
                                 (''Set name '' @ value @ '' was reformatted as '' @ parsed_value) ms)))))"

definition RPSLSetNameField_parse :: "string \<Rightarrow> string \<Rightarrow> messages \<Rightarrow> bool \<Rightarrow> 'ip field_res" where
  "RPSLSetNameField_parse prefix value ms strict = parse_set_name [prefix @ ''-''] value ms strict"

text \<open>The checks of a range operator against the prefix length; \<open>Some\<close> is the error message.\<close>

definition range_operator_error :: "nat \<Rightarrow> string \<Rightarrow> string \<Rightarrow> string option" where
  "range_operator_error plen range_operator value =
     (if range_operator = [] then None
      else (case match_range_operator range_operator of
              None \<Rightarrow> Some (''Invalid range operator '' @ range_operator @ '' in value: '' @ value)
            | Some RangeSign \<Rightarrow> None
            | Some (RangeSingle s) \<Rightarrow>
                if the (py_int s) < int plen
                then Some (''Invalid range operator: operator length ('' @ s @ '') must be equal ''
                       @ ''to or longer than prefix length ('' @ str_nat plen @ '') '' @ value)
                else None
            | Some (RangeStartEnd a b) \<Rightarrow>
                if the (py_int a) < int plen
                then Some (''Invalid range operator: operator start ('' @ a @ '') must be equal ''
                       @ ''to or longer than prefix length ('' @ str_nat plen @ '') '' @ value)
                else if the (py_int b) < the (py_int a)
                then Some (''Invalid range operator: operator end ('' @ b @ '') must be equal ''
                       @ ''to or longer than operator start ('' @ a @ '') '' @ value)
                else None))"

definition with_operator :: "string \<Rightarrow> string \<Rightarrow> string" where
  "with_operator s range_operator = (if range_operator \<noteq> [] then s @ ''^'' @ range_operator else s)"

definition member_result :: "string \<Rightarrow> string \<Rightarrow> messages \<Rightarrow> 'ip field_res" where
  "member_result result_value value ms =
     parsed (parse_result_of result_value)
       (info_if (result_value \<noteq> value)
         (''Route set member '' @ value @ '' was reformatted as '' @ result_value) ms)"

definition member_prefix :: "'ip extlib \<Rightarrow> nat option \<Rightarrow> string \<Rightarrow> string \<Rightarrow> string \<Rightarrow> messages \<Rightarrow> 'ip field_res" where
  "member_prefix L ipv address range_operator value ms =
     (case IP L address (case ipv of None \<Rightarrow> 0 | Some v \<Rightarrow> v) of
        Inl ve \<Rightarrow> failed (''Value is neither a valid set name nor a valid prefix: '' @ address @ '': ''
                    @ clean_ip_value_error ve) ms
      | Inr ip \<Rightarrow>
          (case range_operator_error (ip_prefixlen L ip) range_operator value of
             Some msg \<Rightarrow> failed msg ms
           | None \<Rightarrow>
               member_result (with_operator (ip_str L ip
                   @ (if ip_version L ip = 4 \<and> ip_prefixlen L ip = 32 then ''/32'' else [])
                   @ (if ip_version L ip = 6 \<and> ip_prefixlen L ip = 128 then ''/128'' else [])) range_operator)
                 value ms))"

definition RPSLRouteSetMemberField_parse :: "'ip extlib \<Rightarrow> nat option \<Rightarrow> string \<Rightarrow> messages \<Rightarrow> bool \<Rightarrow> 'ip field_res" where
  "RPSLRouteSetMemberField_parse L ipv value ms strict =
     (let (address, range_operator) =
            (if CHR ''^'' \<in> set value then py_split1 CHR ''^'' value else (value, []))
      in if CHR ''^'' \<in> set value \<and> range_operator = []
         then failed (''Missing range operator in value: '' @ value) ms
         else rbind (parse_set_name [''RS-'', ''AS-''] address [] strict :: 'ip field_res) (\<lambda>(set_result, set_messages).
           case set_result of
             Some r \<Rightarrow>
               if errors set_messages = []
               then member_result (with_operator (pr_value r) range_operator) value ms
               else (case parse_as address of
                       Inr (s, n) \<Rightarrow> member_result (with_operator s range_operator) value ms
                     | Inl e \<Rightarrow> member_prefix L ipv address range_operator value ms)
           | None \<Rightarrow>
               (case parse_as address of
                  Inr (s, n) \<Rightarrow> member_result (with_operator s range_operator) value ms
                | Inl e \<Rightarrow> member_prefix L ipv address range_operator value ms)))"

fun exn_str :: "exn \<Rightarrow> string" where
  "exn_str (ValueError s) = s"
| "exn_str (ValidationError s) = s"
| "exn_str (KeyError s) = s"
| "exn_str (AttributeError s) = s"
| "exn_str (TypeError s) = s"
| "exn_str (IndexError s) = s"
| "exn_str (RuntimeError s) = s"
| "exn_str (AssertionError s) = s"
| "exn_str (UnknownRPSLObjectClassException s) = s"
| "exn_str (ROAParserException s) = s"
| "exn_str (NRTMGeneratorException s) = s"
| "exn_str (RPSLImportError s) = s"
| "exn_str (InvalidQueryException s) = s"
| "exn_str (WhoisQueryError s) = s"
| "exn_str (DatabaseError s) = s"
| "exn_str (GenericException s) = s"
| "exn_str StopIteration = []"

definition RPSLASNumberField_parse :: "string \<Rightarrow> messages \<Rightarrow> bool \<Rightarrow> 'ip field_res" where
  "RPSLASNumberField_parse value ms strict =
     (case parse_as value of
        Inl ve \<Rightarrow> failed (exn_str ve) ms
      | Inr (parsed_str, parsed_int) \<Rightarrow>
          parsed ((parse_result_of parsed_str)\<lparr>pr_asn_first := Some parsed_int, pr_asn_last := Some parsed_int\<rparr>)
            (info_if (parsed_str \<noteq> [] \<and> py_upper parsed_str \<noteq> py_upper value)
              (''AS number '' @ value @ '' was reformatted as '' @ parsed_str) ms))"

definition RPSLASBlockField_parse :: "string \<Rightarrow> messages \<Rightarrow> bool \<Rightarrow> 'ip field_res" where
  "RPSLASBlockField_parse value ms strict =
     (if CHR ''-'' \<notin> set value
      then failed (''Invalid AS range: '' @ value @ '': does not contain a hyphen'') ms
      else (let (as1_raw, as2_raw) = py_split1 CHR ''-'' value
            in case parse_as (py_strip as1_raw) of
                 Inl ve \<Rightarrow> failed (exn_str ve) ms
               | Inr (as1_str, as1_int) \<Rightarrow>
                   (case parse_as (py_strip as2_raw) of
                      Inl ve \<Rightarrow> failed (exn_str ve) ms
                    | Inr (as2_str, as2_int) \<Rightarrow>
                        if as1_int > as2_int
                        then failed (''Invalid AS range: '' @ value @ '': first AS is higher then second AS'') ms
                        else (let parsed_value = as1_str @ '' - '' @ as2_str
                              in parsed ((parse_result_of parsed_value)\<lparr>pr_asn_first := Some as1_int,
                                    pr_asn_last := Some as2_int\<rparr>)
                                  (info_if (parsed_value \<noteq> value)
                                    (''AS range '' @ value @ '' was reformatted as '' @ parsed_value) ms)))))"

definition RPSLEmailField_parse :: "string \<Rightarrow> messages \<Rightarrow> bool \<Rightarrow> 'ip field_res" where
  "RPSLEmailField_parse value ms strict =
     (if \<not> re_match re_email value then failed (''Invalid e-mail address: '' @ value) ms
      else parsed (parse_result_of value) ms)"

section \<open>Dates of changed lines\<close>

text \<open>\<open>repr\<close> of a string, as the error message of \<open>strptime\<close> shows it.\<close>

definition hex_digit :: "nat \<Rightarrow> char" where
  "hex_digit n = (if n < 10 then chr (48 + n) else chr (87 + n))"

definition repr_char :: "char \<Rightarrow> char \<Rightarrow> string" where
  "repr_char quote c =
     (let bs = chr 92 in
      if c = quote \<or> c = bs then [bs, c]
      else if c = NL then [bs, CHR ''n''] else if c = CR then [bs, CHR ''r'']
      else if c = TAB then [bs, CHR ''t'']
      else if \<not> isprintable c then [bs, CHR ''x'', hex_digit (ord c div 16), hex_digit (ord c mod 16)]
      else [c])"

definition py_repr :: "string \<Rightarrow> string" where
  "py_repr s =
     (let quote = (if CHR 0x27 \<in> set s \<and> CHR 0x22 \<notin> set s then CHR 0x22 else CHR 0x27)
      in [quote] @ concat (map (repr_char quote) s) @ [quote])"

text \<open>
  The directives of \<open>strptime\<close> for month and day: what each alternative of its regular
  expression, in order, takes off the string. The match is the first combination that works.
\<close>

definition take_if :: "nat \<Rightarrow> (string \<Rightarrow> bool) \<Rightarrow> string \<Rightarrow> (string \<times> string) list" where
  "take_if n p s = (if length (take n s) = n \<and> p (take n s) then [(take n s, drop n s)] else [])"

definition in_range :: "char \<Rightarrow> nat \<Rightarrow> nat \<Rightarrow> bool" where
  "in_range c lo hi \<longleftrightarrow> isdigit c \<and> lo \<le> digit_val c \<and> digit_val c \<le> hi"

definition strptime_months :: "string \<Rightarrow> (string \<times> string) list" where
  "strptime_months s =
     take_if 2 (\<lambda>t. hd t = CHR ''1'' \<and> in_range (t ! 1) 0 2) s
     @ take_if 2 (\<lambda>t. hd t = CHR ''0'' \<and> in_range (t ! 1) 1 9) s
     @ take_if 1 (\<lambda>t. in_range (hd t) 1 9) s"

definition strptime_days :: "string \<Rightarrow> (string \<times> string) list" where
  "strptime_days s =
     take_if 2 (\<lambda>t. hd t = CHR ''3'' \<and> in_range (t ! 1) 0 1) s
     @ take_if 2 (\<lambda>t. in_range (hd t) 1 2 \<and> isdigit (t ! 1)) s
     @ take_if 2 (\<lambda>t. hd t = CHR ''0'' \<and> in_range (t ! 1) 1 9) s
     @ take_if 1 (\<lambda>t. in_range (hd t) 1 9) s
     @ take_if 2 (\<lambda>t. hd t = CHR '' '' \<and> in_range (t ! 1) 1 9) s"

definition strptime_fields :: "string \<Rightarrow> (nat \<times> nat \<times> nat \<times> string) option" where
  "strptime_fields s =
     (let int' = (\<lambda>t. nat (the (py_int t)));
          matches = [(int' y, int' m, int' d, r2). (y, r0) \<leftarrow> take_if 4 (list_all isdigit) s,
                       (m, r1) \<leftarrow> strptime_months r0, (d, r2) \<leftarrow> strptime_days r1]
      in case matches of [] \<Rightarrow> None | x # xs \<Rightarrow> Some x)"

definition leap_year :: "nat \<Rightarrow> bool" where
  "leap_year y \<longleftrightarrow> y mod 4 = 0 \<and> (y mod 100 \<noteq> 0 \<or> y mod 400 = 0)"

definition days_in_month :: "nat \<Rightarrow> nat \<Rightarrow> nat" where
  "days_in_month y m =
     (if m = 2 then (if leap_year y then 29 else 28)
      else if m \<in> {4, 6, 9, 11} then 30 else 31)"

text \<open>The text of the \<open>ValueError\<close> of \<open>datetime.strptime(date, "%Y%m%d")\<close>, if it raises one.\<close>

definition strptime_error :: "string \<Rightarrow> string option" where
  "strptime_error date =
     (case strptime_fields date of
        None \<Rightarrow> Some (''time data '' @ py_repr date @ '' does not match format '' @ py_repr ''%Y%m%d'')
      | Some (y, m, d, rest) \<Rightarrow>
          if rest \<noteq> [] then Some (''unconverted data remains: '' @ rest)
          else if y = 0 then Some ''year 0 is out of range''
          else if days_in_month y m < d then Some ''day is out of range for month''
          else None)"

definition RPSLChangedField_parse :: "string \<Rightarrow> messages \<Rightarrow> bool \<Rightarrow> 'ip field_res" where
  "RPSLChangedField_parse value ms strict =
     (let (email, date) = (case py_split CHR '' '' value of [e, d] \<Rightarrow> (e, d) | _ \<Rightarrow> (value, []))
      in if \<not> re_match re_email email then failed (''Invalid e-mail address: '' @ email) ms
         else if date \<noteq> []
         then (case strptime_error date of
                 Some ve \<Rightarrow> failed (''Invalid changed date: '' @ date @ '': '' @ ve) ms
               | None \<Rightarrow> parsed (parse_result_of value) ms)
         else parsed (parse_result_of value) ms)"

definition RPSLDNSNameField_parse :: "string \<Rightarrow> messages \<Rightarrow> bool \<Rightarrow> 'ip field_res" where
  "RPSLDNSNameField_parse value ms strict =
     (if \<not> re_match re_dnsname value then failed (''Invalid DNS name: '' @ value) ms
      else parsed (parse_result_of value) ms)"

section \<open>URLs\<close>

text \<open>
  What \<open>urlparse\<close> computes of scheme and network location. Leading control characters and
  spaces and every tab, carriage return and line feed are dropped; the scheme is what precedes
  the first colon when it starts with a letter and has only scheme characters; the network
  location runs from two slashes to the next slash, question mark or hash. Unbalanced brackets
  in it, or a bracketed host that is refused, raise a \<open>ValueError\<close>.
\<close>

definition scheme_char :: "char \<Rightarrow> bool" where
  "scheme_char c \<longleftrightarrow> isalpha c \<or> isdigit c \<or> c \<in> set ''+-.''"

definition url_clean :: "string \<Rightarrow> string" where
  "url_clean s = filter (\<lambda>c. c \<notin> {TAB, CR, NL}) (lstrip_by (\<lambda>c. ord c \<le> 32) s)"

definition url_scheme :: "string \<Rightarrow> string \<times> string" where
  "url_scheme url =
     (let pre = takeWhile (\<lambda>c. c \<noteq> CHR '':'') url
      in if CHR '':'' \<in> set url \<and> pre \<noteq> [] \<and> isalpha (hd pre) \<and> list_all scheme_char pre
         then (py_lower pre, drop (length pre + 1) url) else ([], url))"

definition urlparse :: "'ip extlib \<Rightarrow> string \<Rightarrow> (string \<times> string) res" where
  "urlparse L value =
     (let (scheme, rest) = url_scheme (url_clean value)
      in if \<not> py_startswith rest ''//'' then Inr (scheme, [])
         else (let netloc = takeWhile (\<lambda>c. c \<notin> set ''/?#'') (drop 2 rest);
                   opening = CHR ''['' \<in> set netloc; closing = CHR '']'' \<in> set netloc
               in if opening \<noteq> closing then Inl (ValueError ''Invalid IPv6 URL'')
                  else if opening \<and> \<not> bracketed_host_ok L netloc
                  then Inl (ValueError ''Invalid bracketed host'')
                  else Inr (scheme, netloc)))"

definition permitted_schemes :: "string list" where
  "permitted_schemes = [''http'', ''https'']"

definition RPSLURLField_parse :: "'ip extlib \<Rightarrow> string \<Rightarrow> messages \<Rightarrow> bool \<Rightarrow> 'ip field_res" where
  "RPSLURLField_parse L value ms strict =
     rbind (urlparse L value) (\<lambda>(scheme, netloc).
       if scheme \<in> set permitted_schemes \<and> netloc \<noteq> [] then parsed (parse_result_of value) ms
       else failed (''Invalid '' @ py_join ''/'' permitted_schemes @ '' URL: '' @ value) ms)"

section \<open>Names and authentication lines\<close>

fun reserved_prefix_error :: "string list \<Rightarrow> string list \<Rightarrow> string \<Rightarrow> string option" where
  "reserved_prefix_error [] allowed upper_value = None"
| "reserved_prefix_error (prefix # ps) allowed upper_value =
     (if py_startswith upper_value prefix \<and> prefix \<notin> set allowed then Some prefix
      else reserved_prefix_error ps allowed upper_value)"

definition generic_name_syntax :: "string \<Rightarrow> messages \<Rightarrow> 'ip field_res" where
  "generic_name_syntax value ms =
     (if \<not> re_match re_generic_name value
      then failed (''Invalid name: '' @ value
             @ '': contains invalid characters, does not start with a letter, or does not end in a letter/digit'') ms
      else parsed (parse_result_of value) ms)"

definition RPSLGenericNameField_parse :: "string list \<Rightarrow> bool \<Rightarrow> string \<Rightarrow> messages \<Rightarrow> bool \<Rightarrow> 'ip field_res" where
  "RPSLGenericNameField_parse allowed_prefixes non_strict_allow_any value ms strict =
     (let allowed = map (\<lambda>p. py_upper p @ ''-'') allowed_prefixes; upper_value = py_upper value
      in if \<not> strict \<and> non_strict_allow_any then parsed (parse_result_of value) ms
         else if strict
         then (if upper_value \<in> set reserved_words
               then failed (''Invalid name: '' @ value @ '': this is a reserved word'') ms
               else (case reserved_prefix_error reserved_prefixes allowed upper_value of
                       Some prefix \<Rightarrow>
                         failed (''Invalid name: '' @ value @ '': '' @ prefix @ '' is a reserved prefix'') ms
                     | None \<Rightarrow> generic_name_syntax value ms))
         else generic_name_syntax value ms)"

definition RPSLAuthField_parse :: "settings \<Rightarrow> string \<Rightarrow> messages \<Rightarrow> bool \<Rightarrow> 'ip field_res" where
  "RPSLAuthField_parse gs value ms strict =
     rbind (get_password_hashers gs (\<not> strict)) (\<lambda>hashers.
       (let has_valid_beginning = list_ex (\<lambda>h. py_startswith (py_upper value) (h @ '' '')) hashers;
            is_valid_hash = (has_valid_beginning \<and> count_list value CHR '' '' = 1 \<and> CHR '','' \<notin> set value)
        in if is_valid_hash \<or> re_match re_pgpkey (py_upper value) \<or> value = RPSL_MNTNER_AUTH_INTERNAL
           then parsed (parse_result_of value) ms
           else failed (''Invalid auth attribute: '' @ value @ '': supported options are ''
                  @ py_join '', '' hashers @ '', PGPKEY-xxxxxxxx and '' @ RPSL_MNTNER_AUTH_INTERNAL
                  @ '' for migrated objects'') ms))"

section \<open>Lists and references\<close>

type_synonym 'ip parser = "string \<Rightarrow> messages \<Rightarrow> bool \<Rightarrow> 'ip field_res"

text \<open>
  The loop of \<open>RPSLFieldListMixin.parse\<close>: every non-empty piece is parsed, also after a
  failure. The result is \<open>None\<close> when some piece failed.
\<close>

fun list_pieces :: "'ip parser \<Rightarrow> string list \<Rightarrow> messages \<Rightarrow> bool
    \<Rightarrow> ('ip parse_result option list \<times> messages) res" where
  "list_pieces super [] ms strict = Inr ([], ms)"
| "list_pieces super (p # ps) ms strict =
     (let single_value = py_strip p
      in if single_value \<noteq> []
         then rbind (super single_value ms strict) (\<lambda>(r, ms1).
                rbind (list_pieces super ps ms1 strict) (\<lambda>(rs, ms2). Inr (r # rs, ms2)))
         else list_pieces super ps ms strict)"

definition RPSLFieldListMixin_parse :: "'ip parser \<Rightarrow> 'ip parser" where
  "RPSLFieldListMixin_parse super value ms strict =
     rbind (list_pieces super (py_split CHR '','' value) ms strict) (\<lambda>(rs, ms').
       if list_ex (\<lambda>r. r = None) rs then Inr (None, ms')
       else (let values = map (\<lambda>r. pr_value (the r)) rs
             in parsed ((parse_result_of (py_join '','' values))\<lparr>pr_values_list := Some values\<rparr>) ms'))"

text \<open>The method of a field class whose parent's method is \<open>super\<close>.\<close>

fun with_mixin :: "field_kind \<Rightarrow> 'ip parser \<Rightarrow> 'ip parser" where
  "with_mixin k super value ms strict =
     (case k of
        RPSLReferenceListField allow_kw_any refs s \<Rightarrow>
          if allow_kw_any \<and> py_upper value = ''ANY''
          then parsed ((parse_result_of ''ANY'')\<lparr>pr_values_list := Some [''ANY'']\<rparr>) ms
          else RPSLFieldListMixin_parse super value ms strict
      | _ \<Rightarrow> if is_list_field k then RPSLFieldListMixin_parse super value ms strict
             else super value ms strict)"

text \<open>The loop of \<open>RPSLReferenceField.parse\<close> over the identifier fields.\<close>

fun first_identifier :: "(field \<Rightarrow> 'ip parser) \<Rightarrow> field list \<Rightarrow> string \<Rightarrow> messages \<Rightarrow> bool \<Rightarrow> 'ip field_res" where
  "first_identifier parse [] value ref_ms strict = Inr (None, ref_ms)"
| "first_identifier parse (f # fs) value ref_ms strict =
     rbind (parse f value ref_ms strict) (\<lambda>(r, ref_ms').
       case r of Some v \<Rightarrow> Inr (Some v, ref_ms')
               | None \<Rightarrow> first_identifier parse fs value ref_ms' strict)"

lemma first_identifier_cong [fundef_cong]:
  assumes "fs = fs'" "\<And>f. f \<in> set fs' \<Longrightarrow> p f = q f"
  shows "first_identifier p fs = first_identifier q fs'"
proof -
  have "first_identifier p fs v ms s = first_identifier q fs v ms s" for v ms s
    using assms(2) unfolding assms(1) [symmetric]
    by (induction fs arbitrary: ms) (auto intro!: rbind_cong split: option.splits)
  with assms(1) show ?thesis by blast
qed

text \<open>
  An identifier field of a referred class is never a reference itself, so that the parser of a
  reference ends.
\<close>

definition identifier_fields :: "rpsl_class \<Rightarrow> field list" where
  "identifier_fields c = filter (\<lambda>f. primary_key f \<and> lookup_key f) (map snd (class_fields c))"

lemma identifier_not_reference_all:
  "list_all (\<lambda>nc. list_all (\<lambda>f. referring (kind f) = None \<and> \<not> is_list_field (kind f))
     (identifier_fields (snd nc))) OBJECT_CLASS_MAPPING"
  by code_simp

lemma resolve_references_identifier:
  "resolve_references refs = Inr fs \<Longrightarrow> f \<in> set fs \<Longrightarrow> referring (kind f) = None \<and> \<not> is_list_field (kind f)"
proof (induction refs arbitrary: fs)
  case (Cons r refs)
  then obtain c g gs fs' where c: "dict_get OBJECT_CLASS_MAPPING r = Some c"
    and g: "filter (\<lambda>f. primary_key f \<and> lookup_key f) (map snd (class_fields c)) = g # gs"
    and fs': "resolve_references refs = Inr fs'" "fs = g # fs'"
    by (auto simp: rbind_Inr_conv split: option.splits list.splits)
  from g have "g \<in> set (identifier_fields c)" by (simp add: identifier_fields_def)
  with c identifier_not_reference_all have "referring (kind g) = None \<and> \<not> is_list_field (kind g)"
    by (auto simp: list_all_iff dict_get_def dest: map_of_SomeD)
  with Cons fs' show ?case by auto
qed simp

function parse_single :: "'ip extlib \<Rightarrow> settings \<Rightarrow> field_kind \<Rightarrow> 'ip parser" where
  "parse_single L gs k value ms strict =
     (case k of
        RPSLTextField \<Rightarrow> RPSLTextField_parse value ms strict
      | RPSLIPv4PrefixField \<Rightarrow> RPSLIPv4PrefixField_parse L value ms strict
      | RPSLIPv4PrefixesField \<Rightarrow> RPSLIPv4PrefixField_parse L value ms strict
      | RPSLIPv6PrefixField \<Rightarrow> RPSLIPv6PrefixField_parse L value ms strict
      | RPSLIPv6PrefixesField \<Rightarrow> RPSLIPv6PrefixField_parse L value ms strict
      | RPSLIPv4AddressRangeField \<Rightarrow> RPSLIPv4AddressRangeField_parse L value ms strict
      | RPSLRouteSetMembersField v \<Rightarrow> RPSLRouteSetMemberField_parse L v value ms strict
      | RPSLASNumberField \<Rightarrow> RPSLASNumberField_parse value ms strict
      | RPSLASBlockField \<Rightarrow> RPSLASBlockField_parse value ms strict
      | RPSLSetNameField p \<Rightarrow> RPSLSetNameField_parse p value ms strict
      | RPSLEmailField \<Rightarrow> RPSLEmailField_parse value ms strict
      | RPSLChangedField \<Rightarrow> RPSLChangedField_parse value ms strict
      | RPSLDNSNameField \<Rightarrow> RPSLDNSNameField_parse value ms strict
      | RPSLURLField \<Rightarrow> RPSLURLField_parse L value ms strict
      | RPSLGenericNameField a n \<Rightarrow> RPSLGenericNameField_parse a n value ms strict
      | RPSLAuthField \<Rightarrow> RPSLAuthField_parse gs value ms strict
      | RPSLReferenceField refs s \<Rightarrow>
          rbind (resolve_references refs) (\<lambda>fs.
            rbind (first_identifier (\<lambda>f. with_mixin (kind f) (parse_single L gs (kind f))) fs value [] strict)
              (\<lambda>(r, ref_ms). case r of Some v \<Rightarrow> Inr (Some v, ms)
                                     | None \<Rightarrow> Inr (None, merge_messages ref_ms ms)))
      | RPSLReferenceListField a refs s \<Rightarrow>
          rbind (resolve_references refs) (\<lambda>fs.
            rbind (first_identifier (\<lambda>f. with_mixin (kind f) (parse_single L gs (kind f))) fs value [] strict)
              (\<lambda>(r, ref_ms). case r of Some v \<Rightarrow> Inr (Some v, ms)
                                     | None \<Rightarrow> Inr (None, merge_messages ref_ms ms))))"
  by pat_completeness auto
termination
  by (relation "measure (\<lambda>(L, gs, k, rest). case referring k of None \<Rightarrow> 0 | Some r \<Rightarrow> Suc 0)")
     (auto dest: resolve_references_identifier)

declare parse_single.simps [simp del]

text \<open>The method \<open>parse\<close> of a field, as the object parser calls it.\<close>

definition parse_field :: "'ip extlib \<Rightarrow> settings \<Rightarrow> field \<Rightarrow> 'ip parser" where
  "parse_field L gs f = with_mixin (kind f) (parse_single L gs (kind f))"

end
