(* ===== verification/RPSL_Field_Facts.thy ===== *)
theory RPSL_Field_Facts
  imports RPSL_Fields
begin

text \<open>
  The contract between the object parser and the field parsers, as a locale, and its
  interpretation on the parser of every field of the schema; the values that parsers return.
\<close>

named_theorems field_parse \<open>definitions of the single value parsers\<close>

section \<open>The contract of a field parser\<close>

text \<open>
  A parser may only append to the messages, what it appends and returns does not depend on the
  messages before, and it returns nothing exactly when it appended an error.
\<close>

locale field_contract =
  fixes parse :: "string \<Rightarrow> messages \<Rightarrow> bool \<Rightarrow> ('ip parse_result option \<times> messages) res"
  assumes appends: "parse v ms s = rbind (parse v [] s) (\<lambda>(r, new). Inr (r, ms @ new))"
    and verdict: "parse v [] s = Inr (r, new) \<Longrightarrow> (r = None) = (errors new \<noteq> [])"
begin

lemma run: "parse v ms s = Inr (r, ms') \<longleftrightarrow> (\<exists>new. parse v [] s = Inr (r, new) \<and> ms' = ms @ new)"
  by (subst appends) (auto simp: rbind_Inr_conv)

lemma extends: "parse v ms s = Inr (r, ms') \<Longrightarrow> \<exists>new. ms' = ms @ new \<and> (r = None) = (errors new \<noteq> [])"
  using run verdict by metis

lemma errors_kept: "parse v ms s = Inr (Some r, ms') \<Longrightarrow> errors ms' = errors ms"
  using extends by fastforce

lemma raises: "parse v ms s = Inl e \<longleftrightarrow> parse v [] s = Inl e"
  by (subst appends) (cases "parse v [] s", auto)

lemma pieces_appends:
  "list_pieces parse ps ms s = rbind (list_pieces parse ps [] s) (\<lambda>(rs, new). Inr (rs, ms @ new))"
proof (induction ps arbitrary: ms)
  case (Cons p ps)
  show ?case
  proof (cases "py_strip p = []")
    case True
    with Cons [of ms] show ?thesis by simp
  next
    case False
    show ?thesis
    proof (cases "parse (py_strip p) [] s")
      case (Inl e)
      then have "parse (py_strip p) ms s = Inl e" using raises by blast
      with Inl False show ?thesis by (simp add: Let_def)
    next
      case (Inr x)
      obtain r new where x: "x = (r, new)" by fastforce
      from Inr x have p: "parse (py_strip p) ms s = Inr (r, ms @ new)" for ms
        by (subst appends) simp
      have "list_pieces parse (p # ps) m s
          = rbind (list_pieces parse ps [] s) (\<lambda>(rs, new'). Inr (r # rs, m @ new @ new'))" for m
        using False Cons [of "m @ new"]
        by (cases "list_pieces parse ps [] s") (auto simp: Let_def p)
      from this [of ms] this [of "[]"] show ?thesis
        by (cases "list_pieces parse ps [] s") auto
    qed
  qed
qed simp

lemma pieces_verdict:
  "list_pieces parse ps ms s = Inr (rs, ms') \<Longrightarrow>
   \<exists>new. ms' = ms @ new \<and> list_ex (\<lambda>r. r = None) rs = (errors new \<noteq> [])"
proof (induction ps arbitrary: ms rs)
  case (Cons p ps)
  show ?case
  proof (cases "py_strip p = []")
    case True
    with Cons show ?thesis by simp
  next
    case False
    with Cons.prems obtain r ms1 rs1 where
      p: "parse (py_strip p) ms s = Inr (r, ms1)" and
      ps: "list_pieces parse ps ms1 s = Inr (rs1, ms')" and rs: "rs = r # rs1"
      by (auto simp: Let_def rbind_Inr_conv)
    from extends [OF p] Cons.IH [OF ps] rs show ?thesis by fastforce
  qed
qed simp

lemma mixin_contract: "field_contract (RPSLFieldListMixin_parse parse)"
proof
  fix v ms s
  show "RPSLFieldListMixin_parse parse v ms s
      = rbind (RPSLFieldListMixin_parse parse v [] s) (\<lambda>(r, new). Inr (r, ms @ new))"
    unfolding RPSLFieldListMixin_parse_def
    by (subst pieces_appends)
       (cases "list_pieces parse (py_split CHR '','' v) [] s", auto simp: parsed_def Let_def)
next
  fix v s r new
  assume "RPSLFieldListMixin_parse parse v [] s = Inr (r, new)"
  then obtain rs where rs: "list_pieces parse (py_split CHR '','' v) [] s = Inr (rs, new)"
    and r: "(r = None) = list_ex (\<lambda>r. r = None) rs"
    by (auto simp: RPSLFieldListMixin_parse_def rbind_Inr_conv parsed_def Let_def split: if_splits)
  from pieces_verdict [OF rs] r show "(r = None) = (errors new \<noteq> [])" by auto
qed

text \<open>The values of a list field are those of its non-empty pieces, in order.\<close>

lemma pieces_values:
  "list_pieces parse ps ms s = Inr (rs, ms') \<Longrightarrow>
   list_all2 (\<lambda>p r. \<exists>new. parse p [] s = Inr (r, new)) (filter (\<lambda>p. p \<noteq> []) (map py_strip ps)) rs"
proof (induction ps arbitrary: ms rs)
  case (Cons p ps)
  show ?case
  proof (cases "py_strip p = []")
    case True
    with Cons show ?thesis by simp
  next
    case False
    with Cons.prems obtain r ms1 rs1 where
      p: "parse (py_strip p) ms s = Inr (r, ms1)" and
      ps: "list_pieces parse ps ms1 s = Inr (rs1, ms')" and rs: "rs = r # rs1"
      by (auto simp: Let_def rbind_Inr_conv)
    from p have "\<exists>new. parse (py_strip p) [] s = Inr (r, new)" using run by blast
    with Cons.IH [OF ps] rs False show ?thesis by simp
  qed
qed simp

lemma with_mixin_contract: "field_contract (with_mixin k parse)"
proof
  note list = field_contract.appends [OF mixin_contract]
  fix v ms s
  show "with_mixin k parse v ms s = rbind (with_mixin k parse v [] s) (\<lambda>(r, new). Inr (r, ms @ new))"
    by (cases k) (simp_all add: parsed_def flip: appends [of v ms s] list [of v ms s])
next
  note list = field_contract.verdict [OF mixin_contract]
  fix v s r new
  assume w: "with_mixin k parse v [] s = Inr (r, new)"
  show "(r = None) = (errors new \<noteq> [])"
  proof (cases "parse v [] s = Inr (r, new) \<or> RPSLFieldListMixin_parse parse v [] s = Inr (r, new)")
    case True
    then show ?thesis using verdict list by blast
  next
    case False
    with w show ?thesis by (cases k) (auto simp: parsed_def split: if_splits)
  qed
qed

end

section \<open>The parsers keep the contract\<close>

text \<open>The contract at one value and one strictness, closed under the control flow of the parsers.\<close>

definition contract_at :: "(messages \<Rightarrow> 'ip field_res) \<Rightarrow> bool" where
  "contract_at g \<longleftrightarrow>
     (\<forall>ms. g ms = rbind (g []) (\<lambda>(r, new). Inr (r, ms @ new))) \<and>
     (\<forall>r new. g [] = Inr (r, new) \<longrightarrow> (r = None) = (errors new \<noteq> []))"

named_theorems contract_intros \<open>closure rules of the field parser contract\<close>

lemma contract_parsed [contract_intros]: "contract_at (parsed r)"
  by (simp add: contract_at_def parsed_def)

lemma contract_parsed_info [contract_intros]: "contract_at (\<lambda>ms. parsed r (info_if b m ms))"
  by (auto simp: contract_at_def parsed_def info_if_def msg_info_def errors_def)

lemma contract_failed [contract_intros]: "contract_at (failed m)"
  by (auto simp: contract_at_def failed_def msg_error_def errors_def)

lemma contract_raise [contract_intros]: "contract_at (\<lambda>ms. Inl e)"
  by (simp add: contract_at_def)

lemma contract_if [contract_intros]:
  "(b \<Longrightarrow> contract_at f) \<Longrightarrow> (\<not> b \<Longrightarrow> contract_at g) \<Longrightarrow> contract_at (\<lambda>ms. if b then f ms else g ms)"
  by (cases b) simp_all

lemma contract_option [contract_intros]:
  "contract_at f \<Longrightarrow> (\<And>x. contract_at (g x)) \<Longrightarrow>
   contract_at (\<lambda>ms. case opt of None \<Rightarrow> f ms | Some x \<Rightarrow> g x ms)"
  by (cases opt) simp_all

lemma contract_sum [contract_intros]:
  "(\<And>x. contract_at (f x)) \<Longrightarrow> (\<And>x. contract_at (g x)) \<Longrightarrow>
   contract_at (\<lambda>ms. case r of Inl x \<Rightarrow> f x ms | Inr x \<Rightarrow> g x ms)"
  by (cases r) simp_all

lemma contract_prod [contract_intros]:
  "(\<And>a b. contract_at (f a b)) \<Longrightarrow> contract_at (\<lambda>ms. case p of (a, b) \<Rightarrow> f a b ms)"
  by (cases p) simp

lemma contract_let [contract_intros]:
  "(\<And>x. contract_at (f x)) \<Longrightarrow> contract_at (\<lambda>ms. let x = a in f x ms)"
  by simp

lemma contract_rbind [contract_intros]:
  "(\<And>x. contract_at (f x)) \<Longrightarrow> contract_at (\<lambda>ms. rbind r (\<lambda>x. f x ms))"
  by (cases r) (simp_all add: contract_raise)

lemma contract_rbind_prod [contract_intros]:
  "(\<And>a b. contract_at (f a b)) \<Longrightarrow> contract_at (\<lambda>ms. rbind r (\<lambda>(a, b). f a b ms))"
  by (cases r) (auto simp: contract_raise)

lemma field_contract_at: "field_contract p \<longleftrightarrow> (\<forall>v s. contract_at (\<lambda>ms. p v ms s))"
  unfolding field_contract_def contract_at_def by blast

lemmas [field_parse] =
  RPSLTextField_parse_def RPSLIPv4PrefixField_parse_def RPSLIPv6PrefixField_parse_def prefix_parse_def
  RPSLIPv4AddressRangeField_parse_def RPSLRouteSetMemberField_parse_def member_prefix_def
  member_result_def RPSLASNumberField_parse_def RPSLASBlockField_parse_def RPSLSetNameField_parse_def
  parse_set_name_def RPSLEmailField_parse_def RPSLChangedField_parse_def RPSLDNSNameField_parse_def
  RPSLURLField_parse_def RPSLGenericNameField_parse_def generic_name_syntax_def RPSLAuthField_parse_def

lemma contract_single:
  assumes "referring k = None"
  shows "contract_at (\<lambda>ms. parse_single L gs k v ms s)"
  using assms by (cases k) (simp_all add: parse_single.simps, unfold field_parse, (intro contract_intros)+)

lemma first_identifier_contract:
  assumes "\<And>f. f \<in> set fs \<Longrightarrow> field_contract (p f)"
  shows "first_identifier p fs v ms s = Inr (None, ms') \<Longrightarrow> fs \<noteq> [] \<Longrightarrow> errors ms' \<noteq> []"
  using assms
proof (induction fs arbitrary: ms)
  case (Cons f fs)
  then obtain ms1 where f: "p f v ms s = Inr (None, ms1)"
    and fs: "first_identifier p fs v ms1 s = Inr (None, ms')"
    by (auto simp: rbind_Inr_conv split: option.splits)
  from Cons.prems(3) have c: "field_contract (p f)" by simp
  have "errors ms1 \<noteq> []" using field_contract.extends [OF c f] by auto
  with fs Cons show ?case by (cases fs) auto
qed simp

text \<open>A field whose list of referred classes is not empty.\<close>

definition wf_kind :: "field_kind \<Rightarrow> bool" where
  "wf_kind k \<longleftrightarrow> referring k \<noteq> Some []"

lemma contract_reference:
  assumes "refs \<noteq> []"
  shows "contract_at (\<lambda>ms. parse_single L gs (RPSLReferenceField refs st) v ms s)"
    and "contract_at (\<lambda>ms. parse_single L gs (RPSLReferenceListField a refs st) v ms s)"
proof -
  let ?p = "\<lambda>f. with_mixin (kind f) (parse_single L gs (kind f))"
  have c: "contract_at (\<lambda>ms. rbind (first_identifier ?p fs v [] s)
      (\<lambda>(r, ref_ms). case r of Some v \<Rightarrow> Inr (Some v, ms) | None \<Rightarrow> Inr (None, merge_messages ref_ms ms)))"
    if "resolve_references refs = Inr fs" for fs
  proof (cases "first_identifier ?p fs v [] s")
    case (Inr x)
    obtain r ref_ms where x: "x = (r, ref_ms)" by fastforce
    have "fs \<noteq> []" using that assms
      by (cases refs) (auto simp: rbind_Inr_conv split: option.splits list.splits)
    moreover have "field_contract (?p f)" if "f \<in> set fs" for f
    proof -
      have "field_contract (parse_single L gs (kind f))"
        unfolding field_contract_at
        using contract_single resolve_references_identifier [OF \<open>resolve_references refs = Inr fs\<close> that]
        by blast
      then show ?thesis by (rule field_contract.with_mixin_contract)
    qed
    ultimately have "r = None \<Longrightarrow> errors ref_ms \<noteq> []"
      using first_identifier_contract [of fs ?p v "[]" s ref_ms] Inr x by blast
    then show ?thesis
      using Inr x by (cases r) (auto simp: contract_at_def merge_messages_def)
  qed (simp add: contract_at_def)
  from c show "contract_at (\<lambda>ms. parse_single L gs (RPSLReferenceField refs st) v ms s)"
    by (cases "resolve_references refs") (simp_all add: parse_single.simps contract_raise)
  from c show "contract_at (\<lambda>ms. parse_single L gs (RPSLReferenceListField a refs st) v ms s)"
    by (cases "resolve_references refs") (simp_all add: parse_single.simps contract_raise)
qed

lemma parse_single_contract: "wf_kind k \<Longrightarrow> field_contract (parse_single L gs k)"
  unfolding field_contract_at wf_kind_def
  by (cases k) (auto intro: contract_single contract_reference)

text \<open>The field of an attribute of an object class of the schema; a text field otherwise.\<close>

definition schema_field :: "string \<Rightarrow> string \<Rightarrow> field" where
  "schema_field object_class attr =
     (case dict_get OBJECT_CLASS_MAPPING object_class of
        None \<Rightarrow> fld RPSLTextField
      | Some c \<Rightarrow> (case dict_get (class_fields c) attr of None \<Rightarrow> fld RPSLTextField | Some f \<Rightarrow> f))"

lemma schema_kinds_wf:
  "list_all (\<lambda>nc. list_all (\<lambda>f. wf_kind (kind (snd f))) (class_fields (snd nc))) OBJECT_CLASS_MAPPING"
  by code_simp

lemma class_field_wf:
  "dict_get OBJECT_CLASS_MAPPING n = Some c \<Longrightarrow> dict_get (class_fields c) a = Some f \<Longrightarrow> wf_kind (kind f)"
  using schema_kinds_wf by (force simp: list_all_iff dict_get_def dest!: map_of_SomeD)

lemma schema_field_wf: "wf_kind (kind (schema_field n a))"
  by (auto simp: schema_field_def wf_kind_def [of RPSLTextField] fld_def split: option.splits
      dest: class_field_wf)

interpretation sf: field_contract "parse_field L gs (schema_field n a)" for L gs n a
  unfolding parse_field_def
  by (rule field_contract.with_mixin_contract [OF parse_single_contract [OF schema_field_wf]])

text \<open>
  C29: the contract of every field parser of the schema. Whatever the attribute, the value, the
  strictness and the configuration, a parser that returns has only appended messages, its
  result and the appended messages do not depend on the earlier ones, and it returns no result
  exactly when it appended an error.
\<close>

theorem parse_field_contract:
  assumes "parse_field L gs (schema_field n a) v ms s = Inr (r, ms')"
  shows "\<exists>new. parse_field L gs (schema_field n a) v [] s = Inr (r, new) \<and> ms' = ms @ new
    \<and> (r = None) = (errors new \<noteq> [])"
  using assms sf.run sf.verdict by metis

theorem parse_field_contract_witness:
  "\<exists>new. parse_field ip3_lib (\<lambda>_. None) (schema_field ''route'' ''origin'') ''AS-X'' [] True = Inr (None, new)
    \<and> [(INFO, ''x''), (ERROR, ''Invalid AS number AS-X: number part is not numeric'')] = [(INFO, ''x'')] @ new
    \<and> (None = None) = (errors new \<noteq> [])"
proof -
  have "parse_field ip3_lib (\<lambda>_. None) (schema_field ''route'' ''origin'') ''AS-X'' [(INFO, ''x'')] True
      = Inr (None, [(INFO, ''x''), (ERROR, ''Invalid AS number AS-X: number part is not numeric'')])"
    by code_simp
  from parse_field_contract [OF this] show ?thesis by simp
qed

section \<open>Which parsers raise\<close>

lemma set_name_no_raise:
  "list_all (\<lambda>p. p \<in> set reserved_prefixes) prefixes \<Longrightarrow> parse_set_name prefixes v ms s \<noteq> Inl e"
  by (auto simp: parse_set_name_def parsed_def failed_def Let_def split: sum.splits)

text \<open>The kinds whose parser cannot raise: not URLs and authentication lines.\<close>

fun plain_total :: "field_kind \<Rightarrow> bool" where
  "plain_total RPSLURLField = False"
| "plain_total RPSLAuthField = False"
| "plain_total (RPSLSetNameField p) = (p @ ''-'' \<in> set reserved_prefixes)"
| "plain_total k = True"

definition total_kind :: "field_kind \<Rightarrow> bool" where
  "total_kind k =
     (case referring k of
        None \<Rightarrow> plain_total k
      | Some refs \<Rightarrow> (case resolve_references refs of
                       Inl e \<Rightarrow> False | Inr fs \<Rightarrow> list_all (\<lambda>f. plain_total (kind f)) fs))"

lemma outcome_no_raise: "parsed r ms \<noteq> Inl e" "failed m ms \<noteq> Inl e"
  by (simp_all add: parsed_def failed_def)

lemma plain_no_raise:
  assumes "plain_total k" "referring k = None"
  shows "parse_single L gs k v ms s \<noteq> Inl e"
proof (cases k)
  case (RPSLSetNameField p)
  with assms show ?thesis
    by (simp add: parse_single.simps RPSLSetNameField_parse_def set_name_no_raise)
next
  case (RPSLRouteSetMembersField ipv)
  have set: "parse_set_name [''RS-'', ''AS-''] w [] s \<noteq> (Inl e :: 'a field_res)" for w e
    by (rule set_name_no_raise) (simp add: reserved_prefixes_def)
  have result: "member_result x y ms \<noteq> (Inl e :: 'a field_res)" for x y
    by (simp add: member_result_def parsed_def)
  have prefix: "member_prefix L ipv x y z ms \<noteq> Inl e" for x y z
    by (auto simp: member_prefix_def result failed_def split: sum.splits option.splits)
  have "RPSLRouteSetMemberField_parse L ipv v ms s \<noteq> Inl e"
    unfolding RPSLRouteSetMemberField_parse_def Let_def rbind_def
    using set result prefix
    by (auto simp: failed_def split: prod.split sum.split option.split)
  with RPSLRouteSetMembersField show ?thesis by (simp add: parse_single.simps)
qed (insert assms, simp_all add: parse_single.simps field_parse outcome_no_raise Let_def
       split: prod.split sum.split option.split list.split)

lemma list_pieces_no_raise:
  "(\<And>v ms e. p v ms s \<noteq> Inl e) \<Longrightarrow> list_pieces p ps ms s \<noteq> Inl e"
proof (induction ps arbitrary: ms e)
  case (Cons q ps)
  then show ?case
    by (cases "p (py_strip q) ms s") (auto simp: Let_def rbind_def split: sum.splits)
qed simp

lemma with_mixin_no_raise:
  assumes "\<And>v ms e. p v ms s \<noteq> Inl e"
  shows "with_mixin k p v ms s \<noteq> Inl e"
proof -
  have "RPSLFieldListMixin_parse p v ms s \<noteq> Inl e" for v ms e
    using list_pieces_no_raise [of p s, OF assms]
    by (auto simp: RPSLFieldListMixin_parse_def rbind_def parsed_def Let_def split: sum.splits)
  with assms show ?thesis by (cases k) (auto simp: parsed_def)
qed

lemma first_identifier_no_raise:
  "(\<And>f v ms e. f \<in> set fs \<Longrightarrow> p f v ms s \<noteq> Inl e) \<Longrightarrow> first_identifier p fs v ms s \<noteq> Inl e"
proof (induction fs arbitrary: ms e)
  case (Cons f fs)
  then show ?case
    by (cases "p f v ms s") (auto split: option.splits)
qed simp

lemma parse_single_no_raise:
  assumes "total_kind k"
  shows "parse_single L gs k v ms s \<noteq> Inl e"
proof (cases "referring k")
  case None
  with assms show ?thesis by (simp add: total_kind_def plain_no_raise)
next
  case (Some refs)
  with assms obtain fs where fs: "resolve_references refs = Inr fs"
    and ok: "\<And>f. f \<in> set fs \<Longrightarrow> plain_total (kind f)"
    by (auto simp: total_kind_def list_all_iff split: sum.splits)
  let ?p = "\<lambda>f. with_mixin (kind f) (parse_single L gs (kind f))"
  have "first_identifier ?p fs v [] s \<noteq> Inl e" for e
    by (intro first_identifier_no_raise with_mixin_no_raise plain_no_raise ok)
       (auto dest: resolve_references_identifier [OF fs])
  with Some fs show ?thesis
    by (cases k) (auto simp: parse_single.simps rbind_def split: sum.splits option.splits)
qed

lemma schema_kinds_total:
  "list_all (\<lambda>nc. list_all (\<lambda>f. total_kind (kind (snd f)) \<or> kind (snd f) = RPSLURLField
     \<or> kind (snd f) = RPSLAuthField) (class_fields (snd nc))) OBJECT_CLASS_MAPPING"
  by code_simp

lemma schema_field_total:
  "total_kind (kind (schema_field n a)) \<or> kind (schema_field n a) = RPSLURLField
   \<or> kind (schema_field n a) = RPSLAuthField"
proof -
  have "total_kind (kind f) \<or> kind f = RPSLURLField \<or> kind f = RPSLAuthField"
    if "dict_get OBJECT_CLASS_MAPPING n = Some c" "dict_get (class_fields c) a = Some f" for c f
    using schema_kinds_total that by (force simp: list_all_iff dict_get_def dest!: map_of_SomeD)
  moreover have "total_kind RPSLTextField" by (simp add: total_kind_def)
  ultimately show ?thesis by (auto simp: schema_field_def fld_def split: option.splits)
qed

text \<open>
  C30: the parsers of the schema return for every input, except those of URL and of auth
  attributes: every reference resolves to identifier fields, and every set name field has a
  reserved prefix, so that neither a lookup nor the assertion on prefixes can fail.
\<close>

theorem parse_field_no_raise:
  assumes "kind (schema_field n a) \<noteq> RPSLURLField" "kind (schema_field n a) \<noteq> RPSLAuthField"
  shows "\<exists>r ms'. parse_field L gs (schema_field n a) v ms s = Inr (r, ms')"
proof -
  from assms schema_field_total have "total_kind (kind (schema_field n a))" by blast
  then have "parse_field L gs (schema_field n a) v ms s \<noteq> Inl e" for e
    unfolding parse_field_def by (intro with_mixin_no_raise parse_single_no_raise)
  then show ?thesis by (cases "parse_field L gs (schema_field n a) v ms s") auto
qed

theorem parse_field_no_raise_witness:
  "\<exists>r ms'. parse_field ip3_lib (\<lambda>_. None) (schema_field ''route'' ''mnt-by'') ''A, B%'' [] True = Inr (r, ms')"
  by (rule parse_field_no_raise) (code_simp+)

text \<open>
  The parser of a URL attribute does raise: \<open>urlparse\<close> refuses an unbalanced bracket, and
  nothing catches its \<open>ValueError\<close>.
\<close>

lemma url_field_raises:
  "parse_field ip3_lib gs (schema_field ''inetnum'' ''geofeed'') ''http://[foo'' ms strict
     = Inl (ValueError ''Invalid IPv6 URL'')"
proof -
  have "kind (schema_field ''inetnum'' ''geofeed'') = RPSLURLField" by code_simp
  moreover have "urlparse ip3_lib ''http://[foo'' = Inl (ValueError ''Invalid IPv6 URL'')" by code_simp
  ultimately show ?thesis by (simp add: parse_field_def parse_single.simps RPSLURLField_parse_def)
qed

section \<open>Set names\<close>

definition comp_out :: "string \<Rightarrow> string" where
  "comp_out c = (case parse_as c of Inl e \<Rightarrow> c | Inr (s, n) \<Rightarrow> s)"

definition comp_ok :: "string list \<Rightarrow> bool \<Rightarrow> string \<Rightarrow> bool" where
  "comp_ok prefixes strict c \<longleftrightarrow>
     (strict \<longrightarrow> py_upper c \<notin> set reserved_words) \<and>
     ((\<exists>x. parse_as c = Inr x) \<or>
      re_match re_generic_name (py_upper c) \<and> (strict \<longrightarrow> starts_with_any (py_upper c) prefixes))"

lemma set_components_Inr:
  "set_components prefixes value strict cs out = Inr out' \<longleftrightarrow>
     list_all (comp_ok prefixes strict) cs \<and> out' = out @ map comp_out cs"
  by (induction cs arbitrary: out)
     (auto simp: comp_ok_def comp_out_def Let_def split: sum.splits)

lemma parse_as_Inr:
  "parse_as c = Inr (s, n) \<Longrightarrow> 0 \<le> n \<and> n \<le> 4294967295 \<and> s = ''AS'' @ str_nat (nat n) \<and> parse_as s = Inr (s, n)"
  unfolding parse_as_def
  using parse_as_number_Inr_range [of "\<lambda>_. None" False False "AsStr c" s n]
    parse_as_number_canonical [of n "\<lambda>_. None" False False]
  by (auto simp: str_int_def)

lemma AS_text_not_reserved: "py_upper (''AS'' @ str_nat m) \<notin> set reserved_words"
proof -
  have "list_all (\<lambda>w. \<not> isdigit (last w)) reserved_words" by code_simp
  moreover have "isdigit (last (''AS'' @ str_nat m))"
    using str_nat_digits [of _ m] last_in_set [OF str_nat_not_Nil, of m] by simp
  moreover have "py_upper (''AS'' @ str_nat m) = ''AS'' @ str_nat m"
    by (rule py_upper_AS_digits) (rule str_nat_digits)
  ultimately show ?thesis unfolding list_all_iff by (metis (full_types))
qed

lemma comp_out_ok:
  assumes "comp_ok prefixes strict c"
  shows "comp_ok prefixes strict (comp_out c)" and "comp_out (comp_out c) = comp_out c"
proof -
  show "comp_ok prefixes strict (comp_out c)"
    using assms parse_as_Inr AS_text_not_reserved
    by (fastforce simp: comp_ok_def comp_out_def split: sum.splits)
  show "comp_out (comp_out c) = comp_out c"
    using parse_as_Inr by (fastforce simp: comp_out_def split: sum.splits)
qed

lemma comp_out_no_colon: "CHR '':'' \<notin> set c \<Longrightarrow> CHR '':'' \<notin> set (comp_out c)"
proof (cases "parse_as c")
  case (Inr x)
  obtain s n where x: "x = (s, n)" by fastforce
  have "\<not> isdigit CHR '':''" by (simp add: isdigit_def ord_def)
  then have "CHR '':'' \<notin> set (''AS'' @ str_nat (nat n))" using str_nat_digits by fastforce
  with parse_as_Inr [of c s n] Inr x show ?thesis by (simp add: comp_out_def)
qed (simp add: comp_out_def)

text \<open>
  A set name that was accepted is a fixed point of the parser. Parsing the value of the
  result again gives the same result and no message, in non-strict mode always, and in strict
  mode when the value still has a component with one of the prefixes.
\<close>

theorem parse_set_name_idempotent:
  assumes "parse_set_name prefixes v ms strict = Inr (Some r, ms')"
    and "strict \<Longrightarrow> list_ex (\<lambda>c. starts_with_any (py_upper c) prefixes) (py_split CHR '':'' (pr_value r))"
  shows "parse_set_name prefixes (pr_value r) [] strict = Inr (Some r, [])"
proof -
  define cs where "cs = py_split CHR '':'' v"
  from assms(1) have prefixes: "list_all (\<lambda>p. p \<in> set reserved_prefixes) prefixes"
    and len: "strict \<longrightarrow> length cs \<le> 5"
    and ok: "list_all (comp_ok prefixes strict) cs"
    and r: "r = parse_result_of (py_join '':'' (map comp_out cs))"
    by (auto simp: parse_set_name_def parsed_def failed_def Let_def cs_def set_components_Inr
        split: if_splits sum.splits)
  have "cs \<noteq> []" by (simp add: cs_def)
  then have split: "py_split CHR '':'' (pr_value r) = map comp_out cs"
    unfolding r using py_split_pieces [of _ "CHR '':''" v]
    by (simp, intro py_split_join) (auto simp: cs_def comp_out_no_colon)
  have ok': "list_all (comp_ok prefixes strict) (map comp_out cs)"
    using ok by (simp add: list_all_iff comp_out_ok(1))
  have "map comp_out (map comp_out cs) = map comp_out cs"
    using ok by (auto simp: list_all_iff intro: comp_out_ok(2))
  define xs where "xs = map comp_out cs"
  have xs: "set_components prefixes (pr_value r) strict xs [] = Inr xs" "length xs = length cs"
    "pr_value r = py_join '':'' xs" "py_split CHR '':'' (pr_value r) = xs"
    using ok' \<open>map comp_out (map comp_out cs) = map comp_out cs\<close> split
    by (simp_all add: set_components_Inr xs_def r)
  show ?thesis
    using prefixes len assms(2) xs
    by (cases strict) (simp_all add: parse_set_name_def parsed_def info_if_def Let_def r)
qed

theorem parse_set_name_idempotent_witness:
  "parse_set_name [''AS-''] ''AS7:AS-FOO'' [] True
     = (Inr (Some (parse_result_of ''AS7:AS-FOO''), []) :: ip3 field_res)"
proof -
  have p: "parse_set_name [''AS-''] ''as 7:AS-FOO'' [] True
      = (Inr (Some (parse_result_of ''AS7:AS-FOO''),
           [(INFO, ''Set name as 7:AS-FOO was reformatted as AS7:AS-FOO'')]) :: ip3 field_res)"
    by code_simp
  have "list_ex (\<lambda>c. starts_with_any (py_upper c) [''AS-'']) (py_split CHR '':'' ''AS7:AS-FOO'')"
    by code_simp
  then show ?thesis
    using parse_set_name_idempotent [OF p] by simp
qed

text \<open>
  The side condition is needed: the component \<open>AS-0\<close> has the prefix of an as-set, but \<open>int\<close>
  reads \<open>-0\<close> as zero, so that a strict parser accepts the set name and renames it to the AS
  number \<open>AS0\<close>, which it refuses as a set name.
\<close>

lemma set_name_AS_minus_zero:
  "parse_set_name [''AS-''] ''AS-0'' [] True
     = (Inr (Some (parse_result_of ''AS0''), [(INFO, ''Set name AS-0 was reformatted as AS0'')]) :: ip3 field_res)"
  "\<exists>ms. parse_set_name [''AS-''] ''AS0'' [] True = (Inr (None, ms) :: ip3 field_res)"
proof -
  show "parse_set_name [''AS-''] ''AS-0'' [] True
     = (Inr (Some (parse_result_of ''AS0''), [(INFO, ''Set name AS-0 was reformatted as AS0'')]) :: ip3 field_res)"
    by code_simp
  have "parse_set_name [''AS-''] ''AS0'' [] True = (Inr (None, [(ERROR,
     ''Invalid set name AS0: at least one component must be an actual set name (i.e. start with AS-)'')]) :: ip3 field_res)"
    by code_simp
  then show "\<exists>ms. parse_set_name [''AS-''] ''AS0'' [] True = (Inr (None, ms) :: ip3 field_res)" by blast
qed

section \<open>AS blocks\<close>

lemma py_strip_AS: "py_strip (''AS'' @ str_nat m) = ''AS'' @ str_nat m"
proof -
  have "isdigit (last (str_nat m))" by (rule str_nat_digits [of _ m]) (simp add: last_in_set)
  then show ?thesis
    unfolding py_strip_def
    by (intro strip_by_id) (simp add: isdigit_not_isspace, simp add: isspace_def ord_def)
qed

lemma py_strip_trailing_space: "py_strip (s @ '' '') = py_strip s"
proof -
  have "isspace CHR '' ''" by (simp add: isspace_def ord_def)
  then show ?thesis
    by (cases "\<forall>c \<in> set s. isspace c")
       (auto simp: py_strip_def strip_by_def dropWhile_append dropWhile_eq_Nil_conv [THEN iffD2])
qed

lemma py_strip_leading_space: "py_strip (CHR '' '' # s) = py_strip s"
  by (simp add: py_strip_def strip_by_def isspace_def ord_def)

lemma as_block_split:
  "py_split1 CHR ''-'' ((''AS'' @ str_nat m) @ '' - '' @ ''AS'' @ str_nat n)
     = ((''AS'' @ str_nat m) @ '' '', CHR '' '' # ''AS'' @ str_nat n)"
proof -
  have "CHR ''-'' \<notin> set ((''AS'' @ str_nat m) @ '' '')"
    using str_nat_digits [of "CHR ''-''" m] by auto
  from py_split1_append [OF this, of "CHR '' '' # ''AS'' @ str_nat n"] show ?thesis by simp
qed

text \<open>
  An AS block that was accepted holds two ordered 32-bit AS numbers, its value prints them
  in canonical form, and that value parses to the same result with no message.
\<close>

theorem as_block_canonical:
  assumes "RPSLASBlockField_parse v ms strict = Inr (Some r, ms')"
  shows "\<exists>m n. m \<le> n \<and> n \<le> 4294967295 \<and> pr_asn_first r = Some (int m) \<and> pr_asn_last r = Some (int n)
    \<and> pr_value r = (''AS'' @ str_nat m) @ '' - '' @ ''AS'' @ str_nat n
    \<and> RPSLASBlockField_parse (pr_value r) [] strict = Inr (Some r, [])"
proof -
  obtain a b where ab: "py_split1 CHR ''-'' v = (a, b)" by fastforce
  with assms obtain s1 i1 s2 i2 where
    1: "parse_as (py_strip a) = Inr (s1, i1)" and 2: "parse_as (py_strip b) = Inr (s2, i2)"
    and le: "i1 \<le> i2"
    and r: "r = (parse_result_of (s1 @ '' - '' @ s2))\<lparr>pr_asn_first := Some i1, pr_asn_last := Some i2\<rparr>"
    by (auto simp: RPSLASBlockField_parse_def parsed_def failed_def Let_def split: if_splits sum.splits prod.splits)
  define m n where "m = nat i1" and "n = nat i2"
  from parse_as_Inr [OF 1] have s1: "s1 = ''AS'' @ str_nat m" "i1 = int m" "parse_as s1 = Inr (s1, i1)"
    by (auto simp: m_def)
  from parse_as_Inr [OF 2] have s2: "s2 = ''AS'' @ str_nat n" "i2 = int n" "n \<le> 4294967295"
    "parse_as s2 = Inr (s2, i2)" by (auto simp: n_def)
  have v: "pr_value r = (''AS'' @ str_nat m) @ '' - '' @ ''AS'' @ str_nat n"
    by (simp add: r s1 s2)
  have "RPSLASBlockField_parse (pr_value r) [] strict = Inr (Some r, [])"
    unfolding RPSLASBlockField_parse_def v as_block_split prod.case Let_def
      py_strip_trailing_space py_strip_leading_space py_strip_AS s1(3) [unfolded s1(1)] s2(4) [unfolded s2(1)]
    using le by (simp add: parsed_def info_if_def r s1 s2)
  with v le s1 s2 show ?thesis by (intro exI [of _ m] exI [of _ n]) (simp add: r)
qed

theorem as_block_canonical_witness:
  "\<exists>m n. m \<le> n \<and> n \<le> 4294967295 \<and> Some 1 = Some (int m) \<and> Some 5 = Some (int n)
    \<and> ''AS1 - AS5'' = (''AS'' @ str_nat m) @ '' - '' @ ''AS'' @ str_nat n
    \<and> RPSLASBlockField_parse ''AS1 - AS5'' [] True = (Inr (Some ((parse_result_of ''AS1 - AS5'')
         \<lparr>pr_asn_first := Some 1, pr_asn_last := Some 5\<rparr>), []) :: ip3 field_res)"
proof -
  define r :: "ip3 parse_result"
    where "r = (parse_result_of ''AS1 - AS5'')\<lparr>pr_asn_first := Some 1, pr_asn_last := Some 5\<rparr>"
  have sel: "pr_asn_first r = Some 1" "pr_asn_last r = Some 5" "pr_value r = ''AS1 - AS5''"
    by (simp_all add: r_def)
  have "RPSLASBlockField_parse ''as1-AS05'' [] True
      = Inr (Some r, [(INFO, ''AS range as1-AS05 was reformatted as AS1 - AS5'')])"
    unfolding r_def by code_simp
  from as_block_canonical [OF this, unfolded sel] show ?thesis unfolding r_def .
qed

end
