(* ===== verification/RPSL_Parser.thy ===== *)
theory RPSL_Parser
  imports RPSL_Field_Facts
begin

text \<open>
  \<^verbatim>\<open>irrd/rpsl/parser.py\<close>: the class \<open>RPSLObject\<close>, which extracts attributes from object text,
  validates their counts, runs the field parsers, and renders the object back to text. The
  object is a record that every method returns updated. The date that \<open>render_rpsl_text\<close> may
  add is given as the text of \<open>isoformat()\<close> after microseconds were dropped.
\<close>

section \<open>Objects\<close>

datatype pvalue = PStr string | PList "string list"

type_synonym object_data = "(string \<times> string \<times> string) list"

record 'ip rpsl_object =
  klass :: rpsl_class
  obj_messages :: messages
  object_data :: object_data
  strict_validation :: bool
  default_source :: "string option"
  parsed_data :: "(string, pvalue) dict"
  ip_first :: "'ip option"
  ip_last :: "'ip option"
  asn_first :: "int option"
  asn_last :: "int option"
  prefix :: "'ip option"
  prefix_length :: "nat option"
  pk_asn_segment :: "string option"
  fingerprint :: "string option"

definition ignored_validation_fields :: "string list" where
  "ignored_validation_fields = [''last-modified'']"

definition str_truthy :: "string option \<Rightarrow> bool" where
  "str_truthy s = (case s of None \<Rightarrow> False | Some t \<Rightarrow> t \<noteq> [])"

definition new_object :: "rpsl_class \<Rightarrow> bool \<Rightarrow> string option \<Rightarrow> 'ip rpsl_object" where
  "new_object c strict dflt =
     \<lparr>klass = c, obj_messages = [], object_data = [], strict_validation = strict,
      default_source = (if str_truthy dflt then Some (py_upper (py_strip (the dflt))) else None),
      parsed_data = [], ip_first = None, ip_last = None, asn_first = None, asn_last = None,
      prefix = None, prefix_length = None, pk_asn_segment = None, fingerprint = None\<rparr>"

section \<open>Extraction of attributes\<close>

definition continuation_char :: "char \<Rightarrow> bool" where
  "continuation_char c \<longleftrightarrow> c = CHR '' '' \<or> c = CHR ''+'' \<or> c = TAB"

definition attr_name_char :: "char \<Rightarrow> bool" where
  "attr_name_char c \<longleftrightarrow> islower c \<or> isdigit c \<or> c = CHR ''_'' \<or> c = CHR ''-''"

definition re_attr_name :: rex where
  "re_attr_name = rplus (RCls attr_name_char)"

definition line_error :: "nat \<Rightarrow> string \<Rightarrow> string \<Rightarrow> string" where
  "line_error line_no what shown = ''Line '' @ str_nat (line_no + 1) @ '': '' @ what @ ''['' @ shown @ '']''"

definition save_attribute :: "rpsl_class \<Rightarrow> string option \<times> string \<times> string \<Rightarrow> object_data" where
  "save_attribute c cur =
     (case cur of (attr, value, conts) \<Rightarrow>
        (case attr of
           None \<Rightarrow> []
         | Some a \<Rightarrow> if a \<noteq> [] \<and> a \<notin> set (discarded_fields c) then [(a, value, conts)] else []))"

text \<open>
  The loop of \<open>_extract_attributes_values\<close>, from a line on, with the current attribute, value
  and continuation characters: what it appends to \<open>_object_data\<close>, and the error that ended it.
\<close>

fun extract_lines :: "rpsl_class \<Rightarrow> nat \<Rightarrow> string list \<Rightarrow> string option \<times> string \<times> string
    \<Rightarrow> object_data \<times> string option" where
  "extract_lines c line_no [] cur = (save_attribute c cur, None)"
| "extract_lines c line_no (line # ls) (current_attr, current_value, conts) =
     (if line = []
      then ([], Some (line_error line_no ''encountered empty line in the middle of object: '' line))
      else if \<not> continuation_char (hd line)
      then (let saved = save_attribute c (current_attr, current_value, conts)
            in if CHR '':'' \<notin> set line
               then (saved, Some (line_error line_no ''line is neither continuation nor valid attribute '' line))
               else (let (a, v) = py_split1 CHR '':'' line; attr = py_lower a; val = py_strip v
                     in if attr \<notin> set (attrs_allowed c) \<and> \<not> re_match re_attr_name attr
                        then (saved, Some (line_error line_no ''encountered malformed attribute name: '' attr))
                        else (let (d, e) = extract_lines c (line_no + 1) ls (Some attr, val, [])
                              in (saved @ d, e))))
      else extract_lines c (line_no + 1) ls
             (current_attr, current_value @ [NL] @ py_strip (tl line), conts @ [hd line]))"

definition extract_attributes_values :: "string \<Rightarrow> 'ip rpsl_object \<Rightarrow> 'ip rpsl_object" where
  "extract_attributes_values text_in obj =
     (case extract_lines (klass obj) 0 (splitline_unicodesafe (py_strip text_in)) (None, [], []) of
        (d, None) \<Rightarrow> obj\<lparr>object_data := object_data obj @ d\<rparr>
      | (d, Some e) \<Rightarrow> obj\<lparr>object_data := object_data obj @ d,
                          obj_messages := msg_error e (obj_messages obj)\<rparr>)"

section \<open>Attribute counts\<close>

text \<open>A \<open>Counter\<close>: the names in the order of their first occurrence, with their counts.\<close>

definition py_counter :: "string list \<Rightarrow> (string \<times> nat) list" where
  "py_counter names = map (\<lambda>n. (n, count_list names n)) (rev (remdups (rev names)))"

definition count_errors :: "rpsl_class \<Rightarrow> string \<times> nat \<Rightarrow> string list" where
  "count_errors c ac =
     (case ac of (attr_name, count) \<Rightarrow>
        if attr_name \<in> set ignored_validation_fields then []
        else (if attr_name \<notin> set (attrs_allowed c)
              then [''Unrecognised attribute '' @ attr_name @ '' on object '' @ rpsl_object_class c] else [])
           @ (if 1 < count \<and> attr_name \<notin> set (attrs_multiple c)
              then [''Attribute \"'' @ attr_name @ ''\" on object '' @ rpsl_object_class c
                    @ '' occurs multiple times, but is only allowed once''] else []))"

definition attribute_count_errors :: "'ip rpsl_object \<Rightarrow> string list" where
  "attribute_count_errors obj =
     (let c = klass obj; names = map fst (object_data obj); attrs_present = py_counter names
      in if strict_validation obj
         then concat (map (count_errors c) attrs_present)
              @ map (\<lambda>a. ''Mandatory attribute \"'' @ a @ ''\" on object '' @ rpsl_object_class c @ '' is missing'')
                  (filter (\<lambda>a. a \<notin> set names) (attrs_required c))
         else map (\<lambda>a. ''Primary key attribute \"'' @ a @ ''\" on object '' @ rpsl_object_class c @ '' is missing'')
                (filter (\<lambda>a. a \<notin> set names)
                   (pk_fields c @ (if str_truthy (default_source obj) then [] else [''source'']))))"

definition validate_attribute_counts :: "'ip rpsl_object \<Rightarrow> 'ip rpsl_object" where
  "validate_attribute_counts obj =
     obj\<lparr>obj_messages := obj_messages obj @ map (\<lambda>m. (ERROR, m)) (attribute_count_errors obj)\<rparr>"

section \<open>Attribute values\<close>

definition normalise_rpsl_value :: "string \<Rightarrow> string" where
  "normalise_rpsl_value value =
     (if NL \<notin> set value
      then (if CHR ''#'' \<in> set value then py_strip (hd (py_split CHR ''#'' value)) else py_strip value)
      else py_join '',''
             (filter (\<lambda>l. l \<noteq> [])
                (map (\<lambda>line. py_strip_chars [NL, TAB, CHR '','', CHR '' ''] (hd (py_split CHR ''#'' line)))
                   (splitline_unicodesafe value))))"

definition upper_unless :: "bool \<Rightarrow> string \<Rightarrow> string" where
  "upper_unless keep s = (if keep then s else py_upper s)"

text \<open>The update of \<open>parsed_data\<close> for one attribute.\<close>

definition store_parsed :: "field \<Rightarrow> string \<Rightarrow> 'ip parse_result \<Rightarrow> (string, pvalue) dict
    \<Rightarrow> (string, pvalue) dict res" where
  "store_parsed f attr_name r data =
     (let keep = keep_case (kind f); existing = dict_get data attr_name; v = upper_unless keep (pr_value r)
      in case pr_values_list r of
           Some (x # xs) \<Rightarrow>
             (let vs = map (upper_unless keep) (x # xs)
              in case existing of
                   None \<Rightarrow> Inr (dict_set attr_name (PList vs) data)
                 | Some (PList old) \<Rightarrow> Inr (dict_set attr_name (PList (old @ vs)) data)
                 | Some (PStr old) \<Rightarrow> Inl (TypeError ''can only concatenate str (not \"list\") to str''))
         | _ \<Rightarrow>
             if multiple f
             then (case existing of
                     None \<Rightarrow> Inr (dict_set attr_name (PList [v]) data)
                   | Some (PList old) \<Rightarrow> Inr (dict_set attr_name (PList (old @ [v])) data)
                   | Some (PStr old) \<Rightarrow> Inl (AttributeError ''append''))
             else (case existing of
                     None \<Rightarrow> Inr (dict_set attr_name (PStr v) data)
                   | Some old \<Rightarrow> Inr (dict_set attr_name (PStr ([NL] @ v)) data)))"

text \<open>
  The assignment of one metadata attribute, which raises when the object already has a value
  that is true in a Boolean context, unless invalid metadata is allowed.
\<close>

definition set_meta :: "bool \<Rightarrow> string \<Rightarrow> string \<Rightarrow> ('a \<Rightarrow> string) \<Rightarrow> ('a \<Rightarrow> bool) \<Rightarrow> 'a option \<Rightarrow> 'a option
    \<Rightarrow> 'a option res" where
  "set_meta allow shown attr show_a truthy_a new_value existing =
     (case new_value of
        None \<Rightarrow> Inr existing
      | Some x \<Rightarrow>
          (case existing of
             None \<Rightarrow> Inr (Some x)
           | Some y \<Rightarrow>
               if truthy_a y \<and> \<not> allow
               then Inl (ValueError (''Parsing of '' @ shown @ '' reads '' @ show_a x @ '' for '' @ attr
                           @ '',but value '' @ show_a y @ '' is already set.''))
               else Inr (Some x)))"

definition set_all_meta :: "'ip extlib \<Rightarrow> bool \<Rightarrow> 'ip parse_result \<Rightarrow> 'ip rpsl_object \<Rightarrow> 'ip rpsl_object res" where
  "set_all_meta L allow r obj =
     (let ip_meta = (\<lambda>attr. set_meta allow (pr_value r) attr (ip_str L) (\<lambda>_. True));
          as_meta = (\<lambda>attr. set_meta allow (pr_value r) attr str_int (\<lambda>i. i \<noteq> 0))
      in rbind (ip_meta ''ip_first'' (pr_ip_first r) (ip_first obj)) (\<lambda>f.
         rbind (ip_meta ''ip_last'' (pr_ip_last r) (ip_last obj)) (\<lambda>l.
         rbind (as_meta ''asn_first'' (pr_asn_first r) (asn_first obj)) (\<lambda>a.
         rbind (as_meta ''asn_last'' (pr_asn_last r) (asn_last obj)) (\<lambda>b.
         rbind (ip_meta ''prefix'' (pr_prefix r) (prefix obj)) (\<lambda>p.
         rbind (set_meta allow (pr_value r) ''prefix_length'' str_nat (\<lambda>n. n \<noteq> 0)
                  (pr_prefix_length r) (prefix_length obj)) (\<lambda>n.
           Inr (obj\<lparr>ip_first := f, ip_last := l, asn_first := a, asn_last := b,
                    prefix := p, prefix_length := n\<rparr>))))))))"

text \<open>The body of the loop of \<open>_parse_attribute_data\<close>: the object and the new entry of \<open>_object_data\<close>.\<close>

definition parse_attribute :: "'ip extlib \<Rightarrow> settings \<Rightarrow> bool \<Rightarrow> string \<times> string \<times> string \<Rightarrow> 'ip rpsl_object
    \<Rightarrow> ((string \<times> string \<times> string) \<times> 'ip rpsl_object) res" where
  "parse_attribute L gs allow entry obj =
     (case entry of (attr_name, value, conts) \<Rightarrow>
       (case dict_get (class_fields (klass obj)) attr_name of
          None \<Rightarrow> Inr (entry, obj)
        | Some f \<Rightarrow>
            (let normalised = normalise_rpsl_value value;
                 strict = strict_validation obj;
                 raise_errors = (strict \<or> primary_key f \<or> lookup_key f \<or> attr_name = ''source'')
             in rbind (parse_field L gs f normalised (if raise_errors then obj_messages obj else []) strict)
                  (\<lambda>(parsed_value, ms).
                    let obj1 = (if raise_errors then obj\<lparr>obj_messages := ms\<rparr> else obj)
                    in case parsed_value of
                         None \<Rightarrow> Inr (entry, obj1)
                       | Some r \<Rightarrow>
                           rbind (store_parsed f attr_name r (parsed_data obj1)) (\<lambda>data.
                             rbind (if primary_key f \<or> lookup_key f
                                    then set_all_meta L allow r (obj1\<lparr>parsed_data := data\<rparr>)
                                    else Inr (obj1\<lparr>parsed_data := data\<rparr>)) (\<lambda>obj2.
                               Inr (if pr_value r \<noteq> normalised
                                    then (attr_name, py_replace normalised (pr_value r) value, conts)
                                    else entry, obj2)))))))"

fun parse_attributes :: "'ip extlib \<Rightarrow> settings \<Rightarrow> bool \<Rightarrow> object_data \<Rightarrow> 'ip rpsl_object
    \<Rightarrow> (object_data \<times> 'ip rpsl_object) res" where
  "parse_attributes L gs allow [] obj = Inr ([], obj)"
| "parse_attributes L gs allow (e # es) obj =
     rbind (parse_attribute L gs allow e obj) (\<lambda>(e', obj1).
       rbind (parse_attributes L gs allow es obj1) (\<lambda>(es', obj2). Inr (e' # es', obj2)))"

definition parse_attribute_data :: "'ip extlib \<Rightarrow> settings \<Rightarrow> bool \<Rightarrow> 'ip rpsl_object \<Rightarrow> 'ip rpsl_object res" where
  "parse_attribute_data L gs allow_invalid_metadata obj =
     rbind (parse_attributes L gs allow_invalid_metadata (object_data obj) obj) (\<lambda>(data, obj1).
       (let obj2 = obj1\<lparr>object_data := data\<rparr>
        in Inr (if dict_get (parsed_data obj2) ''source'' = None \<and> str_truthy (default_source obj2)
                then obj2\<lparr>parsed_data := dict_set ''source'' (PStr (the (default_source obj2))) (parsed_data obj2)\<rparr>
                else obj2)))"

section \<open>Accessors\<close>

text \<open>
  \<open>self.parsed_data.get(field, "")\<close> where the source goes on to use a string. The values of
  primary keys and of the source are never lists (\<open>parsed_data_shape\<close> below).
\<close>

definition data_str :: "'ip rpsl_object \<Rightarrow> string \<Rightarrow> string" where
  "data_str obj n = (case dict_get (parsed_data obj) n of Some (PStr s) \<Rightarrow> s | _ \<Rightarrow> [])"

definition data_list :: "'ip rpsl_object \<Rightarrow> string \<Rightarrow> string list" where
  "data_list obj n = (case dict_get (parsed_data obj) n of Some (PList vs) \<Rightarrow> vs | _ \<Rightarrow> [])"

definition pk :: "'ip rpsl_object \<Rightarrow> string" where
  "pk obj = py_upper (concat (map (data_str obj) (pk_fields (klass obj))))"

definition source :: "'ip rpsl_object \<Rightarrow> string res" where
  "source obj = (case dict_get (parsed_data obj) ''source'' of
      None \<Rightarrow> Inl (ValueError ''RPSL object has no known source'')
    | Some v \<Rightarrow> Inr (data_str obj ''source''))"

definition obj_ip_version :: "'ip extlib \<Rightarrow> 'ip rpsl_object \<Rightarrow> nat option" where
  "obj_ip_version L obj = map_option (ip_version L) (ip_first obj)"

fun pvalue_empty :: "pvalue \<Rightarrow> bool" where
  "pvalue_empty (PStr s) = (s = [])"
| "pvalue_empty (PList vs) = (vs = [])"

definition referred_strong_objects :: "'ip rpsl_object \<Rightarrow> (string \<times> string list \<times> pvalue) list" where
  "referred_strong_objects obj =
     List.map_filter (\<lambda>(field_name, referred).
         case dict_get (parsed_data obj) field_name of
           None \<Rightarrow> None
         | Some d \<Rightarrow> if pvalue_empty d then None else Some (field_name, referred, d))
       (referring_strong_fields (klass obj))"

section \<open>Rendering\<close>

text \<open>The lines of one attribute; a missing continuation character is an \<open>IndexError\<close>.\<close>

fun render_more :: "string \<Rightarrow> string list \<Rightarrow> string res" where
  "render_more conts [] = Inr []"
| "render_more [] (l # ls) = Inl (IndexError ''list index out of range'')"
| "render_more (k # conts) (l # ls) =
     rbind (render_more conts ls) (\<lambda>rest.
       Inr ([if l = [] then CHR ''+'' else k] @ replicate (RPSL_ATTRIBUTE_TEXT_WIDTH - 1) CHR '' '' @ l @ [NL] @ rest))"

definition render_attribute :: "string \<times> string \<times> string \<Rightarrow> string res" where
  "render_attribute entry =
     (case entry of (attr, value, conts) \<Rightarrow>
        (case splitline_unicodesafe value of
           [] \<Rightarrow> Inr (attr @ '':'' @ [NL])
         | l # ls \<Rightarrow> rbind (render_more conts ls) (\<lambda>rest.
             Inr (py_ljust RPSL_ATTRIBUTE_TEXT_WIDTH (attr @ '':'') @ l @ [NL] @ rest))))"

fun render_data :: "object_data \<Rightarrow> string res" where
  "render_data [] = Inr []"
| "render_data (e # es) =
     rbind (render_attribute e) (\<lambda>s. rbind (render_data es) (\<lambda>t. Inr (s @ t)))"

definition render_rpsl_text :: "settings \<Rightarrow> string option \<Rightarrow> 'ip rpsl_object \<Rightarrow> string res" where
  "render_rpsl_text gs last_modified obj =
     rbind (source obj) (\<lambda>src.
       (let authoritative = truthy (source_setting gs src ''authoritative'');
            retain = truthy (source_setting gs src ''authoritative_retain_last_modified'');
            replace_date = (authoritative \<and> last_modified \<noteq> None \<and> \<not> retain)
        in rbind (render_data (filter (\<lambda>e. \<not> (replace_date \<and> fst e = ''last-modified'')) (object_data obj)))
             (\<lambda>output.
               Inr (if replace_date
                    then output @ py_ljust RPSL_ATTRIBUTE_TEXT_WIDTH ''last-modified:''
                         @ py_replace ''+00:00'' ''Z'' (the last_modified) @ [NL]
                    else output))))"

section \<open>Updates of attributes\<close>

definition update_attribute_value :: "string \<Rightarrow> string list \<Rightarrow> bool \<Rightarrow> 'ip rpsl_object \<Rightarrow> 'ip rpsl_object" where
  "update_attribute_value attr new_values flatten obj =
     (let others = filter (\<lambda>e. fst e \<noteq> attr) (object_data obj);
          inserted = map (\<lambda>v. (attr, v, [])) new_values
      in obj\<lparr>parsed_data := dict_set attr (if flatten then PStr (py_join [NL] new_values) else PList new_values)
               (parsed_data obj),
             object_data := take 1 others @ inserted @ drop 1 others\<rparr>)"

end
