(* ===== verification/RPSL_Objects.thy ===== *)
theory RPSL_Objects
  imports RPSL_Parser
begin

text \<open>
  The methods of the object classes of \<^verbatim>\<open>irrd/rpsl/rpsl_objects.py\<close>, the validation of an
  object, which calls them, and the entry point \<open>rpsl_object_from_text\<close>.
\<close>

definition obj_error :: "string \<Rightarrow> 'ip rpsl_object \<Rightarrow> 'ip rpsl_object" where
  "obj_error m obj = obj\<lparr>obj_messages := msg_error m (obj_messages obj)\<rparr>"

section \<open>Key certificates\<close>

definition format_fingerprint :: "string \<Rightarrow> string" where
  "format_fingerprint fp =
     py_join '' '' (concat (map (\<lambda>idx. take 4 (drop idx fp) # (if idx = 16 then [[]] else []))
       [0, 4, 8, 12, 16, 20, 24, 28, 32, 36]))"

definition RPSLKeyCert_clean :: "'ip extlib \<Rightarrow> 'ip rpsl_object \<Rightarrow> bool \<times> 'ip rpsl_object" where
  "RPSLKeyCert_clean L obj =
     (let certif_data = py_replace '','' [NL] (py_join [NL] (data_list obj ''certif''));
          (fingerprints, results) = gpg_import_keys L certif_data
      in case fingerprints of
           [fp] \<Rightarrow>
             (let expected_object_name = ''PGPKEY-'' @ drop (length fp - 8) fp;
                  actual_object_name = py_upper (data_str obj ''key-cert'');
                  fingerprint_formatted = format_fingerprint fp;
                  obj1 = obj\<lparr>fingerprint := Some fp\<rparr>
              in if expected_object_name \<noteq> actual_object_name
                 then (False, obj_error (''Invalid object name '' @ actual_object_name
                         @ '': does not match key fingerprint '' @ fingerprint_formatted
                         @ '', expected object name '' @ expected_object_name) obj1)
                 else (True, update_attribute_value ''method'' [''PGP''] True
                         (update_attribute_value ''owner'' (gpg_uids L fp) True
                           (update_attribute_value ''fingerpr'' [fingerprint_formatted] True obj1))))
         | _ \<Rightarrow>
             (False, obj_error (''Unable to read public PGP key: key corrupt or multiple keys provided''
                @ (case results of [] \<Rightarrow> [] | t # ts \<Rightarrow> '': '' @ t)) obj))"

definition RPSLKeyCert_verify :: "'ip extlib \<Rightarrow> string \<Rightarrow> 'ip rpsl_object \<Rightarrow> bool res" where
  "RPSLKeyCert_verify L message obj =
     (case gpg_verify L message of (valid, key_status, fp) \<Rightarrow>
        if \<not> valid \<or> key_status \<noteq> None then Inr False
        else (case dict_get (parsed_data obj) ''fingerpr'' of
                None \<Rightarrow> Inl (KeyError ''fingerpr'')
              | Some v \<Rightarrow> Inr (v = PStr (format_fingerprint fp))))"

section \<open>Maintainers\<close>

definition auth_lines_hashes :: "'ip rpsl_object \<Rightarrow> (string \<times> string) list" where
  "auth_lines_hashes obj =
     map (py_split1 CHR '' '') (filter (\<lambda>auth. CHR '' '' \<in> set auth) (data_list obj ''auth''))"

definition auth_lines_other :: "'ip rpsl_object \<Rightarrow> string list" where
  "auth_lines_other obj = filter (\<lambda>auth. CHR '' '' \<notin> set auth) (data_list obj ''auth'')"

definition RPSLMntner_clean :: "'ip rpsl_object \<Rightarrow> 'ip rpsl_object" where
  "RPSLMntner_clean obj =
     (let dummy_matches = map (\<lambda>a. snd a = PASSWORD_HASH_DUMMY_VALUE) (auth_lines_hashes obj)
      in if list_ex (\<lambda>b. b) dummy_matches \<and> \<not> list_all (\<lambda>b. b) dummy_matches
         then obj_error ''Either all password auth hashes in a submitted mntner must be dummy objects, or none.'' obj
         else obj)"

definition verify_auth :: "'ip extlib \<Rightarrow> settings \<Rightarrow> string list \<Rightarrow> string option \<Rightarrow> 'ip rpsl_object
    \<Rightarrow> string option res" where
  "verify_auth L gs passwords keycert_obj_pk obj =
     verify_auth_lines L gs (data_list obj ''auth'') passwords keycert_obj_pk"

definition has_dummy_auth_value :: "'ip rpsl_object \<Rightarrow> bool" where
  "has_dummy_auth_value obj =
     (let auth_values = map snd (auth_lines_hashes obj)
      in auth_values \<noteq> [] \<and> list_all (\<lambda>v. v = PASSWORD_HASH_DUMMY_VALUE) auth_values)"

definition PASSWORD_REPLACEMENT_HASH :: string where
  "PASSWORD_REPLACEMENT_HASH = ''BCRYPT-PW''"

definition force_single_new_password :: "'ip extlib \<Rightarrow> string \<Rightarrow> 'ip rpsl_object \<Rightarrow> 'ip rpsl_object" where
  "force_single_new_password L password obj =
     update_attribute_value ''auth''
       (auth_lines_other obj
        @ [PASSWORD_REPLACEMENT_HASH @ '' '' @ hasher_hash L PASSWORD_REPLACEMENT_HASH password]) False obj"

definition add_irrd_internal_auth :: "'ip rpsl_object \<Rightarrow> 'ip rpsl_object" where
  "add_irrd_internal_auth obj =
     update_attribute_value ''auth'' (RPSL_MNTNER_AUTH_INTERNAL # data_list obj ''auth'') False obj"

definition has_internal_auth :: "'ip rpsl_object \<Rightarrow> bool res" where
  "has_internal_auth obj =
     (case dict_get (parsed_data obj) ''auth'' of
        None \<Rightarrow> Inl (KeyError ''auth'')
      | Some v \<Rightarrow> Inr (RPSL_MNTNER_AUTH_INTERNAL \<in> set (data_list obj ''auth'')))"

section \<open>Sets\<close>

text \<open>
  The message shows \<open>self.pk_asn_segment\<close> after the method has reset it to \<open>None\<close>.
\<close>

definition RPSLSet_clean_for_create :: "settings \<Rightarrow> 'ip rpsl_object \<Rightarrow> bool \<times> 'ip rpsl_object" where
  "RPSLSet_clean_for_create gs obj =
     (let segment = hd (py_split CHR '':'' (pk obj)); cls = rpsl_object_class (klass obj)
      in case parse_as segment of
           Inr (s, n) \<Rightarrow> (True, obj\<lparr>pk_asn_segment := Some segment\<rparr>)
         | Inl ve \<Rightarrow>
             (let obj1 = obj\<lparr>pk_asn_segment := None\<rparr>
              in if get_setting gs (''auth.set_creation.'' @ cls @ ''.prefix_required'') = CBool False
                 then (True, obj1)
                 else if get_setting gs (''auth.set_creation.'' @ AUTH_SET_CREATION_COMMON_KEY
                           @ ''.prefix_required'') = CBool False
                 then (True, obj1)
                 else (False, obj_error (cls @ '' names must be hierarchical and the first ''
                         @ ''component must be an AS number, e.g. \"AS65537:None\": '' @ exn_str ve) obj1)))"

definition clean_for_create :: "settings \<Rightarrow> 'ip rpsl_object \<Rightarrow> bool \<times> 'ip rpsl_object" where
  "clean_for_create gs obj = (if is_set (klass obj) then RPSLSet_clean_for_create gs obj else (True, obj))"

section \<open>Validation\<close>

definition clean :: "'ip extlib \<Rightarrow> 'ip rpsl_object \<Rightarrow> 'ip rpsl_object" where
  "clean L obj =
     (if rpsl_object_class (klass obj) = ''key-cert'' then snd (RPSLKeyCert_clean L obj)
      else if rpsl_object_class (klass obj) = ''mntner'' then RPSLMntner_clean obj
      else obj)"

definition validate_object :: "'ip extlib \<Rightarrow> settings \<Rightarrow> 'ip rpsl_object \<Rightarrow> 'ip rpsl_object res" where
  "validate_object L gs obj0 =
     (let obj = obj0\<lparr>parsed_data := []\<rparr>;
          obj1 = (if errors (obj_messages obj) = [] then validate_attribute_counts obj else obj)
      in rbind (parse_attribute_data L gs (errors (obj_messages obj1) \<noteq> []) obj1) (\<lambda>obj2.
           Inr (if strict_validation obj2 \<and> errors (obj_messages obj2) = [] then clean L obj2 else obj2)))"

text \<open>The constructor \<open>RPSLObject.__init__\<close>.\<close>

definition rpsl_object_init :: "'ip extlib \<Rightarrow> settings \<Rightarrow> rpsl_class \<Rightarrow> string \<Rightarrow> bool \<Rightarrow> string option
    \<Rightarrow> 'ip rpsl_object res" where
  "rpsl_object_init L gs c from_text strict dflt =
     (if from_text = [] then Inr (new_object c strict dflt)
      else validate_object L gs (extract_attributes_values from_text (new_object c strict dflt)))"

definition rpsl_object_from_text :: "'ip extlib \<Rightarrow> settings \<Rightarrow> string \<Rightarrow> bool \<Rightarrow> string option
    \<Rightarrow> 'ip rpsl_object res" where
  "rpsl_object_from_text L gs text_in strict dflt =
     (let cls = py_strip (takeWhile (\<lambda>c. c \<noteq> CHR '':'') text_in)
      in case dict_get OBJECT_CLASS_MAPPING cls of
           None \<Rightarrow> Inl (UnknownRPSLObjectClassException (''unknown object class: '' @ cls))
         | Some c \<Rightarrow> rpsl_object_init L gs c text_in strict dflt)"

end
