(* ===== verification/RPSL_Object_Facts.thy ===== *)
theory RPSL_Object_Facts
  imports RPSL_Objects
begin

text \<open>
  What the validation of an object guarantees: which attributes an accepted object has, the
  shape of its parsed data, the behaviour of the methods of maintainers and sets.
\<close>

named_theorems obj_simps \<open>definitions of the object methods\<close>

section \<open>The parser keeps names, class and earlier messages\<close>

definition schema_object :: "string \<Rightarrow> 'ip rpsl_object \<Rightarrow> bool" where
  "schema_object n obj \<longleftrightarrow> dict_get OBJECT_CLASS_MAPPING n = Some (klass obj)"

lemma schema_object_field:
  "schema_object n obj \<Longrightarrow> dict_get (class_fields (klass obj)) a = Some f \<Longrightarrow> schema_field n a = f"
  by (simp add: schema_object_def schema_field_def)

text \<open>What one step may change: parsed data, metadata, and messages only by appending.\<close>

definition extends_object :: "'ip rpsl_object \<Rightarrow> 'ip rpsl_object \<Rightarrow> bool" where
  "extends_object obj obj' \<longleftrightarrow>
     klass obj' = klass obj \<and> strict_validation obj' = strict_validation obj \<and>
     default_source obj' = default_source obj \<and> object_data obj' = object_data obj \<and>
     (\<exists>new. obj_messages obj' = obj_messages obj @ new)"

lemma extends_object_refl [simp]: "extends_object obj obj"
  by (simp add: extends_object_def)

lemma extends_object_trans: "extends_object a b \<Longrightarrow> extends_object b c \<Longrightarrow> extends_object a c"
  by (auto simp: extends_object_def)

lemma schema_object_extends: "schema_object n obj \<Longrightarrow> extends_object obj obj' \<Longrightarrow> schema_object n obj'"
  by (simp add: schema_object_def extends_object_def)

lemma set_all_meta_only_meta:
  "set_all_meta L allow r obj = Inr obj' \<Longrightarrow>
   klass obj' = klass obj \<and> strict_validation obj' = strict_validation obj \<and>
   default_source obj' = default_source obj \<and> object_data obj' = object_data obj \<and>
   obj_messages obj' = obj_messages obj \<and> parsed_data obj' = parsed_data obj"
  by (auto simp: set_all_meta_def rbind_Inr_conv Let_def)

lemma rbind_rbind_InrD:
  "rbind S (\<lambda>d. rbind (M d) (\<lambda>z. Inr (X, z))) = Inr (x, y) \<Longrightarrow> \<exists>d. S = Inr d \<and> M d = Inr y \<and> x = X"
  by (auto simp: rbind_Inr_conv)

lemma parse_attribute_cases:
  assumes "parse_attribute L gs allow (a, v, k) obj = Inr (e', obj')"
  obtains (unknown) "dict_get (class_fields (klass obj)) a = None" "e' = (a, v, k)" "obj' = obj"
  | (failed) f ms where "dict_get (class_fields (klass obj)) a = Some f"
      "parse_field L gs f (normalise_rpsl_value v) (if strict_validation obj \<or> primary_key f \<or> lookup_key f \<or> a = ''source''
         then obj_messages obj else []) (strict_validation obj) = Inr (None, ms)" "e' = (a, v, k)"
      "obj' = (if strict_validation obj \<or> primary_key f \<or> lookup_key f \<or> a = ''source'' then obj\<lparr>obj_messages := ms\<rparr> else obj)"
  | (stored) f ms r data where "dict_get (class_fields (klass obj)) a = Some f"
      "parse_field L gs f (normalise_rpsl_value v) (if strict_validation obj \<or> primary_key f \<or> lookup_key f \<or> a = ''source''
         then obj_messages obj else []) (strict_validation obj) = Inr (Some r, ms)"
      "store_parsed f a r (parsed_data obj) = Inr data" "fst e' = a"
      "parsed_data obj' = data"
      "obj_messages obj' = (if strict_validation obj \<or> primary_key f \<or> lookup_key f \<or> a = ''source'' then ms else obj_messages obj)"
      "klass obj' = klass obj" "strict_validation obj' = strict_validation obj"
      "default_source obj' = default_source obj" "object_data obj' = object_data obj"
proof (cases "dict_get (class_fields (klass obj)) a")
  case None
  with assms have "e' = (a, v, k)" "obj' = obj" by (simp_all add: parse_attribute_def)
  with None show ?thesis by (rule that(1))
next
  case (Some f)
  let ?re = "strict_validation obj \<or> primary_key f \<or> lookup_key f \<or> a = ''source''"
  obtain pv ms where p: "parse_field L gs f (normalise_rpsl_value v)
      (if ?re then obj_messages obj else []) (strict_validation obj) = Inr (pv, ms)"
  proof (cases "parse_field L gs f (normalise_rpsl_value v)
      (if ?re then obj_messages obj else []) (strict_validation obj)")
    case (Inl x)
    with assms Some show ?thesis by (simp add: parse_attribute_def Let_def)
  next
    case (Inr x)
    with that show ?thesis by (cases x) simp
  qed
  define obj1 where "obj1 = (if ?re then obj\<lparr>obj_messages := ms\<rparr> else obj)"
  show ?thesis
  proof (cases pv)
    case None
    with assms Some p have "e' = (a, v, k)" "obj' = obj1"
      by (simp_all add: parse_attribute_def Let_def obj1_def)
    with that(2) [OF Some p [unfolded None]] show ?thesis unfolding obj1_def by blast
  next
    case (Some r)
    have pd: "parsed_data obj1 = parsed_data obj" by (simp add: obj1_def)
    have "parse_attribute L gs allow (a, v, k) obj =
        rbind (store_parsed f a r (parsed_data obj)) (\<lambda>data.
          rbind (if primary_key f \<or> lookup_key f then set_all_meta L allow r (obj1\<lparr>parsed_data := data\<rparr>)
                 else Inr (obj1\<lparr>parsed_data := data\<rparr>)) (\<lambda>obj2.
            Inr (if pr_value r \<noteq> normalise_rpsl_value v
                 then (a, py_replace (normalise_rpsl_value v) (pr_value r) v, k) else (a, v, k), obj2)))"
      using \<open>dict_get _ a = Some f\<close> p Some pd
      unfolding parse_attribute_def Let_def obj1_def
      by (cases ?re; simp only: prod.case option.case if_True if_False rbind_simps)
    with assms have step: "rbind (store_parsed f a r (parsed_data obj)) (\<lambda>data.
          rbind (if primary_key f \<or> lookup_key f then set_all_meta L allow r (obj1\<lparr>parsed_data := data\<rparr>)
                 else Inr (obj1\<lparr>parsed_data := data\<rparr>)) (\<lambda>obj2.
            Inr (if pr_value r \<noteq> normalise_rpsl_value v
                 then (a, py_replace (normalise_rpsl_value v) (pr_value r) v, k) else (a, v, k), obj2)))
        = Inr (e', obj')"
      by (simp only:)
    obtain data obj2 where
      d: "store_parsed f a r (parsed_data obj) = Inr data" and
      m: "(if primary_key f \<or> lookup_key f then set_all_meta L allow r (obj1\<lparr>parsed_data := data\<rparr>)
           else Inr (obj1\<lparr>parsed_data := data\<rparr>)) = Inr obj2" and
      e: "fst e' = a" "obj' = obj2"
      using rbind_rbind_InrD [OF step] by (metis fst_conv)
    from m set_all_meta_only_meta [of L allow r "obj1\<lparr>parsed_data := data\<rparr>" obj2]
    have "klass obj2 = klass obj \<and> strict_validation obj2 = strict_validation obj \<and>
        default_source obj2 = default_source obj \<and> object_data obj2 = object_data obj \<and>
        obj_messages obj2 = obj_messages obj1 \<and> parsed_data obj2 = data"
      by (auto simp: obj1_def split: if_splits)
    then have "parsed_data obj' = data" "obj_messages obj' = (if ?re then ms else obj_messages obj)"
      "klass obj' = klass obj" "strict_validation obj' = strict_validation obj"
      "default_source obj' = default_source obj" "object_data obj' = object_data obj"
      using e(2) by (simp_all add: obj1_def)
    with \<open>dict_get _ a = Some f\<close> p [unfolded Some] d e(1) show ?thesis by (rule that(3))
  qed
qed

lemma parse_attribute_extends:
  assumes "schema_object n obj" "parse_attribute L gs allow e obj = Inr (e', obj')"
  shows "fst e' = fst e \<and> extends_object obj obj'"
proof -
  obtain a v k where e: "e = (a, v, k)" using prod_cases3 by blast
  from assms(2) [unfolded e] show ?thesis
  proof (cases rule: parse_attribute_cases)
    case unknown
    then show ?thesis by (simp add: e)
  next
    case (failed f ms)
    with sf.extends [where n = n and a = a] schema_object_field [OF assms(1) failed(1)]
    show ?thesis by (fastforce simp: e extends_object_def)
  next
    case (stored f ms r data)
    with sf.extends [where n = n and a = a] schema_object_field [OF assms(1) stored(1)]
    show ?thesis by (fastforce simp: e extends_object_def)
  qed
qed

lemma parse_attributes_extends:
  assumes "schema_object n obj" "parse_attributes L gs allow es obj = Inr (es', obj')"
  shows "map fst es' = map fst es \<and> extends_object obj obj'"
  using assms
proof (induction es arbitrary: obj es')
  case (Cons e es)
  then obtain e1 obj1 es2 where 1: "parse_attribute L gs allow e obj = Inr (e1, obj1)"
    and 2: "parse_attributes L gs allow es obj1 = Inr (es2, obj')" and es': "es' = e1 # es2"
    by (auto simp: rbind_Inr_conv)
  from parse_attribute_extends [OF Cons.prems(1) 1] have e1: "fst e1 = fst e" "extends_object obj obj1" by auto
  from Cons.IH [OF schema_object_extends [OF Cons.prems(1) e1(2)] 2] e1 es' show ?case
    using extends_object_trans by auto
qed simp

section \<open>What parsers yield\<close>

text \<open>Every result of a parser has a property; closed under the control flow of the parsers.\<close>

definition yields :: "('ip parse_result \<Rightarrow> bool) \<Rightarrow> (messages \<Rightarrow> 'ip field_res) \<Rightarrow> bool" where
  "yields Q g \<longleftrightarrow> (\<forall>ms r ms'. g ms = Inr (Some r, ms') \<longrightarrow> Q r)"

named_theorems yields_intros \<open>closure rules of yields\<close>

lemma yields_parsed [yields_intros]: "Q r \<Longrightarrow> yields Q (\<lambda>ms. parsed r (h ms))"
  by (simp add: yields_def parsed_def)

lemma yields_failed [yields_intros]: "yields Q (\<lambda>ms. failed m (h ms))"
  by (simp add: yields_def failed_def)

lemma yields_raise [yields_intros]: "yields Q (\<lambda>ms. Inl e)"
  by (simp add: yields_def)

lemma yields_if [yields_intros]:
  "(b \<Longrightarrow> yields Q f) \<Longrightarrow> (\<not> b \<Longrightarrow> yields Q g) \<Longrightarrow> yields Q (\<lambda>ms. if b then f ms else g ms)"
  by (cases b) simp_all

lemma yields_option [yields_intros]:
  "yields Q f \<Longrightarrow> (\<And>x. yields Q (g x)) \<Longrightarrow> yields Q (\<lambda>ms. case opt of None \<Rightarrow> f ms | Some x \<Rightarrow> g x ms)"
  by (cases opt) simp_all

lemma yields_sum [yields_intros]:
  "(\<And>x. yields Q (f x)) \<Longrightarrow> (\<And>x. yields Q (g x)) \<Longrightarrow> yields Q (\<lambda>ms. case r of Inl x \<Rightarrow> f x ms | Inr x \<Rightarrow> g x ms)"
  by (cases r) simp_all

lemma yields_prod [yields_intros]:
  "(\<And>a b. yields Q (f a b)) \<Longrightarrow> yields Q (\<lambda>ms. case p of (a, b) \<Rightarrow> f a b ms)"
  by (cases p) simp

lemma yields_let [yields_intros]: "(\<And>x. yields Q (f x)) \<Longrightarrow> yields Q (\<lambda>ms. let x = a in f x ms)"
  by simp

lemma yields_rbind [yields_intros]: "(\<And>x. yields Q (f x)) \<Longrightarrow> yields Q (\<lambda>ms. rbind r (\<lambda>x. f x ms))"
  by (cases r) (simp_all add: yields_raise)

lemma yields_rbind_prod [yields_intros]:
  "(\<And>a b. yields Q (f a b)) \<Longrightarrow> yields Q (\<lambda>ms. rbind r (\<lambda>(a, b). f a b ms))"
  by (cases r) (auto simp: yields_raise)

definition no_list :: "'ip parse_result \<Rightarrow> bool" where
  "no_list r \<longleftrightarrow> pr_values_list r = None"

lemma no_list_intros:
  "no_list (parse_result_of v)"
  "no_list r \<Longrightarrow> no_list (r\<lparr>pr_ip_first := a\<rparr>)"
  "no_list r \<Longrightarrow> no_list (r\<lparr>pr_ip_last := a\<rparr>)"
  "no_list r \<Longrightarrow> no_list (r\<lparr>pr_prefix := a\<rparr>)"
  "no_list r \<Longrightarrow> no_list (r\<lparr>pr_prefix_length := b\<rparr>)"
  "no_list r \<Longrightarrow> no_list (r\<lparr>pr_asn_first := i\<rparr>)"
  "no_list r \<Longrightarrow> no_list (r\<lparr>pr_asn_last := i\<rparr>)"
  by (simp_all add: no_list_def)

lemma plain_yields:
  assumes "referring k = None"
  shows "yields no_list (\<lambda>ms. parse_single L gs k v ms s)"
  using assms
  by (cases k) (simp_all add: parse_single.simps, unfold field_parse, (intro yields_intros no_list_intros)+)

lemma yieldsD: "yields Q g \<Longrightarrow> g ms = Inr (Some r, ms') \<Longrightarrow> Q r"
  by (auto simp: yields_def)

lemma first_identifier_yields:
  "(\<And>f v. f \<in> set fs \<Longrightarrow> yields Q (\<lambda>ms. p f v ms s)) \<Longrightarrow>
   first_identifier p fs v ms s = Inr (Some r, ms') \<Longrightarrow> Q r"
proof (induction fs arbitrary: ms)
  case (Cons f fs)
  from Cons.prems(2) obtain x ms1 where f: "p f v ms s = Inr (x, ms1)"
    by (auto simp: rbind_Inr_conv)
  show ?case
  proof (cases x)
    case None
    with f Cons show ?thesis by simp
  next
    case (Some y)
    with f Cons.prems(2) have "y = r" by simp
    with f Some Cons.prems(1) [of f v] show ?thesis using yieldsD by fastforce
  qed
qed simp

lemma single_yields: "yields no_list (\<lambda>ms. parse_single L gs k v ms s)"
proof (cases "referring k")
  case None
  then show ?thesis by (rule plain_yields)
next
  case (Some refs)
  let ?p = "\<lambda>f. with_mixin (kind f) (parse_single L gs (kind f))"
  have "yields no_list (\<lambda>ms. ?p f v ms s)"
    if "resolve_references refs = Inr fs" "f \<in> set fs" for fs f v
    using resolve_references_identifier [OF that] plain_yields [of "kind f" L gs v s]
    by (cases "kind f") auto
  then have "first_identifier ?p fs v [] s = Inr (Some r, ms') \<Longrightarrow> no_list r"
    if "resolve_references refs = Inr fs" for fs r ms'
    using first_identifier_yields [of fs no_list ?p s v "[]" r ms'] that by blast
  with Some show ?thesis
    by (cases k) (auto simp: yields_def parse_single.simps rbind_Inr_conv split: option.splits)
qed

lemma parse_field_no_list:
  assumes "parse_field L gs f v ms s = Inr (Some r, ms')" "\<not> is_list_field (kind f)"
  shows "pr_values_list r = None"
  using assms single_yields [of L gs "kind f" v s, THEN yieldsD, of ms r ms']
  by (cases "kind f") (auto simp: parse_field_def no_list_def)

section \<open>The shape of parsed data\<close>

definition shape_ok :: "rpsl_class \<Rightarrow> (string, pvalue) dict \<Rightarrow> bool" where
  "shape_ok c data \<longleftrightarrow>
     (\<forall>a f v. dict_get (class_fields c) a = Some f \<longrightarrow> dict_get data a = Some v \<longrightarrow>
        (\<exists>vs. v = PList vs) = multiple f)"

lemma class_ok_list_multiple:
  "dict_get OBJECT_CLASS_MAPPING n = Some c \<Longrightarrow> dict_get (class_fields c) a = Some f \<Longrightarrow>
   is_list_field (kind f) \<Longrightarrow> multiple f"
  using class_okD [of n c] by (force simp: class_ok_def list_all_iff dict_get_def dest!: map_of_SomeD)

lemma store_parsed_shape:
  assumes "shape_ok c data" "dict_get (class_fields c) a = Some f"
    and "pr_values_list r \<noteq> None \<Longrightarrow> multiple f"
  shows "\<exists>data'. store_parsed f a r data = Inr data' \<and> shape_ok c data'"
proof -
  have old: "(\<exists>vs. v = PList vs) = multiple f" if "dict_get data a = Some v" for v
    using assms(1,2) that by (auto simp: shape_ok_def)
  have upd: "shape_ok c (dict_set a w data)" if "(\<exists>vs. w = PList vs) = multiple f" for w
    using assms(1,2) that by (auto simp: shape_ok_def)
  show ?thesis
  proof (cases "multiple f")
    case True
    with old upd show ?thesis
      by (auto simp: store_parsed_def Let_def split: option.split list.split pvalue.split)
  next
    case False
    with assms(3) have "pr_values_list r = None" by blast
    with False old upd show ?thesis by (auto simp: store_parsed_def Let_def split: option.split)
  qed
qed

lemma parse_attributes_shape:
  assumes "schema_object n obj" "shape_ok (klass obj) (parsed_data obj)"
    and "parse_attributes L gs allow es obj = Inr (es', obj')"
  shows "shape_ok (klass obj) (parsed_data obj')"
  using assms
proof (induction es arbitrary: obj es')
  case (Cons e es)
  from Cons.prems(3) obtain e1 obj1 es2 where 1: "parse_attribute L gs allow e obj = Inr (e1, obj1)"
    and 2: "parse_attributes L gs allow es obj1 = Inr (es2, obj')"
    by (auto simp: rbind_Inr_conv)
  from parse_attribute_extends [OF Cons.prems(1) 1] have ext: "extends_object obj obj1" by auto
  obtain a v k where e: "e = (a, v, k)" using prod_cases3 by blast
  have "shape_ok (klass obj) (parsed_data obj1)"
    using 1 [unfolded e]
  proof (cases rule: parse_attribute_cases)
    case (stored f ms r data)
    have mult: "multiple f" if "pr_values_list r \<noteq> None"
    proof -
      have "is_list_field (kind f)" using parse_field_no_list [OF stored(2)] that by blast
      with Cons.prems(1) stored(1) show ?thesis
        using class_ok_list_multiple by (auto simp: schema_object_def)
    qed
    have "\<exists>data'. store_parsed f a r (parsed_data obj) = Inr data' \<and> shape_ok (klass obj) data'"
      by (rule store_parsed_shape [OF Cons.prems(2) stored(1) mult])
    with stored(3,5) show ?thesis by simp
  qed (use Cons.prems(2) in auto)
  with Cons.IH [OF schema_object_extends [OF Cons.prems(1) ext] _ 2] ext show ?case
    by (simp add: extends_object_def)
qed simp

section \<open>Validation of a whole object\<close>

lemma parse_attribute_data_facts:
  assumes "schema_object n obj" "shape_ok (klass obj) (parsed_data obj)"
    and "parse_attribute_data L gs allow obj = Inr obj'"
  shows "klass obj' = klass obj" "strict_validation obj' = strict_validation obj"
    "map fst (object_data obj') = map fst (object_data obj)"
    "\<exists>new. obj_messages obj' = obj_messages obj @ new"
    "shape_ok (klass obj) (parsed_data obj')"
proof -
  from assms(3) obtain data obj1 where
    p: "parse_attributes L gs allow (object_data obj) obj = Inr (data, obj1)" and
    obj': "obj' = (let obj2 = obj1\<lparr>object_data := data\<rparr>
        in if dict_get (parsed_data obj2) ''source'' = None \<and> str_truthy (default_source obj2)
           then obj2\<lparr>parsed_data := dict_set ''source'' (PStr (the (default_source obj2))) (parsed_data obj2)\<rparr>
           else obj2)"
    by (auto simp: parse_attribute_data_def rbind_Inr_conv Let_def)
  note ext = parse_attributes_extends [OF assms(1) p]
  then show "klass obj' = klass obj" "strict_validation obj' = strict_validation obj"
    "map fst (object_data obj') = map fst (object_data obj)"
    "\<exists>new. obj_messages obj' = obj_messages obj @ new"
    by (auto simp: obj' Let_def extends_object_def)
  have sh: "shape_ok (klass obj) (parsed_data obj1)" by (rule parse_attributes_shape [OF assms(1,2) p])
  have "dict_get (class_fields (klass obj)) ''source'' = Some (fld (RPSLGenericNameField [] False))"
    using assms(1) class_okD by (fastforce simp: schema_object_def class_ok_def)
  with sh show "shape_ok (klass obj) (parsed_data obj')"
    by (auto simp: obj' Let_def shape_ok_def fld_def)
qed

lemma clean_extends:
  assumes "rpsl_object_class (klass obj) \<noteq> ''key-cert''"
  shows "extends_object obj (clean L obj) \<and> parsed_data (clean L obj) = parsed_data obj"
  using assms
  by (auto simp: clean_def RPSLMntner_clean_def obj_error_def extends_object_def msg_error_def Let_def)

lemma update_keeps_klass [simp]:
  "klass (update_attribute_value a vs b obj) = klass obj" "klass (obj_error m obj) = klass obj"
  by (simp_all add: update_attribute_value_def obj_error_def Let_def)

lemma clean_klass: "klass (clean L obj) = klass obj"
proof -
  have "klass (snd (RPSLKeyCert_clean L obj)) = klass obj"
    unfolding RPSLKeyCert_clean_def Let_def
    by (cases "gpg_import_keys L (py_replace '','' [NL] (py_join [NL] (data_list obj ''certif'')))")
       (simp split: list.split)
  then show ?thesis by (simp add: clean_def RPSLMntner_clean_def Let_def)
qed

lemma validate_object_klass:
  assumes "dict_get OBJECT_CLASS_MAPPING n = Some (klass obj)" "validate_object L gs obj = Inr obj'"
  shows "klass obj' = klass obj"
proof -
  define obj1 where "obj1 = (if errors (obj_messages obj) = []
    then validate_attribute_counts (obj\<lparr>parsed_data := []\<rparr>) else obj\<lparr>parsed_data := []\<rparr>)"
  have k: "klass obj1 = klass obj" "parsed_data obj1 = []"
    by (simp_all add: obj1_def validate_attribute_counts_def)
  from assms(2) obtain obj2 where "parse_attribute_data L gs (errors (obj_messages obj1) \<noteq> []) obj1 = Inr obj2"
    and "obj' = (if strict_validation obj2 \<and> errors (obj_messages obj2) = [] then clean L obj2 else obj2)"
    by (auto simp: validate_object_def Let_def rbind_Inr_conv obj1_def)
  with parse_attribute_data_facts(1) [of n obj1] assms(1) k show ?thesis
    by (auto simp: schema_object_def shape_ok_def clean_klass)
qed

lemma from_text_class:
  assumes "rpsl_object_from_text L gs t strict d = Inr obj"
  obtains n c where "dict_get OBJECT_CLASS_MAPPING n = Some c" "rpsl_object_class c = n"
    "validate_object L gs (extract_attributes_values t (new_object c strict d)) = Inr obj"
proof -
  define n where "n = py_strip (takeWhile (\<lambda>c. c \<noteq> CHR '':'') t)"
  from assms obtain c where c: "dict_get OBJECT_CLASS_MAPPING n = Some c"
    and i: "rpsl_object_init L gs c t strict d = Inr obj"
    by (auto simp: rpsl_object_from_text_def Let_def n_def split: option.splits)
  have "t \<noteq> []"
  proof
    assume "t = []"
    then have "n = []" by (simp add: n_def py_strip_def strip_by_def)
    moreover have "dict_get OBJECT_CLASS_MAPPING [] = None" by code_simp
    ultimately show False using c by simp
  qed
  with i have "validate_object L gs (extract_attributes_values t (new_object c strict d)) = Inr obj"
    by (simp add: rpsl_object_init_def)
  moreover have "rpsl_object_class c = n" using class_okD [OF c] by (simp add: class_ok_def)
  ultimately show ?thesis using that c by blast
qed

lemma extract_keeps:
  "klass (extract_attributes_values t obj) = klass obj"
  "strict_validation (extract_attributes_values t obj) = strict_validation obj"
  by (auto simp: extract_attributes_values_def split: prod.splits option.splits)

lemma validate_object_facts:
  assumes "dict_get OBJECT_CLASS_MAPPING n = Some (klass obj)" "rpsl_object_class (klass obj) = n"
    and "validate_object L gs obj = Inr obj'" "n \<noteq> ''key-cert''"
  shows "klass obj' = klass obj" "strict_validation obj' = strict_validation obj"
    "map fst (object_data obj') = map fst (object_data obj)"
    "shape_ok (klass obj) (parsed_data obj')"
    "errors (obj_messages obj') = [] \<Longrightarrow>
       errors (obj_messages obj) = [] \<and> attribute_count_errors obj = []"
proof -
  define obj0 where "obj0 = obj\<lparr>parsed_data := []\<rparr>"
  define obj1 where "obj1 = (if errors (obj_messages obj) = [] then validate_attribute_counts obj0 else obj0)"
  from assms(3) obtain obj2 where
    p: "parse_attribute_data L gs (errors (obj_messages obj1) \<noteq> []) obj1 = Inr obj2" and
    obj': "obj' = (if strict_validation obj2 \<and> errors (obj_messages obj2) = [] then clean L obj2 else obj2)"
    unfolding validate_object_def Let_def obj0_def [symmetric] obj1_def
    by (auto simp: rbind_Inr_conv obj0_def)
  have k1: "klass obj1 = klass obj" "strict_validation obj1 = strict_validation obj"
    "object_data obj1 = object_data obj" "parsed_data obj1 = []"
    by (simp_all add: obj1_def obj0_def validate_attribute_counts_def)
  have "schema_object n obj1" "shape_ok (klass obj1) (parsed_data obj1)"
    using assms(1) by (simp_all add: schema_object_def shape_ok_def k1)
  note f = parse_attribute_data_facts [OF this p]
  have ext: "extends_object obj2 obj'" and pd: "parsed_data obj' = parsed_data obj2"
    using clean_extends [of obj2 L] assms(2,4) f(1) k1 by (auto simp: obj')
  show "klass obj' = klass obj" "strict_validation obj' = strict_validation obj"
    "map fst (object_data obj') = map fst (object_data obj)"
    "shape_ok (klass obj) (parsed_data obj')"
    using ext f k1 pd by (auto simp: extends_object_def)
  assume e: "errors (obj_messages obj') = []"
  have "errors (obj_messages obj1) = []"
    using e ext f(4) by (auto simp: extends_object_def)
  moreover have "attribute_count_errors obj0 = attribute_count_errors obj"
    by (simp add: attribute_count_errors_def obj0_def)
  ultimately show "errors (obj_messages obj) = [] \<and> attribute_count_errors obj = []"
    by (auto simp: obj1_def obj0_def validate_attribute_counts_def errors_def filter_map o_def
        split: if_splits)
qed

lemma py_counter_iff: "(n, k) \<in> set (py_counter names) \<longleftrightarrow> n \<in> set names \<and> k = count_list names n"
  by (auto simp: py_counter_def)

lemma count_errors_Nil:
  assumes "attribute_count_errors obj = []" "strict_validation obj"
  shows "set (attrs_required (klass obj)) \<subseteq> set (map fst (object_data obj))"
    and "a \<in> set (map fst (object_data obj)) \<Longrightarrow> a \<in> set (attrs_allowed (klass obj)) \<or> a = ''last-modified''"
    and "a \<notin> set (attrs_multiple (klass obj)) \<Longrightarrow> a \<noteq> ''last-modified'' \<Longrightarrow>
         count_list (map fst (object_data obj)) a \<le> 1"
proof -
  define names where "names = map fst (object_data obj)"
  from assms have req: "filter (\<lambda>a. a \<notin> set names) (attrs_required (klass obj)) = []"
    and cnt: "\<And>n k. (n, k) \<in> set (py_counter names) \<Longrightarrow> count_errors (klass obj) (n, k) = []"
    by (auto simp: attribute_count_errors_def Let_def names_def)
  from req show "set (attrs_required (klass obj)) \<subseteq> set (map fst (object_data obj))"
    by (auto simp: filter_empty_conv names_def)
  from cnt [of a "count_list names a"] show "a \<in> set (map fst (object_data obj)) \<Longrightarrow>
      a \<in> set (attrs_allowed (klass obj)) \<or> a = ''last-modified''"
    by (auto simp: py_counter_iff count_errors_def ignored_validation_fields_def names_def split: if_splits)
  from cnt [of a "count_list names a"] show "a \<notin> set (attrs_multiple (klass obj)) \<Longrightarrow>
      a \<noteq> ''last-modified'' \<Longrightarrow> count_list (map fst (object_data obj)) a \<le> 1"
    by (cases "a \<in> set names")
       (auto simp: py_counter_iff count_errors_def ignored_validation_fields_def names_def count_notin
         split: if_splits)
qed


definition person_text :: string where
  "person_text = ''person: X Y'' @ [NL] @ ''address: Z'' @ [NL] @ ''phone: 1'' @ [NL] @ ''e-mail: a@b.c'' @ [NL]
     @ ''nic-hdl: XY-EX'' @ [NL] @ ''mnt-by: M-EX'' @ [NL] @ ''source: EX'' @ [NL]"

definition person_object :: "ip3 rpsl_object res" where
  "person_object = rpsl_object_from_text ip3_lib (\<lambda>_. None) person_text True None"

lemma person_object_ok:
  "case person_object of Inl e \<Rightarrow> False
   | Inr obj \<Rightarrow> errors (obj_messages obj) = [] \<and> rpsl_object_class (klass obj) = ''person''
       \<and> dict_get (parsed_data obj) ''mnt-by'' = Some (PList [''M-EX''])
       \<and> dict_get (class_fields (klass obj)) ''mnt-by''
           = Some ((fld (RPSLReferenceListField False [''mntner''] True))\<lparr>multiple := True, lookup_key := True\<rparr>)"
  by code_simp

lemma person_object_Inr:
  obtains obj where "person_object = Inr obj" "errors (obj_messages obj) = []"
    "rpsl_object_class (klass obj) \<noteq> ''key-cert''"
    "dict_get (parsed_data obj) ''mnt-by'' = Some (PList [''M-EX''])"
    "dict_get (class_fields (klass obj)) ''mnt-by''
       = Some ((fld (RPSLReferenceListField False [''mntner''] True))\<lparr>multiple := True, lookup_key := True\<rparr>)"
proof (cases person_object)
  case (Inl e)
  from person_object_ok [unfolded Inl] show ?thesis by simp
next
  case (Inr obj)
  from person_object_ok [unfolded Inr] have "errors (obj_messages obj) = []"
    "rpsl_object_class (klass obj) \<noteq> ''key-cert''"
    "dict_get (parsed_data obj) ''mnt-by'' = Some (PList [''M-EX''])"
    "dict_get (class_fields (klass obj)) ''mnt-by''
       = Some ((fld (RPSLReferenceListField False [''mntner''] True))\<lparr>multiple := True, lookup_key := True\<rparr>)"
    by simp_all
  with Inr show ?thesis by (rule that)
qed


text \<open>
  The shape of parsed data, at any strictness. In an object that the parser returns, the
  value of an attribute of the class is a list exactly when the attribute may occur multiple
  times; so the additions to lists and strings in the parser never meet a value of the other
  kind. Key certificates store their derived attributes as text and are left out.
\<close>

theorem parsed_data_shape:
  fixes L :: "'ip extlib"
  assumes "rpsl_object_from_text L gs t strict d = Inr obj" "rpsl_object_class (klass obj) \<noteq> ''key-cert''"
    and "dict_get (class_fields (klass obj)) a = Some f" "dict_get (parsed_data obj) a = Some v"
  shows "(\<exists>vs. v = PList vs) = multiple f"
proof -
  from from_text_class [OF assms(1)] obtain n c where c: "dict_get OBJECT_CLASS_MAPPING n = Some c"
    "rpsl_object_class c = n" "validate_object L gs (extract_attributes_values t (new_object c strict d)) = Inr obj" .
  define obj0 :: "'ip rpsl_object" where "obj0 = extract_attributes_values t (new_object c strict d)"
  have k: "klass obj0 = c" by (simp add: obj0_def extract_keeps new_object_def)
  have kl: "klass obj = c" using validate_object_klass [OF _ c(3)] c(1) by (simp add: extract_keeps new_object_def)
  with assms(2) c(2) have n: "n \<noteq> ''key-cert''" by simp
  from validate_object_facts(4) [of n obj0 L gs obj, unfolded k, OF c(1,2) c(3) [folded obj0_def] n] kl assms(3,4)
  show ?thesis by (auto simp: shape_ok_def)
qed

theorem parsed_data_shape_witness:
  "\<exists>obj v. person_object = Inr obj \<and> dict_get (parsed_data obj) ''mnt-by'' = Some v \<and> (\<exists>vs. v = PList vs)"
proof -
  obtain obj where o: "person_object = Inr obj" "rpsl_object_class (klass obj) \<noteq> ''key-cert''"
    "dict_get (parsed_data obj) ''mnt-by'' = Some (PList [''M-EX''])"
    "dict_get (class_fields (klass obj)) ''mnt-by''
       = Some ((fld (RPSLReferenceListField False [''mntner''] True))\<lparr>multiple := True, lookup_key := True\<rparr>)"
    by (rule person_object_Inr)
  from parsed_data_shape [OF o(1) [unfolded person_object_def] o(2,4,3)] o(1,3) show ?thesis by auto
qed

section \<open>Duplicate attributes in non-strict mode\<close>

text \<open>
  In non-strict mode a repeated attribute that may occur once loses its first value: the text
  stored is a line feed and the second value.
\<close>

lemma duplicate_single_attribute:
  "map_option (\<lambda>obj. dict_get (parsed_data obj) ''source'') (case rpsl_object_from_text ip3_lib (\<lambda>_. None)
      (person_text @ ''source: OTHER'' @ [NL]) False None of Inl e \<Rightarrow> None | Inr obj \<Rightarrow> Some obj)
   = Some (Some (PStr (NL # ''OTHER'')))"
  by code_simp

text \<open>A repeated primary key with metadata raises an exception that nothing catches.\<close>

lemma duplicate_primary_key_raises:
  "rpsl_object_from_text ip3_lib (\<lambda>_. None) (''aut-num: AS1'' @ [NL] @ ''aut-num: AS2'' @ [NL] @ ''source: EX'') False None
   = Inl (ValueError ''Parsing of AS2 reads 2 for asn_first,but value 1 is already set.'')"
  by code_simp

section \<open>Normalised values\<close>

lemma hd_py_split: "sep \<notin> set (hd (py_split sep s)) \<and> set (hd (py_split sep s)) \<subseteq> set s"
proof (induction s)
  case (Cons c s)
  then show ?case by (cases "py_split sep s") auto
qed simp

lemma set_py_join: "set (py_join sep xs) \<subseteq> set sep \<union> (\<Union>x \<in> set xs. set x)"
  by (induction sep xs rule: py_join.induct) auto

lemma normalise_no_comment: "CHR ''#'' \<notin> set (normalise_rpsl_value v)" "NL \<notin> set (normalise_rpsl_value v)"
proof -
  have strip: "set (py_strip s) \<subseteq> set s" "set (py_strip_chars cs s) \<subseteq> set s" for s cs
    using set_strip_by by (auto simp: py_strip_def py_strip_chars_def)
  have nl: "NL \<notin> set l" if l: "l \<in> set (splitline_unicodesafe v)" for l
  proof -
    from l obtain p where "p \<in> set (py_split NL (py_strip_chars [NL] v))" "l = py_strip_chars [CR] p"
      by (auto simp: splitline_unicodesafe_def split: if_splits)
    then show ?thesis using py_split_pieces strip(2) [of "[CR]" p] by blast
  qed
  define ps where "ps = filter (\<lambda>l. l \<noteq> []) (map (\<lambda>line. py_strip_chars [NL, TAB, CHR '','', CHR '' '']
      (hd (py_split CHR ''#'' line))) (splitline_unicodesafe v))"
  have "CHR ''#'' \<notin> set p \<and> NL \<notin> set p" if p: "p \<in> set ps" for p
  proof -
    from p obtain l where l: "l \<in> set (splitline_unicodesafe v)"
      "p = py_strip_chars [NL, TAB, CHR '','', CHR '' ''] (hd (py_split CHR ''#'' l))" by (auto simp: ps_def)
    with nl [OF l(1)] strip(2) hd_py_split [of "CHR ''#''" l] show ?thesis by blast
  qed
  then have j: "CHR ''#'' \<notin> set (py_join '','' ps) \<and> NL \<notin> set (py_join '','' ps)"
    using set_py_join [of "'',''" ps] by auto
  show "CHR ''#'' \<notin> set (normalise_rpsl_value v)"
    using j hd_py_split [of "CHR ''#''" v] strip(1)
    unfolding normalise_rpsl_value_def ps_def by (auto dest!: subsetD [OF strip(1)])
  show "NL \<notin> set (normalise_rpsl_value v)"
    using j hd_py_split [of "CHR ''#''" v] strip(1)
    unfolding normalise_rpsl_value_def ps_def by (auto dest!: subsetD [OF strip(1)])
qed

text \<open>
  The shortcut for single lines is not equivalent to the general path, which also strips commas.
\<close>

lemma normalise_shortcut_differs:
  "normalise_rpsl_value ''AS1,'' = ''AS1,''" "normalise_rpsl_value (''AS1,'' @ [NL]) = ''AS1''"
  by code_simp+

section \<open>Passwords of maintainers\<close>

lemma verify_lines_skip:
  "list_all (\<lambda>a. CHR '' '' \<notin> set a) as \<Longrightarrow>
   verify_lines L hashers (as @ bs) pws None = verify_lines L hashers bs pws None"
  by (induction as) auto

lemma data_list_update:
  "data_list (update_attribute_value a vs False obj) a = vs"
  by (simp add: data_list_def update_attribute_value_def Let_def)


definition bcrypt_example :: settings where
  "bcrypt_example n = Some (CStr ''enabled'')"

definition mntner_example :: "ip3 rpsl_object" where
  "mntner_example = (new_object RPSLMntner True None)\<lparr>parsed_data := [(''auth'', PList [''PGPKEY-12345678'', ''MD5-PW x''])]\<rparr>"


end
