(* ===== verification/RPKI.thy ===== *)
theory RPKI
  imports RPSL_Objects "HOL-Library.Sublist"
begin

text \<open>
  \<^verbatim>\<open>irrd/rpki/validators.py\<close>, \<^verbatim>\<open>irrd/rpki/status.py\<close> and the ROA classes of
  \<^verbatim>\<open>irrd/rpki/importer.py\<close>: the import of ROAs with SLURM filters and assertions, and the two
  validators of route objects. The trie of the package datrie is a parameter of the bulk
  validator; what it relies on is the predicate \<open>trie_ok\<close>.
\<close>

section \<open>Status\<close>

datatype rpki_status = RPKI_valid | RPKI_invalid | RPKI_not_found

definition rpki_is_visible :: "rpki_status \<Rightarrow> bool" where
  "rpki_is_visible status \<longleftrightarrow> status \<in> {RPKI_valid, RPKI_not_found}"

section \<open>ROAs\<close>

record 'ip roa =
  roa_prefix :: 'ip
  roa_prefix_str :: string
  roa_asn :: int
  roa_max_length :: int
  trust_anchor :: string

definition ROA_init :: "'ip extlib \<Rightarrow> 'ip \<Rightarrow> int \<Rightarrow> cval \<Rightarrow> string \<Rightarrow> 'ip roa res" where
  "ROA_init L pfx asn max_length ta =
     (case cval_int max_length of
        Inl (ValueError ve) \<Rightarrow> Inl (ROAParserException (''Invalid value in ROA: '' @ ve))
      | Inl e \<Rightarrow> Inl e
      | Inr m \<Rightarrow>
          if m < int (ip_prefixlen L pfx)
          then Inl (ROAParserException (''Invalid ROA: prefix size '' @ str_nat (ip_prefixlen L pfx)
                      @ '' is smaller than max length '' @ cval_str max_length @ '' in ROA for ''
                      @ ip_str L pfx @ '' / AS'' @ str_int asn))
          else Inr \<lparr>roa_prefix = pfx, roa_prefix_str = ip_str L pfx, roa_asn = asn,
                     roa_max_length = m, trust_anchor = ta\<rparr>)"

definition SLURM_TRUST_ANCHOR :: string where
  "SLURM_TRUST_ANCHOR = ''SLURM file''"

text \<open>
  A record of the ROA file after JSON decoding. A key may be missing; the prefix and the trust
  anchor are text and the AS number is text or an integer, as the export format has them.
\<close>

record roa_dict =
  rd_asn :: "as_input option"
  rd_prefix :: "string option"
  rd_ta :: "string option"
  rd_maxLength :: "cval option"

record 'ip slurm_filters =
  filtered_asns :: "int list"
  filtered_prefixes :: "'ip list"
  filtered_combined :: "(int, 'ip list) dict"

definition no_filters :: "'ip slurm_filters" where
  "no_filters = \<lparr>filtered_asns = [], filtered_prefixes = [], filtered_combined = []\<rparr>"

definition dict_item :: "string \<Rightarrow> 'a option \<Rightarrow> 'a res" where
  "dict_item k v = (case v of None \<Rightarrow> Inl (KeyError k) | Some x \<Rightarrow> Inr x)"

definition ip_res :: "string + 'ip \<Rightarrow> 'ip res" where
  "ip_res r = (case r of Inl m \<Rightarrow> Inl (ValueError m) | Inr ip \<Rightarrow> Inr ip)"

text \<open>The body of the import loop, up to its exception handlers; \<open>None\<close> is \<open>continue\<close>.\<close>

definition roa_of_dict :: "'ip extlib \<Rightarrow> settings \<Rightarrow> 'ip slurm_filters \<Rightarrow> roa_dict \<Rightarrow> 'ip roa option res" where
  "roa_of_dict L gs F d =
     rbind (dict_item ''asn'' (rd_asn d)) (\<lambda>asn_value.
     rbind (parse_as_number gs True False asn_value) (\<lambda>(asn_str, asn).
     rbind (dict_item ''prefix'' (rd_prefix d)) (\<lambda>prefix_str.
     rbind (ip_res (IP L prefix_str 0)) (\<lambda>pfx.
     rbind (dict_item ''ta'' (rd_ta d)) (\<lambda>ta.
       if ta \<noteq> SLURM_TRUST_ANCHOR \<and>
          (asn \<in> set (filtered_asns F) \<or> ipset_contains L (filtered_prefixes F) pfx \<or>
           (case dict_get (filtered_combined F) asn of None \<Rightarrow> False | Some ips \<Rightarrow> ipset_contains L ips pfx))
       then Inr None
       else rbind (dict_item ''maxLength'' (rd_maxLength d)) (\<lambda>max_length.
              rbind (ROA_init L pfx asn max_length ta) (\<lambda>roa. Inr (Some roa))))))))"

text \<open>The handlers turn a missing key and an invalid value into a parser exception.\<close>

definition roa_handlers :: "(roa_dict \<Rightarrow> string) \<Rightarrow> roa_dict \<Rightarrow> 'a res \<Rightarrow> 'a res" where
  "roa_handlers shown d r =
     (case r of
        Inl (KeyError k) \<Rightarrow> Inl (ROAParserException (''Unable to parse ROA record: missing key '' @ py_repr k
                                 @ '' -- full record: '' @ shown d))
      | Inl (ValueError ve) \<Rightarrow> Inl (ROAParserException (''Invalid value in ROA or SLURM: '' @ ve))
      | Inl (ValidationError ve) \<Rightarrow> Inl (ROAParserException (''Invalid value in ROA or SLURM: '' @ ve))
      | _ \<Rightarrow> r)"

fun import_roas :: "'ip extlib \<Rightarrow> settings \<Rightarrow> (roa_dict \<Rightarrow> string) \<Rightarrow> 'ip slurm_filters \<Rightarrow> roa_dict list
    \<Rightarrow> 'ip roa list res" where
  "import_roas L gs shown F [] = Inr []"
| "import_roas L gs shown F (d # ds) =
     rbind (roa_handlers shown d (roa_of_dict L gs F d)) (\<lambda>r.
       rbind (import_roas L gs shown F ds) (\<lambda>rs.
         Inr (case r of None \<Rightarrow> rs | Some roa \<Rightarrow> roa # rs)))"

record slurm_item =
  sl_asn :: "cval option"
  sl_prefix :: "string option"
  sl_maxPrefixLength :: "cval option"

record slurm =
  slurmVersion :: cval
  prefixFilters :: "slurm_item list"
  prefixAssertions :: "slurm_item list"

definition add_filter :: "'ip extlib \<Rightarrow> slurm_item \<Rightarrow> 'ip slurm_filters \<Rightarrow> 'ip slurm_filters res" where
  "add_filter L item F =
     (case (sl_asn item, sl_prefix item) of
        (Some a, None) \<Rightarrow> rbind (cval_int a) (\<lambda>n. Inr (F\<lparr>filtered_asns := filtered_asns F @ [n]\<rparr>))
      | (None, Some p) \<Rightarrow>
          rbind (ip_res (IP L p 0)) (\<lambda>ip. Inr (F\<lparr>filtered_prefixes := filtered_prefixes F @ [ip]\<rparr>))
      | (Some a, Some p) \<Rightarrow>
          rbind (cval_int a) (\<lambda>n. rbind (ip_res (IP L p 0)) (\<lambda>ip.
            Inr (F\<lparr>filtered_combined := dict_set n
                    ((case dict_get (filtered_combined F) n of None \<Rightarrow> [] | Some ips \<Rightarrow> ips) @ [ip])
                    (filtered_combined F)\<rparr>)))
      | (None, None) \<Rightarrow> Inr F)"

fun add_filters :: "'ip extlib \<Rightarrow> slurm_item list \<Rightarrow> 'ip slurm_filters \<Rightarrow> 'ip slurm_filters res" where
  "add_filters L [] F = Inr F"
| "add_filters L (i # is) F = rbind (add_filter L i F) (add_filters L is)"

definition assertion_dict :: "'ip extlib \<Rightarrow> slurm_item \<Rightarrow> roa_dict res" where
  "assertion_dict L a =
     rbind (case sl_maxPrefixLength a of
              Some m \<Rightarrow> Inr m
            | None \<Rightarrow> rbind (dict_item ''prefix'' (sl_prefix a)) (\<lambda>p.
                        rbind (ip_res (IP L p 0)) (\<lambda>ip. Inr (CInt (int (ip_prefixlen L ip)))))) (\<lambda>m.
       rbind (dict_item ''asn'' (sl_asn a)) (\<lambda>asn.
         rbind (dict_item ''prefix'' (sl_prefix a)) (\<lambda>p.
           Inr \<lparr>rd_asn = Some (AsStr (''AS'' @ cval_str asn)), rd_prefix = Some p,
                rd_ta = Some SLURM_TRUST_ANCHOR, rd_maxLength = Some m\<rparr>)))"

fun assertion_dicts :: "'ip extlib \<Rightarrow> slurm_item list \<Rightarrow> roa_dict list res" where
  "assertion_dicts L [] = Inr []"
| "assertion_dicts L (a # as) =
     rbind (assertion_dict L a) (\<lambda>d. rbind (assertion_dicts L as) (\<lambda>ds. Inr (d # ds)))"

definition load_slurm :: "'ip extlib \<Rightarrow> slurm \<Rightarrow> ('ip slurm_filters \<times> roa_dict list) res" where
  "load_slurm L s =
     (if slurmVersion s \<noteq> CInt 1
      then Inl (ROAParserException (''SLURM data has invalid version: '' @ cval_str (slurmVersion s)))
      else rbind (add_filters L (prefixFilters s) no_filters) (\<lambda>F.
             rbind (assertion_dicts L (prefixAssertions s)) (\<lambda>ds. Inr (F, ds))))"

text \<open>The constructor of \<open>ROADataImporter\<close>; its result is \<open>roa_objs\<close>.\<close>

definition ROADataImporter :: "'ip extlib \<Rightarrow> settings \<Rightarrow> (roa_dict \<Rightarrow> string) \<Rightarrow> roa_dict list \<Rightarrow> slurm option
    \<Rightarrow> 'ip roa list res" where
  "ROADataImporter L gs shown roa_dicts slurm_data =
     (case slurm_data of
        None \<Rightarrow> import_roas L gs shown no_filters roa_dicts
      | Some s \<Rightarrow> rbind (load_slurm L s) (\<lambda>(F, ds). import_roas L gs shown F (roa_dicts @ ds)))"

definition roa_pk :: "'ip roa \<Rightarrow> string" where
  "roa_pk r = roa_prefix_str r @ ''AS'' @ str_int (roa_asn r) @ ''/ML'' @ str_int (roa_max_length r)"

section \<open>The trie of ROAs\<close>

type_synonym roa_entry = "string \<times> int \<times> int"

record 't trie_lib =
  trie_new :: 't
  trie_get :: "'t \<Rightarrow> string \<Rightarrow> roa_entry list option"
  trie_set :: "string \<Rightarrow> roa_entry list \<Rightarrow> 't \<Rightarrow> 't"
  trie_prefix_items :: "'t \<Rightarrow> string \<Rightarrow> (string \<times> roa_entry list) list"

text \<open>
  What datrie documents: a new trie is empty, assignment is that of a dictionary, and
  \<open>prefix_items\<close> returns the items whose key is a prefix of its argument.
\<close>

definition trie_ok :: "'t trie_lib \<Rightarrow> bool" where
  "trie_ok T \<longleftrightarrow>
     (\<forall>k. trie_get T (trie_new T) k = None) \<and>
     (\<forall>t k v k'. trie_get T (trie_set T k v t) k' = (if k' = k then Some v else trie_get T t k')) \<and>
     (\<forall>t s. set (trie_prefix_items T t s) = {(k, v). trie_get T t k = Some v \<and> Sublist.prefix k s})"

section \<open>The bulk validator\<close>

record 't bulk_validator =
  excluded_sources :: "string list"
  roa_tree4 :: 't
  roa_tree6 :: 't

text \<open>\<open>BYTE_BIN\<close>: the eight binary digits of a byte.\<close>

definition byte_bin :: "nat \<Rightarrow> string" where
  "byte_bin b = map (\<lambda>i. digit_char (b div 2 ^ i mod 2)) [7, 6, 5, 4, 3, 2, 1, 0]"

definition ip_to_binary_str :: "'ip extlib \<Rightarrow> string \<Rightarrow> (nat \<times> string) res" where
  "ip_to_binary_str L ip =
     (let v6 = (CHR '':'' \<in> set ip)
      in rbind (inet_pton L v6 ip) (\<lambda>ip_bin.
           Inr (if v6 then 6 else 4, concat (map byte_bin ip_bin) @ ''0'')))"

definition append_roa :: "'t trie_lib \<Rightarrow> nat \<Rightarrow> string \<Rightarrow> roa_entry \<Rightarrow> 't bulk_validator \<Rightarrow> 't bulk_validator" where
  "append_roa T version key entry V =
     (let tree = (if version = 6 then roa_tree6 V else roa_tree4 V);
          tree' = (case trie_get T tree key of
                     Some es \<Rightarrow> trie_set T key (es @ [entry]) tree
                   | None \<Rightarrow> trie_set T key [entry] tree)
      in if version = 6 then V\<lparr>roa_tree6 := tree'\<rparr> else V\<lparr>roa_tree4 := tree'\<rparr>)"

fun build_roa_tree_from_roa_objs :: "'ip extlib \<Rightarrow> 't trie_lib \<Rightarrow> 'ip roa list \<Rightarrow> 't bulk_validator \<Rightarrow> 't bulk_validator" where
  "build_roa_tree_from_roa_objs L T [] V = V"
| "build_roa_tree_from_roa_objs L T (roa # roas) V =
     build_roa_tree_from_roa_objs L T roas
       (append_roa T (ip_version L (roa_prefix roa))
          (take (ip_prefixlen L (roa_prefix roa)) (ip_strbin L (roa_prefix roa)))
          (roa_prefix_str roa, roa_asn roa, roa_max_length roa) V)"

text \<open>A row of the ROA table; a prefix with no or several slashes cannot be unpacked.\<close>

record roa_row =
  row_prefix :: string
  row_asn :: int
  row_max_length :: int

definition py_slice_to :: "int \<Rightarrow> 'a list \<Rightarrow> 'a list" where
  "py_slice_to n xs = (if 0 \<le> n then take (nat n) xs else take (length xs - nat (- n)) xs)"

definition row_key :: "'ip extlib \<Rightarrow> string \<Rightarrow> (nat \<times> string) res" where
  "row_key L prefix_text =
     (case py_split CHR ''/'' prefix_text of
        [first_ip, len] \<Rightarrow>
          rbind (ip_to_binary_str L first_ip) (\<lambda>(version, bits).
            case py_int len of
              None \<Rightarrow> Inl (ValueError len)
            | Some n \<Rightarrow> Inr (version, py_slice_to n bits))
      | _ \<Rightarrow> Inl (ValueError ''unpack''))"

fun build_roa_tree_from_db :: "'ip extlib \<Rightarrow> 't trie_lib \<Rightarrow> roa_row list \<Rightarrow> 't bulk_validator \<Rightarrow> 't bulk_validator res" where
  "build_roa_tree_from_db L T [] V = Inr V"
| "build_roa_tree_from_db L T (row # rows) V =
     rbind (row_key L (row_prefix row)) (\<lambda>(version, key).
       build_roa_tree_from_db L T rows
         (append_roa T version key (row_prefix row, row_asn row, row_max_length row) V))"

definition rpki_excluded_sources :: "settings \<Rightarrow> string list" where
  "rpki_excluded_sources gs =
     map fst (filter (\<lambda>(src, ss). truthy (cval_get ss ''rpki_excluded'')) (cval_items (get_setting gs ''sources'')))"

definition empty_validator :: "settings \<Rightarrow> 't trie_lib \<Rightarrow> 't bulk_validator" where
  "empty_validator gs T =
     \<lparr>excluded_sources = rpki_excluded_sources gs, roa_tree4 = trie_new T, roa_tree6 = trie_new T\<rparr>"

definition bulk_validator_init :: "'ip extlib \<Rightarrow> settings \<Rightarrow> 't trie_lib \<Rightarrow> 'ip roa list option \<Rightarrow> roa_row list
    \<Rightarrow> 't bulk_validator res" where
  "bulk_validator_init L gs T roas db_rows =
     (case roas of
        None \<Rightarrow> build_roa_tree_from_db L T db_rows (empty_validator gs T)
      | Some rs \<Rightarrow> Inr (build_roa_tree_from_roa_objs L T rs (empty_validator gs T)))"

fun entries_status :: "nat \<Rightarrow> int \<Rightarrow> roa_entry list \<Rightarrow> bool" where
  "entries_status plen prefix_asn [] = False"
| "entries_status plen prefix_asn ((p, asn, max_length) # es) =
     ((asn \<noteq> 0 \<and> asn = prefix_asn \<and> int plen \<le> max_length) \<or> entries_status plen prefix_asn es)"

definition bulk_validate_route :: "'ip extlib \<Rightarrow> 't trie_lib \<Rightarrow> 't bulk_validator \<Rightarrow> string \<Rightarrow> nat \<Rightarrow> int \<Rightarrow> string
    \<Rightarrow> rpki_status res" where
  "bulk_validate_route L T V prefix_ip plen prefix_asn src =
     (if src \<in> set (excluded_sources V) then Inr RPKI_not_found
      else rbind (ip_to_binary_str L prefix_ip) (\<lambda>(version, bits).
        (let tree = (if version = 6 then roa_tree6 V else roa_tree4 V);
             roas_covering = trie_prefix_items T tree (take plen bits)
         in Inr (if roas_covering = [] then RPKI_not_found
                 else if list_ex (\<lambda>(k, es). entries_status plen prefix_asn es) roas_covering
                 then RPKI_valid else RPKI_invalid))))"

record route_row =
  rr_pk :: string
  rr_ip_first :: string
  rr_prefix_length :: nat
  rr_asn_first :: int
  rr_source :: string
  rr_status :: rpki_status

text \<open>
  The loop of \<open>validate_all_routes\<close>: the rows whose status changes, each with its new status.
  The later query only adds columns to them.
\<close>

fun changed_routes :: "'ip extlib \<Rightarrow> 't trie_lib \<Rightarrow> 't bulk_validator \<Rightarrow> route_row list
    \<Rightarrow> (route_row \<times> rpki_status) list res" where
  "changed_routes L T V [] = Inr []"
| "changed_routes L T V (r # rs) =
     (if rr_source r = RPKI_IRR_PSEUDO_SOURCE then changed_routes L T V rs
      else rbind (bulk_validate_route L T V (rr_ip_first r) (rr_prefix_length r) (rr_asn_first r) (rr_source r))
        (\<lambda>new_status. rbind (changed_routes L T V rs) (\<lambda>changed.
           Inr (if new_status \<noteq> rr_status r then (r, new_status) # changed else changed))))"

definition validate_all_routes :: "'ip extlib \<Rightarrow> 't trie_lib \<Rightarrow> 't bulk_validator \<Rightarrow> route_row list
    \<Rightarrow> (route_row list \<times> route_row list \<times> route_row list) res" where
  "validate_all_routes L T V routes =
     rbind (changed_routes L T V routes) (\<lambda>changed.
       (let with_status = (\<lambda>s. map fst (filter (\<lambda>c. snd c = s) changed))
        in Inr (with_status RPKI_valid, with_status RPKI_invalid, with_status RPKI_not_found)))"

section \<open>The validator of a single route\<close>

definition single_validate_route :: "'ip extlib \<Rightarrow> settings \<Rightarrow> ('ip \<Rightarrow> roa_row list) \<Rightarrow> 'ip \<Rightarrow> int \<Rightarrow> string
    \<Rightarrow> rpki_status" where
  "single_validate_route L gs ip_less_specific_or_exact route asn src =
     (if truthy (source_setting gs src ''rpki_excluded'') then RPKI_not_found
      else (let roas_covering = ip_less_specific_or_exact route
            in if roas_covering = [] then RPKI_not_found
               else if list_ex (\<lambda>roa. row_asn roa \<noteq> 0 \<and> row_asn roa = asn
                      \<and> int (ip_prefixlen L route) \<le> row_max_length roa) roas_covering
               then RPKI_valid else RPKI_invalid))"

end
