(* ===== verification/Status_Scan.thy ===== *)
theory Status_Scan
  imports Py_Prelude
begin

text \<open>
  The contract of the loops that re-evaluate the status of all rows of a table and collect the
  rows whose status changes. The RPKI validator and the scope filter validator both have such a
  loop; what it reports is proved once here.
\<close>

locale status_scan =
  fixes scan :: "'row list \<Rightarrow> ('row \<times> 's) list res"
    and skip :: "'row \<Rightarrow> bool"
    and evaluate :: "'row \<Rightarrow> 's res"
    and current :: "'row \<Rightarrow> 's"
  assumes scan_Nil: "scan [] = Inr []"
    and scan_Cons: "scan (r # rs) =
      (if skip r then scan rs
       else rbind (evaluate r) (\<lambda>new. rbind (scan rs) (\<lambda>changed.
         Inr (if new \<noteq> current r then (r, new) # changed else changed))))"
begin

lemma scan_Inr_Cons:
  assumes "scan (r # rs) = Inr changed"
  obtains (skipped) "skip r" "scan rs = Inr changed"
  | (evaluated) new changed' where "\<not> skip r" "evaluate r = Inr new" "scan rs = Inr changed'"
      "changed = (if new \<noteq> current r then (r, new) # changed' else changed')"
  using assms unfolding scan_Cons by (auto simp: rbind_Inr_conv split: if_splits)

text \<open>A row is reported with a status exactly when it is evaluated to it and had another one.\<close>

lemma scan_exact:
  "scan rows = Inr changed \<Longrightarrow>
   (r, s) \<in> set changed \<longleftrightarrow> r \<in> set rows \<and> \<not> skip r \<and> s \<noteq> current r \<and> evaluate r = Inr s"
proof (induction rows arbitrary: changed)
  case Nil
  then show ?case by (simp add: scan_Nil)
next
  case (Cons x rows)
  from Cons.prems show ?case
    by (cases rule: scan_Inr_Cons) (use Cons.IH in auto)
qed

text \<open>Every row that is not skipped was evaluated without an exception.\<close>

lemma scan_total: "scan rows = Inr changed \<Longrightarrow> r \<in> set rows \<Longrightarrow> \<not> skip r \<Longrightarrow> \<exists>s. evaluate r = Inr s"
proof (induction rows arbitrary: changed)
  case (Cons x rows)
  from Cons.prems(1) show ?case
    by (cases rule: scan_Inr_Cons) (use Cons in auto)
qed simp

text \<open>When no status is out of date, nothing is reported.\<close>

lemma scan_stable:
  assumes "scan rows = Inr changed" "\<And>r. r \<in> set rows \<Longrightarrow> \<not> skip r \<Longrightarrow> evaluate r = Inr (current r)"
  shows "changed = []"
proof -
  have "(r, s) \<notin> set changed" for r s
    using scan_exact [OF assms(1), of r s] assms(2) by fastforce
  then show ?thesis by (metis hd_in_set surj_pair)
qed

end

end
