(* ===== verification/RPKI_Facts.thy ===== *)
theory RPKI_Facts
  imports RPKI Status_Scan
begin

text \<open>
  Route origin validation as RFC 6811 defines it, over a list of ROAs, and the proof that the
  bulk validator, whose trie is built from ROA objects or from database rows, and the validator
  of single routes both compute it; what the import of ROAs guarantees.
\<close>

section \<open>Specification\<close>

text \<open>A ROA as address family, prefix bits and entry.\<close>

type_synonym abs_roa = "bool \<times> string \<times> roa_entry"

definition covering :: "abs_roa list \<Rightarrow> bool \<Rightarrow> string \<Rightarrow> abs_roa list" where
  "covering roas v6 bits = filter (\<lambda>(v, k, e). v = v6 \<and> Sublist.prefix k bits) roas"

definition roa_matches :: "nat \<Rightarrow> int \<Rightarrow> roa_entry \<Rightarrow> bool" where
  "roa_matches plen asn e \<longleftrightarrow> fst (snd e) \<noteq> 0 \<and> fst (snd e) = asn \<and> int plen \<le> snd (snd e)"

definition rov :: "abs_roa list \<Rightarrow> bool \<Rightarrow> string \<Rightarrow> nat \<Rightarrow> int \<Rightarrow> rpki_status" where
  "rov roas v6 bits plen asn =
     (if covering roas v6 bits = [] then RPKI_not_found
      else if \<exists>(v, k, e) \<in> set (covering roas v6 bits). roa_matches plen asn e then RPKI_valid
      else RPKI_invalid)"

section \<open>The trie represents the list of ROAs\<close>

definition tree_of :: "'t bulk_validator \<Rightarrow> bool \<Rightarrow> 't" where
  "tree_of V v6 = (if v6 then roa_tree6 V else roa_tree4 V)"

definition entries_at :: "abs_roa list \<Rightarrow> bool \<Rightarrow> string \<Rightarrow> roa_entry list" where
  "entries_at roas v6 k = map (\<lambda>r. snd (snd r)) (filter (\<lambda>r. fst r = v6 \<and> fst (snd r) = k) roas)"

definition represents :: "'t trie_lib \<Rightarrow> 't bulk_validator \<Rightarrow> abs_roa list \<Rightarrow> bool" where
  "represents T V roas \<longleftrightarrow>
     (\<forall>v6 k. trie_get T (tree_of V v6) k = (if entries_at roas v6 k = [] then None else Some (entries_at roas v6 k)))"

lemma represents_empty: "trie_ok T \<Longrightarrow> represents T (empty_validator gs T) []"
  by (simp add: represents_def trie_ok_def empty_validator_def tree_of_def entries_at_def)

lemma append_roa_represents:
  assumes "trie_ok T" "represents T V roas"
  shows "represents T (append_roa T ver k e V) (roas @ [(ver = 6, k, e)])"
proof -
  have get: "trie_get T (tree_of V v6) k' = (if entries_at roas v6 k' = [] then None else Some (entries_at roas v6 k'))"
    for v6 k' using assms(2) by (simp add: represents_def)
  have tree: "tree_of (append_roa T ver k e V) v6 =
      (if v6 = (ver = 6) then trie_set T k (entries_at roas v6 k @ [e]) (tree_of V v6) else tree_of V v6)" for v6
    using get [of "ver = 6" k] by (auto simp: append_roa_def tree_of_def Let_def)
  have ent: "entries_at (roas @ [(ver = 6, k, e)]) v6 k'
      = entries_at roas v6 k' @ (if v6 = (ver = 6) \<and> k' = k then [e] else [])" for v6 k'
    by (simp add: entries_at_def)
  have set: "trie_get T (trie_set T x v t) y = (if y = x then Some v else trie_get T t y)" for x v t y
    using assms(1) by (simp add: trie_ok_def)
  show ?thesis
    unfolding represents_def tree ent
    by (auto simp: set get)
qed

lemma append_roa_excluded [simp]: "excluded_sources (append_roa T ver k e V) = excluded_sources V"
  by (simp add: append_roa_def Let_def)

definition abs_of_roa :: "'ip extlib \<Rightarrow> 'ip roa \<Rightarrow> abs_roa" where
  "abs_of_roa L r =
     (ip_version L (roa_prefix r) = 6, take (ip_prefixlen L (roa_prefix r)) (ip_strbin L (roa_prefix r)),
      (roa_prefix_str r, roa_asn r, roa_max_length r))"

lemma build_objs_represents:
  "trie_ok T \<Longrightarrow> represents T V rs \<Longrightarrow>
   represents T (build_roa_tree_from_roa_objs L T roas V) (rs @ map (abs_of_roa L) roas) \<and>
   excluded_sources (build_roa_tree_from_roa_objs L T roas V) = excluded_sources V"
proof (induction roas arbitrary: V rs)
  case (Cons r roas)
  from Cons.IH [OF Cons.prems(1) append_roa_represents [OF Cons.prems,
      of "ip_version L (roa_prefix r)" "take (ip_prefixlen L (roa_prefix r)) (ip_strbin L (roa_prefix r))"
      "(roa_prefix_str r, roa_asn r, roa_max_length r)"]]
  show ?case by (simp add: abs_of_roa_def)
qed simp

fun abs_rows :: "'ip extlib \<Rightarrow> roa_row list \<Rightarrow> abs_roa list res" where
  "abs_rows L [] = Inr []"
| "abs_rows L (row # rows) =
     rbind (row_key L (row_prefix row)) (\<lambda>(ver, key).
       rbind (abs_rows L rows) (\<lambda>rs. Inr ((ver = 6, key, (row_prefix row, row_asn row, row_max_length row)) # rs)))"

lemma build_db_represents:
  "trie_ok T \<Longrightarrow> represents T V rs \<Longrightarrow> build_roa_tree_from_db L T rows V = Inr V' \<Longrightarrow>
   \<exists>as. abs_rows L rows = Inr as \<and> represents T V' (rs @ as) \<and> excluded_sources V' = excluded_sources V"
proof (induction rows arbitrary: V rs)
  case (Cons row rows)
  from Cons.prems(3) obtain ver key where k: "row_key L (row_prefix row) = Inr (ver, key)"
    and b: "build_roa_tree_from_db L T rows
      (append_roa T ver key (row_prefix row, row_asn row, row_max_length row) V) = Inr V'"
    by (auto simp: rbind_Inr_conv)
  from Cons.IH [OF Cons.prems(1) append_roa_represents [OF Cons.prems(1,2)] b] k show ?case by auto
qed simp

section \<open>The validators compute the specification\<close>

lemma entries_status_iff: "entries_status plen asn es \<longleftrightarrow> (\<exists>e \<in> set es. roa_matches plen asn e)"
  by (induction plen asn es rule: entries_status.induct) (auto simp: roa_matches_def)

lemma covering_iff:
  "(\<exists>r \<in> set (covering roas v6 bits). P (snd (snd r))) \<longleftrightarrow>
   (\<exists>k. Sublist.prefix k bits \<and> (\<exists>e \<in> set (entries_at roas v6 k). P e))"
  by (force simp: covering_def entries_at_def)

lemma covering_Nil: "covering roas v6 bits = [] \<longleftrightarrow> (\<forall>k. Sublist.prefix k bits \<longrightarrow> entries_at roas v6 k = [])"
proof -
  have "covering roas v6 bits = [] \<longleftrightarrow> \<not> (\<exists>r \<in> set (covering roas v6 bits). True)"
    by (metis hd_in_set list.set(1) empty_iff)
  also have "\<dots> \<longleftrightarrow> (\<forall>k. Sublist.prefix k bits \<longrightarrow> \<not> (\<exists>e \<in> set (entries_at roas v6 k). True))"
    using covering_iff [of roas v6 bits "\<lambda>_. True"] by blast
  finally show ?thesis by (metis hd_in_set list.set(1) empty_iff)
qed

lemma bulk_validate_rov:
  assumes "trie_ok T" "represents T V roas" "src \<notin> set (excluded_sources V)"
    and "ip_to_binary_str L ip = Inr (ver, bits)"
  shows "bulk_validate_route L T V ip plen asn src = Inr (rov roas (ver = 6) (take plen bits) plen asn)"
proof -
  define b where "b = take plen bits"
  define items where "items = trie_prefix_items T (tree_of V (ver = 6)) b"
  have items: "set items = {(k, es). es = entries_at roas (ver = 6) k \<and> es \<noteq> [] \<and> Sublist.prefix k b}"
    using assms(1,2) by (auto simp: trie_ok_def represents_def items_def split: if_splits)
  have nil: "items = [] \<longleftrightarrow> covering roas (ver = 6) b = []"
  proof -
    have "items = [] \<longleftrightarrow> set items = {}" by simp
    also have "\<dots> \<longleftrightarrow> covering roas (ver = 6) b = []" unfolding items covering_Nil by auto
    finally show ?thesis .
  qed
  have "list_ex (\<lambda>(k, es). entries_status plen asn es) items \<longleftrightarrow>
      (\<exists>k. Sublist.prefix k b \<and> (\<exists>e \<in> set (entries_at roas (ver = 6) k). roa_matches plen asn e))"
    unfolding list_ex_iff items entries_status_iff by fastforce
  also have "\<dots> \<longleftrightarrow> (\<exists>(v, k, e) \<in> set (covering roas (ver = 6) b). roa_matches plen asn e)"
    unfolding covering_iff [symmetric] by force
  finally show ?thesis
    using assms(3,4) nil
    by (simp add: bulk_validate_route_def rov_def items_def b_def tree_of_def Let_def)
qed


text \<open>A trie as an association list, for examples.\<close>

definition assoc_trie :: "(string, roa_entry list) dict trie_lib" where
  "assoc_trie = \<lparr>trie_new = [], trie_get = dict_get, trie_set = dict_set,
     trie_prefix_items = (\<lambda>t s. concat (map (\<lambda>n. case dict_get t (take n s) of
        None \<Rightarrow> [] | Some v \<Rightarrow> [(take n s, v)]) [0..<Suc (length s)]))\<rparr>"

lemma assoc_trie_ok: "trie_ok assoc_trie"
proof -
  have items: "(k, v) \<in> set (trie_prefix_items assoc_trie t s) \<longleftrightarrow> dict_get t k = Some v \<and> Sublist.prefix k s" for k v t s
  proof
    assume "(k, v) \<in> set (trie_prefix_items assoc_trie t s)"
    then show "dict_get t k = Some v \<and> Sublist.prefix k s"
      by (auto simp: assoc_trie_def take_is_prefix split: option.splits)
  next
    assume a: "dict_get t k = Some v \<and> Sublist.prefix k s"
    then have "take (length k) s = k" "length k \<le> length s" by (auto simp: prefix_def)
    then have "length k \<in> set [0..<Suc (length s)]" by (simp del: upt_Suc add: less_Suc_eq_le)
    moreover have "(k, v) \<in> set (case dict_get t (take (length k) s) of None \<Rightarrow> [] | Some v \<Rightarrow> [(take (length k) s, v)])"
      using a \<open>take (length k) s = k\<close> by simp
    ultimately show "(k, v) \<in> set (trie_prefix_items assoc_trie t s)"
      unfolding assoc_trie_def trie_lib.simps set_concat set_map by blast
  qed
  have get: "trie_get assoc_trie = dict_get" by (simp add: assoc_trie_def)
  have "set (trie_prefix_items assoc_trie t s) = {(k, v). trie_get assoc_trie t k = Some v \<and> Sublist.prefix k s}" for t s
    unfolding get using items by auto
  then show ?thesis by (simp add: trie_ok_def) (simp add: assoc_trie_def)
qed

definition example_roa :: "nat \<Rightarrow> nat \<Rightarrow> int \<Rightarrow> int \<Rightarrow> ip3 roa" where
  "example_roa a l asn ml = \<lparr>roa_prefix = (4, a, l), roa_prefix_str = [], roa_asn = asn, roa_max_length = ml, trust_anchor = []\<rparr>"



definition example_row :: roa_row where
  "example_row = \<lparr>row_prefix = ''0.0.0.0/8'', row_asn = 7, row_max_length = 9\<rparr>"

lemma example_row_key: "row_key ip3_lib (row_prefix example_row) = Inr (4, ''00000000'')"
  by code_simp


section \<open>Changed routes\<close>

interpretation route_scan: status_scan "changed_routes L T V" "\<lambda>r. rr_source r = RPKI_IRR_PSEUDO_SOURCE"
    "\<lambda>r. bulk_validate_route L T V (rr_ip_first r) (rr_prefix_length r) (rr_asn_first r) (rr_source r)" rr_status
  for L T V
  by unfold_locales simp_all

text \<open>
  A full validation reports exactly the routes whose status is wrong. A row is in the
  list of a status if and only if it is not a pseudo-IRR object, its validation gives that
  status, and it is not its current one.
\<close>

theorem validate_all_routes_exact:
  assumes "validate_all_routes L T V rows = Inr (valid, invalid, not_found)"
  shows "\<forall>r. (r \<in> set valid \<longleftrightarrow> r \<in> set rows \<and> rr_source r \<noteq> RPKI_IRR_PSEUDO_SOURCE \<and> rr_status r \<noteq> RPKI_valid \<and>
      bulk_validate_route L T V (rr_ip_first r) (rr_prefix_length r) (rr_asn_first r) (rr_source r) = Inr RPKI_valid) \<and>
    (r \<in> set invalid \<longleftrightarrow> r \<in> set rows \<and> rr_source r \<noteq> RPKI_IRR_PSEUDO_SOURCE \<and> rr_status r \<noteq> RPKI_invalid \<and>
      bulk_validate_route L T V (rr_ip_first r) (rr_prefix_length r) (rr_asn_first r) (rr_source r) = Inr RPKI_invalid) \<and>
    (r \<in> set not_found \<longleftrightarrow> r \<in> set rows \<and> rr_source r \<noteq> RPKI_IRR_PSEUDO_SOURCE \<and> rr_status r \<noteq> RPKI_not_found \<and>
      bulk_validate_route L T V (rr_ip_first r) (rr_prefix_length r) (rr_asn_first r) (rr_source r) = Inr RPKI_not_found)"
proof -
  from assms obtain changed where c: "changed_routes L T V rows = Inr changed"
    and l: "valid = map fst (filter (\<lambda>c. snd c = RPKI_valid) changed)"
      "invalid = map fst (filter (\<lambda>c. snd c = RPKI_invalid) changed)"
      "not_found = map fst (filter (\<lambda>c. snd c = RPKI_not_found) changed)"
    by (auto simp: validate_all_routes_def rbind_Inr_conv Let_def)
  have "r \<in> set (map fst (filter (\<lambda>c. snd c = s) changed)) \<longleftrightarrow> (r, s) \<in> set changed" for r s by force
  then show ?thesis unfolding l using route_scan.scan_exact [OF c] by auto
qed

definition example_rows :: "route_row list" where
  "example_rows = [\<lparr>rr_pk = ''1'', rr_ip_first = ''0.0.0.0'', rr_prefix_length = 9, rr_asn_first = 7, rr_source = ''EX'',
     rr_status = RPKI_not_found\<rparr>]"

theorem validate_all_routes_exact_witness:
  "\<forall>r. r \<in> set ([] :: route_row list) \<longleftrightarrow> r \<in> set example_rows \<and> rr_source r \<noteq> RPKI_IRR_PSEUDO_SOURCE \<and>
     rr_status r \<noteq> RPKI_valid \<and>
     bulk_validate_route ip3_lib assoc_trie (empty_validator (\<lambda>_. None) assoc_trie)
       (rr_ip_first r) (rr_prefix_length r) (rr_asn_first r) (rr_source r) = Inr RPKI_valid"
proof -
  have "validate_all_routes ip3_lib assoc_trie (empty_validator (\<lambda>_. None) assoc_trie) example_rows = Inr ([], [], [])"
    by code_simp
  from validate_all_routes_exact [OF this] show ?thesis by blast
qed

section \<open>Import of ROAs\<close>

definition slurm_filtered :: "'ip extlib \<Rightarrow> 'ip slurm_filters \<Rightarrow> int \<Rightarrow> 'ip \<Rightarrow> bool" where
  "slurm_filtered L F asn pfx \<longleftrightarrow>
     asn \<in> set (filtered_asns F) \<or> ipset_contains L (filtered_prefixes F) pfx \<or>
     (\<exists>ips. dict_get (filtered_combined F) asn = Some ips \<and> ipset_contains L ips pfx)"

lemma roa_of_dict_Some:
  assumes "roa_of_dict L gs F d = Inr (Some r)"
  shows "int (ip_prefixlen L (roa_prefix r)) \<le> roa_max_length r \<and> 0 \<le> roa_asn r \<and> roa_asn r \<le> 4294967295 \<and>
    (trust_anchor r = SLURM_TRUST_ANCHOR \<or> \<not> slurm_filtered L F (roa_asn r) (roa_prefix r))"
proof -
  from assms obtain av s asn pfx ta ml where asn: "parse_as_number gs True False av = Inr (s, asn)"
    and roa: "ROA_init L pfx asn ml ta = Inr r"
    and f: "ta = SLURM_TRUST_ANCHOR \<or> \<not> slurm_filtered L F asn pfx"
    by (auto simp: roa_of_dict_def rbind_Inr_conv slurm_filtered_def split: if_splits option.splits)
  from roa have "roa_prefix r = pfx" "roa_asn r = asn" "trust_anchor r = ta"
    "int (ip_prefixlen L pfx) \<le> roa_max_length r"
    by (auto simp: ROA_init_def split: sum.splits exn.splits if_splits)
  with parse_as_number_Inr_range [OF asn] f show ?thesis by auto
qed

text \<open>
  C35: what an import of ROAs guarantees. Every ROA it returns has a maximum length that is at
  least its prefix length and a 32-bit AS number, and unless it comes from the SLURM file
  itself, none of the SLURM filters applies to it.
\<close>

theorem import_roas_sound:
  assumes "import_roas L gs shown F ds = Inr roas"
  shows "\<forall>r \<in> set roas. int (ip_prefixlen L (roa_prefix r)) \<le> roa_max_length r \<and> 0 \<le> roa_asn r \<and>
    roa_asn r \<le> 4294967295 \<and>
    (trust_anchor r = SLURM_TRUST_ANCHOR \<or> \<not> slurm_filtered L F (roa_asn r) (roa_prefix r))"
  using assms
proof (induction ds arbitrary: roas)
  case (Cons d ds)
  then obtain x rs where x: "roa_handlers shown d (roa_of_dict L gs F d) = Inr x"
    and rs: "import_roas L gs shown F ds = Inr rs" and roas: "roas = (case x of None \<Rightarrow> rs | Some roa \<Rightarrow> roa # rs)"
    by (auto simp: rbind_Inr_conv)
  from x have "roa_of_dict L gs F d = Inr x"
    by (auto simp: roa_handlers_def split: sum.splits exn.splits)
  with roa_of_dict_Some [of L gs F d "the x"] Cons.IH [OF rs] roas show ?case
    by (cases x) simp_all
qed simp

definition example_dict :: "int \<Rightarrow> roa_dict" where
  "example_dict asn = \<lparr>rd_asn = Some (AsInt asn), rd_prefix = Some ''0.0.0.0/31'', rd_ta = Some ''TA'', rd_maxLength = Some (CInt 32)\<rparr>"

theorem import_roas_sound_witness:
  "\<exists>r. import_roas ip3_lib (\<lambda>_. None) (\<lambda>d. []) (no_filters\<lparr>filtered_asns := [5]\<rparr>) [example_dict 5, example_dict 7] = Inr [r] \<and>
     \<not> slurm_filtered ip3_lib (no_filters\<lparr>filtered_asns := [5]\<rparr>) (roa_asn r) (roa_prefix r)"
proof -
  define r :: "ip3 roa" where "r = \<lparr>roa_prefix = (4, 0, 31), roa_prefix_str = ''0.0.0.0/31'', roa_asn = 7, roa_max_length = 32, trust_anchor = ''TA''\<rparr>"
  have i: "import_roas ip3_lib (\<lambda>_. None) (\<lambda>d. []) (no_filters\<lparr>filtered_asns := [5]\<rparr>) [example_dict 5, example_dict 7] = Inr [r]"
    unfolding r_def by code_simp
  have "trust_anchor r \<noteq> SLURM_TRUST_ANCHOR" by (simp add: r_def SLURM_TRUST_ANCHOR_def)
  with import_roas_sound [OF i] i show ?thesis by auto
qed

end
