(* ===== verification/Scope_Filter.thy ===== *)
theory Scope_Filter
  imports RPSL_Objects Status_Scan
begin

text \<open>
  \<^verbatim>\<open>irrd/scopefilter/validators.py\<close> and \<^verbatim>\<open>irrd/scopefilter/status.py\<close>: the configured filters,
  the validation of prefixes, AS numbers and objects, and of all rows of the database.
\<close>

datatype scopefilter_status = in_scope | out_scope_as | out_scope_prefix

definition scopefilter_is_visible :: "scopefilter_status \<Rightarrow> bool" where
  "scopefilter_is_visible status \<longleftrightarrow> status = in_scope"

record 'ip scope_filter =
  filter_prefixes :: "'ip list"
  filtered_as_numbers :: "int list"
  filtered_asn_ranges :: "(int \<times> int) list"

section \<open>Loading the filters\<close>

text \<open>Prefixes are text in the configuration; other values are refused.\<close>

fun load_prefixes :: "'ip extlib \<Rightarrow> cval list \<Rightarrow> 'ip list res" where
  "load_prefixes L [] = Inr []"
| "load_prefixes L (CStr p # ps) =
     (case IP L p 0 of
        Inl m \<Rightarrow> Inl (ValueError m)
      | Inr ip \<Rightarrow> rbind (load_prefixes L ps) (\<lambda>ips. Inr (ip # ips)))"
| "load_prefixes L (v # ps) = Inl (TypeError ''prefix'')"

definition int_of_text :: "string \<Rightarrow> int res" where
  "int_of_text s = (case py_int s of None \<Rightarrow> Inl (ValueError s) | Some i \<Rightarrow> Inr i)"

text \<open>
  One entry of the list of AS numbers: a range when its text has a hyphen, which only text can
  be split at, otherwise a number.
\<close>

definition load_asn :: "cval \<Rightarrow> (int + int \<times> int) res" where
  "load_asn v =
     (if CHR ''-'' \<in> set (cval_str v)
      then (case v of
              CStr s \<Rightarrow>
                (case py_split CHR ''-'' s of
                   [a, b] \<Rightarrow> rbind (int_of_text a) (\<lambda>x. rbind (int_of_text b) (\<lambda>y. Inr (Inr (x, y))))
                 | _ \<Rightarrow> Inl (ValueError ''unpack''))
            | _ \<Rightarrow> Inl (AttributeError ''split''))
      else rbind (cval_int v) (\<lambda>n. Inr (Inl n)))"

fun load_asns :: "cval list \<Rightarrow> (int + int \<times> int) list res" where
  "load_asns [] = Inr []"
| "load_asns (v # vs) = rbind (load_asn v) (\<lambda>x. rbind (load_asns vs) (\<lambda>xs. Inr (x # xs)))"

definition load_filters :: "'ip extlib \<Rightarrow> settings \<Rightarrow> 'ip scope_filter res" where
  "load_filters L gs =
     rbind (cval_iter (get_setting_or gs ''scopefilter.prefixes'' (CList []))) (\<lambda>ps.
     rbind (load_prefixes L ps) (\<lambda>prefixes.
     rbind (cval_iter (get_setting_or gs ''scopefilter.asns'' (CList []))) (\<lambda>as.
     rbind (load_asns as) (\<lambda>xs.
       Inr \<lparr>filter_prefixes = prefixes,
            filtered_as_numbers = concat (map (case_sum (\<lambda>n. [n]) (\<lambda>_. [])) xs),
            filtered_asn_ranges = concat (map (case_sum (\<lambda>_. []) (\<lambda>r. [r])) xs)\<rparr>))))"

section \<open>Validation\<close>

definition prefix_filtered :: "'ip extlib \<Rightarrow> 'ip scope_filter \<Rightarrow> 'ip \<Rightarrow> bool" where
  "prefix_filtered L F p =
     list_ex (\<lambda>f. ip_version L p = ip_version L f \<and> ip_overlaps L f p \<noteq> 0) (filter_prefixes F)"

definition asn_filtered :: "'ip scope_filter \<Rightarrow> int \<Rightarrow> bool" where
  "asn_filtered F asn =
     (asn \<in> set (filtered_as_numbers F) \<or> list_ex (\<lambda>(a, b). a \<le> asn \<and> asn \<le> b) (filtered_asn_ranges F))"

definition scope_validate :: "'ip extlib \<Rightarrow> settings \<Rightarrow> 'ip scope_filter \<Rightarrow> string \<Rightarrow> 'ip option \<Rightarrow> int option
    \<Rightarrow> scopefilter_status res" where
  "scope_validate L gs F src p asn =
     (if p = None \<and> asn = None
      then Inl (ValueError ''Scope Filter validator must be provided asn or prefix'')
      else if truthy (source_setting gs src ''scopefilter_excluded'') then Inr in_scope
      else if (case p of None \<Rightarrow> False | Some ip \<Rightarrow> prefix_filtered L F ip) then Inr out_scope_prefix
      else if (case asn of None \<Rightarrow> False | Some n \<Rightarrow> asn_filtered F n) then Inr out_scope_as
      else Inr in_scope)"

definition validate_rpsl_data :: "'ip extlib \<Rightarrow> settings \<Rightarrow> 'ip scope_filter \<Rightarrow> string \<Rightarrow> string \<Rightarrow> 'ip option
    \<Rightarrow> int option \<Rightarrow> (scopefilter_status \<times> string) res" where
  "validate_rpsl_data L gs F src object_class p asn_first_value =
     (if object_class \<notin> {''route'', ''route6'', ''aut-num''} then Inr (in_scope, [])
      else rbind (case p of
                    None \<Rightarrow> Inr None
                  | Some ip \<Rightarrow> rbind (scope_validate L gs F src p None) (\<lambda>st.
                      Inr (if st \<in> {out_scope_prefix, out_scope_as}
                           then Some (st, ''prefix '' @ ip_str L ip @ '' is out of scope'') else None))) (\<lambda>r.
        case r of
          Some x \<Rightarrow> Inr x
        | None \<Rightarrow>
            (case asn_first_value of
               None \<Rightarrow> Inr (in_scope, [])
             | Some asn \<Rightarrow> rbind (scope_validate L gs F src None asn_first_value) (\<lambda>st.
                 Inr (if st \<in> {out_scope_prefix, out_scope_as}
                      then (st, ''ASN '' @ str_int asn @ '' is out of scope'') else (in_scope, []))))))"

definition validate_rpsl_object :: "'ip extlib \<Rightarrow> settings \<Rightarrow> 'ip scope_filter \<Rightarrow> 'ip rpsl_object
    \<Rightarrow> (scopefilter_status \<times> string) res" where
  "validate_rpsl_object L gs F obj =
     rbind (source obj) (\<lambda>src.
       validate_rpsl_data L gs F src (rpsl_object_class (klass obj)) (prefix obj) (asn_first obj))"

section \<open>Validation of all objects\<close>

record scope_row =
  sr_pk :: string
  sr_prefix :: "string option"
  sr_asn_first :: "int option"
  sr_source :: string
  sr_object_class :: string
  sr_status :: scopefilter_status

definition row_scope_status :: "'ip extlib \<Rightarrow> settings \<Rightarrow> 'ip scope_filter \<Rightarrow> scope_row \<Rightarrow> scopefilter_status res" where
  "row_scope_status L gs F row =
     rbind (if str_truthy (sr_prefix row)
            then (case IP L (the (sr_prefix row)) 0 of Inl m \<Rightarrow> Inl (ValueError m) | Inr ip \<Rightarrow> Inr (Some ip))
            else Inr None) (\<lambda>p.
       rbind (validate_rpsl_data L gs F (sr_source row) (sr_object_class row) p (sr_asn_first row))
         (\<lambda>(st, msg). Inr st))"

text \<open>The rows with a changed status; the later query only adds columns to them.\<close>

fun changed_scope_rows :: "'ip extlib \<Rightarrow> settings \<Rightarrow> 'ip scope_filter \<Rightarrow> scope_row list
    \<Rightarrow> (scope_row \<times> scopefilter_status) list res" where
  "changed_scope_rows L gs F [] = Inr []"
| "changed_scope_rows L gs F (r # rs) =
     rbind (row_scope_status L gs F r) (\<lambda>new_status. rbind (changed_scope_rows L gs F rs) (\<lambda>changed.
       Inr (if new_status \<noteq> sr_status r then (r, new_status) # changed else changed)))"

definition validate_all_rpsl_objects :: "'ip extlib \<Rightarrow> settings \<Rightarrow> 'ip scope_filter \<Rightarrow> scope_row list
    \<Rightarrow> (scope_row list \<times> scope_row list \<times> scope_row list) res" where
  "validate_all_rpsl_objects L gs F rows =
     rbind (changed_scope_rows L gs F rows) (\<lambda>changed.
       (let with_status = (\<lambda>s. map fst (filter (\<lambda>c. snd c = s) changed))
        in Inr (with_status in_scope, with_status out_scope_as, with_status out_scope_prefix)))"

interpretation scope_scan: status_scan "changed_scope_rows L gs F" "\<lambda>r. False" "row_scope_status L gs F" sr_status
  for L gs F
  by unfold_locales simp_all

section \<open>What is out of scope\<close>

text \<open>What one configured entry denotes.\<close>

definition entry_denotes :: "cval \<Rightarrow> int \<Rightarrow> bool" where
  "entry_denotes v n \<longleftrightarrow>
     (case load_asn v of Inr (Inl m) \<Rightarrow> n = m | Inr (Inr (a, b)) \<Rightarrow> a \<le> n \<and> n \<le> b | Inl e \<Rightarrow> False)"

lemma load_asns_denotes:
  "load_asns vs = Inr xs \<Longrightarrow>
   (n \<in> set (concat (map (case_sum (\<lambda>n. [n]) (\<lambda>_. [])) xs)) \<or>
    list_ex (\<lambda>(a, b). a \<le> n \<and> n \<le> b) (concat (map (case_sum (\<lambda>_. []) (\<lambda>r. [r])) xs))) \<longleftrightarrow>
   (\<exists>v \<in> set vs. entry_denotes v n)"
proof (induction vs arbitrary: xs)
  case (Cons v vs)
  then obtain x xs' where "load_asn v = Inr x" "load_asns vs = Inr xs'" "xs = x # xs'"
    by (auto simp: rbind_Inr_conv)
  with Cons.IH [of xs'] show ?case
    by (cases x) (auto simp: entry_denotes_def list_ex_iff)
qed simp

lemma scope_validate_cases:
  "\<not> truthy (source_setting gs src ''scopefilter_excluded'') \<Longrightarrow>
   scope_validate L gs F src (Some ip) None = Inr (if prefix_filtered L F ip then out_scope_prefix else in_scope)"
  "\<not> truthy (source_setting gs src ''scopefilter_excluded'') \<Longrightarrow>
   scope_validate L gs F src None (Some n) = Inr (if asn_filtered F n then out_scope_as else in_scope)"
  by (simp_all add: scope_validate_def)


definition scope_example :: settings where
  "scope_example n = (if n = ''scopefilter.asns'' then Some (CList [CInt 3, CStr ''5-7'']) else None)"


text \<open>
  A full run of the scope filter reports exactly the rows whose status is out of date,
  each under its new status.
\<close>

theorem validate_all_rpsl_objects_exact:
  assumes "validate_all_rpsl_objects L gs F rows = Inr (now_in, now_as, now_prefix)"
  shows "\<forall>r. (r \<in> set now_in \<longleftrightarrow> r \<in> set rows \<and> in_scope \<noteq> sr_status r \<and> row_scope_status L gs F r = Inr in_scope) \<and>
    (r \<in> set now_as \<longleftrightarrow> r \<in> set rows \<and> out_scope_as \<noteq> sr_status r \<and> row_scope_status L gs F r = Inr out_scope_as) \<and>
    (r \<in> set now_prefix \<longleftrightarrow> r \<in> set rows \<and> out_scope_prefix \<noteq> sr_status r
       \<and> row_scope_status L gs F r = Inr out_scope_prefix)"
proof -
  from assms obtain changed where c: "changed_scope_rows L gs F rows = Inr changed"
    and l: "now_in = map fst (filter (\<lambda>c. snd c = in_scope) changed)"
      "now_as = map fst (filter (\<lambda>c. snd c = out_scope_as) changed)"
      "now_prefix = map fst (filter (\<lambda>c. snd c = out_scope_prefix) changed)"
    by (auto simp: validate_all_rpsl_objects_def rbind_Inr_conv Let_def)
  have "r \<in> set (map fst (filter (\<lambda>c. snd c = s) changed)) \<longleftrightarrow> (r, s) \<in> set changed" for r s by force
  then show ?thesis unfolding l using scope_scan.scan_exact [OF c] by auto
qed

definition scope_row_example :: scope_row where
  "scope_row_example = \<lparr>sr_pk = ''1'', sr_prefix = None, sr_asn_first = Some 6, sr_source = ''EX'',
     sr_object_class = ''aut-num'', sr_status = in_scope\<rparr>"

theorem validate_all_rpsl_objects_exact_witness:
  "scope_row_example \<in> set [scope_row_example] \<and> out_scope_as \<noteq> sr_status scope_row_example \<and>
   row_scope_status ip3_lib scope_example \<lparr>filter_prefixes = [], filtered_as_numbers = [3], filtered_asn_ranges = [(5, 7)]\<rparr>
     scope_row_example = Inr out_scope_as"
proof -
  have "validate_all_rpsl_objects ip3_lib scope_example
      \<lparr>filter_prefixes = [], filtered_as_numbers = [3], filtered_asn_ranges = [(5, 7)]\<rparr> [scope_row_example]
      = Inr ([], [scope_row_example], [])"
    by code_simp
  from validate_all_rpsl_objects_exact [OF this] show ?thesis by auto
qed

end
