(* ===== verification/Whois_Response.thy ===== *)
theory Whois_Response
  imports Text_Facts
begin

text \<open>
  \<^verbatim>\<open>irrd/server/whois/query_response.py\<close>, which renders the answer to a whois query, and the
  client of the same protocol, \<open>whois_query_irrd\<close> of \<^verbatim>\<open>irrd/utils/whois_client.py\<close>. Bytes are
  characters; text is encoded as UTF-8, of which the code points up to 255 that the model has
  need one or two bytes. A sequence that encodes a larger code point is outside the model and
  decoded like an invalid one.
\<close>

section \<open>UTF-8\<close>

definition utf8_char :: "char \<Rightarrow> string" where
  "utf8_char c = (if ord c < 128 then [c] else [chr (192 + ord c div 64), chr (128 + ord c mod 64)])"

definition utf8_encode :: "string \<Rightarrow> string" where
  "utf8_encode s = concat (map utf8_char s)"

definition byte_escape :: "char \<Rightarrow> string" where
  "byte_escape b =
     (let hex = (\<lambda>n. if n < 10 then chr (48 + n) else chr (87 + n))
      in [chr 92, CHR ''x'', hex (ord b div 16), hex (ord b mod 16)])"

fun utf8_decode :: "string \<Rightarrow> string" where
  "utf8_decode [] = []"
| "utf8_decode [b] = (if ord b < 128 then [b] else byte_escape b)"
| "utf8_decode (b # b2 # bs) =
     (if ord b < 128 then b # utf8_decode (b2 # bs)
      else if (ord b = 194 \<or> ord b = 195) \<and> 128 \<le> ord b2 \<and> ord b2 < 192
      then chr ((ord b - 192) * 64 + (ord b2 - 128)) # utf8_decode bs
      else byte_escape b @ utf8_decode (b2 # bs))"

section \<open>The response\<close>

datatype whois_response_type = SUCCESS | ERROR_INTERNAL | ERROR_USER | KEY_NOT_FOUND | NO_RESPONSE

datatype whois_response_mode = MODE_IRRD | MODE_RIPE

record whois_response =
  response_type :: whois_response_type
  mode :: whois_response_mode
  result :: "string option"
  hide_hashes :: bool

fun response_type_str :: "whois_response_type \<Rightarrow> string" where
  "response_type_str SUCCESS = ''WhoisQueryResponseType.SUCCESS''"
| "response_type_str ERROR_INTERNAL = ''WhoisQueryResponseType.ERROR_INTERNAL''"
| "response_type_str ERROR_USER = ''WhoisQueryResponseType.ERROR_USER''"
| "response_type_str KEY_NOT_FOUND = ''WhoisQueryResponseType.KEY_NOT_FOUND''"
| "response_type_str NO_RESPONSE = ''WhoisQueryResponseType.NO_RESPONSE''"

fun response_mode_str :: "whois_response_mode \<Rightarrow> string" where
  "response_mode_str MODE_IRRD = ''WhoisQueryResponseMode.IRRD''"
| "response_mode_str MODE_RIPE = ''WhoisQueryResponseMode.RIPE''"

definition shown :: "string option \<Rightarrow> string" where
  "shown r = (case r of None \<Rightarrow> ''None'' | Some s \<Rightarrow> s)"

definition clean_response :: "whois_response \<Rightarrow> whois_response" where
  "clean_response w = (if hide_hashes w then w\<lparr>result := map_option remove_auth_hashes (result w)\<rparr> else w)"

definition generate_response_irrd :: "whois_response \<Rightarrow> string option" where
  "generate_response_irrd w =
     (case response_type w of
        SUCCESS \<Rightarrow>
          (case result w of
             Some (c # r) \<Rightarrow>
               (let result_bytes = utf8_encode (c # r); result_len = length result_bytes + 1
                in Some (''A'' @ str_nat result_len @ [NL] @ result_bytes @ [NL] @ ''C'' @ [NL]))
           | _ \<Rightarrow> Some (''C'' @ [NL]))
      | KEY_NOT_FOUND \<Rightarrow> Some (''D'' @ [NL])
      | NO_RESPONSE \<Rightarrow> Some []
      | _ \<Rightarrow> Some (utf8_encode (''F '' @ shown (result w) @ [NL])))"

definition no_entries :: string where
  "no_entries = ''%  No entries found for the selected source(s).'' @ [NL, NL, NL]"

definition generate_response_ripe :: "whois_response \<Rightarrow> string option" where
  "generate_response_ripe w =
     (case response_type w of
        SUCCESS \<Rightarrow>
          (case result w of
             Some (c # r) \<Rightarrow> Some (utf8_encode ((c # r) @ [NL, NL, NL]))
           | _ \<Rightarrow> Some no_entries)
      | KEY_NOT_FOUND \<Rightarrow> Some no_entries
      | NO_RESPONSE \<Rightarrow> None
      | _ \<Rightarrow> Some (utf8_encode (''%% ERROR: '' @ shown (result w) @ [NL, NL, NL])))"

definition generate_response :: "whois_response \<Rightarrow> string res" where
  "generate_response w0 =
     (let w = clean_response w0
      in case (if mode w = MODE_IRRD then generate_response_irrd w else generate_response_ripe w) of
           Some response \<Rightarrow> Inr response
         | None \<Rightarrow> Inl (RuntimeError (''Unable to formulate response for '' @ response_type_str (response_type w)
                     @ '' / '' @ response_mode_str (mode w) @ '': '' @ shown (result w))))"

section \<open>The client\<close>

datatype recv = RData string | RTimeout | RConnectionError

record irrd_client =
  buffer :: string
  expected_data_length :: "int option"
  data_offset :: "nat option"
  client_error :: "string option"

definition known_length :: "irrd_client \<Rightarrow> bool" where
  "known_length c \<longleftrightarrow> expected_data_length c \<noteq> None \<and> expected_data_length c \<noteq> Some 0"

definition known_offset :: "irrd_client \<Rightarrow> bool" where
  "known_offset c \<longleftrightarrow> data_offset c \<noteq> None \<and> data_offset c \<noteq> Some 0"

text \<open>
  What one block of data does: the new state, and whether the loop is left. \<open>Inl\<close> is the
  \<open>ValueError\<close> of a length that is no number.
\<close>

definition client_data :: "string \<Rightarrow> irrd_client \<Rightarrow> (bool \<times> irrd_client) res" where
  "client_data data c0 =
     (let c = c0\<lparr>buffer := buffer c0 @ data\<rparr>; decoded = utf8_decode (buffer c)
      in rbind
           (if \<not> known_length c \<and> NL \<in> set decoded
            then (let length_line = hd (py_splitlines decoded)
                  in if py_startswith length_line ''A''
                     then (case py_int (tl length_line) of
                             None \<Rightarrow> Inl (ValueError length_line)
                           | Some n \<Rightarrow> Inr (False, c\<lparr>expected_data_length := Some n,
                                                    data_offset := Some (length length_line + 1)\<rparr>))
                     else if length_line \<in> {''C'', ''D''} then Inr (True, c)
                     else if py_startswith length_line ''F''
                     then Inr (True, c\<lparr>client_error := Some (drop 2 length_line)\<rparr>)
                     else Inr (False, c))
            else Inr (False, c))
           (\<lambda>(stop, c1). Inr (stop \<or> (known_length c1 \<and> known_offset c1 \<and>
               the (expected_data_length c1) + int (the (data_offset c1)) < int (length (buffer c1))), c1)))"

fun client_loop :: "recv list \<Rightarrow> irrd_client \<Rightarrow> irrd_client res" where
  "client_loop [] c = Inr c"
| "client_loop (RTimeout # es) c = Inr c"
| "client_loop (RConnectionError # es) c = Inr c"
| "client_loop (RData d # es) c =
     (if d = [] then Inr c
      else rbind (client_data d c) (\<lambda>(stop, c1). if stop then Inr c1 else client_loop es c1))"

text \<open>\<open>buffer[start:stop]\<close>, with Python's meaning of a negative end.\<close>

definition byte_slice :: "nat \<Rightarrow> int \<Rightarrow> string \<Rightarrow> string" where
  "byte_slice start stop s =
     (let e = (if stop < 0 then max 0 (int (length s) + stop) else stop)
      in drop start (take (nat e) s))"

definition ascii_only :: "string \<Rightarrow> string" where
  "ascii_only s = filter (\<lambda>b. ord b < 128) s"

definition client_result :: "string \<Rightarrow> irrd_client \<Rightarrow> string option res" where
  "client_result query c =
     (if client_error c \<noteq> None \<and> client_error c \<noteq> Some [] then Inl (WhoisQueryError (the (client_error c)))
      else if \<not> known_length c \<and> buffer c \<in> {''C'' @ [NL], ''D'' @ [NL]} then Inr None
      else if \<not> known_length c \<or> \<not> known_offset c
      then Inl (ValueError (''Data receiving ended without a valid IRRD-format response, query '' @ query
                  @ '',received: '' @ ascii_only (buffer c)))
      else (let n = the (expected_data_length c); off = the (data_offset c)
            in if int (length (buffer c)) < n + int off
               then Inl (ValueError (''Unable to receive all expected '' @ str_int n @ '' bytes''))
               else Inr (Some (utf8_decode (byte_slice off (n + int off - 1) (buffer c))))))"

definition whois_query_irrd :: "string \<Rightarrow> recv list \<Rightarrow> string option res" where
  "whois_query_irrd query events =
     rbind (client_loop events \<lparr>buffer = [], expected_data_length = None, data_offset = None, client_error = None\<rparr>)
       (client_result (py_strip query @ [NL]))"

definition whois_query_source_status :: "string \<Rightarrow> recv list \<Rightarrow> (bool option \<times> int \<times> int \<times> int option) res" where
  "whois_query_source_status source_name events =
     rbind (whois_query_irrd (''!j'' @ source_name) events) (\<lambda>remote_status.
       case remote_status of
         Some (x # xs) \<Rightarrow>
           (let flds = py_split CHR '':'' (x # xs); match_source = py_upper (hd flds)
            in if match_source \<noteq> py_upper source_name
               then Inl (ValueError (''Received invalid source '' @ match_source @ '', expecting '' @ source_name
                           @ '', in status: '' @ (x # xs)))
               else if length flds < 3 then Inl (IndexError ''list index out of range'')
               else (let mirrorable = (if py_upper (flds ! 1) = ''Y'' then Some True
                                       else if py_upper (flds ! 1) = ''N'' then Some False else None);
                         int_of = (\<lambda>s. case py_int s of None \<Rightarrow> Inl (ValueError s) | Some i \<Rightarrow> Inr i)
                     in case py_split CHR ''-'' (flds ! 2) of
                          [oldest, newest] \<Rightarrow>
                            rbind (if 3 < length flds then rbind (int_of (flds ! 3)) (\<lambda>i. Inr (Some i)) else Inr None)
                              (\<lambda>export_serial. rbind (int_of oldest) (\<lambda>o'. rbind (int_of newest) (\<lambda>n.
                                 Inr (mirrorable, o', n, export_serial))))
                        | _ \<Rightarrow> Inl (ValueError ''unpack'')))
       | _ \<Rightarrow> Inl (ValueError ''Source status query failed: empty response''))"

section \<open>UTF-8 round trip\<close>

lemma utf8_encode_simps [simp]:
  "utf8_encode [] = []"
  "utf8_encode (c # s) = utf8_char c @ utf8_encode s"
  by (simp_all add: utf8_encode_def)

lemma utf8_decode_ascii: "ord b < 128 \<Longrightarrow> utf8_decode (b # bs) = b # utf8_decode bs"
  by (cases bs) simp_all

lemma utf8_decode_ascii_append: "(\<And>b. b \<in> set p \<Longrightarrow> ord b < 128) \<Longrightarrow> utf8_decode (p @ s) = p @ utf8_decode s"
  by (induction p) (simp_all add: utf8_decode_ascii)

lemma utf8_roundtrip: "utf8_decode (utf8_encode s) = s"
proof (induction s)
  case (Cons c s)
  show ?case
  proof (cases "ord c < 128")
    case True
    with Cons show ?thesis by (simp add: utf8_char_def utf8_decode_ascii)
  next
    case False
    have lt: "ord c < 256" by (rule ord_less_256)
    have d: "ord c div 64 = 2 \<or> ord c div 64 = 3"
    proof -
      have "ord c div 64 < 4" using lt by (simp add: less_mult_imp_div_less)
      moreover have "2 \<le> ord c div 64" using div_le_mono [of 128 "ord c" 64] False by simp
      ultimately show ?thesis by linarith
    qed
    have m: "ord c mod 64 < 64" by simp
    have s1: "ord (chr (192 + ord c div 64)) = 192 + ord c div 64" using d by auto
    have s2: "ord (chr (128 + ord c mod 64)) = 128 + ord c mod 64" using m by (intro ord_chr) linarith
    have "ord c div 64 * 64 + ord c mod 64 = ord c" by simp
    with Cons False s1 s2 d m show ?thesis by (auto simp: utf8_char_def)
  qed
qed simp

lemma NL_ord [simp]: "ord NL = 10"
  by (simp add: ord_def)

lemma escape_no_NL: "NL \<notin> set (byte_escape b)"
proof -
  have hex: "(if n < 10 then chr (48 + n) else chr (87 + n)) \<noteq> NL" if "n < 16" for n
  proof
    assume a: "(if n < 10 then chr (48 + n) else chr (87 + n)) = NL"
    have "ord (if n < 10 then chr (48 + n) else chr (87 + n)) = 10" unfolding a by simp
    with that show False by (auto split: if_splits)
  qed
  have bs: "chr 92 \<noteq> NL" by code_simp
  have "ord b div 16 < 16" using ord_less_256 [of b] by linarith
  then show ?thesis using hex [of "ord b div 16"] hex [of "ord b mod 16"] bs
    by (auto simp: byte_escape_def Let_def)
qed

lemma decode_NL: "NL \<in> set (utf8_decode s) \<longleftrightarrow> NL \<in> set s"
proof (induction s rule: utf8_decode.induct)
  case (2 b)
  then show ?case using escape_no_NL by (auto simp: ord_eq_iff [symmetric])
next
  case (3 b b2 bs)
  have "chr ((ord b - 192) * 64 + (ord b2 - 128)) \<noteq> NL" if "ord b = 194 \<or> ord b = 195" "ord b2 < 192"
  proof
    assume "chr ((ord b - 192) * 64 + (ord b2 - 128)) = NL"
    then have "ord (chr ((ord b - 192) * 64 + (ord b2 - 128))) = 10" by simp
    moreover have "(ord b - 192) * 64 + (ord b2 - 128) < 256" using that by auto
    ultimately show False using that by auto
  qed
  with 3 show ?case
    using escape_no_NL [of b] by (auto simp: ord_eq_iff [symmetric])
qed simp

section \<open>Client and server agree\<close>

text \<open>An answer with data, as the length line, a line feed and the rest.\<close>

definition irrd_frame :: "string \<Rightarrow> string" where
  "irrd_frame body = (''A'' @ str_nat (length body + 1)) @ [NL] @ body @ [NL] @ ''C'' @ [NL]"

lemma digits_ascii: "c \<in> set (''A'' @ str_nat n) \<Longrightarrow> ord c < 128 \<and> c \<noteq> NL \<and> c \<noteq> CR \<and> \<not> is_linebreak c"
proof -
  assume "c \<in> set (''A'' @ str_nat n)"
  then have "c = CHR ''A'' \<or> isdigit c" using str_nat_digits by auto
  then have "48 \<le> ord c \<and> ord c < 128" by (auto simp: isdigit_def) (simp_all add: ord_def)
  moreover have "ord CR = 13" by (simp add: ord_def)
  ultimately show ?thesis by (auto simp: is_linebreak_def Let_def ord_eq_iff [symmetric])
qed

lemma splitlines_head:
  "(\<And>c. c \<in> set p \<Longrightarrow> c \<noteq> CR \<and> \<not> is_linebreak c) \<Longrightarrow>
   hd (splitlines_acc False acc (p @ NL # s)) = rev acc @ p"
proof (induction p arbitrary: acc)
  case Nil
  have "is_linebreak NL" "NL \<noteq> CR" by code_simp+
  then show ?case by simp
next
  case (Cons c p)
  then show ?case by (cases "p @ NL # s") auto
qed

definition irrd_state :: "nat \<Rightarrow> string \<Rightarrow> bool \<Rightarrow> irrd_client" where
  "irrd_state n buf seen =
     \<lparr>buffer = buf, expected_data_length = (if seen then Some (int n) else None),
      data_offset = (if seen then Some (length (''A'' @ str_nat n) + 1) else None), client_error = None\<rparr>"

lemma irrd_state_known [simp]:
  "0 < n \<Longrightarrow> known_length (irrd_state n buf seen) = seen"
  "known_offset (irrd_state n buf seen) = seen"
  "buffer (irrd_state n buf seen) = buf"
  "expected_data_length (irrd_state n buf True) = Some (int n)"
  "data_offset (irrd_state n buf True) = Some (length (''A'' @ str_nat n) + 1)"
  "client_error (irrd_state n buf seen) = None"
  by (simp_all add: irrd_state_def known_length_def known_offset_def)

lemma prefix_with_NL:
  assumes "q @ t = h @ NL # rest" "NL \<notin> set h" "NL \<in> set q"
  shows "\<exists>u. q = h @ NL # u"
  using assms
proof (induction h arbitrary: q)
  case Nil
  then show ?case by (cases q) auto
next
  case (Cons c h)
  then show ?case by (cases q) auto
qed

text \<open>One block of an answer: the client knows the length once it has seen the first line.\<close>

lemma client_data_step:
  assumes "n = length body + 1" "n < 10 ^ 4300" "(buf @ d) @ t = irrd_frame body" "seen = (NL \<in> set buf)"
  shows "client_data d (irrd_state n buf seen) = Inr
    (NL \<in> set (buf @ d) \<and> n + (length (''A'' @ str_nat n) + 1) < length (buf @ d), irrd_state n (buf @ d) (NL \<in> set (buf @ d)))"
proof -
  let ?h = "''A'' @ str_nat n"
  have n: "0 < n" using assms(1) by simp
  have add: "(irrd_state n buf seen)\<lparr>buffer := buffer (irrd_state n buf seen) @ d\<rparr> = irrd_state n (buf @ d) seen"
    by (simp add: irrd_state_def)
  show ?thesis
  proof (cases seen)
    case True
    with assms(4) have "NL \<in> set (buf @ d)" by simp
    with True n show ?thesis
      unfolding client_data_def add Let_def by (simp, linarith)
  next
    case False
    show ?thesis
    proof (cases "NL \<in> set (buf @ d)")
      case nl: False
      then have "NL \<notin> set (utf8_decode (buf @ d))" by (simp add: decode_NL)
      with nl False n show ?thesis
        unfolding client_data_def add Let_def by simp
    next
      case nl: True
      have no: "NL \<notin> set ?h" using digits_ascii [of NL n] by blast
      obtain u where u: "buf @ d = ?h @ NL # u"
        using prefix_with_NL [of "buf @ d" t ?h] no nl assms(1,3) by (auto simp: irrd_frame_def)
      have dec: "utf8_decode (buf @ d) = ?h @ NL # utf8_decode u"
        unfolding u using utf8_decode_ascii_append [of ?h "NL # u"] digits_ascii [of _ n]
        by (simp add: utf8_decode_ascii)
      have line: "hd (py_splitlines (utf8_decode (buf @ d))) = ?h"
        unfolding dec py_splitlines_def using splitlines_head [of ?h "[]"] digits_ascii [of _ n] by auto
      have int: "py_int (tl ?h) = Some (int n)"
        using py_int_str_nat [OF assms(2)] by simp
      have sw: "py_startswith ?h ''A''" by (rule py_startswith_append)
      have upd: "(irrd_state n (buf @ d) False)\<lparr>expected_data_length := Some (int n),
          data_offset := Some (length ?h + 1)\<rparr> = irrd_state n (buf @ d) True"
        by (simp add: irrd_state_def)
      have "NL \<in> set (utf8_decode (buf @ d))" using nl by (simp only: decode_NL)
      moreover have "buffer (irrd_state n (buf @ d) seen) = buf @ d" by simp
      ultimately show ?thesis
        using False n nl sw int upd unfolding client_data_def add Let_def
        by (simp add: line, simp add: known_length_def known_offset_def, linarith)
    qed
  qed
qed

lemma client_loop_frame:
  assumes "n = length body + 1" "n < 10 ^ 4300" "\<forall>d \<in> set ds. d \<noteq> []"
    and "buf @ concat ds = irrd_frame body"
  shows "\<exists>b t. client_loop (map RData ds) (irrd_state n buf (NL \<in> set buf)) = Inr (irrd_state n b True) \<and>
    b @ t = irrd_frame body \<and> n + (length (''A'' @ str_nat n) + 1) < length b"
  using assms(3,4)
proof (induction ds arbitrary: buf)
  case Nil
  have "NL \<in> set (irrd_frame body)" by (simp add: irrd_frame_def)
  moreover have "n + (length (''A'' @ str_nat n) + 1) < length (irrd_frame body)"
    using assms(1) by (simp add: irrd_frame_def)
  ultimately show ?case using Nil by auto
next
  case (Cons d ds)
  have step: "client_data d (irrd_state n buf (NL \<in> set buf)) = Inr
      (NL \<in> set (buf @ d) \<and> n + (length (''A'' @ str_nat n) + 1) < length (buf @ d), irrd_state n (buf @ d) (NL \<in> set (buf @ d)))"
    using client_data_step [OF assms(1,2), of buf d "concat ds"] Cons.prems(2) by simp
  show ?case
  proof (cases "NL \<in> set (buf @ d) \<and> n + (length (''A'' @ str_nat n) + 1) < length (buf @ d)")
    case True
    with step Cons.prems have "client_loop (map RData (d # ds)) (irrd_state n buf (NL \<in> set buf)) = Inr (irrd_state n (buf @ d) True)"
      by (simp del: append_Cons append_Nil)
    with True Cons.prems(2) show ?thesis by (intro exI [of _ "buf @ d"] exI [of _ "concat ds"]) simp
  next
    case False
    with step Cons.prems have "client_loop (map RData (d # ds)) (irrd_state n buf (NL \<in> set buf))
        = client_loop (map RData ds) (irrd_state n (buf @ d) (NL \<in> set (buf @ d)))"
      by auto
    with Cons.IH [of "buf @ d"] Cons.prems show ?thesis by simp
  qed
qed

text \<open>
  C31: client and server of the IRRD protocol agree. Whatever blocks the answer to a successful
  query arrives in, as long as they are not empty, the client returns the text of the answer
  as the server cleaned it, for texts whose length has no more than 4300 digits.
\<close>

theorem irrd_client_reads_response:
  assumes "response_type w = SUCCESS" "mode w = MODE_IRRD" "result (clean_response w) = Some r" "r \<noteq> []"
    and "length (utf8_encode r) + 1 < 10 ^ 4300"
    and "generate_response w = Inr response" "concat blocks = response" "\<forall>d \<in> set blocks. d \<noteq> []"
  shows "whois_query_irrd query (map RData blocks) = Inr (Some r)"
proof -
  define body where "body = utf8_encode r"
  define n where "n = length body + 1"
  have keep: "response_type (clean_response w) = SUCCESS" "mode (clean_response w) = MODE_IRRD"
    using assms(1,2) by (simp_all add: clean_response_def)
  obtain c r' where r: "r = c # r'" using assms(4) by (cases r) auto
  have frame: "response = irrd_frame body"
    using assms(3,6) keep r
    by (simp add: generate_response_def generate_response_irrd_def irrd_frame_def body_def Let_def del: utf8_encode_simps)
  have start: "\<lparr>buffer = [], expected_data_length = None, data_offset = None, client_error = None\<rparr> = irrd_state n [] (NL \<in> set [])"
    by (simp add: irrd_state_def)
  obtain b t where loop: "client_loop (map RData blocks) (irrd_state n [] (NL \<in> set [])) = Inr (irrd_state n b True)"
    and b: "b @ t = irrd_frame body" "n + (length (''A'' @ str_nat n) + 1) < length b"
  proof -
    have "[] @ concat blocks = irrd_frame body" using assms(7) frame by simp
    from client_loop_frame [OF n_def assms(5) [folded body_def, folded n_def] assms(8) this] that
    show ?thesis by blast
  qed
  let ?off = "length (''A'' @ str_nat n) + 1"
  have n: "0 < n" by (simp add: n_def)
  have "take (n + ?off - 1) b = take (n + ?off - 1) (irrd_frame body)"
    unfolding b(1) [symmetric] using b(2) by simp
  also have "\<dots> = (''A'' @ str_nat n) @ [NL] @ body"
    by (simp add: irrd_frame_def n_def)
  finally have "byte_slice ?off (int n + int ?off - 1) b = body"
    by (simp add: byte_slice_def nat_diff_distrib nat_add_distrib n_def)
  with b(2) n have "client_result (py_strip query @ [NL]) (irrd_state n b True) = Inr (Some (utf8_decode body))"
    by (simp add: client_result_def Let_def)
  with loop start show ?thesis by (simp add: whois_query_irrd_def body_def utf8_roundtrip)
qed

definition whois_example :: whois_response where
  "whois_example = \<lparr>response_type = SUCCESS, mode = MODE_IRRD, result = Some ''a b'', hide_hashes = True\<rparr>"

theorem irrd_client_reads_response_witness:
  "whois_query_irrd ''!gAS1'' (map RData [''A'', ''4'' @ [NL] @ ''a'', '' b'' @ [NL], ''C'' @ [NL]]) = Inr (Some ''a b'')"
proof (rule irrd_client_reads_response)
  show "response_type whois_example = SUCCESS" "mode whois_example = MODE_IRRD"
    by (simp_all add: whois_example_def)
  show "result (clean_response whois_example) = Some ''a b''" by code_simp
  show "length (utf8_encode ''a b'') + 1 < 10 ^ 4300"
  proof -
    have "length (utf8_encode ''a b'') + 1 = 4" by code_simp
    also have "(4::nat) < 10 ^ 1" by simp
    also have "(10::nat) ^ 1 \<le> 10 ^ 4300" by (rule power_increasing) simp_all
    finally show ?thesis .
  qed
  show "generate_response whois_example = Inr (''A4'' @ [NL] @ ''a b'' @ [NL] @ ''C'' @ [NL])" by code_simp
qed simp_all

text \<open>
  A failure answer is never an empty one, and NO_RESPONSE has no answer in RIPE mode: the
  server raises for it.
\<close>

lemma generate_response_raises:
  "(\<exists>e. generate_response w = Inl e) \<longleftrightarrow> response_type w = NO_RESPONSE \<and> mode w = MODE_RIPE"
  by (cases "response_type w"; cases "mode w")
     (auto simp: generate_response_def clean_response_def generate_response_irrd_def generate_response_ripe_def
        Let_def split: option.splits list.splits)

end
