(* ===== verification/Scheduler.thy ===== *)
theory Scheduler
  imports Conf
begin

text \<open>
  \<^verbatim>\<open>irrd/mirroring/scheduler.py\<close>: the scheduler of periodic processes. A process is a number; the
  state records which processes the scheduler knows under which name, when each name was last
  started, the scope filter settings it last saw, and, for the statements, every process it ever
  started and those that are alive. Time is in microseconds. The preload signaller of a
  read-only standby keeps its own state and is not modelled.
\<close>

section \<open>State\<close>

record sched =
  processes :: "(string, nat) dict"
  last_started_time :: "(string, int) dict"
  previous_scopefilter :: "(cval list \<times> cval list \<times> string set) option"
  started :: "(nat \<times> string) list"
  alive :: "nat list"

definition sched_init :: sched where
  "sched_init = \<lparr>processes = [], last_started_time = [], previous_scopefilter = None, started = [], alive = []\<rparr>"

text \<open>An operation gives a result or an exception, and the state in both cases.\<close>

type_synonym 'a sched_op = "sched \<Rightarrow> 'a res \<times> sched"

definition sbind :: "'a sched_op \<Rightarrow> ('a \<Rightarrow> 'b sched_op) \<Rightarrow> 'b sched_op" where
  "sbind m f s = (case m s of (Inl e, s') \<Rightarrow> (Inl e, s') | (Inr x, s') \<Rightarrow> f x s')"

definition sret :: "'a \<Rightarrow> 'a sched_op" where
  "sret x s = (Inr x, s)"

definition slift :: "'a res \<Rightarrow> 'a sched_op" where
  "slift r s = (r, s)"

section \<open>Starting processes\<close>

definition process_name :: "string option \<Rightarrow> string \<Rightarrow> string" where
  "process_name src runner_class =
     (case src of Some s \<Rightarrow> if s \<noteq> [] then runner_class @ ''-'' @ s else runner_class | None \<Rightarrow> runner_class)"

definition has_expired :: "string \<Rightarrow> int \<Rightarrow> int \<Rightarrow> sched \<Rightarrow> bool" where
  "has_expired name timer now s \<longleftrightarrow>
     ((case dict_get (last_started_time s) name of None \<Rightarrow> 0 | Some t \<Rightarrow> t) + timer) * 1000000 < now"

definition start_process :: "string \<Rightarrow> int \<Rightarrow> sched \<Rightarrow> sched" where
  "start_process name now s =
     (let pid = length (started s)
      in s\<lparr>processes := dict_set name pid (processes s),
           last_started_time := dict_set name (now div 1000000) (last_started_time s),
           started := started s @ [(pid, name)],
           alive := pid # alive s\<rparr>)"

definition run_if_relevant :: "int \<Rightarrow> string option \<Rightarrow> string \<Rightarrow> int \<Rightarrow> bool \<Rightarrow> bool sched_op" where
  "run_if_relevant now src runner_class timer allow_multiple s =
     (let name = process_name src runner_class
      in if \<not> has_expired name timer now s \<or> (dict_get (processes s) name \<noteq> None \<and> \<not> allow_multiple)
         then (Inr False, s)
         else (Inr True, start_process name now s))"

section \<open>One run of the scheduler\<close>

definition check_scopefilter_change :: "settings \<Rightarrow> bool sched_op" where
  "check_scopefilter_change gs s =
     (if \<not> truthy (get_setting gs ''scopefilter'') then (Inr False, s)
      else (case (cval_iter (get_setting_or gs ''scopefilter.prefixes'' (CList [])),
                  cval_iter (get_setting_or gs ''scopefilter.asns'' (CList []))) of
              (Inl e, _) \<Rightarrow> (Inl e, s)
            | (Inr p, Inl e) \<Rightarrow> (Inl e, s)
            | (Inr p, Inr a) \<Rightarrow>
                (let current = (p, a, set (map fst (filter (\<lambda>(n, ss). truthy (cval_get ss ''scopefilter_excluded''))
                                  (cval_items (get_setting gs ''sources'')))))
                 in if previous_scopefilter s \<noteq> Some current
                    then (Inr True, s\<lparr>previous_scopefilter := Some current\<rparr>)
                    else (Inr False, s))))"

definition MAX_SIMULTANEOUS_RUNS :: nat where
  "MAX_SIMULTANEOUS_RUNS = 1"

definition DEFAULT_SOURCE_EXPORT_TIMER :: int where
  "DEFAULT_SOURCE_EXPORT_TIMER = 3600"

definition DEFAULT_SOURCE_EXPORT_TIMER_NRTM4 :: int where
  "DEFAULT_SOURCE_EXPORT_TIMER_NRTM4 = 60"

definition DEFAULT_SOURCE_IMPORT_TIMER :: int where
  "DEFAULT_SOURCE_IMPORT_TIMER = 300"

definition DEFAULT_SOURCE_IMPORT_TIMER_NRTM4 :: int where
  "DEFAULT_SOURCE_IMPORT_TIMER_NRTM4 = 60"

definition int_setting :: "settings \<Rightarrow> string \<Rightarrow> string \<Rightarrow> int \<Rightarrow> int sched_op" where
  "int_setting gs src key dflt = slift (cval_int (get_setting_or gs (source_key src key) (CInt dflt)))"

text \<open>
  The body of the loop over the sources: whether the source counts as started. The result of
  the NRTMv4 server overwrites that of the export.
\<close>

definition run_source :: "settings \<Rightarrow> int \<Rightarrow> string \<Rightarrow> bool sched_op" where
  "run_source gs now src =
     (let st = (\<lambda>key. truthy (source_setting gs src key));
          is_mirror = (st ''import_source'' \<or> st ''nrtm_host'' \<or> st ''nrtm4_client_notification_file_url'');
          default_import_timer = (if st ''nrtm4_client_initial_public_key''
             then DEFAULT_SOURCE_IMPORT_TIMER_NRTM4 else DEFAULT_SOURCE_IMPORT_TIMER)
      in sbind (int_setting gs src ''import_timer'' default_import_timer) (\<lambda>import_timer.
         sbind (if is_mirror then run_if_relevant now (Some src) ''RPSLMirrorImportUpdateRunner'' import_timer False
                else sret False) (\<lambda>started_import.
         sbind (int_setting gs src ''export_timer'' DEFAULT_SOURCE_EXPORT_TIMER) (\<lambda>export_timer.
         sbind (if st ''export_destination'' \<or> st ''export_destination_unfiltered''
                then run_if_relevant now (Some src) ''SourceExportRunner'' export_timer False
                else sret False) (\<lambda>started_export.
         sbind (if st ''nrtm4_server_private_key''
                then run_if_relevant now (Some src) ''NRTM4Server'' DEFAULT_SOURCE_EXPORT_TIMER_NRTM4 True
                else sret started_export) (\<lambda>started_export'.
           sret (started_import \<or> started_export')))))))"

fun run_sources :: "settings \<Rightarrow> int \<Rightarrow> string list \<Rightarrow> nat \<Rightarrow> unit sched_op" where
  "run_sources gs now [] sources_started = sret ()"
| "run_sources gs now (src # srcs) sources_started =
     (if MAX_SIMULTANEOUS_RUNS \<le> sources_started then sret ()
      else sbind (run_source gs now src) (\<lambda>b.
             run_sources gs now srcs (if b then sources_started + 1 else sources_started)))"

definition sched_run :: "settings \<Rightarrow> int \<Rightarrow> unit sched_op" where
  "sched_run gs now =
     (if truthy (get_setting gs ''readonly_standby'') then sret ()
      else sbind (if truthy (get_setting gs ''rpki.roa_source'')
                  then sbind (slift (cval_int (get_setting gs ''rpki.roa_import_timer''))) (\<lambda>t.
                         run_if_relevant now None ''ROAImportRunner'' t False)
                  else sret False) (\<lambda>_.
           sbind (if truthy (get_setting gs ''sources'') \<and>
                     list_ex (\<lambda>(n, ss). truthy (cval_get ss ''route_object_preference''))
                       (cval_items (get_setting gs ''sources''))
                  then sbind (slift (cval_int (get_setting gs ''route_object_preference.update_timer''))) (\<lambda>t.
                         run_if_relevant now None ''RoutePreferenceUpdateRunner'' t False)
                  else sret False) (\<lambda>_.
           sbind (check_scopefilter_change gs) (\<lambda>changed.
           sbind (if changed then run_if_relevant now None ''ScopeFilterUpdateRunner'' 0 False
                  else sret False) (\<lambda>_.
             run_sources gs now (map fst (cval_items (get_setting gs ''sources''))) 0)))))"

definition update_process_state :: "sched \<Rightarrow> sched" where
  "update_process_state s = s\<lparr>processes := filter (\<lambda>(n, pid). pid \<in> set (alive s)) (processes s)\<rparr>"

section \<open>Steps\<close>

text \<open>The scheduler runs, a process ends, or the scheduler removes the processes that have ended.\<close>

inductive sched_step :: "sched \<Rightarrow> sched \<Rightarrow> bool" where
  step_run: "sched_run gs now s = (r, s') \<Longrightarrow> sched_step s s'"
| step_exit: "sched_step s (s\<lparr>alive := removeAll pid (alive s)\<rparr>)"
| step_reap: "sched_step s (update_process_state s)"

inductive sched_reachable :: "sched \<Rightarrow> bool" where
  reach_init: "sched_reachable sched_init"
| reach_step: "sched_reachable s \<Longrightarrow> sched_step s s' \<Longrightarrow> sched_reachable s'"

section \<open>Exclusive processes\<close>

text \<open>The names under which several processes may run.\<close>

definition multiple_name :: "string \<Rightarrow> bool" where
  "multiple_name n \<longleftrightarrow> py_startswith n ''NRTM4Server''"

definition sched_inv :: "sched \<Rightarrow> bool" where
  "sched_inv s \<longleftrightarrow>
     map fst (started s) = [0..<length (started s)] \<and>
     set (alive s) \<subseteq> {..<length (started s)} \<and>
     (\<forall>(pid, n) \<in> set (started s). pid \<in> set (alive s) \<longrightarrow> \<not> multiple_name n \<longrightarrow>
        dict_get (processes s) n = Some pid) \<and>
     distinct (dict_keys (processes s))"

definition keeps_inv :: "'a sched_op \<Rightarrow> bool" where
  "keeps_inv m \<longleftrightarrow> (\<forall>s. sched_inv s \<longrightarrow> sched_inv (snd (m s)))"

named_theorems keeps_intros \<open>operations that keep the invariant of the scheduler\<close>

lemma keeps_sret [keeps_intros]: "keeps_inv (sret x)"
  by (simp add: keeps_inv_def sret_def)

lemma keeps_slift [keeps_intros]: "keeps_inv (slift r)"
  by (simp add: keeps_inv_def slift_def)

lemma keeps_sbind [keeps_intros]: "keeps_inv m \<Longrightarrow> (\<And>x. keeps_inv (f x)) \<Longrightarrow> keeps_inv (sbind m f)"
  by (auto simp: keeps_inv_def sbind_def split: prod.splits sum.splits)

lemma keeps_if [keeps_intros]: "(b \<Longrightarrow> keeps_inv m) \<Longrightarrow> (\<not> b \<Longrightarrow> keeps_inv m') \<Longrightarrow> keeps_inv (if b then m else m')"
  by simp

lemma keeps_int_setting [keeps_intros]: "keeps_inv (int_setting gs src key d)"
  unfolding int_setting_def by (rule keeps_slift)

lemma started_pids: "sched_inv s \<Longrightarrow> (pid, n) \<in> set (started s) \<Longrightarrow> pid < length (started s)"
proof -
  assume inv: "sched_inv s" and "(pid, n) \<in> set (started s)"
  then have "pid \<in> set (map fst (started s))" by force
  with inv show ?thesis by (simp add: sched_inv_def)
qed

lemma start_process_inv:
  assumes "sched_inv s" "dict_get (processes s) n = None \<or> multiple_name n"
  shows "sched_inv (start_process n now s)"
proof -
  have "dict_get (processes (start_process n now s)) n' = Some pid"
    if "(pid, n') \<in> set (started (start_process n now s))" "pid \<in> set (alive (start_process n now s))"
      "\<not> multiple_name n'" for pid n'
  proof (cases "pid = length (started s)")
    case True
    then have "n' = n" using that(1) started_pids [OF assms(1)] by (auto simp: start_process_def Let_def)
    with True show ?thesis by (simp add: start_process_def Let_def)
  next
    case False
    with that have old: "(pid, n') \<in> set (started s)" "pid \<in> set (alive s)"
      by (auto simp: start_process_def Let_def)
    with assms(1) that(3) have "dict_get (processes s) n' = Some pid" by (auto simp: sched_inv_def)
    moreover from this assms(2) that(3) have "n' \<noteq> n" by auto
    ultimately show ?thesis by (simp add: start_process_def Let_def)
  qed
  moreover have "map fst (started (start_process n now s)) = [0..<length (started (start_process n now s))]"
    "set (alive (start_process n now s)) \<subseteq> {..<length (started (start_process n now s))}"
    "distinct (dict_keys (processes (start_process n now s)))"
    using assms(1) by (auto simp: start_process_def Let_def sched_inv_def distinct_dict_keys_set)
  ultimately show ?thesis unfolding sched_inv_def by blast
qed

lemma keeps_run_if_relevant:
  assumes "allow_multiple \<Longrightarrow> multiple_name (process_name src runner)"
  shows "keeps_inv (run_if_relevant now src runner timer allow_multiple)"
  using assms start_process_inv by (auto simp: keeps_inv_def run_if_relevant_def Let_def)

lemma keeps_run_single [keeps_intros]: "keeps_inv (run_if_relevant now src runner timer False)"
  by (rule keeps_run_if_relevant) simp

lemma keeps_run_nrtm4 [keeps_intros]: "keeps_inv (run_if_relevant now src ''NRTM4Server'' timer True)"
  by (rule keeps_run_if_relevant)
     (auto simp: multiple_name_def process_name_def split: option.splits)

lemma keeps_scopefilter [keeps_intros]: "keeps_inv (check_scopefilter_change gs)"
  by (auto simp: keeps_inv_def check_scopefilter_change_def sched_inv_def Let_def split: sum.splits)

lemma keeps_run_source [keeps_intros]: "keeps_inv (run_source gs now src)"
  unfolding run_source_def Let_def by (intro keeps_intros)

lemma keeps_run_sources [keeps_intros]: "keeps_inv (run_sources gs now srcs k)"
  by (induction srcs arbitrary: k) (simp_all add: keeps_sret keeps_sbind keeps_run_source)

lemma keeps_sched_run: "keeps_inv (sched_run gs now)"
  unfolding sched_run_def by (intro keeps_intros)

lemma sched_step_inv: "sched_step s s' \<Longrightarrow> sched_inv s \<Longrightarrow> sched_inv s'"
proof (induction rule: sched_step.induct)
  case (step_run gs now s r s')
  with keeps_sched_run show ?case unfolding keeps_inv_def by (metis snd_conv)
next
  case (step_exit s pid)
  then show ?case by (auto simp: sched_inv_def)
next
  case (step_reap s)
  note inv = step_reap
  have "dict_get (filter (\<lambda>(n, pid). pid \<in> set (alive s)) (processes s)) n = Some pid"
    if "dict_get (processes s) n = Some pid" "pid \<in> set (alive s)" for n pid
    using inv that unfolding sched_inv_def dict_get_def dict_keys_def
    by (metis (mono_tags, lifting) case_prodI distinct_map_filter map_of_SomeD map_of_is_SomeI mem_Collect_eq set_filter)
  with inv show ?case
    by (fastforce simp: sched_inv_def update_process_state_def dict_keys_def distinct_map_filter)
qed

lemma sched_reachable_inv: "sched_reachable s \<Longrightarrow> sched_inv s"
proof (induction rule: sched_reachable.induct)
  case reach_init
  show ?case by (simp add: sched_inv_def sched_init_def dict_keys_def)
next
  case (reach_step s s')
  then show ?case using sched_step_inv by blast
qed

text \<open>
  C19: scheduled processes are exclusive. In every state the scheduler can reach, whatever the
  settings and times of its runs and however its processes end, no two processes that are
  alive have the same name, except NRTMv4 server processes, which may overlap.
\<close>

theorem scheduler_exclusive:
  assumes "sched_reachable s" "(p, n) \<in> set (started s)" "(q, n) \<in> set (started s)"
    and "p \<in> set (alive s)" "q \<in> set (alive s)" "\<not> py_startswith n ''NRTM4Server''"
  shows "p = q"
proof -
  have "dict_get (processes s) n = Some p" "dict_get (processes s) n = Some q"
    using sched_reachable_inv [OF assms(1)] assms(2-6) unfolding sched_inv_def multiple_name_def by blast+
  then show ?thesis by simp
qed

definition sched_example :: settings where
  "sched_example n = (if n = ''rpki.roa_source'' then Some (CStr ''x'') else if n = ''rpki.roa_import_timer'' then Some (CInt 5) else None)"

definition sched_example_state :: sched where
  "sched_example_state = start_process ''ROAImportRunner'' 6000000 sched_init"

theorem scheduler_exclusive_witness:
  "sched_reachable sched_example_state \<and>
   {p. (p, ''ROAImportRunner'') \<in> set (started sched_example_state) \<and> p \<in> set (alive sched_example_state)} = {0}"
proof -
  have run: "sched_run sched_example 6000000 sched_init = (Inr (), sched_example_state)"
    by code_simp
  have r: "sched_reachable sched_example_state"
    using reach_step [OF reach_init step_run [OF run]] .
  have m: "(0, ''ROAImportRunner'') \<in> set (started sched_example_state)" "0 \<in> set (alive sched_example_state)"
    by (simp_all add: sched_example_state_def start_process_def sched_init_def Let_def)
  have "\<not> py_startswith ''ROAImportRunner'' ''NRTM4Server''" by simp
  then show ?thesis using r m scheduler_exclusive [OF r _ m(1) _ m(2)] by blast
qed

section \<open>The limit on simultaneous runs\<close>

text \<open>
  A source whose export was started does not count towards the limit when its NRTMv4 server was
  not started in the same run, since the second result overwrites the first: two sources are
  then started in one run, where the limit is one.
\<close>

definition export_nrtm4 :: settings where
  "export_nrtm4 n = (if n = ''sources'' then Some (CDict [(''A'', CDict []), (''B'', CDict [])])
     else if n \<in> {''sources.A.export_destination'', ''sources.B.export_destination''} then Some (CStr ''d'')
     else if n = ''sources.A.nrtm4_server_private_key'' then Some (CStr ''k'')
     else if n \<in> {''sources.A.export_timer'', ''sources.B.export_timer''} then Some (CInt 1) else None)"

lemma export_started_not_counted:
  "map snd (started (snd (sched_run export_nrtm4 6000000 sched_init))) = [''SourceExportRunner-A'', ''SourceExportRunner-B'']"
  by code_simp

end
