(* ===== verification/Route_Pref.thy ===== *)
theory Route_Pref
  imports Conf Ext_Libs Status_Scan
begin

text \<open>
  \<^verbatim>\<open>irrd/routepref\<close>: route object preference. The validator stores the routes of sources with a
  preference in a radix tree and suppresses a route that overlaps one of a source with a
  higher preference. The tree is that of py-radix, a record of functions the definitions take as
  an argument: a node is identified by its key (address and length), and the \<open>data\<close> of the
  nodes is a dictionary of the validator. Queries to the database are functions to rows.
\<close>

section \<open>Status and rows\<close>

datatype route_preference_status = pref_visible | pref_suppressed

definition routepref_is_visible :: "route_preference_status \<Rightarrow> bool" where
  "routepref_is_visible s \<longleftrightarrow> s = pref_visible"

record pref_row =
  pf_prefix :: string
  pf_source :: string
  pf_pk :: string
  pf_status :: route_preference_status

section \<open>The radix tree\<close>

record ('k, 't) radix_lib =
  radix_empty :: 't
  radix_add :: "string \<Rightarrow> 't \<Rightarrow> ('k \<times> 't) res"
  radix_nodes :: "'t \<Rightarrow> 'k list"
  search_covered :: "'t \<Rightarrow> 'k \<Rightarrow> 'k list"
  search_covering :: "'t \<Rightarrow> 'k \<Rightarrow> 'k list"

text \<open>
  What py-radix documents: adding a prefix gives the node of its address and length, a node that
  exists already is kept, and the searches give the nodes inside and around a prefix, itself
  included.
\<close>

definition radix_ok :: "('k, 't) radix_lib \<Rightarrow> (string \<Rightarrow> 'k) \<Rightarrow> ('k \<Rightarrow> 'k \<Rightarrow> bool) \<Rightarrow> bool" where
  "radix_ok R key covers \<longleftrightarrow>
     radix_nodes R (radix_empty R) = [] \<and>
     (\<forall>p t k t'. radix_add R p t = Inr (k, t') \<longrightarrow>
        k = key p \<and> set (radix_nodes R t') = insert k (set (radix_nodes R t))) \<and>
     (\<forall>t k. set (search_covered R t k) = {k' \<in> set (radix_nodes R t). covers k k'}) \<and>
     (\<forall>t k. set (search_covering R t k) = {k' \<in> set (radix_nodes R t). covers k' k})"

section \<open>The validator\<close>

type_synonym pref_data = "(string, int \<times> route_preference_status) dict"

record ('k, 't) pref_validator =
  source_preferences :: "(string, int) dict"
  max_preference :: "int option"
  rtree :: 't
  node_data :: "('k, pref_data) dict"
  excluded_currently_suppressed :: "string list"

fun source_preferences_of :: "(string \<times> cval) list \<Rightarrow> (string, int) dict res" where
  "source_preferences_of [] = Inr []"
| "source_preferences_of ((source_name, source_data) # rest) =
     (let v = cval_get source_data ''route_object_preference''
      in if v = CNull then source_preferences_of rest
         else rbind (cval_int v) (\<lambda>p.
                rbind (source_preferences_of rest) (\<lambda>prefs. Inr ((source_name, p) # prefs))))"

definition max_of :: "int list \<Rightarrow> int option" where
  "max_of ps = (case ps of [] \<Rightarrow> None | p # rest \<Rightarrow> Some (foldl max p rest))"

definition data_of :: "('k, pref_data) dict \<Rightarrow> 'k \<Rightarrow> pref_data" where
  "data_of d k = (case dict_get d k of None \<Rightarrow> [] | Some x \<Rightarrow> x)"

definition add_route :: "('k, 't) radix_lib \<Rightarrow> pref_row \<Rightarrow> ('k, 't) pref_validator \<Rightarrow> ('k, 't) pref_validator res" where
  "add_route R r V =
     (case dict_get (source_preferences V) (pf_source r) of
        None \<Rightarrow>
          Inr (if pf_status r \<noteq> pref_visible
               then V\<lparr>excluded_currently_suppressed := excluded_currently_suppressed V @ [pf_pk r]\<rparr>
               else V)
      | Some preference \<Rightarrow>
          rbind (radix_add R (pf_prefix r) (rtree V)) (\<lambda>(k, t).
            Inr (V\<lparr>rtree := t,
                   node_data := dict_set k (dict_set (pf_pk r) (preference, pf_status r) (data_of (node_data V) k))
                                  (node_data V)\<rparr>)))"

fun build_tree :: "('k, 't) radix_lib \<Rightarrow> pref_row list \<Rightarrow> ('k, 't) pref_validator \<Rightarrow> ('k, 't) pref_validator res" where
  "build_tree R [] V = Inr V"
| "build_tree R (r # rs) V = rbind (add_route R r V) (build_tree R rs)"

definition RoutePreferenceValidator :: "('k, 't) radix_lib \<Rightarrow> settings \<Rightarrow> pref_row list \<Rightarrow> ('k, 't) pref_validator res" where
  "RoutePreferenceValidator R gs rows =
     rbind (source_preferences_of (cval_items (get_setting gs ''sources''))) (\<lambda>prefs.
       build_tree R rows
         \<lparr>source_preferences = prefs, max_preference = max_of (map snd prefs), rtree = radix_empty R,
          node_data = [], excluded_currently_suppressed = []\<rparr>)"

definition evaluate_route :: "int option \<Rightarrow> int \<Rightarrow> pref_data list \<Rightarrow> route_preference_status" where
  "evaluate_route max_pref route_preference overlapping =
     (if Some route_preference = max_pref then pref_visible
      else if list_ex (\<lambda>d. list_ex (\<lambda>(pk, p, s). route_preference < p) d) overlapping then pref_suppressed
      else pref_visible)"

fun node_changes :: "int option \<Rightarrow> pref_data list \<Rightarrow> pref_data
    \<Rightarrow> ((string \<times> int \<times> route_preference_status) \<times> route_preference_status) list" where
  "node_changes max_pref overlapping [] = []"
| "node_changes max_pref overlapping (e # es) =
     (let new = evaluate_route max_pref (fst (snd e)) overlapping
      in if new \<noteq> snd (snd e) then (e, new) # node_changes max_pref overlapping es
         else node_changes max_pref overlapping es)"

definition overlapping_data :: "('k, 't) radix_lib \<Rightarrow> ('k, 't) pref_validator \<Rightarrow> 'k \<Rightarrow> pref_data list" where
  "overlapping_data R V k =
     map (data_of (node_data V)) (search_covered R (rtree V) k @ search_covering R (rtree V) k)"

definition known_changes :: "('k, 't) radix_lib \<Rightarrow> ('k, 't) pref_validator
    \<Rightarrow> ((string \<times> int \<times> route_preference_status) \<times> route_preference_status) list" where
  "known_changes R V =
     concat (map (\<lambda>k. node_changes (max_preference V) (overlapping_data R V k) (data_of (node_data V) k))
       (radix_nodes R (rtree V)))"

definition validate_known_routes :: "('k, 't) radix_lib \<Rightarrow> ('k, 't) pref_validator \<Rightarrow> string list \<times> string list" where
  "validate_known_routes R V =
     (if source_preferences V = [] then ([], [])
      else (map (\<lambda>c. fst (fst c)) (filter (\<lambda>c. snd c = pref_visible) (known_changes R V)),
            map (\<lambda>c. fst (fst c)) (filter (\<lambda>c. snd c = pref_suppressed) (known_changes R V))))"

section \<open>Updating the database\<close>

text \<open>
  The rows of all routes, or those that \<open>ip_any\<close> finds for each prefix. No prefixes and an
  empty list of prefixes are treated alike. The result is the primary keys that become
  visible and suppressed, or nothing when no source has a preference that is true.
\<close>

definition MAX_FILTER_PREFIX_LEN :: int where
  "MAX_FILTER_PREFIX_LEN = 5000"

definition build_validator :: "('k, 't) radix_lib \<Rightarrow> settings \<Rightarrow> pref_row list \<Rightarrow> ('ip \<Rightarrow> pref_row list) \<Rightarrow> 'ip list
    \<Rightarrow> ('k, 't) pref_validator res" where
  "build_validator R gs all_routes ip_any filter_prefixes =
     RoutePreferenceValidator R gs
       (if filter_prefixes = [] then all_routes else concat (map ip_any filter_prefixes))"

definition update_route_preference_status :: "('k, 't) radix_lib \<Rightarrow> settings \<Rightarrow> pref_row list \<Rightarrow> ('ip \<Rightarrow> pref_row list)
    \<Rightarrow> 'ip list \<Rightarrow> (string list \<times> string list) option res" where
  "update_route_preference_status R gs all_routes ip_any filter_prefixes =
     (if \<not> list_ex (\<lambda>(n, s). truthy (cval_get s ''route_object_preference'')) (cval_items (get_setting gs ''sources''))
      then Inr None
      else rbind (build_validator R gs all_routes ip_any
                    (if MAX_FILTER_PREFIX_LEN < int (length filter_prefixes) then [] else filter_prefixes)) (\<lambda>V.
             (case validate_known_routes R V of (to_be_visible, to_be_suppressed) \<Rightarrow>
                Inr (Some (to_be_visible @ excluded_currently_suppressed V, to_be_suppressed)))))"

section \<open>The tree holds the rows\<close>

definition row_preference :: "(string, int) dict \<Rightarrow> pref_row \<Rightarrow> int option" where
  "row_preference prefs r = dict_get prefs (pf_source r)"

text \<open>The validator stores exactly a set of rows.\<close>

definition stores :: "('k, 't) radix_lib \<Rightarrow> (string \<Rightarrow> 'k) \<Rightarrow> pref_row set \<Rightarrow> ('k, 't) pref_validator \<Rightarrow> bool" where
  "stores R key rows V \<longleftrightarrow>
     set (radix_nodes R (rtree V)) = {key (pf_prefix r) | r. r \<in> rows \<and> row_preference (source_preferences V) r \<noteq> None} \<and>
     (\<forall>k. distinct (dict_keys (data_of (node_data V) k))) \<and>
     (\<forall>k pk p s. dict_get (data_of (node_data V) k) pk = Some (p, s) \<longleftrightarrow>
        (\<exists>r \<in> rows. pf_pk r = pk \<and> pf_status r = s \<and> key (pf_prefix r) = k \<and>
           row_preference (source_preferences V) r = Some p)) \<and>
     set (excluded_currently_suppressed V)
       = {pf_pk r | r. r \<in> rows \<and> row_preference (source_preferences V) r = None \<and> pf_status r \<noteq> pref_visible}"

lemma data_of_set: "data_of (dict_set k x d) k' = (if k' = k then x else data_of d k')"
  by (simp add: data_of_def)

lemma add_route_stores:
  assumes ok: "radix_ok R key covers" and st: "stores R key rows V" and add: "add_route R r V = Inr V'"
    and pk: "\<And>r'. r' \<in> rows \<Longrightarrow> pf_pk r' = pf_pk r \<Longrightarrow> r' = r"
  shows "stores R key (insert r rows) V' \<and> source_preferences V' = source_preferences V \<and>
    max_preference V' = max_preference V"
proof (cases "dict_get (source_preferences V) (pf_source r)")
  case None
  have V': "V' = (if pf_status r \<noteq> pref_visible
      then V\<lparr>excluded_currently_suppressed := excluded_currently_suppressed V @ [pf_pk r]\<rparr> else V)"
    using add None by (simp add: add_route_def)
  show ?thesis using st None unfolding V' stores_def by (auto simp: row_preference_def)
next
  case (Some p)
  then obtain k t where a: "radix_add R (pf_prefix r) (rtree V) = Inr (k, t)"
    and V': "V' = V\<lparr>rtree := t, node_data := dict_set k (dict_set (pf_pk r) (p, pf_status r)
        (data_of (node_data V) k)) (node_data V)\<rparr>"
    using add by (auto simp: add_route_def rbind_Inr_conv)
  have k: "k = key (pf_prefix r)" and nodes: "set (radix_nodes R t) = insert k (set (radix_nodes R (rtree V)))"
    using ok a unfolding radix_ok_def by blast+
  have 1: "set (radix_nodes R (rtree V'))
      = {key (pf_prefix r') | r'. r' \<in> insert r rows \<and> row_preference (source_preferences V') r' \<noteq> None}"
    using st Some unfolding stores_def V' by (auto simp: nodes k row_preference_def)
  have 2: "distinct (dict_keys (data_of (node_data V') k'))" for k'
    using st unfolding stores_def V' by (simp add: data_of_set distinct_dict_keys_set)
  have 3: "dict_get (data_of (node_data V') k') pk' = Some (p', s) \<longleftrightarrow>
      (\<exists>r' \<in> insert r rows. pf_pk r' = pk' \<and> pf_status r' = s \<and> key (pf_prefix r') = k' \<and>
         row_preference (source_preferences V') r' = Some p')" for k' pk' p' s
  proof (cases "pk' = pf_pk r \<and> k' = k")
    case True
    with Some show ?thesis by (auto simp: V' data_of_set row_preference_def k dest: pk)
  next
    case False
    then have "dict_get (data_of (node_data V') k') pk' = dict_get (data_of (node_data V) k') pk'"
      by (auto simp: V' data_of_set)
    with st False show ?thesis unfolding stores_def by (auto simp: V' k)
  qed
  have 4: "set (excluded_currently_suppressed V')
       = {pf_pk r' | r'. r' \<in> insert r rows \<and> row_preference (source_preferences V') r' = None \<and> pf_status r' \<noteq> pref_visible}"
    using st Some unfolding stores_def V' by (auto simp: row_preference_def)
  have "stores R key (insert r rows) V'"
    unfolding stores_def using 1 2 3 4 by blast
  then show ?thesis by (simp add: V')
qed

lemma build_tree_stores:
  assumes "radix_ok R key covers" "stores R key rows V" "build_tree R rs V = Inr V'"
    and "\<And>r r'. r \<in> rows \<union> set rs \<Longrightarrow> r' \<in> rows \<union> set rs \<Longrightarrow> pf_pk r' = pf_pk r \<Longrightarrow> r' = r"
  shows "stores R key (rows \<union> set rs) V' \<and> source_preferences V' = source_preferences V \<and>
    max_preference V' = max_preference V"
  using assms(2-)
proof (induction rs arbitrary: rows V)
  case (Cons r rs)
  then obtain V1 where V1: "add_route R r V = Inr V1" "build_tree R rs V1 = Inr V'"
    by (auto simp: rbind_Inr_conv)
  have add: "stores R key (insert r rows) V1 \<and> source_preferences V1 = source_preferences V \<and>
      max_preference V1 = max_preference V"
    by (rule add_route_stores [OF assms(1) Cons.prems(1) V1(1)]) (use Cons.prems(3) in auto)
  have "stores R key (insert r rows \<union> set rs) V' \<and> source_preferences V' = source_preferences V1 \<and>
      max_preference V' = max_preference V1"
    by (rule Cons.IH) (use add V1(2) Cons.prems(3) in auto)
  with add show ?case by simp
qed simp

lemma validator_stores:
  assumes "radix_ok R key covers" "RoutePreferenceValidator R gs rows = Inr V"
    and "inj_on pf_pk (set rows)"
  shows "stores R key (set rows) V"
    "source_preferences_of (cval_items (get_setting gs ''sources'')) = Inr (source_preferences V)"
    "max_preference V = max_of (map snd (source_preferences V))"
proof -
  obtain prefs where p: "source_preferences_of (cval_items (get_setting gs ''sources'')) = Inr prefs"
    and b: "build_tree R rows \<lparr>source_preferences = prefs, max_preference = max_of (map snd prefs), rtree = radix_empty R,
          node_data = [], excluded_currently_suppressed = []\<rparr> = Inr V"
    using assms(2) by (auto simp: RoutePreferenceValidator_def rbind_Inr_conv)
  have "stores R key {} \<lparr>source_preferences = prefs, max_preference = max_of (map snd prefs), rtree = radix_empty R,
          node_data = [], excluded_currently_suppressed = []\<rparr>"
    using assms(1) by (simp add: stores_def radix_ok_def data_of_def dict_keys_def)
  from build_tree_stores [OF assms(1) this b] assms(3) [unfolded inj_on_def]
  show "stores R key (set rows) V"
    "source_preferences_of (cval_items (get_setting gs ''sources'')) = Inr (source_preferences V)"
    "max_preference V = max_of (map snd (source_preferences V))"
    using p by auto
qed

section \<open>What is suppressed\<close>

lemma foldl_max: "foldl max (p::int) ps \<in> set (p # ps) \<and> (\<forall>q \<in> set (p # ps). q \<le> foldl max p ps)"
proof (induction ps arbitrary: p)
  case (Cons q ps)
  show ?case using Cons.IH [of "max p q"] by (auto simp: max_def split: if_splits)
qed simp

lemma max_of_ge: "max_of ps = Some m \<Longrightarrow> q \<in> set ps \<Longrightarrow> q \<le> m"
  using foldl_max by (auto simp: max_of_def split: list.splits)

interpretation pref_scan: status_scan "\<lambda>es. Inr (node_changes m overlapping es)" "\<lambda>e. False"
    "\<lambda>e. Inr (evaluate_route m (fst (snd e)) overlapping)" "\<lambda>e. snd (snd e)"
  for m overlapping
  by unfold_locales (simp_all add: Let_def)

text \<open>A row with a preference that overlaps a row of a higher preference.\<close>

definition outranked :: "(string, int) dict \<Rightarrow> (string \<Rightarrow> 'k) \<Rightarrow> ('k \<Rightarrow> 'k \<Rightarrow> bool) \<Rightarrow> pref_row list \<Rightarrow> pref_row \<Rightarrow> bool" where
  "outranked prefs key covers rows r \<longleftrightarrow>
     (\<exists>p. row_preference prefs r = Some p \<and>
        (\<exists>r' \<in> set rows. \<exists>p'. row_preference prefs r' = Some p' \<and> p < p' \<and>
           (covers (key (pf_prefix r)) (key (pf_prefix r')) \<or> covers (key (pf_prefix r')) (key (pf_prefix r)))))"

lemma evaluate_route_outranked:
  assumes ok: "radix_ok R key covers" and st: "stores R key (set rows) V"
    and m: "max_preference V = max_of (map snd (source_preferences V))"
    and r: "row_preference (source_preferences V) r = Some p"
  shows "evaluate_route (max_preference V) p (overlapping_data R V (key (pf_prefix r)))
    = (if outranked (source_preferences V) key covers rows r then pref_suppressed else pref_visible)"
proof -
  let ?k = "key (pf_prefix r)" and ?P = "row_preference (source_preferences V)"
  have nodes: "set (search_covered R (rtree V) ?k @ search_covering R (rtree V) ?k)
      = {k' \<in> set (radix_nodes R (rtree V)). covers ?k k' \<or> covers k' ?k}"
    using ok by (auto simp: radix_ok_def)
  have "(\<exists>k' \<in> set (search_covered R (rtree V) ?k @ search_covering R (rtree V) ?k).
        \<exists>(pk, p', s) \<in> set (data_of (node_data V) k'). p < p')
      \<longleftrightarrow> (\<exists>r' \<in> set rows. \<exists>p'. ?P r' = Some p' \<and> p < p' \<and> (covers ?k (key (pf_prefix r')) \<or> covers (key (pf_prefix r')) ?k))"
    (is "?L \<longleftrightarrow> ?R")
  proof
    assume ?L
    then obtain k' pk p' s where k': "k' \<in> set (radix_nodes R (rtree V))" "covers ?k k' \<or> covers k' ?k"
      "(pk, p', s) \<in> set (data_of (node_data V) k')" "p < p'" unfolding nodes by auto
    then have "dict_get (data_of (node_data V) k') pk = Some (p', s)"
      using st dict_get_iff unfolding stores_def by metis
    then obtain r' where "r' \<in> set rows" "key (pf_prefix r') = k'" "?P r' = Some p'"
      using st unfolding stores_def by blast
    with k' show ?R by blast
  next
    assume ?R
    then obtain r' p' where r': "r' \<in> set rows" "?P r' = Some p'" "p < p'"
      "covers ?k (key (pf_prefix r')) \<or> covers (key (pf_prefix r')) ?k" by blast
    then have "dict_get (data_of (node_data V) (key (pf_prefix r'))) (pf_pk r') = Some (p', pf_status r')"
      using st unfolding stores_def by blast
    then have "(pf_pk r', p', pf_status r') \<in> set (data_of (node_data V) (key (pf_prefix r')))"
      by (rule dict_get_in)
    moreover have "key (pf_prefix r') \<in> set (radix_nodes R (rtree V))"
      using st r' unfolding stores_def by auto
    ultimately show ?L unfolding nodes using r' by blast
  qed
  then have ov: "list_ex (\<lambda>d. list_ex (\<lambda>(pk, p', s). p < p') d) (overlapping_data R V ?k)
      \<longleftrightarrow> outranked (source_preferences V) key covers rows r"
    unfolding outranked_def overlapping_data_def list_ex_iff set_map bex_simps using r by auto
  have "\<not> outranked (source_preferences V) key covers rows r" if "max_preference V = Some p"
  proof -
    have "p' \<le> p" if "?P r' = Some p'" for r' p'
      using max_of_ge [of "map snd (source_preferences V)" p p'] \<open>max_preference V = Some p\<close> m
        dict_get_in [OF that [unfolded row_preference_def]] by force
    then show ?thesis using r unfolding outranked_def by fastforce
  qed
  then show ?thesis using ov by (auto simp: evaluate_route_def)
qed

lemma known_changes_exact:
  assumes ok: "radix_ok R key covers" and st: "stores R key (set rows) V"
    and m: "max_preference V = max_of (map snd (source_preferences V))"
  shows "((pk, p, s), new) \<in> set (known_changes R V) \<longleftrightarrow>
    (\<exists>r \<in> set rows. pf_pk r = pk \<and> pf_status r = s \<and> row_preference (source_preferences V) r = Some p \<and> new \<noteq> s \<and>
       new = (if outranked (source_preferences V) key covers rows r then pref_suppressed else pref_visible))"
    (is "?L \<longleftrightarrow> ?R")
proof -
  have node: "((pk, p, s), new) \<in> set (node_changes (max_preference V) (overlapping_data R V k) (data_of (node_data V) k))
      \<longleftrightarrow> (\<exists>r \<in> set rows. pf_pk r = pk \<and> pf_status r = s \<and> key (pf_prefix r) = k \<and>
            row_preference (source_preferences V) r = Some p \<and> new \<noteq> s \<and>
            new = (if outranked (source_preferences V) key covers rows r then pref_suppressed else pref_visible))" for k
  proof -
    have "((pk, p, s), new) \<in> set (node_changes (max_preference V) (overlapping_data R V k) (data_of (node_data V) k))
      \<longleftrightarrow> dict_get (data_of (node_data V) k) pk = Some (p, s) \<and> new \<noteq> s \<and>
          evaluate_route (max_preference V) p (overlapping_data R V k) = new"
      using pref_scan.scan_exact [OF refl, of "(pk, p, s)" new "max_preference V" "overlapping_data R V k" "data_of (node_data V) k"]
        dict_get_iff [of "data_of (node_data V) k" pk "(p, s)"] st unfolding stores_def by auto
    also have "\<dots> \<longleftrightarrow> (\<exists>r \<in> set rows. pf_pk r = pk \<and> pf_status r = s \<and> key (pf_prefix r) = k \<and>
            row_preference (source_preferences V) r = Some p) \<and> new \<noteq> s \<and>
          evaluate_route (max_preference V) p (overlapping_data R V k) = new"
      using st unfolding stores_def by blast
    finally show ?thesis using evaluate_route_outranked [OF ok st m] by metis
  qed
  have "?L \<longleftrightarrow> (\<exists>k \<in> set (radix_nodes R (rtree V)).
      ((pk, p, s), new) \<in> set (node_changes (max_preference V) (overlapping_data R V k) (data_of (node_data V) k)))"
    by (simp add: known_changes_def)
  also have "\<dots> \<longleftrightarrow> ?R" unfolding node using st unfolding stores_def by (auto 4 4)
  finally show ?thesis .
qed

lemma pref_rows_exact:
  assumes "radix_ok R key covers" "RoutePreferenceValidator R gs rows = Inr V"
    and "inj_on pf_pk (set rows)"
    and "validate_known_routes R V = (visible, suppressed)"
    and "source_preferences_of (cval_items (get_setting gs ''sources'')) = Inr prefs"
  shows "set (visible @ excluded_currently_suppressed V)
      = {pf_pk r | r. r \<in> set rows \<and> pf_status r = pref_suppressed \<and> \<not> outranked prefs key covers rows r}"
    and "set suppressed = {pf_pk r | r. r \<in> set rows \<and> pf_status r = pref_visible \<and> outranked prefs key covers rows r}"
proof -
  note st = validator_stores [OF assms(1-3)]
  have prefs: "source_preferences V = prefs" using st(2) assms(5) by simp
  define target where "target r = (if outranked prefs key covers rows r then pref_suppressed else pref_visible)" for r
  note changes = known_changes_exact [OF assms(1) st(1) st(3), unfolded prefs, folded target_def]
  have noneq: "s \<noteq> pref_visible \<longleftrightarrow> s = pref_suppressed" for s by (cases s) auto
  have part: "set (map (\<lambda>c. fst (fst c)) (filter (\<lambda>c. snd c = new) (known_changes R V)))
      = {pf_pk r | r. r \<in> set rows \<and> pf_status r \<noteq> new \<and> row_preference prefs r \<noteq> None \<and>
          new = target r}" (is "?A = ?B") for new
  proof (rule set_eqI)
    fix pk
    have "pk \<in> ?A \<longleftrightarrow> (\<exists>c \<in> set (known_changes R V). fst (fst c) = pk \<and> snd c = new)" by auto
    also have "\<dots> \<longleftrightarrow> (\<exists>p s. ((pk, p, s), new) \<in> set (known_changes R V))"
      by (metis fst_conv prod.collapse snd_conv)
    also have "\<dots> \<longleftrightarrow> pk \<in> ?B" unfolding changes mem_Collect_eq not_None_eq by auto metis
    finally show "pk \<in> ?A \<longleftrightarrow> pk \<in> ?B" .
  qed
  have empty: "known_changes R V = []" if "prefs = []"
  proof -
    have "set (radix_nodes R (rtree V)) = {}"
      using st(1) that prefs by (simp add: stores_def row_preference_def)
    then show ?thesis by (simp add: known_changes_def)
  qed
  have vs: "visible = map (\<lambda>c. fst (fst c)) (filter (\<lambda>c. snd c = pref_visible) (known_changes R V))"
    "suppressed = map (\<lambda>c. fst (fst c)) (filter (\<lambda>c. snd c = pref_suppressed) (known_changes R V))"
    using assms(4) empty unfolding validate_known_routes_def prefs by (auto split: if_splits)
  have none: "\<not> outranked prefs key covers rows r" if "row_preference prefs r = None" for r
    using that by (simp add: outranked_def)
  have some: "row_preference prefs r \<noteq> None" if "outranked prefs key covers rows r" for r
    using that by (auto simp: outranked_def)
  have ex: "set (excluded_currently_suppressed V)
      = {pf_pk r | r. r \<in> set rows \<and> row_preference prefs r = None \<and> pf_status r \<noteq> pref_visible}"
    using st(1) unfolding stores_def prefs by blast
  show "set (visible @ excluded_currently_suppressed V)
      = {pf_pk r | r. r \<in> set rows \<and> pf_status r = pref_suppressed \<and> \<not> outranked prefs key covers rows r}"
    unfolding set_append ex unfolding vs part noneq target_def using none
    by (intro equalityI subsetI) (auto split: if_splits, metis)
  show "set suppressed = {pf_pk r | r. r \<in> set rows \<and> pf_status r = pref_visible \<and> outranked prefs key covers rows r}"
    unfolding vs part using some by (auto simp: target_def split: if_splits) (metis route_preference_status.exhaust)+
qed

lemma pref_update_rows:
  assumes "radix_ok R key covers"
    and "update_route_preference_status R gs rows ip_any [] = Inr (Some (visible, suppressed))"
    and "inj_on pf_pk (set rows)"
    and "source_preferences_of (cval_items (get_setting gs ''sources'')) = Inr prefs"
  shows "set visible = {pf_pk r | r. r \<in> set rows \<and> pf_status r = pref_suppressed \<and> \<not> outranked prefs key covers rows r}"
    and "set suppressed = {pf_pk r | r. r \<in> set rows \<and> pf_status r = pref_visible \<and> outranked prefs key covers rows r}"
proof -
  from assms(2) obtain V visible' where V: "RoutePreferenceValidator R gs rows = Inr V"
    "validate_known_routes R V = (visible', suppressed)" "visible = visible' @ excluded_currently_suppressed V"
    unfolding update_route_preference_status_def build_validator_def
    by (auto simp: rbind_Inr_conv split: if_splits) (metis (no_types, lifting) Inr_inject Pair_inject case_prod_conv option.inject surj_pair)
  show "set visible = {pf_pk r | r. r \<in> set rows \<and> pf_status r = pref_suppressed \<and> \<not> outranked prefs key covers rows r}"
    "set suppressed = {pf_pk r | r. r \<in> set rows \<and> pf_status r = pref_visible \<and> outranked prefs key covers rows r}"
    using pref_rows_exact [OF assms(1) V(1) assms(3) V(2) assms(4)] V(3) by simp_all
qed

text \<open>
  C12: a full update of the route preferences is exact. Given a radix tree that behaves as
  documented and rows identified by their primary keys, the rows that become suppressed are the
  visible ones that overlap a row of a source with a higher preference, and the rows that become
  visible are the suppressed ones without such a row, those of sources without a preference
  included.
\<close>

theorem route_preference_exact:
  assumes "radix_ok R key covers"
    and "update_route_preference_status R gs rows ip_any [] = Inr (Some (visible, suppressed))"
    and "inj_on pf_pk (set rows)"
    and "source_preferences_of (cval_items (get_setting gs ''sources'')) = Inr prefs"
  shows "set visible = {pf_pk r | r. r \<in> set rows \<and> pf_status r = pref_suppressed \<and> \<not> outranked prefs key covers rows r} \<and>
    set suppressed = {pf_pk r | r. r \<in> set rows \<and> pf_status r = pref_visible \<and> outranked prefs key covers rows r}"
  using pref_update_rows [OF assms(1-4)] by blast

text \<open>The rows after the database has stored an update.\<close>

definition apply_update :: "string list \<times> string list \<Rightarrow> pref_row \<Rightarrow> pref_row" where
  "apply_update u r =
     (if pf_pk r \<in> set (fst u) then r\<lparr>pf_status := pref_visible\<rparr>
      else if pf_pk r \<in> set (snd u) then r\<lparr>pf_status := pref_suppressed\<rparr> else r)"

lemma apply_update_same [simp]:
  "pf_pk (apply_update u r) = pf_pk r" "pf_prefix (apply_update u r) = pf_prefix r"
  "pf_source (apply_update u r) = pf_source r"
  by (simp_all add: apply_update_def)

lemma outranked_apply_update [simp]:
  "outranked prefs key covers (map (apply_update u) rows) (apply_update u r) = outranked prefs key covers rows r"
  by (simp add: outranked_def row_preference_def)


section \<open>An instance of the tree\<close>

text \<open>Nodes as bit strings of IPv4 prefixes, the tree as the list of its nodes.\<close>

definition byte_bits :: "int \<Rightarrow> bool list" where
  "byte_bits i = map (\<lambda>d. i div d mod 2 = 1) [128, 64, 32, 16, 8, 4, 2, 1]"

definition cidr_bits :: "string \<Rightarrow> bool list" where
  "cidr_bits s =
     (case py_split1 CHR ''/'' s of (a, l) \<Rightarrow>
        take (case py_int l of Some n \<Rightarrow> nat n | None \<Rightarrow> 32)
          (concat (map (\<lambda>x. case py_int x of Some n \<Rightarrow> byte_bits n | None \<Rightarrow> []) (py_split CHR ''.'' a))))"

fun bits_cover :: "bool list \<Rightarrow> bool list \<Rightarrow> bool" where
  "bits_cover [] k' = True"
| "bits_cover (b # k) [] = False"
| "bits_cover (b # k) (b' # k') = (b = b' \<and> bits_cover k k')"

definition radix_add_bits :: "string \<Rightarrow> bool list list \<Rightarrow> (bool list \<times> bool list list) res" where
  "radix_add_bits p t = Inr (cidr_bits p, if cidr_bits p \<in> set t then t else t @ [cidr_bits p])"

definition bits_radix :: "(bool list, bool list list) radix_lib" where
  "bits_radix = \<lparr>radix_empty = [], radix_add = radix_add_bits, radix_nodes = (\<lambda>t. t),
     search_covered = (\<lambda>t k. filter (bits_cover k) t), search_covering = (\<lambda>t k. filter (\<lambda>k'. bits_cover k' k) t)\<rparr>"

lemma bits_radix_ok: "radix_ok bits_radix cidr_bits bits_cover"
  by (auto simp: radix_ok_def bits_radix_def radix_add_bits_def split: if_splits)

text \<open>The example of the documentation: C, D, E and F are suppressed.\<close>

definition pref_example :: settings where
  "pref_example n = (if n = ''sources'' then Some (CDict
     [(''TEST-H1'', CDict [(''route_object_preference'', CInt 900)]),
      (''TEST-H2'', CDict [(''route_object_preference'', CInt 900)]),
      (''TEST-M'', CDict [(''route_object_preference'', CInt 200)]),
      (''TEST-L'', CDict [(''route_object_preference'', CInt 100)]),
      (''TEST-N'', CDict [])]) else None)"

definition pref_example_row :: "string \<Rightarrow> string \<Rightarrow> string \<Rightarrow> pref_row" where
  "pref_example_row pk src p = \<lparr>pf_prefix = p, pf_source = src, pf_pk = pk, pf_status = pref_visible\<rparr>"

definition pref_example_rows :: "pref_row list" where
  "pref_example_rows =
     [pref_example_row ''A'' ''TEST-H1'' ''192.0.0.0/23'', pref_example_row ''B'' ''TEST-H2'' ''192.0.0.0/24'',
      pref_example_row ''C'' ''TEST-L'' ''192.0.0.0/23'', pref_example_row ''D'' ''TEST-M'' ''192.0.0.0/22'',
      pref_example_row ''E'' ''TEST-M'' ''192.0.1.0/24'', pref_example_row ''F'' ''TEST-L'' ''192.0.3.0/24'',
      pref_example_row ''G'' ''TEST-N'' ''192.0.0.0/22'']"

definition pref_example_prefs :: "(string, int) dict" where
  "pref_example_prefs = [(''TEST-H1'', 900), (''TEST-H2'', 900), (''TEST-M'', 200), (''TEST-L'', 100)]"

theorem route_preference_exact_witness:
  "{''C'', ''D'', ''E'', ''F''} = {pf_pk r | r. r \<in> set pref_example_rows \<and> pf_status r = pref_visible \<and>
     outranked pref_example_prefs cidr_bits bits_cover pref_example_rows r}"
proof -
  have run: "update_route_preference_status bits_radix pref_example pref_example_rows (\<lambda>_::unit. []) []
      = Inr (Some ([], [''C'', ''D'', ''E'', ''F'']))"
    by code_simp
  have prefs: "source_preferences_of (cval_items (get_setting pref_example ''sources'')) = Inr pref_example_prefs"
    by code_simp
  have "distinct (map pf_pk pref_example_rows)" by code_simp
  then have pk: "inj_on pf_pk (set pref_example_rows)" by (simp add: distinct_map)
  from route_preference_exact [OF bits_radix_ok run pk prefs] show ?thesis by simp
qed

definition pref_small :: settings where
  "pref_small n = (if n = ''sources'' then Some (CDict
     [(''H'', CDict [(''route_object_preference'', CInt 9)]), (''L'', CDict [(''route_object_preference'', CInt 1)])])
     else None)"

definition pref_small_rows :: "pref_row list" where
  "pref_small_rows =
     [\<lparr>pf_prefix = ''8.0.0.0/5'', pf_source = ''L'', pf_pk = ''less'', pf_status = pref_suppressed\<rparr>,
      \<lparr>pf_prefix = ''8.0.0.0/8'', pf_source = ''H'', pf_pk = ''high'', pf_status = pref_visible\<rparr>,
      \<lparr>pf_prefix = ''9.0.0.0/8'', pf_source = ''L'', pf_pk = ''more'', pf_status = pref_visible\<rparr>]"

definition pref_wrong_rows :: "pref_row list" where
  "pref_wrong_rows = map (\<lambda>r. r\<lparr>pf_status := pref_visible\<rparr>) pref_small_rows"


section \<open>Partial updates\<close>

text \<open>
  An update for a changed prefix reads only the rows that overlap that prefix. A less specific row
  that is suppressed because of another more specific row is among them, that other row is not:
  the update makes it visible, where a full update keeps it suppressed.
\<close>

definition ip_any_of :: "pref_row list \<Rightarrow> string \<Rightarrow> pref_row list" where
  "ip_any_of rows p =
     filter (\<lambda>r. bits_cover (cidr_bits (pf_prefix r)) (cidr_bits p) \<or> bits_cover (cidr_bits p) (cidr_bits (pf_prefix r))) rows"

lemma partial_update_unsuppresses:
  "update_route_preference_status bits_radix pref_small pref_small_rows (ip_any_of pref_small_rows) [] = Inr (Some ([], []))"
  "update_route_preference_status bits_radix pref_small pref_small_rows (ip_any_of pref_small_rows) [''9.0.0.0/8'']
   = Inr (Some ([''less''], []))"
  by code_simp+

text \<open>
  Giving every source the preference 0 does not reset the rows: the update ends at once, since
  no preference is true.
\<close>

definition pref_zero :: settings where
  "pref_zero n = (if n = ''sources'' then Some (CDict
     [(''H'', CDict [(''route_object_preference'', CInt 0)]), (''L'', CDict [(''route_object_preference'', CInt 0)])])
     else None)"

lemma zero_preferences_not_reset:
  "update_route_preference_status bits_radix pref_zero pref_small_rows (ip_any_of pref_small_rows) [] = Inr None"
  by code_simp

end
