(* ===== verification/Mirror_Import.thy ===== *)
theory Mirror_Import
  imports RPSL_Object_Facts RPKI Scope_Filter
begin

text \<open>
  The bulk imports of \<^verbatim>\<open>irrd/mirroring/parsers.py\<close>: parsing and filtering of one object, the
  import of a file, and the import of a file as the new state of a source. What they ask of the
  database handler is a list of calls, in order; the queries they make are arguments. Logging is
  left out.
\<close>

section \<open>Calls to the database handler\<close>

datatype journal_entry_origin =
    origin_unknown | origin_mirror | origin_synthetic_nrtm | origin_pseudo_irr | origin_auth_change
  | origin_rpki_status | origin_scope_filter | origin_suspension | origin_route_preference

text \<open>An object with the status attributes that were set on it.\<close>

record 'ip checked_object =
  co_obj :: "'ip rpsl_object"
  co_rpki_status :: rpki_status
  co_scopefilter_status :: scopefilter_status

datatype 'ip db_call =
    UpsertObject "'ip checked_object" journal_entry_origin "int option"
  | DeleteObject string string string journal_entry_origin "int option"
  | RecordMirrorError string string
  | RecordSerialSeen string int
  | RecordSerialNewestMirror string int

fun is_write :: "'ip db_call \<Rightarrow> bool" where
  "is_write (UpsertObject obj orig serial) = True"
| "is_write (DeleteObject src rpsl_pk cls orig serial) = True"
| "is_write c = False"

section \<open>One object\<close>

record ('ip, 't) importer =
  im_source :: string
  direct_error_return :: bool
  roa_validator :: "'t bulk_validator option"
  scopefilter_validator :: "'ip scope_filter"
  strict_validation_key_cert :: bool
  object_class_filter :: "string list option"

record 'ip import_state =
  obj_parsed :: int
  obj_errors :: int
  obj_ignored_class :: int
  obj_unknown :: int
  unknown_object_classes :: "string set"
  calls :: "'ip db_call list"

definition import_init :: "'ip import_state" where
  "import_init = \<lparr>obj_parsed = 0, obj_errors = 0, obj_ignored_class = 0, obj_unknown = 0,
     unknown_object_classes = {}, calls = []\<rparr>"

definition MirrorFileImportParserBase :: "'ip extlib \<Rightarrow> settings \<Rightarrow> string \<Rightarrow> bool \<Rightarrow> 't bulk_validator option
    \<Rightarrow> ('ip, 't) importer res" where
  "MirrorFileImportParserBase L gs src direct roa =
     rbind (load_filters L gs) (\<lambda>F.
     rbind (get_object_class_filter_for_source gs src) (\<lambda>cf.
       Inr \<lparr>im_source = src, direct_error_return = direct, roa_validator = roa, scopefilter_validator = F,
            strict_validation_key_cert = truthy (source_setting gs src ''strict_import_keycert_objects''),
            object_class_filter = cf\<rparr>))"

definition add_call :: "'ip db_call \<Rightarrow> 'ip import_state \<Rightarrow> 'ip import_state" where
  "add_call c st = st\<lparr>calls := calls st @ [c]\<rparr>"

definition list_repr :: "string list \<Rightarrow> string" where
  "list_repr xs = ''['' @ py_join '', '' (map py_repr xs) @ '']''"

text \<open>A truthy list of classes that does not have the class.\<close>

definition class_filtered :: "string list option \<Rightarrow> string \<Rightarrow> bool" where
  "class_filtered cf cls = (case cf of None \<Rightarrow> False | Some cs \<Rightarrow> cs \<noteq> [] \<and> py_lower cls \<notin> set cs)"

text \<open>Parsing, a second time and strictly when the object is a key certificate to be loaded.\<close>

definition parse_possibly_strict :: "'ip extlib \<Rightarrow> settings \<Rightarrow> bool \<Rightarrow> string option \<Rightarrow> string \<Rightarrow> 'ip rpsl_object res" where
  "parse_possibly_strict L gs strict_key_cert dflt t =
     rbind (rpsl_object_from_text L gs t False dflt) (\<lambda>obj.
       if strict_key_cert \<and> rpsl_object_class (klass obj) = ''key-cert''
       then rpsl_object_from_text L gs t True dflt else Inr obj)"

text \<open>The class that an object of unknown class names, which its exception carries.\<close>

definition named_class :: "string \<Rightarrow> string" where
  "named_class t = py_strip (takeWhile (\<lambda>c. c \<noteq> CHR '':'') t)"

definition rpki_checked :: "'ip extlib \<Rightarrow> 't trie_lib \<Rightarrow> ('ip, 't) importer \<Rightarrow> string \<Rightarrow> 'ip rpsl_object \<Rightarrow> rpki_status res" where
  "rpki_checked L T P src obj =
     (case (roa_validator P, is_route (klass obj), prefix_length obj, asn_first obj) of
        (Some V, True, Some len, Some asn) \<Rightarrow>
          (if len \<noteq> 0 \<and> asn \<noteq> 0
           then bulk_validate_route L T V (case ip_first obj of Some ip \<Rightarrow> ip_str L ip | None \<Rightarrow> ''None'') len asn src
           else Inr RPKI_not_found)
      | _ \<Rightarrow> Inr RPKI_not_found)"

text \<open>
  The result is an exception, the message of an \<open>RPSLImportError\<close>, nothing, or the object to
  store. Only this method raises that exception, so that it is kept apart from the others.
\<close>

definition parse_object :: "'ip extlib \<Rightarrow> 't trie_lib \<Rightarrow> settings \<Rightarrow> ('ip, 't) importer \<Rightarrow> string \<Rightarrow> 'ip import_state
    \<Rightarrow> (string + 'ip checked_object option) res \<times> 'ip import_state" where
  "parse_object L T gs P rpsl_text st0 =
     (let st = st0\<lparr>obj_parsed := obj_parsed st0 + 1\<rparr>; t = py_strip rpsl_text
      in case parse_possibly_strict L gs (strict_validation_key_cert P) None t of
           Inl (UnknownRPSLObjectClassException m) \<Rightarrow>
             (if py_startswith (named_class t) ''*xx''
              then (Inr (Inr None), st\<lparr>obj_parsed := obj_parsed st - 1\<rparr>)
              else if direct_error_return P
              then (Inr (Inl (''Unknown object class: '' @ named_class t)), st)
              else (Inr (Inr None), st\<lparr>obj_unknown := obj_unknown st + 1,
                                 unknown_object_classes := insert (named_class t) (unknown_object_classes st)\<rparr>))
         | Inl e \<Rightarrow> (Inl e, st)
         | Inr obj \<Rightarrow>
             if errors (obj_messages obj) \<noteq> []
             then (let log_msg = ''Parsing errors: '' @ list_repr (errors (obj_messages obj))
                       @ '', original object text follows:'' @ [NL] @ rpsl_text
                   in if direct_error_return P then (Inr (Inl log_msg), st)
                      else (Inr (Inr None), add_call (RecordMirrorError (im_source P) log_msg)
                              (st\<lparr>obj_errors := obj_errors st + 1\<rparr>)))
             else (case source obj of
               Inl e \<Rightarrow> (Inl e, st)
             | Inr src \<Rightarrow>
                 if src \<noteq> im_source P
                 then (let msg = ''Invalid source '' @ src @ '' for object '' @ pk obj @ '', expected '' @ im_source P
                       in if direct_error_return P then (Inr (Inl msg), st)
                          else (Inr (Inr None), add_call (RecordMirrorError (im_source P) msg)
                                  (st\<lparr>obj_errors := obj_errors st + 1\<rparr>)))
                 else if class_filtered (object_class_filter P) (rpsl_object_class (klass obj))
                 then (Inr (Inr None), st\<lparr>obj_ignored_class := obj_ignored_class st + 1\<rparr>)
                 else (case rpki_checked L T P src obj of
                   Inl e \<Rightarrow> (Inl e, st)
                 | Inr rpki \<Rightarrow>
                     (case validate_rpsl_object L gs (scopefilter_validator P) obj of
                        Inl e \<Rightarrow> (Inl e, st)
                      | Inr (scope, msg) \<Rightarrow>
                          (Inr (Inr (Some \<lparr>co_obj = obj, co_rpki_status = rpki, co_scopefilter_status = scope\<rparr>)), st)))))"

section \<open>Import of a file\<close>

text \<open>
  The loop over the paragraphs, which hands every object to a function \<open>f\<close> on a state: the
  import stores it, the update collects it. The result is the message of an error to return at
  once, if any.
\<close>

fun import_paragraphs :: "'ip extlib \<Rightarrow> 't trie_lib \<Rightarrow> settings \<Rightarrow> ('ip, 't) importer
    \<Rightarrow> ('ip checked_object \<Rightarrow> 'ip import_state \<Rightarrow> 'ip import_state) \<Rightarrow> string list \<Rightarrow> 'ip import_state
    \<Rightarrow> (string option \<times> 'ip checked_object list) res \<times> 'ip import_state" where
  "import_paragraphs L T gs P f [] st = (Inr (None, []), st)"
| "import_paragraphs L T gs P f (p # ps) st =
     (case parse_object L T gs P p st of
        (Inr (Inl m), st') \<Rightarrow>
          (if direct_error_return P then (Inr (Some m, []), st') else import_paragraphs L T gs P f ps st')
      | (Inl e, st') \<Rightarrow> (Inl e, st')
      | (Inr (Inr None), st') \<Rightarrow> import_paragraphs L T gs P f ps st'
      | (Inr (Inr (Some obj)), st') \<Rightarrow>
          (case import_paragraphs L T gs P f ps (f obj st') of
             (Inl e, st'') \<Rightarrow> (Inl e, st'')
           | (Inr (m, objs), st'') \<Rightarrow> (Inr (m, obj # objs), st'')))"

definition upsert_mirror :: "'ip checked_object \<Rightarrow> 'ip import_state \<Rightarrow> 'ip import_state" where
  "upsert_mirror obj st = add_call (UpsertObject obj origin_mirror None) st"

definition file_run_import :: "'ip extlib \<Rightarrow> 't trie_lib \<Rightarrow> settings \<Rightarrow> ('ip, 't) importer \<Rightarrow> int option \<Rightarrow> string list
    \<Rightarrow> string option res \<times> 'ip import_state" where
  "file_run_import L T gs P serial file_lines =
     (case import_paragraphs L T gs P upsert_mirror (split_paragraphs_lines True file_lines) import_init of
        (Inl e, st) \<Rightarrow> (Inl e, st)
      | (Inr (Some m, objs), st) \<Rightarrow> (Inr (Some m), st)
      | (Inr (None, objs), st) \<Rightarrow>
          (Inr None, case serial of
             None \<Rightarrow> st
           | Some n \<Rightarrow> if n \<noteq> 0 then add_call (RecordSerialSeen (im_source P) n) st else st))"

definition obj_successful :: "'ip import_state \<Rightarrow> int" where
  "obj_successful st = obj_parsed st - obj_unknown st - obj_errors st - obj_ignored_class st"

section \<open>Import of a file as the new state of a source\<close>

definition obj_key :: "'ip checked_object \<Rightarrow> string \<times> string" where
  "obj_key o1 = (pk (co_obj o1), rpsl_object_class (klass (co_obj o1)))"

definition file_objs_by_pk :: "'ip checked_object list \<Rightarrow> (string \<times> string, 'ip checked_object) dict" where
  "file_objs_by_pk objs = fold (\<lambda>o1. dict_set (obj_key o1) o1) objs []"

definition synthetic_upsert :: "'ip checked_object \<Rightarrow> 'ip db_call" where
  "synthetic_upsert o1 = UpsertObject o1 origin_synthetic_nrtm None"

definition synthetic_delete :: "string \<Rightarrow> string \<times> string \<Rightarrow> 'ip db_call" where
  "synthetic_delete src k = DeleteObject src (fst k) (snd k) origin_synthetic_nrtm None"

text \<open>
  The comparison of the retained rows with the file; rows of the second query that the file does
  not have are skipped.
\<close>

fun modified_rows :: "settings \<Rightarrow> (string \<times> string, 'ip checked_object) dict \<Rightarrow> ((string \<times> string) \<times> string) list
    \<Rightarrow> unit res \<times> 'ip db_call list" where
  "modified_rows gs by_pk [] = (Inr (), [])"
| "modified_rows gs by_pk ((k, row_text) # rows) =
     (case dict_get by_pk k of
        None \<Rightarrow> modified_rows gs by_pk rows
      | Some file_obj \<Rightarrow>
          (case render_rpsl_text gs None (co_obj file_obj) of
             Inl e \<Rightarrow> (Inl e, [])
           | Inr text \<Rightarrow>
               (case modified_rows gs by_pk rows of (r, rest) \<Rightarrow>
                  (r, if text \<noteq> remove_last_modified row_text then synthetic_upsert file_obj # rest else rest))))"

definition update_calls :: "settings \<Rightarrow> string \<Rightarrow> 'ip checked_object list \<Rightarrow> (string \<times> string) list
    \<Rightarrow> ('ip db_call list \<Rightarrow> ((string \<times> string) \<times> string) list) \<Rightarrow> unit res \<times> 'ip db_call list" where
  "update_calls gs src objs current_keys query_rows =
     (let by_pk = file_objs_by_pk objs;
          inserts = map (\<lambda>e. synthetic_upsert (snd e)) (filter (\<lambda>e. fst e \<notin> set current_keys) by_pk);
          deletes = map (synthetic_delete src) (filter (\<lambda>k. k \<notin> set (dict_keys by_pk)) (remdups current_keys))
      in case modified_rows gs by_pk (query_rows (inserts @ deletes)) of
           (r, modified) \<Rightarrow> (r, inserts @ deletes @ modified))"

definition update_run_import :: "'ip extlib \<Rightarrow> 't trie_lib \<Rightarrow> settings \<Rightarrow> ('ip, 't) importer \<Rightarrow> string list
    \<Rightarrow> (string \<times> string) list \<Rightarrow> ('ip db_call list \<Rightarrow> ((string \<times> string) \<times> string) list)
    \<Rightarrow> string option res \<times> 'ip db_call list" where
  "update_run_import L T gs P file_lines current_keys query_rows =
     (case import_paragraphs L T gs P (\<lambda>o1 st. st) (split_paragraphs_lines True file_lines) import_init of
        (Inl e, st) \<Rightarrow> (Inl e, calls st)
      | (Inr (Some m, objs), st) \<Rightarrow> (Inr (Some m), calls st)
      | (Inr (None, objs), st) \<Rightarrow>
          (case update_calls gs (im_source P) objs current_keys query_rows of
             (r, cs) \<Rightarrow> (rbind r (\<lambda>_. Inr None), calls st @ cs)))"

end
