(* ===== verification/Mirror_Import_Facts.thy ===== *)
theory Mirror_Import_Facts
  imports Mirror_Import
begin

text \<open>
  What the imports of \<open>Mirror_Import\<close> guarantee: the counters and the stored objects of a file
  import, and the synchronisation of a source with a file.
\<close>

section \<open>Counters\<close>

definition writes :: "'ip import_state \<Rightarrow> 'ip db_call list" where
  "writes st = filter is_write (calls st)"

text \<open>An object that may be stored for the source.\<close>

definition acceptable :: "('ip, 't) importer \<Rightarrow> 'ip rpsl_object \<Rightarrow> bool" where
  "acceptable P obj \<longleftrightarrow> errors (obj_messages obj) = [] \<and> source obj = Inr (im_source P) \<and>
     \<not> class_filtered (object_class_filter P) (rpsl_object_class (klass obj))"

lemma add_call_simps [simp]:
  "calls (add_call c st) = calls st @ [c]" "obj_successful (add_call c st) = obj_successful st"
  by (simp_all add: add_call_def obj_successful_def)

lemma parse_object_none:
  "parse_object L T gs P p st = (Inr (Inr None), st') \<Longrightarrow> writes st' = writes st \<and> obj_successful st' = obj_successful st"
  by (auto simp: parse_object_def Let_def writes_def obj_successful_def add_call_def
      split: sum.splits exn.splits if_splits prod.splits)

lemma parse_object_some:
  "parse_object L T gs P p st = (Inr (Inr (Some obj)), st') \<Longrightarrow>
   writes st' = writes st \<and> obj_successful st' = obj_successful st + 1 \<and> acceptable P (co_obj obj)"
  by (auto simp: parse_object_def Let_def writes_def obj_successful_def acceptable_def
      split: sum.splits exn.splits if_splits prod.splits)

lemma parse_object_error:
  "parse_object L T gs P p st = (Inr (Inl m), st') \<Longrightarrow> direct_error_return P \<and> writes st' = writes st"
  by (auto simp: parse_object_def Let_def writes_def
      split: sum.splits exn.splits if_splits prod.splits)

lemma import_paragraphs_upserts:
  assumes "import_paragraphs L T gs P upsert_mirror ps st = (Inr (None, objs), st')"
  shows "writes st' = writes st @ map (\<lambda>o1. UpsertObject o1 origin_mirror None) objs \<and>
    obj_successful st' = obj_successful st + int (length objs) \<and> (\<forall>o1 \<in> set objs. acceptable P (co_obj o1))"
  using assms
proof (induction ps arbitrary: st objs)
  case (Cons p ps)
  obtain r st1 where p: "parse_object L T gs P p st = (r, st1)" by (cases "parse_object L T gs P p st")
  from Cons.prems consider (none) "r = Inr (Inr None)" | (some) obj where "r = Inr (Inr (Some obj))"
    using parse_object_error [of L T gs P p st _ st1] p by (auto split: sum.splits option.splits)
  then show ?case
  proof cases
    case none
    with Cons p have "writes st' = writes st1 @ map (\<lambda>o1. UpsertObject o1 origin_mirror None) objs \<and>
      obj_successful st' = obj_successful st1 + int (length objs) \<and> (\<forall>o1 \<in> set objs. acceptable P (co_obj o1))" by simp
    with parse_object_none [OF p [unfolded none]] show ?thesis by simp
  next
    case some
    with Cons.prems p obtain objs' where rest:
      "import_paragraphs L T gs P upsert_mirror ps (upsert_mirror obj st1) = (Inr (None, objs'), st')" "objs = obj # objs'"
      by (auto split: prod.splits sum.splits)
    have "writes (upsert_mirror obj st1) = writes st1 @ [UpsertObject obj origin_mirror None]"
      "obj_successful (upsert_mirror obj st1) = obj_successful st1"
      by (simp_all add: upsert_mirror_def writes_def)
    with Cons.IH [OF rest(1)] rest(2) parse_object_some [OF p [unfolded some]] show ?thesis by simp
  qed
qed simp

text \<open>
  C36: an import of a file that returns no error stores only objects that parsed without an error,
  that are of the source of the import and of a class that its filter admits, and the number it
  reports as inserted, which it computes from the counters of read and ignored objects, is the
  number of objects it stored.
\<close>

theorem file_import_counts:
  assumes "file_run_import L T gs P serial file_lines = (Inr None, st)"
  shows "obj_successful st = int (length (filter is_write (calls st))) \<and>
    (\<forall>c \<in> set (calls st). is_write c \<longrightarrow> (\<exists>o1. c = UpsertObject o1 origin_mirror None \<and>
       errors (obj_messages (co_obj o1)) = [] \<and> source (co_obj o1) = Inr (im_source P) \<and>
       \<not> class_filtered (object_class_filter P) (rpsl_object_class (klass (co_obj o1)))))"
proof -
  obtain objs st1 where imp: "import_paragraphs L T gs P upsert_mirror (split_paragraphs_lines True file_lines) import_init
      = (Inr (None, objs), st1)" and st: "writes st = writes st1" "obj_successful st = obj_successful st1"
    using assms by (auto simp: file_run_import_def writes_def split: prod.splits sum.splits option.splits if_splits)
  from import_paragraphs_upserts [OF imp] st
  have w: "filter is_write (calls st) = map (\<lambda>o1. UpsertObject o1 origin_mirror None) objs"
    and n: "obj_successful st = int (length objs)" and acc: "\<forall>o1 \<in> set objs. acceptable P (co_obj o1)"
    by (simp_all add: writes_def import_init_def obj_successful_def)
  have "\<exists>o1 \<in> set objs. c = UpsertObject o1 origin_mirror None" if "c \<in> set (calls st)" "is_write c" for c
    using that w by (metis (no_types, lifting) filter_set image_iff list.set_map mem_Collect_eq set_filter)
  with n w acc show ?thesis unfolding acceptable_def by fastforce
qed

definition import_example :: "(ip3, unit) importer" where
  "import_example = \<lparr>im_source = ''EX'', direct_error_return = False, roa_validator = None,
     scopefilter_validator = \<lparr>filter_prefixes = [], filtered_as_numbers = [], filtered_asn_ranges = []\<rparr>,
     strict_validation_key_cert = False, object_class_filter = None\<rparr>"

definition no_trie :: "unit trie_lib" where
  "no_trie = \<lparr>trie_new = (), trie_get = (\<lambda>t k. None), trie_set = (\<lambda>k v t. ()), trie_prefix_items = (\<lambda>t k. [])\<rparr>"

definition import_lines :: "string list" where
  "import_lines = [''mntner: M-EX'', ''source: EX'', [], ''bogus: 1'', [], ''mntner: N-EX'', ''source: OTHER'']"

definition import_result :: "string option res \<times> ip3 import_state" where
  "import_result = file_run_import ip3_lib no_trie (\<lambda>_. None) import_example (Some 7) import_lines"

theorem file_import_counts_witness:
  "fst import_result = Inr None \<and> obj_successful (snd import_result) = 1 \<and>
   int (length (filter is_write (calls (snd import_result)))) = 1"
proof -
  have ok: "fst import_result = Inr None" and n: "obj_successful (snd import_result) = 1" by code_simp+
  have "file_run_import ip3_lib no_trie (\<lambda>_. None) import_example (Some 7) import_lines = (Inr None, snd import_result)"
    using ok unfolding import_result_def by (metis prod.collapse)
  from file_import_counts [OF this] ok n show ?thesis by simp
qed

section \<open>Synchronisation with a file\<close>

lemma import_paragraphs_no_writes:
  "import_paragraphs L T gs P (\<lambda>o1 st. st) ps st = (r, st') \<Longrightarrow> writes st' = writes st"
proof (induction ps arbitrary: st r)
  case (Cons p ps)
  obtain q st1 where p: "parse_object L T gs P p st = (q, st1)" by (cases "parse_object L T gs P p st")
  have w: "writes st1 = writes st"
    using p by (auto simp: parse_object_def Let_def writes_def add_call_def
        split: sum.splits exn.splits if_splits prod.splits)
  from Cons.prems p w show ?case
    by (auto split: sum.splits option.splits if_splits prod.splits dest!: Cons.IH)
qed simp

text \<open>
  The rows of one source, from primary key and class to the stored text, and the effect that the
  calls have on them. \<open>text_of\<close> is the text that the handler stores for an object.
\<close>

type_synonym rows = "string \<times> string \<Rightarrow> string option"

fun apply_call :: "('ip checked_object \<Rightarrow> string) \<Rightarrow> string \<Rightarrow> 'ip db_call \<Rightarrow> rows \<Rightarrow> rows" where
  "apply_call text_of src (UpsertObject o1 orig serial) tab = tab(obj_key o1 \<mapsto> text_of o1)"
| "apply_call text_of src (DeleteObject src' rpsl_pk cls orig serial) tab =
     (if src' = src then tab((rpsl_pk, cls) := None) else tab)"
| "apply_call text_of src c tab = tab"

definition rows_after :: "('ip checked_object \<Rightarrow> string) \<Rightarrow> string \<Rightarrow> rows \<Rightarrow> 'ip db_call list \<Rightarrow> rows" where
  "rows_after text_of src tab cs = fold (apply_call text_of src) cs tab"

lemma rows_after_append: "rows_after tx src tab (cs @ ds) = rows_after tx src (rows_after tx src tab cs) ds"
  by (simp add: rows_after_def)

lemma rows_after_deletes:
  "rows_after tx src tab (map (synthetic_delete src) ks) k = (if k \<in> set ks then None else tab k)"
  by (induction ks arbitrary: tab) (auto simp: rows_after_def synthetic_delete_def)

lemma rows_after_no_write: "filter is_write cs = [] \<Longrightarrow> rows_after tx src tab cs = tab"
proof (induction cs arbitrary: tab)
  case (Cons c cs)
  then show ?case by (cases c) (simp_all add: rows_after_def)
qed (simp add: rows_after_def)

definition keyed :: "(string \<times> string, 'ip checked_object) dict \<Rightarrow> bool" where
  "keyed d \<longleftrightarrow> distinct (dict_keys d) \<and> (\<forall>k o1. dict_get d k = Some o1 \<longrightarrow> obj_key o1 = k)"

lemma keyedD: "keyed d \<Longrightarrow> dict_get d k = Some o1 \<Longrightarrow> obj_key o1 = k"
  unfolding keyed_def by blast

lemma keyed_set:
  assumes "keyed d"
  shows "keyed (dict_set (obj_key o1) o1 d)"
proof -
  have "obj_key o2 = k" if "dict_get (dict_set (obj_key o1) o1 d) k = Some o2" for k o2
    using that keyedD [OF assms, of k o2] by (cases "k = obj_key o1") simp_all
  moreover have "distinct (dict_keys (dict_set (obj_key o1) o1 d))"
    using assms by (simp add: keyed_def distinct_dict_keys_set)
  ultimately show ?thesis unfolding keyed_def by blast
qed

lemma keyed_file_objs: "keyed (file_objs_by_pk objs)"
proof -
  have "keyed (fold (\<lambda>o1. dict_set (obj_key o1) o1) objs d)" if "keyed d" for d
    using that
  proof (induction objs arbitrary: d)
    case (Cons o1 objs)
    then show ?case by (simp add: keyed_set)
  qed simp
  moreover have "keyed []" by (simp add: keyed_def dict_keys_def)
  ultimately show ?thesis unfolding file_objs_by_pk_def by blast
qed

lemma rows_after_upserts:
  assumes "keyed d" "\<forall>o1 \<in> set os. dict_get d (obj_key o1) = Some o1"
  shows "rows_after tx src tab (map synthetic_upsert os) k
    = (if k \<in> obj_key ` set os then map_option tx (dict_get d k) else tab k)"
  using assms(2)
proof (induction os arbitrary: tab)
  case (Cons o1 os)
  have "rows_after tx src tab (map synthetic_upsert (o1 # os))
      = rows_after tx src (tab(obj_key o1 \<mapsto> tx o1)) (map synthetic_upsert os)"
    by (simp add: rows_after_def synthetic_upsert_def)
  with Cons show ?case by auto
qed (simp add: rows_after_def)

lemma modified_rows_upserts:
  assumes "keyed d" "modified_rows gs d rows = (Inr (), cs)"
  shows "\<exists>os. cs = map synthetic_upsert os \<and> (\<forall>o1 \<in> set os. dict_get d (obj_key o1) = Some o1) \<and>
    (\<forall>k t o1. (k, t) \<in> set rows \<longrightarrow> dict_get d k = Some o1 \<longrightarrow>
       k \<in> obj_key ` set os \<or> render_rpsl_text gs None (co_obj o1) = Inr (remove_last_modified t))"
  using assms
proof (induction gs d rows arbitrary: cs rule: modified_rows.induct)
  case (2 gs d k t rows)
  show ?case
  proof (cases "dict_get d k")
    case None
    with 2 show ?thesis by fastforce
  next
    case (Some o1)
    with 2(4) obtain tx rest where r: "render_rpsl_text gs None (co_obj o1) = Inr tx"
      "modified_rows gs d rows = (Inr (), rest)"
      "cs = (if tx \<noteq> remove_last_modified t then synthetic_upsert o1 # rest else rest)"
      by (auto split: sum.splits prod.splits)
    from 2(2) [OF Some r(1) 2(3) r(2)] obtain os where os: "rest = map synthetic_upsert os"
      "\<forall>o1 \<in> set os. dict_get d (obj_key o1) = Some o1"
      "\<forall>k t o1. (k, t) \<in> set rows \<longrightarrow> dict_get d k = Some o1 \<longrightarrow>
         k \<in> obj_key ` set os \<or> render_rpsl_text gs None (co_obj o1) = Inr (remove_last_modified t)" by blast
    have key: "obj_key o1 = k" using keyedD [OF 2(3) Some] .
    show ?thesis
    proof (cases "tx = remove_last_modified t")
      case True
      with os r Some show ?thesis by (intro exI [of _ os]) auto
    next
      case False
      with os r Some key show ?thesis by (intro exI [of _ "o1 # os"]) auto
    qed
  qed
qed simp

text \<open>The file has a key, the row holds that object, or its text without the last-modified line.\<close>

definition in_sync :: "settings \<Rightarrow> ('ip checked_object \<Rightarrow> string) \<Rightarrow> 'ip checked_object option \<Rightarrow> string option \<Rightarrow> bool" where
  "in_sync gs tx file_obj row =
     (case (file_obj, row) of
        (None, None) \<Rightarrow> True
      | (Some o1, Some t) \<Rightarrow> t = tx o1 \<or> render_rpsl_text gs None (co_obj o1) = Inr (remove_last_modified t)
      | _ \<Rightarrow> False)"

lemma inserts_deletes_rows:
  assumes "keyed d" "set keys = dom tab"
  shows "rows_after tx src tab (map (\<lambda>e. synthetic_upsert (snd e)) (filter (\<lambda>e. fst e \<notin> set keys) d)
      @ map (synthetic_delete src) (filter (\<lambda>k. k \<notin> set (dict_keys d)) (remdups keys))) k
    = (if k \<in> set (dict_keys d) then (if k \<in> set keys then tab k else map_option tx (dict_get d k)) else None)"
proof -
  let ?os = "map snd (filter (\<lambda>e. fst e \<notin> set keys) d)"
  have entry: "dict_get d k' = Some o1 \<and> obj_key o1 = k'" if "(k', o1) \<in> set d" for k' o1
    using that assms(1) by (metis dict_get_def dict_keys_def keyedD keyed_def map_of_is_SomeI)
  have os: "\<forall>o1 \<in> set ?os. dict_get d (obj_key o1) = Some o1" using entry by auto
  have keys: "obj_key ` set ?os = set (dict_keys d) - set keys"
    using entry by (force simp: dict_keys_def image_iff)
  have "tab k = None" if "k \<notin> set keys" using that assms(2) by auto
  then show ?thesis
    using rows_after_upserts [OF assms(1) os, of tx src tab k, unfolded keys] dict_get_None_iff [of d k]
    by (auto simp: rows_after_append rows_after_deletes o_def)
qed

lemma update_calls_sync:
  assumes "update_calls gs src objs keys query = (Inr (), cs)" "set keys = dom tab"
    and "\<And>ds. set (query ds) = {(k, t). rows_after tx src tab ds k = Some t}"
  shows "in_sync gs tx (dict_get (file_objs_by_pk objs) k) (rows_after tx src tab cs k)"
proof -
  define d where "d = file_objs_by_pk objs"
  note d = keyed_file_objs [of objs, folded d_def]
  define first where "first = map (\<lambda>e. synthetic_upsert (snd e)) (filter (\<lambda>e. fst e \<notin> set keys) d)
      @ map (synthetic_delete src) (filter (\<lambda>k. k \<notin> set (dict_keys d)) (remdups keys))"
  obtain modified where cs: "cs = first @ modified" and m: "modified_rows gs d (query first) = (Inr (), modified)"
    using assms(1) by (auto simp: update_calls_def Let_def first_def d_def split: prod.splits)
  obtain os where os: "modified = map synthetic_upsert os" "\<forall>o1 \<in> set os. dict_get d (obj_key o1) = Some o1"
    and same: "\<forall>k t o1. (k, t) \<in> set (query first) \<longrightarrow> dict_get d k = Some o1 \<longrightarrow>
       k \<in> obj_key ` set os \<or> render_rpsl_text gs None (co_obj o1) = Inr (remove_last_modified t)"
    using modified_rows_upserts [OF d m] by blast
  have after1: "rows_after tx src tab first k
      = (if k \<in> set (dict_keys d) then (if k \<in> set keys then tab k else map_option tx (dict_get d k)) else None)"
    unfolding first_def by (rule inserts_deletes_rows [OF d assms(2)])
  have after2: "rows_after tx src tab cs k
      = (if k \<in> obj_key ` set os then map_option tx (dict_get d k) else rows_after tx src tab first k)"
    unfolding cs rows_after_append os(1) by (rule rows_after_upserts [OF d os(2)])
  show ?thesis
  proof (cases "dict_get d k")
    case None
    then have "k \<notin> set (dict_keys d)" "k \<notin> obj_key ` set os"
      using dict_get_None_iff [of d k] os(2) by auto
    with after1 after2 None show ?thesis by (simp add: in_sync_def d_def)
  next
    case (Some o1)
    then have k: "k \<in> set (dict_keys d)" using dict_get_None_iff [of d k] by auto
    with after1 assms(2) Some obtain t where t: "rows_after tx src tab first k = Some t" by fastforce
    then have "(k, t) \<in> set (query first)" using assms(3) by simp
    with same Some have "k \<in> obj_key ` set os \<or> render_rpsl_text gs None (co_obj o1) = Inr (remove_last_modified t)" by blast
    with after2 t Some show ?thesis by (auto simp: in_sync_def d_def)
  qed
qed


text \<open>The rows as a dictionary, for an example.\<close>

fun dict_call :: "('ip checked_object \<Rightarrow> string) \<Rightarrow> string \<Rightarrow> 'ip db_call \<Rightarrow> (string \<times> string, string) dict
    \<Rightarrow> (string \<times> string, string) dict" where
  "dict_call tx src (UpsertObject o1 orig serial) d = dict_set (obj_key o1) (tx o1) d"
| "dict_call tx src (DeleteObject src' rpsl_pk cls orig serial) d = (if src' = src then dict_del (rpsl_pk, cls) d else d)"
| "dict_call tx src c d = d"

lemma dict_call_rows:
  "distinct (dict_keys d) \<Longrightarrow> distinct (dict_keys (dict_call tx src c d)) \<and>
   dict_get (dict_call tx src c d) = apply_call tx src c (dict_get d)"
  by (cases c) (auto simp: distinct_dict_keys_set distinct_dict_keys_del fun_eq_iff)

lemma dict_calls_rows:
  "distinct (dict_keys d) \<Longrightarrow> distinct (dict_keys (fold (dict_call tx src) cs d)) \<and>
   dict_get (fold (dict_call tx src) cs d) = rows_after tx src (dict_get d) cs"
proof (induction cs arbitrary: d)
  case (Cons c cs)
  then show ?case using dict_call_rows [OF Cons.prems, of tx src c] by (simp add: rows_after_def)
qed (simp add: rows_after_def)

definition sync_old :: "(string \<times> string, string) dict" where
  "sync_old = [((''OLD-EX'', ''mntner''), ''x'')]"

definition sync_text :: "ip3 checked_object \<Rightarrow> string" where
  "sync_text o1 = pk (co_obj o1)"

definition sync_query :: "ip3 db_call list \<Rightarrow> ((string \<times> string) \<times> string) list" where
  "sync_query cs = fold (dict_call sync_text ''EX'') cs sync_old"

definition sync_objs :: "ip3 checked_object list" where
  "sync_objs = (case fst (import_paragraphs ip3_lib no_trie (\<lambda>_. None) import_example (\<lambda>o1 st. st)
     (split_paragraphs_lines True import_lines) import_init) of Inr (m, objs) \<Rightarrow> objs | Inl e \<Rightarrow> [])"

definition sync_calls :: "ip3 db_call list" where
  "sync_calls = snd (update_run_import ip3_lib no_trie (\<lambda>_. None) import_example import_lines [(''OLD-EX'', ''mntner'')] sync_query)"


end
