(* ===== verification/NRTM.thy ===== *)
theory NRTM
  imports Mirror_Import
begin

text \<open>
  Near real time mirroring: one operation (\<^verbatim>\<open>irrd/mirroring/nrtm_operation.py\<close>), the parser
  of an NRTM stream (class \<open>NRTMStreamParser\<close> of \<^verbatim>\<open>irrd/mirroring/parsers.py\<close>) and the
  generator of NRTM responses (\<^verbatim>\<open>irrd/mirroring/nrtm_generator.py\<close>). Calls to the database
  handler are recorded as in \<open>Mirror_Import\<close>; its queries are arguments. Logging is left out.
\<close>

section \<open>Operations\<close>

datatype database_operation = add_or_update | op_delete

fun operation_value :: "database_operation \<Rightarrow> string" where
  "operation_value add_or_update = ''ADD''"
| "operation_value op_delete = ''DEL''"

definition operation_of :: "string \<Rightarrow> database_operation res" where
  "operation_of s = (if s = ''ADD'' then Inr add_or_update else if s = ''DEL'' then Inr op_delete
     else Inl (ValueError (py_repr s @ '' is not a valid DatabaseOperation'')))"

record nrtm_operation =
  no_source :: string
  no_operation :: database_operation
  no_serial :: "int option"
  origin_identifier :: string
  no_text :: "string option"
  no_rpsl_pk :: "string option"
  no_object_class :: "string option"
  no_strict_key_cert :: bool
  rpki_aware :: bool
  no_class_filter :: "string list option"

definition shown_serial :: "int option \<Rightarrow> string" where
  "shown_serial n = (case n of None \<Rightarrow> ''None'' | Some i \<Rightarrow> str_int i)"

definition NRTMOperation :: "string \<Rightarrow> database_operation \<Rightarrow> int option \<Rightarrow> string option \<Rightarrow> string option
    \<Rightarrow> string option \<Rightarrow> string option \<Rightarrow> bool \<Rightarrow> bool \<Rightarrow> string list option \<Rightarrow> nrtm_operation res" where
  "NRTMOperation src operation serial orig txt rpsl_pk cls strict_key_cert aware class_filter =
     (if str_truthy txt \<and> (str_truthy rpsl_pk \<or> str_truthy cls) \<or> \<not> str_truthy txt \<and> \<not> (str_truthy rpsl_pk \<and> str_truthy cls)
      then Inl (RuntimeError ''Operation must have object text or pk/class'')
      else Inr \<lparr>no_source = src, no_operation = operation, no_serial = serial,
                origin_identifier = (if str_truthy orig then the orig else shown_serial serial),
                no_text = txt, no_rpsl_pk = rpsl_pk, no_object_class = cls, no_strict_key_cert = strict_key_cert,
                rpki_aware = aware, no_class_filter = class_filter\<rparr>)"

text \<open>The status attributes of an object that is stored.\<close>

definition operation_checked :: "'ip extlib \<Rightarrow> settings \<Rightarrow> ('ip \<Rightarrow> roa_row list) \<Rightarrow> bool \<Rightarrow> 'ip rpsl_object
    \<Rightarrow> 'ip checked_object res" where
  "operation_checked L gs covering_roas aware obj =
     rbind (case (rpsl_object.prefix obj, asn_first obj) of
              (Some p, Some asn) \<Rightarrow>
                if aware \<and> is_route (klass obj) \<and> asn \<noteq> 0
                then rbind (source obj) (\<lambda>src. Inr (single_validate_route L gs covering_roas p asn src))
                else Inr RPKI_not_found
            | _ \<Rightarrow> Inr RPKI_not_found) (\<lambda>rpki.
     rbind (load_filters L gs) (\<lambda>F.
     rbind (validate_rpsl_object L gs F obj) (\<lambda>(scope, msg).
       Inr \<lparr>co_obj = obj, co_rpki_status = rpki, co_scopefilter_status = scope\<rparr>)))"

text \<open>
  \<open>save\<close> once the object is parsed, when there is text, and its key and class are known.
\<close>

definition save_parsed :: "'ip extlib \<Rightarrow> settings \<Rightarrow> ('ip \<Rightarrow> roa_row list) \<Rightarrow> nrtm_operation \<Rightarrow> 'ip rpsl_object option
    \<Rightarrow> string \<Rightarrow> string \<Rightarrow> bool res \<times> 'ip db_call list" where
  "save_parsed L gs covering_roas nop obj_opt rpsl_pk cls =
     (if class_filtered (no_class_filter nop) cls then (Inr False, [])
      else (case obj_opt of
        None \<Rightarrow>
          (Inr True, case no_operation nop of
             add_or_update \<Rightarrow> []
           | op_delete \<Rightarrow> [DeleteObject (no_source nop) rpsl_pk cls origin_mirror (no_serial nop)])
      | Some obj \<Rightarrow>
          if errors (obj_messages obj) \<noteq> []
          then (Inr False, [RecordMirrorError (no_source nop)
                  (''Parsing errors: '' @ list_repr (errors (obj_messages obj)) @ '', original object text follows:''
                   @ [NL] @ the (no_text nop))])
          else if dict_get (parsed_data obj) ''source'' \<noteq> None \<and> py_upper (data_str obj ''source'') \<noteq> no_source nop
          then (Inr False, [RecordMirrorError (no_source nop)
                  (''Incorrect source in NRTM object: stream has source '' @ no_source nop
                   @ '', found object with source '' @ data_str obj ''source'' @ '' in operation ''
                   @ origin_identifier nop @ ''/'' @ operation_value (no_operation nop) @ ''/'' @ pk obj
                   @ ''. This operation is ignored, causing potential data inconsistencies.'')])
          else (case no_operation nop of
             add_or_update \<Rightarrow>
               (case operation_checked L gs covering_roas (rpki_aware nop) obj of
                  Inl e \<Rightarrow> (Inl e, [])
                | Inr checked \<Rightarrow> (Inr True, [UpsertObject checked origin_mirror (no_serial nop)]))
           | op_delete \<Rightarrow> (Inr True, [DeleteObject (no_source nop) rpsl_pk cls origin_mirror (no_serial nop)]))))"

definition nrtm_save :: "'ip extlib \<Rightarrow> settings \<Rightarrow> ('ip \<Rightarrow> roa_row list) \<Rightarrow> nrtm_operation
    \<Rightarrow> bool res \<times> 'ip db_call list" where
  "nrtm_save L gs covering_roas nop =
     (if str_truthy (no_text nop)
      then (case parse_possibly_strict L gs (no_strict_key_cert nop)
                   (if no_operation nop = op_delete then Some (no_source nop) else None) (py_strip (the (no_text nop))) of
              Inl (UnknownRPSLObjectClassException m) \<Rightarrow> (Inr False, [])
            | Inl e \<Rightarrow> (Inl e, [])
            | Inr obj \<Rightarrow> save_parsed L gs covering_roas nop (Some obj) (pk obj) (py_lower (rpsl_object_class (klass obj))))
      else if \<not> str_truthy (no_object_class nop)
      then (Inl (RuntimeError ''NRTMOperation called with neither object_text nor object_class''), [])
      else save_parsed L gs covering_roas nop None (the (no_rpsl_pk nop)) (the (no_object_class nop)))"

section \<open>Streams\<close>

record 'ip nrtm_stream =
  first_serial :: int
  last_serial :: int
  nrtm_source :: "string option"
  current_op_serial :: int
  nrtm_version :: string
  operations :: "nrtm_operation list"
  stream_calls :: "'ip db_call list"

definition stream_init :: "'ip nrtm_stream" where
  "stream_init = \<lparr>first_serial = -1, last_serial = -1, nrtm_source = None, current_op_serial = -1,
     nrtm_version = [], operations = [], stream_calls = []\<rparr>"

text \<open>\<^verbatim>\<open>\w\<close> on the code points up to 255.\<close>

definition word_char :: "char \<Rightarrow> bool" where
  "word_char c \<longleftrightarrow> isalnum c \<or> c = CHR ''_'' \<or>
     (let n = ord c in n \<in> {170, 178, 179, 181, 185, 186, 188, 189, 190} \<or> 192 \<le> n \<and> n \<noteq> 215 \<and> n \<noteq> 247)"

definition skip_literal :: "string \<Rightarrow> string \<Rightarrow> string option" where
  "skip_literal lit s = (if py_startswith s lit then Some (drop (length lit) s) else None)"

definition skip_spaces :: "string \<Rightarrow> string" where
  "skip_spaces s = dropWhile (\<lambda>c. c = CHR '' '') s"

text \<open>A run of one or more characters of a class, and what follows it.\<close>

definition take_run :: "(char \<Rightarrow> bool) \<Rightarrow> string \<Rightarrow> (string \<times> string) option" where
  "take_run p s = (if takeWhile p s = [] then None else Some (takeWhile p s, dropWhile p s))"

text \<open>
  \<open>nrtm_start_line_re.match\<close>: version, source, first and last serial. The classes of adjacent runs
  are disjoint, so that the match needs no backtracking; the final \<^verbatim>\<open>$\<close> accepts the end of the
  text and the position before a newline.
\<close>

definition match_start_line :: "string \<Rightarrow> (string \<times> string \<times> string \<times> string) option" where
  "match_start_line s =
     do {
       s1 \<leftarrow> skip_literal ''%'' s;
       s2 \<leftarrow> skip_literal ''START'' (skip_spaces s1);
       s3 \<leftarrow> skip_literal ''Version:'' (skip_spaces s2);
       (version, s4) \<leftarrow> take_run isdigit (skip_spaces s3);
       (sp1, s5) \<leftarrow> take_run (\<lambda>c. c = CHR '' '') s4;
       (src, s6) \<leftarrow> take_run (\<lambda>c. word_char c \<or> c = CHR ''-'') s5;
       (sp2, s7) \<leftarrow> take_run (\<lambda>c. c = CHR '' '') s6;
       (first_s, s8) \<leftarrow> take_run isdigit s7;
       s9 \<leftarrow> skip_literal ''-'' s8;
       (last_s, s10) \<leftarrow> take_run isdigit s9;
       s11 \<leftarrow> skip_literal [NL] (case skip_literal '' FILTERED'' s10 of Some r \<Rightarrow> r | None \<Rightarrow> s10);
       if s11 = [] \<or> hd s11 = NL then Some (version, src, first_s, last_s) else None
     }"

definition int_text :: "string \<Rightarrow> int res" where
  "int_text s = (case py_int s of None \<Rightarrow> Inl (ValueError (''invalid literal for int() with base 10: '' @ py_repr s)) | Some i \<Rightarrow> Inr i)"

definition stream_error :: "string \<Rightarrow> string \<Rightarrow> 'ip nrtm_stream \<Rightarrow> 'a res \<times> 'ip nrtm_stream" where
  "stream_error src msg st = (Inl (ValueError msg), st\<lparr>stream_calls := stream_calls st @ [RecordMirrorError src msg]\<rparr>)"

definition handle_possible_start_line :: "string \<Rightarrow> string \<Rightarrow> 'ip nrtm_stream \<Rightarrow> bool res \<times> 'ip nrtm_stream" where
  "handle_possible_start_line src line st =
     (case match_start_line line of
        None \<Rightarrow> (Inr False, st)
      | Some (version, found_source, first_s, last_s) \<Rightarrow>
          if str_truthy (nrtm_source st)
          then stream_error src (''Encountered second START line in NRTM stream, first was '' @ src @ '' ''
                 @ str_int (first_serial st) @ ''-'' @ str_int (last_serial st) @ '', new line is: '' @ line) st
          else (let st1 = st\<lparr>nrtm_version := version, nrtm_source := Some (py_upper found_source)\<rparr>
                in case int_text first_s of
                     Inl e \<Rightarrow> (Inl e, st1)
                   | Inr f \<Rightarrow>
                       (case int_text last_s of
                          Inl e \<Rightarrow> (Inl e, st1\<lparr>first_serial := f\<rparr>)
                        | Inr l \<Rightarrow>
                            (let st2 = st1\<lparr>first_serial := f, last_serial := l\<rparr>
                             in if src \<noteq> py_upper found_source
                                then stream_error src (''Invalid NRTM source in START line: expected '' @ src @ '' but found ''
                                       @ py_upper found_source @ '' in line: '' @ line) st2
                                else if version \<notin> {''1'', ''3''}
                                then stream_error src (''Invalid NRTM version '' @ version @ '' in START line: '' @ line) st2
                                else (Inr True, st2)))))"

text \<open>
  The serial of an operation: the operation text and the serial, from the line or counted. The
  unpacking of the parts of the line fails unless there are two.
\<close>

definition operation_line :: "string \<Rightarrow> string \<Rightarrow> 'ip nrtm_stream \<Rightarrow> string res \<times> 'ip nrtm_stream" where
  "operation_line src paragraph st0 =
     (let expected = (if current_op_serial st0 = -1 then first_serial st0 else current_op_serial st0 + 1);
          st = st0\<lparr>current_op_serial := expected\<rparr>
      in if CHR '' '' \<in> set paragraph
         then (case py_split CHR '' '' paragraph of
                 [operation_str, line_serial_str] \<Rightarrow>
                   (case int_text line_serial_str of
                      Inl e \<Rightarrow> (Inl e, st)
                    | Inr line_serial \<Rightarrow>
                        if line_serial < expected
                        then stream_error src (''Invalid NRTM serial for '' @ src @ '': ADD/DEL has serial ''
                               @ str_int line_serial @ '', expected at least '' @ str_int expected) st
                        else (Inr operation_str, st\<lparr>current_op_serial := line_serial\<rparr>))
               | _ \<Rightarrow> (Inl (ValueError ''wrong number of values to unpack (expected 2)''), st))
         else (Inr (py_strip paragraph), st))"

definition handle_operation :: "settings \<Rightarrow> string \<Rightarrow> string list option \<Rightarrow> string \<Rightarrow> string option \<Rightarrow> 'ip nrtm_stream
    \<Rightarrow> unit res \<times> 'ip nrtm_stream" where
  "handle_operation gs src class_filter paragraph next_paragraph st =
     (if \<not> str_truthy (nrtm_source st)
      then stream_error src (''Encountered operation before valid NRTM START line, paragraph encountered: '' @ paragraph) st
      else (case operation_line src paragraph st of
        (Inl e, st1) \<Rightarrow> (Inl e, st1)
      | (Inr operation_str, st1) \<Rightarrow>
          (case operation_of operation_str of
             Inl e \<Rightarrow> (Inl e, st1)
           | Inr operation \<Rightarrow>
               (case next_paragraph of
                  None \<Rightarrow> (Inl StopIteration, st1)
                | Some txt \<Rightarrow>
                    (case NRTMOperation src operation (Some (current_op_serial st1)) None (Some txt) None None
                            (truthy (source_setting gs src ''strict_import_keycert_objects''))
                            (truthy (get_setting gs ''rpki.roa_source'')) class_filter of
                       Inl e \<Rightarrow> (Inl e, st1)
                     | Inr nop \<Rightarrow> (Inr (), st1\<lparr>operations := operations st1 @ [nop]\<rparr>))))))"

text \<open>The loop over the paragraphs; an operation takes the paragraph after it. The result is the last comment.\<close>

fun split_stream_paragraphs :: "settings \<Rightarrow> string \<Rightarrow> string list option \<Rightarrow> string list \<Rightarrow> string \<Rightarrow> 'ip nrtm_stream
    \<Rightarrow> string res \<times> 'ip nrtm_stream" where
  "split_stream_paragraphs gs src cf [] last_comment st = (Inr last_comment, st)"
| "split_stream_paragraphs gs src cf (p # ps) last_comment st =
     (case handle_possible_start_line src p st of
        (Inl e, st1) \<Rightarrow> (Inl e, st1)
      | (Inr True, st1) \<Rightarrow> split_stream_paragraphs gs src cf ps last_comment st1
      | (Inr False, st1) \<Rightarrow>
          if py_startswith p ''%'' \<or> py_startswith p ''#'' then split_stream_paragraphs gs src cf ps p st1
          else if py_startswith p ''ADD'' \<or> py_startswith p ''DEL''
          then (case handle_operation gs src cf p (case ps of [] \<Rightarrow> None | q # qs \<Rightarrow> Some q) st1 of
                  (Inl e, st2) \<Rightarrow> (Inl e, st2)
                | (Inr u, st2) \<Rightarrow> split_stream_paragraphs gs src cf (tl ps) last_comment st2)
          else split_stream_paragraphs gs src cf ps last_comment st1)"

definition split_stream :: "settings \<Rightarrow> string \<Rightarrow> string list option \<Rightarrow> string \<Rightarrow> unit res \<times> 'ip nrtm_stream" where
  "split_stream gs src cf data =
     (case split_stream_paragraphs gs src cf (split_paragraphs_rpsl False data) [] stream_init of
        (Inl e, st) \<Rightarrow> (Inl e, st)
      | (Inr last_comment, st) \<Rightarrow>
          (let shown = py_strip (py_upper last_comment)
           in if str_truthy (nrtm_source st) \<and> shown \<noteq> ''%END '' @ src
              then stream_error src (''NRTM stream error for '' @ src @ '': last comment paragraph expected to be \"%END ''
                     @ src @ ''\", but is actually \"'' @ shown @ ''\" - could be caused by TCP disconnection during NRTM ''
                     @ ''query or mirror server returning an error or an otherwise incomplete or invalid response'') st
              else if last_serial st < current_op_serial st \<and> nrtm_version st \<noteq> ''3''
              then stream_error src (''NRTM stream error for '' @ src
                     @ '': expected operations up to and including serial '' @ str_int (last_serial st)
                     @ '', last operation was '' @ str_int (current_op_serial st)) st
              else (Inr (), if 0 < last_serial st
                            then st\<lparr>stream_calls := stream_calls st @ [RecordSerialNewestMirror src (last_serial st)]\<rparr>
                            else st)))"

definition NRTMStreamParser :: "settings \<Rightarrow> string \<Rightarrow> string \<Rightarrow> unit res \<times> 'ip nrtm_stream" where
  "NRTMStreamParser gs src data =
     (case get_object_class_filter_for_source gs src of
        Inl e \<Rightarrow> (Inl e, stream_init)
      | Inr cf \<Rightarrow> split_stream gs src cf data)"

section \<open>Generator\<close>

record journal_row =
  jr_operation :: database_operation
  jr_serial :: int
  jr_object_text :: string
  jr_object_class :: string
  jr_rpsl_pk :: string
  jr_timestamp :: int

text \<open>A range check that the requested days are not exceeded; times in microseconds.\<close>

definition days_exceeded :: "cval \<Rightarrow> int \<Rightarrow> int \<Rightarrow> bool res" where
  "days_exceeded days_limit now timestamp =
     (case days_limit of
        CInt d \<Rightarrow> Inr (d * 86400000000 < now - timestamp)
      | CBool b \<Rightarrow> Inr ((if b then 1 else 0) * 86400000000 < now - timestamp)
      | _ \<Rightarrow> Inl (TypeError ''unsupported type for timedelta days component''))"

definition check_days :: "settings \<Rightarrow> string \<Rightarrow> int \<Rightarrow> int \<Rightarrow> (int \<Rightarrow> int option \<Rightarrow> journal_row list) \<Rightarrow> unit res" where
  "check_days gs src now start journal =
     (let days_limit = source_setting gs src ''nrtm_query_serial_days_limit''
      in if \<not> truthy days_limit then Inr ()
         else (case journal start None of
                 [] \<Rightarrow> Inl (NRTMGeneratorException (''There are no journal entries greater than or equal to this serial ''
                         @ str_int start @ ''.''))
               | entry # _ \<Rightarrow>
                   rbind (days_exceeded days_limit now (jr_timestamp entry)) (\<lambda>exceeded.
                     if exceeded
                     then Inl (NRTMGeneratorException (''Requesting serials older than '' @ cval_str days_limit
                            @ '' days will be rejected''))
                     else Inr ())))"

definition check_range :: "settings \<Rightarrow> string \<Rightarrow> int \<Rightarrow> int \<Rightarrow> unit res" where
  "check_range gs src start serial_end_display =
     (let range_limit = source_setting gs src ''nrtm_query_serial_range_limit''
      in if truthy range_limit
         then rbind (cval_int range_limit) (\<lambda>limit.
                if limit < serial_end_display - start
                then Inl (NRTMGeneratorException (''Serial range requested exceeds maximum range of '' @ cval_str range_limit))
                else Inr ())
         else Inr ())"

definition operation_text :: "settings \<Rightarrow> string \<Rightarrow> string \<Rightarrow> bool \<Rightarrow> bool \<Rightarrow> journal_row \<Rightarrow> string res" where
  "operation_text gs src version remove_hashes exempt row =
     (let txt = (if remove_hashes then remove_auth_hashes (jr_object_text row) else jr_object_text row)
      in rbind (if exempt then Inr txt else dummify_object_text gs txt (jr_object_class row) src (jr_rpsl_pk row)) (\<lambda>txt'.
           Inr (operation_value (jr_operation row)
                @ (if version = ''3'' then '' '' @ str_int (jr_serial row) else [])
                @ [NL, NL] @ txt')))"

fun operation_texts :: "settings \<Rightarrow> string \<Rightarrow> string \<Rightarrow> bool \<Rightarrow> bool \<Rightarrow> journal_row list \<Rightarrow> string list res" where
  "operation_texts gs src version remove_hashes exempt [] = Inr []"
| "operation_texts gs src version remove_hashes exempt (row # rows) =
     rbind (operation_text gs src version remove_hashes exempt row) (\<lambda>t.
     rbind (operation_texts gs src version remove_hashes exempt rows) (\<lambda>ts. Inr (t # ts)))"

definition response_header :: "settings \<Rightarrow> string \<Rightarrow> string list res" where
  "response_header gs src =
     (let header = source_setting gs src ''nrtm_response_header''
      in if truthy header
         then (case header of CStr h \<Rightarrow> Inr [textwrap_indent h ''%''] | _ \<Rightarrow> Inl (AttributeError ''splitlines''))
         else Inr [])"

text \<open>
  The status row, when there is one, gives the oldest and newest serial of the journal; \<open>journal\<close>
  gives the entries of a serial range, which is open when there is no end.
\<close>

definition nrtm_generate :: "settings \<Rightarrow> int \<Rightarrow> (int option \<times> int option) option \<Rightarrow> (int \<Rightarrow> int option \<Rightarrow> journal_row list)
    \<Rightarrow> string \<Rightarrow> string \<Rightarrow> int \<Rightarrow> int option \<Rightarrow> bool \<Rightarrow> bool \<Rightarrow> string res" where
  "nrtm_generate gs now status journal src version start end_requested remove_hashes exempt =
     (if \<not> truthy (source_setting gs src ''keep_journal'')
      then Inl (NRTMGeneratorException ''No journal kept for this source, unable to serve NRTM queries'')
      else case status of
        None \<Rightarrow> Inl (NRTMGeneratorException ''There are no journal entries for this source.'')
      | Some (oldest, newest) \<Rightarrow>
          if (case end_requested of None \<Rightarrow> False | Some e \<Rightarrow> e \<noteq> 0 \<and> e < start)
          then Inl (NRTMGeneratorException (''Start of the serial range ('' @ str_int start
                 @ '') must be lower or equal to end of the serial range ('' @ shown_serial end_requested @ '')''))
          else (case (oldest, newest) of
            (Some start_available, Some end_available) \<Rightarrow>
              if start < start_available
              then Inl (NRTMGeneratorException (''Serials '' @ str_int start @ '' - '' @ str_int start_available @ '' do not exist''))
              else if (case end_requested of None \<Rightarrow> False | Some e \<Rightarrow> end_available < e)
              then Inl (NRTMGeneratorException (''Serials '' @ str_int end_available @ '' - '' @ shown_serial end_requested
                     @ '' do not exist''))
              else if end_requested = None \<and> start = end_available + 1
              then Inr ''% Warning: there are no newer updates available''
              else if end_requested = None \<and> end_available < start
              then Inl (NRTMGeneratorException (''Serials '' @ str_int end_available @ '' - '' @ str_int start @ '' do not exist''))
              else (let serial_end_display = (case end_requested of None \<Rightarrow> end_available | Some e \<Rightarrow> e)
                    in rbind (check_range gs src start serial_end_display) (\<lambda>_.
                       rbind (check_days gs src now start journal) (\<lambda>_.
                       rbind (response_header gs src) (\<lambda>header.
                       rbind (operation_texts gs src version remove_hashes exempt (journal start end_requested)) (\<lambda>ops.
                         Inr (py_join [NL]
                           (header
                            @ [''%START Version: '' @ version @ '' '' @ src @ '' '' @ str_int start @ ''-''
                               @ str_int serial_end_display @ [NL]]
                            @ ops @ [''%END '' @ src])))))))
          | _ \<Rightarrow> Inr ''% Warning: there are no updates available''))"

end
