(* ===== verification/NRTM_Facts.thy ===== *)
theory NRTM_Facts
  imports NRTM Text_Facts
begin

text \<open>
  What the NRTM components guarantee: the order of the serials of a stream, what an operation
  writes, which serials a response covers, and that the stream parser reads back what the
  generator wrote.
\<close>

section \<open>Serials of a stream\<close>

lemma py_int_digits_nonneg:
  assumes "\<And>c. c \<in> set s \<Longrightarrow> isdigit c" "py_int s = Some i"
  shows "0 \<le> i"
  using assms(2) by (auto simp: py_int_def py_strip_digits [OF assms(1)] digits_no_sign [OF assms(1)] Let_def
      split: if_splits)

lemma take_run_class: "take_run p s = Some (r, rest) \<Longrightarrow> r \<noteq> [] \<and> (\<forall>c \<in> set r. p c)"
  by (auto simp: take_run_def split: if_splits dest: set_takeWhileD)

lemma match_start_line_parts:
  assumes "match_start_line s = Some (version, src, f, l)"
  shows "src \<noteq> [] \<and> (\<forall>c \<in> set f. isdigit c) \<and> (\<forall>c \<in> set l. isdigit c)"
  using assms
  by (auto simp: match_start_line_def bind_eq_Some_conv split: if_splits prod.splits dest!: take_run_class)

text \<open>
  The states the loop goes through without an exception. Before the START line nothing has
  happened; after it the serials of the operations increase from the first serial on, and the
  last of them is the current serial.
\<close>

definition op_serials :: "'ip nrtm_stream \<Rightarrow> int list" where
  "op_serials st = map (\<lambda>nop. the (no_serial nop)) (operations st)"

definition stream_inv :: "string \<Rightarrow> 'ip nrtm_stream \<Rightarrow> bool" where
  "stream_inv src st \<longleftrightarrow>
     stream_calls st = [] \<and> list_all (\<lambda>nop. no_source nop = src \<and> no_serial nop \<noteq> None) (operations st) \<and>
     (case nrtm_source st of
        None \<Rightarrow> operations st = [] \<and> current_op_serial st = -1 \<and> first_serial st = -1 \<and> last_serial st = -1
      | Some s \<Rightarrow> s = src \<and> src \<noteq> [] \<and> 0 \<le> first_serial st \<and> 0 \<le> last_serial st \<and>
          sorted_wrt (<) (op_serials st) \<and> (\<forall>n \<in> set (op_serials st). first_serial st \<le> n \<and> n \<le> current_op_serial st) \<and>
          (current_op_serial st = -1 \<and> operations st = [] \<or> current_op_serial st \<in> set (op_serials st)))"

lemma start_line_inv:
  assumes "handle_possible_start_line src p st = (Inr b, st')" "stream_inv src st"
  shows "stream_inv src st'"
proof (cases "match_start_line p")
  case None
  with assms show ?thesis by (simp add: handle_possible_start_line_def)
next
  case (Some m)
  then obtain version found f l where m: "match_start_line p = Some (version, found, f, l)" by (cases m) auto
  note parts = match_start_line_parts [OF m]
  have st: "nrtm_source st = None"
    using assms m by (auto simp: handle_possible_start_line_def stream_error_def stream_inv_def str_truthy_def
        split: option.splits if_splits)
  with assms(1) m obtain i j where ij: "py_int f = Some i" "py_int l = Some j" "src = py_upper found"
    and st': "st' = st\<lparr>nrtm_version := version, nrtm_source := Some src, first_serial := i, last_serial := j\<rparr>"
    by (auto simp: handle_possible_start_line_def str_truthy_def stream_error_def int_text_def Let_def
        split: option.splits if_splits)
  have "0 \<le> i" "0 \<le> j" using py_int_digits_nonneg ij parts by blast+
  moreover have "src \<noteq> []" using parts ij by (simp add: py_upper_def)
  ultimately show ?thesis using assms(2) st by (simp add: stream_inv_def st' op_serials_def)
qed

lemma operation_line_serial:
  assumes "operation_line src p st = (Inr s, st')" "stream_inv src st" "nrtm_source st \<noteq> None"
  shows "\<exists>n. st' = st\<lparr>current_op_serial := n\<rparr> \<and> first_serial st \<le> n \<and> current_op_serial st < n"
proof -
  let ?e = "if current_op_serial st = -1 then first_serial st else current_op_serial st + 1"
  have e: "first_serial st \<le> ?e" "current_op_serial st < ?e"
    using assms(2,3) by (auto simp: stream_inv_def split: option.splits)
  from assms(1) obtain n where "st' = st\<lparr>current_op_serial := n\<rparr>" "?e \<le> n"
    unfolding operation_line_def Let_def
    by (auto simp: stream_error_def split: if_splits list.splits sum.splits)
  with e show ?thesis by force
qed

lemma NRTMOperation_fields:
  "NRTMOperation src operation n orig txt rpsl_pk cls kc aware cf = Inr nop \<Longrightarrow>
   no_source nop = src \<and> no_serial nop = n \<and> no_operation nop = operation \<and> no_text nop = txt"
  by (auto simp: NRTMOperation_def split: if_splits)

lemma operation_inv:
  assumes "handle_operation gs src cf p nxt st = (Inr u, st')" "stream_inv src st"
  shows "stream_inv src st'"
proof -
  have some: "nrtm_source st \<noteq> None"
    using assms(1) by (auto simp: handle_operation_def stream_error_def str_truthy_def split: option.splits)
  from assms(1) obtain s st1 nop where line: "operation_line src p st = (Inr s, st1)"
    and nop: "no_source nop = src" "no_serial nop = Some (current_op_serial st1)"
    and st': "st' = st1\<lparr>operations := operations st1 @ [nop]\<rparr>"
    by (auto simp: handle_operation_def stream_error_def
        split: if_splits prod.splits sum.splits option.splits dest!: NRTMOperation_fields)
  obtain n where n: "st1 = st\<lparr>current_op_serial := n\<rparr>" "first_serial st \<le> n" "current_op_serial st < n"
    using operation_line_serial [OF line assms(2) some] by blast
  have st'_eq: "st' = st\<lparr>current_op_serial := n, operations := operations st @ [nop]\<rparr>" "no_serial nop = Some n"
    using st' n(1) nop by simp_all
  from assms(2) some obtain "nrtm_source st = Some src" "src \<noteq> []" by (auto simp: stream_inv_def split: option.splits)
  with assms(2) n nop(1) st'_eq show ?thesis
    by (force simp: stream_inv_def op_serials_def sorted_wrt_append)
qed

lemma stream_paragraphs_inv:
  "split_stream_paragraphs gs src cf ps c st = (Inr c', st') \<Longrightarrow> stream_inv src st \<Longrightarrow> stream_inv src st'"
proof (induction "length ps" arbitrary: ps c st rule: less_induct)
  case less
  show ?case
  proof (cases ps)
    case Nil
    with less show ?thesis by simp
  next
    case (Cons p qs)
    have shorter: "length qs < length ps" "length (tl qs) < length ps" by (simp_all add: Cons)
    note IH = less(1) [OF shorter(1)] less(1) [OF shorter(2)]
    obtain b st1 where start: "handle_possible_start_line src p st = (Inr b, st1)"
      using less(2) Cons by (cases "handle_possible_start_line src p st") (auto split: sum.splits)
    note inv1 = start_line_inv [OF start less(3)]
    consider (skip) d where "split_stream_paragraphs gs src cf qs d st1 = (Inr c', st')"
      | (op) u st2 where "handle_operation gs src cf p (case qs of [] \<Rightarrow> None | q # _ \<Rightarrow> Some q) st1 = (Inr u, st2)"
          "split_stream_paragraphs gs src cf (tl qs) c st2 = (Inr c', st')"
      using less(2) Cons start by (auto split: bool.splits if_splits prod.splits sum.splits)
    then show ?thesis
    proof cases
      case skip
      then show ?thesis using IH(1) inv1 by blast
    next
      case op
      then show ?thesis using IH(2) operation_inv [OF op(1) inv1] by blast
    qed
  qed
qed


definition stream_example :: string where
  "stream_example = ''%START Version: 3 EX 5-9'' @ [NL, NL] @ ''ADD 5'' @ [NL, NL] @ ''person: a'' @ [NL, NL]
     @ ''DEL 8'' @ [NL, NL] @ ''person: b'' @ [NL, NL] @ ''%END EX'' @ [NL]"


section \<open>What an operation writes\<close>

definition permitted_writes :: "nrtm_operation \<Rightarrow> bool \<Rightarrow> 'ip db_call list \<Rightarrow> bool" where
  "permitted_writes nop r cs \<longleftrightarrow>
     (if r then (case no_operation nop of
         add_or_update \<Rightarrow> cs = [] \<or> (\<exists>o1. cs = [UpsertObject o1 origin_mirror (no_serial nop)] \<and>
           errors (obj_messages (co_obj o1)) = [] \<and>
           (dict_get (parsed_data (co_obj o1)) ''source'' \<noteq> None \<longrightarrow>
              py_upper (data_str (co_obj o1) ''source'') = no_source nop))
       | op_delete \<Rightarrow> \<exists>rpsl_pk cls. cs = [DeleteObject (no_source nop) rpsl_pk cls origin_mirror (no_serial nop)])
      else filter is_write cs = [])"

lemma operation_checked_obj: "operation_checked L gs covering_roas aware obj = Inr checked \<Longrightarrow> co_obj checked = obj"
  by (auto simp: operation_checked_def rbind_Inr_conv split: prod.splits)

lemma save_parsed_writes:
  "save_parsed L gs covering_roas nop oo rpk cls = (Inr r, cs) \<Longrightarrow> permitted_writes nop r cs"
  by (auto simp: save_parsed_def permitted_writes_def
      split: if_splits option.splits database_operation.splits sum.splits dest!: operation_checked_obj)

text \<open>
  C26: what an NRTM operation writes. An operation that is refused writes nothing. One that succeeds
  makes at most one write, with its serial and the origin of mirrors: an addition stores an
  object that parsed without an error and whose source, when it has one, is that of the operation; a
  deletion deletes an object of the source of the operation.
\<close>

theorem nrtm_save_writes:
  assumes "nrtm_save L gs covering_roas nop = (Inr r, cs)"
  shows "permitted_writes nop r cs"
  using assms by (auto simp: nrtm_save_def permitted_writes_def [of nop False]
      split: if_splits sum.splits exn.splits intro: save_parsed_writes)

definition delete_example :: nrtm_operation where
  "delete_example = \<lparr>no_source = ''EX'', no_operation = op_delete, no_serial = Some 8, origin_identifier = ''8'',
     no_text = Some ''mntner: M-EX'', no_rpsl_pk = None, no_object_class = None, no_strict_key_cert = False,
     rpki_aware = False, no_class_filter = None\<rparr>"

theorem nrtm_save_writes_witness:
  "permitted_writes delete_example True [DeleteObject ''EX'' ''M-EX'' ''mntner'' origin_mirror (Some 8) :: ip3 db_call]"
proof (rule nrtm_save_writes)
  show "nrtm_save ip3_lib (\<lambda>_. None) (\<lambda>_. []) delete_example
      = (Inr True, [DeleteObject ''EX'' ''M-EX'' ''mntner'' origin_mirror (Some 8) :: ip3 db_call])"
    by code_simp
qed

section \<open>Reading a generated response\<close>

lemma take_run_append:
  "r \<noteq> [] \<Longrightarrow> (\<forall>c \<in> set r. p c) \<Longrightarrow> rest = [] \<or> \<not> p (hd rest) \<Longrightarrow> take_run p (r @ rest) = Some (r, rest)"
proof -
  assume r: "r \<noteq> []" "\<forall>c \<in> set r. p c" and rest: "rest = [] \<or> \<not> p (hd rest)"
  have "takeWhile p rest = [] \<and> dropWhile p rest = rest" using rest by (cases rest) auto
  with r show ?thesis by (simp add: take_run_def takeWhile_append2 dropWhile_append2)
qed

lemma skip_literal_append: "skip_literal lit (lit @ s) = Some s"
  by (simp add: skip_literal_def)

lemma str_int_nonneg: "0 \<le> n \<Longrightarrow> str_int n = str_nat (nat n)"
  by (simp add: str_int_def)

lemma str_int_digits: "0 \<le> n \<Longrightarrow> \<forall>c \<in> set (str_int n). isdigit c"
  by (simp add: str_int_nonneg str_nat_digits)

lemma py_int_str_int:
  assumes "0 \<le> n" "n < 10 ^ 19"
  shows "py_int (str_int n) = Some n"
proof -
  have "nat n < 10 ^ 19" using assms by simp
  then show ?thesis using py_int_str_nat [of "nat n" 19] assms by (simp add: str_int_nonneg)
qed

lemma py_strip_NL:
  assumes "s \<noteq> []" "\<not> isspace (hd s)" "\<not> isspace (last s)"
  shows "py_strip (s @ [NL]) = s"
proof -
  have nl: "isspace NL" by code_simp
  have "dropWhile isspace (rev s) = rev s"
    using assms by (cases s rule: rev_cases) simp_all
  moreover have "dropWhile isspace (s @ [NL]) = s @ [NL]" using assms by (cases s) auto
  ultimately show ?thesis using nl by (simp add: py_strip_def strip_by_def)
qed

lemma py_int_str_int_NL:
  assumes "0 \<le> n" "n < 10 ^ 19"
  shows "py_int (str_int n @ [NL]) = Some n"
proof -
  have ne: "str_int n \<noteq> []" using assms(1) by (simp add: str_int_nonneg)
  have "py_strip (str_int n @ [NL]) = str_int n"
    using str_int_digits [OF assms(1)] isdigit_not_isspace ne by (intro py_strip_NL) simp_all
  then have "py_strip (str_int n @ [NL]) = py_strip (str_int n)"
    using py_strip_digits str_int_digits [OF assms(1)] by simp
  then have "py_int (str_int n @ [NL]) = py_int (str_int n)" by (simp add: py_int_def)
  with py_int_str_int [OF assms] show ?thesis by simp
qed

text \<open>A name that can stand in a START line.\<close>

definition source_name :: "string \<Rightarrow> bool" where
  "source_name src \<longleftrightarrow> src \<noteq> [] \<and> py_upper src = src \<and> (\<forall>c \<in> set src. word_char c \<or> c = CHR ''-'')"

definition start_line :: "string \<Rightarrow> string \<Rightarrow> int \<Rightarrow> int \<Rightarrow> string" where
  "start_line version src a b = ''%START Version: '' @ version @ '' '' @ src @ '' '' @ str_int a @ ''-'' @ str_int b"

lemma match_generated_start_line:
  assumes "version \<in> {''1'', ''3''}" "source_name src" "0 \<le> a" "0 \<le> b"
  shows "match_start_line (start_line version src a b @ [NL]) = Some (version, src, str_int a, str_int b)"
proof -
  let ?sp = "\<lambda>c. c = CHR '' ''" and ?w = "\<lambda>c. word_char c \<or> c = CHR ''-''"
  have ne: "str_int a \<noteq> []" "str_int b \<noteq> []" "src \<noteq> []"
    using assms by (simp_all add: str_int_nonneg source_name_def)
  have nospace: "\<not> word_char CHR '' ''" "\<not> isdigit CHR '' ''" "\<not> isdigit CHR ''-''" "\<not> isdigit NL" by code_simp+
  have v: "version \<noteq> []" "\<forall>c \<in> set version. isdigit c" "skip_spaces ('' '' @ version @ t) = version @ t" for t
    using assms(1) by (auto simp: skip_spaces_def isdigit_def ord_def)
  have "word_char (hd src) \<or> hd src = CHR ''-''" using assms(2) ne(3) by (simp add: source_name_def)
  then have hd1: "hd src \<noteq> CHR '' ''" using nospace(1) by auto
  have hd2: "hd (str_int a) \<noteq> CHR '' ''" using str_int_digits [OF assms(3)] ne(1) nospace(2) by (metis hd_in_set)
  have 1: "take_run isdigit (version @ '' '' @ t) = Some (version, '' '' @ t)" for t
    using v nospace by (intro take_run_append) auto
  have 2: "take_run ?sp ('' '' @ src @ t) = Some ('' '', src @ t)" for t
    using ne(3) hd1 by (intro take_run_append) auto
  have 3: "take_run ?w (src @ '' '' @ t) = Some (src, '' '' @ t)" for t
    using assms(2) nospace by (intro take_run_append) (auto simp: source_name_def)
  have 4: "take_run ?sp ('' '' @ str_int a @ t) = Some ('' '', str_int a @ t)" for t
    using ne(1) hd2 by (intro take_run_append) auto
  have 5: "take_run isdigit (str_int a @ ''-'' @ t) = Some (str_int a, ''-'' @ t)" for t
    using ne(1) str_int_digits [OF assms(3)] nospace by (intro take_run_append) auto
  have 6: "take_run isdigit (str_int b @ [NL]) = Some (str_int b, [NL])"
    using ne(2) str_int_digits [OF assms(4)] nospace by (intro take_run_append) auto
  have lit: "skip_literal ''%'' (''%'' @ t) = Some t" "skip_literal ''START'' (''START'' @ t) = Some t"
    "skip_literal ''Version:'' (''Version:'' @ t) = Some t" "skip_literal ''-'' (''-'' @ t) = Some t" for t
    by (rule skip_literal_append)+
  have lit2: "skip_literal [NL] [NL] = Some []" "skip_literal '' FILTERED'' [NL] = None" by code_simp+
  have sp: "skip_spaces (''START'' @ t) = ''START'' @ t" "skip_spaces ('' '' @ ''Version:'' @ t) = ''Version:'' @ t" for t
    by (simp_all add: skip_spaces_def)
  have "start_line version src a b @ [NL]
      = ''%'' @ ''START'' @ '' '' @ ''Version:'' @ '' '' @ version @ '' '' @ src @ '' '' @ str_int a @ ''-'' @ str_int b @ [NL]"
    by (simp add: start_line_def)
  then show ?thesis
    unfolding match_start_line_def
    by (simp only: lit sp v(3) 1 2 3 4 5 6 lit2 Option.bind.simps prod.case option.case simp_thms if_True)
qed

text \<open>Lines without line ends.\<close>

definition plain_line :: "string \<Rightarrow> bool" where
  "plain_line l \<longleftrightarrow> NL \<notin> set l \<and> CR \<notin> set l"

lemma plain_strip: "plain_line l \<Longrightarrow> py_strip_chars [CR] l = l" "plain_line l \<Longrightarrow> py_strip_chars [CR, NL] l = l"
  unfolding py_strip_chars_def plain_line_def
  by (cases "l = []"; auto intro!: strip_by_id dest: hd_in_set last_in_set)+

lemma py_strip_chars_Nil [simp]: "py_strip_chars cs [] = []"
  by (simp add: py_strip_chars_def strip_by_def lstrip_by_def)

lemma strip_by_ends_nonempty: "c \<in> set s \<Longrightarrow> \<not> p c \<Longrightarrow> strip_by p s \<noteq> []"
proof -
  assume "c \<in> set s" "\<not> p c"
  then have "c \<in> set (dropWhile p s)" by (induction s) auto
  with \<open>\<not> p c\<close> show ?thesis by (auto simp: strip_by_def)
qed

lemma py_join_concat:
  "(\<forall>ls \<in> set lss. ls \<noteq> []) \<Longrightarrow> py_join sep (concat lss) = py_join sep (map (py_join sep) lss)"
proof (induction lss)
  case (Cons ls lss)
  have app: "py_join sep (xs @ ys) = py_join sep xs @ sep @ py_join sep ys" if "xs \<noteq> []" "ys \<noteq> []" for xs ys
    using that by (induction xs rule: list_nonempty_induct) (simp_all add: py_join_Cons)
  show ?case
  proof (cases "lss = []")
    case False
    then have "concat lss \<noteq> []" using Cons.prems by (cases lss) auto
    with False Cons show ?thesis by (simp add: app py_join_Cons)
  qed simp
qed simp

lemma py_join_text_of_lines: "py_join [NL] (ls @ [[]]) = text_of_lines ls"
proof (induction ls)
  case (Cons l ls)
  then show ?case by (cases ls) (simp_all add: text_of_lines_def)
qed (simp add: text_of_lines_def)

lemma py_join_ends:
  "ls \<noteq> [] \<Longrightarrow> hd ls \<noteq> [] \<Longrightarrow> py_join sep ls \<noteq> [] \<and> hd (py_join sep ls) = hd (hd ls)"
  "ls \<noteq> [] \<Longrightarrow> last ls \<noteq> [] \<Longrightarrow> py_join sep ls \<noteq> [] \<and> last (py_join sep ls) = last (last ls)"
proof -
  show "ls \<noteq> [] \<Longrightarrow> hd ls \<noteq> [] \<Longrightarrow> py_join sep ls \<noteq> [] \<and> hd (py_join sep ls) = hd (hd ls)"
    by (cases ls; cases "tl ls") (auto simp: py_join_Cons)
  show "ls \<noteq> [] \<Longrightarrow> last ls \<noteq> [] \<Longrightarrow> py_join sep ls \<noteq> [] \<and> last (py_join sep ls) = last (last ls)"
  proof (induction ls)
    case (Cons l ls)
    then show ?case by (cases "ls = []") (auto simp: py_join_Cons)
  qed simp
qed

lemma splitline_join:
  assumes "ls \<noteq> []" "\<forall>l \<in> set ls. plain_line l" "hd ls \<noteq> []" "last ls \<noteq> []"
  shows "splitline_unicodesafe (py_join [NL] ls) = ls"
proof -
  let ?s = "py_join [NL] ls"
  note ends = py_join_ends(1) [OF assms(1,3), of "[NL]"] py_join_ends(2) [OF assms(1,4), of "[NL]"]
  have "hd (hd ls) \<noteq> NL" "last (last ls) \<noteq> NL"
    using assms hd_in_set [OF assms(3)] last_in_set [OF assms(4)] by (metis hd_in_set last_in_set plain_line_def)+
  with ends have strip: "py_strip_chars [NL] ?s = ?s"
    unfolding py_strip_chars_def by (intro strip_by_id) simp
  have "py_split NL ?s = ls" using assms(1,2) by (intro py_split_join) (auto simp: plain_line_def)
  moreover have "map (py_strip_chars [CR]) ls = ls"
    using assms(2) by (intro map_idI) (simp add: plain_strip)
  ultimately show ?thesis using ends strip by (simp add: splitline_unicodesafe_def)
qed

lemma paragraphs_block:
  assumes "list_all (kept_line sc) ls" "\<forall>l \<in> set ls. plain_line l"
  shows "paragraphs_from sc cur (ls @ rest) = paragraphs_from sc (cur @ text_of_lines ls) rest"
  using assms
proof (induction ls arbitrary: cur)
  case (Cons l ls)
  then have "paragraphs_from sc cur ((l # ls) @ rest) = paragraphs_from sc (cur @ l @ [NL]) (ls @ rest)"
    by (auto simp: plain_strip Let_def kept_line_def)
  with Cons show ?case by (simp add: text_of_lines_def)
qed (simp add: text_of_lines_def)

text \<open>
  One operation of a response: its line, and a text of well-formed lines. Of a row, the text is
  what is left after the removal of hashes and the dummy values.
\<close>

definition op_line :: "string \<Rightarrow> journal_row \<Rightarrow> string" where
  "op_line version r = operation_value (jr_operation r) @ (if version = ''3'' then '' '' @ str_int (jr_serial r) else [])"

definition well_formed_row :: "settings \<Rightarrow> string \<Rightarrow> string \<Rightarrow> bool \<Rightarrow> bool \<Rightarrow> journal_row \<Rightarrow> string list \<Rightarrow> bool" where
  "well_formed_row gs src version remove_hashes exempt r ls \<longleftrightarrow>
     ls \<noteq> [] \<and> list_all (kept_line False) ls \<and> (\<forall>l \<in> set ls. plain_line l) \<and> 0 \<le> jr_serial r \<and> jr_serial r < 10 ^ 19 \<and>
     operation_text gs src version remove_hashes exempt r = Inr (op_line version r @ [NL, NL] @ text_of_lines ls)"

definition row_lines :: "string \<Rightarrow> journal_row \<times> string list \<Rightarrow> string list" where
  "row_lines version rl = [op_line version (fst rl), []] @ snd rl @ [[]]"

definition response_lines :: "string \<Rightarrow> string \<Rightarrow> int \<Rightarrow> int \<Rightarrow> (journal_row \<times> string list) list \<Rightarrow> string list" where
  "response_lines version src a b rls =
     [start_line version src a b, []] @ concat (map (row_lines version) rls) @ [''%END '' @ src]"

lemma operation_texts_rows:
  "list_all (\<lambda>(r, ls). well_formed_row gs src version rh ex r ls) rls \<Longrightarrow>
   operation_texts gs src version rh ex (map fst rls) = Inr (map (\<lambda>rl. py_join [NL] (row_lines version rl)) rls)"
proof (induction rls)
  case (Cons rl rls)
  obtain r ls where rl: "rl = (r, ls)" by (cases rl)
  have "py_join [NL] (row_lines version rl) = op_line version r @ [NL, NL] @ text_of_lines ls"
    by (simp add: row_lines_def rl py_join_Cons py_join_text_of_lines)
  with Cons rl show ?case by (simp add: well_formed_row_def)
qed simp

lemma plain_op_line: "0 \<le> jr_serial r \<Longrightarrow> plain_line (op_line version r) \<and> op_line version r \<noteq> []"
proof -
  assume "0 \<le> jr_serial r"
  moreover have "\<not> isdigit NL" "\<not> isdigit CR" by code_simp+
  ultimately have "NL \<notin> set (str_int (jr_serial r))" "CR \<notin> set (str_int (jr_serial r))"
    using str_int_digits by metis+
  then show ?thesis by (cases "jr_operation r") (auto simp: plain_line_def op_line_def)
qed

lemma plain_start_line:
  assumes "version \<in> {''1'', ''3''}" "source_name src" "0 \<le> a" "0 \<le> b"
  shows "plain_line (start_line version src a b)" "plain_line (''%END '' @ src)"
proof -
  have chars: "\<not> isdigit NL" "\<not> isdigit CR" "\<not> word_char NL" "\<not> word_char CR" by code_simp+
  have src: "NL \<notin> set src" "CR \<notin> set src"
    using assms(2) chars(3,4) unfolding source_name_def by fastforce+
  have "NL \<notin> set (str_int n)" "CR \<notin> set (str_int n)" if "0 \<le> n" for n
    using str_int_digits [OF that] chars by metis+
  then show "plain_line (start_line version src a b)" "plain_line (''%END '' @ src)"
    using src assms by (auto simp: plain_line_def start_line_def)
qed

lemma response_paragraphs:
  assumes "version \<in> {''1'', ''3''}" "source_name src" "0 \<le> a" "0 \<le> b"
    and "list_all (\<lambda>(r, ls). well_formed_row gs src version rh ex r ls) rls"
  shows "split_paragraphs_rpsl False (py_join [NL] (response_lines version src a b rls))
    = [start_line version src a b @ [NL]]
      @ concat (map (\<lambda>(r, ls). [op_line version r @ [NL], text_of_lines ls]) rls) @ [''%END '' @ src @ [NL]]"
proof -
  let ?ls = "response_lines version src a b rls"
  note plain = plain_start_line [OF assms(1-4)]
  have rows: "\<forall>l \<in> set (concat (map (row_lines version) rls)). plain_line l"
  proof
    fix l assume "l \<in> set (concat (map (row_lines version) rls))"
    then obtain r ls where "(r, ls) \<in> set rls" and l: "l = op_line version r \<or> l = [] \<or> l \<in> set ls"
      by (auto simp: row_lines_def)
    with assms(5) have "well_formed_row gs src version rh ex r ls" by (auto simp: list_all_iff)
    with l plain_op_line [of r version] show "plain_line l"
      unfolding well_formed_row_def by (auto simp: plain_line_def [of "[]"])
  qed
  have "splitline_unicodesafe (py_join [NL] ?ls) = ?ls"
    using plain rows by (intro splitline_join) (auto simp: response_lines_def start_line_def plain_line_def [of "[]"])
  moreover have blocks: "paragraphs_from False [] (concat (map (row_lines version) rls) @ rest)
      = concat (map (\<lambda>(r, ls). [op_line version r @ [NL], text_of_lines ls]) rls) @ paragraphs_from False [] rest" for rest
    using assms(5)
  proof (induction rls)
    case (Cons rl rls)
    obtain r ls where rl: "rl = (r, ls)" by (cases rl)
    from Cons.prems rl have wf: "well_formed_row gs src version rh ex r ls" by simp
    have line: "kept_line False (op_line version r)"
      by (cases "jr_operation r") (simp_all add: kept_line_def op_line_def)
    have op: "paragraphs_from False [] (op_line version r # [] # t) = (op_line version r @ [NL]) # paragraphs_from False [] t" for t
    proof -
      have "0 \<le> jr_serial r" using wf unfolding well_formed_row_def by blast
      note plain_strip(2) [OF conjunct1 [OF plain_op_line [OF this, of version]]]
      then show ?thesis using line by (simp add: kept_line_def Let_def)
    qed
    have body: "paragraphs_from False [] (ls @ [] # t) = text_of_lines ls # paragraphs_from False [] t" for t
    proof -
      have "text_of_lines ls \<noteq> []" using wf by (cases ls) (auto simp: well_formed_row_def text_of_lines_def)
      then show ?thesis
        using paragraphs_block [of False ls "[]" "[] # t"] wf
        by (simp add: well_formed_row_def)
    qed
    from Cons rl show ?case by (simp add: row_lines_def op body del: paragraphs_from.simps)
  qed simp
  moreover have start: "paragraphs_from False [] (start_line version src a b # [] # t)
      = (start_line version src a b @ [NL]) # paragraphs_from False [] t" for t
    using plain_strip(2) [OF plain(1)] by (simp add: Let_def start_line_def)
  moreover have last_par: "paragraphs_from False [] [''%END '' @ src] = [''%END '' @ src @ [NL]]"
  proof -
    have "py_strip (''%END '' @ src @ [NL]) \<noteq> []"
      unfolding py_strip_def using strip_by_ends_nonempty [of "CHR ''%''" "''%END '' @ src @ [NL]" isspace] by (simp add: isspace_def ord_def)
    then show ?thesis using plain_strip(2) [OF plain(2)] by (simp add: Let_def)
  qed
  ultimately show ?thesis
    unfolding split_paragraphs_rpsl_def split_paragraphs_lines_def
    by (simp add: response_lines_def blocks start last_par del: paragraphs_from.simps)
qed

section \<open>The stream parser on a generated response\<close>

lemma not_start_line:
  "\<not> py_startswith p ''%'' \<Longrightarrow> handle_possible_start_line src p st = (Inr False, st)"
proof -
  assume "\<not> py_startswith p ''%''"
  then have "match_start_line p = None" by (simp add: match_start_line_def skip_literal_def)
  then show ?thesis by (simp add: handle_possible_start_line_def)
qed

lemma end_not_start_line: "handle_possible_start_line src (''%END '' @ t) st = (Inr False, st)"
proof -
  have "skip_literal ''%'' (''%END '' @ t) = Some (''END '' @ t)" by (simp add: skip_literal_def)
  moreover have "skip_literal ''START'' (skip_spaces (''END '' @ t)) = None"
    by (simp add: skip_spaces_def skip_literal_def)
  ultimately have "match_start_line (''%END '' @ t) = None"
    by (simp only: match_start_line_def Option.bind.simps)
  then show ?thesis by (simp add: handle_possible_start_line_def)
qed

lemma stream_skip_start:
  "handle_possible_start_line src p st = (Inr True, st1) \<Longrightarrow>
   split_stream_paragraphs gs src cf (p # ps) c st = split_stream_paragraphs gs src cf ps c st1"
  by simp

lemma stream_end: "split_stream_paragraphs gs src cf [''%END '' @ t] c st = (Inr (''%END '' @ t), st)"
  using end_not_start_line [of src t st] by simp

text \<open>The operation that a row becomes.\<close>

definition row_op :: "settings \<Rightarrow> string \<Rightarrow> string list option \<Rightarrow> journal_row \<times> string list \<Rightarrow> nrtm_operation" where
  "row_op gs src cf rl =
     \<lparr>no_source = src, no_operation = jr_operation (fst rl), no_serial = Some (jr_serial (fst rl)),
      origin_identifier = str_int (jr_serial (fst rl)), no_text = Some (text_of_lines (snd rl)), no_rpsl_pk = None,
      no_object_class = None, no_strict_key_cert = truthy (source_setting gs src ''strict_import_keycert_objects''),
      rpki_aware = truthy (get_setting gs ''rpki.roa_source''), no_class_filter = cf\<rparr>"

lemma operation_line_row:
  assumes "0 \<le> jr_serial r" "jr_serial r < 10 ^ 19"
    and "(if current_op_serial st = -1 then first_serial st else current_op_serial st + 1) \<le> jr_serial r"
  shows "operation_line src (op_line ''3'' r @ [NL]) st
    = (Inr (operation_value (jr_operation r)), st\<lparr>current_op_serial := jr_serial r\<rparr>)"
proof -
  have nosp: "CHR '' '' \<notin> set (str_int (jr_serial r) @ [NL])" "CHR '' '' \<notin> set (operation_value (jr_operation r))"
  proof -
    have "\<not> isdigit CHR '' ''" by code_simp
    then show "CHR '' '' \<notin> set (str_int (jr_serial r) @ [NL])" using str_int_digits [OF assms(1)] by auto
    show "CHR '' '' \<notin> set (operation_value (jr_operation r))" by (cases "jr_operation r") simp_all
  qed
  have line: "op_line ''3'' r @ [NL] = operation_value (jr_operation r) @ CHR '' '' # (str_int (jr_serial r) @ [NL])"
    by (simp add: op_line_def)
  have "py_split CHR '' '' (op_line ''3'' r @ [NL]) = [operation_value (jr_operation r), str_int (jr_serial r) @ [NL]]"
    unfolding line py_split_append [OF nosp(2)] by (simp only: py_split_no_sep [OF nosp(1)])
  moreover have "CHR '' '' \<in> set (op_line ''3'' r @ [NL])" by (simp add: line)
  ultimately show ?thesis
    using assms(3) py_int_str_int_NL [OF assms(1,2)] unfolding operation_line_def Let_def
    by (simp add: int_text_def)
qed

lemma handle_operation_row:
  assumes "well_formed_row gs' src ''3'' rh ex r ls" "nrtm_source st = Some src" "src \<noteq> []"
    and "(if current_op_serial st = -1 then first_serial st else current_op_serial st + 1) \<le> jr_serial r"
  shows "handle_operation gs src cf (op_line ''3'' r @ [NL]) (Some (text_of_lines ls)) st
    = (Inr (), st\<lparr>current_op_serial := jr_serial r, operations := operations st @ [row_op gs src cf (r, ls)]\<rparr>)"
proof -
  have r: "0 \<le> jr_serial r" "jr_serial r < 10 ^ 19" "ls \<noteq> []" using assms(1) unfolding well_formed_row_def by auto
  have tt: "str_truthy (Some (text_of_lines ls))" using r(3) by (cases ls) (auto simp: str_truthy_def text_of_lines_def)
  have op: "operation_of (operation_value (jr_operation r)) = Inr (jr_operation r)"
    by (cases "jr_operation r") (simp_all add: operation_of_def)
  show ?thesis
    using assms(2,3) tt
    by (simp add: handle_operation_def str_truthy_def [of "Some src"] str_truthy_def [of None]
        operation_line_row [OF r(1,2) assms(4)] op NRTMOperation_def row_op_def shown_serial_def)
qed

lemma stream_rows:
  assumes "list_all (\<lambda>(r, ls). well_formed_row gs' src ''3'' rh ex r ls) rls" "nrtm_source st = Some src" "src \<noteq> []"
    and "sorted_wrt (<) (map (\<lambda>rl. jr_serial (fst rl)) rls)" "0 \<le> first_serial st" "-1 \<le> current_op_serial st"
    and "\<forall>rl \<in> set rls. first_serial st \<le> jr_serial (fst rl) \<and> current_op_serial st < jr_serial (fst rl)"
  shows "\<exists>n. split_stream_paragraphs gs src cf
      (concat (map (\<lambda>(r, ls). [op_line ''3'' r @ [NL], text_of_lines ls]) rls) @ ps) c st
    = split_stream_paragraphs gs src cf ps c
        (st\<lparr>current_op_serial := n, operations := operations st @ map (row_op gs src cf) rls\<rparr>)"
  using assms
proof (induction rls arbitrary: st)
  case Nil
  show ?case by (intro exI [of _ "current_op_serial st"]) simp
next
  case (Cons rl rls)
  obtain r ls where rl: "rl = (r, ls)" by (cases rl)
  have wf: "well_formed_row gs' src ''3'' rh ex r ls" and rest: "list_all (\<lambda>(r, ls). well_formed_row gs' src ''3'' rh ex r ls) rls"
    using Cons.prems(1) by (simp_all add: rl)
  have serial: "first_serial st \<le> jr_serial r" "current_op_serial st < jr_serial r"
    using Cons.prems(7) by (simp_all add: rl)
  define st1 where "st1 = st\<lparr>current_op_serial := jr_serial r, operations := operations st @ [row_op gs src cf (r, ls)]\<rparr>"
  have h: "handle_operation gs src cf (op_line ''3'' r @ [NL]) (Some (text_of_lines ls)) st = (Inr (), st1)"
    unfolding st1_def by (rule handle_operation_row [OF wf Cons.prems(2,3)]) (use serial in simp)
  have starts: "\<not> py_startswith (op_line ''3'' r @ [NL]) ''%''" "\<not> py_startswith (op_line ''3'' r @ [NL]) ''#''"
    "py_startswith (op_line ''3'' r @ [NL]) ''ADD'' \<or> py_startswith (op_line ''3'' r @ [NL]) ''DEL''"
    by (cases "jr_operation r"; simp add: op_line_def)+
  have step: "split_stream_paragraphs gs src cf ((op_line ''3'' r @ [NL]) # text_of_lines ls # t) c st
      = split_stream_paragraphs gs src cf t c st1" for t
    using starts h by (simp add: not_start_line)
  have "\<exists>n. split_stream_paragraphs gs src cf
      (concat (map (\<lambda>(r, ls). [op_line ''3'' r @ [NL], text_of_lines ls]) rls) @ ps) c st1
    = split_stream_paragraphs gs src cf ps c
        (st1\<lparr>current_op_serial := n, operations := operations st1 @ map (row_op gs src cf) rls\<rparr>)"
  proof (rule Cons.IH [OF rest])
    show "\<forall>rl \<in> set rls. first_serial st1 \<le> jr_serial (fst rl) \<and> current_op_serial st1 < jr_serial (fst rl)"
      using Cons.prems(4,7) by (auto simp: st1_def rl)
  qed (use Cons.prems serial in \<open>simp_all add: st1_def rl\<close>)
  then obtain n where "split_stream_paragraphs gs src cf
      (concat (map (\<lambda>(r, ls). [op_line ''3'' r @ [NL], text_of_lines ls]) rls) @ ps) c st1
    = split_stream_paragraphs gs src cf ps c
        (st1\<lparr>current_op_serial := n, operations := operations st1 @ map (row_op gs src cf) rls\<rparr>)" ..
  with step show ?case by (intro exI [of _ n]) (simp add: rl st1_def del: split_stream_paragraphs.simps)
qed

lemma word_char_not_isspace:
  assumes "word_char c"
  shows "\<not> isspace c"
proof -
  have "ord CHR ''_'' = 95" by code_simp
  then have "48 \<le> ord c \<and> ord c \<noteq> 133 \<and> ord c \<noteq> 160"
    using assms by (auto simp: word_char_def isalnum_def isalpha_def islower_def isupper_def isdigit_def Let_def)
  moreover have "ord c \<le> 32 \<or> ord c = 133 \<or> ord c = 160" if "isspace c"
    using that by (auto simp: isspace_def Let_def)
  ultimately show ?thesis by auto
qed

lemma end_comment:
  assumes "source_name src"
  shows "py_strip (py_upper (''%END '' @ src @ [NL])) = ''%END '' @ src"
proof -
  have "py_upper (''%END '' @ src @ [NL]) = (''%END '' @ src) @ [NL]"
  proof -
    have "py_upper ''%END '' = ''%END ''" "py_upper [NL] = [NL]" by code_simp+
    with assms show ?thesis unfolding source_name_def by (simp only: py_upper_append append_assoc)
  qed
  moreover have "\<not> isspace (last (''%END '' @ src))"
  proof -
    have "word_char (last src) \<or> last src = CHR ''-''" using assms by (simp add: source_name_def)
    moreover have "\<not> isspace CHR ''-''" by code_simp
    ultimately have "\<not> isspace (last src)" using word_char_not_isspace [of "last src"] by metis
    moreover have "src \<noteq> []" using assms unfolding source_name_def by blast
    ultimately show ?thesis by simp
  qed
  moreover have "\<not> isspace (hd (''%END '' @ src))" by (simp add: isspace_def ord_def)
  ultimately show ?thesis using py_strip_NL [of "''%END '' @ src"] by simp
qed

lemma generated_response:
  assumes "nrtm_generate gs now (Some (Some oldest, Some newest)) journal src version start end_requested rh ex = Inr out"
    and "end_requested = None \<longrightarrow> start \<le> newest" "\<not> truthy (source_setting gs src ''nrtm_response_header'')"
    and "journal start end_requested = map fst rls"
    and "list_all (\<lambda>(r, ls). well_formed_row gs src version rh ex r ls) rls"
  shows "out = py_join [NL] (response_lines version src start (case end_requested of None \<Rightarrow> newest | Some e \<Rightarrow> e) rls)"
proof -
  let ?e = "case end_requested of None \<Rightarrow> newest | Some e \<Rightarrow> e"
  note ops = operation_texts_rows [OF assms(5)]
  have "out = py_join [NL] ([start_line version src start ?e @ [NL]]
      @ map (\<lambda>rl. py_join [NL] (row_lines version rl)) rls @ [''%END '' @ src])"
    using assms(1-3) unfolding nrtm_generate_def Let_def assms(4) ops
    by (auto simp: rbind_Inr_conv response_header_def start_line_def split: if_splits option.splits)
  also have "\<dots> = py_join [NL] (map (py_join [NL])
      ([[start_line version src start ?e, []]] @ map (row_lines version) rls @ [[''%END '' @ src]]))"
    by (simp add: o_def)
  also have "\<dots> = py_join [NL] (concat ([[start_line version src start ?e, []]] @ map (row_lines version) rls @ [[''%END '' @ src]]))"
    by (rule py_join_concat [symmetric]) (auto simp: row_lines_def)
  finally show ?thesis by (simp add: response_lines_def)
qed

text \<open>
  C25: the stream parser reads back what the generator wrote. A version 3 response with operations,
  generated without a header for serials in range, from journal entries in increasing order
  whose texts, after masking and dummy values, are made of proper lines, is accepted by the
  parser for the same source; it gives the first and last serial of the response, and for each
  entry, in order, an operation with its kind, serial and text.
\<close>

theorem generated_stream_reads_back:
  assumes "nrtm_generate gs now (Some (Some oldest, Some newest)) journal src ''3'' start end_requested rh ex = Inr out"
    and "end_requested = None \<longrightarrow> start \<le> newest" "\<not> truthy (source_setting gs src ''nrtm_response_header'')"
    and "source_name src" "0 \<le> start" "start < 10 ^ 19"
    and "serial_end = (case end_requested of None \<Rightarrow> newest | Some e \<Rightarrow> e)" "0 \<le> serial_end" "serial_end < 10 ^ 19"
    and "journal start end_requested = map fst rls"
    and "list_all (\<lambda>(r, ls). well_formed_row gs src ''3'' rh ex r ls) rls"
    and "sorted_wrt (<) (map (\<lambda>rl. jr_serial (fst rl)) rls)" "\<forall>rl \<in> set rls. start \<le> jr_serial (fst rl)"
    and "get_object_class_filter_for_source gs' src = Inr cf"
  shows "\<exists>st :: 'ip nrtm_stream. NRTMStreamParser gs' src out = (Inr (), st) \<and> first_serial st = start \<and>
    last_serial st = serial_end \<and> operations st = map (row_op gs' src cf) rls"
proof -
  have out: "out = py_join [NL] (response_lines ''3'' src start serial_end rls)"
    using generated_response [OF assms(1-3,10,11)] assms(7) by simp
  define st1 :: "'ip nrtm_stream" where
    "st1 = stream_init\<lparr>nrtm_version := ''3'', nrtm_source := Some src, first_serial := start, last_serial := serial_end\<rparr>"
  have src: "src \<noteq> []" "py_upper src = src" using assms(4) by (simp_all add: source_name_def)
  have start: "handle_possible_start_line src (start_line ''3'' src start serial_end @ [NL]) stream_init = (Inr True, st1)"
    using match_generated_start_line [of "''3''" src start serial_end] assms(4,5,8) py_int_str_int assms(5,6,8,9) src
    by (simp add: handle_possible_start_line_def str_truthy_def int_text_def Let_def st1_def stream_init_def)
  obtain n where rows: "split_stream_paragraphs gs' src cf
      (concat (map (\<lambda>(r, ls). [op_line ''3'' r @ [NL], text_of_lines ls]) rls) @ [''%END '' @ src @ [NL]]) [] st1
    = split_stream_paragraphs gs' src cf [''%END '' @ src @ [NL]] []
        (st1\<lparr>current_op_serial := n, operations := operations st1 @ map (row_op gs' src cf) rls\<rparr>)"
    using stream_rows [OF assms(11), of st1 gs' cf "[''%END '' @ src @ [NL]]" "[]"] assms(5,12,13) src
    by (fastforce simp: st1_def stream_init_def)
  define st2 where "st2 = st1\<lparr>current_op_serial := n, operations := map (row_op gs' src cf) rls\<rparr>"
  have "split_stream_paragraphs gs' src cf (split_paragraphs_rpsl False out) [] stream_init
      = (Inr (''%END '' @ src @ [NL]), st2)"
  proof -
    have pars: "split_paragraphs_rpsl False out = (start_line ''3'' src start serial_end @ [NL])
        # concat (map (\<lambda>(r, ls). [op_line ''3'' r @ [NL], text_of_lines ls]) rls) @ [''%END '' @ src @ [NL]]"
      unfolding out using response_paragraphs [OF _ assms(4,5,8,11)] by simp
    have "operations st1 = []" by (simp add: st1_def stream_init_def)
    then show ?thesis
      unfolding pars stream_skip_start [OF start] rows stream_end by (simp add: st2_def)
  qed
  then have "split_stream gs' src cf out
      = (Inr (), if 0 < last_serial st2 then st2\<lparr>stream_calls := stream_calls st2 @ [RecordSerialNewestMirror src (last_serial st2)]\<rparr> else st2)"
    using end_comment [OF assms(4)] by (simp add: split_stream_def Let_def st2_def st1_def)
  then show ?thesis
    using assms(14) by (auto simp: NRTMStreamParser_def st2_def st1_def)
qed

definition journal_example :: journal_row where
  "journal_example = \<lparr>jr_operation = add_or_update, jr_serial = 5, jr_object_text = ''person: a'' @ [NL],
     jr_object_class = ''person'', jr_rpsl_pk = ''A'', jr_timestamp = 0\<rparr>"

definition journal_settings :: settings where
  "journal_settings n = (if n = ''sources.EX.keep_journal'' then Some (CBool True) else None)"

definition response_example :: string where
  "response_example = ''%START Version: 3 EX 5-7'' @ [NL, NL] @ ''ADD 5'' @ [NL, NL] @ ''person: a'' @ [NL, NL] @ ''%END EX''"

lemma response_example_generated:
  "nrtm_generate journal_settings 0 (Some (Some 2, Some 7)) (\<lambda>_ _. [journal_example]) ''EX'' ''3'' 5 None True True
   = Inr response_example"
  by code_simp

theorem generated_stream_reads_back_witness:
  "\<exists>st :: ip3 nrtm_stream. NRTMStreamParser (\<lambda>_. None) ''EX'' response_example = (Inr (), st) \<and> first_serial st = 5 \<and>
    last_serial st = 7 \<and> operations st = map (row_op (\<lambda>_. None) ''EX'' None) [(journal_example, [''person: a''])]"
proof (rule generated_stream_reads_back [OF response_example_generated])
  have wf: "well_formed_row journal_settings ''EX'' ''3'' True True journal_example [''person: a'']"
  proof -
    have "operation_text journal_settings ''EX'' ''3'' True True journal_example
        = Inr (op_line ''3'' journal_example @ [NL, NL] @ text_of_lines [''person: a''])" by code_simp
    moreover have "kept_line False ''person: a''" "plain_line ''person: a''" by code_simp+
    ultimately show ?thesis by (simp add: well_formed_row_def journal_example_def)
  qed
  then show "list_all (\<lambda>(r, ls). well_formed_row journal_settings ''EX'' ''3'' True True r ls) [(journal_example, [''person: a''])]"
    by simp
  show "\<not> truthy (source_setting journal_settings ''EX'' ''nrtm_response_header'')" by code_simp
  show "source_name ''EX''" by code_simp
  show "get_object_class_filter_for_source (\<lambda>_. None) ''EX'' = Inr None" by code_simp
qed (simp_all add: journal_example_def)

section \<open>Serials of a response\<close>

text \<open>
  C28: a response with operations covers only serials that exist. When the generator answers a query
  that is not for newer updates than the last, and its end is not serial 0, the serials from the start to the displayed
  end are in order and within the journal, and no more than the configured limit apart.
\<close>

theorem nrtm_response_range:
  assumes "nrtm_generate gs now (Some (Some oldest, Some newest)) journal src version start end_requested rh ex = Inr out"
    and "end_requested = None \<longrightarrow> start \<le> newest" "end_requested \<noteq> Some 0"
    and "serial_end = (case end_requested of None \<Rightarrow> newest | Some e \<Rightarrow> e)"
  shows "oldest \<le> start \<and> start \<le> serial_end \<and> serial_end \<le> newest \<and>
    (truthy (source_setting gs src ''nrtm_query_serial_range_limit'') \<longrightarrow>
      (\<exists>limit. cval_int (source_setting gs src ''nrtm_query_serial_range_limit'') = Inr limit \<and> serial_end - start \<le> limit))"
  using assms unfolding nrtm_generate_def check_range_def Let_def
  by (auto simp: rbind_Inr_conv not_less split: if_splits option.splits)

theorem nrtm_response_range_witness:
  "nrtm_generate journal_settings 0 (Some (Some 2, Some 7)) (\<lambda>_ _. [journal_example]) ''EX'' ''3'' 5 None True True
     = Inr response_example \<and> (2::int) \<le> 5 \<and> (5::int) \<le> 7"
  using response_example_generated nrtm_response_range [OF response_example_generated, of 7] by simp

text \<open>
  An end of 0 is not compared with the start, since the test is by truth value: the response then
  announces a range that ends before it starts.
\<close>

lemma end_zero_accepted:
  "nrtm_generate journal_settings 0 (Some (Some 2, Some 7)) (\<lambda>_ _. []) ''EX'' ''3'' 5 (Some 0) True True
   = Inr (''%START Version: 3 EX 5-0'' @ [NL, NL] @ ''%END EX'')"
  by code_simp

end
