(* ===== verification/Database.thy ===== *)
theory Database
  imports NRTM Route_Pref
begin

text \<open>
  \<^verbatim>\<open>irrd/storage/database_handler.py\<close>: the handler through which every other component reads and
  writes, with its buffer of objects, its transaction, the tracker of journal and source status and
  the tracker of changed objects. The tables are lists of rows in order of insertion; the
  statements of the source are the functions on these lists that their SQL denotes, with the unique
  constraints of \<^verbatim>\<open>irrd/storage/models.py\<close> (an insertion that breaks one fails). Row keys
  and global serials come from counters. Columns for addresses hold the text that the handler
  writes. The time is an argument, and \<open>isoformat\<close> gives its text.
\<close>

section \<open>Tables\<close>

text \<open>The columns of an object as the handler writes them, and a stored row.\<close>

record columns =
  c_rpsl_pk :: string
  c_source :: string
  c_class :: string
  c_parsed :: "(string, pvalue) dict"
  c_text :: string
  c_ip_version :: "nat option"
  c_ip_first :: "string option"
  c_ip_last :: "string option"
  c_ip_size :: "int option"
  c_prefix :: "string option"
  c_prefix_length :: "nat option"
  c_asn_first :: "int option"
  c_asn_last :: "int option"
  c_rpki :: rpki_status
  c_scope :: scopefilter_status
  c_pref :: route_preference_status
  c_updated :: int

record db_row = columns +
  row_pk :: string
  row_created :: int

record journal_entry =
  je_serial_global :: int
  je_rpsl_pk :: string
  je_source :: string
  je_origin :: journal_entry_origin
  je_serial :: int
  je_operation :: database_operation
  je_class :: string
  je_text :: string
  je_timestamp :: int

record suspended_row =
  sp_pk :: string
  sp_rpsl_pk :: string
  sp_source :: string
  sp_class :: string
  sp_text :: string
  sp_mntners :: "string list"
  sp_timestamp :: int
  sp_original_created :: int
  sp_original_updated :: int

record protected_name =
  pn_rpsl_pk :: string
  pn_source :: string
  pn_class :: string
  pn_name :: string

record stored_roa =
  ro_ip_version :: nat
  ro_prefix :: string
  ro_asn :: int
  ro_max_length :: int
  ro_trust_anchor :: string

record nrtm4_client_status =
  cl_session_id :: "string option"
  cl_version :: "int option"
  cl_current_key :: "string option"
  cl_next_key :: "string option"
  cl_previous_file_hashes :: "(string, string list) dict option"

record server_delta =
  sd_filename :: string
  sd_hash :: string
  sd_timestamp :: int
  sd_version :: int
  sd_serial_global_start :: int
  sd_serial_global_end :: int

record nrtm4_server_status =
  sv_session_id :: "string option"
  sv_version :: "int option"
  sv_last_update_notification_file_update :: "int option"
  sv_last_snapshot_version :: "int option"
  sv_last_snapshot_global_serial :: "int option"
  sv_last_snapshot_filename :: "string option"
  sv_last_snapshot_timestamp :: "int option"
  sv_last_snapshot_hash :: "string option"
  sv_previous_deltas :: "server_delta list"

definition no_client_status :: nrtm4_client_status where
  "no_client_status = \<lparr>cl_session_id = None, cl_version = None, cl_current_key = None, cl_next_key = None,
     cl_previous_file_hashes = None\<rparr>"

definition no_server_status :: nrtm4_server_status where
  "no_server_status = \<lparr>sv_session_id = None, sv_version = None, sv_last_update_notification_file_update = None,
     sv_last_snapshot_version = None, sv_last_snapshot_global_serial = None, sv_last_snapshot_filename = None,
     sv_last_snapshot_timestamp = None, sv_last_snapshot_hash = None, sv_previous_deltas = []\<rparr>"

record status_row =
  st_source :: string
  serial_oldest_seen :: "int option"
  serial_newest_seen :: "int option"
  serial_oldest_journal :: "int option"
  serial_newest_journal :: "int option"
  serial_last_export :: "int option"
  serial_newest_mirror :: "int option"
  force_reload :: bool
  synchronised_serials :: bool
  last_error :: "string option"
  last_error_timestamp :: "int option"
  rpsl_data_updated :: int
  nrtm4_client :: nrtm4_client_status
  nrtm4_server :: nrtm4_server_status

record tables =
  t_objects :: "db_row list"
  t_journal :: "journal_entry list"
  t_status :: "status_row list"
  t_suspended :: "suspended_row list"
  t_protected :: "protected_name list"
  t_roas :: "stored_roa list"

definition object_key :: "('a) columns_scheme \<Rightarrow> string \<times> string \<times> string" where
  "object_key r = (c_rpsl_pk r, c_source r, c_class r)"

definition object_is_visible :: "rpki_status \<Rightarrow> scopefilter_status \<Rightarrow> route_preference_status \<Rightarrow> bool" where
  "object_is_visible rpki scope pref \<longleftrightarrow>
     rpki_is_visible rpki \<and> scopefilter_is_visible scope \<and> routepref_is_visible pref"

section \<open>The handler\<close>

record tracker =
  journaling_enabled :: bool
  new_serials_per_source :: "(string, int list) dict"
  sources_seen :: "string list"
  sources_rpsl_data_updated :: "string list"
  newest_mirror_serials :: "(string, int) dict"
  mirroring_error :: "(string, string) dict"
  exported_serials :: "(string, int option) dict"
  nrtm4_client_updates :: "(string, nrtm4_client_status) dict"
  nrtm4_server_updates :: "(string, nrtm4_server_status) dict"
  journal_table_locked :: bool
  synchronised_cache :: "(string, bool) dict"

text \<open>The tracker of changed objects; a prefix is an address object or the text of a column.\<close>

record 'ip changed_objects =
  object_classes :: "string list"
  prefixes_for_routepref :: "('ip + string) list"

datatype event = PublishUpdate string | SignalReload "string list"

type_synonym buffered = "columns \<times> int option \<times> journal_entry_origin \<times> int option"

record 'ip handler =
  readonly :: bool
  h_journaling :: bool
  committed :: tables
  cur :: tables
  next_pk :: nat
  next_global :: int
  rpsl_pk_source_seen :: "string list"
  rpsl_upsert_buffer :: "buffered list"
  roa_insert_buffer :: "stored_roa list"
  rpsl_guaranteed_no_existing :: bool
  status_tracker :: tracker
  changed_objects_tracker :: "'ip changed_objects"
  events :: "event list"

definition tracker_init :: "bool \<Rightarrow> tracker" where
  "tracker_init journaling = \<lparr>journaling_enabled = journaling, new_serials_per_source = [], sources_seen = [],
     sources_rpsl_data_updated = [], newest_mirror_serials = [], mirroring_error = [], exported_serials = [],
     nrtm4_client_updates = [], nrtm4_server_updates = [], journal_table_locked = False, synchronised_cache = []\<rparr>"

definition tracker_reset :: "tracker \<Rightarrow> tracker" where
  "tracker_reset t = tracker_init (journaling_enabled t)"

definition changed_reset :: "'ip changed_objects" where
  "changed_reset = \<lparr>object_classes = [], prefixes_for_routepref = []\<rparr>"

definition start_transaction :: "'ip handler \<Rightarrow> 'ip handler" where
  "start_transaction h = h\<lparr>rpsl_pk_source_seen := [], rpsl_upsert_buffer := [], roa_insert_buffer := [],
     rpsl_guaranteed_no_existing := True, status_tracker := tracker_init (h_journaling h)\<rparr>"

definition DatabaseHandler :: "settings \<Rightarrow> bool \<Rightarrow> tables \<Rightarrow> nat \<Rightarrow> int \<Rightarrow> 'ip handler" where
  "DatabaseHandler gs ro stored pks globals =
     \<lparr>readonly = (truthy (get_setting gs ''readonly_standby'') \<or> ro), h_journaling = (\<not> ro), committed = stored,
      cur = stored, next_pk = pks, next_global = globals, rpsl_pk_source_seen = [], rpsl_upsert_buffer = [],
      roa_insert_buffer = [], rpsl_guaranteed_no_existing = True, status_tracker = tracker_init (\<not> ro),
      changed_objects_tracker = changed_reset, events = []\<rparr>"

definition disable_journaling :: "'ip handler \<Rightarrow> 'ip handler" where
  "disable_journaling h =
     h\<lparr>h_journaling := False, status_tracker := (status_tracker h)\<lparr>journaling_enabled := False\<rparr>\<rparr>"

definition enable_journaling :: "'ip handler \<Rightarrow> 'ip handler" where
  "enable_journaling h =
     h\<lparr>h_journaling := True, status_tracker := (status_tracker h)\<lparr>journaling_enabled := True\<rparr>\<rparr>"

definition check_write_permitted :: "'ip handler \<Rightarrow> 'ip handler res" where
  "check_write_permitted h =
     (if readonly h
      then Inl (GenericException ''Attempted to write to SQL database from readonly database handler'')
      else Inr h)"

definition on_tables :: "(tables \<Rightarrow> tables) \<Rightarrow> 'ip handler \<Rightarrow> 'ip handler" where
  "on_tables f h = h\<lparr>cur := f (cur h)\<rparr>"

definition on_tracker :: "(tracker \<Rightarrow> tracker) \<Rightarrow> 'ip handler \<Rightarrow> 'ip handler" where
  "on_tracker f h = h\<lparr>status_tracker := f (status_tracker h)\<rparr>"

section \<open>Changed objects\<close>

definition object_modified :: "string \<Rightarrow> string \<Rightarrow> ('ip + string) option \<Rightarrow> journal_entry_origin option
    \<Rightarrow> 'ip handler \<Rightarrow> 'ip handler" where
  "object_modified cls src prefix_opt orig h =
     (let c = changed_objects_tracker h;
          c1 = c\<lparr>object_classes := List.insert cls (object_classes c)\<rparr>
      in h\<lparr>changed_objects_tracker :=
             (case prefix_opt of
                None \<Rightarrow> c1
              | Some p \<Rightarrow>
                  if p \<noteq> Inr [] \<and> cls \<in> set RPKI_RELEVANT_OBJECT_CLASSES \<and> orig \<noteq> Some origin_route_preference
                     \<and> src \<noteq> RPKI_IRR_PSEUDO_SOURCE
                  then c1\<lparr>prefixes_for_routepref := List.insert p (prefixes_for_routepref c1)\<rparr>
                  else c1)\<rparr>)"

definition object_modified_dict :: "('a) columns_scheme \<Rightarrow> journal_entry_origin \<Rightarrow> 'ip handler \<Rightarrow> 'ip handler" where
  "object_modified_dict r orig = object_modified (c_class r) (c_source r) (map_option Inr (c_prefix r)) (Some orig)"

definition all_object_classes_updated :: "'ip handler \<Rightarrow> 'ip handler" where
  "all_object_classes_updated h =
     h\<lparr>changed_objects_tracker := (changed_objects_tracker h)\<lparr>object_classes :=
         fold List.insert (map fst OBJECT_CLASS_MAPPING) (object_classes (changed_objects_tracker h))\<rparr>\<rparr>"

section \<open>Serials and the journal\<close>

definition find_status :: "string \<Rightarrow> tables \<Rightarrow> status_row option" where
  "find_status src T = find (\<lambda>s. st_source s = src) (t_status T)"

definition serials_synchronised_settings :: "settings \<Rightarrow> string \<Rightarrow> bool" where
  "serials_synchronised_settings gs src \<longleftrightarrow>
     (\<not> truthy (get_setting gs ''scopefilter'') \<or> truthy (source_setting gs src ''scopefilter_excluded'')) \<and>
     (\<not> truthy (get_setting gs ''rpki.roa_source'') \<or> truthy (source_setting gs src ''rpki_excluded'')) \<and>
     \<not> truthy (source_setting gs src ''route_object_preference'') \<and>
     truthy (source_setting gs src ''nrtm_host'')"

text \<open>The query looks for the upper case name of the source.\<close>

definition is_serial_synchronised :: "settings \<Rightarrow> string \<Rightarrow> bool \<Rightarrow> tables \<Rightarrow> bool" where
  "is_serial_synchronised gs src settings_only T \<longleftrightarrow>
     (if settings_only then True
      else (case find_status (py_upper src) T of None \<Rightarrow> True | Some s \<Rightarrow> synchronised_serials s)) \<and>
     serials_synchronised_settings gs src"

definition tracker_is_serial_synchronised :: "settings \<Rightarrow> string \<Rightarrow> 'ip handler \<Rightarrow> bool \<times> 'ip handler" where
  "tracker_is_serial_synchronised gs src h =
     (case dict_get (synchronised_cache (status_tracker h)) src of
        Some b \<Rightarrow> (b, h)
      | None \<Rightarrow>
          (let b = is_serial_synchronised gs src False (cur h)
           in (b, on_tracker (\<lambda>t. t\<lparr>synchronised_cache := dict_set src b (synchronised_cache t)\<rparr>) h)))"

definition list_max :: "int list \<Rightarrow> int option" where
  "list_max xs = (if xs = [] then None else Some (foldl max (hd xs) (tl xs)))"

definition list_min :: "int list \<Rightarrow> int option" where
  "list_min xs = (if xs = [] then None else Some (foldl min (hd xs) (tl xs)))"

definition journal_serials :: "string \<Rightarrow> tables \<Rightarrow> int list" where
  "journal_serials src T = map je_serial (filter (\<lambda>e. je_source e = src) (t_journal T))"

text \<open>
  \<^verbatim>\<open>COALESCE(MAX(serial_nrtm), MAX(serial_newest_seen), 0) + 1\<close> over the status of the source, joined
  with its journal: without a status row there is nothing to join.
\<close>

definition next_serial_query :: "string \<Rightarrow> tables \<Rightarrow> int" where
  "next_serial_query src T =
     (case find_status src T of
        None \<Rightarrow> 1
      | Some s \<Rightarrow>
          (case list_max (journal_serials src T) of
             Some n \<Rightarrow> n + 1
           | None \<Rightarrow> (case serial_newest_seen s of Some n \<Rightarrow> n + 1 | None \<Rightarrow> 1)))"

definition new_serials :: "string \<Rightarrow> tracker \<Rightarrow> int list" where
  "new_serials src t = (case dict_get (new_serials_per_source t) src of None \<Rightarrow> [] | Some ns \<Rightarrow> ns)"

definition add_new_serial :: "string \<Rightarrow> int \<Rightarrow> tracker \<Rightarrow> tracker" where
  "add_new_serial src n t =
     t\<lparr>new_serials_per_source := dict_set src (List.insert n (new_serials src t)) (new_serials_per_source t)\<rparr>"

definition insert_journal :: "journal_entry \<Rightarrow> 'ip handler \<Rightarrow> 'ip handler res" where
  "insert_journal e h =
     (if je_serial e \<in> set (journal_serials (je_source e) (cur h))
      then Inl (DatabaseError ''rpsl_objects_history_serial_nrtm_source_unique'')
      else Inr (on_tables (\<lambda>T. T\<lparr>t_journal := t_journal T @ [e]\<rparr>) h))"

definition operation_serial :: "settings \<Rightarrow> string \<Rightarrow> int option \<Rightarrow> 'ip handler \<Rightarrow> int option \<times> 'ip handler" where
  "operation_serial gs src source_serial h =
     (case tracker_is_serial_synchronised gs src h of
        (True, h1) \<Rightarrow> (source_serial, h1)
      | (False, h1) \<Rightarrow>
          (Some (case list_max (new_serials src (status_tracker h1)) of
                   Some n \<Rightarrow> n + 1 | None \<Rightarrow> next_serial_query src (cur h1)), h1))"

definition record_operation :: "settings \<Rightarrow> int \<Rightarrow> database_operation \<Rightarrow> string \<Rightarrow> string \<Rightarrow> string \<Rightarrow> string
    \<Rightarrow> journal_entry_origin \<Rightarrow> int option \<Rightarrow> 'ip handler \<Rightarrow> 'ip handler res" where
  "record_operation gs now operation rpsl_pk src cls txt orig source_serial h0 =
     (let h = on_tracker (\<lambda>t. t\<lparr>sources_seen := List.insert src (sources_seen t),
                 sources_rpsl_data_updated := List.insert src (sources_rpsl_data_updated t)\<rparr>) h0
      in if journaling_enabled (status_tracker h) \<and> truthy (source_setting gs src ''keep_journal'')
         then (let h1 = on_tracker (\<lambda>t. t\<lparr>journal_table_locked := True\<rparr>) h
               in (case operation_serial gs src source_serial h1 of
                     (None, h2) \<Rightarrow> Inl (DatabaseError ''null value in column serial_nrtm'')
                   | (Some n, h2) \<Rightarrow>
                       rbind (insert_journal \<lparr>je_serial_global = next_global h2, je_rpsl_pk = rpsl_pk, je_source = src,
                                je_origin = orig, je_serial = n, je_operation = operation, je_class = cls,
                                je_text = txt, je_timestamp = now\<rparr>
                              (h2\<lparr>next_global := next_global h2 + 1\<rparr>)) (\<lambda>h3.
                         Inr (on_tracker (add_new_serial src n) h3))))
         else Inr h)"

definition record_operation_from_rpsl_dict :: "settings \<Rightarrow> int \<Rightarrow> database_operation \<Rightarrow> ('a) columns_scheme
    \<Rightarrow> journal_entry_origin \<Rightarrow> 'ip handler \<Rightarrow> 'ip handler res" where
  "record_operation_from_rpsl_dict gs now operation r orig =
     record_operation gs now operation (c_rpsl_pk r) (c_source r) (c_class r) (c_text r) orig None"

section \<open>Other records of the tracker\<close>

definition see_source :: "string \<Rightarrow> tracker \<Rightarrow> tracker" where
  "see_source src t = t\<lparr>sources_seen := List.insert src (sources_seen t)\<rparr>"

definition record_serial_newest_mirror :: "string \<Rightarrow> int \<Rightarrow> 'ip handler \<Rightarrow> 'ip handler res" where
  "record_serial_newest_mirror src serial h =
     rbind (check_write_permitted h) (\<lambda>h. Inr (on_tracker (\<lambda>t.
       (see_source src t)\<lparr>newest_mirror_serials := dict_set src serial (newest_mirror_serials t)\<rparr>) h))"

definition record_serial_seen :: "string \<Rightarrow> int \<Rightarrow> 'ip handler \<Rightarrow> 'ip handler res" where
  "record_serial_seen src serial h =
     rbind (check_write_permitted h) (\<lambda>h. Inr (on_tracker (\<lambda>t. add_new_serial src serial (see_source src t)) h))"

definition record_mirror_error :: "string \<Rightarrow> string \<Rightarrow> 'ip handler \<Rightarrow> 'ip handler res" where
  "record_mirror_error src err h =
     rbind (check_write_permitted h) (\<lambda>h. Inr (on_tracker (\<lambda>t.
       (see_source src t)\<lparr>mirroring_error := dict_set src err (mirroring_error t)\<rparr>) h))"

definition record_serial_exported :: "string \<Rightarrow> int option \<Rightarrow> 'ip handler \<Rightarrow> 'ip handler res" where
  "record_serial_exported src serial h =
     rbind (check_write_permitted h) (\<lambda>h. Inr (on_tracker (\<lambda>t.
       (see_source src t)\<lparr>exported_serials := dict_set src serial (exported_serials t)\<rparr>) h))"

definition record_nrtm4_client_status :: "string \<Rightarrow> nrtm4_client_status \<Rightarrow> 'ip handler \<Rightarrow> 'ip handler res" where
  "record_nrtm4_client_status src status h =
     rbind (check_write_permitted h) (\<lambda>h. Inr (on_tracker (\<lambda>t.
       (see_source src t)\<lparr>nrtm4_client_updates := dict_set src status (nrtm4_client_updates t)\<rparr>) h))"

definition record_nrtm4_server_status :: "string \<Rightarrow> nrtm4_server_status \<Rightarrow> 'ip handler \<Rightarrow> 'ip handler res" where
  "record_nrtm4_server_status src status h =
     rbind (check_write_permitted h) (\<lambda>h. Inr (on_tracker (\<lambda>t.
       (see_source src t)\<lparr>nrtm4_server_updates := dict_set src status (nrtm4_server_updates t)\<rparr>) h))"

section \<open>Writing objects\<close>

definition default_created :: "int \<Rightarrow> int option \<Rightarrow> int" where
  "default_created now created = (case created of None \<Rightarrow> now | Some c \<Rightarrow> c)"

text \<open>
  One row of \<^verbatim>\<open>INSERT ... ON CONFLICT DO UPDATE\<close>: a row with the same key keeps its primary key and
  takes every other column of the proposed row, the creation time included.
\<close>

definition upsert_row :: "int \<Rightarrow> columns \<Rightarrow> int option \<Rightarrow> 'ip handler \<Rightarrow> 'ip handler" where
  "upsert_row now cols created h =
     (let proposed = (\<lambda>key. columns.extend cols (db_row.fields key (default_created now created)))
      in if list_ex (\<lambda>r. object_key r = object_key cols) (t_objects (cur h))
         then on_tables (\<lambda>T. T\<lparr>t_objects :=
                map (\<lambda>r. if object_key r = object_key cols then proposed (row_pk r) else r) (t_objects T)\<rparr>) h
         else (on_tables (\<lambda>T. T\<lparr>t_objects := t_objects T @ [proposed (str_nat (next_pk h))]\<rparr>) h)
                \<lparr>next_pk := next_pk h + 1\<rparr>)"

definition buffer_key :: "buffered \<Rightarrow> string \<times> string \<times> string" where
  "buffer_key b = object_key (fst b)"

text \<open>
  The statement for the whole buffer. PostgreSQL refuses two proposed rows with the same key, and
  without the conflict clause also a key that is stored already.
\<close>

definition insert_buffer :: "int \<Rightarrow> 'ip handler \<Rightarrow> 'ip handler res" where
  "insert_buffer now h =
     (if \<not> distinct (map buffer_key (rpsl_upsert_buffer h))
      then Inl (DatabaseError ''ON CONFLICT DO UPDATE command cannot affect row a second time'')
      else if rpsl_guaranteed_no_existing h
              \<and> list_ex (\<lambda>b. list_ex (\<lambda>r. object_key r = buffer_key b) (t_objects (cur h))) (rpsl_upsert_buffer h)
      then Inl (DatabaseError ''rpsl_objects_rpsl_pk_source_class_unique'')
      else Inr (fold (\<lambda>b. upsert_row now (fst b) (fst (snd b))) (rpsl_upsert_buffer h) h))"

definition columns_visible :: "('a) columns_scheme \<Rightarrow> bool" where
  "columns_visible r = object_is_visible (c_rpki r) (c_scope r) (c_pref r)"

fun journal_buffer :: "settings \<Rightarrow> int \<Rightarrow> buffered list \<Rightarrow> 'ip handler \<Rightarrow> 'ip handler res" where
  "journal_buffer gs now [] h = Inr h"
| "journal_buffer gs now ((cols, created, orig, source_serial) # bs) h =
     (if \<not> columns_visible cols then journal_buffer gs now bs h
      else rbind (record_operation gs now add_or_update (c_rpsl_pk cols) (c_source cols) (c_class cols) (c_text cols)
             orig source_serial h) (journal_buffer gs now bs))"

definition flush_rpsl_object_writing_buffer :: "settings \<Rightarrow> int \<Rightarrow> 'ip handler \<Rightarrow> 'ip handler res" where
  "flush_rpsl_object_writing_buffer gs now h =
     (if rpsl_upsert_buffer h = [] then Inr h
      else rbind (check_write_permitted h) (\<lambda>h.
           rbind (insert_buffer now h) (\<lambda>h1.
           rbind (journal_buffer gs now (rpsl_upsert_buffer h1) h1) (\<lambda>h2.
             Inr (h2\<lparr>rpsl_pk_source_seen := [], rpsl_upsert_buffer := []\<rparr>)))))"

definition MAX_RECORDS_BUFFER_BEFORE_INSERT :: int where
  "MAX_RECORDS_BUFFER_BEFORE_INSERT = 15000"

text \<open>The dictionary of an object. Its route preference status is always that of a new object.\<close>

definition object_dict :: "'ip extlib \<Rightarrow> settings \<Rightarrow> (int \<Rightarrow> string) \<Rightarrow> int \<Rightarrow> 'ip checked_object \<Rightarrow> columns res" where
  "object_dict L gs isoformat now co =
     (let obj = co_obj co
      in rbind (render_rpsl_text gs (Some (isoformat now)) obj) (\<lambda>txt.
           Inr \<lparr>c_rpsl_pk = pk obj, c_source = data_str obj ''source'', c_class = rpsl_object_class (klass obj),
                c_parsed = parsed_data obj, c_text = txt, c_ip_version = obj_ip_version L obj,
                c_ip_first = map_option (ip_str L) (ip_first obj), c_ip_last = map_option (ip_str L) (ip_last obj),
                c_ip_size = (case (ip_first obj, ip_last obj) of
                   (Some f, Some l) \<Rightarrow> Some (ip_int L l - ip_int L f + 1) | _ \<Rightarrow> None),
                c_prefix = map_option (ip_str L) (rpsl_object.prefix obj), c_prefix_length = prefix_length obj,
                c_asn_first = asn_first obj, c_asn_last = asn_last obj, c_rpki = co_rpki_status co,
                c_scope = co_scopefilter_status co, c_pref = pref_visible, c_updated = now\<rparr>))"

definition pk_source_text :: "columns \<Rightarrow> string" where
  "pk_source_text cols = c_rpsl_pk cols @ ''-'' @ c_source cols"

text \<open>
  The part of the method from the buffer on; the early flush comes before the dictionary is built,
  which only reads the object.
\<close>

definition buffer_object :: "settings \<Rightarrow> int \<Rightarrow> columns \<Rightarrow> 'ip option \<Rightarrow> journal_entry_origin \<Rightarrow> int option \<Rightarrow> int option
    \<Rightarrow> 'ip handler \<Rightarrow> 'ip handler res" where
  "buffer_object gs now cols obj_prefix orig source_serial forced_created h0 =
     rbind (if pk_source_text cols \<in> set (rpsl_pk_source_seen h0)
            then flush_rpsl_object_writing_buffer gs now h0 else Inr h0) (\<lambda>h.
       (let h1 = h\<lparr>rpsl_upsert_buffer := rpsl_upsert_buffer h @ [(cols, forced_created, orig, source_serial)],
                   rpsl_pk_source_seen := List.insert (pk_source_text cols) (rpsl_pk_source_seen h)\<rparr>;
            h2 = object_modified (c_class cols) (c_source cols) (map_option Inl obj_prefix) None h1
        in if MAX_RECORDS_BUFFER_BEFORE_INSERT < int (length (rpsl_upsert_buffer h2))
           then flush_rpsl_object_writing_buffer gs now h2 else Inr h2))"

definition upsert_rpsl_object :: "'ip extlib \<Rightarrow> settings \<Rightarrow> (int \<Rightarrow> string) \<Rightarrow> int \<Rightarrow> 'ip checked_object
    \<Rightarrow> journal_entry_origin \<Rightarrow> bool \<Rightarrow> int option \<Rightarrow> int option \<Rightarrow> 'ip handler \<Rightarrow> 'ip handler res" where
  "upsert_rpsl_object L gs isoformat now co orig no_existing source_serial forced_created h =
     rbind (check_write_permitted h) (\<lambda>h.
       if dict_get (parsed_data (co_obj co)) ''source'' = None then Inl (KeyError ''source'')
       else rbind (object_dict L gs isoformat now co) (\<lambda>cols.
              buffer_object gs now cols (rpsl_object.prefix (co_obj co)) orig source_serial forced_created
                (h\<lparr>rpsl_guaranteed_no_existing := no_existing \<and> rpsl_guaranteed_no_existing h\<rparr>)))"

definition insert_roa_object :: "stored_roa \<Rightarrow> 'ip handler \<Rightarrow> 'ip handler res" where
  "insert_roa_object r h =
     rbind (check_write_permitted h) (\<lambda>h. Inr (h\<lparr>roa_insert_buffer := roa_insert_buffer h @ [r]\<rparr>))"

definition flush_roa_writing_buffer :: "'ip handler \<Rightarrow> 'ip handler res" where
  "flush_roa_writing_buffer h =
     (if roa_insert_buffer h = [] then Inr h
      else rbind (check_write_permitted h) (\<lambda>h.
        Inr ((on_tables (\<lambda>T. T\<lparr>t_roas := t_roas T @ roa_insert_buffer h\<rparr>) h)\<lparr>roa_insert_buffer := []\<rparr>)))"

section \<open>Status of objects\<close>

text \<open>
  Each entry is the row with its new status, as the validators return it, and the status it had
  before. \<open>journal_change\<close> is the body of the loops over these entries.
\<close>

definition journal_change :: "settings \<Rightarrow> int \<Rightarrow> database_operation \<Rightarrow> journal_entry_origin \<Rightarrow> bool \<Rightarrow> bool \<Rightarrow> db_row
    \<Rightarrow> 'ip handler \<Rightarrow> 'ip handler res" where
  "journal_change gs now operation orig visible_previously visible_now r h =
     (if (case operation of add_or_update \<Rightarrow> visible_now \<and> \<not> visible_previously
          | op_delete \<Rightarrow> \<not> visible_now \<and> visible_previously)
      then rbind (record_operation_from_rpsl_dict gs now operation r orig h) (\<lambda>h1.
             Inr (object_modified_dict r orig h1))
      else Inr h)"

fun journal_rpki_changes :: "settings \<Rightarrow> int \<Rightarrow> database_operation \<Rightarrow> (db_row \<times> rpki_status) list \<Rightarrow> 'ip handler
    \<Rightarrow> 'ip handler res" where
  "journal_rpki_changes gs now operation [] h = Inr h"
| "journal_rpki_changes gs now operation ((r, old) # rs) h =
     rbind (journal_change gs now operation origin_rpki_status (object_is_visible old (c_scope r) (c_pref r))
              (columns_visible r) r h)
       (journal_rpki_changes gs now operation rs)"

definition set_rpki_status :: "string list \<Rightarrow> rpki_status \<Rightarrow> tables \<Rightarrow> tables" where
  "set_rpki_status pks status T =
     T\<lparr>t_objects := map (\<lambda>r. if row_pk r \<in> set pks then r\<lparr>c_rpki := status\<rparr> else r) (t_objects T)\<rparr>"

definition update_rpki_status :: "settings \<Rightarrow> int \<Rightarrow> (db_row \<times> rpki_status) list \<Rightarrow> (db_row \<times> rpki_status) list
    \<Rightarrow> (db_row \<times> rpki_status) list \<Rightarrow> 'ip handler \<Rightarrow> 'ip handler res" where
  "update_rpki_status gs now now_valid now_invalid now_not_found h =
     rbind (check_write_permitted h) (\<lambda>h.
       (let pks = map (\<lambda>e. row_pk (fst e));
            h1 = on_tables (\<lambda>T. set_rpki_status (pks now_not_found) RPKI_not_found
                   (set_rpki_status (pks now_invalid) RPKI_invalid
                     (set_rpki_status (pks now_valid) RPKI_valid T))) h
        in rbind (journal_rpki_changes gs now add_or_update (now_valid @ now_not_found) h1)
             (journal_rpki_changes gs now op_delete now_invalid)))"

fun journal_scope_changes :: "settings \<Rightarrow> int \<Rightarrow> database_operation \<Rightarrow> (db_row \<times> scopefilter_status) list \<Rightarrow> 'ip handler
    \<Rightarrow> 'ip handler res" where
  "journal_scope_changes gs now operation [] h = Inr h"
| "journal_scope_changes gs now operation ((r, old) # rs) h =
     rbind (journal_change gs now operation origin_scope_filter (object_is_visible (c_rpki r) old (c_pref r))
              (columns_visible r) r h)
       (journal_scope_changes gs now operation rs)"

text \<open>The statement of the scope filter selects rows by their RPSL primary key.\<close>

definition set_scope_status :: "string list \<Rightarrow> scopefilter_status \<Rightarrow> tables \<Rightarrow> tables" where
  "set_scope_status rpsl_pks status T =
     T\<lparr>t_objects := map (\<lambda>r. if c_rpsl_pk r \<in> set rpsl_pks then r\<lparr>c_scope := status\<rparr> else r) (t_objects T)\<rparr>"

definition update_scopefilter_status :: "settings \<Rightarrow> int \<Rightarrow> (db_row \<times> scopefilter_status) list
    \<Rightarrow> (db_row \<times> scopefilter_status) list \<Rightarrow> (db_row \<times> scopefilter_status) list \<Rightarrow> 'ip handler \<Rightarrow> 'ip handler res" where
  "update_scopefilter_status gs now now_in_scope now_out_scope_as now_out_scope_prefix h =
     rbind (check_write_permitted h) (\<lambda>h.
       (let pks = map (\<lambda>e. c_rpsl_pk (fst e));
            h1 = on_tables (\<lambda>T. set_scope_status (pks now_out_scope_prefix) out_scope_prefix
                   (set_scope_status (pks now_out_scope_as) out_scope_as
                     (set_scope_status (pks now_in_scope) in_scope T))) h
        in rbind (journal_scope_changes gs now add_or_update now_in_scope h1)
             (journal_scope_changes gs now op_delete (now_out_scope_as @ now_out_scope_prefix))))"

text \<open>Route preference: the rows are given with the status they had; the journal is written first.\<close>

fun journal_pref_changes :: "settings \<Rightarrow> int \<Rightarrow> database_operation \<Rightarrow> db_row list \<Rightarrow> 'ip handler \<Rightarrow> 'ip handler res" where
  "journal_pref_changes gs now operation [] h = Inr h"
| "journal_pref_changes gs now operation (r # rs) h =
     rbind (if object_is_visible (c_rpki r) (c_scope r) pref_visible
            then rbind (record_operation_from_rpsl_dict gs now operation r origin_route_preference h) (\<lambda>h1.
                   Inr (object_modified_dict r origin_route_preference h1))
            else Inr h)
       (journal_pref_changes gs now operation rs)"

definition set_pref_status :: "string list \<Rightarrow> route_preference_status \<Rightarrow> tables \<Rightarrow> tables" where
  "set_pref_status pks status T =
     T\<lparr>t_objects := map (\<lambda>r. if row_pk r \<in> set pks then r\<lparr>c_pref := status\<rparr> else r) (t_objects T)\<rparr>"

definition ROUTEPREF_STATUS_UPDATE_CHUNK_SIZE :: nat where
  "ROUTEPREF_STATUS_UPDATE_CHUNK_SIZE = 5000"

function chunked_iterable :: "'a list \<Rightarrow> nat \<Rightarrow> 'a list list" where
  "chunked_iterable xs n =
     (if xs = [] \<or> n = 0 then [] else take n xs # chunked_iterable (drop n xs) n)"
  by pat_completeness auto
termination by (relation "measure (\<lambda>(xs, n). length xs)") auto

declare chunked_iterable.simps [simp del]

definition set_pref_chunks :: "db_row list \<Rightarrow> route_preference_status \<Rightarrow> tables \<Rightarrow> tables" where
  "set_pref_chunks rows status =
     fold (\<lambda>chunk. set_pref_status (map row_pk chunk) status)
       (chunked_iterable rows ROUTEPREF_STATUS_UPDATE_CHUNK_SIZE)"

definition update_route_preference_status :: "settings \<Rightarrow> int \<Rightarrow> db_row list \<Rightarrow> db_row list \<Rightarrow> 'ip handler
    \<Rightarrow> 'ip handler res" where
  "update_route_preference_status gs now now_visible now_suppressed h =
     rbind (check_write_permitted h) (\<lambda>h.
     rbind (journal_pref_changes gs now add_or_update now_visible h) (\<lambda>h1.
     rbind (journal_pref_changes gs now op_delete now_suppressed h1) (\<lambda>h2.
       Inr (on_tables (\<lambda>T. set_pref_chunks now_suppressed pref_suppressed
              (set_pref_chunks now_visible pref_visible T)) h2))))"

section \<open>Deletion and suspension\<close>

text \<open>\<open>_check_single_row_match\<close> on the rows that a statement matched.\<close>

definition check_single_row_match :: "db_row list \<Rightarrow> string \<Rightarrow> db_row option res" where
  "check_single_row_match rows user_identifier =
     (case rows of
        [] \<Rightarrow> Inr None
      | [r] \<Rightarrow> Inr (Some r)
      | _ \<Rightarrow> Inl (ValueError (''Attempted to remove object '' @ user_identifier
               @ '', but multiple objects were affected, internal pks affected: '' @ py_join '','' (map row_pk rows))))"

definition given_or :: "string option \<Rightarrow> string option \<Rightarrow> string option" where
  "given_or given from_object = (if \<not> str_truthy given \<and> from_object \<noteq> None then from_object else given)"

text \<open>A column that is compared with \<open>None\<close> matches no row.\<close>

definition key_matches :: "string option \<Rightarrow> string option \<Rightarrow> string option \<Rightarrow> db_row \<Rightarrow> bool" where
  "key_matches rpsl_pk cls src r \<longleftrightarrow> Some (c_rpsl_pk r) = rpsl_pk \<and> Some (c_class r) = cls \<and> Some (c_source r) = src"

definition protect_name :: "db_row \<Rightarrow> tables \<Rightarrow> tables" where
  "protect_name r T = T\<lparr>t_protected := t_protected T @ [\<lparr>pn_rpsl_pk = c_rpsl_pk r, pn_source = c_source r,
     pn_class = c_class r, pn_name = c_rpsl_pk r\<rparr>]\<rparr>"

definition delete_matching :: "settings \<Rightarrow> int \<Rightarrow> journal_entry_origin \<Rightarrow> (db_row \<Rightarrow> bool) \<Rightarrow> string \<Rightarrow> int option \<Rightarrow> bool
    \<Rightarrow> 'ip handler \<Rightarrow> 'ip handler res" where
  "delete_matching gs now orig matches user_identifier source_serial protect h =
     rbind (check_single_row_match (filter matches (t_objects (cur h))) user_identifier) (\<lambda>found.
       case found of
         None \<Rightarrow> Inr h
       | Some r \<Rightarrow>
           rbind (record_operation gs now op_delete (c_rpsl_pk r) (c_source r) (c_class r) (c_text r) orig source_serial
                    (on_tables (\<lambda>T. T\<lparr>t_objects := filter (\<lambda>r. \<not> matches r) (t_objects T)\<rparr>) h)) (\<lambda>h1.
             Inr (if protect then on_tables (protect_name r) (object_modified_dict r orig h1)
                  else object_modified_dict r orig h1)))"

definition delete_rpsl_object :: "settings \<Rightarrow> int \<Rightarrow> journal_entry_origin \<Rightarrow> 'ip rpsl_object option \<Rightarrow> string option
    \<Rightarrow> string option \<Rightarrow> string option \<Rightarrow> int option \<Rightarrow> bool \<Rightarrow> 'ip handler \<Rightarrow> 'ip handler res" where
  "delete_rpsl_object gs now orig obj_opt src_opt pk_opt cls_opt source_serial protect h =
     rbind (check_write_permitted h) (\<lambda>h.
     rbind (flush_rpsl_object_writing_buffer gs now h) (\<lambda>h1.
       if \<not> str_truthy src_opt \<and> (case obj_opt of None \<Rightarrow> False | Some obj \<Rightarrow> dict_get (parsed_data obj) ''source'' = None)
       then Inl (KeyError ''source'')
       else (let src = given_or src_opt (map_option (\<lambda>obj. data_str obj ''source'') obj_opt);
                 rpsl_pk = given_or pk_opt (map_option pk obj_opt);
                 cls = given_or cls_opt (map_option (\<lambda>obj. rpsl_object_class (klass obj)) obj_opt)
             in delete_matching gs now orig (key_matches rpsl_pk cls src)
                  (case (rpsl_pk, src) of (Some p, Some q) \<Rightarrow> p @ ''/'' @ q | _ \<Rightarrow> ''None'') source_serial
                  (protect \<and> (case obj_opt of None \<Rightarrow> False
                     | Some obj \<Rightarrow> rpsl_object_class (klass obj) \<in> set PROTECTED_NAME_OBJECT_CLASSES)) h1)))"

definition suspended_of :: "int \<Rightarrow> string \<Rightarrow> string list \<Rightarrow> db_row \<Rightarrow> suspended_row" where
  "suspended_of now key mntners r = \<lparr>sp_pk = key, sp_rpsl_pk = c_rpsl_pk r, sp_source = c_source r, sp_class = c_class r,
     sp_text = c_text r, sp_mntners = mntners, sp_timestamp = now, sp_original_created = row_created r,
     sp_original_updated = c_updated r\<rparr>"

text \<open>
  The table of suspended objects has an array of maintainers; the attribute may occur multiple
  times and is a list. A single text is refused by the database.
\<close>

definition row_mntners :: "db_row \<Rightarrow> string list res" where
  "row_mntners r = (case dict_get (c_parsed r) ''mnt-by'' of
      None \<Rightarrow> Inl (KeyError ''mnt-by'')
    | Some (PList ms) \<Rightarrow> Inr ms
    | Some (PStr m) \<Rightarrow> Inl (DatabaseError ''malformed array literal''))"

definition suspend_rpsl_object :: "settings \<Rightarrow> int \<Rightarrow> string \<Rightarrow> 'ip handler \<Rightarrow> 'ip handler res" where
  "suspend_rpsl_object gs now pk_uuid h =
     rbind (check_write_permitted h) (\<lambda>h.
     rbind (flush_rpsl_object_writing_buffer gs now h) (\<lambda>h1.
     rbind (check_single_row_match (filter (\<lambda>r. row_pk r = pk_uuid) (t_objects (cur h1))) pk_uuid) (\<lambda>found.
       case found of
         None \<Rightarrow> Inl (ValueError (''Attempt to suspend obect with PK '' @ pk_uuid @ '' which does not exist''))
       | Some r \<Rightarrow>
           rbind (row_mntners r) (\<lambda>mntners.
             (let h2 = (on_tables (\<lambda>T. T\<lparr>t_objects := filter (\<lambda>r. row_pk r \<noteq> pk_uuid) (t_objects T),
                          t_suspended := t_suspended T @ [suspended_of now (str_nat (next_pk h1)) mntners r]\<rparr>) h1)
                        \<lparr>next_pk := next_pk h1 + 1\<rparr>
              in rbind (record_operation gs now op_delete (c_rpsl_pk r) (c_source r) (c_class r) (c_text r)
                          origin_suspension None h2) (\<lambda>h3.
                   Inr (object_modified_dict r origin_suspension h3)))))))"

definition delete_suspended_rpsl_objects :: "settings \<Rightarrow> int \<Rightarrow> string list \<Rightarrow> 'ip handler \<Rightarrow> 'ip handler res" where
  "delete_suspended_rpsl_objects gs now pk_uuids h =
     rbind (check_write_permitted h) (\<lambda>h.
     rbind (flush_rpsl_object_writing_buffer gs now h) (\<lambda>h1.
       Inr (on_tables (\<lambda>T. T\<lparr>t_suspended := filter (\<lambda>r. sp_pk r \<notin> set pk_uuids) (t_suspended T)\<rparr>) h1)))"

definition delete_journal_entries_before_date :: "settings \<Rightarrow> int \<Rightarrow> int \<Rightarrow> string \<Rightarrow> 'ip handler \<Rightarrow> 'ip handler res" where
  "delete_journal_entries_before_date gs now timestamp src h =
     rbind (check_write_permitted h) (\<lambda>h.
     rbind (flush_rpsl_object_writing_buffer gs now h) (\<lambda>h1.
       Inr (on_tables (\<lambda>T. T\<lparr>t_journal :=
         filter (\<lambda>e. \<not> (je_source e = src \<and> je_timestamp e < timestamp)) (t_journal T)\<rparr>) h1)))"

definition delete_all_rpsl_objects_with_journal :: "settings \<Rightarrow> int \<Rightarrow> string \<Rightarrow> bool \<Rightarrow> 'ip handler \<Rightarrow> 'ip handler res" where
  "delete_all_rpsl_objects_with_journal gs now src journal_guaranteed_empty h =
     rbind (check_write_permitted h) (\<lambda>h.
     rbind (flush_rpsl_object_writing_buffer gs now h) (\<lambda>h1.
       Inr (all_object_classes_updated (on_tables (\<lambda>T. T\<lparr>
         t_objects := filter (\<lambda>r. c_source r \<noteq> src) (t_objects T),
         t_journal := (if journal_guaranteed_empty then t_journal T else filter (\<lambda>e. je_source e \<noteq> src) (t_journal T)),
         t_status := filter (\<lambda>s. st_source s \<noteq> src) (t_status T)\<rparr>) h1))))"

definition delete_all_roa_objects :: "'ip handler \<Rightarrow> 'ip handler res" where
  "delete_all_roa_objects h =
     rbind (check_write_permitted h) (\<lambda>h.
       Inr ((on_tables (\<lambda>T. T\<lparr>t_roas := []\<rparr>) h)\<lparr>roa_insert_buffer := []\<rparr>))"

definition update_status :: "string \<Rightarrow> (status_row \<Rightarrow> status_row) \<Rightarrow> tables \<Rightarrow> tables" where
  "update_status src f T = T\<lparr>t_status := map (\<lambda>s. if st_source s = src then f s else s) (t_status T)\<rparr>"

definition set_force_reload :: "settings \<Rightarrow> string \<Rightarrow> 'ip handler \<Rightarrow> 'ip handler res" where
  "set_force_reload gs src h =
     rbind (check_write_permitted h) (\<lambda>h.
       Inr (on_tables (update_status src (\<lambda>s. s\<lparr>force_reload := True,
              synchronised_serials := is_serial_synchronised gs src True (cur h),
              serial_oldest_seen := None, serial_newest_seen := None\<rparr>)) h))"

section \<open>End of a transaction\<close>

definition new_status :: "string \<Rightarrow> bool \<Rightarrow> int \<Rightarrow> status_row" where
  "new_status src synchronised now = \<lparr>st_source = src, serial_oldest_seen = None, serial_newest_seen = None,
     serial_oldest_journal = None, serial_newest_journal = None, serial_last_export = None, serial_newest_mirror = None,
     force_reload = False, synchronised_serials = synchronised, last_error = None, last_error_timestamp = None,
     rpsl_data_updated = now, nrtm4_client = no_client_status, nrtm4_server = no_server_status\<rparr>"

definition finalise_seen :: "settings \<Rightarrow> int \<Rightarrow> string \<Rightarrow> 'ip handler \<Rightarrow> 'ip handler" where
  "finalise_seen gs now src h =
     (case tracker_is_serial_synchronised gs src h of (synchronised, h1) \<Rightarrow>
        on_tables (\<lambda>T.
          if find_status src T = None then T\<lparr>t_status := t_status T @ [new_status src synchronised now]\<rparr>
          else update_status src (\<lambda>s. s\<lparr>force_reload := False, synchronised_serials := synchronised\<rparr>) T) h1)"

text \<open>\<^verbatim>\<open>LEAST\<close> and \<^verbatim>\<open>GREATEST\<close>, which ignore nulls.\<close>

definition sql_least :: "int option list \<Rightarrow> int option" where
  "sql_least vs = list_min (List.map_filter (\<lambda>v. v) vs)"

definition sql_greatest :: "int option list \<Rightarrow> int option" where
  "sql_greatest vs = list_max (List.map_filter (\<lambda>v. v) vs)"

definition finalise_serials :: "int \<Rightarrow> string \<times> int list \<Rightarrow> tables \<Rightarrow> tables" where
  "finalise_serials now entry T =
     (case entry of (src, serials) \<Rightarrow>
        (let oldest = list_min (journal_serials src T); newest = list_max (journal_serials src T)
         in update_status src (\<lambda>s. s\<lparr>
              serial_oldest_seen := sql_least [serial_oldest_seen s, oldest, list_min serials],
              serial_newest_seen := sql_greatest [serial_newest_seen s, newest, list_max serials],
              serial_oldest_journal := oldest, serial_newest_journal := newest, rpsl_data_updated := now\<rparr>) T))"

definition update_each :: "('v \<Rightarrow> status_row \<Rightarrow> status_row) \<Rightarrow> (string, 'v) dict \<Rightarrow> tables \<Rightarrow> tables" where
  "update_each f entries = fold (\<lambda>(src, v). update_status src (f v)) entries"

definition finalise_transaction :: "settings \<Rightarrow> int \<Rightarrow> 'ip handler \<Rightarrow> 'ip handler" where
  "finalise_transaction gs now h =
     (let t = status_tracker h;
          h1 = fold (finalise_seen gs now) (sources_seen t) h
      in on_tables (\<lambda>T.
           update_each (\<lambda>v s. s\<lparr>nrtm4_server := v\<rparr>) (nrtm4_server_updates t)
           (update_each (\<lambda>v s. s\<lparr>nrtm4_client := v\<rparr>) (nrtm4_client_updates t)
           (update_each (\<lambda>n s. s\<lparr>serial_last_export := n\<rparr>) (exported_serials t)
           (update_each (\<lambda>n s. s\<lparr>serial_newest_mirror := Some n, rpsl_data_updated := now\<rparr>) (newest_mirror_serials t)
           (update_each (\<lambda>e s. s\<lparr>last_error := Some e, last_error_timestamp := Some now\<rparr>) (mirroring_error t)
           (fold (finalise_serials now) (new_serials_per_source t)
           (fold (\<lambda>src. update_status src (\<lambda>s. s\<lparr>rpsl_data_updated := now\<rparr>)) (sources_rpsl_data_updated t) T))))))) h1)"

definition publish_event_stream :: "'ip handler \<Rightarrow> 'ip handler" where
  "publish_event_stream h =
     h\<lparr>events := events h @ map PublishUpdate (dict_keys (new_serials_per_source (status_tracker h)))\<rparr>"

text \<open>
  The update of route preferences that runs before the commit: the queries on the routes, the
  validator, and the rows that become visible or suppressed. \<open>cidr_overlaps\<close> is the
  comparison of prefixes in the database, with the text that the query passes.
\<close>

definition pref_row_of :: "db_row \<Rightarrow> pref_row" where
  "pref_row_of r = \<lparr>pf_prefix = (case c_prefix r of None \<Rightarrow> [] | Some p \<Rightarrow> p), pf_source = c_source r, pf_pk = row_pk r,
     pf_status = c_pref r\<rparr>"

definition route_rows :: "tables \<Rightarrow> db_row list" where
  "route_rows T = filter (\<lambda>r. c_class r \<in> {''route'', ''route6''}) (t_objects T)"

definition ip_any_rows :: "'ip extlib \<Rightarrow> (string \<Rightarrow> string \<Rightarrow> bool) \<Rightarrow> tables \<Rightarrow> 'ip + string \<Rightarrow> pref_row list" where
  "ip_any_rows L cidr_overlaps T p =
     (let shown = (case p of Inl ip \<Rightarrow> ip_str L ip | Inr s \<Rightarrow> s)
      in map pref_row_of (filter (\<lambda>r. case c_prefix r of None \<Rightarrow> False | Some q \<Rightarrow> cidr_overlaps q shown) (route_rows T)))"

definition enrich_pks :: "tables \<Rightarrow> string list \<Rightarrow> db_row list" where
  "enrich_pks T pks = filter (\<lambda>r. row_pk r \<in> set pks) (t_objects T)"

definition pre_commit :: "('k, 't) radix_lib \<Rightarrow> 'ip extlib \<Rightarrow> (string \<Rightarrow> string \<Rightarrow> bool) \<Rightarrow> settings \<Rightarrow> int \<Rightarrow> 'ip handler
    \<Rightarrow> 'ip handler res" where
  "pre_commit R L cidr_overlaps gs now h =
     (let prefixes = prefixes_for_routepref (changed_objects_tracker h)
      in if prefixes = [] then Inr h
         else rbind (Route_Pref.update_route_preference_status R gs (map pref_row_of (route_rows (cur h)))
                       (ip_any_rows L cidr_overlaps (cur h)) prefixes) (\<lambda>changes.
                case changes of
                  None \<Rightarrow> Inr h
                | Some (to_visible, to_suppressed) \<Rightarrow>
                    update_route_preference_status gs now (enrich_pks (cur h) to_visible)
                      (enrich_pks (cur h) to_suppressed) h))"

text \<open>
  Without journaling there is an intermediate commit, which a failure after it does not undo. The
  result is the handler, together with the exception that was raised, if any.
\<close>

definition changed_commit :: "'ip handler \<Rightarrow> 'ip handler" where
  "changed_commit h =
     (let cs = object_classes (changed_objects_tracker h)
      in h\<lparr>events := (if cs = [] then events h else events h @ [SignalReload cs]),
           changed_objects_tracker := changed_reset\<rparr>)"

definition transaction_commit :: "'ip handler \<Rightarrow> 'ip handler" where
  "transaction_commit h = h\<lparr>committed := cur h\<rparr>"

definition transaction_rollback :: "'ip handler \<Rightarrow> 'ip handler" where
  "transaction_rollback h = h\<lparr>cur := committed h\<rparr>"

definition commit :: "('k, 't) radix_lib \<Rightarrow> 'ip extlib \<Rightarrow> (string \<Rightarrow> string \<Rightarrow> bool) \<Rightarrow> settings \<Rightarrow> int \<Rightarrow> 'ip handler
    \<Rightarrow> 'ip handler \<times> exn option" where
  "commit R L cidr_overlaps gs now h =
     (case rbind (check_write_permitted h) (\<lambda>h.
           rbind (flush_rpsl_object_writing_buffer gs now h) (\<lambda>h1.
           rbind (flush_roa_writing_buffer h1) (\<lambda>h2.
             Inr (finalise_transaction gs now h2)))) of
        Inl e \<Rightarrow> (h, Some e)
      | Inr h3 \<Rightarrow>
          (let h4 = (if h_journaling h3 then h3 else transaction_commit h3)
           in case pre_commit R L cidr_overlaps gs now h4 of
                Inl e \<Rightarrow> (transaction_rollback h4, Some e)
              | Inr h5 \<Rightarrow>
                  (let h6 = publish_event_stream (changed_commit (transaction_commit h5))
                   in (start_transaction (on_tracker tracker_reset h6), None))))"

definition rollback :: "bool \<Rightarrow> 'ip handler \<Rightarrow> 'ip handler" where
  "rollback start h =
     (let h1 = transaction_rollback (on_tracker tracker_reset
                 (h\<lparr>rpsl_upsert_buffer := [], rpsl_pk_source_seen := [], changed_objects_tracker := changed_reset\<rparr>))
      in if start then start_transaction h1 else h1)"

end
