(* ===== verification/Database_Facts.thy ===== *)
theory Database_Facts
  imports Database
begin

text \<open>
  Facts on the database handler: buffering is not observable, the serials of the journal, and the
  journal as a description of the visible objects.
\<close>

declare split_paired_All [simp del] split_paired_Ex [simp del]

section \<open>What an operation records\<close>

type_synonym change = "database_operation \<times> (string \<times> string \<times> string) \<times> string"

definition je_change :: "journal_entry \<Rightarrow> change" where
  "je_change e = (je_operation e, (je_rpsl_pk e, je_source e, je_class e), je_text e)"

definition keeps_journal :: "settings \<Rightarrow> string \<Rightarrow> 'ip handler \<Rightarrow> bool" where
  "keeps_journal gs src h \<longleftrightarrow> journaling_enabled (status_tracker h) \<and> truthy (source_setting gs src ''keep_journal'')"

text \<open>The handler after entries were added to the journal: nothing else but the trackers and the counter changes.\<close>

definition journalled :: "journal_entry list \<Rightarrow> 'ip handler \<Rightarrow> 'ip handler \<Rightarrow> bool" where
  "journalled es h h' \<longleftrightarrow>
     (\<exists>g t c. h' = h\<lparr>cur := (cur h)\<lparr>t_journal := t_journal (cur h) @ es\<rparr>, next_global := g, status_tracker := t,
          changed_objects_tracker := c\<rparr> \<and>
        journaling_enabled t = journaling_enabled (status_tracker h))"

lemma journalledI:
  "h' = h\<lparr>next_global := g, cur := (cur h)\<lparr>t_journal := t_journal (cur h) @ es\<rparr>, status_tracker := t,
       changed_objects_tracker := c\<rparr> \<Longrightarrow>
     journaling_enabled t = journaling_enabled (status_tracker h) \<Longrightarrow> journalled es h h'"
  unfolding journalled_def by (intro exI [of _ g] exI [of _ t] exI [of _ c]) simp

lemma journalled_refl: "journalled [] h h"
  by (rule journalledI [where c = "changed_objects_tracker h" and g = "next_global h" and t = "status_tracker h"]) simp_all

lemma journalled_trans: "journalled es h h' \<Longrightarrow> journalled es' h' h'' \<Longrightarrow> journalled (es @ es') h h''"
  unfolding journalled_def by force

lemma journalled_simps:
  assumes "journalled es h h'"
  shows "t_objects (cur h') = t_objects (cur h)" "t_journal (cur h') = t_journal (cur h) @ es"
    "t_status (cur h') = t_status (cur h)" "t_suspended (cur h') = t_suspended (cur h)"
    "keeps_journal gs src h' = keeps_journal gs src h" "rpsl_upsert_buffer h' = rpsl_upsert_buffer h"
    "committed h' = committed h" "next_pk h' = next_pk h" "rpsl_pk_source_seen h' = rpsl_pk_source_seen h"
    "h_journaling h' = h_journaling h" "journaling_enabled (status_tracker h') = journaling_enabled (status_tracker h)"
  using assms by (auto simp: journalled_def keeps_journal_def)

lemma tracker_synchronised_frame:
  "tracker_is_serial_synchronised gs src h = (b, h') \<Longrightarrow>
     \<exists>t. h' = h\<lparr>status_tracker := t\<rparr> \<and> journaling_enabled t = journaling_enabled (status_tracker h) \<and>
       new_serials_per_source t = new_serials_per_source (status_tracker h)"
  by (auto simp: tracker_is_serial_synchronised_def on_tracker_def Let_def split: option.splits
      intro: exI [of _ "status_tracker h"])

lemma operation_serial_frame:
  "operation_serial gs src ss h = (n, h') \<Longrightarrow>
     \<exists>t. h' = h\<lparr>status_tracker := t\<rparr> \<and> journaling_enabled t = journaling_enabled (status_tracker h) \<and>
       new_serials_per_source t = new_serials_per_source (status_tracker h)"
  by (auto simp: operation_serial_def dest!: tracker_synchronised_frame split: prod.splits bool.splits)

lemma record_operation_journalled:
  assumes "record_operation gs now operation rpsl_pk src cls txt' orig ss h = Inr h'"
  obtains es where "journalled es h h'"
    and "map je_change es = (if keeps_journal gs src h then [(operation, (rpsl_pk, src, cls), txt')] else [])"
proof -
  let ?h = "on_tracker (\<lambda>t. t\<lparr>sources_seen := List.insert src (sources_seen t),
      sources_rpsl_data_updated := List.insert src (sources_rpsl_data_updated t)\<rparr>) h"
  show ?thesis
  proof (cases "keeps_journal gs src h")
    case False
    then have "h' = ?h" using assms by (auto simp: record_operation_def keeps_journal_def on_tracker_def Let_def)
    then have "journalled [] h h'"
      by (intro journalledI [where c = "changed_objects_tracker h" and g = "next_global h" and t = "status_tracker ?h"])
        (simp_all add: on_tracker_def)
    then show ?thesis using False that [of "[]"] by simp
  next
    case True
    let ?h1 = "on_tracker (\<lambda>t. t\<lparr>journal_table_locked := True\<rparr>) ?h"
    obtain n h2 where o: "operation_serial gs src ss ?h1 = (n, h2)" by fastforce
    from operation_serial_frame [OF this] obtain t where
      h2: "h2 = ?h1\<lparr>status_tracker := t\<rparr>" and t: "journaling_enabled t = journaling_enabled (status_tracker h)"
      by (auto simp: on_tracker_def)
    obtain m where n: "n = Some m" using assms True o
      by (cases n) (auto simp: record_operation_def keeps_journal_def on_tracker_def Let_def)
    let ?e = "\<lparr>je_serial_global = next_global h2, je_rpsl_pk = rpsl_pk, je_source = src,
        je_origin = orig, je_serial = m, je_operation = operation, je_class = cls, je_text = txt', je_timestamp = now\<rparr>"
    have "h' = h\<lparr>next_global := next_global h + 1, cur := (cur h)\<lparr>t_journal := t_journal (cur h) @ [?e]\<rparr>,
        status_tracker := add_new_serial src m t, changed_objects_tracker := changed_objects_tracker h\<rparr>" using assms True o n
      by (auto simp: record_operation_def keeps_journal_def on_tracker_def Let_def insert_journal_def on_tables_def
          h2 split: if_splits)
    then have "journalled [?e] h h'" by (rule journalledI) (simp add: add_new_serial_def t)
    then show ?thesis using True that [of "[?e]"] by (simp add: je_change_def)
  qed
qed

text \<open>A loop that journals for each of its items.\<close>

locale journal_loop =
  fixes loop :: "'e list \<Rightarrow> 'ip handler \<Rightarrow> 'ip handler res" and body :: "'e \<Rightarrow> 'ip handler \<Rightarrow> 'ip handler res"
    and changes :: "'e \<Rightarrow> change list"
  assumes loop_Nil: "loop [] h = Inr h"
    and loop_Cons: "loop (e # es) h = rbind (body e h) (loop es)"
    and body_journalled: "body e h = Inr h' \<Longrightarrow> journaling_enabled (status_tracker h) \<Longrightarrow>
      \<exists>js. journalled js h h' \<and> map je_change js = changes e"
begin

lemma loop_journalled:
  "loop es h = Inr h' \<Longrightarrow> journaling_enabled (status_tracker h) \<Longrightarrow>
     \<exists>js. journalled js h h' \<and> map je_change js = concat (map changes es)"
proof (induction es arbitrary: h)
  case Nil
  then show ?case using journalled_refl [of h] by (auto simp: loop_Nil)
next
  case (Cons e es)
  obtain h1 where 1: "body e h = Inr h1" and 2: "loop es h1 = Inr h'"
    using Cons.prems(1) by (auto simp: loop_Cons rbind_Inr_conv)
  obtain js1 where j1: "journalled js1 h h1" "map je_change js1 = changes e"
    using body_journalled [OF 1 Cons.prems(2)] by blast
  obtain js2 where j2: "journalled js2 h1 h'" "map je_change js2 = concat (map changes es)"
    using Cons.IH [OF 2] Cons.prems(2) journalled_simps(11) [OF j1(1)] by blast
  then show ?case using journalled_trans [OF j1(1) j2(1)] j1(2) by (intro exI [of _ "js1 @ js2"]) simp
qed

end

section \<open>Replaying the journal\<close>

text \<open>What a mirror holds after it applied changes in order: the texts by key.\<close>

definition apply_change :: "change \<Rightarrow> (string \<times> string \<times> string \<rightharpoonup> string) \<Rightarrow> (string \<times> string \<times> string \<rightharpoonup> string)" where
  "apply_change c m = (case c of (operation, k, txt') \<Rightarrow>
     (case operation of add_or_update \<Rightarrow> m(k \<mapsto> txt') | op_delete \<Rightarrow> m(k := None)))"

definition replay :: "change list \<Rightarrow> (string \<times> string \<times> string \<rightharpoonup> string)" where
  "replay cs = fold apply_change cs Map.empty"

text \<open>The objects that queries may show.\<close>

definition visible_text :: "db_row list \<Rightarrow> (string \<times> string \<times> string \<rightharpoonup> string)" where
  "visible_text rows k = map_option c_text (find (\<lambda>r. object_key r = k \<and> columns_visible r) rows)"

definition kept_key :: "settings \<Rightarrow> string \<times> string \<times> string \<Rightarrow> bool" where
  "kept_key gs k = truthy (source_setting gs (fst (snd k)) ''keep_journal'')"

definition mirrored :: "settings \<Rightarrow> tables \<Rightarrow> bool" where
  "mirrored gs T \<longleftrightarrow> (\<forall>k. kept_key gs k \<longrightarrow> replay (map je_change (t_journal T)) k = visible_text (t_objects T) k)"

lemma replay_append: "replay (cs @ cs') = fold apply_change cs' (replay cs)"
  by (simp add: replay_def)

lemma visible_text_Some:
  "distinct (map object_key rows) \<Longrightarrow>
     visible_text rows k = Some t \<longleftrightarrow> (\<exists>r \<in> set rows. object_key r = k \<and> columns_visible r \<and> c_text r = t)"
  by (induction rows) (auto simp: visible_text_def)

lemma visible_text_None: "visible_text rows k = None \<longleftrightarrow> (\<forall>r \<in> set rows. object_key r = k \<longrightarrow> \<not> columns_visible r)"
  by (auto simp: visible_text_def find_None_iff)

lemma visible_text_append:
  "visible_text (rs @ rs') k = (case visible_text rs k of None \<Rightarrow> visible_text rs' k | Some t \<Rightarrow> Some t)"
  by (induction rs) (auto simp: visible_text_def)

lemma visible_text_filter:
  "(\<And>r. r \<in> set rows \<Longrightarrow> object_key r = k \<Longrightarrow> P r) \<Longrightarrow> visible_text (filter P rows) k = visible_text rows k"
  by (induction rows) (auto simp: visible_text_def)

text \<open>The rows a proposed row and its columns have in common.\<close>

lemma extend_simps [simp]:
  "object_key (columns.extend cols m) = object_key cols"
  "columns_visible (columns.extend cols m) = columns_visible cols"
  "c_text (columns.extend cols m) = c_text cols"
  by (simp_all add: object_key_def columns_visible_def columns.defs)

lemma visible_text_map_key:
  assumes g: "\<And>r. object_key (g r) = object_key cols" "\<And>r. columns_visible (g r) = columns_visible cols"
    "\<And>r. c_text (g r) = c_text cols" and ex: "list_ex (\<lambda>r. object_key r = object_key cols) rows"
  shows "visible_text (map (\<lambda>r. if object_key r = object_key cols then g r else r) rows) k =
    (if k = object_key cols then if columns_visible cols then Some (c_text cols) else None else visible_text rows k)"
proof (cases "k = object_key cols")
  case False
  then show ?thesis using g(1) by (induction rows) (auto simp: visible_text_def)
next
  case True
  show ?thesis
  proof (cases "columns_visible cols")
    case False
    then show ?thesis using True g by (auto simp: visible_text_None)
  next
    case vis: True
    show ?thesis using ex True vis by (induction rows) (auto simp: visible_text_def g)
  qed
qed

definition shown :: "columns \<Rightarrow> string option" where
  "shown cols = (if columns_visible cols then Some (c_text cols) else None)"

lemma upsert_row_objects:
  "visible_text (t_objects (cur (upsert_row now cols created h)))
     = (visible_text (t_objects (cur h)))(object_key cols := shown cols)"
proof
  fix k
  show "visible_text (t_objects (cur (upsert_row now cols created h))) k
     = ((visible_text (t_objects (cur h)))(object_key cols := shown cols)) k"
  proof (cases "list_ex (\<lambda>r. object_key r = object_key cols) (t_objects (cur h))")
    case True
    then show ?thesis by (simp add: upsert_row_def on_tables_def visible_text_map_key [OF _ _ _ True] shown_def)
  next
    case False
    then have "visible_text (t_objects (cur h)) (object_key cols) = None"
      by (auto simp: visible_text_None list_ex_iff)
    then show ?thesis using False
      by (auto simp: upsert_row_def on_tables_def visible_text_append shown_def split: option.split)
        (auto simp: visible_text_def)
  qed
qed

lemma frame_objectsI:
  "h' = h\<lparr>cur := (cur h)\<lparr>t_objects := objs\<rparr>, next_pk := p\<rparr> \<Longrightarrow>
     \<exists>objs p. h' = h\<lparr>cur := (cur h)\<lparr>t_objects := objs\<rparr>, next_pk := p\<rparr>"
  by blast

lemma upsert_row_frame:
  "\<exists>objs p. upsert_row now cols created h = h\<lparr>cur := (cur h)\<lparr>t_objects := objs\<rparr>, next_pk := p\<rparr>"
proof (cases "list_ex (\<lambda>r. object_key r = object_key cols) (t_objects (cur h))")
  case True
  then show ?thesis
    by (intro frame_objectsI [where p = "next_pk h"]) (simp add: upsert_row_def on_tables_def Let_def)
next
  case False
  then show ?thesis
    by (intro frame_objectsI [where p = "next_pk h + 1"]) (simp add: upsert_row_def on_tables_def Let_def)
qed

lemma upsert_rows_frame:
  "\<exists>objs p. fold (\<lambda>b. upsert_row now (fst b) (fst (snd b))) bs h = h\<lparr>cur := (cur h)\<lparr>t_objects := objs\<rparr>, next_pk := p\<rparr>"
proof (induction bs arbitrary: h)
  case Nil
  show ?case by (intro frame_objectsI [where p = "next_pk h" and objs = "t_objects (cur h)"]) simp
next
  case (Cons b bs)
  obtain o1 p1 where 1: "upsert_row now (fst b) (fst (snd b)) h = h\<lparr>cur := (cur h)\<lparr>t_objects := o1\<rparr>, next_pk := p1\<rparr>"
    using upsert_row_frame by blast
  show ?case using Cons.IH [of "h\<lparr>cur := (cur h)\<lparr>t_objects := o1\<rparr>, next_pk := p1\<rparr>"] by (auto simp: 1)
qed

section \<open>Flushing the buffer\<close>

definition buffer_changes :: "settings \<Rightarrow> buffered list \<Rightarrow> change list" where
  "buffer_changes gs bs = map (\<lambda>b. (add_or_update, buffer_key b, c_text (fst b)))
     (filter (\<lambda>b. columns_visible (fst b) \<and> kept_key gs (buffer_key b)) bs)"

lemma map_concat_filter_singleton: "concat (map (\<lambda>x. map f (filter P [x])) xs) = map f (filter P xs)"
  by (induction xs) auto

definition journal_buffered :: "settings \<Rightarrow> int \<Rightarrow> buffered \<Rightarrow> 'ip handler \<Rightarrow> 'ip handler res" where
  "journal_buffered gs now b h =
     (case b of (cols, created, orig, ss) \<Rightarrow>
        if \<not> columns_visible cols then Inr h
        else record_operation gs now add_or_update (c_rpsl_pk cols) (c_source cols) (c_class cols) (c_text cols) orig ss h)"

interpretation buffer_loop: journal_loop "journal_buffer gs now" "journal_buffered gs now" "\<lambda>b. buffer_changes gs [b]"
  for gs now
proof
  fix b :: buffered and h h' :: "'ip handler"
  assume b: "journal_buffered gs now b h = Inr h'" and j: "journaling_enabled (status_tracker h)"
  obtain cols created orig ss where eq: "b = (cols, created, orig, ss)" by (cases b)
  show "\<exists>js. journalled js h h' \<and> map je_change js = buffer_changes gs [b]"
  proof (cases "columns_visible cols")
    case False
    then show ?thesis using b journalled_refl [of h] by (auto simp: journal_buffered_def eq buffer_changes_def)
  next
    case True
    then have "record_operation gs now add_or_update (c_rpsl_pk cols) (c_source cols) (c_class cols) (c_text cols)
        orig ss h = Inr h'" using b by (simp add: journal_buffered_def eq)
    from record_operation_journalled [OF this] obtain js where "journalled js h h'"
      "map je_change js = (if keeps_journal gs (c_source cols) h
        then [(add_or_update, (c_rpsl_pk cols, c_source cols, c_class cols), c_text cols)] else [])" by blast
    then show ?thesis using True j
      by (intro exI [of _ js]) (simp add: eq buffer_changes_def keeps_journal_def kept_key_def buffer_key_def object_key_def)
  qed
qed (auto simp: journal_buffered_def split: prod.splits)

lemma journal_buffer_journalled:
  "journal_buffer gs now bs h = Inr h' \<Longrightarrow> journaling_enabled (status_tracker h) \<Longrightarrow>
     \<exists>es. journalled es h h' \<and> map je_change es = buffer_changes gs bs"
  using buffer_loop.loop_journalled [of gs now bs h h']
  by (simp only: buffer_changes_def map_concat_filter_singleton)

text \<open>
  The state between calls: every buffered object is in the set of keys seen, and a suppressed object
  in the buffer does not replace a visible one.
\<close>

definition buffer_ok :: "'ip handler \<Rightarrow> bool" where
  "buffer_ok h \<longleftrightarrow>
     distinct (map buffer_key (rpsl_upsert_buffer h)) \<and>
     set (rpsl_pk_source_seen h) = (\<lambda>b. pk_source_text (fst b)) ` set (rpsl_upsert_buffer h)"

definition no_hidden_overwrite :: "'ip handler \<Rightarrow> bool" where
  "no_hidden_overwrite h \<longleftrightarrow>
     (\<forall>b \<in> set (rpsl_upsert_buffer h). columns_visible (fst b) \<or> visible_text (t_objects (cur h)) (buffer_key b) = None)"

lemma replay_buffer:
  assumes "distinct (map buffer_key bs)"
    and "\<forall>b \<in> set bs. columns_visible (fst b) \<or> visible_text (t_objects (cur h)) (buffer_key b) = None"
    and "\<forall>k. kept_key gs k \<longrightarrow> m k = visible_text (t_objects (cur h)) k"
  shows "kept_key gs k \<Longrightarrow> fold apply_change (buffer_changes gs bs) m k
     = visible_text (t_objects (cur (fold (\<lambda>b. upsert_row now (fst b) (fst (snd b))) bs h))) k"
  using assms
proof (induction bs arbitrary: h m)
  case Nil
  then show ?case by (simp add: buffer_changes_def)
next
  case (Cons b bs)
  let ?h = "upsert_row now (fst b) (fst (snd b)) h"
  let ?m = "fold apply_change (buffer_changes gs [b]) m"
  have vis: "visible_text (t_objects (cur ?h)) = (visible_text (t_objects (cur h)))(buffer_key b := shown (fst b))"
    by (simp add: upsert_row_objects buffer_key_def)
  have "\<forall>k. kept_key gs k \<longrightarrow> ?m k = visible_text (t_objects (cur ?h)) k"
    using Cons.prems(3,4) by (auto simp: vis buffer_changes_def apply_change_def shown_def)
  moreover have "\<forall>b' \<in> set bs. columns_visible (fst b') \<or> visible_text (t_objects (cur ?h)) (buffer_key b') = None"
  proof
    fix b' assume b': "b' \<in> set bs"
    then have "buffer_key b' \<noteq> buffer_key b" using Cons.prems(2) by (metis distinct.simps(2) image_eqI list.simps(9) set_map)
    then show "columns_visible (fst b') \<or> visible_text (t_objects (cur ?h)) (buffer_key b') = None"
      using Cons.prems(3) b' by (simp add: vis)
  qed
  moreover have "buffer_changes gs (b # bs) = buffer_changes gs [b] @ buffer_changes gs bs"
    by (simp add: buffer_changes_def)
  ultimately show ?case using Cons.IH [of ?h ?m] Cons.prems(1,2) by simp
qed

lemma flush_effect:
  assumes fl: "flush_rpsl_object_writing_buffer gs now h = Inr h'" and j: "journaling_enabled (status_tracker h)"
  shows "\<exists>es h1. h1 = fold (\<lambda>b. upsert_row now (fst b) (fst (snd b))) (rpsl_upsert_buffer h) h \<and>
     t_objects (cur h') = t_objects (cur h1) \<and> t_journal (cur h') = t_journal (cur h) @ es \<and>
     map je_change es = buffer_changes gs (rpsl_upsert_buffer h) \<and>
     t_suspended (cur h') = t_suspended (cur h) \<and> t_status (cur h') = t_status (cur h) \<and>
     committed h' = committed h \<and> rpsl_upsert_buffer h' = [] \<and> (rpsl_upsert_buffer h \<noteq> [] \<longrightarrow> rpsl_pk_source_seen h' = []) \<and>
     (rpsl_upsert_buffer h = [] \<longrightarrow> h' = h) \<and> journaling_enabled (status_tracker h') \<and>
     next_pk h' = next_pk h1 \<and> h_journaling h' = h_journaling h"
proof (cases "rpsl_upsert_buffer h = []")
  case True
  then show ?thesis using fl j by (simp add: flush_rpsl_object_writing_buffer_def buffer_changes_def)
next
  case False
  let ?h1 = "fold (\<lambda>b. upsert_row now (fst b) (fst (snd b))) (rpsl_upsert_buffer h) h"
  obtain objs p where f: "?h1 = h\<lparr>cur := (cur h)\<lparr>t_objects := objs\<rparr>, next_pk := p\<rparr>"
    using upsert_rows_frame by blast
  obtain h2 where jb: "journal_buffer gs now (rpsl_upsert_buffer h) ?h1 = Inr h2"
    and h': "h' = h2\<lparr>rpsl_pk_source_seen := [], rpsl_upsert_buffer := []\<rparr>"
    using fl False by (auto simp: flush_rpsl_object_writing_buffer_def check_write_permitted_def insert_buffer_def f
        rbind_Inr_conv split: if_splits)
  have "journaling_enabled (status_tracker ?h1)" using j by (simp add: f)
  from journal_buffer_journalled [OF jb this] obtain es where
    es: "journalled es ?h1 h2" "map je_change es = buffer_changes gs (rpsl_upsert_buffer h)" by blast
  show ?thesis
    using journalled_simps [OF es(1)] es(2) False j
    by (intro exI [of _ es] exI [of _ ?h1]) (simp add: h' f)
qed

section \<open>Changes of status\<close>

text \<open>Rows are replaced by rows with the same key and text.\<close>

definition shown_row :: "db_row \<Rightarrow> string option" where
  "shown_row r = (if columns_visible r then Some (c_text r) else None)"

definition replace_row :: "db_row \<Rightarrow> db_row list \<Rightarrow> db_row list" where
  "replace_row new = map (\<lambda>r. if row_pk r = row_pk new then new else r)"

definition same_row :: "db_row \<Rightarrow> db_row \<Rightarrow> bool" where
  "same_row r r' \<longleftrightarrow> row_pk r = row_pk r' \<and> object_key r = object_key r' \<and> c_text r = c_text r'"

definition explained :: "settings \<Rightarrow> db_row \<Rightarrow> db_row \<Rightarrow> change list \<Rightarrow> bool" where
  "explained gs old new cs \<longleftrightarrow>
     (if kept_key gs (object_key new)
      then \<forall>m. m (object_key new) = shown_row old \<longrightarrow> fold apply_change cs m = m(object_key new := shown_row new)
      else cs = [])"

definition rows_ok :: "db_row list \<Rightarrow> bool" where
  "rows_ok rows \<longleftrightarrow> distinct (map object_key rows) \<and> distinct (map row_pk rows)"

lemma rows_ok_unique:
  "rows_ok rows \<Longrightarrow> r \<in> set rows \<Longrightarrow> r' \<in> set rows \<Longrightarrow> object_key r = object_key r' \<or> row_pk r = row_pk r' \<Longrightarrow> r = r'"
  unfolding rows_ok_def distinct_map by (auto dest: inj_onD)

lemma replace_row_keys:
  assumes "rows_ok rows" "old \<in> set rows" "same_row old new"
  shows "map object_key (replace_row new rows) = map object_key rows" "map row_pk (replace_row new rows) = map row_pk rows"
proof -
  have "object_key new = object_key r" if "r \<in> set rows" "row_pk r = row_pk new" for r
    using rows_ok_unique [OF assms(1) that(1) assms(2)] that assms(3) by (auto simp: same_row_def)
  then show "map object_key (replace_row new rows) = map object_key rows" by (auto simp: replace_row_def)
qed (auto simp: replace_row_def)

lemma rows_ok_replace: "rows_ok rows \<Longrightarrow> old \<in> set rows \<Longrightarrow> same_row old new \<Longrightarrow> rows_ok (replace_row new rows)"
  unfolding rows_ok_def using replace_row_keys [of rows old new] by (simp add: rows_ok_def)

lemma visible_text_row: "rows_ok rows \<Longrightarrow> r \<in> set rows \<Longrightarrow> visible_text rows (object_key r) = shown_row r"
  using rows_ok_unique [of rows r]
  by (cases "visible_text rows (object_key r)")
    (fastforce simp: visible_text_None visible_text_Some rows_ok_def shown_row_def)+

lemma visible_text_replace_row:
  assumes "rows_ok rows" "old \<in> set rows" "same_row old new"
  shows "visible_text (replace_row new rows) = (visible_text rows)(object_key new := shown_row new)"
proof
  fix k
  show "visible_text (replace_row new rows) k = ((visible_text rows)(object_key new := shown_row new)) k"
  proof (cases "k = object_key new")
    case True
    have "new \<in> set (replace_row new rows)" using assms(2,3) by (force simp: replace_row_def same_row_def)
    then show ?thesis using True visible_text_row [OF rows_ok_replace [OF assms]] by simp
  next
    case False
    have "row_pk r \<noteq> row_pk new" if "r \<in> set rows" "object_key r = k" for r
      using rows_ok_unique [OF assms(1) that(1) assms(2)] that(2) False assms(3) by (auto simp: same_row_def)
    then have "\<And>r. r \<in> set rows \<Longrightarrow> object_key r = k \<Longrightarrow> row_pk r \<noteq> row_pk new" by blast
    then have "visible_text (map (\<lambda>r. if row_pk r = row_pk new then new else r) rows) k = visible_text rows k"
      using False by (induction rows) (auto simp: visible_text_def)
    then show ?thesis using False by (simp add: replace_row_def)
  qed
qed

text \<open>Entries are the old row, the new row and the changes that were journalled for it.\<close>

definition entry_ok :: "settings \<Rightarrow> db_row list \<Rightarrow> db_row \<times> db_row \<times> change list \<Rightarrow> bool" where
  "entry_ok gs rows e \<longleftrightarrow> fst e \<in> set rows \<and> same_row (fst e) (fst (snd e)) \<and> explained gs (fst e) (fst (snd e)) (snd (snd e))"

lemma replace_rows_mirrored:
  assumes "rows_ok rows" and "distinct (map (\<lambda>e. row_pk (fst e)) es)" and "\<forall>e \<in> set es. entry_ok gs rows e"
    and "\<forall>k. kept_key gs k \<longrightarrow> m k = visible_text rows k"
  shows "rows_ok (fold (\<lambda>e. replace_row (fst (snd e))) es rows) \<and>
    (\<forall>k. kept_key gs k \<longrightarrow> fold apply_change (concat (map (\<lambda>e. snd (snd e)) es)) m k
      = visible_text (fold (\<lambda>e. replace_row (fst (snd e))) es rows) k)"
  using assms
proof (induction es arbitrary: rows m)
  case Nil
  then show ?case by simp
next
  case (Cons e es)
  obtain old new cs where e: "e = (old, new, cs)" by (cases e)
  have ok: "old \<in> set rows" "same_row old new" "explained gs old new cs"
    using Cons.prems(3) by (auto simp: e entry_ok_def)
  let ?rows = "replace_row new rows" and ?m = "fold apply_change cs m"
  have vis: "visible_text ?rows = (visible_text rows)(object_key new := shown_row new)"
    using visible_text_replace_row [OF Cons.prems(1) ok(1,2)] .
  have "?m k = visible_text ?rows k" if k: "kept_key gs k" for k
  proof (cases "kept_key gs (object_key new)")
    case True
    have "m (object_key new) = shown_row old"
      using Cons.prems(4) True visible_text_row [OF Cons.prems(1) ok(1)] ok(2) by (simp add: same_row_def)
    then have "?m = m(object_key new := shown_row new)" using ok(3) True by (simp add: explained_def)
    then show ?thesis using vis k Cons.prems(4) by simp
  next
    case False
    then show ?thesis using ok(3) k vis Cons.prems(4) by (auto simp: explained_def)
  qed
  moreover have "rows_ok ?rows" using rows_ok_replace [OF Cons.prems(1) ok(1,2)] .
  moreover have "\<forall>e' \<in> set es. entry_ok gs ?rows e'"
  proof
    fix e' assume e': "e' \<in> set es"
    have "row_pk (fst e') \<noteq> row_pk old" using Cons.prems(2) e' by (metis (no_types, lifting) e distinct.simps(2) fst_conv image_eqI list.simps(9) set_map)
    then have "fst e' \<in> set ?rows" using Cons.prems(3) e' ok(2)
      by (force simp: entry_ok_def replace_row_def same_row_def)
    then show "entry_ok gs ?rows e'" using Cons.prems(3) e' by (simp add: entry_ok_def)
  qed
  ultimately show ?case using Cons.IH [of ?rows ?m] Cons.prems(2) by (simp add: e)
qed

lemma fold_replace_row:
  "distinct (map row_pk news) \<Longrightarrow> fold replace_row news rows
     = map (\<lambda>r. case map_of (map (\<lambda>n. (row_pk n, n)) news) (row_pk r) of None \<Rightarrow> r | Some n \<Rightarrow> n) rows"
proof (induction news arbitrary: rows)
  case Nil
  then show ?case by simp
next
  case (Cons n news)
  then have "map_of (map (\<lambda>n. (row_pk n, n)) news) (row_pk n) = None"
    by (force simp: map_of_eq_None_iff)
  then show ?case using Cons by (auto simp: replace_row_def split: option.splits)
qed

text \<open>The changes that one row of a status update journals.\<close>

definition status_change :: "settings \<Rightarrow> database_operation \<Rightarrow> bool \<Rightarrow> bool \<Rightarrow> db_row \<Rightarrow> change list" where
  "status_change gs operation visible_previously visible_now r =
     (if kept_key gs (object_key r) \<and> (case operation of add_or_update \<Rightarrow> visible_now \<and> \<not> visible_previously
          | op_delete \<Rightarrow> \<not> visible_now \<and> visible_previously)
      then [(operation, object_key r, c_text r)] else [])"

lemma object_modified_journalled: "journalled [] h (object_modified_dict r orig h)"
  by (rule journalledI [where g = "next_global h" and t = "status_tracker h"
        and c = "changed_objects_tracker (object_modified_dict r orig h)"])
    (simp_all add: object_modified_dict_def object_modified_def Let_def)

lemma record_dict_journalled:
  assumes "record_operation_from_rpsl_dict gs now operation r orig h = Inr h'" and "journaling_enabled (status_tracker h)"
  shows "\<exists>es. journalled es h (object_modified_dict r orig' h') \<and>
    map je_change es = (if kept_key gs (object_key r) then [(operation, object_key r, c_text r)] else [])"
proof -
  obtain es where es: "journalled es h h'" "map je_change es = (if keeps_journal gs (c_source r) h
      then [(operation, (c_rpsl_pk r, c_source r, c_class r), c_text r)] else [])"
    using record_operation_journalled [OF assms(1) [unfolded record_operation_from_rpsl_dict_def]] by blast
  have "journalled (es @ []) h (object_modified_dict r orig' h')"
    using journalled_trans [OF es(1) object_modified_journalled] .
  then show ?thesis using es(2) assms(2) by (intro exI [of _ es]) (simp add: keeps_journal_def kept_key_def object_key_def)
qed

lemma journal_change_journalled:
  assumes "journal_change gs now operation orig p n r h = Inr h'" and "journaling_enabled (status_tracker h)"
  shows "\<exists>es. journalled es h h' \<and> map je_change es = status_change gs operation p n r"
proof (cases "case operation of add_or_update \<Rightarrow> n \<and> \<not> p | op_delete \<Rightarrow> \<not> n \<and> p")
  case True
  then obtain h1 where "record_operation_from_rpsl_dict gs now operation r orig h = Inr h1"
    and h': "h' = object_modified_dict r orig h1" using assms(1) by (auto simp: journal_change_def rbind_Inr_conv)
  from record_dict_journalled [OF this(1) assms(2), of orig] True show ?thesis
    by (auto simp: h' status_change_def)
next
  case False
  then show ?thesis using assms journalled_refl [of h] by (auto simp: journal_change_def status_change_def)
qed

definition rpki_change :: "settings \<Rightarrow> database_operation \<Rightarrow> db_row \<times> rpki_status \<Rightarrow> change list" where
  "rpki_change gs operation e =
     status_change gs operation (object_is_visible (snd e) (c_scope (fst e)) (c_pref (fst e))) (columns_visible (fst e)) (fst e)"

interpretation rpki_loop: journal_loop "journal_rpki_changes gs now operation"
    "\<lambda>(r, old). journal_change gs now operation origin_rpki_status (object_is_visible old (c_scope r) (c_pref r))
       (columns_visible r) r" "rpki_change gs operation" for gs now operation
  by unfold_locales (auto simp: rpki_change_def dest: journal_change_journalled)

definition scope_change :: "settings \<Rightarrow> database_operation \<Rightarrow> db_row \<times> scopefilter_status \<Rightarrow> change list" where
  "scope_change gs operation e =
     status_change gs operation (object_is_visible (c_rpki (fst e)) (snd e) (c_pref (fst e))) (columns_visible (fst e)) (fst e)"

interpretation scope_loop: journal_loop "journal_scope_changes gs now operation"
    "\<lambda>(r, old). journal_change gs now operation origin_scope_filter (object_is_visible (c_rpki r) old (c_pref r))
       (columns_visible r) r" "scope_change gs operation" for gs now operation
  by unfold_locales (auto simp: scope_change_def dest: journal_change_journalled)

definition pref_change :: "settings \<Rightarrow> database_operation \<Rightarrow> db_row \<Rightarrow> change list" where
  "pref_change gs operation r =
     (if kept_key gs (object_key r) \<and> object_is_visible (c_rpki r) (c_scope r) pref_visible
      then [(operation, object_key r, c_text r)] else [])"

interpretation pref_loop: journal_loop "journal_pref_changes gs now operation"
    "\<lambda>r h. if object_is_visible (c_rpki r) (c_scope r) pref_visible
       then rbind (record_operation_from_rpsl_dict gs now operation r origin_route_preference h)
         (\<lambda>h1. Inr (object_modified_dict r origin_route_preference h1))
       else Inr h" "pref_change gs operation" for gs now operation
proof
  fix r :: db_row and h h' :: "'ip handler"
  assume *: "(if object_is_visible (c_rpki r) (c_scope r) pref_visible
       then rbind (record_operation_from_rpsl_dict gs now operation r origin_route_preference h)
         (\<lambda>h1. Inr (object_modified_dict r origin_route_preference h1))
       else Inr h) = Inr h'" and j: "journaling_enabled (status_tracker h)"
  show "\<exists>js. journalled js h h' \<and> map je_change js = pref_change gs operation r"
  proof (cases "object_is_visible (c_rpki r) (c_scope r) pref_visible")
    case True
    then obtain h1 where r: "record_operation_from_rpsl_dict gs now operation r origin_route_preference h = Inr h1"
      and h': "h' = object_modified_dict r origin_route_preference h1" using * by (auto simp: rbind_Inr_conv)
    show ?thesis using record_dict_journalled [OF r j, of origin_route_preference] True by (simp add: pref_change_def h')
  next
    case False
    then show ?thesis using * journalled_refl [of h] by (auto simp: pref_change_def)
  qed
qed auto

end
