(* ===== verification/Journal_Mirror.thy ===== *)
theory Journal_Mirror
  imports Database_Facts
begin

text \<open>
  The journal describes the visible objects: a mirror that applies the journal of a source from its
  start holds exactly the objects of the source that are not suppressed, with their current text.
  The step relation has the calls that the components make on a database handler with
  journaling. Expiry of the journal and the bulk deletion before a full import, which drop
  the journal, are left out.
\<close>

section \<open>The invariant\<close>

definition tables_ok :: "settings \<Rightarrow> nat \<Rightarrow> tables \<Rightarrow> bool" where
  "tables_ok gs n T \<longleftrightarrow> rows_ok (t_objects T) \<and> (\<forall>m \<ge> n. str_nat m \<notin> set (map row_pk (t_objects T))) \<and> mirrored gs T"

definition db_inv :: "settings \<Rightarrow> 'ip handler \<Rightarrow> bool" where
  "db_inv gs h \<longleftrightarrow> journaling_enabled (status_tracker h) \<and> h_journaling h \<and> tables_ok gs (next_pk h) (cur h) \<and>
     tables_ok gs (next_pk h) (committed h) \<and> buffer_ok h \<and> no_hidden_overwrite h"

lemma tables_ok_later: "tables_ok gs n T \<Longrightarrow> n \<le> n' \<Longrightarrow> tables_ok gs n' T"
  by (auto simp: tables_ok_def)

lemma tables_ok_cong:
  "t_objects T' = t_objects T \<Longrightarrow> t_journal T' = t_journal T \<Longrightarrow> tables_ok gs n T' = tables_ok gs n T"
  by (simp add: tables_ok_def mirrored_def)

lemma inj_str_nat: "str_nat m = str_nat n \<Longrightarrow> m = n"
  by (metis int_digits_str_nat option.inject)

text \<open>Row keys and primary keys stay unique when rows are written.\<close>

definition rows_fresh :: "'ip handler \<Rightarrow> bool" where
  "rows_fresh h \<longleftrightarrow> rows_ok (t_objects (cur h)) \<and> (\<forall>m \<ge> next_pk h. str_nat m \<notin> set (map row_pk (t_objects (cur h))))"

lemma row_pk_extend [simp]: "row_pk (columns.extend cols (db_row.fields key created)) = key"
  by (simp add: columns.defs db_row.defs)

lemma upsert_row_fresh:
  assumes "rows_fresh h"
  shows "rows_fresh (upsert_row now cols created h) \<and> next_pk h \<le> next_pk (upsert_row now cols created h)"
proof (cases "list_ex (\<lambda>r. object_key r = object_key cols) (t_objects (cur h))")
  case True
  let ?f = "\<lambda>r. if object_key r = object_key cols
    then columns.extend cols (db_row.fields (row_pk r) (default_created now created)) else r"
  have upd: "upsert_row now cols created h = h\<lparr>cur := (cur h)\<lparr>t_objects := map ?f (t_objects (cur h))\<rparr>\<rparr>"
    using True by (simp add: upsert_row_def on_tables_def)
  have keys: "map object_key (map ?f rows) = map object_key rows" "map row_pk (map ?f rows) = map row_pk rows" for rows
    by simp_all
  have "t_objects (cur (upsert_row now cols created h)) = map ?f (t_objects (cur h))"
    "next_pk (upsert_row now cols created h) = next_pk h" by (simp_all add: upd)
  then show ?thesis using assms by (simp only: rows_fresh_def rows_ok_def keys order_refl simp_thms) blast
next
  case False
  then have new: "object_key cols \<notin> object_key ` set (t_objects (cur h))" by (auto simp: list_ex_iff)
  let ?r = "columns.extend cols (db_row.fields (str_nat (next_pk h)) (default_created now created)) :: db_row"
  have upd: "upsert_row now cols created h
      = h\<lparr>cur := (cur h)\<lparr>t_objects := t_objects (cur h) @ [?r]\<rparr>, next_pk := next_pk h + 1\<rparr>"
    using False by (simp add: upsert_row_def on_tables_def)
  show ?thesis using assms new unfolding upd rows_fresh_def rows_ok_def
    by (auto dest: inj_str_nat)
qed

lemma upsert_rows_fresh:
  "rows_fresh h \<Longrightarrow> rows_fresh (fold (\<lambda>b. upsert_row now (fst b) (fst (snd b))) bs h) \<and>
     next_pk h \<le> next_pk (fold (\<lambda>b. upsert_row now (fst b) (fst (snd b))) bs h)"
proof (induction bs arbitrary: h)
  case (Cons b bs)
  have 1: "rows_fresh (upsert_row now (fst b) (fst (snd b)) h)"
    "next_pk h \<le> next_pk (upsert_row now (fst b) (fst (snd b)) h)" using upsert_row_fresh [OF Cons.prems] by blast+
  show ?case using Cons.IH [OF 1(1)] 1(2) by simp
qed simp

text \<open>Flushing keeps the invariant and empties the buffer.\<close>

definition flushed :: "'ip handler \<Rightarrow> bool" where
  "flushed h \<longleftrightarrow> rpsl_upsert_buffer h = [] \<and> rpsl_pk_source_seen h = []"

lemma flushed_ok: "flushed h \<Longrightarrow> buffer_ok h \<and> no_hidden_overwrite h"
  by (simp add: flushed_def buffer_ok_def no_hidden_overwrite_def)

lemma flush_inv:
  assumes inv: "db_inv gs h" and fl: "flush_rpsl_object_writing_buffer gs now h = Inr h'"
  shows "db_inv gs h' \<and> flushed h' \<and> committed h' = committed h \<and> next_pk h \<le> next_pk h'"
proof -
  let ?h1 = "fold (\<lambda>b. upsert_row now (fst b) (fst (snd b))) (rpsl_upsert_buffer h) h"
  have j: "journaling_enabled (status_tracker h)" using inv by (simp add: db_inv_def)
  from flush_effect [OF fl j] obtain es where e: "t_objects (cur h') = t_objects (cur ?h1)"
    "t_journal (cur h') = t_journal (cur h) @ es" "map je_change es = buffer_changes gs (rpsl_upsert_buffer h)"
    "committed h' = committed h" "rpsl_upsert_buffer h' = []" "rpsl_upsert_buffer h \<noteq> [] \<longrightarrow> rpsl_pk_source_seen h' = []"
    "rpsl_upsert_buffer h = [] \<longrightarrow> h' = h" "journaling_enabled (status_tracker h')" "next_pk h' = next_pk ?h1"
    "h_journaling h' = h_journaling h" by blast
  have seen: "flushed h'" using e(5-7) inv by (auto simp: flushed_def db_inv_def buffer_ok_def)
  have ok: "tables_ok gs (next_pk h) (cur h)" "buffer_ok h" "no_hidden_overwrite h" using inv by (auto simp: db_inv_def)
  have "rows_fresh h" using ok(1) by (simp add: rows_fresh_def tables_ok_def)
  then have fresh: "rows_fresh ?h1 \<and> next_pk h \<le> next_pk ?h1" by (rule upsert_rows_fresh)
  have "replay (map je_change (t_journal (cur h'))) k = visible_text (t_objects (cur h')) k" if "kept_key gs k" for k
    unfolding e(1) e(2) map_append replay_append e(3)
    using ok that by (intro replay_buffer) (auto simp: buffer_ok_def no_hidden_overwrite_def tables_ok_def mirrored_def)
  then have "tables_ok gs (next_pk h') (cur h')"
    using fresh by (simp add: tables_ok_def mirrored_def rows_fresh_def e(1,9))
  moreover have "tables_ok gs (next_pk h') (committed h')"
    using inv fresh tables_ok_later by (auto simp: db_inv_def e(4,9))
  ultimately show ?thesis using inv e(4,8-10) seen flushed_ok [OF seen] fresh by (simp add: db_inv_def)
qed

text \<open>A step that only journals, after rows were removed, replaced or added.\<close>

lemma journalled_inv:
  assumes inv: "db_inv gs h" and fl: "flushed h" and jo: "journalled es h1 h'"
    and h1: "h1 = h\<lparr>cur := (cur h)\<lparr>t_objects := rows, t_suspended := sus\<rparr>, next_pk := p\<rparr>"
    and p: "next_pk h \<le> p" and rows: "rows_ok rows" "set (map row_pk rows) \<subseteq> set (map row_pk (t_objects (cur h)))"
    and vis: "\<And>k. kept_key gs k \<Longrightarrow> fold apply_change (map je_change es) (replay (map je_change (t_journal (cur h)))) k
      = visible_text rows k"
  shows "db_inv gs h' \<and> flushed h'"
proof -
  note s = journalled_simps [OF jo]
  have "str_nat m \<notin> set (map row_pk rows)" if "p \<le> m" for m
    using inv that p subsetD [OF rows(2), of "str_nat m"] unfolding db_inv_def tables_ok_def by (meson order_trans)
  then have "tables_ok gs p (cur h')"
    using rows(1) vis by (simp add: tables_ok_def mirrored_def s h1 replay_append)
  moreover have "tables_ok gs p (committed h')" using inv p tables_ok_later by (auto simp: db_inv_def s h1)
  moreover have f: "flushed h'" using fl by (simp add: flushed_def s h1)
  ultimately show ?thesis using inv flushed_ok [OF f] by (simp add: db_inv_def s h1)
qed

section \<open>Each call keeps the invariant\<close>

text \<open>The text that is shown for a key once the buffer is written.\<close>

definition latest_text :: "'ip handler \<Rightarrow> string \<times> string \<times> string \<Rightarrow> string option" where
  "latest_text h k = (case find (\<lambda>b. buffer_key b = k) (rpsl_upsert_buffer h) of
     Some b \<Rightarrow> shown (fst b) | None \<Rightarrow> visible_text (t_objects (cur h)) k)"

lemma upsert_rows_text:
  "distinct (map buffer_key bs) \<Longrightarrow>
     visible_text (t_objects (cur (fold (\<lambda>b. upsert_row now (fst b) (fst (snd b))) bs h))) k
     = (case find (\<lambda>b. buffer_key b = k) bs of Some b \<Rightarrow> shown (fst b) | None \<Rightarrow> visible_text (t_objects (cur h)) k)"
proof (induction bs arbitrary: h)
  case Nil
  then show ?case by simp
next
  case (Cons b bs)
  have "find (\<lambda>b. buffer_key b = k) bs = None" if "buffer_key b = k"
    unfolding find_None_iff using Cons.prems that by (metis distinct.simps(2) image_eqI list.simps(9) set_map)
  then show ?case using Cons by (auto simp: upsert_row_objects buffer_key_def split: option.splits)
qed

lemma flush_latest:
  assumes "db_inv gs h" and "flush_rpsl_object_writing_buffer gs now h = Inr h'"
  shows "visible_text (t_objects (cur h')) k = latest_text h k"
  using flush_effect [OF assms(2)] assms(1)
  by (auto simp: db_inv_def buffer_ok_def latest_text_def upsert_rows_text)

lemma object_modified_inv:
  "db_inv gs (object_modified cls src p orig h) = db_inv gs h"
  "flushed (object_modified cls src p orig h) = flushed h"
  by (simp_all add: object_modified_def Let_def db_inv_def buffer_ok_def no_hidden_overwrite_def flushed_def)

lemma db_inv_flag [simp]: "db_inv gs (h\<lparr>rpsl_guaranteed_no_existing := b\<rparr>) = db_inv gs h"
  by (simp add: db_inv_def buffer_ok_def no_hidden_overwrite_def)

lemma latest_text_flag [simp]: "latest_text (h\<lparr>rpsl_guaranteed_no_existing := b\<rparr>) k = latest_text h k"
  by (simp add: latest_text_def split: option.split)

lemma buffer_key_new:
  assumes "buffer_ok h" and "pk_source_text cols \<notin> set (rpsl_pk_source_seen h)" and "b \<in> set (rpsl_upsert_buffer h)"
  shows "buffer_key b \<noteq> object_key cols"
proof
  assume "buffer_key b = object_key cols"
  then have "pk_source_text (fst b) = pk_source_text cols" by (simp add: buffer_key_def pk_source_text_def object_key_def)
  moreover have "pk_source_text (fst b) \<in> set (rpsl_pk_source_seen h)" using assms(1,3) unfolding buffer_ok_def by blast
  ultimately show False using assms(2) by simp
qed

lemma buffer_append_inv:
  assumes inv: "db_inv gs h" and new: "pk_source_text cols \<notin> set (rpsl_pk_source_seen h)"
    and ok: "columns_visible cols \<or> visible_text (t_objects (cur h)) (object_key cols) = None"
  shows "db_inv gs (h\<lparr>rpsl_upsert_buffer := rpsl_upsert_buffer h @ [(cols, x)],
    rpsl_pk_source_seen := List.insert (pk_source_text cols) (rpsl_pk_source_seen h)\<rparr>)" (is "db_inv gs ?h")
proof -
  have b: "buffer_ok h" "no_hidden_overwrite h" using inv by (auto simp: db_inv_def)
  have "object_key cols \<notin> buffer_key ` set (rpsl_upsert_buffer h)" using buffer_key_new [OF b(1) new] by (metis imageE)
  then have "distinct (map buffer_key (rpsl_upsert_buffer ?h))" using b(1) by (simp add: buffer_ok_def buffer_key_def)
  moreover have "set (rpsl_pk_source_seen ?h) = (\<lambda>b. pk_source_text (fst b)) ` set (rpsl_upsert_buffer ?h)"
    using b(1) by (simp add: buffer_ok_def)
  ultimately have "buffer_ok ?h" unfolding buffer_ok_def by blast
  moreover have "no_hidden_overwrite ?h" using b(2) ok by (simp add: no_hidden_overwrite_def buffer_key_def)
  ultimately show ?thesis using inv by (simp add: db_inv_def)
qed

lemma buffer_object_inv:
  assumes inv: "db_inv gs h" and step: "buffer_object gs now cols pre orig ss fc h = Inr h'"
    and ok: "columns_visible cols \<or> latest_text h (object_key cols) = None"
  shows "db_inv gs h'"
proof -
  have "\<exists>h1. (if pk_source_text cols \<in> set (rpsl_pk_source_seen h)
      then flush_rpsl_object_writing_buffer gs now h else Inr h) = Inr h1"
    using step by (auto simp: buffer_object_def rbind_Inr_conv split: if_splits)
  then obtain h1 where h1: "(if pk_source_text cols \<in> set (rpsl_pk_source_seen h)
      then flush_rpsl_object_writing_buffer gs now h else Inr h) = Inr h1" by blast
  have i1: "db_inv gs h1 \<and> pk_source_text cols \<notin> set (rpsl_pk_source_seen h1) \<and>
      visible_text (t_objects (cur h1)) (object_key cols) = latest_text h (object_key cols)"
  proof (cases "pk_source_text cols \<in> set (rpsl_pk_source_seen h)")
    case True
    then show ?thesis using h1 flush_inv [OF inv] flush_latest [OF inv] by (simp add: flushed_def)
  next
    case False
    then have "find (\<lambda>b. buffer_key b = object_key cols) (rpsl_upsert_buffer h) = None"
      unfolding find_None_iff using inv buffer_key_new db_inv_def by blast
    then show ?thesis using False h1 inv by (simp add: latest_text_def)
  qed
  have i2: "db_inv gs (object_modified (c_class cols) (c_source cols) (map_option Inl pre) None
      (h1\<lparr>rpsl_upsert_buffer := rpsl_upsert_buffer h1 @ [(cols, fc, orig, ss)],
          rpsl_pk_source_seen := List.insert (pk_source_text cols) (rpsl_pk_source_seen h1)\<rparr>))"
    unfolding object_modified_inv using buffer_append_inv i1 ok by metis
  show ?thesis using step h1 i2 flush_inv [OF i2] by (auto simp: buffer_object_def Let_def split: if_splits)
qed

lemma remove_inv:
  assumes inv: "db_inv gs h" and fl: "flushed h" and r: "r \<in> set (t_objects (cur h))" and p: "next_pk h \<le> p"
    and h1: "h1 = h\<lparr>cur := (cur h)\<lparr>t_objects := filter (\<lambda>r'. object_key r' \<noteq> object_key r) (t_objects (cur h)),
      t_suspended := sus\<rparr>, next_pk := p\<rparr>"
    and rec: "record_operation gs now op_delete (c_rpsl_pk r) (c_source r) (c_class r) (c_text r) orig ss h1 = Inr h'"
  shows "db_inv gs h' \<and> flushed h'"
proof -
  let ?rows = "filter (\<lambda>r'. object_key r' \<noteq> object_key r) (t_objects (cur h))"
  obtain es where es: "journalled es h1 h'" "map je_change es = (if keeps_journal gs (c_source r) h1
      then [(op_delete, object_key r, c_text r)] else [])"
    using record_operation_journalled [OF rec] unfolding object_key_def by blast
  have ok: "rows_ok (t_objects (cur h))" "mirrored gs (cur h)" "journaling_enabled (status_tracker h)"
    using inv by (auto simp: db_inv_def tables_ok_def)
  have rows: "rows_ok ?rows" "set (map row_pk ?rows) \<subseteq> set (map row_pk (t_objects (cur h)))"
    using ok(1) by (auto simp: rows_ok_def distinct_map_filter)
  have "fold apply_change (map je_change es) (replay (map je_change (t_journal (cur h)))) k = visible_text ?rows k"
    if k: "kept_key gs k" for k
  proof (cases "k = object_key r")
    case True
    then have "keeps_journal gs (c_source r) h1"
      using k ok(3) by (simp add: keeps_journal_def kept_key_def h1 object_key_def)
    moreover have "visible_text ?rows k = None" using True by (simp add: visible_text_None)
    ultimately show ?thesis using True es(2) by (simp add: apply_change_def)
  next
    case False
    then have "visible_text ?rows k = visible_text (t_objects (cur h)) k" by (intro visible_text_filter) simp
    then show ?thesis using False es(2) ok(2) k by (auto simp: mirrored_def apply_change_def)
  qed
  from journalled_inv [OF inv fl es(1) h1 p rows this] show ?thesis .
qed

lemma on_tables_inv:
  assumes "\<And>T. t_objects (f T) = t_objects T" "\<And>T. t_journal (f T) = t_journal T"
  shows "db_inv gs (on_tables f h) = db_inv gs h" "flushed (on_tables f h) = flushed h"
  using assms tables_ok_cong [of "f (cur h)" "cur h"]
  by (simp_all add: on_tables_def db_inv_def flushed_def buffer_ok_def no_hidden_overwrite_def)

lemma on_tracker_inv:
  assumes "\<And>t. journaling_enabled (f t) = journaling_enabled t"
  shows "db_inv gs (on_tracker f h) = db_inv gs h" "flushed (on_tracker f h) = flushed h"
  using assms by (simp_all add: on_tracker_def db_inv_def flushed_def buffer_ok_def no_hidden_overwrite_def)

lemma write_permitted: "check_write_permitted h = Inr h1 \<Longrightarrow> h1 = h"
  by (auto simp: check_write_permitted_def split: if_splits)

lemma single_row_match:
  "check_single_row_match rows n = Inr found \<Longrightarrow> (found = None \<and> rows = []) \<or> (\<exists>r. found = Some r \<and> rows = [r])"
  by (auto simp: check_single_row_match_def split: list.splits)

lemma delete_matching_inv:
  assumes i1: "db_inv gs h" "flushed h" and matches: "matches = key_matches p c q"
    and del: "delete_matching gs now orig matches n ss protect h = Inr h'"
  shows "db_inv gs h' \<and> flushed h'"
proof -
  obtain found where found: "check_single_row_match (filter matches (t_objects (cur h))) n = Inr found"
    using del by (auto simp: delete_matching_def rbind_Inr_conv)
  from single_row_match [OF this] show ?thesis
  proof
    assume "found = None \<and> filter matches (t_objects (cur h)) = []"
    then show ?thesis using del found i1 by (auto simp: delete_matching_def)
  next
    assume "\<exists>r. found = Some r \<and> filter matches (t_objects (cur h)) = [r]"
    then obtain r where 2: "found = Some r" "filter matches (t_objects (cur h)) = [r]" by blast
    have r: "r \<in> set (t_objects (cur h))" "matches r" using arg_cong [OF 2(2), of set] by auto
    then have eq: "matches = (\<lambda>r'. object_key r' = object_key r)"
      by (auto simp: matches key_matches_def object_key_def fun_eq_iff)
    obtain h3 where rec: "record_operation gs now op_delete (c_rpsl_pk r) (c_source r) (c_class r) (c_text r) orig ss
        (on_tables (\<lambda>T. T\<lparr>t_objects := filter (\<lambda>r'. object_key r' \<noteq> object_key r) (t_objects T)\<rparr>) h) = Inr h3"
      and h': "h' = object_modified_dict r orig h3 \<or> h' = on_tables (protect_name r) (object_modified_dict r orig h3)"
      using del found 2(1) by (auto simp: delete_matching_def eq rbind_Inr_conv split: if_splits)
    have "db_inv gs h3 \<and> flushed h3"
      by (rule remove_inv [OF i1 r(1) order_refl _ rec, where sus = "t_suspended (cur h)"]) (simp add: on_tables_def)
    then show ?thesis using h'
      by (auto simp: object_modified_dict_def object_modified_inv on_tables_inv protect_name_def)
  qed
qed

lemma delete_inv:
  assumes inv: "db_inv gs h" and del: "delete_rpsl_object gs now orig obj src_opt pk_opt cls_opt ss protect h = Inr h'"
  shows "db_inv gs h' \<and> flushed h'"
proof -
  obtain h1 p c q n prot where "flush_rpsl_object_writing_buffer gs now h = Inr h1"
    and "delete_matching gs now orig (key_matches p c q) n ss prot h1 = Inr h'"
    using del unfolding delete_rpsl_object_def Let_def rbind_Inr_conv
    by (metis Inl_Inr_False write_permitted)
  then show ?thesis using flush_inv [OF inv] delete_matching_inv [OF _ _ refl] by blast
qed

lemma suspend_inv:
  assumes inv: "db_inv gs h" and sus: "suspend_rpsl_object gs now uuid h = Inr h'"
  shows "db_inv gs h' \<and> flushed h'"
proof -
  obtain h1 r ms h3 where fl: "flush_rpsl_object_writing_buffer gs now h = Inr h1"
    and one: "filter (\<lambda>r. row_pk r = uuid) (t_objects (cur h1)) = [r]"
    and rec: "record_operation gs now op_delete (c_rpsl_pk r) (c_source r) (c_class r) (c_text r) origin_suspension None
        ((on_tables (\<lambda>T. T\<lparr>t_objects := filter (\<lambda>r. row_pk r \<noteq> uuid) (t_objects T),
           t_suspended := t_suspended T @ [suspended_of now (str_nat (next_pk h1)) ms r]\<rparr>) h1)\<lparr>next_pk := next_pk h1 + 1\<rparr>) = Inr h3"
    and h': "h' = object_modified_dict r origin_suspension h3"
    using sus by (auto simp: suspend_rpsl_object_def rbind_Inr_conv Let_def dest!: write_permitted single_row_match)
  have i1: "db_inv gs h1" "flushed h1" using flush_inv [OF inv fl] by auto
  have r: "r \<in> set (t_objects (cur h1))" "row_pk r = uuid" using arg_cong [OF one, of set] by auto
  have "rows_ok (t_objects (cur h1))" using i1(1) by (auto simp: db_inv_def tables_ok_def)
  from rows_ok_unique [OF this _ r(1)] have
    "filter (\<lambda>r. row_pk r \<noteq> uuid) (t_objects (cur h1)) = filter (\<lambda>r'. object_key r' \<noteq> object_key r) (t_objects (cur h1))"
    using r(2) by (intro filter_cong) auto
  then have "db_inv gs h3 \<and> flushed h3"
    by (intro remove_inv [OF i1 r(1) _ _ rec, where p = "next_pk h1 + 1"
          and sus = "t_suspended (cur h1) @ [suspended_of now (str_nat (next_pk h1)) ms r]"])
      (simp_all add: on_tables_def)
  then show ?thesis by (simp add: h' object_modified_dict_def object_modified_inv)
qed

section \<open>Changes of status keep the invariant\<close>

text \<open>A statement that sets a column of the rows with given primary keys replaces these rows.\<close>

lemma update_replaces:
  assumes ok: "rows_ok rows" and pk: "\<And>r. row_pk (upd r) = row_pk r" and dist: "distinct (map row_pk news)"
    and news: "\<forall>n \<in> set news. \<exists>r \<in> set rows. n = upd r"
    and others: "\<And>r. r \<in> set rows \<Longrightarrow> row_pk r \<notin> set (map row_pk news) \<Longrightarrow> upd r = r"
  shows "map upd rows = fold replace_row news rows"
  unfolding fold_replace_row [OF dist]
proof (rule map_cong [OF refl])
  fix r assume r: "r \<in> set rows"
  show "upd r = (case map_of (map (\<lambda>n. (row_pk n, n)) news) (row_pk r) of None \<Rightarrow> r | Some n \<Rightarrow> n)"
  proof (cases "map_of (map (\<lambda>n. (row_pk n, n)) news) (row_pk r)")
    case None
    then have "row_pk r \<notin> set (map row_pk news)" by (force simp: map_of_eq_None_iff image_image)
    then show ?thesis using None others [OF r] by simp
  next
    case (Some n)
    then have n: "n \<in> set news" "row_pk n = row_pk r" using map_of_SomeD [OF Some] by auto
    obtain r0 where "r0 \<in> set rows" "n = upd r0" using news n(1) by blast
    then have "n = upd r" using rows_ok_unique [OF ok _ r] n(2) pk by auto
    then show ?thesis using Some by simp
  qed
qed

lemma fold_replace_pks: "map row_pk (fold replace_row news rows) = map row_pk rows"
  by (induction news arbitrary: rows) (auto simp: replace_row_def)

lemma replaced_inv:
  assumes inv: "db_inv gs h" and fl: "flushed h" and jo: "journalled js h1 h'"
    and h1: "h1 = h\<lparr>cur := (cur h)\<lparr>t_objects := fold replace_row (map (\<lambda>e. fst (snd e)) es) (t_objects (cur h))\<rparr>\<rparr>"
    and js: "map je_change js = concat (map (\<lambda>e. snd (snd e)) es)"
    and es: "distinct (map (\<lambda>e. row_pk (fst e)) es)" "\<forall>e \<in> set es. entry_ok gs (t_objects (cur h)) e"
  shows "db_inv gs h' \<and> flushed h'"
proof -
  let ?rows = "fold replace_row (map (\<lambda>e. fst (snd e)) es) (t_objects (cur h))"
  have ok: "rows_ok (t_objects (cur h))" "mirrored gs (cur h)" using inv by (auto simp: db_inv_def tables_ok_def)
  have eq: "fold (\<lambda>e. replace_row (fst (snd e))) es = fold replace_row (map (\<lambda>e. fst (snd e)) es)"
    by (simp add: fold_map comp_def)
  have r: "rows_ok ?rows" and vis: "\<And>k. kept_key gs k \<Longrightarrow>
      fold apply_change (map je_change js) (replay (map je_change (t_journal (cur h)))) k = visible_text ?rows k"
    using replace_rows_mirrored [OF ok(1) es, of "replay (map je_change (t_journal (cur h)))"] ok(2)
    by (auto simp: mirrored_def eq js)
  have pks: "set (map row_pk ?rows) \<subseteq> set (map row_pk (t_objects (cur h)))" by (simp only: fold_replace_pks order_refl)
  have "h1 = h\<lparr>cur := (cur h)\<lparr>t_objects := ?rows, t_suspended := t_suspended (cur h)\<rparr>, next_pk := next_pk h\<rparr>"
    by (simp add: h1)
  from journalled_inv [OF inv fl jo this order_refl r pks vis] show ?thesis .
qed

text \<open>What a journalled change explains.\<close>

lemma explained_status:
  assumes "shown_row old = (if p then Some (c_text new) else None)" "shown_row new = (if n then Some (c_text new) else None)"
    and "case operation of add_or_update \<Rightarrow> p \<longrightarrow> n | op_delete \<Rightarrow> n \<longrightarrow> p"
  shows "explained gs old new (status_change gs operation p n new)"
  using assms by (auto simp: explained_def status_change_def apply_change_def fun_upd_idem split: database_operation.splits)

text \<open>
  A status column. Entries are rows with their new status together with the old one, and describe the
  stored rows when the row with the old status is stored. \<open>status_upd\<close> is the effect of three
  statements that set the status of rows by primary key.
\<close>

abbreviation entry_pks :: "(db_row \<times> 'st) list \<Rightarrow> string list" where
  "entry_pks \<equiv> map (\<lambda>e. row_pk (fst e))"

definition described :: "(db_row \<Rightarrow> 'st) \<Rightarrow> ('st \<Rightarrow> db_row \<Rightarrow> db_row) \<Rightarrow> db_row list \<Rightarrow> 'st \<Rightarrow> (db_row \<times> 'st) list \<Rightarrow> bool" where
  "described st_get st_set rows status es \<longleftrightarrow> (\<forall>e \<in> set es. st_get (fst e) = status \<and> st_set (snd e) (fst e) \<in> set rows)"

definition status_upd :: "('st \<Rightarrow> db_row \<Rightarrow> db_row) \<Rightarrow> string list \<Rightarrow> 'st \<Rightarrow> string list \<Rightarrow> 'st \<Rightarrow> string list \<Rightarrow> 'st
    \<Rightarrow> db_row \<Rightarrow> db_row" where
  "status_upd st_set a sa b sb c sc r = (if row_pk r \<in> set c then st_set sc r
     else if row_pk r \<in> set b then st_set sb r else if row_pk r \<in> set a then st_set sa r else r)"

lemma entry_pks_disjoint:
  "distinct (entry_pks (a @ b)) \<Longrightarrow> e \<in> set a \<Longrightarrow> row_pk (fst e) \<notin> set (entry_pks b)"
  "distinct (entry_pks (a @ b)) \<Longrightarrow> e \<in> set b \<Longrightarrow> row_pk (fst e) \<notin> set (entry_pks a)"
  by (auto simp del: split_paired_Ex)

lemma entry_pks_mem: "e \<in> set a \<Longrightarrow> row_pk (fst e) \<in> set (entry_pks a)"
  by simp

locale row_status =
  fixes st_get :: "db_row \<Rightarrow> 'st" and st_set :: "'st \<Rightarrow> db_row \<Rightarrow> db_row"
  assumes pk_set [simp]: "row_pk (st_set s r) = row_pk r"
    and key_set [simp]: "object_key (st_set s r) = object_key r"
    and text_set [simp]: "c_text (st_set s r) = c_text r"
    and set_set [simp]: "st_set s (st_set s' r) = st_set s r"
    and set_get [simp]: "st_set (st_get r) r = r"
begin

lemma described_old:
  assumes "described st_get st_set rows status es" and "e \<in> set es"
  shows "\<exists>r \<in> set rows. row_pk r = row_pk (fst e) \<and> fst e = st_set status r"
proof -
  have e: "st_get (fst e) = status" "st_set (snd e) (fst e) \<in> set rows" using assms by (auto simp: described_def)
  then have "fst e = st_set status (st_set (snd e) (fst e))" using set_get [of "fst e"] by simp
  then show ?thesis using e(2) pk_set by metis
qed

lemma upd_news:
  assumes d: "described st_get st_set rows sa a" "described st_get st_set rows sb b" "described st_get st_set rows sc c"
    and dist: "distinct (entry_pks (a @ b @ c))" and e: "e \<in> set (a @ b @ c)"
  shows "\<exists>r \<in> set rows. fst e = status_upd st_set (entry_pks a) sa (entry_pks b) sb (entry_pks c) sc r"
proof -
  have ds: "distinct (entry_pks (a @ b))" "distinct (entry_pks (a @ c))" "distinct (entry_pks (b @ c))" using dist by auto
  from e consider "e \<in> set a" | "e \<in> set b" | "e \<in> set c" by auto
  then show ?thesis
  proof cases
    case 1
    then show ?thesis using described_old [OF d(1) 1] entry_pks_disjoint(1) [OF ds(1) 1] entry_pks_disjoint(1) [OF ds(2) 1]
        entry_pks_mem [OF 1] unfolding status_upd_def by metis
  next
    case 2
    then show ?thesis using described_old [OF d(2) 2] entry_pks_disjoint(1) [OF ds(3) 2] entry_pks_mem [OF 2]
      unfolding status_upd_def by metis
  next
    case 3
    then show ?thesis using described_old [OF d(3) 3] entry_pks_mem [OF 3] unfolding status_upd_def by metis
  qed
qed

lemma upd_replaces:
  assumes "rows_ok rows"
    and d: "described st_get st_set rows sa a" "described st_get st_set rows sb b" "described st_get st_set rows sc c"
    and dist: "distinct (entry_pks (a @ b @ c))" and es: "distinct (entry_pks es)" "set es = set (a @ b @ c)"
  shows "map (status_upd st_set (entry_pks a) sa (entry_pks b) sb (entry_pks c) sc) rows = fold replace_row (map fst es) rows"
proof (rule update_replaces [OF assms(1)])
  show "\<forall>m \<in> set (map fst es). \<exists>r \<in> set rows. m = status_upd st_set (entry_pks a) sa (entry_pks b) sb (entry_pks c) sc r"
    using upd_news [OF d dist] es(2) by (simp only: set_map ball_simps) blast
  show "status_upd st_set (entry_pks a) sa (entry_pks b) sb (entry_pks c) sc r = r"
    if "row_pk r \<notin> set (map row_pk (map fst es))" for r
    using that es(2) by (auto simp: status_upd_def image_Un)
qed (use es(1) in \<open>simp_all add: status_upd_def comp_def\<close>)

lemma described_entry:
  assumes "described st_get st_set rows status es" and "e \<in> set es"
    and "explained gs (st_set (snd e) (fst e)) (fst e) cs"
  shows "entry_ok gs rows (st_set (snd e) (fst e), fst e, cs)"
  using assms by (simp add: entry_ok_def same_row_def described_def)

end

interpretation rpki_status: row_status c_rpki "\<lambda>s r. r\<lparr>c_rpki := s\<rparr>"
  by unfold_locales (simp_all add: object_key_def)

interpretation scope_status: row_status c_scope "\<lambda>s r. r\<lparr>c_scope := s\<rparr>"
  by unfold_locales (simp_all add: object_key_def)

abbreviation "rpki_described \<equiv> described c_rpki (\<lambda>s r. r\<lparr>c_rpki := s\<rparr>)"

abbreviation "scope_described \<equiv> described c_scope (\<lambda>s r. r\<lparr>c_scope := s\<rparr>)"

subsection \<open>RPKI\<close>

lemma rpki_explained:
  assumes "case operation of add_or_update \<Rightarrow> c_rpki (fst e) \<noteq> RPKI_invalid | op_delete \<Rightarrow> c_rpki (fst e) = RPKI_invalid"
  shows "explained gs ((fst e)\<lparr>c_rpki := snd e\<rparr>) (fst e) (rpki_change gs operation e)"
  unfolding rpki_change_def using assms
  by (intro explained_status; cases "c_rpki (fst e)") (auto simp: shown_row_def columns_visible_def object_is_visible_def
      rpki_is_visible_def split: database_operation.splits)

lemma rpki_upd_tables:
  "set_rpki_status n RPKI_not_found (set_rpki_status i RPKI_invalid (set_rpki_status v RPKI_valid T))
     = T\<lparr>t_objects := map (status_upd (\<lambda>s r. r\<lparr>c_rpki := s\<rparr>) v RPKI_valid i RPKI_invalid n RPKI_not_found) (t_objects T)\<rparr>"
  by (simp add: set_rpki_status_def comp_def status_upd_def)

lemma update_rpki_inv:
  assumes inv: "db_inv gs h" and fl: "flushed h" and upd: "update_rpki_status gs now v i n h = Inr h'"
    and d: "rpki_described (t_objects (cur h)) RPKI_valid v" "rpki_described (t_objects (cur h)) RPKI_invalid i"
      "rpki_described (t_objects (cur h)) RPKI_not_found n" and dist: "distinct (entry_pks (v @ i @ n))"
  shows "db_inv gs h' \<and> flushed h'"
proof -
  let ?rows = "t_objects (cur h)"
  have ok: "rows_ok ?rows" using inv by (auto simp: db_inv_def tables_ok_def)
  have dist': "distinct (entry_pks ((v @ n) @ i))" "set ((v @ n) @ i) = set (v @ i @ n)" using dist by auto
  note rows = rpki_status.upd_replaces [OF ok d dist dist']
  let ?h1 = "h\<lparr>cur := (cur h)\<lparr>t_objects := fold replace_row (map fst ((v @ n) @ i)) ?rows\<rparr>\<rparr>"
  obtain h2 where j1: "journal_rpki_changes gs now add_or_update (v @ n) ?h1 = Inr h2"
    and j2: "journal_rpki_changes gs now op_delete i h2 = Inr h'"
    using upd rows unfolding update_rpki_status_def rbind_Inr_conv Let_def rpki_upd_tables
    by (auto simp: on_tables_def dest!: write_permitted)
  have je: "journaling_enabled (status_tracker ?h1)" using inv by (simp add: db_inv_def)
  obtain js1 where js1: "journalled js1 ?h1 h2" "map je_change js1 = concat (map (rpki_change gs add_or_update) (v @ n))"
    using rpki_loop.loop_journalled [OF j1 je] by blast
  obtain js2 where js2: "journalled js2 h2 h'" "map je_change js2 = concat (map (rpki_change gs op_delete) i)"
    using rpki_loop.loop_journalled [OF j2] je journalled_simps(11) [OF js1(1)] by blast
  let ?entry = "\<lambda>operation e. ((fst e)\<lparr>c_rpki := snd e\<rparr>, fst e, rpki_change gs operation e)"
  let ?es = "map (?entry add_or_update) (v @ n) @ map (?entry op_delete) i"
  have "entry_ok gs ?rows (?entry add_or_update e)" if "e \<in> set (v @ n)" for e
    using that rpki_status.described_entry [OF d(1) _ rpki_explained, of e add_or_update]
      rpki_status.described_entry [OF d(3) _ rpki_explained, of e add_or_update] d by (auto simp: described_def)
  moreover have "entry_ok gs ?rows (?entry op_delete e)" if "e \<in> set i" for e
    using that rpki_status.described_entry [OF d(2) that rpki_explained] d(2) by (auto simp: described_def)
  ultimately have "\<forall>e \<in> set ?es. entry_ok gs ?rows e" by (simp only: set_append set_map ball_Un ball_simps) blast
  then show ?thesis
    by (intro replaced_inv [OF inv fl journalled_trans [OF js1(1) js2(1)], of ?es])
      (use dist' js1(2) js2(2) in \<open>simp_all add: comp_def\<close>)
qed

subsection \<open>Scope filter\<close>

text \<open>
  The scope filter sets the status of all rows with an RPSL primary key, in every source and class; the
  entries must include all of them.
\<close>

definition scope_complete :: "db_row list \<Rightarrow> (db_row \<times> scopefilter_status) list \<Rightarrow> bool" where
  "scope_complete rows es \<longleftrightarrow>
     (\<forall>r \<in> set rows. c_rpsl_pk r \<in> set (map (\<lambda>e. c_rpsl_pk (fst e)) es) \<longrightarrow> row_pk r \<in> set (entry_pks es))"

lemma scope_pks:
  assumes ok: "rows_ok rows" and d: "scope_described rows status es" and c: "scope_complete rows es" and r: "r \<in> set rows"
  shows "c_rpsl_pk r \<in> set (map (\<lambda>e. c_rpsl_pk (fst e)) es) \<longleftrightarrow> row_pk r \<in> set (entry_pks es)"
proof
  assume "row_pk r \<in> set (entry_pks es)"
  then obtain e where e: "e \<in> set es" "row_pk (fst e) = row_pk r" by (auto simp del: split_paired_Ex)
  obtain r0 where "r0 \<in> set rows" "row_pk r0 = row_pk (fst e)" "fst e = r0\<lparr>c_scope := status\<rparr>"
    using scope_status.described_old [OF d e(1)] by blast
  then have "c_rpsl_pk r = c_rpsl_pk (fst e)" using rows_ok_unique [OF ok _ r] e(2) by force
  then show "c_rpsl_pk r \<in> set (map (\<lambda>e. c_rpsl_pk (fst e)) es)" using e(1) by simp
qed (use c r in \<open>auto simp: scope_complete_def\<close>)

lemma scope_upd_tables:
  assumes "rows_ok (t_objects T)" "scope_described (t_objects T) sa a" "scope_described (t_objects T) sb b"
    "scope_described (t_objects T) sc c" "scope_complete (t_objects T) a" "scope_complete (t_objects T) b"
    "scope_complete (t_objects T) c"
  shows "set_scope_status (map (\<lambda>e. c_rpsl_pk (fst e)) c) sc (set_scope_status (map (\<lambda>e. c_rpsl_pk (fst e)) b) sb
      (set_scope_status (map (\<lambda>e. c_rpsl_pk (fst e)) a) sa T))
    = T\<lparr>t_objects := map (status_upd (\<lambda>s r. r\<lparr>c_scope := s\<rparr>) (entry_pks a) sa (entry_pks b) sb (entry_pks c) sc) (t_objects T)\<rparr>"
  using scope_pks [OF assms(1,2,5)] scope_pks [OF assms(1,3,6)] scope_pks [OF assms(1,4,7)]
  by (simp add: set_scope_status_def comp_def status_upd_def del: set_map)

lemma scope_explained:
  assumes "case operation of add_or_update \<Rightarrow> c_scope (fst e) = in_scope | op_delete \<Rightarrow> c_scope (fst e) \<noteq> in_scope"
  shows "explained gs ((fst e)\<lparr>c_scope := snd e\<rparr>) (fst e) (scope_change gs operation e)"
  unfolding scope_change_def using assms
  by (intro explained_status) (auto simp: shown_row_def columns_visible_def object_is_visible_def
      scopefilter_is_visible_def split: database_operation.splits)

lemma update_scope_inv:
  assumes inv: "db_inv gs h" and fl: "flushed h" and upd: "update_scopefilter_status gs now v a p h = Inr h'"
    and d: "scope_described (t_objects (cur h)) in_scope v" "scope_described (t_objects (cur h)) out_scope_as a"
      "scope_described (t_objects (cur h)) out_scope_prefix p" and dist: "distinct (entry_pks (v @ a @ p))"
    and c: "scope_complete (t_objects (cur h)) v" "scope_complete (t_objects (cur h)) a" "scope_complete (t_objects (cur h)) p"
  shows "db_inv gs h' \<and> flushed h'"
proof -
  let ?rows = "t_objects (cur h)"
  have ok: "rows_ok ?rows" using inv by (auto simp: db_inv_def tables_ok_def)
  note rows = scope_status.upd_replaces [OF ok d dist dist refl]
  let ?h1 = "h\<lparr>cur := (cur h)\<lparr>t_objects := fold replace_row (map fst (v @ a @ p)) ?rows\<rparr>\<rparr>"
  obtain h2 where j1: "journal_scope_changes gs now add_or_update v ?h1 = Inr h2"
    and j2: "journal_scope_changes gs now op_delete (a @ p) h2 = Inr h'"
    using upd rows unfolding update_scopefilter_status_def rbind_Inr_conv Let_def
    by (auto simp: on_tables_def scope_upd_tables [OF ok d c] simp del: map_append fold_append dest!: write_permitted)
  have je: "journaling_enabled (status_tracker ?h1)" using inv by (simp add: db_inv_def)
  obtain js1 where js1: "journalled js1 ?h1 h2" "map je_change js1 = concat (map (scope_change gs add_or_update) v)"
    using scope_loop.loop_journalled [OF j1 je] by blast
  obtain js2 where js2: "journalled js2 h2 h'" "map je_change js2 = concat (map (scope_change gs op_delete) (a @ p))"
    using scope_loop.loop_journalled [OF j2] je journalled_simps(11) [OF js1(1)] by blast
  let ?entry = "\<lambda>operation e. ((fst e)\<lparr>c_scope := snd e\<rparr>, fst e, scope_change gs operation e)"
  let ?es = "map (?entry add_or_update) v @ map (?entry op_delete) (a @ p)"
  have "entry_ok gs ?rows (?entry add_or_update e)" if "e \<in> set v" for e
    using that scope_status.described_entry [OF d(1) that scope_explained] d(1) by (auto simp: described_def)
  moreover have "entry_ok gs ?rows (?entry op_delete e)" if "e \<in> set (a @ p)" for e
    using that scope_status.described_entry [OF d(2) _ scope_explained, of e op_delete]
      scope_status.described_entry [OF d(3) _ scope_explained, of e op_delete] d by (auto simp: described_def)
  ultimately have "\<forall>e \<in> set ?es. entry_ok gs ?rows e" by (simp only: set_append set_map ball_Un ball_simps) blast
  then show ?thesis
    by (intro replaced_inv [OF inv fl journalled_trans [OF js1(1) js2(1)], of ?es])
      (use dist js1(2) js2(2) in \<open>simp_all add: comp_def\<close>)
qed

subsection \<open>Route preference\<close>

lemma concat_chunks: "0 < n \<Longrightarrow> concat (chunked_iterable xs n) = xs"
  by (induction xs n rule: chunked_iterable.induct) (subst chunked_iterable.simps, simp)

lemma set_pref_append: "set_pref_status (xs @ ys) status T = set_pref_status ys status (set_pref_status xs status T)"
  by (simp add: set_pref_status_def comp_def)

lemma set_pref_concat: "fold (\<lambda>chunk. set_pref_status (map row_pk chunk) status) cs T
    = set_pref_status (map row_pk (concat cs)) status T"
  by (induction cs arbitrary: T) (simp_all add: set_pref_append, simp add: set_pref_status_def)

text \<open>The updates in chunks are one update.\<close>

lemma set_pref_chunks_eq: "set_pref_chunks rows status T = set_pref_status (map row_pk rows) status T"
  by (simp add: set_pref_chunks_def set_pref_concat concat_chunks ROUTEPREF_STATUS_UPDATE_CHUNK_SIZE_def)

lemma pref_explained:
  assumes "operation = add_or_update \<longleftrightarrow> status = pref_visible"
  shows "explained gs (r\<lparr>c_pref := old\<rparr>) (r\<lparr>c_pref := status\<rparr>) (pref_change gs operation r)"
  using assms by (cases operation; cases status)
    (auto simp: explained_def pref_change_def apply_change_def shown_row_def columns_visible_def object_is_visible_def
      routepref_is_visible_def object_key_def fun_upd_idem)

lemma pref_phase:
  assumes ok: "rows_ok rows" and dist: "distinct (map row_pk rs)" and old: "\<forall>r \<in> set rs. r\<lparr>c_pref := f r\<rparr> \<in> set rows"
    and status: "operation = add_or_update \<longleftrightarrow> status = pref_visible"
    and m: "\<forall>k. kept_key gs k \<longrightarrow> m k = visible_text rows k"
    and rows': "rows' = map (\<lambda>r. if row_pk r \<in> set (map row_pk rs) then r\<lparr>c_pref := status\<rparr> else r) rows"
  shows "rows_ok rows' \<and> (\<forall>k. kept_key gs k \<longrightarrow>
    fold apply_change (concat (map (pref_change gs operation) rs)) m k = visible_text rows' k)"
proof -
  let ?es = "map (\<lambda>r. (r\<lparr>c_pref := f r\<rparr>, r\<lparr>c_pref := status\<rparr>, pref_change gs operation r)) rs"
  have "\<forall>n \<in> set (map (\<lambda>r. r\<lparr>c_pref := status\<rparr>) rs). \<exists>r \<in> set rows.
      n = (if row_pk r \<in> set (map row_pk rs) then r\<lparr>c_pref := status\<rparr> else r)"
  proof
    fix n assume "n \<in> set (map (\<lambda>r. r\<lparr>c_pref := status\<rparr>) rs)"
    then obtain r where r: "r \<in> set rs" "n = r\<lparr>c_pref := status\<rparr>" by auto
    then show "\<exists>r \<in> set rows. n = (if row_pk r \<in> set (map row_pk rs) then r\<lparr>c_pref := status\<rparr> else r)"
      using old by (intro bexI [of _ "r\<lparr>c_pref := f r\<rparr>"]) auto
  qed
  then have "rows' = fold replace_row (map (\<lambda>r. r\<lparr>c_pref := status\<rparr>) rs) rows"
    unfolding rows' by (intro update_replaces [OF ok]) (use dist in \<open>auto simp: comp_def\<close>)
  then have eq: "rows' = fold (\<lambda>e. replace_row (fst (snd e))) ?es rows" by (simp add: fold_map comp_def)
  have "\<forall>e \<in> set ?es. entry_ok gs rows e"
    using old pref_explained [OF status] by (auto simp: entry_ok_def same_row_def object_key_def)
  then show ?thesis using replace_rows_mirrored [OF ok _ _ m, of ?es] dist unfolding eq by (simp add: comp_def)
qed

lemma enrich_pks_ok:
  "rows_ok (t_objects T) \<Longrightarrow> distinct (map row_pk (enrich_pks T pks))" "set (enrich_pks T pks) \<subseteq> set (t_objects T)"
  by (auto simp: enrich_pks_def rows_ok_def distinct_map_filter)

lemma journalled_objects:
  assumes "journalled es h h'"
  shows "journalled es (h\<lparr>cur := (cur h)\<lparr>t_objects := f (t_objects (cur h))\<rparr>\<rparr>) (on_tables (\<lambda>T. T\<lparr>t_objects := f (t_objects T)\<rparr>) h')"
proof -
  obtain g t c where "h' = h\<lparr>cur := (cur h)\<lparr>t_journal := t_journal (cur h) @ es\<rparr>, next_global := g, status_tracker := t,
      changed_objects_tracker := c\<rparr>" and "journaling_enabled t = journaling_enabled (status_tracker h)"
    using assms unfolding journalled_def by blast
  then show ?thesis by (intro journalledI [where g = g and t = t and c = c]) (simp_all add: on_tables_def)
qed

lemma update_pref_inv:
  assumes inv: "db_inv gs h" and fl: "flushed h"
    and upd: "Database.update_route_preference_status gs now (enrich_pks (cur h) pv) (enrich_pks (cur h) ps) h = Inr h'"
  shows "db_inv gs h' \<and> flushed h'"
proof -
  let ?rows = "t_objects (cur h)" and ?v = "enrich_pks (cur h) pv" and ?s = "enrich_pks (cur h) ps"
  let ?set = "\<lambda>rs status. map (\<lambda>r. if row_pk r \<in> set (map row_pk rs) then r\<lparr>c_pref := status\<rparr> else r)"
  have ok: "rows_ok ?rows" "mirrored gs (cur h)" "journaling_enabled (status_tracker h)"
    using inv by (auto simp: db_inv_def tables_ok_def)
  obtain h1 h2 where j1: "journal_pref_changes gs now add_or_update ?v h = Inr h1"
    and j2: "journal_pref_changes gs now op_delete ?s h1 = Inr h2"
    and h': "h' = on_tables (\<lambda>T. set_pref_status (map row_pk ?s) pref_suppressed (set_pref_status (map row_pk ?v) pref_visible T)) h2"
    using upd by (auto simp: update_route_preference_status_def rbind_Inr_conv set_pref_chunks_eq dest!: write_permitted)
  obtain js1 where js1: "journalled js1 h h1" "map je_change js1 = concat (map (pref_change gs add_or_update) ?v)"
    using pref_loop.loop_journalled [OF j1 ok(3)] by blast
  obtain js2 where js2: "journalled js2 h1 h2" "map je_change js2 = concat (map (pref_change gs op_delete) ?s)"
    using pref_loop.loop_journalled [OF j2] ok(3) journalled_simps(11) [OF js1(1)] by blast
  let ?r1 = "?set ?v pref_visible ?rows" let ?r2 = "?set ?s pref_suppressed ?r1"
  let ?m = "replay (map je_change (t_journal (cur h)))"
  have p1: "rows_ok ?r1 \<and> (\<forall>k. kept_key gs k \<longrightarrow>
      fold apply_change (concat (map (pref_change gs add_or_update) ?v)) ?m k = visible_text ?r1 k)"
    by (rule pref_phase [where f = c_pref, OF ok(1)]) (use enrich_pks_ok [of "cur h"] ok in \<open>auto simp: mirrored_def\<close>)
  have "\<forall>r \<in> set ?s. r\<lparr>c_pref := if row_pk r \<in> set (map row_pk ?v) then pref_visible else c_pref r\<rparr> \<in> set ?r1"
    using enrich_pks_ok(2) [of "cur h" ps] by (auto simp: image_iff intro!: bexI)
  then have p2: "rows_ok ?r2 \<and> (\<forall>k. kept_key gs k \<longrightarrow> fold apply_change (concat (map (pref_change gs op_delete) ?s))
      (fold apply_change (concat (map (pref_change gs add_or_update) ?v)) ?m) k = visible_text ?r2 k)"
    by (rule pref_phase [rotated 2]) (use p1 enrich_pks_ok [of "cur h"] ok in auto)
  let ?h0 = "h\<lparr>cur := (cur h)\<lparr>t_objects := ?r2\<rparr>\<rparr>"
  have h0: "?h0 = h\<lparr>cur := (cur h)\<lparr>t_objects := ?r2, t_suspended := t_suspended (cur h)\<rparr>, next_pk := next_pk h\<rparr>" by simp
  have eq: "set_pref_status (map row_pk ?s) pref_suppressed (set_pref_status (map row_pk ?v) pref_visible T)
      = T\<lparr>t_objects := ?set ?s pref_suppressed (?set ?v pref_visible (t_objects T))\<rparr>" for T
    by (simp add: set_pref_status_def)
  have "journalled (js1 @ js2) ?h0 h'"
    using journalled_objects [OF journalled_trans [OF js1(1) js2(1)]] unfolding h' eq .
  moreover have pk: "map row_pk (?set rs status rows) = map row_pk rows" for rs status rows by simp
  have "set (map row_pk ?r2) \<subseteq> set (map row_pk ?rows)" unfolding pk by (rule order_refl)
  ultimately show ?thesis
    using journalled_inv [OF inv fl _ h0 order_refl conjunct1 [OF p2]] conjunct2 [OF p2]
    by (simp only: map_append fold_append comp_apply js1(2) js2(2))
qed

section \<open>Transactions\<close>

lemma update_status_tables [simp]:
  "t_objects (update_status src f T) = t_objects T" "t_journal (update_status src f T) = t_journal T"
  by (simp_all add: update_status_def)

lemma fold_tables:
  "(\<And>x T. x \<in> set xs \<Longrightarrow> t_objects (f x T) = t_objects T) \<Longrightarrow> t_objects (fold f xs T) = t_objects T"
  "(\<And>x T. x \<in> set xs \<Longrightarrow> t_journal (f x T) = t_journal T) \<Longrightarrow> t_journal (fold f xs T) = t_journal T"
  by (induction xs arbitrary: T) auto

lemma update_each_tables [simp]:
  "t_objects (update_each f es T) = t_objects T" "t_journal (update_each f es T) = t_journal T"
  unfolding update_each_def by (intro fold_tables; auto split: prod.splits)+

lemma finalise_serials_tables [simp]:
  "t_objects (finalise_serials now e T) = t_objects T" "t_journal (finalise_serials now e T) = t_journal T"
  by (simp_all add: finalise_serials_def Let_def split: prod.split)

lemma synchronised_inv:
  assumes "tracker_is_serial_synchronised gs src h = (b, h')"
  shows "db_inv gs' h' = db_inv gs' h" "flushed h' = flushed h"
  using assms by (auto simp: tracker_is_serial_synchronised_def Let_def on_tracker_inv split: option.splits)

lemma finalise_seen_inv: "db_inv gs' (finalise_seen gs now src h) = db_inv gs' h" "flushed (finalise_seen gs now src h) = flushed h"
  using synchronised_inv [of gs src h]
  by (auto simp: finalise_seen_def on_tables_inv split: prod.split)

lemma finalise_inv: "db_inv gs' (finalise_transaction gs now h) = db_inv gs' h" "flushed (finalise_transaction gs now h) = flushed h"
proof -
  have "db_inv gs' (fold (finalise_seen gs now) srcs h) = db_inv gs' h"
    "flushed (fold (finalise_seen gs now) srcs h) = flushed h" for srcs
    by (induction srcs arbitrary: h) (auto simp: finalise_seen_inv)
  then show "db_inv gs' (finalise_transaction gs now h) = db_inv gs' h" "flushed (finalise_transaction gs now h) = flushed h"
    by (simp_all add: finalise_transaction_def Let_def on_tables_inv fold_tables)
qed

lemma pre_commit_inv:
  assumes "db_inv gs h" "flushed h" "pre_commit R L overlaps gs now h = Inr h'"
  shows "db_inv gs h' \<and> flushed h'"
  using assms update_pref_inv [OF assms(1,2)]
  by (auto simp: pre_commit_def Let_def rbind_Inr_conv split: if_splits option.splits)

lemma roa_flush_inv:
  "db_inv gs h \<Longrightarrow> flushed h \<Longrightarrow> flush_roa_writing_buffer h = Inr h' \<Longrightarrow> db_inv gs h' \<and> flushed h'"
  by (auto simp: flush_roa_writing_buffer_def on_tables_def db_inv_def flushed_def buffer_ok_def no_hidden_overwrite_def
      tables_ok_def mirrored_def rbind_Inr_conv dest!: write_permitted split: if_splits)

lemma started_inv:
  assumes "tables_ok gs (next_pk h) (cur h)" "tables_ok gs (next_pk h) (committed h)" "h_journaling h"
  shows "db_inv gs (start_transaction h)"
  using assms by (simp add: start_transaction_def db_inv_def buffer_ok_def no_hidden_overwrite_def tracker_init_def)

lemma commit_inv:
  assumes inv: "db_inv gs h"
  shows "db_inv gs (fst (commit R L overlaps gs now h))"
proof -
  let ?r = "rbind (check_write_permitted h) (\<lambda>h. rbind (flush_rpsl_object_writing_buffer gs now h) (\<lambda>h1.
      rbind (flush_roa_writing_buffer h1) (\<lambda>h2. Inr (finalise_transaction gs now h2))))"
  show ?thesis
  proof (cases ?r)
    case (Inl e)
    then show ?thesis using inv by (simp add: commit_def)
  next
    case (Inr h3)
    then obtain h1 h2 where "flush_rpsl_object_writing_buffer gs now h = Inr h1" "flush_roa_writing_buffer h1 = Inr h2"
      and h3: "h3 = finalise_transaction gs now h2" by (auto simp: rbind_Inr_conv dest!: write_permitted)
    then have "db_inv gs h2 \<and> flushed h2" using flush_inv [OF inv] roa_flush_inv by blast
    then have i3: "db_inv gs h3" "flushed h3" by (auto simp: h3 finalise_inv)
    then have j: "h_journaling h3" by (simp add: db_inv_def)
    show ?thesis
    proof (cases "pre_commit R L overlaps gs now h3")
      case Inl' : (Inl e)
      then show ?thesis using Inr i3 j
        by (auto simp: commit_def transaction_rollback_def db_inv_def flushed_def buffer_ok_def no_hidden_overwrite_def)
    next
      case Inr' : (Inr h5)
      then have i5: "db_inv gs h5" using pre_commit_inv [OF i3] by blast
      let ?h6 = "on_tracker tracker_reset (publish_event_stream (changed_commit (transaction_commit h5)))"
      have "fst (commit R L overlaps gs now h) = start_transaction ?h6" using Inr Inr' j by (simp add: commit_def Let_def)
      moreover have "db_inv gs (start_transaction ?h6)" using i5
        by (intro started_inv) (simp_all add: db_inv_def publish_event_stream_def changed_commit_def transaction_commit_def
            on_tracker_def Let_def)
      ultimately show ?thesis by simp
    qed
  qed
qed

lemma rollback_inv: "db_inv gs h \<Longrightarrow> db_inv gs (rollback True h)"
  unfolding rollback_def Let_def if_True
  by (rule started_inv) (simp_all add: transaction_rollback_def on_tracker_def db_inv_def)

section \<open>The calls on a handler\<close>

text \<open>
  An object may be written unless it is suppressed and replaces a visible one. Updates of a status come
  with a description of the stored rows, as the validators compute it from a query, which
  flushes the buffer.
\<close>

inductive db_step :: "('k, 't) radix_lib \<Rightarrow> 'ip extlib \<Rightarrow> (string \<Rightarrow> string \<Rightarrow> bool) \<Rightarrow> settings \<Rightarrow> (int \<Rightarrow> string)
    \<Rightarrow> 'ip handler \<Rightarrow> 'ip handler \<Rightarrow> bool" for R L overlaps gs isoformat where
  step_upsert: "upsert_rpsl_object L gs isoformat now co orig no_existing ss fc h = Inr h' \<Longrightarrow>
    object_dict L gs isoformat now co = Inr cols \<Longrightarrow> columns_visible cols \<or> latest_text h (object_key cols) = None \<Longrightarrow>
    db_step R L overlaps gs isoformat h h'"
| step_delete: "delete_rpsl_object gs now orig obj src_opt pk_opt cls_opt ss protect h = Inr h' \<Longrightarrow>
    db_step R L overlaps gs isoformat h h'"
| step_suspend: "suspend_rpsl_object gs now uuid h = Inr h' \<Longrightarrow> db_step R L overlaps gs isoformat h h'"
| step_delete_suspended: "delete_suspended_rpsl_objects gs now uuids h = Inr h' \<Longrightarrow> db_step R L overlaps gs isoformat h h'"
| step_query: "flush_rpsl_object_writing_buffer gs now h = Inr h' \<Longrightarrow> db_step R L overlaps gs isoformat h h'"
| step_rpki: "update_rpki_status gs now v i n h = Inr h' \<Longrightarrow> flushed h \<Longrightarrow>
    rpki_described (t_objects (cur h)) RPKI_valid v \<Longrightarrow> rpki_described (t_objects (cur h)) RPKI_invalid i \<Longrightarrow>
    rpki_described (t_objects (cur h)) RPKI_not_found n \<Longrightarrow> distinct (entry_pks (v @ i @ n)) \<Longrightarrow>
    db_step R L overlaps gs isoformat h h'"
| step_scope: "update_scopefilter_status gs now v a p h = Inr h' \<Longrightarrow> flushed h \<Longrightarrow>
    scope_described (t_objects (cur h)) in_scope v \<Longrightarrow> scope_described (t_objects (cur h)) out_scope_as a \<Longrightarrow>
    scope_described (t_objects (cur h)) out_scope_prefix p \<Longrightarrow> distinct (entry_pks (v @ a @ p)) \<Longrightarrow>
    scope_complete (t_objects (cur h)) v \<Longrightarrow> scope_complete (t_objects (cur h)) a \<Longrightarrow>
    scope_complete (t_objects (cur h)) p \<Longrightarrow> db_step R L overlaps gs isoformat h h'"
| step_seen: "record_serial_seen src n h = Inr h' \<Longrightarrow> db_step R L overlaps gs isoformat h h'"
| step_newest_mirror: "record_serial_newest_mirror src n h = Inr h' \<Longrightarrow> db_step R L overlaps gs isoformat h h'"
| step_error: "record_mirror_error src e h = Inr h' \<Longrightarrow> db_step R L overlaps gs isoformat h h'"
| step_exported: "record_serial_exported src n h = Inr h' \<Longrightarrow> db_step R L overlaps gs isoformat h h'"
| step_client: "record_nrtm4_client_status src cs h = Inr h' \<Longrightarrow> db_step R L overlaps gs isoformat h h'"
| step_server: "record_nrtm4_server_status src sv h = Inr h' \<Longrightarrow> db_step R L overlaps gs isoformat h h'"
| step_insert_roa: "insert_roa_object roa h = Inr h' \<Longrightarrow> db_step R L overlaps gs isoformat h h'"
| step_delete_roas: "delete_all_roa_objects h = Inr h' \<Longrightarrow> db_step R L overlaps gs isoformat h h'"
| step_force_reload: "set_force_reload gs src h = Inr h' \<Longrightarrow> db_step R L overlaps gs isoformat h h'"
| step_commit: "db_step R L overlaps gs isoformat h (fst (commit R L overlaps gs now h))"
| step_rollback: "db_step R L overlaps gs isoformat h (rollback True h)"

lemmas tracker_calls = record_serial_seen_def record_serial_newest_mirror_def record_mirror_error_def
  record_serial_exported_def record_nrtm4_client_status_def record_nrtm4_server_status_def

lemma tracker_call_inv:
  "record_serial_seen src n h = Inr h' \<Longrightarrow> db_inv gs h' = db_inv gs h"
  "record_serial_newest_mirror src n h = Inr h' \<Longrightarrow> db_inv gs h' = db_inv gs h"
  "record_mirror_error src e h = Inr h' \<Longrightarrow> db_inv gs h' = db_inv gs h"
  "record_serial_exported src exported h = Inr h' \<Longrightarrow> db_inv gs h' = db_inv gs h"
  "record_nrtm4_client_status src cs h = Inr h' \<Longrightarrow> db_inv gs h' = db_inv gs h"
  "record_nrtm4_server_status src sv h = Inr h' \<Longrightarrow> db_inv gs h' = db_inv gs h"
  by (auto simp: tracker_calls rbind_Inr_conv on_tracker_inv see_source_def add_new_serial_def dest!: write_permitted)

lemma roa_inv [simp]: "db_inv gs (h\<lparr>roa_insert_buffer := rs\<rparr>) = db_inv gs h"
  by (simp add: db_inv_def buffer_ok_def no_hidden_overwrite_def)

lemma table_call_inv:
  "insert_roa_object roa h = Inr h' \<Longrightarrow> db_inv gs h' = db_inv gs h"
  "delete_all_roa_objects h = Inr h' \<Longrightarrow> db_inv gs h' = db_inv gs h"
  "set_force_reload gs src h = Inr h' \<Longrightarrow> db_inv gs h' = db_inv gs h"
  by (auto simp: insert_roa_object_def delete_all_roa_objects_def set_force_reload_def rbind_Inr_conv on_tables_inv
      dest!: write_permitted)

lemma db_step_inv: "db_step R L overlaps gs isoformat h h' \<Longrightarrow> db_inv gs h \<Longrightarrow> db_inv gs h'"
proof (induction rule: db_step.induct)
  case (step_upsert now co orig no_existing ss fc h h' cols)
  let ?h = "h\<lparr>rpsl_guaranteed_no_existing := no_existing \<and> rpsl_guaranteed_no_existing h\<rparr>"
  have "buffer_object gs now cols (rpsl_object.prefix (co_obj co)) orig ss fc ?h = Inr h'"
    using step_upsert.hyps(1,2) by (auto simp: upsert_rpsl_object_def rbind_Inr_conv dest!: write_permitted split: if_splits)
  from buffer_object_inv [OF _ this] show ?case using step_upsert by simp
next
  case (step_delete_suspended now uuids h h')
  then obtain h1 where "flush_rpsl_object_writing_buffer gs now h = Inr h1"
    and "h' = on_tables (\<lambda>T. T\<lparr>t_suspended := filter (\<lambda>r. sp_pk r \<notin> set uuids) (t_suspended T)\<rparr>) h1"
    by (auto simp: delete_suspended_rpsl_objects_def rbind_Inr_conv dest!: write_permitted)
  then show ?case using flush_inv [OF step_delete_suspended.prems] by (auto simp: on_tables_inv)
next
  case step_delete
  then show ?case using delete_inv by blast
next
  case step_suspend
  then show ?case using suspend_inv by blast
next
  case step_query
  then show ?case using flush_inv by blast
next
  case step_rpki
  then show ?case using update_rpki_inv by blast
next
  case step_scope
  then show ?case using update_scope_inv by blast
qed (simp_all add: commit_inv rollback_inv tracker_call_inv table_call_inv)


section \<open>Examples\<close>

definition empty_tables :: tables where
  "empty_tables = \<lparr>t_objects = [], t_journal = [], t_status = [], t_suspended = [], t_protected = [], t_roas = []\<rparr>"

definition db_example :: settings where
  "db_example n = (if n = ''sources.A.keep_journal'' \<or> n = ''sources.B.keep_journal'' then Some (CBool True) else None)"

definition example_object :: "string \<Rightarrow> string \<Rightarrow> ip3 rpsl_object" where
  "example_object src descr = (new_object RPSLAutNum False None)\<lparr>
     parsed_data := [(''aut-num'', PStr ''AS1''), (''source'', PStr src)],
     object_data := [(''aut-num'', ''AS1'', []), (''descr'', descr, []), (''source'', src, [])]\<rparr>"

definition example_checked :: "string \<Rightarrow> string \<Rightarrow> scopefilter_status \<Rightarrow> ip3 checked_object" where
  "example_checked src descr scope = \<lparr>co_obj = example_object src descr, co_rpki_status = RPKI_not_found, co_scopefilter_status = scope\<rparr>"

definition example_upsert :: "string \<Rightarrow> string \<Rightarrow> scopefilter_status \<Rightarrow> ip3 handler \<Rightarrow> ip3 handler res" where
  "example_upsert src descr scope = upsert_rpsl_object ip3_lib db_example (\<lambda>_. []) 1 (example_checked src descr scope)
     origin_mirror False None None"

definition example_commit :: "ip3 handler \<Rightarrow> ip3 handler" where
  "example_commit h = fst (commit bits_radix ip3_lib (\<lambda>_ _. False) db_example 1 h)"

definition example_written :: "ip3 handler" where
  "example_written = (case example_upsert ''A'' ''x'' in_scope (DatabaseHandler db_example False empty_tables 0 1) of
     Inr h \<Rightarrow> h | Inl e \<Rightarrow> DatabaseHandler db_example False empty_tables 0 1)"


text \<open>
  A visible object that is replaced by a suppressed version is hidden without an entry in the
  journal: mirrors keep the old version.
\<close>

lemma hidden_overwrite_not_journalled:
  "(case example_upsert ''A'' ''y'' out_scope_as (example_commit example_written) of
      Inl e \<Rightarrow> False
    | Inr h \<Rightarrow> (let T = committed (example_commit h) in
        visible_text (t_objects T) (''AS1'', ''A'', ''aut-num'') = None \<and>
        replay (map je_change (t_journal T)) (''AS1'', ''A'', ''aut-num'') \<noteq> None))"
  by code_simp

text \<open>
  The scope filter changes the rows of all sources with a primary key: when the object of one source
  goes out of scope, that of another source is hidden as well, without an entry in the journal.
\<close>

lemma scope_update_other_source:
  "(case rbind (example_upsert ''B'' ''z'' in_scope (example_commit example_written)) (\<lambda>h.
      rbind (flush_rpsl_object_writing_buffer db_example 1 h) (\<lambda>h1.
        update_scopefilter_status db_example 1 []
          (map (\<lambda>r. (r\<lparr>c_scope := out_scope_as\<rparr>, in_scope)) (filter (\<lambda>r. c_source r = ''A'') (t_objects (cur h1)))) [] h1)) of
      Inl e \<Rightarrow> False
    | Inr h \<Rightarrow>
        visible_text (t_objects (cur h)) (''AS1'', ''B'', ''aut-num'') = None \<and>
        replay (map je_change (t_journal (cur h))) (''AS1'', ''B'', ''aut-num'') \<noteq> None)"
  by code_simp

text \<open>
  The commit updates the serials in the source status before it updates the route preferences: an entry
  that the latter journals is missing from the status. Here the route of the source L is suppressed
  by the new route of the source H: the newest serial of the journal of L is 2, its status says 1.
\<close>

definition pref_settings :: settings where
  "pref_settings n = (if n = ''sources.H.keep_journal'' \<or> n = ''sources.L.keep_journal'' then Some (CBool True) else pref_small n)"

definition example_route :: "string \<Rightarrow> ip3 checked_object" where
  "example_route src = \<lparr>co_obj = (new_object RPSLRoute False None)\<lparr>
       parsed_data := [(''route'', PStr ''0.0.0.0/8''), (''origin'', PStr ''AS1''), (''source'', PStr src)],
       object_data := [(''route'', ''0.0.0.0/8'', []), (''origin'', ''AS1'', []), (''source'', src, [])],
       rpsl_object.prefix := Some (4, 0, 8)\<rparr>,
     co_rpki_status = RPKI_not_found, co_scopefilter_status = in_scope\<rparr>"

definition route_store :: "string \<Rightarrow> ip3 handler \<Rightarrow> ip3 handler" where
  "route_store src h =
     (case upsert_rpsl_object ip3_lib pref_settings (\<lambda>_. []) 1 (example_route src) origin_mirror False None None h of
        Inl e \<Rightarrow> h
      | Inr h1 \<Rightarrow> fst (commit bits_radix ip3_lib (\<lambda>p q. bits_cover (cidr_bits p) (cidr_bits q) \<or> bits_cover (cidr_bits q) (cidr_bits p))
                       pref_settings 1 h1))"

lemma routepref_entries_not_in_status:
  "(let T = committed (route_store ''H'' (route_store ''L'' (DatabaseHandler pref_settings False empty_tables 0 1))) in
     journal_serials ''L'' T = [1, 2] \<and> map_option serial_newest_journal (find_status ''L'' T) = Some (Some 1))"
  by code_simp

end
