(* ===== verification/Queries.thy ===== *)
theory Queries
  imports Database "HOL-Library.Multiset"
begin

text \<open>
  \<^verbatim>\<open>irrd/storage/queries.py\<close>: the query builders. A query holds the condition it has collected, the
  sources and classes that were set (they decide the order and the use of the prefix column), a
  limit, and whether it is frozen; every method adds to it and fails on a frozen query.
  \<open>run_query\<close> gives the rows of a finalised statement: the matching rows, in order, up to the
  limit. A comparison with a missing value holds for no row. The comparisons of PostgreSQL on
  addresses, prefixes and texts are those of the parameter \<open>pg_lib\<close>.
\<close>

section \<open>Comparisons of the database\<close>

record pg_lib =
  inet_le :: "string \<Rightarrow> string \<Rightarrow> bool"
  inet_eq :: "string \<Rightarrow> string \<Rightarrow> bool"
  cidr_contains_eq :: "string \<Rightarrow> string \<Rightarrow> bool"
  cidr_contained :: "string \<Rightarrow> string \<Rightarrow> bool"
  text_le :: "string \<Rightarrow> string \<Rightarrow> bool"
  ilike :: "string \<Rightarrow> string \<Rightarrow> bool"

definition when_set :: "'a option \<Rightarrow> ('a \<Rightarrow> bool) \<Rightarrow> bool" where
  "when_set v p = (case v of None \<Rightarrow> False | Some x \<Rightarrow> p x)"

lemma when_set_simps [simp]: "when_set None p = False" "when_set (Some x) p = p x"
  by (simp_all add: when_set_def)

text \<open>Order criteria: missing values come last; a list of criteria is lexicographic.\<close>

definition nulls_last :: "('a \<Rightarrow> 'a \<Rightarrow> bool) \<Rightarrow> 'a option \<Rightarrow> 'a option \<Rightarrow> bool" where
  "nulls_last le a b = (case b of None \<Rightarrow> True | Some y \<Rightarrow> (case a of None \<Rightarrow> False | Some x \<Rightarrow> le x y))"

fun lex_le :: "('r \<Rightarrow> 'r \<Rightarrow> bool) list \<Rightarrow> 'r \<Rightarrow> 'r \<Rightarrow> bool" where
  "lex_le [] a b = True"
| "lex_le (le # les) a b = (if le a b \<and> le b a then lex_le les a b else le a b)"

fun insert_ordered :: "('r \<Rightarrow> 'r \<Rightarrow> bool) \<Rightarrow> 'r \<Rightarrow> 'r list \<Rightarrow> 'r list" where
  "insert_ordered le x [] = [x]"
| "insert_ordered le x (y # ys) = (if le x y then x # y # ys else y # insert_ordered le x ys)"

definition order_rows :: "('r \<Rightarrow> 'r \<Rightarrow> bool) \<Rightarrow> 'r list \<Rightarrow> 'r list" where
  "order_rows le rows = foldr (insert_ordered le) rows []"

section \<open>Tables and queries\<close>

record 'r table_columns =
  col_pk :: "'r \<Rightarrow> string"
  col_rpsl_pk :: "'r \<Rightarrow> string"
  col_source :: "'r \<Rightarrow> string"
  col_class :: "'r \<Rightarrow> string"
  col_ip_first :: "('r \<Rightarrow> string option) option"
  col_asn_first :: "('r \<Rightarrow> int option) option"

record 'r query =
  query_frozen :: bool
  sources_list :: "string list"
  ordered_by_sources :: bool
  enable_ordering :: bool
  set_object_classes :: "string list"
  q_where :: "'r \<Rightarrow> bool"
  q_smallest :: "('r \<Rightarrow> int option) option"
  q_limit :: "nat option"
  q_order :: "('r \<Rightarrow> 'r \<Rightarrow> bool) list"

definition BaseRPSLObjectDatabaseQuery :: "bool \<Rightarrow> bool \<Rightarrow> ('r \<Rightarrow> 'r \<Rightarrow> bool) list \<Rightarrow> 'r query" where
  "BaseRPSLObjectDatabaseQuery by_sources with_order initial_order =
     \<lparr>query_frozen = False, sources_list = [], ordered_by_sources = by_sources, enable_ordering = with_order,
      set_object_classes = [], q_where = (\<lambda>r. True), q_smallest = None, q_limit = None, q_order = initial_order\<rparr>"

definition check_query_frozen :: "'r query \<Rightarrow> 'r query res" where
  "check_query_frozen q =
     (if query_frozen q then Inl (ValueError ''This query was frozen - no more filters can be applied.'') else Inr q)"

definition q_filter :: "('r \<Rightarrow> bool) \<Rightarrow> 'r query \<Rightarrow> 'r query res" where
  "q_filter fltr q = rbind (check_query_frozen q) (\<lambda>q. Inr (q\<lparr>q_where := (\<lambda>r. q_where q r \<and> fltr r)\<rparr>))"

definition q_pks :: "'r table_columns \<Rightarrow> string list \<Rightarrow> 'r query \<Rightarrow> 'r query res" where
  "q_pks C pks = q_filter (\<lambda>r. col_pk C r \<in> set pks)"

definition q_pk :: "'r table_columns \<Rightarrow> string \<Rightarrow> 'r query \<Rightarrow> 'r query res" where
  "q_pk C key = q_filter (\<lambda>r. col_pk C r = key)"

definition q_rpsl_pks :: "'r table_columns \<Rightarrow> string list \<Rightarrow> 'r query \<Rightarrow> 'r query res" where
  "q_rpsl_pks C rpsl_pks = q_filter (\<lambda>r. col_rpsl_pk C r \<in> set (map (\<lambda>p. py_strip (py_upper p)) rpsl_pks))"

definition q_rpsl_pk :: "'r table_columns \<Rightarrow> string \<Rightarrow> 'r query \<Rightarrow> 'r query res" where
  "q_rpsl_pk C rpsl_pk = q_rpsl_pks C [rpsl_pk]"

definition q_sources :: "'r table_columns \<Rightarrow> string list \<Rightarrow> 'r query \<Rightarrow> 'r query res" where
  "q_sources C srcs q =
     (let names = map (\<lambda>s. py_strip (py_upper s)) srcs
      in q_filter (\<lambda>r. col_source C r \<in> set names) (q\<lparr>sources_list := names\<rparr>))"

definition q_object_classes :: "'r table_columns \<Rightarrow> string list \<Rightarrow> 'r query \<Rightarrow> 'r query res" where
  "q_object_classes C classes q =
     q_filter (\<lambda>r. col_class C r \<in> set classes) (q\<lparr>set_object_classes := classes\<rparr>)"

definition limit :: "nat \<Rightarrow> 'r query \<Rightarrow> 'r query res" where
  "limit n q = Inr (q\<lparr>q_limit := Some n\<rparr>)"

definition first_only :: "'r query \<Rightarrow> 'r query res" where
  "first_only = limit 1"

text \<open>The place of a source in the list of sources; those that are not in it come last.\<close>

fun source_rank :: "nat \<Rightarrow> string list \<Rightarrow> string \<Rightarrow> nat option" where
  "source_rank i [] s = None"
| "source_rank i (x # xs) s = (if x = s then Some i else source_rank (Suc i) xs s)"

definition order_criteria :: "pg_lib \<Rightarrow> 'r table_columns \<Rightarrow> 'r query \<Rightarrow> ('r \<Rightarrow> 'r \<Rightarrow> bool) list" where
  "order_criteria PG C q =
     (if enable_ordering q
      then (if ordered_by_sources q \<and> sources_list q \<noteq> []
            then [\<lambda>a b. nulls_last (\<le>) (source_rank 1 (sources_list q) (col_source C a))
                          (source_rank 1 (sources_list q) (col_source C b))] else [])
           @ (case col_ip_first C of None \<Rightarrow> [] | Some f \<Rightarrow> [\<lambda>a b. nulls_last (inet_le PG) (f a) (f b)])
           @ (case col_asn_first C of None \<Rightarrow> [] | Some f \<Rightarrow> [\<lambda>a b. nulls_last (\<le>) (f a) (f b)])
           @ [\<lambda>a b. text_le PG (col_rpsl_pk C a) (col_rpsl_pk C b)]
      else [])"

definition finalise_statement :: "pg_lib \<Rightarrow> 'r table_columns \<Rightarrow> 'r query \<Rightarrow> 'r query" where
  "finalise_statement PG C q = q\<lparr>query_frozen := True, q_order := q_order q @ order_criteria PG C q\<rparr>"

text \<open>
  The rows of a finalised statement. The subquery of \<open>ip_less_specific_one_level\<close> takes the
  smallest size among the rows that match; a row without a size is never selected by it.
\<close>

definition smallest_only :: "('r \<Rightarrow> int option) \<Rightarrow> 'r list \<Rightarrow> 'r list" where
  "smallest_only ip_size rows =
     filter (\<lambda>r. when_set (ip_size r) (\<lambda>n. list_all (\<lambda>r'. case ip_size r' of None \<Rightarrow> True | Some m \<Rightarrow> n \<le> m) rows)) rows"

definition run_query :: "'r query \<Rightarrow> 'r list \<Rightarrow> 'r list" where
  "run_query q rows =
     (let matching = filter (q_where q) rows;
          selected = (case q_smallest q of None \<Rightarrow> matching | Some f \<Rightarrow> smallest_only f matching);
          ordered = order_rows (lex_le (q_order q)) selected
      in case q_limit q of None \<Rightarrow> ordered | Some n \<Rightarrow> take n ordered)"

text \<open>
  \<open>execute_query\<close> of the handler on the table that \<open>rows\<close> reads. A handler that is not read only
  flushes its buffer first. The handler is consumed as a generator; all its callers in the
  modelled code read every row.
\<close>

definition execute_query :: "pg_lib \<Rightarrow> settings \<Rightarrow> int \<Rightarrow> 'r table_columns \<Rightarrow> (tables \<Rightarrow> 'r list) \<Rightarrow> 'r query res
    \<Rightarrow> 'ip handler \<Rightarrow> ('r list \<times> 'ip handler) res" where
  "execute_query PG gs now C rows query h =
     rbind query (\<lambda>q.
     rbind (if readonly h then Inr h else flush_rpsl_object_writing_buffer gs now h) (\<lambda>h1.
       Inr (run_query (finalise_statement PG C q) (rows (cur h1)), h1)))"

section \<open>Queries on objects\<close>

definition object_columns :: "db_row table_columns" where
  "object_columns = \<lparr>col_pk = row_pk, col_rpsl_pk = c_rpsl_pk, col_source = c_source, col_class = c_class,
     col_ip_first = Some c_ip_first, col_asn_first = Some c_asn_first\<rparr>"

definition RPSLDatabaseQuery :: "db_row query" where
  "RPSLDatabaseQuery = BaseRPSLObjectDatabaseQuery True True []"

text \<open>\<open>parsed_data->name ? value\<close>: an element of an array, or a text that is equal.\<close>

definition attr_has :: "(string, pvalue) dict \<Rightarrow> string \<Rightarrow> string \<Rightarrow> bool" where
  "attr_has data name value =
     (case dict_get data name of None \<Rightarrow> False | Some (PStr s) \<Rightarrow> s = value | Some (PList vs) \<Rightarrow> value \<in> set vs)"

text \<open>A value \<open>None\<close> stands for \<open>True\<close>, any value.\<close>

definition lookup_matches :: "string list \<Rightarrow> string option list \<Rightarrow> db_row \<Rightarrow> bool" where
  "lookup_matches attr_names attr_values r \<longleftrightarrow>
     list_ex (\<lambda>n. list_ex (\<lambda>v. case v of
         None \<Rightarrow> dict_get (c_parsed r) n \<noteq> None
       | Some s \<Rightarrow> attr_has (c_parsed r) n (py_upper s)) attr_values) attr_names"

fun check_lookup_names :: "string list \<Rightarrow> unit res" where
  "check_lookup_names [] = Inr ()"
| "check_lookup_names (n # ns) =
     (if n \<in> lookup_field_names then check_lookup_names ns else Inl (ValueError (''Invalid lookup attribute: '' @ n)))"

definition lookup_attrs_in :: "string list \<Rightarrow> string option list \<Rightarrow> db_row query \<Rightarrow> db_row query res" where
  "lookup_attrs_in attr_names attr_values q =
     rbind (check_lookup_names (map py_lower attr_names)) (\<lambda>_.
     rbind (check_query_frozen q) (\<lambda>q.
       Inr (q\<lparr>q_where := (\<lambda>r. q_where q r \<and> lookup_matches (map py_lower attr_names) attr_values r)\<rparr>)))"

definition lookup_attr :: "string \<Rightarrow> string option \<Rightarrow> db_row query \<Rightarrow> db_row query res" where
  "lookup_attr attr_name attr_value = lookup_attrs_in [attr_name] [attr_value]"

text \<open>Iteration over a value of the parsed data; a text would give its characters.\<close>

fun pvalue_items :: "pvalue \<Rightarrow> string list" where
  "pvalue_items (PList vs) = vs"
| "pvalue_items (PStr s) = map (\<lambda>c. [c]) s"

definition prefix_query_permitted :: "settings \<Rightarrow> db_row query \<Rightarrow> bool" where
  "prefix_query_permitted gs q \<longleftrightarrow>
     truthy (get_setting gs ''compatibility.inetnum_search_disabled'')
     \<or> set_object_classes q \<noteq> [] \<and> ''inetnum'' \<notin> set (set_object_classes q)"

definition net_str :: "'ip extlib \<Rightarrow> 'ip \<Rightarrow> string" where
  "net_str L ip = ip_str L (ip_net L ip)"

definition broadcast_str :: "'ip extlib \<Rightarrow> 'ip \<Rightarrow> string" where
  "broadcast_str L ip = ip_str L (ip_broadcast L ip)"

definition same_version :: "'ip extlib \<Rightarrow> 'ip \<Rightarrow> db_row \<Rightarrow> bool" where
  "same_version L ip r \<longleftrightarrow> c_ip_version r = Some (ip_version L ip)"

definition exact_bounds :: "pg_lib \<Rightarrow> 'ip extlib \<Rightarrow> 'ip \<Rightarrow> db_row \<Rightarrow> bool" where
  "exact_bounds PG L ip r \<longleftrightarrow>
     when_set (c_ip_first r) (\<lambda>f. inet_eq PG f (net_str L ip)) \<and>
     when_set (c_ip_last r) (\<lambda>l. inet_eq PG l (broadcast_str L ip))"

definition covering_bounds :: "pg_lib \<Rightarrow> 'ip extlib \<Rightarrow> 'ip \<Rightarrow> db_row \<Rightarrow> bool" where
  "covering_bounds PG L ip r \<longleftrightarrow>
     when_set (c_ip_first r) (\<lambda>f. inet_le PG f (net_str L ip)) \<and>
     when_set (c_ip_last r) (\<lambda>l. inet_le PG (broadcast_str L ip) l)"

definition covered_bounds :: "pg_lib \<Rightarrow> 'ip extlib \<Rightarrow> 'ip \<Rightarrow> db_row \<Rightarrow> bool" where
  "covered_bounds PG L ip r \<longleftrightarrow>
     when_set (c_ip_first r) (\<lambda>f. inet_le PG (net_str L ip) f \<and> inet_le PG f (broadcast_str L ip)) \<and>
     when_set (c_ip_last r) (\<lambda>l. inet_le PG l (broadcast_str L ip) \<and> inet_le PG (net_str L ip) l)"

definition ip_exact :: "pg_lib \<Rightarrow> 'ip extlib \<Rightarrow> 'ip \<Rightarrow> db_row query \<Rightarrow> db_row query res" where
  "ip_exact PG L ip = q_filter (\<lambda>r. exact_bounds PG L ip r \<and> same_version L ip r)"

definition ip_less_specific :: "pg_lib \<Rightarrow> 'ip extlib \<Rightarrow> settings \<Rightarrow> 'ip \<Rightarrow> db_row query \<Rightarrow> db_row query res" where
  "ip_less_specific PG L gs ip q =
     q_filter (if prefix_query_permitted gs q
               then (\<lambda>r. when_set (c_prefix r) (\<lambda>p. cidr_contains_eq PG p (ip_str L ip)))
               else (\<lambda>r. covering_bounds PG L ip r \<and> same_version L ip r)) q"

definition ip_less_specific_one_level :: "pg_lib \<Rightarrow> 'ip extlib \<Rightarrow> 'ip \<Rightarrow> db_row query \<Rightarrow> db_row query res" where
  "ip_less_specific_one_level PG L ip q =
     rbind (q_filter (\<lambda>r. covering_bounds PG L ip r \<and> same_version L ip r \<and> \<not> exact_bounds PG L ip r) q) (\<lambda>q1.
       Inr (q1\<lparr>q_smallest := Some c_ip_size, query_frozen := True\<rparr>))"

definition ip_more_specific :: "pg_lib \<Rightarrow> 'ip extlib \<Rightarrow> settings \<Rightarrow> 'ip \<Rightarrow> db_row query \<Rightarrow> db_row query res" where
  "ip_more_specific PG L gs ip q =
     q_filter (if prefix_query_permitted gs q
               then (\<lambda>r. when_set (c_prefix r) (\<lambda>p. cidr_contained PG p (ip_str L ip)))
               else (\<lambda>r. covered_bounds PG L ip r \<and> same_version L ip r \<and> \<not> exact_bounds PG L ip r)) q"

definition ip_any :: "pg_lib \<Rightarrow> 'ip extlib \<Rightarrow> settings \<Rightarrow> 'ip \<Rightarrow> db_row query \<Rightarrow> db_row query res" where
  "ip_any PG L gs ip q =
     q_filter (if prefix_query_permitted gs q
               then (\<lambda>r. when_set (c_prefix r) (\<lambda>p. cidr_contains_eq PG p (ip_str L ip) \<or> cidr_contained PG p (ip_str L ip)))
               else (\<lambda>r. (covering_bounds PG L ip r \<or> covered_bounds PG L ip r) \<and> same_version L ip r)) q"

definition q_asn :: "int \<Rightarrow> db_row query \<Rightarrow> db_row query res" where
  "q_asn asn = q_filter (\<lambda>r. c_asn_first r = Some asn \<and> c_asn_last r = Some asn)"

definition q_asns_first :: "int list \<Rightarrow> db_row query \<Rightarrow> db_row query res" where
  "q_asns_first asns = q_filter (\<lambda>r. when_set (c_asn_first r) (\<lambda>a. a \<in> set asns))"

definition asn_less_specific :: "int \<Rightarrow> db_row query \<Rightarrow> db_row query res" where
  "asn_less_specific asn =
     q_filter (\<lambda>r. when_set (c_asn_first r) (\<lambda>a. a \<le> asn) \<and> when_set (c_asn_last r) (\<lambda>b. asn \<le> b))"

definition q_rpki_status :: "rpki_status list \<Rightarrow> db_row query \<Rightarrow> db_row query res" where
  "q_rpki_status statuses = q_filter (\<lambda>r. c_rpki r \<in> set statuses)"

definition q_scopefilter_status :: "scopefilter_status list \<Rightarrow> db_row query \<Rightarrow> db_row query res" where
  "q_scopefilter_status statuses = q_filter (\<lambda>r. c_scope r \<in> set statuses)"

definition q_route_preference_status :: "route_preference_status list \<Rightarrow> db_row query \<Rightarrow> db_row query res" where
  "q_route_preference_status statuses = q_filter (\<lambda>r. c_pref r \<in> set statuses)"

definition default_suppression :: "db_row query \<Rightarrow> db_row query res" where
  "default_suppression q =
     rbind (q_rpki_status [RPKI_not_found, RPKI_valid] q) (\<lambda>q1.
     rbind (q_scopefilter_status [in_scope] q1) (q_route_preference_status [pref_visible]))"

definition json_text :: "(string, pvalue) dict \<Rightarrow> string \<Rightarrow> string option" where
  "json_text data name = (case dict_get data name of Some (PStr s) \<Rightarrow> Some s | _ \<Rightarrow> None)"

text \<open>The names of persons and roles occur once and are texts.\<close>

definition text_search :: "pg_lib \<Rightarrow> 'ip extlib \<Rightarrow> settings \<Rightarrow> string \<Rightarrow> bool \<Rightarrow> db_row query \<Rightarrow> db_row query res" where
  "text_search PG L gs value extract_asn_ip q =
     rbind (check_query_frozen q) (\<lambda>q.
       (let free_text = q_filter (\<lambda>r. c_rpsl_pk r = py_upper value
               \<or> c_class r = ''person'' \<and> when_set (json_text (c_parsed r) ''person'') (\<lambda>s. ilike PG s (''%'' @ value @ ''%''))
               \<or> c_class r = ''role'' \<and> when_set (json_text (c_parsed r) ''role'') (\<lambda>s. ilike PG s (''%'' @ value @ ''%''))) q
        in if \<not> extract_asn_ip then free_text
           else (case parse_as_number gs False True (AsStr value) of
                   Inr (s, asn) \<Rightarrow>
                     rbind (q_object_classes object_columns [''as-block'', ''as-set'', ''aut-num''] q) (asn_less_specific asn)
                 | Inl _ \<Rightarrow>
                     (case IP L value 0 of
                        Inr ip \<Rightarrow> ip_less_specific PG L gs ip q
                      | Inl _ \<Rightarrow> free_text))))"

section \<open>Queries on the other tables\<close>

text \<open>
  The keys of journal entries and protected names are not part of the tables; no query on these
  tables selects by them.
\<close>

definition journal_columns :: "journal_entry table_columns" where
  "journal_columns = \<lparr>col_pk = (\<lambda>e. str_int (je_serial_global e)), col_rpsl_pk = je_rpsl_pk, col_source = je_source,
     col_class = je_class, col_ip_first = None, col_asn_first = None\<rparr>"

definition RPSLDatabaseJournalQuery :: "pg_lib \<Rightarrow> journal_entry query" where
  "RPSLDatabaseJournalQuery PG = BaseRPSLObjectDatabaseQuery True True
     [\<lambda>a b. text_le PG (je_source a) (je_source b), \<lambda>a b. je_serial a \<le> je_serial b]"

definition entries_before_date :: "int \<Rightarrow> journal_entry query \<Rightarrow> journal_entry query res" where
  "entries_before_date timestamp = q_filter (\<lambda>e. je_timestamp e < timestamp)"

definition filter_range :: "(journal_entry \<Rightarrow> int) \<Rightarrow> int \<Rightarrow> int option \<Rightarrow> journal_entry query \<Rightarrow> journal_entry query res" where
  "filter_range target start_serial end_opt =
     q_filter (\<lambda>e. start_serial \<le> target e \<and> (case end_opt of None \<Rightarrow> True | Some n \<Rightarrow> target e \<le> n))"

definition serial_nrtm_range :: "int \<Rightarrow> int option \<Rightarrow> journal_entry query \<Rightarrow> journal_entry query res" where
  "serial_nrtm_range = filter_range je_serial"

definition serial_global_range :: "int \<Rightarrow> int option \<Rightarrow> journal_entry query \<Rightarrow> journal_entry query res" where
  "serial_global_range = filter_range je_serial_global"

text \<open>The largest global serial and time stamp of the journal.\<close>

definition RPSLDatabaseJournalStatisticsQuery :: "tables \<Rightarrow> int option \<times> int option" where
  "RPSLDatabaseJournalStatisticsQuery T =
     (list_max (map je_serial_global (t_journal T)), list_max (map je_timestamp (t_journal T)))"

definition suspended_columns :: "suspended_row table_columns" where
  "suspended_columns = \<lparr>col_pk = sp_pk, col_rpsl_pk = sp_rpsl_pk, col_source = sp_source, col_class = sp_class,
     col_ip_first = None, col_asn_first = None\<rparr>"

definition RPSLDatabaseSuspendedQuery :: "suspended_row query" where
  "RPSLDatabaseSuspendedQuery = BaseRPSLObjectDatabaseQuery True True [\<lambda>a b. sp_timestamp a \<le> sp_timestamp b]"

definition q_mntner :: "string \<Rightarrow> suspended_row query \<Rightarrow> suspended_row query res" where
  "q_mntner mntner_rpsl_pk = q_filter (\<lambda>r. mntner_rpsl_pk \<in> set (sp_mntners r))"

definition protected_columns :: "protected_name table_columns" where
  "protected_columns = \<lparr>col_pk = pn_rpsl_pk, col_rpsl_pk = pn_rpsl_pk, col_source = pn_source, col_class = pn_class,
     col_ip_first = None, col_asn_first = None\<rparr>"

definition ProtectedRPSLNameQuery :: "protected_name query" where
  "ProtectedRPSLNameQuery = BaseRPSLObjectDatabaseQuery True True []"

definition q_protected_name :: "string \<Rightarrow> protected_name query \<Rightarrow> protected_name query res" where
  "q_protected_name name = q_filter (\<lambda>r. pn_name r = name)"

definition q_protected_source :: "string \<Rightarrow> protected_name query \<Rightarrow> protected_name query res" where
  "q_protected_source src = q_filter (\<lambda>r. pn_source r = src)"

text \<open>The status query filters and orders only when it is finalised; no sources means all of them.\<close>

definition DatabaseStatusQuery :: "pg_lib \<Rightarrow> string list \<Rightarrow> tables \<Rightarrow> status_row list" where
  "DatabaseStatusQuery PG srcs T =
     (let names = map py_upper srcs
      in order_rows (lex_le ((if names = [] then []
             else [\<lambda>a b. nulls_last (\<le>) (source_rank 1 names (st_source a)) (source_rank 1 names (st_source b))])
             @ [\<lambda>a b. text_le PG (st_source a) (st_source b)]))
           (filter (\<lambda>s. names = [] \<or> st_source s \<in> set names) (t_status T)))"

text \<open>The number of objects for each source and class, in the order of their first rows.\<close>

definition RPSLDatabaseObjectStatisticsQuery :: "tables \<Rightarrow> ((string \<times> string) \<times> nat) list" where
  "RPSLDatabaseObjectStatisticsQuery T =
     (let groups = map (\<lambda>r. (c_source r, c_class r)) (t_objects T)
      in map (\<lambda>g. (g, count_list groups g)) (rev (remdups (rev groups))))"

definition roa_ip_less_specific_or_exact :: "pg_lib \<Rightarrow> 'ip extlib \<Rightarrow> tables \<Rightarrow> 'ip \<Rightarrow> roa_row list" where
  "roa_ip_less_specific_or_exact PG L T ip =
     map (\<lambda>r. \<lparr>row_prefix = ro_prefix r, row_asn = ro_asn r, row_max_length = ro_max_length r\<rparr>)
       (filter (\<lambda>r. cidr_contains_eq PG (ro_prefix r) (ip_str L ip)) (t_roas T))"

section \<open>Lemmas\<close>

lemma mset_insert_ordered [simp]: "mset (insert_ordered le x ys) = add_mset x (mset ys)"
  by (induction ys) auto

lemma mset_order_rows [simp]: "mset (order_rows le rows) = mset rows"
  by (induction rows) (simp_all add: order_rows_def)

lemma set_order_rows [simp]: "set (order_rows le rows) = set rows"
  by (metis mset_order_rows set_mset_mset)

lemma length_order_rows [simp]: "length (order_rows le rows) = length rows"
  by (metis mset_order_rows size_mset)

lemma order_rows_Nil_iff [simp]: "order_rows le rows = [] \<longleftrightarrow> rows = []"
  by (metis length_order_rows length_0_conv)

definition total_preorder :: "('r \<Rightarrow> 'r \<Rightarrow> bool) \<Rightarrow> bool" where
  "total_preorder le \<longleftrightarrow> (\<forall>a b. le a b \<or> le b a) \<and> (\<forall>a b c. le a b \<longrightarrow> le b c \<longrightarrow> le a c)"

lemma total_preorder_lex: "list_all total_preorder les \<Longrightarrow> total_preorder (lex_le les)"
proof (induction les)
  case (Cons le les)
  then have le: "total_preorder le" and les: "total_preorder (lex_le les)" by simp_all
  show ?case unfolding total_preorder_def
  proof (intro conjI allI impI)
    show "lex_le (le # les) a b \<or> lex_le (le # les) b a" for a b
      using le les by (auto simp: total_preorder_def)
    show "lex_le (le # les) a c" if "lex_le (le # les) a b" "lex_le (le # les) b c" for a b c
      using that le les unfolding total_preorder_def lex_le.simps by (metis (full_types))
  qed
qed (simp add: total_preorder_def)

lemma insert_ordered_sorted:
  assumes "total_preorder le" "sorted_wrt le ys"
  shows "sorted_wrt le (insert_ordered le x ys)"
  using assms(2)
proof (induction ys)
  case (Cons y ys)
  have set: "set (insert_ordered le x ys) = insert x (set ys)"
    by (metis mset_insert_ordered set_mset_add_mset_insert set_mset_mset)
  from assms(1) have "le y x" if "\<not> le x y" using that by (auto simp: total_preorder_def)
  with Cons assms(1) set show ?case by (auto simp: total_preorder_def)
qed simp

lemma order_rows_sorted: "total_preorder le \<Longrightarrow> sorted_wrt le (order_rows le rows)"
  by (induction rows) (simp_all add: order_rows_def insert_ordered_sorted)

lemma q_filter_unfrozen [simp]:
  "\<not> query_frozen q \<Longrightarrow> q_filter p q = Inr (q\<lparr>q_where := (\<lambda>r. q_where q r \<and> p r)\<rparr>)"
  by (simp add: q_filter_def check_query_frozen_def)

lemma q_filter_frozen: "query_frozen q \<Longrightarrow> \<exists>m. q_filter p q = Inl (ValueError m)"
  by (simp add: q_filter_def check_query_frozen_def)

lemma base_query_simps [simp]:
  "query_frozen (BaseRPSLObjectDatabaseQuery a b c) = False"
  "q_where (BaseRPSLObjectDatabaseQuery a b c) = (\<lambda>r. True)"
  "q_smallest (BaseRPSLObjectDatabaseQuery a b c) = None"
  "q_limit (BaseRPSLObjectDatabaseQuery a b c) = None"
  "sources_list (BaseRPSLObjectDatabaseQuery a b c) = []"
  by (simp_all add: BaseRPSLObjectDatabaseQuery_def)

lemma finalise_statement_simps [simp]:
  "q_where (finalise_statement PG C q) = q_where q"
  "q_smallest (finalise_statement PG C q) = q_smallest q"
  "q_limit (finalise_statement PG C q) = q_limit q"
  by (simp_all add: finalise_statement_def)

lemma set_run_query:
  "q_limit q = None \<Longrightarrow> q_smallest q = None \<Longrightarrow> set (run_query q rows) = set (filter (q_where q) rows)"
  by (simp add: run_query_def)

lemma run_query_subset: "r \<in> set (run_query q rows) \<Longrightarrow> r \<in> set rows \<and> q_where q r"
  by (auto simp: run_query_def smallest_only_def Let_def split: option.splits dest!: in_set_takeD)

lemma run_query_limited_Nil:
  "q_smallest q = None \<Longrightarrow> q_limit q \<noteq> Some 0 \<Longrightarrow> run_query q rows = [] \<longleftrightarrow> filter (q_where q) rows = []"
  by (cases "q_limit q") (simp_all add: run_query_def Let_def)

section \<open>What the queries select\<close>


definition example_pg :: pg_lib where
  "example_pg = \<lparr>inet_le = (\<lambda>a b. True), inet_eq = (=), cidr_contains_eq = (=), cidr_contained = (\<lambda>a b. False),
     text_le = (\<lambda>a b. True), ilike = (=)\<rparr>"


end
