(* ===== verification/Update_State.thy ===== *)
theory Update_State
  imports Queries
begin

text \<open>
  The states of an authoritative update (\<^verbatim>\<open>irrd/updates/parser_state.py\<close>), the accounts, maintainer
  permissions and API tokens of \<^verbatim>\<open>irrd/storage/models.py\<close> that authenticate it, and the results
  that the validators of \<^verbatim>\<open>irrd/updates/validators.py\<close> return.
\<close>

section \<open>Request types and states\<close>

datatype update_request_type = UR_CREATE | UR_MODIFY | UR_DELETE

fun request_type_value :: "update_request_type \<Rightarrow> string" where
  "request_type_value UR_CREATE = ''create''"
| "request_type_value UR_MODIFY = ''modify''"
| "request_type_value UR_DELETE = ''delete''"

datatype suspension_request_type = SR_SUSPEND | SR_REACTIVATE

fun suspension_type_value :: "suspension_request_type \<Rightarrow> string" where
  "suspension_type_value SR_SUSPEND = ''suspend''"
| "suspension_type_value SR_REACTIVATE = ''reactivate''"

datatype update_request_status =
    SAVED
  | PROCESSING
  | ERROR_UNKNOWN_CLASS
  | ERROR_PARSING
  | ERROR_AUTH
  | ERROR_RULES
  | ERROR_REFERENCE
  | ERROR_PROTECTED_NAME
  | ERROR_ROA
  | ERROR_SCOPEFILTER
  | ERROR_NON_AUTHORITIVE
  | ERROR_OBJECT_FILTER

definition status_ok :: "update_request_status \<Rightarrow> bool" where
  "status_ok s \<longleftrightarrow> s \<in> {SAVED, PROCESSING}"

lemma status_ok_simps [simp]:
  "status_ok SAVED" "status_ok PROCESSING" "\<not> status_ok ERROR_UNKNOWN_CLASS" "\<not> status_ok ERROR_PARSING"
  "\<not> status_ok ERROR_AUTH" "\<not> status_ok ERROR_RULES" "\<not> status_ok ERROR_REFERENCE"
  "\<not> status_ok ERROR_PROTECTED_NAME" "\<not> status_ok ERROR_ROA" "\<not> status_ok ERROR_SCOPEFILTER"
  "\<not> status_ok ERROR_NON_AUTHORITIVE" "\<not> status_ok ERROR_OBJECT_FILTER"
  by (simp_all add: status_ok_def)

datatype autnum_authentication_mode = AUTNUM_DISABLED | AUTNUM_OPPORTUNISTIC | AUTNUM_REQUIRED

definition autnum_mode_of :: "string \<Rightarrow> autnum_authentication_mode res" where
  "autnum_mode_of s =
     (if s = ''DISABLED'' then Inr AUTNUM_DISABLED
      else if s = ''OPPORTUNISTIC'' then Inr AUTNUM_OPPORTUNISTIC
      else if s = ''REQUIRED'' then Inr AUTNUM_REQUIRED
      else Inl (AttributeError s))"

definition for_set_name :: "settings \<Rightarrow> string \<Rightarrow> autnum_authentication_mode res" where
  "for_set_name gs set_name =
     (let own = get_setting gs (''auth.set_creation.'' @ set_name @ ''.autnum_authentication'');
          setting = (if truthy own then own
                     else get_setting gs (''auth.set_creation.'' @ AUTH_SET_CREATION_COMMON_KEY
                                          @ ''.autnum_authentication''))
      in case setting of CStr s \<Rightarrow> autnum_mode_of (py_upper s) | _ \<Rightarrow> Inl (AttributeError ''upper''))"

datatype auth_method =
    OVERRIDE_PASSWORD
  | OVERRIDE_INTERNAL_AUTH
  | MNTNER_PASSWORD
  | MNTNER_PGP_KEY
  | MNTNER_INTERNAL_AUTH
  | MNTNER_API_KEY
  | MNTNER_IN_SAME_REQUEST
  | AUTH_NONE

definition auth_bool :: "auth_method \<Rightarrow> bool" where
  "auth_bool m \<longleftrightarrow> m \<noteq> AUTH_NONE"

definition used_override :: "auth_method \<Rightarrow> bool" where
  "used_override m \<longleftrightarrow> m \<in> {OVERRIDE_PASSWORD, OVERRIDE_INTERNAL_AUTH}"

section \<open>Accounts, maintainers and tokens\<close>

datatype change_origin = from_webui | from_webapi | from_email | from_other

record auth_mntner =
  am_pk :: string
  rpsl_mntner_pk :: string
  rpsl_mntner_source :: string
  migration_token :: "string option"

definition migration_complete :: "auth_mntner \<Rightarrow> bool" where
  "migration_complete m \<longleftrightarrow> migration_token m = None"

text \<open>A user with the permissions it has: a maintainer, and whether it includes user management.\<close>

record auth_user =
  au_pk :: string
  au_email :: string
  au_override :: bool
  au_permissions :: "(auth_mntner \<times> bool) list"

definition user_mntners :: "auth_user \<Rightarrow> auth_mntner list" where
  "user_mntners u = filter migration_complete (map fst (au_permissions u))"

definition user_mntners_user_management :: "auth_user \<Rightarrow> auth_mntner list" where
  "user_mntners_user_management u = filter migration_complete (map fst (filter snd (au_permissions u)))"

record auth_api_token =
  tk_pk :: string
  tk_token :: string
  tk_mntner :: auth_mntner
  ip_restriction :: "string option"
  enabled_webapi :: bool
  enabled_email :: bool

fun remote_in :: "'ip extlib \<Rightarrow> 'ip option \<Rightarrow> string list \<Rightarrow> bool res" where
  "remote_in L remote_ip [] = Inr False"
| "remote_in L remote_ip (p # ps) =
     (case remote_ip of
        None \<Rightarrow> remote_in L remote_ip ps
      | Some r \<Rightarrow> (case IP L p 0 of
           Inl e \<Rightarrow> Inl (ValueError e)
         | Inr net \<Rightarrow> if ip_contains L net r then Inr True else remote_in L remote_ip ps))"

definition valid_for :: "'ip extlib \<Rightarrow> auth_api_token \<Rightarrow> change_origin \<Rightarrow> 'ip option \<Rightarrow> bool res" where
  "valid_for L t orig remote_ip =
     (if \<not> (enabled_webapi t \<and> orig = from_webapi \<or> enabled_email t \<and> orig = from_email) then Inr False
      else if str_truthy (ip_restriction t)
      then remote_in L remote_ip (py_split CHR '','' (the (ip_restriction t)))
      else Inr True)"

text \<open>The tables of the accounts, as far as updates read them.\<close>

record auth_db =
  ad_mntners :: "auth_mntner list"
  ad_tokens :: "auth_api_token list"

section \<open>Results of validators\<close>

text \<open>An \<open>OrderedSet\<close> of messages.\<close>

definition oset_add :: "'a \<Rightarrow> 'a list \<Rightarrow> 'a list" where
  "oset_add x xs = (if x \<in> set xs then xs else xs @ [x])"

lemma set_oset_add [simp]: "set (oset_add x xs) = insert x (set xs)"
  by (auto simp: oset_add_def)

lemma oset_add_neq_Nil [simp]: "oset_add x xs \<noteq> []"
  by (auto simp: oset_add_def)

record 'ip validator_result =
  vr_errors :: "string list"
  vr_infos :: "string list"
  mntners_notify :: "'ip rpsl_object list"
  vr_auth_method :: auth_method
  auth_through_mntner :: "string option"
  auth_through_internal_mntner :: "auth_mntner option"
  auth_through_api_key :: "auth_api_token option"
  auth_through_internal_user :: "auth_user option"

definition ValidatorResult :: "'ip validator_result" where
  "ValidatorResult = \<lparr>vr_errors = [], vr_infos = [], mntners_notify = [], vr_auth_method = AUTH_NONE,
     auth_through_mntner = None, auth_through_internal_mntner = None, auth_through_api_key = None,
     auth_through_internal_user = None\<rparr>"

definition result_valid :: "'ip validator_result \<Rightarrow> bool" where
  "result_valid r \<longleftrightarrow> vr_errors r = []"

definition add_error :: "string \<Rightarrow> 'ip validator_result \<Rightarrow> 'ip validator_result" where
  "add_error m r = r\<lparr>vr_errors := oset_add m (vr_errors r)\<rparr>"

definition add_info :: "string \<Rightarrow> 'ip validator_result \<Rightarrow> 'ip validator_result" where
  "add_info m r = r\<lparr>vr_infos := oset_add m (vr_infos r)\<rparr>"

lemma ValidatorResult_simps [simp]:
  "vr_errors ValidatorResult = []" "vr_infos ValidatorResult = []" "vr_auth_method ValidatorResult = AUTH_NONE"
  "mntners_notify ValidatorResult = []"
  by (simp_all add: ValidatorResult_def)

lemma add_message_simps [simp]:
  "vr_errors (add_error m r) \<noteq> []" "vr_errors (add_info m r) = vr_errors r"
  "vr_auth_method (add_error m r) = vr_auth_method r" "vr_auth_method (add_info m r) = vr_auth_method r"
  by (simp_all add: add_error_def add_info_def)

record change_log =
  auth_by_user_id :: "string option"
  auth_by_user_email :: "string option"
  auth_by_api_key_id :: "string option"
  auth_by_api_key_id_fixed :: "string option"
  auth_through_mntner_id :: "string option"
  auth_through_rpsl_mntner_pk :: "string option"
  auth_by_rpsl_mntner_password :: bool
  auth_by_rpsl_mntner_pgp_key :: bool
  auth_by_override :: bool
  log_from_email :: "string option"
  log_from_ip :: "string option"
  rpsl_target_request_type :: "update_request_type option"
  rpsl_target_pk :: string
  rpsl_target_source :: string
  rpsl_target_object_class :: string
  rpsl_target_object_text_old :: "string option"
  rpsl_target_object_text_new :: "string option"

definition to_change_log :: "'ip validator_result \<Rightarrow> change_log" where
  "to_change_log r = \<lparr>
     auth_by_user_id = map_option au_pk (auth_through_internal_user r),
     auth_by_user_email = map_option au_email (auth_through_internal_user r),
     auth_by_api_key_id = map_option tk_pk (auth_through_api_key r),
     auth_by_api_key_id_fixed = map_option tk_pk (auth_through_api_key r),
     auth_through_mntner_id = map_option am_pk (auth_through_internal_mntner r),
     auth_through_rpsl_mntner_pk = auth_through_mntner r,
     auth_by_rpsl_mntner_password = (vr_auth_method r = MNTNER_PASSWORD),
     auth_by_rpsl_mntner_pgp_key = (vr_auth_method r = MNTNER_PGP_KEY),
     auth_by_override = (vr_auth_method r \<in> {OVERRIDE_PASSWORD, OVERRIDE_INTERNAL_AUTH}),
     log_from_email = None, log_from_ip = None, rpsl_target_request_type = None, rpsl_target_pk = [],
     rpsl_target_source = [], rpsl_target_object_class = [], rpsl_target_object_text_old = None,
     rpsl_target_object_text_new = None\<rparr>"

record 'ip mntner_check_result =
  mc_valid :: bool
  associated_mntners :: "'ip rpsl_object list"
  mc_auth_method :: auth_method
  mc_mntner_pk :: "string option"
  mc_auth_mntner :: "auth_mntner option"
  mc_api_key :: "auth_api_token option"

definition mntner_result :: "bool \<Rightarrow> 'ip rpsl_object list \<Rightarrow> auth_method \<Rightarrow> string option \<Rightarrow> 'ip mntner_check_result" where
  "mntner_result valid mntners m mntner_pk =
     \<lparr>mc_valid = valid, associated_mntners = mntners, mc_auth_method = m, mc_mntner_pk = mntner_pk,
      mc_auth_mntner = None, mc_api_key = None\<rparr>"

lemma mntner_result_simps [simp]:
  "mc_valid (mntner_result v ms m p) = v" "mc_auth_method (mntner_result v ms m p) = m"
  by (simp_all add: mntner_result_def)

section \<open>The environment of an update\<close>

text \<open>
  What every check of an update reads: the libraries, the comparisons of the database, the
  settings, and the tables. No check writes to the database, and a handler that was just created
  has nothing in its buffer to flush, so that the tables stay those of the start of the
  submission until the first change is saved. \<open>uuid_of\<close> reads the text of a token; a text that
  is no UUID is refused by the database.
\<close>

record 'ip update_env =
  e_lib :: "'ip extlib"
  e_pg :: pg_lib
  e_settings :: settings
  e_tables :: tables
  e_auth :: auth_db
  uuid_of :: "string \<Rightarrow> string option"

definition object_rows :: "'ip update_env \<Rightarrow> db_row query res \<Rightarrow> db_row list res" where
  "object_rows E query =
     rbind query (\<lambda>q. Inr (run_query (finalise_statement (e_pg E) object_columns q) (t_objects (e_tables E))))"

definition from_text :: "'ip update_env \<Rightarrow> bool \<Rightarrow> string \<Rightarrow> 'ip rpsl_object res" where
  "from_text E strict txt = rpsl_object_from_text (e_lib E) (e_settings E) txt strict None"

text \<open>A list comprehension whose body may raise.\<close>

fun rmap :: "('a \<Rightarrow> 'b res) \<Rightarrow> 'a list \<Rightarrow> 'b list res" where
  "rmap f [] = Inr []"
| "rmap f (x # xs) = rbind (f x) (\<lambda>y. rbind (rmap f xs) (\<lambda>ys. Inr (y # ys)))"

fun rfilter :: "('a \<Rightarrow> bool res) \<Rightarrow> 'a list \<Rightarrow> 'a list res" where
  "rfilter p [] = Inr []"
| "rfilter p (x # xs) = rbind (p x) (\<lambda>b. rbind (rfilter p xs) (\<lambda>ys. Inr (if b then x # ys else ys)))"

lemma rmap_Inr_in: "rmap f xs = Inr ys \<Longrightarrow> y \<in> set ys \<Longrightarrow> \<exists>x \<in> set xs. f x = Inr y"
  by (induction xs arbitrary: ys) (auto simp: rbind_Inr_conv)

lemma rfilter_Inr_in: "rfilter p xs = Inr ys \<Longrightarrow> y \<in> set ys \<Longrightarrow> y \<in> set xs \<and> p y = Inr True"
  by (induction xs arbitrary: ys) (auto simp: rbind_Inr_conv split: if_splits)

end
