(* ===== verification/Update_Validators.thy ===== *)
theory Update_Validators
  imports Update_State
begin

text \<open>
  \<^verbatim>\<open>irrd/updates/validators.py\<close>: the validators of references, of authentication and of other rules.
  The reference and the authentication validator are shared by all requests of a submission and
  keep caches; they are passed along as values. Errors that the source would raise are the left
  summand of the results.
\<close>

section \<open>Queries of the validators\<close>

definition class_pk_query :: "string \<Rightarrow> string list \<Rightarrow> string list \<Rightarrow> db_row query res" where
  "class_pk_query src classes rpsl_pks =
     rbind (q_sources object_columns [src] RPSLDatabaseQuery) (\<lambda>q.
     rbind (q_object_classes object_columns classes q) (q_rpsl_pks object_columns rpsl_pks))"

definition init_related_object_query :: "string \<Rightarrow> string \<Rightarrow> db_row query res" where
  "init_related_object_query cls src =
     rbind (q_sources object_columns [src] RPSLDatabaseQuery) (\<lambda>q.
     rbind (q_object_classes object_columns [cls] q) first_only)"

section \<open>References\<close>

type_synonym obj_ref = "string \<times> string \<times> string"

record reference_validator =
  rv_cache :: "obj_ref list"
  preloaded_new :: "obj_ref list"
  preloaded_deleted :: "obj_ref list"

definition ReferenceValidator :: reference_validator where
  "ReferenceValidator = \<lparr>rv_cache = [], preloaded_new = [], preloaded_deleted = []\<rparr>"

text \<open>The objects of the requests, each with its request type; a suspension has none of the three.\<close>

fun preload_all :: "(update_request_type option \<times> obj_ref) list \<Rightarrow> reference_validator \<Rightarrow> reference_validator" where
  "preload_all [] rv = rv"
| "preload_all ((rtype, ref) # rs) rv =
     preload_all rs
       (if rtype = Some UR_DELETE then rv\<lparr>preloaded_deleted := List.insert ref (preloaded_deleted rv)\<rparr>
        else if rtype \<in> {Some UR_CREATE, Some UR_MODIFY} then rv\<lparr>preloaded_new := List.insert ref (preloaded_new rv)\<rparr>
        else rv)"

definition preload :: "(update_request_type option \<times> obj_ref) list \<Rightarrow> reference_validator \<Rightarrow> reference_validator" where
  "preload results rv = preload_all results (rv\<lparr>preloaded_new := [], preloaded_deleted := []\<rparr>)"

fun known_reference :: "reference_validator \<Rightarrow> string list \<Rightarrow> string \<Rightarrow> string \<Rightarrow> bool option" where
  "known_reference rv [] object_pk src = None"
| "known_reference rv (c # cs) object_pk src =
     (if (c, object_pk, src) \<in> set (rv_cache rv) then Some True
      else if (c, object_pk, src) \<in> set (preloaded_new rv) then Some True
      else if (c, object_pk, src) \<in> set (preloaded_deleted rv) then Some False
      else known_reference rv cs object_pk src)"

definition check_reference_to_others :: "'ip update_env \<Rightarrow> string list \<Rightarrow> string \<Rightarrow> string \<Rightarrow> reference_validator
    \<Rightarrow> (bool \<times> reference_validator) res" where
  "check_reference_to_others E classes object_pk src rv =
     (case known_reference rv classes object_pk src of
        Some b \<Rightarrow> Inr (b, rv)
      | None \<Rightarrow>
          rbind (object_rows E (class_pk_query src classes [object_pk])) (\<lambda>results.
            Inr (results \<noteq> [],
                 rv\<lparr>rv_cache := fold (\<lambda>r. List.insert (c_class r, object_pk, src)) results (rv_cache rv)\<rparr>)))"

definition reference_error :: "string list \<Rightarrow> string \<Rightarrow> string \<Rightarrow> string \<Rightarrow> string" where
  "reference_error classes field_name object_pk src =
     ''Object '' @ object_pk @ '' referenced in field '' @ field_name @ '' not found in database '' @ src
     @ '' - must reference '' @ (if 1 < length classes then ''one of '' @ py_join '', '' classes else hd classes) @ ''.''"

fun check_pks :: "'ip update_env \<Rightarrow> string \<Rightarrow> string list \<Rightarrow> string list \<Rightarrow> string
    \<Rightarrow> 'ip validator_result \<times> reference_validator \<Rightarrow> ('ip validator_result \<times> reference_validator) res" where
  "check_pks E field_name classes [] src st = Inr st"
| "check_pks E field_name classes (object_pk # pks) src (result, rv) =
     rbind (check_reference_to_others E classes object_pk src rv) (\<lambda>(found, rv1).
       check_pks E field_name classes pks src
         (if found then result else add_error (reference_error classes field_name object_pk src) result, rv1))"

fun check_reference_fields :: "'ip update_env \<Rightarrow> (string \<times> string list \<times> pvalue) list \<Rightarrow> string
    \<Rightarrow> 'ip validator_result \<times> reference_validator \<Rightarrow> ('ip validator_result \<times> reference_validator) res" where
  "check_reference_fields E [] src st = Inr st"
| "check_reference_fields E ((field_name, classes, pks) # refs) src st =
     rbind (check_pks E field_name classes (pvalue_items pks) src st) (check_reference_fields E refs src)"

definition check_references_to_others :: "'ip update_env \<Rightarrow> 'ip rpsl_object \<Rightarrow> reference_validator
    \<Rightarrow> ('ip validator_result \<times> reference_validator) res" where
  "check_references_to_others E obj rv =
     rbind (source obj) (\<lambda>src. check_reference_fields E (referred_strong_objects obj) src (ValidatorResult, rv))"

text \<open>The attributes that refer to a class, as a list; \<open>references_strong_inbound\<close> is their set.\<close>

definition strong_inbound_attrs :: "string \<Rightarrow> string list" where
  "strong_inbound_attrs object_class =
     remdups (concat (map (\<lambda>c. map fst (filter (\<lambda>(n, f).
            (case referring (kind f) of None \<Rightarrow> False | Some r \<Rightarrow> object_class \<in> set r)
            \<and> strong (kind f)) (class_fields c))) (map snd OBJECT_CLASS_MAPPING)))"

lemma set_strong_inbound_attrs: "set (strong_inbound_attrs cls) = references_strong_inbound cls"
  unfolding strong_inbound_attrs_def references_strong_inbound_def by (rule set_remdups)

definition referring_rows :: "'ip update_env \<Rightarrow> 'ip rpsl_object \<Rightarrow> db_row list res" where
  "referring_rows E obj =
     (let attrs = strong_inbound_attrs (rpsl_object_class (klass obj))
      in if attrs = [] then Inr []
         else rbind (source obj) (\<lambda>src.
                object_rows E (rbind (q_sources object_columns [src] RPSLDatabaseQuery)
                  (lookup_attrs_in attrs [Some (pk obj)]))))"

text \<open>The messages for the referring rows that are not deleted by the same submission.\<close>

definition check_references_from_others :: "'ip update_env \<Rightarrow> reference_validator \<Rightarrow> 'ip rpsl_object
    \<Rightarrow> (string \<Rightarrow> string \<Rightarrow> string) \<Rightarrow> (string \<Rightarrow> 'ip validator_result \<Rightarrow> 'ip validator_result) \<Rightarrow> 'ip validator_result
    \<Rightarrow> 'ip validator_result res" where
  "check_references_from_others E rv obj message_format add_message result =
     rbind (referring_rows E obj) (\<lambda>rows.
       Inr (fold (\<lambda>r res.
              if (c_class r, c_rpsl_pk r, c_source r) \<in> set (preloaded_deleted rv) then res
              else add_message (message_format (c_class r) (c_rpsl_pk r)) res) rows result))"

definition check_references_from_others_for_deletion :: "'ip update_env \<Rightarrow> reference_validator \<Rightarrow> 'ip rpsl_object \<Rightarrow> bool
    \<Rightarrow> 'ip validator_result res" where
  "check_references_from_others_for_deletion E rv obj override =
     (if override \<and> rpsl_object_class (klass obj) \<in> set PROTECTED_NAME_OBJECT_CLASSES
      then check_references_from_others E rv obj
             (\<lambda>cls rpsl_pk. ''NOTE: object '' @ pk obj @ '' still referenced by '' @ cls @ '' '' @ rpsl_pk
               @ ''. Delete permitted due to override. This creates a broken reference.'') add_info ValidatorResult
      else check_references_from_others E rv obj
             (\<lambda>cls rpsl_pk. ''Object '' @ pk obj @ '' to be deleted, but still referenced by '' @ cls @ '' '' @ rpsl_pk)
             add_error ValidatorResult)"

definition protected_rows :: "'ip update_env \<Rightarrow> 'ip rpsl_object \<Rightarrow> protected_name list res" where
  "protected_rows E obj =
     rbind (source obj) (\<lambda>src.
     rbind (rbind (q_protected_name (pk obj) ProtectedRPSLNameQuery) (\<lambda>q.
            rbind (q_object_classes protected_columns [rpsl_object_class (klass obj)] q) (q_protected_source src))) (\<lambda>q.
       Inr (run_query (finalise_statement (e_pg E) protected_columns q) (t_protected (e_tables E)))))"

definition check_protected_name :: "'ip update_env \<Rightarrow> reference_validator \<Rightarrow> 'ip rpsl_object \<Rightarrow> bool
    \<Rightarrow> 'ip validator_result res" where
  "check_protected_name E rv obj override =
     rbind (if override
            then check_references_from_others E rv obj
                   (\<lambda>cls rpsl_pk. ''NOTE: existing references to '' @ pk obj @ '' exist from '' @ cls @ '' '' @ rpsl_pk
                     @ '', permitted due to override'') add_info ValidatorResult
            else check_references_from_others E rv obj
                   (\<lambda>cls rpsl_pk. ''Object '' @ pk obj @ '' to be created, but existing references exist from '' @ cls
                     @ '' '' @ rpsl_pk) add_error ValidatorResult) (\<lambda>result.
     rbind (protected_rows E obj) (\<lambda>rows.
       Inr (if rows = [] then result
            else if override
            then add_info (''NOTE: object '' @ pk obj @ '' has a protected name, creation permitted due to override.'') result
            else add_error (''Object '' @ pk obj @ '' has a protected name that can not be reused.''
                   @ '' Create the object under a different name.'') result)))"

section \<open>Authentication\<close>

record 'ip auth_validator =
  passwords :: "string list"
  overrides :: "string list"
  api_keys :: "string list"
  keycert_obj_pk :: "string option"
  av_origin :: change_origin
  remote_ip :: "'ip option"
  mntner_db_cache :: "'ip rpsl_object list"
  pre_approved :: "string list"
  internal_authenticated_user :: "auth_user option"

definition AuthValidator :: "change_origin \<Rightarrow> string option \<Rightarrow> auth_user option \<Rightarrow> 'ip option \<Rightarrow> 'ip auth_validator" where
  "AuthValidator orig keycert user remote =
     \<lparr>passwords = [], overrides = [], api_keys = [], keycert_obj_pk = keycert, av_origin = orig, remote_ip = remote,
      mntner_db_cache = [], pre_approved = [], internal_authenticated_user = user\<rparr>"

definition pre_approve :: "'ip rpsl_object list \<Rightarrow> 'ip auth_validator \<Rightarrow> 'ip auth_validator" where
  "pre_approve presumed_valid_new_mntners av = av\<lparr>pre_approved := map pk presumed_valid_new_mntners\<rparr>"

text \<open>
  The override passwords: a hash that one hasher does not accept is tried with the other; a hash
  that neither accepts is logged and skipped.
\<close>

fun check_override_passwords :: "'ip extlib \<Rightarrow> string \<Rightarrow> string list \<Rightarrow> auth_method res" where
  "check_override_passwords L override_hash [] = Inr AUTH_NONE"
| "check_override_passwords L override_hash (p # ps) =
     (case hasher_verify L ''BCRYPT-PW'' p override_hash of
        Inr True \<Rightarrow> Inr OVERRIDE_PASSWORD
      | Inr False \<Rightarrow> check_override_passwords L override_hash ps
      | Inl (ValueError e) \<Rightarrow>
          (case hasher_verify L ''MD5-PW'' p override_hash of
             Inr True \<Rightarrow> Inr OVERRIDE_PASSWORD
           | Inr False \<Rightarrow> check_override_passwords L override_hash ps
           | Inl (ValueError e') \<Rightarrow> check_override_passwords L override_hash ps
           | Inl e' \<Rightarrow> Inl e')
      | Inl e \<Rightarrow> Inl e)"

definition check_override :: "'ip update_env \<Rightarrow> 'ip auth_validator \<Rightarrow> auth_method res" where
  "check_override E av =
     (if (case internal_authenticated_user av of None \<Rightarrow> False | Some u \<Rightarrow> au_override u) then Inr OVERRIDE_INTERNAL_AUTH
      else (let override_hash = get_setting (e_settings E) ''auth.override_password''
            in if truthy override_hash then check_override_passwords (e_lib E) (cval_str override_hash) (overrides av)
               else Inr AUTH_NONE))"

definition mntner_matches_internal_auth :: "'ip auth_validator \<Rightarrow> 'ip rpsl_object \<Rightarrow> string \<Rightarrow> string
    \<Rightarrow> auth_mntner option" where
  "mntner_matches_internal_auth av obj_new rpsl_pk src =
     (case internal_authenticated_user av of
        None \<Rightarrow> None
      | Some u \<Rightarrow>
          find (\<lambda>m. rpsl_pk = rpsl_mntner_pk m \<and> src = rpsl_mntner_source m)
            (if pk obj_new = rpsl_pk \<and> data_str obj_new ''source'' = src then user_mntners_user_management u
             else user_mntners u))"

definition is_mntner :: "'ip rpsl_object \<Rightarrow> bool" where
  "is_mntner obj \<longleftrightarrow> rpsl_object_class (klass obj) = ''mntner''"

definition matching_tokens :: "'ip update_env \<Rightarrow> 'ip auth_validator \<Rightarrow> string \<Rightarrow> string \<Rightarrow> auth_api_token list res" where
  "matching_tokens E av rpsl_pk src =
     (if list_ex (\<lambda>k. uuid_of E k = None) (api_keys av)
      then Inl (DatabaseError ''invalid input syntax for type uuid'')
      else Inr (filter (\<lambda>t. rpsl_mntner_pk (tk_mntner t) = rpsl_pk \<and> rpsl_mntner_source (tk_mntner t) = src
                  \<and> Some (tk_token t) \<in> set (map (uuid_of E) (api_keys av))) (ad_tokens (e_auth E))))"

fun first_valid_token :: "'ip extlib \<Rightarrow> 'ip auth_validator \<Rightarrow> auth_api_token list \<Rightarrow> auth_api_token option res" where
  "first_valid_token L av [] = Inr None"
| "first_valid_token L av (t # ts) =
     rbind (valid_for L t (av_origin av) (remote_ip av)) (\<lambda>ok.
       if ok then Inr (Some t) else first_valid_token L av ts)"

definition api_key_match_for_mntner :: "'ip update_env \<Rightarrow> 'ip auth_validator \<Rightarrow> 'ip rpsl_object \<Rightarrow> string \<Rightarrow> string
    \<Rightarrow> auth_api_token option res" where
  "api_key_match_for_mntner E av obj_new rpsl_pk src =
     (if api_keys av = [] \<or> is_mntner obj_new then Inr None
      else rbind (matching_tokens E av rpsl_pk src) (first_valid_token (e_lib E) av))"

text \<open>Equality of objects in Python: the class, the primary key and the parsed data.\<close>

definition same_object :: "'ip rpsl_object \<Rightarrow> 'ip rpsl_object \<Rightarrow> bool" where
  "same_object a b \<longleftrightarrow> rpsl_object_class (klass a) = rpsl_object_class (klass b) \<and> pk a = pk b
     \<and> set (parsed_data a) = set (parsed_data b)"

definition cache_add :: "'ip rpsl_object list \<Rightarrow> 'ip rpsl_object list \<Rightarrow> 'ip rpsl_object list" where
  "cache_add objs cache = fold (\<lambda>m c. if list_ex (same_object m) c then c else c @ [m]) objs cache"

definition cached_mntner :: "string list \<Rightarrow> string \<Rightarrow> 'ip rpsl_object \<Rightarrow> bool res" where
  "cached_mntner pks src m = (if pk m \<in> set pks then rbind (source m) (\<lambda>s. Inr (s = src)) else Inr False)"

definition resolve_mntners :: "'ip update_env \<Rightarrow> string list \<Rightarrow> string \<Rightarrow> 'ip auth_validator
    \<Rightarrow> ('ip rpsl_object list \<times> 'ip auth_validator) res" where
  "resolve_mntners E pks src av =
     rbind (rfilter (cached_mntner pks src) (mntner_db_cache av)) (\<lambda>cached.
       (let to_resolve = filter (\<lambda>p. p \<notin> pk ` set cached) (remdups pks)
        in if to_resolve = [] then Inr (cached, av)
           else rbind (object_rows E (class_pk_query src [''mntner''] to_resolve)) (\<lambda>results.
                rbind (rmap (\<lambda>r. from_text E False (c_text r)) results) (\<lambda>retrieved.
                  Inr (cached @ retrieved, av\<lparr>mntner_db_cache := cache_add retrieved (mntner_db_cache av)\<rparr>)))))"

fun check_mntner_names :: "'ip update_env \<Rightarrow> 'ip auth_validator \<Rightarrow> 'ip rpsl_object \<Rightarrow> string list \<Rightarrow> string
    \<Rightarrow> 'ip rpsl_object list \<Rightarrow> 'ip mntner_check_result option res" where
  "check_mntner_names E av obj_new [] src mntner_objs = Inr None"
| "check_mntner_names E av obj_new (name # names) src mntner_objs =
     (if name \<in> set (pre_approved av)
      then Inr (Some (mntner_result True mntner_objs MNTNER_IN_SAME_REQUEST (Some name)))
      else (case mntner_matches_internal_auth av obj_new name src of
              Some m \<Rightarrow> Inr (Some ((mntner_result True mntner_objs MNTNER_INTERNAL_AUTH (Some name))\<lparr>mc_auth_mntner := Some m\<rparr>))
            | None \<Rightarrow>
                rbind (api_key_match_for_mntner E av obj_new name src) (\<lambda>key.
                  case key of
                    Some k \<Rightarrow> Inr (Some ((mntner_result True mntner_objs MNTNER_API_KEY (Some name))
                                \<lparr>mc_auth_mntner := Some (tk_mntner k), mc_api_key := Some k\<rparr>))
                  | None \<Rightarrow> check_mntner_names E av obj_new names src mntner_objs)))"

fun check_mntner_objs :: "'ip update_env \<Rightarrow> 'ip auth_validator \<Rightarrow> 'ip rpsl_object list \<Rightarrow> 'ip rpsl_object list
    \<Rightarrow> 'ip mntner_check_result res" where
  "check_mntner_objs E av mntner_objs [] = Inr (mntner_result False mntner_objs AUTH_NONE None)"
| "check_mntner_objs E av mntner_objs (m # ms) =
     rbind (verify_auth (e_lib E) (e_settings E) (passwords av) (keycert_obj_pk av) m) (\<lambda>valid_scheme.
       case valid_scheme of
         Some scheme \<Rightarrow>
           if scheme = [] then check_mntner_objs E av mntner_objs ms
           else Inr (mntner_result True mntner_objs
                  (if py_contains ''PGPKEY'' scheme then MNTNER_PGP_KEY else MNTNER_PASSWORD) (Some (pk m)))
       | None \<Rightarrow> check_mntner_objs E av mntner_objs ms)"

definition check_mntners :: "'ip update_env \<Rightarrow> 'ip rpsl_object \<Rightarrow> string list \<Rightarrow> string \<Rightarrow> 'ip auth_validator
    \<Rightarrow> ('ip mntner_check_result \<times> 'ip auth_validator) res" where
  "check_mntners E obj_new mntner_pk_list src av =
     rbind (resolve_mntners E mntner_pk_list src av) (\<lambda>(mntner_objs, av1).
     rbind (check_mntner_names E av1 obj_new mntner_pk_list src mntner_objs) (\<lambda>by_name.
       case by_name of
         Some r \<Rightarrow> Inr (r, av1)
       | None \<Rightarrow> rbind (check_mntner_objs E av1 mntner_objs mntner_objs) (\<lambda>r. Inr (r, av1))))"

definition generate_failure_message :: "string list \<Rightarrow> 'ip rpsl_object \<Rightarrow> (string \<times> string) option \<Rightarrow> string" where
  "generate_failure_message failed_mntner_list obj related =
     ''Authorisation for '' @ rpsl_object_class (klass obj) @ '' '' @ pk obj @ '' failed: must be authenticated by one of: ''
     @ py_join '', '' failed_mntner_list
     @ (case related of None \<Rightarrow> []
        | Some (cls, rpk) \<Rightarrow> if cls \<noteq> [] \<and> rpk \<noteq> [] then '' - from parent '' @ cls @ '' '' @ rpk else [])"

text \<open>The objects that a new route or set depends on.\<close>

definition find_related_object_route :: "'ip update_env \<Rightarrow> 'ip rpsl_object \<Rightarrow> db_row option res" where
  "find_related_object_route E obj =
     (if \<not> truthy (get_setting (e_settings E) ''auth.authenticate_parents_route_creation'') then Inr None
      else (let cls = rpsl_object_class (klass obj);
                inetnum_class = (if cls = ''route'' then ''inetnum'' else ''inet6num'')
            in rbind (source obj) (\<lambda>src.
               case rpsl_object.prefix obj of
                 None \<Rightarrow> Inl (AttributeError ''net'')
               | Some p \<Rightarrow>
                   rbind (object_rows E (rbind (init_related_object_query inetnum_class src) (ip_exact (e_pg E) (e_lib E) p)))
                   (\<lambda>exact.
                   rbind (if exact \<noteq> [] then Inr exact
                          else object_rows E (rbind (init_related_object_query inetnum_class src)
                                 (ip_less_specific_one_level (e_pg E) (e_lib E) p))) (\<lambda>inetnums.
                     if inetnums \<noteq> [] then Inr (Some (hd inetnums))
                     else rbind (object_rows E (rbind (init_related_object_query cls src)
                                   (ip_less_specific_one_level (e_pg E) (e_lib E) p))) (\<lambda>routes.
                            Inr (if routes = [] then None else Some (hd routes))))))))"

definition find_related_object_set :: "'ip update_env \<Rightarrow> 'ip rpsl_object \<Rightarrow> 'ip validator_result
    \<Rightarrow> (db_row option \<times> 'ip validator_result) res" where
  "find_related_object_set E obj result =
     (case pk_asn_segment obj of
        None \<Rightarrow> Inr (None, result)
      | Some segment \<Rightarrow>
          if segment = [] then Inr (None, result)
          else rbind (for_set_name (e_settings E) (rpsl_object_class (klass obj))) (\<lambda>mode.
            if mode = AUTNUM_DISABLED then Inr (None, result)
            else rbind (source obj) (\<lambda>src.
                 rbind (object_rows E (rbind (init_related_object_query ''aut-num'' src) (q_rpsl_pk object_columns segment)))
                 (\<lambda>aut_nums.
                   case aut_nums of
                     r # _ \<Rightarrow> Inr (Some r, result)
                   | [] \<Rightarrow> Inr (None,
                       if mode = AUTNUM_REQUIRED
                       then add_error (''Creating this object requires an aut-num for '' @ segment @ '' to exist.'') result
                       else result)))))"

definition row_mnt_by :: "db_row \<Rightarrow> string list" where
  "row_mnt_by r = (case dict_get (c_parsed r) ''mnt-by'' of None \<Rightarrow> [] | Some v \<Rightarrow> pvalue_items v)"

definition find_related_mntners :: "'ip update_env \<Rightarrow> 'ip rpsl_object \<Rightarrow> 'ip validator_result
    \<Rightarrow> ((string \<times> string \<times> string list) option \<times> 'ip validator_result) res" where
  "find_related_mntners E obj result =
     rbind (if rpsl_object_class (klass obj) \<in> {''route'', ''route6''} then find_related_object_route E obj else Inr None)
     (\<lambda>related_route.
     rbind (if is_set (klass obj) then find_related_object_set E obj result else Inr (related_route, result))
     (\<lambda>(related, result1).
       Inr (map_option (\<lambda>r. (c_class r, c_rpsl_pk r, row_mnt_by r)) related, result1)))"

definition mnt_by :: "'ip rpsl_object \<Rightarrow> string list res" where
  "mnt_by obj = (case dict_get (parsed_data obj) ''mnt-by'' of
      None \<Rightarrow> Inl (KeyError ''mnt-by'') | Some v \<Rightarrow> Inr (pvalue_items v))"

text \<open>
  The part of \<open>process_auth\<close> for the current version of the object, or for the object a new one
  depends on: the result of the check that decides the entry in the change log.
\<close>

definition check_current_mntners :: "'ip update_env \<Rightarrow> 'ip rpsl_object \<Rightarrow> 'ip rpsl_object \<Rightarrow> string
    \<Rightarrow> 'ip validator_result \<Rightarrow> 'ip auth_validator
    \<Rightarrow> ('ip mntner_check_result \<times> 'ip validator_result \<times> 'ip auth_validator) res" where
  "check_current_mntners E obj_new obj_current src result av =
     rbind (mnt_by obj_current) (\<lambda>mntners_current.
     rbind (check_mntners E obj_new mntners_current src av) (\<lambda>(r, av1).
       (let result1 = (if mc_valid r then result
                       else add_error (generate_failure_message mntners_current obj_new None) result)
        in Inr (r, result1\<lparr>mntners_notify := associated_mntners r\<rparr>, av1))))"

definition check_related_mntners :: "'ip update_env \<Rightarrow> 'ip rpsl_object \<Rightarrow> 'ip mntner_check_result \<Rightarrow> string
    \<Rightarrow> 'ip validator_result \<Rightarrow> 'ip auth_validator
    \<Rightarrow> ('ip mntner_check_result \<times> 'ip validator_result \<times> 'ip auth_validator) res" where
  "check_related_mntners E obj_new new_result src result0 av =
     rbind (find_related_mntners E obj_new (result0\<lparr>mntners_notify := associated_mntners new_result\<rparr>)) (\<lambda>(related, result).
       case related of
         None \<Rightarrow> Inr (new_result, result, av)
       | Some (cls, rpk, mntner_list) \<Rightarrow>
           rbind (check_mntners E obj_new mntner_list src av) (\<lambda>(r, av1).
             Inr (r, if mc_valid r then result
                     else (add_error (generate_failure_message mntner_list obj_new (Some (cls, rpk))) result)
                            \<lparr>mntners_notify := associated_mntners r\<rparr>, av1)))"

text \<open>The rules for maintainers; the object changes when its dummy hashes are replaced.\<close>

definition check_mntner_object :: "'ip update_env \<Rightarrow> 'ip auth_validator \<Rightarrow> 'ip rpsl_object \<Rightarrow> string
    \<Rightarrow> 'ip validator_result \<Rightarrow> ('ip validator_result \<times> 'ip rpsl_object) res" where
  "check_mntner_object E av obj src result =
     (if has_dummy_auth_value obj
      then Inr (if length (passwords av) = 1
                then (add_info (''As you submitted dummy hash values, all password hashes on this object ''
                        @ ''were replaced with a new BCRYPT-PW hash of the password you provided for authentication.'') result,
                      force_single_new_password (e_lib E) (hd (passwords av)) obj)
                else (add_error (''Object submitted with dummy hash values, but multiple or no passwords ''
                        @ ''submitted. Either submit only full hashes, or a single password.'') result, obj))
      else rbind (verify_auth (e_lib E) (e_settings E) (passwords av) (keycert_obj_pk av) obj) (\<lambda>valid_scheme.
             Inr (if str_truthy valid_scheme \<or> mntner_matches_internal_auth av obj (pk obj) src \<noteq> None
                  then result
                  else add_error ''Authorisation failed for the auth methods on this mntner object.'' result, obj)))"

definition log_result :: "'ip auth_validator \<Rightarrow> 'ip mntner_check_result \<Rightarrow> 'ip validator_result \<Rightarrow> 'ip validator_result" where
  "log_result av r result =
     result\<lparr>vr_auth_method := mc_auth_method r, auth_through_mntner := mc_mntner_pk r,
       auth_through_api_key := mc_api_key r, auth_through_internal_mntner := mc_auth_mntner r,
       auth_through_internal_user := (if mc_auth_method r = MNTNER_INTERNAL_AUTH then internal_authenticated_user av
                                      else auth_through_internal_user result)\<rparr>"

definition process_auth :: "'ip update_env \<Rightarrow> 'ip rpsl_object \<Rightarrow> 'ip rpsl_object option \<Rightarrow> 'ip auth_validator
    \<Rightarrow> ('ip validator_result \<times> 'ip rpsl_object \<times> 'ip auth_validator) res" where
  "process_auth E obj_new obj_current av =
     rbind (source obj_new) (\<lambda>src.
     rbind (check_override E av) (\<lambda>override_method.
       if auth_bool override_method
       then Inr (ValidatorResult\<lparr>vr_auth_method := override_method,
                   auth_through_internal_user :=
                     (if override_method = OVERRIDE_INTERNAL_AUTH then internal_authenticated_user av else None)\<rparr>,
                 obj_new, av)
       else
         rbind (mnt_by obj_new) (\<lambda>mntners_new.
         rbind (check_mntners E obj_new mntners_new src av) (\<lambda>(new_result, av1).
         rbind (let result = (if mc_valid new_result then ValidatorResult
                              else add_error (generate_failure_message mntners_new obj_new None) ValidatorResult)
                in case obj_current of
                     Some current \<Rightarrow> check_current_mntners E obj_new current src result av1
                   | None \<Rightarrow> check_related_mntners E obj_new new_result src result av1) (\<lambda>(log, result, av2).
           if is_mntner obj_new \<and> obj_current = None
           then Inr (add_error ''New mntner objects must be added by an administrator.'' result, obj_new, av2)
           else rbind (if is_mntner obj_new then check_mntner_object E av2 obj_new src result
                       else Inr (result, obj_new)) (\<lambda>(result1, obj_new1).
                  Inr (log_result av2 log result1, obj_new1, av2)))))))"

section \<open>Other rules\<close>

definition BLOCKLIST_ROUTES :: "string list" where
  "BLOCKLIST_ROUTES = [''0.0.0.0/0'', ''0.0.0.0/32'', ''::/0'', ''::/128'']"

definition in_blocklist :: "'ip extlib \<Rightarrow> 'ip option \<Rightarrow> bool" where
  "in_blocklist L p = when_set p (\<lambda>ip. list_ex (\<lambda>s. IP L s 0 = Inr ip) BLOCKLIST_ROUTES)"

definition check_suspended_mntner_with_same_pk :: "'ip update_env \<Rightarrow> string \<Rightarrow> string \<Rightarrow> bool res" where
  "check_suspended_mntner_with_same_pk E rpsl_pk src =
     rbind (rbind (q_object_classes suspended_columns [''mntner''] RPSLDatabaseSuspendedQuery) (\<lambda>q.
            rbind (q_rpsl_pk suspended_columns rpsl_pk q) (\<lambda>q.
            rbind (q_sources suspended_columns [src] q) first_only))) (\<lambda>q.
       Inr (run_query (finalise_statement (e_pg E) suspended_columns q) (t_suspended (e_tables E)) \<noteq> []))"

definition check_mntner_migrated :: "'ip update_env \<Rightarrow> string \<Rightarrow> string \<Rightarrow> bool" where
  "check_mntner_migrated E rpsl_pk src \<longleftrightarrow>
     list_ex (\<lambda>m. rpsl_mntner_pk m = rpsl_pk \<and> rpsl_mntner_source m = src) (ad_mntners (e_auth E))"

definition rules_validate :: "'ip update_env \<Rightarrow> 'ip rpsl_object \<Rightarrow> update_request_type \<Rightarrow> 'ip validator_result res" where
  "rules_validate E obj rtype =
     (let shown_prefix = (case rpsl_object.prefix obj of None \<Rightarrow> ''None'' | Some p \<Rightarrow> ip_str (e_lib E) p);
          result = (if rtype \<noteq> UR_DELETE \<and> rpsl_object_class (klass obj) \<in> {''route'', ''route6''}
                       \<and> in_blocklist (e_lib E) (rpsl_object.prefix obj)
                    then add_error (''Route(6) objects for '' @ shown_prefix @ '' are not permitted.'') ValidatorResult
                    else ValidatorResult)
      in if \<not> is_mntner obj then Inr result
         else rbind (source obj) (\<lambda>src.
              rbind (if rtype = UR_CREATE then check_suspended_mntner_with_same_pk E (pk obj) src else Inr False) (\<lambda>suspended.
              rbind (has_internal_auth obj) (\<lambda>internal.
                (let result1 = (if suspended
                       then add_error (''A suspended mntner with primary key '' @ pk obj @ '' already exists for '' @ src) result
                       else result);
                     is_migrated = check_mntner_migrated E (pk obj) src
                 in Inr (if is_migrated \<and> \<not> internal
                         then add_error (''This maintainer is migrated and must include the '' @ RPSL_MNTNER_AUTH_INTERNAL
                                @ '' method.'') result1
                         else if \<not> is_migrated \<and> internal
                         then add_error (''This maintainer is not migrated, and therefore can not use the ''
                                @ RPSL_MNTNER_AUTH_INTERNAL @ '' method.'') result1
                         else result1))))))"

end
