(* ===== verification/Suspension.thy ===== *)
theory Suspension
  imports Update_State
begin

text \<open>
  \<^verbatim>\<open>irrd/updates/suspension.py\<close>: moving the objects of a maintainer to the store of suspended objects
  and back. The functions return the handler also when they raise, since the caller turns a
  \<open>ValueError\<close> into a message and goes on with the transaction as it is. Every query flushes
  the buffer of the handler first.
\<close>

section \<open>Calls with a handler\<close>

type_synonym ('ip, 'a) action = "'a res \<times> 'ip handler"

definition act :: "('a \<times> 'ip handler) res \<Rightarrow> 'ip handler \<Rightarrow> ('ip, 'a) action" where
  "act r h = (case r of Inl e \<Rightarrow> (Inl e, h) | Inr (x, h1) \<Rightarrow> (Inr x, h1))"

definition act_unit :: "'ip handler res \<Rightarrow> 'ip handler \<Rightarrow> ('ip, unit) action" where
  "act_unit r h = (case r of Inl e \<Rightarrow> (Inl e, h) | Inr h1 \<Rightarrow> (Inr (), h1))"

definition abind :: "('ip, 'a) action \<Rightarrow> ('a \<Rightarrow> 'ip handler \<Rightarrow> ('ip, 'b) action) \<Rightarrow> ('ip, 'b) action" where
  "abind m f = (case m of (Inl e, h) \<Rightarrow> (Inl e, h) | (Inr x, h) \<Rightarrow> f x h)"

lemma abind_simps [simp]: "abind (Inl e, h) f = (Inl e, h)" "abind (Inr x, h) f = f x h"
  by (simp_all add: abind_def)

lemma act_simps [simp]:
  "act (Inl e) h = (Inl e, h)" "act (Inr (x, h1)) h = (Inr x, h1)"
  "act_unit (Inl e) h = (Inl e, h)" "act_unit (Inr h1) h = (Inr (), h1)"
  by (simp_all add: act_def act_unit_def)

definition object_query_rows :: "pg_lib \<Rightarrow> settings \<Rightarrow> int \<Rightarrow> db_row query res \<Rightarrow> 'ip handler \<Rightarrow> ('ip, db_row list) action" where
  "object_query_rows PG gs now query h = act (execute_query PG gs now object_columns t_objects query h) h"

definition suspended_query_rows :: "pg_lib \<Rightarrow> settings \<Rightarrow> int \<Rightarrow> suspended_row query res \<Rightarrow> 'ip handler
    \<Rightarrow> ('ip, suspended_row list) action" where
  "suspended_query_rows PG gs now query h = act (execute_query PG gs now suspended_columns t_suspended query h) h"

definition source_pk_class_query :: "string \<Rightarrow> string \<Rightarrow> string \<Rightarrow> db_row query res" where
  "source_pk_class_query src rpsl_pk cls =
     rbind (q_sources object_columns [src] RPSLDatabaseQuery) (\<lambda>q.
     rbind (q_rpsl_pk object_columns rpsl_pk q) (q_object_classes object_columns [cls]))"

section \<open>A bounded cache\<close>

text \<open>\<open>functools.lru_cache\<close>: the most recently used entry first; the last one is evicted.\<close>

type_synonym ('k, 'v) lru = "('k \<times> 'v) list"

definition lru_hit :: "'k \<Rightarrow> 'v \<Rightarrow> ('k, 'v) lru \<Rightarrow> ('k, 'v) lru" where
  "lru_hit k v c = (k, v) # filter (\<lambda>e. fst e \<noteq> k) c"

definition lru_add :: "nat \<Rightarrow> 'k \<Rightarrow> 'v \<Rightarrow> ('k, 'v) lru \<Rightarrow> ('k, 'v) lru" where
  "lru_add maxsize k v c = take maxsize ((k, v) # c)"

definition LRU_MAXSIZE :: nat where
  "LRU_MAXSIZE = 50"

section \<open>Suspension\<close>

definition mntner_active :: "pg_lib \<Rightarrow> settings \<Rightarrow> int \<Rightarrow> string \<Rightarrow> string \<Rightarrow> (string, bool) lru \<Rightarrow> 'ip handler
    \<Rightarrow> ('ip, bool \<times> (string, bool) lru) action" where
  "mntner_active PG gs now src rpsl_pk cache h =
     (case dict_get cache rpsl_pk of
        Some b \<Rightarrow> (Inr (b, lru_hit rpsl_pk b cache), h)
      | None \<Rightarrow>
          abind (object_query_rows PG gs now (rbind (source_pk_class_query src rpsl_pk ''mntner'') first_only) h) (\<lambda>rows h1.
            (Inr (rows \<noteq> [], lru_add LRU_MAXSIZE rpsl_pk (rows \<noteq> []) cache), h1)))"

fun mntners_active :: "pg_lib \<Rightarrow> settings \<Rightarrow> int \<Rightarrow> string \<Rightarrow> string \<Rightarrow> string list \<Rightarrow> (string, bool) lru \<Rightarrow> 'ip handler
    \<Rightarrow> ('ip, string list \<times> (string, bool) lru) action" where
  "mntners_active PG gs now src suspended_pk [] cache h = (Inr ([], cache), h)"
| "mntners_active PG gs now src suspended_pk (m # ms) cache h =
     (if m = suspended_pk then mntners_active PG gs now src suspended_pk ms cache h
      else abind (mntner_active PG gs now src m cache h) (\<lambda>(active, cache1) h1.
           abind (mntners_active PG gs now src suspended_pk ms cache1 h1) (\<lambda>(rest, cache2) h2.
             (Inr (if active then m # rest else rest, cache2), h2))))"

text \<open>The names in \<open>mnt-by\<close> of a row; the row of an object without the attribute has no such key.\<close>

definition row_mnt_by_set :: "db_row \<Rightarrow> string list res" where
  "row_mnt_by_set r = (case dict_get (c_parsed r) ''mnt-by'' of
      None \<Rightarrow> Inl (KeyError ''mnt-by'')
    | Some (PList ms) \<Rightarrow> Inr (remdups ms)
    | Some (PStr s) \<Rightarrow> Inr (remdups (map (\<lambda>c. [c]) s)))"

text \<open>The columns that the queries select, by which the rows are compared.\<close>

definition selected_columns :: "db_row \<Rightarrow> string \<times> string \<times> string \<times> string \<times> (string, pvalue) dict" where
  "selected_columns r = (row_pk r, c_rpsl_pk r, c_class r, c_source r, c_parsed r)"

fun suspend_rows :: "pg_lib \<Rightarrow> settings \<Rightarrow> int \<Rightarrow> string \<Rightarrow> string \<Rightarrow> db_row list \<Rightarrow> db_row list \<Rightarrow> (string, bool) lru
    \<Rightarrow> 'ip handler \<Rightarrow> ('ip, db_row list) action" where
  "suspend_rows PG gs now src suspended_pk [] suspended cache h = (Inr suspended, h)"
| "suspend_rows PG gs now src suspended_pk (r # rs) suspended cache h =
     (if selected_columns r \<in> selected_columns ` set suspended
      then suspend_rows PG gs now src suspended_pk rs suspended cache h
      else abind (row_mnt_by_set r, h) (\<lambda>names h.
           abind (mntners_active PG gs now src suspended_pk names cache h) (\<lambda>(active, cache1) h1.
             if c_rpsl_pk r \<noteq> suspended_pk \<and> active \<noteq> []
             then suspend_rows PG gs now src suspended_pk rs suspended cache1 h1
             else abind (act_unit (suspend_rpsl_object gs now (row_pk r) h1) h1) (\<lambda>_ h2.
                    suspend_rows PG gs now src suspended_pk rs (suspended @ [r]) cache1 h2))))"

definition suspend_for_mntner :: "pg_lib \<Rightarrow> settings \<Rightarrow> int \<Rightarrow> 'ip rpsl_object \<Rightarrow> 'ip handler
    \<Rightarrow> ('ip, db_row list) action" where
  "suspend_for_mntner PG gs now mntner h0 =
     abind (source mntner, h0) (\<lambda>src h.
       if \<not> truthy (source_setting gs src ''authoritative'')
       then (Inl (ValueError (''Not authoritative for source '' @ src)), h)
       else abind (object_query_rows PG gs now
                    (rbind (q_sources object_columns [src] RPSLDatabaseQuery) (lookup_attr ''mnt-by'' (Some (pk mntner)))) h)
            (\<lambda>query1_result h1.
            abind (object_query_rows PG gs now (source_pk_class_query src (pk mntner) ''mntner'') h1) (\<lambda>query2_result h2.
              if query2_result = []
              then (Inl (ValueError (''mntner '' @ pk mntner @ '' does not exist in '' @ src
                      @ '' (or may already be suspended)'')), h2)
              else suspend_rows PG gs now src (pk mntner) (query1_result @ query2_result) [] [] h2)))"

section \<open>Reactivation\<close>

definition pk_exists :: "pg_lib \<Rightarrow> settings \<Rightarrow> int \<Rightarrow> string \<Rightarrow> string \<Rightarrow> string \<Rightarrow> 'ip handler \<Rightarrow> ('ip, bool) action" where
  "pk_exists PG gs now src rpsl_pk cls h =
     abind (object_query_rows PG gs now (source_pk_class_query src rpsl_pk cls) h) (\<lambda>rows h1. (Inr (rows \<noteq> []), h1))"

definition object_repr :: "'ip rpsl_object \<Rightarrow> string" where
  "object_repr obj = rpsl_object_class (klass obj) @ ''/'' @ pk obj @ ''/'' @ data_str obj ''source''"

text \<open>The status of an object that is restored; the validator of ROAs queries the database.\<close>

definition restored_status :: "'ip extlib \<Rightarrow> pg_lib \<Rightarrow> settings \<Rightarrow> 'ip scope_filter \<Rightarrow> string \<Rightarrow> tables \<Rightarrow> 'ip rpsl_object
    \<Rightarrow> 'ip checked_object res" where
  "restored_status L PG gs F src T obj =
     rbind (validate_rpsl_object L gs F obj) (\<lambda>(scope, comment).
       Inr \<lparr>co_obj = obj,
            co_rpki_status =
              (if truthy (get_setting gs ''rpki.roa_source'') \<and> is_route (klass obj)
               then (case (asn_first obj, rpsl_object.prefix obj) of
                       (Some asn, Some p) \<Rightarrow>
                         if asn \<noteq> 0 then single_validate_route L gs (roa_ip_less_specific_or_exact PG L T) p asn src
                         else RPKI_not_found
                     | _ \<Rightarrow> RPKI_not_found)
               else RPKI_not_found),
            co_scopefilter_status = scope\<rparr>)"

fun reactivate_rows :: "'ip extlib \<Rightarrow> pg_lib \<Rightarrow> settings \<Rightarrow> (int \<Rightarrow> string) \<Rightarrow> int \<Rightarrow> 'ip scope_filter \<Rightarrow> string
    \<Rightarrow> suspended_row list \<Rightarrow> string list \<times> 'ip rpsl_object list \<times> string list \<Rightarrow> 'ip handler
    \<Rightarrow> ('ip, string list \<times> 'ip rpsl_object list \<times> string list) action" where
  "reactivate_rows L PG gs isoformat now F src [] acc h = (Inr acc, h)"
| "reactivate_rows L PG gs isoformat now F src (r # rs) (restored_pks, restored, notes) h =
     (if sp_pk r \<in> set restored_pks
      then reactivate_rows L PG gs isoformat now F src rs (restored_pks, restored, notes) h
      else abind (rpsl_object_from_text L gs (sp_text r) False None, h) (\<lambda>obj h.
           abind (pk_exists PG gs now src (pk obj) (rpsl_object_class (klass obj)) h) (\<lambda>exists h1.
             if exists
             then reactivate_rows L PG gs isoformat now F src rs (restored_pks, restored,
                    notes @ [''Skipping restore of object '' @ object_repr obj
                             @ '' - an object already exists with the same key'']) h1
             else abind (restored_status L PG gs F src (cur h1) obj, h1) (\<lambda>co h1.
                  abind (act_unit (upsert_rpsl_object L gs isoformat now co origin_suspension False None
                           (Some (sp_original_created r)) h1) h1) (\<lambda>_ h2.
                    reactivate_rows L PG gs isoformat now F src rs
                      (List.insert (sp_pk r) restored_pks, restored @ [obj], notes) h2)))))"

definition reactivate_for_mntner :: "'ip extlib \<Rightarrow> pg_lib \<Rightarrow> settings \<Rightarrow> (int \<Rightarrow> string) \<Rightarrow> int \<Rightarrow> 'ip rpsl_object
    \<Rightarrow> 'ip handler \<Rightarrow> ('ip, 'ip rpsl_object list \<times> string list) action" where
  "reactivate_for_mntner L PG gs isoformat now mntner h0 =
     abind (source mntner, h0) (\<lambda>src h.
     abind (load_filters L gs, h) (\<lambda>F h.
       if \<not> truthy (source_setting gs src ''authoritative'')
       then (Inl (ValueError (''Not authoritative for source '' @ src)), h)
       else abind (pk_exists PG gs now src (pk mntner) ''mntner'' h) (\<lambda>active h1.
         if active
         then (Inl (ValueError (''source '' @ src @ '' has a currently active mntner '' @ pk mntner
                 @ '' - can not restore the suspended one'')), h1)
         else abind (suspended_query_rows PG gs now
                      (rbind (q_sources suspended_columns [src] RPSLDatabaseSuspendedQuery) (\<lambda>q.
                       rbind (q_rpsl_pk suspended_columns (pk mntner) q) (q_object_classes suspended_columns [''mntner'']))) h1)
              (\<lambda>own h2.
              if own = []
              then (Inl (ValueError (''mntner '' @ pk mntner @ '' not found in suspended store for source '' @ src)), h2)
              else abind (suspended_query_rows PG gs now
                           (rbind (q_sources suspended_columns [src] RPSLDatabaseSuspendedQuery) (q_mntner (pk mntner))) h2)
                   (\<lambda>maintained h3.
                   abind (reactivate_rows L PG gs isoformat now F src (own @ maintained) ([], [], []) h3)
                     (\<lambda>(restored_pks, restored, notes) h4.
                     abind (act_unit (delete_suspended_rpsl_objects gs now restored_pks h4) h4) (\<lambda>_ h5.
                       (Inr (restored, notes), h5))))))))"

end
