(* ===== verification/Update_Requests.thy ===== *)
theory Update_Requests
  imports Update_Validators Suspension
begin

text \<open>
  \<^verbatim>\<open>irrd/updates/parser.py\<close>: a request for one change (creation, modification or deletion of an
  object), a request for the suspension of a maintainer, and the parser that splits the text of a
  submission into requests and credentials. A request is a value that every method returns
  changed; the validators it shares with the other requests are passed along.
\<close>

section \<open>Change requests\<close>

record 'ip change_request =
  cr_text :: string
  cr_new :: "'ip rpsl_object option"
  cr_current :: "'ip rpsl_object option"
  cr_status :: update_request_status
  cr_type :: "update_request_type option"
  cr_errors :: "string list"
  cr_infos :: "string list"
  cr_auth_result :: "'ip validator_result option"
  cached_roa_validity :: "bool option"
  non_strict_mode :: bool
  cr_scopefilter :: "'ip scope_filter"
  request_meta :: "(string, string option) dict"

definition cr_valid :: "'ip change_request \<Rightarrow> bool" where
  "cr_valid cr = status_ok (cr_status cr)"

definition cr_error :: "string \<Rightarrow> 'ip change_request \<Rightarrow> 'ip change_request" where
  "cr_error m cr = cr\<lparr>cr_errors := cr_errors cr @ [m]\<rparr>"

text \<open>Only the first failure decides the status.\<close>

definition first_failure :: "update_request_status \<Rightarrow> 'ip change_request \<Rightarrow> 'ip change_request" where
  "first_failure s cr = (if cr_valid cr then cr\<lparr>cr_status := s\<rparr> else cr)"

definition new_change_request :: "string \<Rightarrow> string option \<Rightarrow> 'ip scope_filter \<Rightarrow> (string, string option) dict
    \<Rightarrow> 'ip change_request" where
  "new_change_request txt delete_reason F meta =
     \<lparr>cr_text = txt, cr_new = None, cr_current = None, cr_status = PROCESSING,
      cr_type = (if str_truthy delete_reason then Some UR_DELETE else None), cr_errors = [], cr_infos = [],
      cr_auth_result = None, cached_roa_validity = None, non_strict_mode = False, cr_scopefilter = F,
      request_meta = meta\<rparr>"

text \<open>The object as it is submitted, parsed again without strict validation where that is called for.\<close>

definition submitted_object :: "'ip update_env \<Rightarrow> string \<Rightarrow> bool \<Rightarrow> ('ip rpsl_object \<times> bool) res" where
  "submitted_object E txt deletion =
     rbind (from_text E True txt) (\<lambda>obj.
       (let non_strict = (case source obj of
              Inl e \<Rightarrow> False
            | Inr src \<Rightarrow> truthy (get_setting_or (e_settings E)
                           (source_key src ''authoritative_non_strict_mode_dangerous'') (CBool False)))
        in if non_strict \<or> deletion then rbind (from_text E False txt) (\<lambda>obj1. Inr (obj1, non_strict))
           else Inr (obj, non_strict)))"

definition retrieve_existing_version :: "'ip update_env \<Rightarrow> 'ip rpsl_object \<Rightarrow> string \<Rightarrow> 'ip change_request
    \<Rightarrow> 'ip change_request res" where
  "retrieve_existing_version E obj src cr =
     rbind (object_rows E (class_pk_query src [rpsl_object_class (klass obj)] [pk obj])) (\<lambda>results.
       case results of
         [] \<Rightarrow> Inr (cr\<lparr>cr_type := (case cr_type cr of None \<Rightarrow> Some UR_CREATE | t \<Rightarrow> t)\<rparr>)
       | [r] \<Rightarrow> rbind (from_text E False (c_text r)) (\<lambda>current.
           Inr (cr\<lparr>cr_type := (case cr_type cr of None \<Rightarrow> Some UR_MODIFY | t \<Rightarrow> t), cr_current := Some current\<rparr>))
       | _ \<Rightarrow> Inl (ValueError (''Attempted to retrieve current version of object '' @ pk obj @ ''/'' @ src
                @ '', but multiple objects were found, internal pks found: '' @ py_join '', '' (map row_pk results))))"

text \<open>The checks on the source and class of an object without errors; the second result is an early return.\<close>

definition check_source_and_class :: "'ip update_env \<Rightarrow> 'ip rpsl_object \<Rightarrow> 'ip change_request
    \<Rightarrow> ('ip change_request \<times> bool) res" where
  "check_source_and_class E obj cr =
     rbind (source obj) (\<lambda>src.
       if \<not> truthy (source_setting (e_settings E) src ''authoritative'')
       then Inr ((cr_error (''This instance is not authoritative for source '' @ src) cr)
                   \<lparr>cr_status := ERROR_NON_AUTHORITIVE\<rparr>, True)
       else rbind (get_object_class_filter_for_source (e_settings E) src) (\<lambda>object_class_filter.
              (let cls = py_lower (rpsl_object_class (klass obj))
               in if (case object_class_filter of None \<Rightarrow> False | Some cs \<Rightarrow> cs \<noteq> [] \<and> cls \<notin> set cs)
                  then Inr ((cr_error (''Can not make changes to '' @ cls @ '' objects in this database'') cr)
                              \<lparr>cr_status := ERROR_OBJECT_FILTER\<rparr>, True)
                  else rbind (retrieve_existing_version E obj src cr) (\<lambda>cr1. Inr (cr1, False)))))"

definition check_deletion_target :: "'ip change_request \<Rightarrow> 'ip change_request" where
  "check_deletion_target cr =
     (if cr_type cr = Some UR_DELETE \<and> cr_current cr = None
      then (cr_error ''Can not delete object: no object found for this key in this database.'' cr)
             \<lparr>cr_status := ERROR_PARSING\<rparr>
      else cr)"

definition ChangeRequest :: "'ip update_env \<Rightarrow> string \<Rightarrow> string option \<Rightarrow> (string, string option) dict
    \<Rightarrow> 'ip change_request res" where
  "ChangeRequest E txt delete_reason meta =
     rbind (load_filters (e_lib E) (e_settings E)) (\<lambda>F.
       (let cr = new_change_request txt delete_reason F meta
        in case submitted_object E txt (cr_type cr = Some UR_DELETE) of
             Inl (UnknownRPSLObjectClassException m) \<Rightarrow>
               Inr (cr\<lparr>cr_type := None, cr_status := ERROR_UNKNOWN_CLASS, cr_errors := [m]\<rparr>)
           | Inl e \<Rightarrow> Inl e
           | Inr (obj, non_strict) \<Rightarrow>
               (let cr1 = cr\<lparr>cr_new := Some obj, non_strict_mode := non_strict,
                      cr_status := (if errors (obj_messages obj) = [] then PROCESSING else ERROR_PARSING),
                      cr_errors := errors (obj_messages obj), cr_infos := infos (obj_messages obj)\<rparr>
                in if \<not> cr_valid cr1 then Inr (check_deletion_target cr1)
                   else rbind (check_source_and_class E obj cr1) (\<lambda>(cr2, returned).
                          Inr (if returned then cr2 else check_deletion_target cr2)))))"

section \<open>Validation\<close>

definition check_auth :: "'ip update_env \<Rightarrow> 'ip change_request \<Rightarrow> 'ip auth_validator
    \<Rightarrow> (bool \<times> 'ip change_request \<times> 'ip auth_validator) res" where
  "check_auth E cr av =
     (case cr_new cr of
        None \<Rightarrow> Inl (AssertionError ''rpsl_obj_new'')
      | Some obj \<Rightarrow>
          rbind (process_auth E obj (cr_current cr) av) (\<lambda>(r, obj1, av1).
            (let cr1 = cr\<lparr>cr_new := Some obj1, cr_auth_result := Some r, cr_infos := cr_infos cr @ vr_infos r\<rparr>
             in Inr (if result_valid r then (True, cr1, av1)
                     else (False, cr1\<lparr>cr_status := ERROR_AUTH, cr_errors := cr_errors cr1 @ vr_errors r\<rparr>, av1)))))"

definition auth_override :: "'ip change_request \<Rightarrow> bool" where
  "auth_override cr = (case cr_auth_result cr of None \<Rightarrow> False | Some r \<Rightarrow> used_override (vr_auth_method r))"

text \<open>The messages of a reference check, and its status when it fails.\<close>

definition take_result :: "update_request_status \<Rightarrow> 'ip validator_result \<Rightarrow> 'ip change_request
    \<Rightarrow> bool \<times> 'ip change_request" where
  "take_result s r cr =
     (let cr1 = cr\<lparr>cr_infos := cr_infos cr @ vr_infos r\<rparr>
      in if result_valid r then (True, cr1)
         else (False, first_failure s (cr1\<lparr>cr_errors := cr_errors cr1 @ vr_errors r\<rparr>)))"

definition check_references :: "'ip update_env \<Rightarrow> 'ip change_request \<Rightarrow> reference_validator
    \<Rightarrow> (bool \<times> 'ip change_request \<times> reference_validator) res" where
  "check_references E cr rv =
     (if non_strict_mode cr then Inr (True, cr, rv)
      else (case (cr_type cr = Some UR_DELETE, cr_current cr) of
              (True, Some current) \<Rightarrow>
                rbind (check_references_from_others_for_deletion E rv current (auth_override cr)) (\<lambda>r.
                  (case take_result ERROR_REFERENCE r cr of (ok, cr1) \<Rightarrow> Inr (ok, cr1, rv)))
            | _ \<Rightarrow>
                (case cr_new cr of
                   None \<Rightarrow> Inl (AssertionError ''rpsl_obj_new'')
                 | Some obj \<Rightarrow>
                     rbind (check_references_to_others E obj rv) (\<lambda>(r, rv1).
                       (case take_result ERROR_REFERENCE r cr of (ok, cr1) \<Rightarrow> Inr (ok, cr1, rv1))))))"

definition check_protected_names :: "'ip update_env \<Rightarrow> 'ip change_request \<Rightarrow> reference_validator
    \<Rightarrow> (bool \<times> 'ip change_request) res" where
  "check_protected_names E cr rv =
     (case (cr_type cr = Some UR_CREATE, cr_new cr) of
        (True, Some obj) \<Rightarrow>
          rbind (check_protected_name E rv obj (auth_override cr)) (\<lambda>r. Inr (take_result ERROR_PROTECTED_NAME r cr))
      | _ \<Rightarrow> Inr (True, cr))"

definition check_conflicting_roa :: "'ip update_env \<Rightarrow> 'ip change_request \<Rightarrow> (bool \<times> 'ip change_request) res" where
  "check_conflicting_roa E cr =
     (case cr_new cr of
        None \<Rightarrow> Inl (AssertionError ''rpsl_obj_new'')
      | Some obj \<Rightarrow>
          (case cached_roa_validity cr of
             Some b \<Rightarrow> Inr (b, cr)
           | None \<Rightarrow>
               if \<not> truthy (get_setting (e_settings E) ''rpki.roa_source'') \<or> \<not> is_route (klass obj)
                  \<or> cr_type cr = Some UR_DELETE
               then Inr (True, cr)
               else (case asn_first obj of
                       None \<Rightarrow> Inl (AssertionError ''asn_first'')
                     | Some asn \<Rightarrow>
                         if asn = 0 then Inl (AssertionError ''asn_first'')
                         else (case rpsl_object.prefix obj of
                                 None \<Rightarrow> Inl (AttributeError ''prefixlen'')
                               | Some p \<Rightarrow>
                                   rbind (source obj) (\<lambda>src.
                                     Inr (if single_validate_route (e_lib E) (e_settings E)
                                               (roa_ip_less_specific_or_exact (e_pg E) (e_lib E) (e_tables E)) p asn src
                                             = RPKI_invalid
                                          then (False, (cr_error (''RPKI ROAs were found that conflict with this object. ''
                                                  @ ''(This IRRd refreshes ROAs every ''
                                                  @ cval_str (get_setting (e_settings E) ''rpki.roa_import_timer'')
                                                  @ '' seconds.)'') (first_failure ERROR_ROA cr))
                                                 \<lparr>cached_roa_validity := Some False\<rparr>)
                                          else (True, cr\<lparr>cached_roa_validity := Some True\<rparr>)))))))"

definition check_scopefilter :: "'ip update_env \<Rightarrow> 'ip change_request \<Rightarrow> (bool \<times> 'ip change_request) res" where
  "check_scopefilter E cr =
     (case (cr_type cr = Some UR_DELETE, cr_new cr) of
        (False, Some obj) \<Rightarrow>
          rbind (validate_rpsl_object (e_lib E) (e_settings E) (cr_scopefilter cr) obj) (\<lambda>(result, comment).
            (let user_message = ''Contains out of scope information: '' @ comment
             in Inr (if result \<in> {out_scope_prefix, out_scope_as}
                     then (if cr_type cr = Some UR_CREATE
                           then (False, cr_error user_message (first_failure ERROR_SCOPEFILTER cr))
                           else if cr_type cr = Some UR_MODIFY
                           then (True, cr\<lparr>cr_infos := cr_infos cr @ [user_message]\<rparr>)
                           else (True, cr))
                     else (True, cr))))
      | _ \<Rightarrow> Inr (True, cr))"

text \<open>The rules before authentication: \<open>False\<close> when \<open>validate\<close> returns at once.\<close>

definition check_for_create :: "'ip update_env \<Rightarrow> 'ip change_request \<Rightarrow> bool \<times> 'ip change_request" where
  "check_for_create E cr =
     (case (cr_type cr = Some UR_CREATE, cr_new cr) of
        (True, Some obj) \<Rightarrow>
          (case clean_for_create (e_settings E) obj of
             (True, obj1) \<Rightarrow> (True, cr\<lparr>cr_new := Some obj1\<rparr>)
           | (False, obj1) \<Rightarrow> (False, cr\<lparr>cr_new := Some obj1, cr_status := ERROR_PARSING,
                                cr_errors := cr_errors cr @ errors (obj_messages obj1)\<rparr>))
      | _ \<Rightarrow> (True, cr))"

definition check_rules :: "'ip update_env \<Rightarrow> 'ip change_request \<Rightarrow> (bool \<times> 'ip change_request) res" where
  "check_rules E cr =
     (case (cr_new cr, cr_type cr) of
        (Some obj, Some t) \<Rightarrow>
          if t = UR_DELETE then Inr (True, cr)
          else rbind (rules_validate E obj t) (\<lambda>r.
                 (let cr1 = cr\<lparr>cr_infos := cr_infos cr @ vr_infos r, cr_errors := cr_errors cr @ vr_errors r\<rparr>
                  in Inr (if result_valid r then (True, cr1) else (False, cr1\<lparr>cr_status := ERROR_RULES\<rparr>))))
      | _ \<Rightarrow> Inr (True, cr))"

definition validate_change :: "'ip update_env \<Rightarrow> 'ip change_request \<Rightarrow> reference_validator \<Rightarrow> 'ip auth_validator
    \<Rightarrow> (bool \<times> 'ip change_request \<times> reference_validator \<times> 'ip auth_validator) res" where
  "validate_change E cr rv av =
     (case check_for_create E cr of
        (False, cr1) \<Rightarrow> Inr (False, cr1, rv, av)
      | (True, cr1) \<Rightarrow>
          rbind (check_rules E cr1) (\<lambda>(rules_ok, cr2).
            if \<not> rules_ok then Inr (False, cr2, rv, av)
            else rbind (check_auth E cr2 av) (\<lambda>(auth_ok, cr3, av1).
              if \<not> auth_ok then Inr (False, cr3, rv, av1)
              else rbind (check_references E cr3 rv) (\<lambda>(references_ok, cr4, rv1).
                   rbind (check_protected_names E cr4 rv1) (\<lambda>(protected_ok, cr5).
                   rbind (check_conflicting_roa E cr5) (\<lambda>(roa_ok, cr6).
                   rbind (check_scopefilter E cr6) (\<lambda>(scope_ok, cr7).
                     Inr (references_ok \<and> roa_ok \<and> scope_ok \<and> protected_ok, cr7, rv1, av1))))))))"

section \<open>Saving\<close>

definition DATETIME_SENTINEL :: string where
  "DATETIME_SENTINEL = ''1970-01-01T00:00:00''"

text \<open>The state that saving changes: the database handler and the change log.\<close>

type_synonym 'ip save_state = "'ip handler \<times> change_log list"

definition identical_to_current :: "settings \<Rightarrow> 'ip rpsl_object \<Rightarrow> 'ip rpsl_object \<Rightarrow> bool res" where
  "identical_to_current gs obj_new obj_current =
     rbind (render_rpsl_text gs (Some DATETIME_SENTINEL) obj_new) (\<lambda>a.
     rbind (render_rpsl_text gs (Some DATETIME_SENTINEL) obj_current) (\<lambda>b. Inr (a = b)))"

definition log_entry :: "settings \<Rightarrow> 'ip change_request \<Rightarrow> 'ip rpsl_object \<Rightarrow> 'ip validator_result \<Rightarrow> change_log res" where
  "log_entry gs cr obj r =
     rbind (source obj) (\<lambda>src.
     rbind (case cr_current cr of None \<Rightarrow> Inr None
            | Some current \<Rightarrow> rbind (render_rpsl_text gs None current) (\<lambda>t. Inr (Some t))) (\<lambda>old.
     rbind (if cr_type cr = Some UR_DELETE then Inr None
            else rbind (render_rpsl_text gs None obj) (\<lambda>t. Inr (Some t))) (\<lambda>new_text.
       Inr ((to_change_log r)\<lparr>
         log_from_ip := (case dict_get (request_meta cr) ''HTTP-Client-IP'' of None \<Rightarrow> None | Some v \<Rightarrow> v),
         log_from_email := (case dict_get (request_meta cr) ''From'' of None \<Rightarrow> None | Some v \<Rightarrow> v),
         rpsl_target_request_type := cr_type cr, rpsl_target_pk := pk obj, rpsl_target_source := src,
         rpsl_target_object_class := rpsl_object_class (klass obj), rpsl_target_object_text_old := old,
         rpsl_target_object_text_new := new_text\<rparr>))))"

text \<open>The object is stored with the status attributes of its class, which no check of the update sets.\<close>

definition with_default_status :: "'ip rpsl_object \<Rightarrow> 'ip checked_object" where
  "with_default_status obj = \<lparr>co_obj = obj, co_rpki_status = RPKI_not_found, co_scopefilter_status = in_scope\<rparr>"

definition save_change :: "'ip extlib \<Rightarrow> settings \<Rightarrow> (int \<Rightarrow> string) \<Rightarrow> int \<Rightarrow> 'ip change_request \<Rightarrow> 'ip save_state
    \<Rightarrow> ('ip change_request \<times> 'ip save_state) res" where
  "save_change L gs isoformat now cr st =
     (case (cr_status cr = PROCESSING, cr_new cr, st) of
        (True, Some obj, h, logs) \<Rightarrow>
          rbind (case (cr_type cr = Some UR_DELETE, cr_current cr) of
                   (True, Some current) \<Rightarrow>
                     rbind (delete_rpsl_object gs now origin_auth_change (Some current) None None None None True h)
                       (\<lambda>h1. Inr (False, h1))
                 | (_, current_opt) \<Rightarrow>
                     rbind (case current_opt of None \<Rightarrow> Inr False
                            | Some current \<Rightarrow> identical_to_current gs obj current) (\<lambda>identical.
                       if identical then Inr (True, h)
                       else rbind (upsert_rpsl_object L gs isoformat now (with_default_status obj) origin_auth_change False None None h)
                              (\<lambda>h1. Inr (False, h1)))) (\<lambda>(identical, h1).
            if identical
            then Inr (cr\<lparr>cr_infos := cr_infos cr @ [''Submitted object was identical to current object, no change recorded.''],
                         cr_status := SAVED\<rparr>, h1, logs)
            else rbind (case cr_auth_result cr of None \<Rightarrow> Inr logs
                        | Some r \<Rightarrow> rbind (log_entry gs cr obj r) (\<lambda>e. Inr (logs @ [e]))) (\<lambda>logs1.
                   Inr (cr\<lparr>cr_status := SAVED\<rparr>, h1, logs1)))
      | _ \<Rightarrow> Inl (ValueError ''ChangeRequest can only be saved in status PROCESSING''))"

section \<open>Reports\<close>

definition request_type_str :: "'ip change_request \<Rightarrow> string" where
  "request_type_str cr = (case cr_type cr of None \<Rightarrow> ''request'' | Some t \<Rightarrow> request_type_value t)"

definition object_pk_str :: "'ip rpsl_object option \<Rightarrow> string" where
  "object_pk_str obj = (case obj of None \<Rightarrow> ''(unreadable object key)'' | Some o' \<Rightarrow> pk o')"

definition object_class_str :: "'ip rpsl_object option \<Rightarrow> string" where
  "object_class_str obj =
     (case obj of None \<Rightarrow> ''(unreadable object class)'' | Some o' \<Rightarrow> rpsl_object_class (klass o'))"

definition message_lines :: "string list \<Rightarrow> string list \<Rightarrow> string" where
  "message_lines errs notes =
     concat (map (\<lambda>e. ''ERROR: '' @ e @ [NL]) errs) @ concat (map (\<lambda>e. ''INFO: '' @ e @ [NL]) notes)"

definition report_head :: "string \<Rightarrow> bool \<Rightarrow> 'ip rpsl_object option \<Rightarrow> string" where
  "report_head type_str valid obj =
     py_title type_str @ '' '' @ (if valid then ''succeeded'' else ''FAILED'') @ '': ['' @ object_class_str obj @ ''] ''
     @ object_pk_str obj @ [NL]"

definition submitter_report_human :: "settings \<Rightarrow> 'ip change_request \<Rightarrow> string res" where
  "submitter_report_human gs cr =
     (let head = report_head (request_type_str cr) (cr_valid cr) (cr_new cr)
      in if cr_infos cr = [] \<and> cr_errors cr = [] then Inr head
         else rbind (case cr_new cr of
                       Some obj \<Rightarrow> if cr_errors cr = [] then render_rpsl_text gs None obj else Inr (cr_text cr)
                     | None \<Rightarrow> Inr (cr_text cr)) (\<lambda>body.
                Inr (head @ [NL] @ remove_auth_hashes body @ [NL] @ message_lines (cr_errors cr) (cr_infos cr))))"

record json_report =
  js_successful :: bool
  js_type :: "string option"
  js_object_class :: string
  js_rpsl_pk :: string
  js_info_messages :: "string list"
  js_error_messages :: "string list"
  js_new_object_text :: "string option"
  js_submitted_object_text :: string

definition submitter_report_json :: "settings \<Rightarrow> 'ip change_request \<Rightarrow> json_report res" where
  "submitter_report_json gs cr =
     rbind (case cr_new cr of
              Some obj \<Rightarrow> if cr_errors cr = [] then rbind (render_rpsl_text gs None obj) (\<lambda>t. Inr (Some t)) else Inr None
            | None \<Rightarrow> Inr None) (\<lambda>new_object_text.
       Inr \<lparr>js_successful = cr_valid cr, js_type = map_option request_type_value (cr_type cr),
            js_object_class = object_class_str (cr_new cr), js_rpsl_pk = object_pk_str (cr_new cr),
            js_info_messages = cr_infos cr, js_error_messages = cr_errors cr,
            js_new_object_text = map_option remove_auth_hashes new_object_text,
            js_submitted_object_text = remove_auth_hashes (cr_text cr)\<rparr>)"

text \<open>
  The report for a person who is notified. \<open>unified_diff\<close> stands for the function of \<open>difflib\<close>,
  given the lines of both versions. Where the source takes the text of an object that does not
  exist it raises.
\<close>

definition rendered :: "settings \<Rightarrow> 'ip rpsl_object option \<Rightarrow> string res" where
  "rendered gs obj = (case obj of None \<Rightarrow> Inl (AttributeError ''render_rpsl_text'') | Some o' \<Rightarrow> render_rpsl_text gs None o')"

definition notification_target_report :: "(string list \<Rightarrow> string list \<Rightarrow> string list) \<Rightarrow> settings \<Rightarrow> 'ip change_request
    \<Rightarrow> string res" where
  "notification_target_report unified_diff gs cr =
     (if \<not> cr_valid cr \<and> cr_status cr \<noteq> ERROR_AUTH
      then Inl (ValueError ''Notification reports can only be made for changes that are valid or have failed authorisation.'')
      else (let head = py_title (request_type_str cr) @ '' ''
                    @ (if cr_valid cr then ''succeeded'' else ''FAILED AUTHORISATION'') @ '' for object below: ''
                    @ ''['' @ object_class_str (cr_new cr) @ ''] '' @ object_pk_str (cr_new cr) @ '':'' @ [NL, NL]
            in rbind (if cr_type cr = Some UR_MODIFY
                      then rbind (rendered gs (cr_current cr)) (\<lambda>a.
                           rbind (rendered gs (cr_new cr)) (\<lambda>b.
                             Inr (py_join [NL] (drop 2 (unified_diff (splitline_unicodesafe a) (splitline_unicodesafe b)))
                                  @ (if cr_status cr = ERROR_AUTH
                                     then [NL, NL] @ ''*Rejected* new version of this object:'' @ [NL, NL]
                                     else [NL, NL] @ ''New version of this object:'' @ [NL, NL]))))
                      else Inr []) (\<lambda>diff.
               rbind (rendered gs (if cr_type cr = Some UR_DELETE then cr_current cr else cr_new cr)) (\<lambda>body.
                 Inr (remove_auth_hashes (head @ diff @ body))))))"

text \<open>The values of an attribute that is a list of addresses; the result is a set.\<close>

definition attr_values :: "'ip rpsl_object \<Rightarrow> string \<Rightarrow> string list" where
  "attr_values obj name = (case dict_get (parsed_data obj) name of None \<Rightarrow> [] | Some v \<Rightarrow> pvalue_items v)"

definition notification_targets :: "'ip change_request \<Rightarrow> string list" where
  "notification_targets cr =
     (if auth_override cr \<or> \<not> (cr_valid cr \<or> cr_status cr = ERROR_AUTH) then []
      else (let mntner_attr = (if cr_status cr = ERROR_AUTH then ''upd-to'' else ''mnt-nfy'')
            in remdups ((case cr_auth_result cr of None \<Rightarrow> []
                         | Some r \<Rightarrow> concat (map (\<lambda>m. attr_values m mntner_attr) (mntners_notify r)))
                 @ (case cr_current cr of None \<Rightarrow> [] | Some current \<Rightarrow> attr_values current ''notify''))))"

section \<open>Suspension requests\<close>

record 'ip suspension_request =
  sr_text :: string
  sr_new :: "'ip rpsl_object option"
  sr_type :: "suspension_request_type option"
  sr_status :: update_request_status
  sr_errors :: "string list"
  sr_infos :: "string list"

definition suspension_type_of :: "string \<Rightarrow> suspension_request_type option" where
  "suspension_type_of state =
     (if py_upper state = ''SUSPEND'' then Some SR_SUSPEND
      else if py_upper state = ''REACTIVATE'' then Some SR_REACTIVATE else None)"

definition SuspensionRequest :: "'ip update_env \<Rightarrow> string \<Rightarrow> string \<Rightarrow> 'ip suspension_request res" where
  "SuspensionRequest E txt state =
     (let sr = \<lparr>sr_text = txt, sr_new = None, sr_type = suspension_type_of state, sr_status = PROCESSING,
                sr_errors = [], sr_infos = []\<rparr>
      in if sr_type sr = None
         then Inr (sr\<lparr>sr_status := ERROR_PARSING, sr_errors := [''Unknown suspension type: '' @ state]\<rparr>)
         else (case from_text E False txt of
                 Inl (UnknownRPSLObjectClassException m) \<Rightarrow>
                   Inr (sr\<lparr>sr_status := ERROR_UNKNOWN_CLASS, sr_errors := [m]\<rparr>)
               | Inl e \<Rightarrow> Inl e
               | Inr obj \<Rightarrow>
                   (let sr1 = sr\<lparr>sr_new := Some obj, sr_errors := errors (obj_messages obj),
                          sr_infos := infos (obj_messages obj),
                          sr_status := (if errors (obj_messages obj) = [] then PROCESSING else ERROR_PARSING)\<rparr>
                    in if sr_errors sr1 \<noteq> [] then Inr sr1
                       else rbind (source obj) (\<lambda>src.
                              Inr (if \<not> truthy (source_setting (e_settings E) src ''suspension_enabled'')
                                   then sr1\<lparr>sr_status := ERROR_NON_AUTHORITIVE, sr_errors := sr_errors sr1
                                          @ [''This instance is not authoritative for source '' @ src
                                             @ '' or suspension is not enabled'']\<rparr>
                                   else if \<not> is_mntner obj
                                   then sr1\<lparr>sr_status := ERROR_PARSING, sr_errors := sr_errors sr1
                                          @ [''Suspensions/reactivations can only be done on mntner objects'']\<rparr>
                                   else sr1)))))"

definition validate_suspension :: "'ip update_env \<Rightarrow> 'ip auth_validator \<Rightarrow> 'ip suspension_request
    \<Rightarrow> (bool \<times> 'ip suspension_request) res" where
  "validate_suspension E av sr =
     rbind (check_override E av) (\<lambda>m.
       Inr (if auth_bool m then (True, sr)
            else (False, sr\<lparr>sr_status := ERROR_AUTH, sr_errors := sr_errors sr
                    @ [''Invalid authentication: override password invalid or missing'']\<rparr>)))"

definition suspension_is_valid :: "'ip update_env \<Rightarrow> 'ip auth_validator \<Rightarrow> 'ip suspension_request
    \<Rightarrow> (bool \<times> 'ip suspension_request) res" where
  "suspension_is_valid E av sr =
     rbind (validate_suspension E av sr) (\<lambda>(_, sr1). Inr (status_ok (sr_status sr1), sr1))"

definition suspended_info :: "db_row \<Rightarrow> string" where
  "suspended_info r = ''Suspended '' @ c_class r @ ''/'' @ c_rpsl_pk r @ ''/'' @ c_source r"

definition save_suspension :: "'ip extlib \<Rightarrow> pg_lib \<Rightarrow> settings \<Rightarrow> (int \<Rightarrow> string) \<Rightarrow> int \<Rightarrow> 'ip suspension_request
    \<Rightarrow> 'ip handler \<Rightarrow> ('ip suspension_request \<times> 'ip handler) res" where
  "save_suspension L PG gs isoformat now sr h =
     (case (sr_status sr = PROCESSING, sr_new sr) of
        (True, Some mntner) \<Rightarrow>
          (case (case sr_type sr of
                   None \<Rightarrow> (Inr [], h)
                 | Some SR_SUSPEND \<Rightarrow>
                     abind (suspend_for_mntner PG gs now mntner h) (\<lambda>rows h1. (Inr (map suspended_info rows), h1))
                 | Some SR_REACTIVATE \<Rightarrow>
                     abind (reactivate_for_mntner L PG gs isoformat now mntner h) (\<lambda>(restored, notes) h1.
                       (Inr (notes @ map (\<lambda>obj. ''Restored '' @ object_repr obj) restored), h1))) of
             (Inr notes, h1) \<Rightarrow> Inr (sr\<lparr>sr_infos := sr_infos sr @ notes, sr_status := SAVED\<rparr>, h1)
           | (Inl (ValueError m), h1) \<Rightarrow> Inr (sr\<lparr>sr_status := ERROR_PARSING, sr_errors := sr_errors sr @ [m]\<rparr>, h1)
           | (Inl e, h1) \<Rightarrow> Inl e)
      | _ \<Rightarrow> Inl (ValueError ''SuspensionRequest can only be saved in status PROCESSING''))"

definition suspension_type_str :: "'ip suspension_request \<Rightarrow> string" where
  "suspension_type_str sr = (case sr_type sr of None \<Rightarrow> ''request'' | Some t \<Rightarrow> suspension_type_value t)"

definition suspension_report_human :: "'ip update_env \<Rightarrow> 'ip auth_validator \<Rightarrow> 'ip suspension_request \<Rightarrow> string res" where
  "suspension_report_human E av sr =
     rbind (suspension_is_valid E av sr) (\<lambda>(valid, sr1).
       Inr (report_head (suspension_type_str sr1) valid (sr_new sr1)
            @ (if sr_infos sr1 = [] \<and> sr_errors sr1 = [] then []
               else (if sr_errors sr1 = [] then [] else [NL] @ sr_text sr1 @ [NL])
                    @ message_lines (sr_errors sr1) (sr_infos sr1))))"

section \<open>Parsing a submission\<close>

datatype 'ip request = Change "'ip change_request" | Suspend "'ip suspension_request"

text \<open>\<open>s.split("\n\n")\<close>.\<close>

fun split_blank :: "string \<Rightarrow> string list" where
  "split_blank [] = [[]]"
| "split_blank [c] = [[c]]"
| "split_blank (a # b # s) =
     (if a = NL \<and> b = NL then [] # split_blank s
      else (case split_blank (b # s) of [] \<Rightarrow> [[a]] | p # ps \<Rightarrow> (a # p) # ps))"

record credentials =
  cd_passwords :: "string list"
  cd_overrides :: "string list"
  cd_api_keys :: "string list"

record object_lines =
  ol_text :: string
  ol_delete :: "string option"
  ol_suspension :: "string option"

definition meta_value :: "string \<Rightarrow> string" where
  "meta_value line = py_strip (snd (py_split1 CHR '':'' line))"

definition take_line :: "string \<Rightarrow> object_lines \<times> credentials \<Rightarrow> object_lines \<times> credentials" where
  "take_line line st =
     (case st of (ol, cd) \<Rightarrow>
        if py_startswith line ''password:'' then (ol, cd\<lparr>cd_passwords := cd_passwords cd @ [meta_value line]\<rparr>)
        else if py_startswith line ''override:'' then (ol, cd\<lparr>cd_overrides := cd_overrides cd @ [meta_value line]\<rparr>)
        else if py_startswith line ''api-key:'' then (ol, cd\<lparr>cd_api_keys := cd_api_keys cd @ [meta_value line]\<rparr>)
        else if py_startswith line ''delete:'' then (ol\<lparr>ol_delete := Some (meta_value line)\<rparr>, cd)
        else if py_startswith line ''suspension:'' then (ol\<lparr>ol_suspension := Some (meta_value line)\<rparr>, cd)
        else (ol\<lparr>ol_text := ol_text ol @ line @ [NL]\<rparr>, cd))"

definition take_lines :: "string list \<Rightarrow> credentials \<Rightarrow> object_lines \<times> credentials" where
  "take_lines ls cd = fold take_line ls (\<lparr>ol_text = [], ol_delete = None, ol_suspension = None\<rparr>, cd)"

text \<open>The parts of a submission, before the requests are made of them.\<close>

fun split_submission :: "string list \<Rightarrow> credentials \<Rightarrow> object_lines list \<times> credentials" where
  "split_submission [] cd = ([], cd)"
| "split_submission (t # ts) cd =
     (if py_strip t = [] then split_submission ts cd
      else (case take_lines (splitline_unicodesafe (py_strip t)) cd of
              (ol, cd1) \<Rightarrow>
                (case split_submission ts cd1 of
                   (ols, cd2) \<Rightarrow> (if ol_text ol = [] then ols else ol # ols, cd2))))"

definition make_request :: "'ip update_env \<Rightarrow> (string, string option) dict \<Rightarrow> object_lines \<Rightarrow> 'ip request res" where
  "make_request E meta ol =
     (if str_truthy (ol_suspension ol)
      then rbind (SuspensionRequest E (ol_text ol) (the (ol_suspension ol))) (\<lambda>sr. Inr (Suspend sr))
      else rbind (ChangeRequest E (ol_text ol) (ol_delete ol) meta) (\<lambda>cr. Inr (Change cr)))"

definition parse_change_requests :: "'ip update_env \<Rightarrow> string \<Rightarrow> (string, string option) dict \<Rightarrow> 'ip auth_validator
    \<Rightarrow> ('ip request list \<times> 'ip auth_validator) res" where
  "parse_change_requests E requests_text meta av =
     (case split_submission (split_blank (filter (\<lambda>c. c \<noteq> CR) requests_text))
             \<lparr>cd_passwords = [], cd_overrides = [], cd_api_keys = []\<rparr> of
        (ols, cd) \<Rightarrow>
          rbind (rmap (make_request E meta) ols) (\<lambda>results.
            Inr (results, av\<lparr>passwords := cd_passwords cd, overrides := cd_overrides cd, api_keys := cd_api_keys cd\<rparr>)))"

end
