(* ===== verification/Update_Handler.thy ===== *)
theory Update_Handler
  imports Update_Requests
begin

text \<open>
  \<^verbatim>\<open>irrd/updates/handler.py\<close>: a submission of several changes. Requests are identified by their
  position; the list of valid requests is compared by position, as the source compares it by the
  identity of the objects. The loop of the source counts its rounds and raises an exception when
  there are too many, so that it is a total function here as it stands.
\<close>

section \<open>Resolving which changes are valid\<close>

record 'ip submission =
  requests :: "'ip request list"
  ref_validator :: reference_validator
  au_validator :: "'ip auth_validator"

definition request_is_valid :: "'ip update_env \<Rightarrow> 'ip auth_validator \<Rightarrow> 'ip request \<Rightarrow> (bool \<times> 'ip request) res" where
  "request_is_valid E av rq =
     (case rq of
        Change cr \<Rightarrow> Inr (cr_valid cr, rq)
      | Suspend sr \<Rightarrow> rbind (suspension_is_valid E av sr) (\<lambda>(b, sr1). Inr (b, Suspend sr1)))"

text \<open>\<open>[r for r in change_requests if r.is_valid()]\<close>: the positions, counted from \<open>i\<close>.\<close>

fun valid_requests :: "'ip update_env \<Rightarrow> 'ip auth_validator \<Rightarrow> nat \<Rightarrow> 'ip request list \<Rightarrow> (nat list \<times> 'ip request list) res" where
  "valid_requests E av i [] = Inr ([], [])"
| "valid_requests E av i (rq # rqs) =
     rbind (request_is_valid E av rq) (\<lambda>(b, rq1).
     rbind (valid_requests E av (Suc i) rqs) (\<lambda>(js, rqs1).
       Inr (if b then i # js else js, rq1 # rqs1)))"

definition object_ref :: "'ip rpsl_object \<Rightarrow> obj_ref res" where
  "object_ref obj = rbind (source obj) (\<lambda>src. Inr (rpsl_object_class (klass obj), pk obj, src))"

definition preload_entry :: "'ip request \<Rightarrow> (update_request_type option \<times> obj_ref) res" where
  "preload_entry rq =
     (case rq of
        Change cr \<Rightarrow>
          (case cr_new cr of
             None \<Rightarrow> Inl (AssertionError ''rpsl_obj_new'')
           | Some obj \<Rightarrow> (case cr_type cr of
                None \<Rightarrow> Inr (None, [], [], [])
              | Some t \<Rightarrow> rbind (object_ref obj) (\<lambda>ref. Inr (Some t, ref))))
      | Suspend sr \<Rightarrow>
          (case sr_new sr of
             None \<Rightarrow> Inl (AssertionError ''rpsl_obj_new'')
           | Some obj \<Rightarrow> Inr (None, [], [], [])))"

definition potential_new_mntner :: "'ip request \<Rightarrow> 'ip rpsl_object option" where
  "potential_new_mntner rq =
     (case rq of
        Change cr \<Rightarrow>
          (case (cr_type cr = Some UR_CREATE, cr_new cr) of
             (True, Some obj) \<Rightarrow> if is_mntner obj then Some obj else None
           | _ \<Rightarrow> None)
      | Suspend sr \<Rightarrow> None)"

definition validate_request :: "'ip update_env \<Rightarrow> nat \<Rightarrow> 'ip submission \<Rightarrow> 'ip submission res" where
  "validate_request E i s =
     (case requests s ! i of
        Change cr \<Rightarrow>
          rbind (validate_change E cr (ref_validator s) (au_validator s)) (\<lambda>(ok, cr1, rv1, av1).
            Inr \<lparr>requests = (requests s)[i := Change cr1], ref_validator = rv1, au_validator = av1\<rparr>)
      | Suspend sr \<Rightarrow>
          rbind (validate_suspension E (au_validator s) sr) (\<lambda>(ok, sr1).
            Inr (s\<lparr>requests := (requests s)[i := Suspend sr1]\<rparr>)))"

fun validate_requests :: "'ip update_env \<Rightarrow> nat list \<Rightarrow> 'ip submission \<Rightarrow> 'ip submission res" where
  "validate_requests E [] s = Inr s"
| "validate_requests E (i # is) s = rbind (validate_request E i s) (validate_requests E is)"

definition update_valid :: "'ip update_env \<Rightarrow> 'ip submission \<Rightarrow> (nat list \<times> 'ip submission) res" where
  "update_valid E s =
     rbind (valid_requests E (au_validator s) 0 (requests s)) (\<lambda>(valid, rqs). Inr (valid, s\<lparr>requests := rqs\<rparr>))"

definition prepare_round :: "nat list \<Rightarrow> 'ip submission \<Rightarrow> 'ip submission res" where
  "prepare_round valid s =
     rbind (rmap (\<lambda>i. preload_entry (requests s ! i)) valid) (\<lambda>entries.
       Inr (s\<lparr>ref_validator := preload entries (ref_validator s),
              au_validator := pre_approve (List.map_filter (\<lambda>i. potential_new_mntner (requests s ! i)) valid)
                                (au_validator s)\<rparr>))"

definition resolve_round :: "'ip update_env \<Rightarrow> nat list \<Rightarrow> 'ip submission \<Rightarrow> (nat list \<times> 'ip submission) res" where
  "resolve_round E valid s =
     rbind (prepare_round valid s) (\<lambda>s1. rbind (validate_requests E valid s1) (update_valid E))"

definition excessive_loops :: exn where
  "excessive_loops =
     ValueError ''Update validity resolver ran an excessive amount of loops, may be stuck, aborting processing.''"

function resolve_loop :: "'ip update_env \<Rightarrow> nat \<Rightarrow> nat \<Rightarrow> nat list \<Rightarrow> nat list \<Rightarrow> 'ip submission
    \<Rightarrow> (nat list \<times> 'ip submission) res" where
  "resolve_loop E loop_max loop_count previous valid s =
     (if valid = previous then Inr (valid, s)
      else rbind (resolve_round E valid s) (\<lambda>(valid1, s1).
             if loop_max < loop_count + 1 then Inl excessive_loops
             else resolve_loop E loop_max (loop_count + 1) valid valid1 s1))"
  by pat_completeness auto
termination by (relation "measure (\<lambda>(E, loop_max, loop_count, previous, valid, s). loop_max - loop_count)") auto

declare resolve_loop.simps [simp del]

definition resolve :: "'ip update_env \<Rightarrow> 'ip submission \<Rightarrow> (nat list \<times> 'ip submission) res" where
  "resolve E s =
     rbind (update_valid E s) (\<lambda>(valid, s1). resolve_loop E (length (requests s) + 10) 0 [] valid s1)"

section \<open>Saving the valid changes\<close>

definition save_request :: "'ip update_env \<Rightarrow> (int \<Rightarrow> string) \<Rightarrow> int \<Rightarrow> 'ip request \<Rightarrow> 'ip save_state
    \<Rightarrow> ('ip request \<times> 'ip save_state) res" where
  "save_request E isoformat now rq st =
     (case rq of
        Change cr \<Rightarrow>
          rbind (save_change (e_lib E) (e_settings E) isoformat now cr st) (\<lambda>(cr1, st1). Inr (Change cr1, st1))
      | Suspend sr \<Rightarrow>
          (case st of (h, logs) \<Rightarrow>
             rbind (save_suspension (e_lib E) (e_pg E) (e_settings E) isoformat now sr h) (\<lambda>(sr1, h1).
               Inr (Suspend sr1, h1, logs))))"

fun save_requests :: "'ip update_env \<Rightarrow> (int \<Rightarrow> string) \<Rightarrow> int \<Rightarrow> 'ip auth_validator \<Rightarrow> 'ip request list \<Rightarrow> 'ip save_state
    \<Rightarrow> ('ip request list \<times> 'ip save_state) res" where
  "save_requests E isoformat now av [] st = Inr ([], st)"
| "save_requests E isoformat now av (rq # rqs) st =
     rbind (request_is_valid E av rq) (\<lambda>(valid, rq1).
     rbind (if valid then save_request E isoformat now rq1 st else Inr (rq1, st)) (\<lambda>(rq2, st1).
     rbind (save_requests E isoformat now av rqs st1) (\<lambda>(rqs1, st2). Inr (rq2 # rqs1, st2))))"

definition handle_change_requests :: "'ip update_env \<Rightarrow> (int \<Rightarrow> string) \<Rightarrow> int \<Rightarrow> 'ip submission \<Rightarrow> 'ip save_state
    \<Rightarrow> ('ip request list \<times> 'ip save_state) res" where
  "handle_change_requests E isoformat now s st =
     rbind (resolve E s) (\<lambda>(valid, s1). save_requests E isoformat now (au_validator s1) (requests s1) st)"

section \<open>Submissions\<close>

text \<open>
  A submission with a new handler on the stored tables, which is committed at the end. An
  exception leaves the transaction uncommitted.
\<close>

definition commit_submission :: "('k, 't) radix_lib \<Rightarrow> 'ip update_env \<Rightarrow> (string \<Rightarrow> string \<Rightarrow> bool) \<Rightarrow> int
    \<Rightarrow> 'ip request list \<times> 'ip save_state \<Rightarrow> ('ip request list \<times> 'ip save_state) res" where
  "commit_submission R E cidr_overlaps now done_requests =
     (case done_requests of (rqs, h, logs) \<Rightarrow>
        (case commit R (e_lib E) cidr_overlaps (e_settings E) now h of
           (h1, Some e) \<Rightarrow> Inl e
         | (h1, None) \<Rightarrow> Inr (rqs, h1, logs)))"

definition submit :: "('k, 't) radix_lib \<Rightarrow> 'ip update_env \<Rightarrow> (string \<Rightarrow> string \<Rightarrow> bool) \<Rightarrow> (int \<Rightarrow> string) \<Rightarrow> int
    \<Rightarrow> 'ip submission \<Rightarrow> 'ip handler \<Rightarrow> ('ip request list \<times> 'ip save_state) res" where
  "submit R E cidr_overlaps isoformat now s h =
     rbind (handle_change_requests E isoformat now s (h, [])) (commit_submission R E cidr_overlaps now)"

definition resolve_pgp_key_id :: "'ip update_env \<Rightarrow> string \<Rightarrow> string option res" where
  "resolve_pgp_key_id E pgp_fingerprint =
     (let clean_fingerprint = py_replace '' '' [] pgp_fingerprint;
          key_id = ''PGPKEY-'' @ drop (length clean_fingerprint - 8) clean_fingerprint
      in rbind (object_rows E (rbind (q_object_classes object_columns [''key-cert''] RPSLDatabaseQuery)
                 (q_rpsl_pk object_columns key_id))) (\<lambda>results.
           Inr (if list_ex (\<lambda>r. (case json_text (c_parsed r) ''fingerpr'' of None \<Rightarrow> [] | Some s \<Rightarrow> py_replace '' '' [] s)
                                = clean_fingerprint) results
                then Some key_id else None)))"

definition load_text_blob :: "('k, 't) radix_lib \<Rightarrow> 'ip update_env \<Rightarrow> (string \<Rightarrow> string \<Rightarrow> bool) \<Rightarrow> (int \<Rightarrow> string) \<Rightarrow> int
    \<Rightarrow> string \<Rightarrow> change_origin \<Rightarrow> string option \<Rightarrow> auth_user option \<Rightarrow> (string, string option) dict \<Rightarrow> nat \<Rightarrow> int
    \<Rightarrow> ('ip request list \<times> 'ip save_state) res" where
  "load_text_blob R E cidr_overlaps isoformat now blob orig pgp_fingerprint user meta pks globals =
     (let h = DatabaseHandler (e_settings E) False (e_tables E) pks globals
      in rbind (if str_truthy pgp_fingerprint then resolve_pgp_key_id E (the pgp_fingerprint) else Inr None) (\<lambda>key.
         rbind (parse_change_requests E blob meta (AuthValidator orig key user None)) (\<lambda>(rqs, av).
           submit R E cidr_overlaps isoformat now
             \<lparr>requests = rqs, ref_validator = ReferenceValidator, au_validator = av\<rparr> h)))"

text \<open>A submission over HTTP: an object is a text, or a list of attributes.\<close>

record change_submission =
  cs_objects :: "submission_object list"
  cs_passwords :: "string list"
  cs_override :: "string option"
  cs_api_keys :: "string list"
  cs_delete_reason :: string

definition submission_text :: "submission_object \<Rightarrow> string res" where
  "submission_text obj =
     (case attributes obj of
        Some (a # as) \<Rightarrow>
          Inr (py_join [NL] (map (\<lambda>(name, value). name @ '': '' @ translate_list_to_str value) (a # as)) @ [NL])
      | _ \<Rightarrow>
          if str_truthy (object_text obj) then Inr (the (object_text obj)) else Inl (AssertionError ''object_text''))"

definition given_override :: "string option \<Rightarrow> string list" where
  "given_override o' = (if str_truthy o' then [the o'] else [])"

definition load_change_submission :: "('k, 't) radix_lib \<Rightarrow> 'ip update_env \<Rightarrow> (string \<Rightarrow> string \<Rightarrow> bool) \<Rightarrow> (int \<Rightarrow> string)
    \<Rightarrow> int \<Rightarrow> change_submission \<Rightarrow> change_origin \<Rightarrow> bool \<Rightarrow> (string, string option) dict \<Rightarrow> 'ip option \<Rightarrow> nat \<Rightarrow> int
    \<Rightarrow> ('ip request list \<times> 'ip save_state) res" where
  "load_change_submission R E cidr_overlaps isoformat now data orig deletion meta remote pks globals =
     (let h = DatabaseHandler (e_settings E) False (e_tables E) pks globals;
          delete_reason = (if deletion then Some (cs_delete_reason data) else None);
          av = (AuthValidator orig None None remote)\<lparr>passwords := cs_passwords data,
                 overrides := given_override (cs_override data), api_keys := cs_api_keys data\<rparr>
      in rbind (rmap (\<lambda>obj. rbind (submission_text obj) (\<lambda>t.
                  rbind (ChangeRequest E t delete_reason meta) (\<lambda>cr. Inr (Change cr)))) (cs_objects data)) (\<lambda>rqs.
           submit R E cidr_overlaps isoformat now
             \<lparr>requests = rqs, ref_validator = ReferenceValidator, au_validator = av\<rparr> h))"

record suspension_object =
  su_mntner :: string
  su_source :: string
  su_request_type :: suspension_request_type

definition load_suspension_submission :: "('k, 't) radix_lib \<Rightarrow> 'ip update_env \<Rightarrow> (string \<Rightarrow> string \<Rightarrow> bool)
    \<Rightarrow> (int \<Rightarrow> string) \<Rightarrow> int \<Rightarrow> suspension_object list \<Rightarrow> string option \<Rightarrow> nat \<Rightarrow> int
    \<Rightarrow> ('ip request list \<times> 'ip save_state) res" where
  "load_suspension_submission R E cidr_overlaps isoformat now objs override pks globals =
     (let h = DatabaseHandler (e_settings E) False (e_tables E) pks globals;
          av = (AuthValidator from_other None None None)\<lparr>overrides := given_override override\<rparr>
      in rbind (rmap (\<lambda>obj. rbind (SuspensionRequest E (''mntner: '' @ su_mntner obj @ [NL] @ ''source: '' @ su_source obj @ [NL])
                  (suspension_type_value (su_request_type obj))) (\<lambda>sr. Inr (Suspend sr))) objs) (\<lambda>rqs.
           submit R E cidr_overlaps isoformat now
             \<lparr>requests = rqs, ref_validator = ReferenceValidator, au_validator = av\<rparr> h))"

section \<open>Reports\<close>

definition request_status :: "'ip request \<Rightarrow> update_request_status" where
  "request_status rq = (case rq of Change cr \<Rightarrow> cr_status cr | Suspend sr \<Rightarrow> sr_status sr)"

definition submission_status :: "'ip request list \<Rightarrow> string" where
  "submission_status results =
     (if list_all (\<lambda>rq. request_status rq = SAVED) results then ''SUCCESS'' else ''FAILED'')"

definition has_type :: "update_request_type \<Rightarrow> 'ip request \<Rightarrow> bool" where
  "has_type t rq = (case rq of Change cr \<Rightarrow> cr_type cr = Some t | Suspend sr \<Rightarrow> False)"

record summary =
  sm_objects_found :: nat
  sm_successful :: nat
  sm_successful_create :: nat
  sm_successful_modify :: nat
  sm_successful_delete :: nat
  sm_failed :: nat
  sm_failed_create :: nat
  sm_failed_modify :: nat
  sm_failed_delete :: nat

definition submission_summary :: "'ip request list \<Rightarrow> summary" where
  "submission_summary results =
     (let successful = filter (\<lambda>rq. request_status rq = SAVED) results;
          failed = filter (\<lambda>rq. request_status rq \<noteq> SAVED) results;
          number = (\<lambda>t rqs. length (filter (has_type t) rqs))
      in \<lparr>sm_objects_found = length results, sm_successful = length successful,
          sm_successful_create = number UR_CREATE successful, sm_successful_modify = number UR_MODIFY successful,
          sm_successful_delete = number UR_DELETE successful, sm_failed = length failed,
          sm_failed_create = number UR_CREATE failed, sm_failed_modify = number UR_MODIFY failed,
          sm_failed_delete = number UR_DELETE failed\<rparr>)"

definition request_meta_str :: "(string, string option) dict \<Rightarrow> string" where
  "request_meta_str meta =
     (let s = py_join [NL] (map (\<lambda>(k, v). ''> '' @ k @ '': '' @ the v) (filter (\<lambda>(k, v). str_truthy v) meta))
      in if s = [] then [] else [NL] @ s @ [NL, NL])"

definition pad3 :: "nat \<Rightarrow> string" where
  "pad3 n = replicate (3 - length (str_nat n)) CHR '' '' @ str_nat n"

definition tildes :: string where
  "tildes = replicate 52 CHR ''~''"

text \<open>The summary text after \<open>textwrap.dedent\<close>.\<close>

definition summary_text :: "summary \<Rightarrow> string" where
  "summary_text m =
     [NL] @ ''SUMMARY OF UPDATE:'' @ [NL, NL]
     @ ''Number of objects found:                  '' @ pad3 (sm_objects_found m) @ [NL]
     @ ''Number of objects processed successfully: '' @ pad3 (sm_successful m) @ [NL]
     @ ''    Create:      '' @ pad3 (sm_successful_create m) @ [NL]
     @ ''    Modify:      '' @ pad3 (sm_successful_modify m) @ [NL]
     @ ''    Delete:      '' @ pad3 (sm_successful_delete m) @ [NL]
     @ ''Number of objects processed with errors:  '' @ pad3 (sm_failed m) @ [NL]
     @ ''    Create:      '' @ pad3 (sm_failed_create m) @ [NL]
     @ ''    Modify:      '' @ pad3 (sm_failed_modify m) @ [NL]
     @ ''    Delete:      '' @ pad3 (sm_failed_delete m) @ [NL, NL]
     @ ''DETAILED EXPLANATION:'' @ [NL, NL] @ tildes @ [NL]"

definition request_report_human :: "'ip update_env \<Rightarrow> 'ip auth_validator \<Rightarrow> 'ip request \<Rightarrow> string res" where
  "request_report_human E av rq =
     (case rq of Change cr \<Rightarrow> submitter_report_human (e_settings E) cr | Suspend sr \<Rightarrow> suspension_report_human E av sr)"

definition submission_report_human :: "'ip update_env \<Rightarrow> 'ip auth_validator \<Rightarrow> (string, string option) dict
    \<Rightarrow> 'ip request list \<Rightarrow> string res" where
  "submission_report_human E av meta results =
     rbind (rmap (request_report_human E av) results) (\<lambda>reports.
       Inr (request_meta_str meta @ summary_text (submission_summary results)
            @ concat (map (\<lambda>r. ''---'' @ [NL] @ r @ [NL]) reports) @ tildes @ [NL]))"

section \<open>Notifications\<close>

text \<open>The reports for each recipient and status, in the order in which they were first added.\<close>

type_synonym recipient_reports = "(string, (update_request_status, string list) dict) dict"

definition add_report :: "string \<Rightarrow> update_request_status \<Rightarrow> string \<Rightarrow> recipient_reports \<Rightarrow> recipient_reports" where
  "add_report target st report d =
     (let per = (case dict_get d target of None \<Rightarrow> [] | Some p \<Rightarrow> p);
          old = (case dict_get per st of None \<Rightarrow> [] | Some rs \<Rightarrow> rs)
      in dict_set target (dict_set st (oset_add report old) per) d)"

definition collect_reports :: "(string list \<Rightarrow> string list \<Rightarrow> string list) \<Rightarrow> settings \<Rightarrow> 'ip request
    \<Rightarrow> recipient_reports \<times> string list \<Rightarrow> (recipient_reports \<times> string list) res" where
  "collect_reports unified_diff gs rq st =
     (case rq of
        Suspend sr \<Rightarrow> Inr st
      | Change cr \<Rightarrow>
          if cr_status cr \<in> {SAVED, ERROR_AUTH} \<and> notification_targets cr \<noteq> []
          then rbind (notification_target_report unified_diff gs cr) (\<lambda>report.
               rbind (case cr_new cr of None \<Rightarrow> Inl (AttributeError ''source'') | Some obj \<Rightarrow> source obj) (\<lambda>src.
                 Inr (fold (\<lambda>t. add_report t (cr_status cr) report) (notification_targets cr) (fst st),
                      oset_add src (snd st))))
          else Inr st)"

fun collect_all :: "(string list \<Rightarrow> string list \<Rightarrow> string list) \<Rightarrow> settings \<Rightarrow> 'ip request list
    \<Rightarrow> recipient_reports \<times> string list \<Rightarrow> (recipient_reports \<times> string list) res" where
  "collect_all unified_diff gs [] st = Inr st"
| "collect_all unified_diff gs (rq # rqs) st =
     rbind (collect_reports unified_diff gs rq st) (collect_all unified_diff gs rqs)"

definition report_blocks :: "string list \<Rightarrow> string" where
  "report_blocks reports =
     concat (map (\<lambda>r. ''---'' @ [NL] @ r @ [NL]) reports) @ tildes @ [NL, NL]"

definition header_saved :: string where
  "header_saved = [NL] @ tildes @ [NL] @ ''Some objects in which you are referenced have been created,'' @ [NL]
     @ ''deleted or changed.'' @ [NL, NL]"

definition header_failed :: string where
  "header_failed = [NL] @ tildes @ [NL] @ ''Some objects in which you are referenced were requested'' @ [NL]
     @ ''to be created, deleted or changed, but *failed* the '' @ [NL]
     @ ''proper authorisation for any of the referenced maintainers.'' @ [NL, NL]"

text \<open>
  The messages that are sent: recipient, subject and body. The header of the configuration is
  formatted with the sources by \<open>format_header\<close>, the method \<open>str.format\<close>.
\<close>

definition recipient_body :: "string \<Rightarrow> (update_request_status, string list) dict \<Rightarrow> string" where
  "recipient_body head per =
     head @ (case dict_get per ERROR_AUTH of None \<Rightarrow> [] | Some rs \<Rightarrow> header_failed @ report_blocks rs)
          @ (case dict_get per SAVED of None \<Rightarrow> [] | Some rs \<Rightarrow> header_saved @ report_blocks rs)"

definition send_notification_target_reports :: "(string list \<Rightarrow> string list \<Rightarrow> string list) \<Rightarrow> (string \<Rightarrow> string \<Rightarrow> string res)
    \<Rightarrow> settings \<Rightarrow> (string, string option) dict \<Rightarrow> 'ip request list \<Rightarrow> (string \<times> string \<times> string) list res" where
  "send_notification_target_reports unified_diff format_header gs meta results =
     rbind (collect_all unified_diff gs results ([], [])) (\<lambda>(reports, srcs).
       (let sources_str = py_join ''/'' srcs
        in rbind (format_header (cval_str (get_setting_or gs ''email.notification_header'' (CStr []))) sources_str) (\<lambda>configured.
             (let head = configured @ [NL] @ ''This message is auto-generated.'' @ [NL]
                    @ ''The request was made with the following details:'' @ [NL] @ request_meta_str meta
              in Inr (map (\<lambda>(recipient, per). (recipient, ''Notification of '' @ sources_str @ '' database changes'',
                        recipient_body head per)) reports)))))"

end
