(* ===== verification/Update_Loop.thy ===== *)
theory Update_Loop
  imports Update_Handler
begin

text \<open>
  The loop of \<open>_handle_change_requests\<close>: a request that is invalid stays invalid, so that the list
  of valid requests shrinks in every round that does not end the loop. It ends after at most one
  round more than there are valid requests, well within the limit of the source, and it ends
  with a round that left the list as it was.
\<close>

lemma rbind2_Inr: "rbind r (\<lambda>(a, b). f a b) = Inr y \<longleftrightarrow> (\<exists>a b. r = Inr (a, b) \<and> f a b = Inr y)"
  by (cases r) auto

lemma rbind3_Inr: "rbind r (\<lambda>(a, b, c). f a b c) = Inr y \<longleftrightarrow> (\<exists>a b c. r = Inr (a, b, c) \<and> f a b c = Inr y)"
  by (cases r) auto

section \<open>Valid requests\<close>

definition rq_ok :: "'ip request \<Rightarrow> bool" where
  "rq_ok rq = status_ok (request_status rq)"

definition ok_positions :: "'ip request list \<Rightarrow> nat list" where
  "ok_positions rqs = filter (\<lambda>i. rq_ok (rqs ! i)) [0..<length rqs]"

lemma distinct_ok_positions [simp]: "distinct (ok_positions rqs)"
  by (simp add: ok_positions_def)

lemma set_ok_positions: "set (ok_positions rqs) = {i. i < length rqs \<and> rq_ok (rqs ! i)}"
  by (auto simp: ok_positions_def)

lemma request_is_valid_ok:
  "request_is_valid E av rq = Inr (b, rq1) \<Longrightarrow> b = rq_ok rq1 \<and> (rq_ok rq1 \<longrightarrow> rq_ok rq \<and> rq1 = rq)"
  by (cases rq) (auto simp: request_is_valid_def suspension_is_valid_def validate_suspension_def rbind_Inr_conv
      rq_ok_def request_status_def cr_valid_def split: if_splits)

lemma valid_requests_spec:
  "valid_requests E av k rqs = Inr (js, rqs1) \<Longrightarrow>
   length rqs1 = length rqs \<and> js = map (\<lambda>i. i + k) (ok_positions rqs1) \<and>
   (\<forall>i < length rqs. rq_ok (rqs1 ! i) \<longrightarrow> rq_ok (rqs ! i) \<and> rqs1 ! i = rqs ! i)"
proof (induction rqs arbitrary: k js rqs1)
  case (Cons rq rqs)
  from Cons.prems obtain b rq1 js' rqs' where head: "request_is_valid E av rq = Inr (b, rq1)"
    and tail: "valid_requests E av (Suc k) rqs = Inr (js', rqs')"
    and res: "js = (if b then k # js' else js')" "rqs1 = rq1 # rqs'"
    by (auto simp: rbind_Inr_conv)
  note ih = Cons.IH [OF tail] and hd_ok = request_is_valid_ok [OF head]
  have pos: "ok_positions (rq1 # rqs') = (if rq_ok rq1 then 0 # map Suc (ok_positions rqs') else map Suc (ok_positions rqs'))"
    by (simp add: ok_positions_def upt_conv_Cons map_Suc_upt [symmetric] filter_map comp_def del: upt_Suc)
  have "js = map (\<lambda>i. i + k) (ok_positions rqs1)"
    using ih hd_ok res pos by (auto simp: comp_def)
  moreover have "\<forall>i < length (rq # rqs). rq_ok (rqs1 ! i) \<longrightarrow> rq_ok ((rq # rqs) ! i) \<and> rqs1 ! i = (rq # rqs) ! i"
    using ih hd_ok res by (auto simp: nth_Cons split: nat.splits)
  ultimately show ?case using ih res by simp
qed (simp add: ok_positions_def)

lemma update_valid_spec:
  assumes "update_valid E s = Inr (valid, s1)"
  shows "valid = ok_positions (requests s1)" "length (requests s1) = length (requests s)"
    "ref_validator s1 = ref_validator s" "au_validator s1 = au_validator s"
    "\<And>i. i < length (requests s) \<Longrightarrow> rq_ok (requests s1 ! i) \<Longrightarrow> rq_ok (requests s ! i) \<and> requests s1 ! i = requests s ! i"
proof -
  from assms obtain rqs where v: "valid_requests E (au_validator s) 0 (requests s) = Inr (valid, rqs)"
    and s1: "s1 = s\<lparr>requests := rqs\<rparr>" by (auto simp: update_valid_def rbind_Inr_conv)
  from valid_requests_spec [OF v] s1
  show "valid = ok_positions (requests s1)" "length (requests s1) = length (requests s)"
    "ref_validator s1 = ref_validator s" "au_validator s1 = au_validator s"
    "\<And>i. i < length (requests s) \<Longrightarrow> rq_ok (requests s1 ! i) \<Longrightarrow> rq_ok (requests s ! i) \<and> requests s1 ! i = requests s ! i"
    by simp_all
qed

section \<open>One round\<close>

lemma validate_request_frame:
  assumes "validate_request E i s = Inr s1"
  shows "length (requests s1) = length (requests s) \<and> (\<forall>j. j \<noteq> i \<longrightarrow> requests s1 ! j = requests s ! j)"
  using assms by (auto simp: validate_request_def rbind_Inr_conv split: request.splits)

lemma validate_requests_frame:
  "validate_requests E is s = Inr s1 \<Longrightarrow>
   length (requests s1) = length (requests s) \<and> (\<forall>j. j \<notin> set is \<longrightarrow> requests s1 ! j = requests s ! j)"
proof (induction "is" arbitrary: s)
  case (Cons i "is")
  then obtain s2 where "validate_request E i s = Inr s2" "validate_requests E is s2 = Inr s1"
    by (auto simp: rbind_Inr_conv)
  from Cons.IH [OF this(2)] validate_request_frame [OF this(1)] show ?case by simp
qed simp

lemma prepare_round_requests: "prepare_round valid s = Inr s1 \<Longrightarrow> requests s1 = requests s"
  by (auto simp: prepare_round_def rbind_Inr_conv)

lemma resolve_round_cases:
  assumes "resolve_round E valid s = Inr (valid1, s1)"
  obtains s2 s3 where "prepare_round valid s = Inr s2" "validate_requests E valid s2 = Inr s3"
    "update_valid E s3 = Inr (valid1, s1)"
  using assms by (auto simp: resolve_round_def rbind_Inr_conv)

lemma resolve_round_shrinks:
  assumes "resolve_round E (ok_positions (requests s)) s = Inr (valid1, s1)"
  shows "valid1 = ok_positions (requests s1)" "length (requests s1) = length (requests s)"
    "set valid1 \<subseteq> set (ok_positions (requests s))"
proof -
  from assms obtain s2 s3 where p: "prepare_round (ok_positions (requests s)) s = Inr s2"
    and v: "validate_requests E (ok_positions (requests s)) s2 = Inr s3" and u: "update_valid E s3 = Inr (valid1, s1)"
    by (rule resolve_round_cases)
  note u = update_valid_spec [OF u] and v = validate_requests_frame [OF v] and p = prepare_round_requests [OF p]
  show "valid1 = ok_positions (requests s1)" "length (requests s1) = length (requests s)" using u v p by simp_all
  show "set valid1 \<subseteq> set (ok_positions (requests s))"
  proof
    fix i assume i: "i \<in> set valid1"
    with u v p have "i < length (requests s)" "rq_ok (requests s3 ! i)" by (auto simp: set_ok_positions)
    with v p show "i \<in> set (ok_positions (requests s))"
      by (cases "i \<in> set (ok_positions (requests s))") (auto simp: set_ok_positions)
  qed
qed

lemma ok_positions_eqI:
  assumes "set (ok_positions rqs1) = set (ok_positions rqs)" "length rqs1 = length rqs"
  shows "ok_positions rqs1 = ok_positions rqs"
proof -
  from assms have "\<And>i. i < length rqs \<Longrightarrow> rq_ok (rqs1 ! i) = rq_ok (rqs ! i)" by (auto simp: set_ok_positions)
  with assms(2) show ?thesis unfolding ok_positions_def by (intro filter_cong) auto
qed

lemma resolve_round_progress:
  assumes "resolve_round E (ok_positions (requests s)) s = Inr (valid1, s1)" "valid1 \<noteq> ok_positions (requests s)"
  shows "length valid1 < length (ok_positions (requests s))"
proof -
  note r = resolve_round_shrinks [OF assms(1)]
  have "set valid1 \<noteq> set (ok_positions (requests s))" using r assms(2) ok_positions_eqI by metis
  with r(3) have "card (set valid1) < card (set (ok_positions (requests s)))" by (simp add: psubset_card_mono psubsetI)
  then show ?thesis using r(1) by (simp add: distinct_card)
qed

section \<open>The loop\<close>

text \<open>A number of rounds without any limit.\<close>

fun rounds :: "'ip update_env \<Rightarrow> nat \<Rightarrow> nat list \<Rightarrow> 'ip submission \<Rightarrow> (nat list \<times> 'ip submission) res" where
  "rounds E 0 valid s = Inr (valid, s)"
| "rounds E (Suc k) valid s = rbind (resolve_round E valid s) (\<lambda>(valid1, s1). rounds E k valid1 s1)"

lemma resolve_loop_rounds:
  assumes "valid = ok_positions (requests s)" "valid = previous \<or> length valid + done_rounds + 1 \<le> loop_max"
  shows "\<exists>k \<le> length valid + 1. resolve_loop E loop_max done_rounds previous valid s = rounds E k valid s"
  using assms
proof (induction "length valid" arbitrary: valid previous done_rounds s rule: less_induct)
  case less
  show ?case
  proof (cases "valid = previous")
    case True
    then show ?thesis by (intro exI [of _ 0]) (simp add: resolve_loop.simps)
  next
    case False
    with less.prems have bound: "length valid + done_rounds + 1 \<le> loop_max" by simp
    show ?thesis
    proof (cases "resolve_round E valid s")
      case (Inl e)
      then show ?thesis using False by (intro exI [of _ 1]) (simp add: resolve_loop.simps)
    next
      case (Inr vs)
      then obtain valid1 s1 where r: "resolve_round E valid s = Inr (valid1, s1)" by (cases vs) auto
      with less.prems have v1: "valid1 = ok_positions (requests s1)"
        and prog: "valid1 \<noteq> valid \<Longrightarrow> length valid1 < length valid"
        using resolve_round_shrinks resolve_round_progress by metis+
      have step: "resolve_loop E loop_max done_rounds previous valid s = resolve_loop E loop_max (done_rounds + 1) valid valid1 s1"
        using False bound r by (subst resolve_loop.simps) simp
      show ?thesis
      proof (cases "valid1 = valid")
        case True
        then have "resolve_loop E loop_max done_rounds previous valid s = Inr (valid, s1)"
          unfolding step by (simp add: resolve_loop.simps)
        then show ?thesis using r True by (intro exI [of _ 1]) simp
      next
        case False
        with prog bound have "length valid1 < length valid" "length valid1 + (done_rounds + 1) + 1 \<le> loop_max" by simp_all
        from less.hyps [OF this(1) v1, of valid "done_rounds + 1"] this(2) obtain k where k: "k \<le> length valid1 + 1"
          "resolve_loop E loop_max (done_rounds + 1) valid valid1 s1 = rounds E k valid1 s1" by auto
        then show ?thesis using \<open>length valid1 < length valid\<close> r step by (intro exI [of _ "Suc k"]) simp
      qed
    qed
  qed
qed

text \<open>
  A property of submissions that every round keeps holds at the end; and unless there was nothing
  to do, the last round started from a state with the property and left the valid requests as
  they were.
\<close>

locale round_invariant =
  fixes E :: "'ip update_env" and P :: "'ip submission \<Rightarrow> bool"
  assumes round_step: "P s \<Longrightarrow> resolve_round E (ok_positions (requests s)) s = Inr (valid1, s1) \<Longrightarrow> P s1"
begin

lemma loop_end:
  "resolve_loop E loop_max done_rounds previous valid s = Inr (valid1, s1) \<Longrightarrow> valid = ok_positions (requests s) \<Longrightarrow> P s \<Longrightarrow>
   P s1 \<and> valid1 = ok_positions (requests s1) \<and>
   (valid1 = previous \<and> s1 = s \<or>
    (\<exists>s0. P s0 \<and> valid1 = ok_positions (requests s0) \<and> resolve_round E valid1 s0 = Inr (valid1, s1)))"
proof (induction "loop_max - done_rounds" arbitrary: done_rounds previous valid s rule: less_induct)
  case less
  show ?case
  proof (cases "valid = previous")
    case True
    with less.prems show ?thesis by (auto simp: resolve_loop.simps)
  next
    case False
    with less.prems(1) have "rbind (resolve_round E valid s) (\<lambda>(v, s'). if loop_max < done_rounds + 1 then Inl excessive_loops
        else resolve_loop E loop_max (done_rounds + 1) valid v s') = Inr (valid1, s1)"
      unfolding resolve_loop.simps [of E loop_max done_rounds previous valid s] by simp
    then obtain v s' where r: "resolve_round E valid s = Inr (v, s')"
      and res: "(if loop_max < done_rounds + 1 then Inl excessive_loops
        else resolve_loop E loop_max (done_rounds + 1) valid v s') = Inr (valid1, s1)"
      unfolding rbind2_Inr by blast
    from res have bound: "\<not> loop_max < done_rounds + 1"
      and l: "resolve_loop E loop_max (done_rounds + 1) valid v s' = Inr (valid1, s1)" by (simp_all split: if_splits)
    have v: "v = ok_positions (requests s')" and p: "P s'"
      using resolve_round_shrinks(1) [of E s v s'] round_step [of s v s'] r less.prems(2,3) by simp_all
    have "loop_max - (done_rounds + 1) < loop_max - done_rounds" using bound by simp
    note ih = less.hyps [OF this l v p]
    show ?thesis
    proof (cases "valid1 = valid \<and> s1 = s'")
      case True
      with r v less.prems ih have "valid1 = ok_positions (requests s)" "resolve_round E valid1 s = Inr (valid1, s1)" by simp_all
      with ih less.prems(3) show ?thesis by blast
    qed (use ih in blast)
  qed
qed

lemma resolve_end:
  assumes "resolve E s = Inr (valid1, s1)" "\<And>valid s0. update_valid E s = Inr (valid, s0) \<Longrightarrow> P s0"
  shows "P s1 \<and> valid1 = ok_positions (requests s1) \<and>
    (valid1 = [] \<or> (\<exists>s0. P s0 \<and> valid1 = ok_positions (requests s0) \<and> resolve_round E valid1 s0 = Inr (valid1, s1)))"
proof -
  from assms(1) obtain valid s0 where u: "update_valid E s = Inr (valid, s0)"
    and l: "resolve_loop E (length (requests s) + 10) 0 [] valid s0 = Inr (valid1, s1)"
    by (auto simp: resolve_def rbind2_Inr)
  from loop_end [OF l update_valid_spec(1) [OF u] assms(2) [OF u]] show ?thesis by blast
qed

end

text \<open>
  C4: Resolving the validity of a submission ends after at most one round more than there are
  valid requests: its result, also when a check raises, is that of so many rounds run without any
  limit, so that the limit on the number of rounds is never reached.
\<close>

theorem resolve_terminates:
  "case update_valid E s of
     Inl e \<Rightarrow> resolve E s = Inl e
   | Inr (valid, s0) \<Rightarrow> \<exists>k \<le> length valid + 1. k \<le> length (requests s) + 1 \<and> resolve E s = rounds E k valid s0"
proof (cases "update_valid E s")
  case (Inr r)
  then obtain valid s0 where assms: "update_valid E s = Inr (valid, s0)" by (cases r) simp
  note u = update_valid_spec [OF assms]
  have len: "length valid \<le> length (requests s)"
    unfolding u(1) ok_positions_def by (rule order_trans [OF length_filter_le]) (simp add: u(2))
  have "\<exists>k \<le> length valid + 1. resolve_loop E (length (requests s) + 10) 0 [] valid s0 = rounds E k valid s0"
    using resolve_loop_rounds [OF u(1), of "[]" 0 "length (requests s) + 10" E] len by simp
  then show ?thesis using assms len by (auto simp: resolve_def)
qed (simp add: resolve_def)

end
