(* ===== verification/Update_Auth.thy ===== *)
theory Update_Auth
  imports Update_Loop
begin

text \<open>
  What authentication guarantees: a change that is saved was permitted by the override, or by a
  credential for a maintainer of the new object and one for a maintainer of the stored object.
  The shortcut for maintainers that are created in the same submission never counts in the end.
\<close>

section \<open>Credentials\<close>

text \<open>
  A credential for one of the named maintainers of a source: a permission of the user who is
  logged in, an API token that is valid for the request, or an auth line of a stored maintainer
  that the passwords or the signing key of the submission satisfy.
\<close>

definition stored_mntner :: "'ip update_env \<Rightarrow> db_row \<Rightarrow> 'ip rpsl_object \<Rightarrow> bool" where
  "stored_mntner E r m \<longleftrightarrow>
     r \<in> set (t_objects (e_tables E)) \<and> c_class r = ''mntner'' \<and> from_text E False (c_text r) = Inr m"

definition names_mntner :: "string list \<Rightarrow> string \<Rightarrow> db_row \<Rightarrow> 'ip rpsl_object \<Rightarrow> bool" where
  "names_mntner names src r m \<longleftrightarrow>
     pk m \<in> set names \<and> source m = Inr src
     \<or> c_rpsl_pk r \<in> (\<lambda>p. py_strip (py_upper p)) ` set names \<and> c_source r = py_strip (py_upper src)"

definition credential :: "'ip update_env \<Rightarrow> 'ip auth_validator \<Rightarrow> 'ip rpsl_object \<Rightarrow> string list \<Rightarrow> string \<Rightarrow> bool" where
  "credential E av obj names src \<longleftrightarrow>
     (\<exists>n \<in> set names. mntner_matches_internal_auth av obj n src \<noteq> None) \<or>
     (\<exists>n \<in> set names. \<exists>k. api_key_match_for_mntner E av obj n src = Inr (Some k)) \<or>
     (\<exists>r m scheme. stored_mntner E r m \<and> names_mntner names src r m \<and>
        verify_auth (e_lib E) (e_settings E) (passwords av) (keycert_obj_pk av) m = Inr (Some scheme))"

definition granted :: "'ip update_env \<Rightarrow> 'ip auth_validator \<Rightarrow> 'ip rpsl_object \<Rightarrow> string list \<Rightarrow> string \<Rightarrow> bool" where
  "granted E av obj names src \<longleftrightarrow> set names \<inter> set (pre_approved av) \<noteq> {} \<or> credential E av obj names src"

definition override_given :: "'ip update_env \<Rightarrow> 'ip auth_validator \<Rightarrow> bool" where
  "override_given E av \<longleftrightarrow> (\<exists>m. check_override E av = Inr m \<and> auth_bool m)"

section \<open>What the checks keep\<close>

definition cache_ok :: "'ip update_env \<Rightarrow> 'ip rpsl_object list \<Rightarrow> bool" where
  "cache_ok E ms \<longleftrightarrow> (\<forall>m \<in> set ms. \<exists>r. stored_mntner E r m)"

text \<open>Nothing but the cache of maintainers changes.\<close>

definition cached_from :: "'ip update_env \<Rightarrow> 'ip auth_validator \<Rightarrow> 'ip auth_validator \<Rightarrow> bool" where
  "cached_from E av av1 \<longleftrightarrow> (\<exists>ms. av1 = av\<lparr>mntner_db_cache := ms\<rparr> \<and> (cache_ok E (mntner_db_cache av) \<longrightarrow> cache_ok E ms))"

lemma cached_from_refl [simp]: "cached_from E av av"
  unfolding cached_from_def by (intro exI [of _ "mntner_db_cache av"]) simp

lemma cached_from_trans: "cached_from E av av1 \<Longrightarrow> cached_from E av1 av2 \<Longrightarrow> cached_from E av av2"
  unfolding cached_from_def by auto

lemma cached_from_ok: "cached_from E av av1 \<Longrightarrow> cache_ok E (mntner_db_cache av) \<Longrightarrow> cache_ok E (mntner_db_cache av1)"
  unfolding cached_from_def by auto

text \<open>Neither the cache nor the maintainers approved beforehand are credentials.\<close>

lemma credentials_reset:
  fixes av :: "'ip auth_validator" and ms :: "'ip rpsl_object list" and ps :: "string list"
  defines "av1 \<equiv> av\<lparr>mntner_db_cache := ms, pre_approved := ps\<rparr>"
  shows "credential E av1 = credential E av" "override_given E av1 = override_given E av"
proof -
  have int: "mntner_matches_internal_auth av1 = mntner_matches_internal_auth av"
    unfolding av1_def by (intro ext) (simp add: mntner_matches_internal_auth_def)
  have "first_valid_token L av1 = first_valid_token L av" for L
  proof
    show "first_valid_token L av1 ts = first_valid_token L av ts" for ts
      by (induction ts) (simp_all add: av1_def cong: if_cong)
  qed
  then have api: "api_key_match_for_mntner E av1 = api_key_match_for_mntner E av"
    unfolding av1_def by (intro ext) (simp add: api_key_match_for_mntner_def matching_tokens_def)
  show "credential E av1 = credential E av"
    by (intro ext) (simp add: credential_def int api, simp add: av1_def)
  show "override_given E av1 = override_given E av" by (simp add: override_given_def check_override_def av1_def Let_def)
qed

lemma cached_from_fields:
  assumes "cached_from E av av1"
  shows "credential E av1 = credential E av" "granted E av1 = granted E av" "override_given E av1 = override_given E av"
    "pre_approved av1 = pre_approved av" "passwords av1 = passwords av"
proof -
  from assms obtain ms where av1: "av1 = av\<lparr>mntner_db_cache := ms, pre_approved := pre_approved av\<rparr>"
    unfolding cached_from_def by auto
  show cred: "credential E av1 = credential E av" and "override_given E av1 = override_given E av"
    unfolding av1 by (rule credentials_reset)+
  show "granted E av1 = granted E av" by (intro ext) (simp add: granted_def cred, simp add: av1)
  show "pre_approved av1 = pre_approved av" "passwords av1 = passwords av" by (simp_all add: av1)
qed

section \<open>Maintainers\<close>

lemma class_pk_rows:
  assumes "object_rows E (class_pk_query src classes pks) = Inr rows" "r \<in> set rows"
  shows "r \<in> set (t_objects (e_tables E))" "c_class r \<in> set classes"
    "c_source r = py_strip (py_upper src)" "c_rpsl_pk r \<in> (\<lambda>p. py_strip (py_upper p)) ` set pks"
  using assms
  by (auto simp: object_rows_def class_pk_query_def q_sources_def q_object_classes_def q_rpsl_pks_def
      RPSLDatabaseQuery_def object_columns_def rbind_Inr_conv Let_def dest!: run_query_subset)

lemma set_cache_add: "set (cache_add objs cache) \<subseteq> set objs \<union> set cache"
proof -
  have "set (fold (\<lambda>m c. if list_ex (same_object m) c then c else c @ [m]) objs cache) \<subseteq> set objs \<union> set cache"
  proof (induction objs arbitrary: cache)
    case (Cons m objs)
    show ?case using Cons [of "if list_ex (same_object m) cache then cache else cache @ [m]"]
      by (auto split: if_splits)
  qed simp
  then show ?thesis by (simp add: cache_add_def)
qed

lemma resolve_mntners_spec:
  assumes res: "resolve_mntners E names src av = Inr (objs, av1)" and ok: "cache_ok E (mntner_db_cache av)"
  shows "cached_from E av av1" "\<And>m. m \<in> set objs \<Longrightarrow> \<exists>r. stored_mntner E r m \<and> names_mntner names src r m"
proof -
  from res obtain cached where cached: "rfilter (cached_mntner names src) (mntner_db_cache av) = Inr cached"
    by (auto simp: resolve_mntners_def rbind_Inr_conv)
  have in_cache: "\<exists>r. stored_mntner E r m \<and> names_mntner names src r m" if "m \<in> set cached" for m
  proof -
    from rfilter_Inr_in [OF cached that] have "m \<in> set (mntner_db_cache av)" "pk m \<in> set names" "source m = Inr src"
      by (auto simp: cached_mntner_def rbind_Inr_conv split: if_splits)
    with ok show ?thesis by (auto simp: cache_ok_def names_mntner_def)
  qed
  define todo where "todo = filter (\<lambda>p. p \<notin> pk ` set cached) (remdups names)"
  show "cached_from E av av1" "\<And>m. m \<in> set objs \<Longrightarrow> \<exists>r. stored_mntner E r m \<and> names_mntner names src r m"
  proof -
    consider "objs = cached" "av1 = av"
      | rows retrieved where "object_rows E (class_pk_query src [''mntner''] todo) = Inr rows"
          "rmap (\<lambda>r. from_text E False (c_text r)) rows = Inr retrieved" "objs = cached @ retrieved"
          "av1 = av\<lparr>mntner_db_cache := cache_add retrieved (mntner_db_cache av)\<rparr>"
      using res cached by (auto simp: resolve_mntners_def todo_def Let_def rbind_Inr_conv split: if_splits)
    then have "cached_from E av av1 \<and> (\<forall>m \<in> set objs. \<exists>r. stored_mntner E r m \<and> names_mntner names src r m)"
    proof cases
      case 2
      have new: "\<exists>r. stored_mntner E r m \<and> names_mntner names src r m" if "m \<in> set retrieved" for m
      proof -
        from rmap_Inr_in [OF 2(2) that] obtain r where r: "r \<in> set rows" "from_text E False (c_text r) = Inr m" by blast
        moreover have "set todo \<subseteq> set names" by (auto simp: todo_def)
        ultimately show ?thesis using class_pk_rows [OF 2(1) r(1)]
          by (intro exI [of _ r]) (auto simp: stored_mntner_def names_mntner_def)
      qed
      have "cache_ok E (cache_add retrieved (mntner_db_cache av))"
        unfolding cache_ok_def using set_cache_add [of retrieved "mntner_db_cache av"] ok new
        by (metis UnE cache_ok_def subsetD)
      then show ?thesis using 2 in_cache new unfolding cached_from_def by auto
    qed (simp add: in_cache)
    then show "cached_from E av av1" "\<And>m. m \<in> set objs \<Longrightarrow> \<exists>r. stored_mntner E r m \<and> names_mntner names src r m"
      by blast+
  qed
qed

lemma credential_mono:
  assumes "credential E av obj names src" "set names \<subseteq> set names'"
  shows "credential E av obj names' src"
proof -
  have "names_mntner names' src r m" if "names_mntner names src r m" for r and m :: "'a rpsl_object"
    using that assms(2) image_mono [OF assms(2), of "\<lambda>p. py_strip (py_upper p)"]
    unfolding names_mntner_def by (metis subsetD)
  then show ?thesis using assms unfolding credential_def by (meson subsetD)
qed

lemma check_mntner_names_sound:
  "check_mntner_names E av obj names src objs = Inr (Some r) \<Longrightarrow> granted E av obj names src"
proof (induction names)
  case (Cons n names)
  have mono: "granted E av obj names src \<Longrightarrow> granted E av obj (n # names) src"
    using credential_mono [of E av obj names src "n # names"] by (auto simp: granted_def)
  show ?case
  proof (cases "n \<in> set (pre_approved av) \<or> mntner_matches_internal_auth av obj n src \<noteq> None
      \<or> (\<exists>k. api_key_match_for_mntner E av obj n src = Inr (Some k))")
    case True
    then show ?thesis by (auto simp: granted_def credential_def)
  next
    case False
    with Cons.prems have "check_mntner_names E av obj names src objs = Inr (Some r)"
      by (auto simp: rbind_Inr_conv split: option.splits)
    then show ?thesis using Cons.IH mono by blast
  qed
qed simp

lemma check_mntner_objs_sound:
  "check_mntner_objs E av objs ms = Inr r \<Longrightarrow> mc_valid r \<Longrightarrow>
   \<exists>m \<in> set ms. \<exists>scheme. verify_auth (e_lib E) (e_settings E) (passwords av) (keycert_obj_pk av) m = Inr (Some scheme)"
  by (induction ms) (auto simp: rbind_Inr_conv split: option.splits if_splits)

lemma check_mntners_sound:
  assumes "check_mntners E obj names src av = Inr (r, av1)" "cache_ok E (mntner_db_cache av)"
  shows "cached_from E av av1" "mc_valid r \<Longrightarrow> granted E av obj names src"
proof -
  from assms(1) obtain objs by_name where res: "resolve_mntners E names src av = Inr (objs, av1)"
    and names: "check_mntner_names E av1 obj names src objs = Inr by_name"
    and rest: "case by_name of Some r' \<Rightarrow> r' = r | None \<Rightarrow> check_mntner_objs E av1 objs objs = Inr r"
    by (auto simp: check_mntners_def rbind_Inr_conv split: option.splits)
  note spec = resolve_mntners_spec [OF res assms(2)]
  show "cached_from E av av1" by (rule spec(1))
  note same = cached_from_fields [OF spec(1)]
  show "granted E av obj names src" if "mc_valid r"
  proof (cases by_name)
    case (Some r')
    with names show ?thesis using check_mntner_names_sound same by metis
  next
    case None
    with rest have "check_mntner_objs E av1 objs objs = Inr r" by simp
    from check_mntner_objs_sound [OF this that] spec(2) have "credential E av1 obj names src"
      unfolding credential_def by blast
    then show ?thesis by (simp add: same granted_def)
  qed
qed

section \<open>One object\<close>

text \<open>The maintainers of the object that a new object depends on have to agree as well.\<close>

definition authorised_by :: "'ip update_env \<Rightarrow> 'ip auth_validator
    \<Rightarrow> ('ip update_env \<Rightarrow> 'ip auth_validator \<Rightarrow> 'ip rpsl_object \<Rightarrow> string list \<Rightarrow> string \<Rightarrow> bool)
    \<Rightarrow> 'ip rpsl_object \<Rightarrow> 'ip rpsl_object option \<Rightarrow> bool" where
  "authorised_by E av accepts obj current \<longleftrightarrow>
     (\<exists>src names. source obj = Inr src \<and> mnt_by obj = Inr names \<and> accepts E av obj names src \<and>
        (case current of
           Some c \<Rightarrow> \<exists>old_names. mnt_by c = Inr old_names \<and> accepts E av obj old_names src
         | None \<Rightarrow> (\<forall>cls rpk names result. find_related_mntners E obj ValidatorResult = Inr (Some (cls, rpk, names), result)
                     \<longrightarrow> accepts E av obj names src)) \<and>
        (is_mntner obj \<longrightarrow> current \<noteq> None))"

lemma find_related_object_set_result:
  assumes "find_related_object_set E obj r1 = Inr (x, r1')"
  shows "(\<exists>r2'. find_related_object_set E obj r2 = Inr (x, r2')) \<and> (vr_errors r1' = [] \<longrightarrow> vr_errors r1 = [])"
proof (cases "pk_asn_segment obj = None \<or> pk_asn_segment obj = Some []")
  case True
  with assms show ?thesis by (auto simp: find_related_object_set_def)
next
  case False
  with assms obtain segment mode where seg: "pk_asn_segment obj = Some segment" "segment \<noteq> []"
    "for_set_name (e_settings E) (rpsl_object_class (klass obj)) = Inr mode"
    by (auto simp: find_related_object_set_def rbind_Inr_conv)
  show ?thesis
  proof (cases "mode = AUTNUM_DISABLED")
    case True
    with assms seg show ?thesis by (simp add: find_related_object_set_def)
  next
    case False
    with assms seg obtain src rows where rows: "source obj = Inr src"
      "object_rows E (rbind (init_related_object_query ''aut-num'' src) (q_rpsl_pk object_columns segment)) = Inr rows"
      by (auto simp: find_related_object_set_def rbind_Inr_conv)
    with assms seg False show ?thesis
      by (cases rows; cases "mode = AUTNUM_REQUIRED") (auto simp: find_related_object_set_def)
  qed
qed

lemma find_related_result:
  assumes "find_related_mntners E obj r1 = Inr (x, r1')"
  shows "(\<exists>r2'. find_related_mntners E obj r2 = Inr (x, r2')) \<and> (vr_errors r1' = [] \<longrightarrow> vr_errors r1 = [])"
proof -
  from assms obtain rt y where rt: "(if rpsl_object_class (klass obj) \<in> {''route'', ''route6''}
      then find_related_object_route E obj else Inr None) = Inr rt"
    and set: "(if is_set (klass obj) then find_related_object_set E obj r1 else Inr (rt, r1)) = Inr (y, r1')"
    and x: "x = map_option (\<lambda>r. (c_class r, c_rpsl_pk r, row_mnt_by r)) y"
    by (auto simp: find_related_mntners_def rbind_Inr_conv)
  show ?thesis
  proof (cases "is_set (klass obj)")
    case True
    with set have "find_related_object_set E obj r1 = Inr (y, r1')" by simp
    from find_related_object_set_result [OF this, of r2] True rt x show ?thesis
      by (auto simp: find_related_mntners_def)
  next
    case False
    with set rt x show ?thesis by (auto simp: find_related_mntners_def)
  qed
qed

lemma check_current_mntners_sound:
  assumes "check_current_mntners E obj old_obj src result av = Inr (r, result1, av1)" "cache_ok E (mntner_db_cache av)"
  shows "cached_from E av av1"
    "vr_errors result1 = [] \<Longrightarrow> vr_errors result = [] \<and> (\<exists>names. mnt_by old_obj = Inr names \<and> granted E av obj names src)"
  using assms check_mntners_sound
  by (fastforce simp: check_current_mntners_def rbind_Inr_conv Let_def split: if_splits)+

lemma check_related_mntners_sound:
  assumes "check_related_mntners E obj new_result src result av = Inr (r, result1, av1)" "cache_ok E (mntner_db_cache av)"
  shows "cached_from E av av1 \<and> (vr_errors result1 = [] \<longrightarrow> vr_errors result = [] \<and>
    (\<forall>cls rpk names result. find_related_mntners E obj ValidatorResult = Inr (Some (cls, rpk, names), result)
       \<longrightarrow> granted E av obj names src))"
proof -
  let ?res = "result\<lparr>mntners_notify := associated_mntners new_result\<rparr>"
  from assms(1) obtain related res1 where f: "find_related_mntners E obj ?res = Inr (related, res1)"
    by (auto simp: check_related_mntners_def rbind_Inr_conv)
  from find_related_result [OF f, of ValidatorResult]
  obtain res2 where f2: "find_related_mntners E obj ValidatorResult = Inr (related, res2)" by blast
  have errs: "vr_errors res1 = [] \<Longrightarrow> vr_errors result = []" using find_related_result [OF f] by simp
  show ?thesis
  proof (cases related)
    case None
    with assms(1) f f2 errs show ?thesis by (auto simp: check_related_mntners_def)
  next
    case (Some x)
    then obtain cls rpk names where x: "related = Some (cls, rpk, names)" by (cases x) auto
    from assms(1) f x obtain r' av' where c: "check_mntners E obj names src av = Inr (r', av')" "av1 = av'"
      "result1 = (if mc_valid r' then res1 else (add_error (generate_failure_message names obj (Some (cls, rpk))) res1)
         \<lparr>mntners_notify := associated_mntners r'\<rparr>)"
      by (auto simp: check_related_mntners_def rbind_Inr_conv)
    note m = check_mntners_sound [OF c(1) assms(2)]
    show ?thesis using m c(2,3) errs f2 x by (auto split: if_splits)
  qed
qed

text \<open>Replacing dummy hashes changes nothing but the auth lines.\<close>

definition same_but_auth :: "'ip rpsl_object \<Rightarrow> 'ip rpsl_object \<Rightarrow> bool" where
  "same_but_auth a b \<longleftrightarrow> klass b = klass a \<and>
     (\<forall>k. k \<noteq> ''auth'' \<longrightarrow> dict_get (parsed_data b) k = dict_get (parsed_data a) k)"

lemma same_but_auth_refl [simp]: "same_but_auth a a"
  by (simp add: same_but_auth_def)

lemma check_mntner_object_frame:
  assumes "check_mntner_object E av obj src result = Inr (result1, obj1)"
  shows "same_but_auth obj obj1 \<and> (vr_errors result1 = [] \<longrightarrow> vr_errors result = [])"
  using assms
  by (auto simp: check_mntner_object_def rbind_Inr_conv same_but_auth_def force_single_new_password_def
      update_attribute_value_def Let_def split: if_splits)

lemma process_auth_sound:
  assumes "process_auth E obj old_obj av = Inr (r, obj1, av1)" "cache_ok E (mntner_db_cache av)"
  shows "cached_from E av av1 \<and> same_but_auth obj obj1 \<and>
    (result_valid r \<longrightarrow> override_given E av \<or> authorised_by E av granted obj old_obj)"
proof -
  from assms(1) obtain src m where src: "source obj = Inr src" and m: "check_override E av = Inr m"
    by (auto simp: process_auth_def rbind_Inr_conv)
  show ?thesis
  proof (cases "auth_bool m")
    case True
    with assms(1) src m show ?thesis by (auto simp: process_auth_def override_given_def)
  next
    case False
    with assms(1) src m obtain names new_result av2 where names: "mnt_by obj = Inr names"
      and new: "check_mntners E obj names src av = Inr (new_result, av2)"
      by (auto simp: process_auth_def rbind_Inr_conv)
    define result where "result = (if mc_valid new_result then ValidatorResult
      else add_error (generate_failure_message names obj None) (ValidatorResult :: 'a validator_result))"
    from assms(1) src m False names new have
      "rbind (case old_obj of Some c \<Rightarrow> check_current_mntners E obj c src result av2
              | None \<Rightarrow> check_related_mntners E obj new_result src result av2) (\<lambda>(log, result1, av3).
         if is_mntner obj \<and> old_obj = None
         then Inr (add_error ''New mntner objects must be added by an administrator.'' result1, obj, av3)
         else rbind (if is_mntner obj then check_mntner_object E av3 obj src result1 else Inr (result1, obj))
                (\<lambda>(result2, obj2). Inr (log_result av3 log result2, obj2, av3))) = Inr (r, obj1, av1)"
      unfolding result_def by (simp add: process_auth_def Let_def)
    then obtain log result1 av3 where
      step: "(case old_obj of Some c \<Rightarrow> check_current_mntners E obj c src result av2
             | None \<Rightarrow> check_related_mntners E obj new_result src result av2) = Inr (log, result1, av3)"
      and rest: "(if is_mntner obj \<and> old_obj = None
           then Inr (add_error ''New mntner objects must be added by an administrator.'' result1, obj, av3)
           else rbind (if is_mntner obj then check_mntner_object E av3 obj src result1 else Inr (result1, obj))
                  (\<lambda>(result2, obj2). Inr (log_result av3 log result2, obj2, av3))) = Inr (r, obj1, av1)"
      unfolding rbind3_Inr by blast
    note n = check_mntners_sound [OF new assms(2)]
    note ok2 = cached_from_ok [OF n(1) assms(2)] and same2 = cached_from_fields [OF n(1)]
    have mid: "cached_from E av2 av3 \<and> (vr_errors result1 = [] \<longrightarrow> vr_errors result = [] \<and>
      (case old_obj of Some c \<Rightarrow> \<exists>old_names. mnt_by c = Inr old_names \<and> granted E av obj old_names src
       | None \<Rightarrow> (\<forall>cls rpk names result. find_related_mntners E obj ValidatorResult = Inr (Some (cls, rpk, names), result)
                   \<longrightarrow> granted E av obj names src)))"
    proof (cases old_obj)
      case None
      with step have "check_related_mntners E obj new_result src result av2 = Inr (log, result1, av3)" by simp
      from check_related_mntners_sound [OF this ok2] None same2 show ?thesis by simp
    next
      case (Some c)
      with step have "check_current_mntners E obj c src result av2 = Inr (log, result1, av3)" by simp
      from check_current_mntners_sound [OF this ok2] Some same2 show ?thesis by simp
    qed
    have out: "av1 = av3 \<and> same_but_auth obj obj1 \<and> (vr_errors r = [] \<longrightarrow> vr_errors result1 = [] \<and> \<not> (is_mntner obj \<and> old_obj = None))"
      using rest check_mntner_object_frame
      by (fastforce simp: rbind_Inr_conv log_result_def split: if_splits)
    have "vr_errors result = [] \<Longrightarrow> granted E av obj names src"
      using n(2) by (cases "mc_valid new_result") (simp_all add: result_def)
    moreover have "cached_from E av av1" using mid out n(1) cached_from_trans by blast
    ultimately show ?thesis using mid out src names by (simp add: result_valid_def authorised_by_def)
  qed
qed

end
