(* ===== verification/Update_Facts.thy ===== *)
theory Update_Facts
  imports Update_Auth
begin

text \<open>
  What holds of the changes that a submission saves: each of them passed every check in a last
  round that assumed exactly the requests that are saved.
\<close>

section \<open>References\<close>

definition stored_object :: "'ip update_env \<Rightarrow> string \<Rightarrow> string \<Rightarrow> string \<Rightarrow> bool" where
  "stored_object E cls rpsl_pk src \<longleftrightarrow>
     (\<exists>r \<in> set (t_objects (e_tables E)). c_class r = cls \<and> c_rpsl_pk r = py_strip (py_upper rpsl_pk)
        \<and> c_source r = py_strip (py_upper src))"

text \<open>The cache of references holds stored objects that the submission does not delete.\<close>

definition rv_ok :: "'ip update_env \<Rightarrow> reference_validator \<Rightarrow> bool" where
  "rv_ok E rv \<longleftrightarrow> (\<forall>(cls, rpsl_pk, src) \<in> set (rv_cache rv). stored_object E cls rpsl_pk src)
     \<and> set (rv_cache rv) \<inter> set (preloaded_deleted rv) = {}"

text \<open>Nothing but the cache of references changes.\<close>

definition ref_cached_from :: "'ip update_env \<Rightarrow> reference_validator \<Rightarrow> reference_validator \<Rightarrow> bool" where
  "ref_cached_from E rv rv1 \<longleftrightarrow> (\<exists>c. rv1 = rv\<lparr>rv_cache := c\<rparr>) \<and> (rv_ok E rv \<longrightarrow> rv_ok E rv1)"

lemma ref_cached_from_refl [simp]: "ref_cached_from E rv rv"
  unfolding ref_cached_from_def by (auto intro!: exI [of _ "rv_cache rv"])

lemma ref_cached_from_trans: "ref_cached_from E rv rv1 \<Longrightarrow> ref_cached_from E rv1 rv2 \<Longrightarrow> ref_cached_from E rv rv2"
  unfolding ref_cached_from_def by auto

lemma ref_cached_from_fields:
  "ref_cached_from E rv rv1 \<Longrightarrow> preloaded_new rv1 = preloaded_new rv \<and> preloaded_deleted rv1 = preloaded_deleted rv \<and>
     (rv_ok E rv \<longrightarrow> rv_ok E rv1)"
  unfolding ref_cached_from_def by auto

definition reference_exists :: "'ip update_env \<Rightarrow> reference_validator \<Rightarrow> string list \<Rightarrow> string \<Rightarrow> string \<Rightarrow> bool" where
  "reference_exists E rv classes rpsl_pk src \<longleftrightarrow>
     (\<exists>c \<in> set classes. (c, rpsl_pk, src) \<in> set (preloaded_new rv)
        \<or> stored_object E c rpsl_pk src \<and> (c, rpsl_pk, src) \<notin> set (preloaded_deleted rv))"

lemma set_fold_insert: "set (fold (\<lambda>r. List.insert (f r)) rs xs) = f ` set rs \<union> set xs"
  by (induction rs arbitrary: xs) auto

lemma known_reference_sound:
  "known_reference rv classes rpsl_pk src = Some True \<Longrightarrow> rv_ok E rv \<Longrightarrow>
   reference_exists E rv classes rpsl_pk src"
  by (induction classes) (fastforce simp: reference_exists_def rv_ok_def split: if_splits)+

lemma known_reference_None:
  "known_reference rv classes rpsl_pk src = None \<Longrightarrow> c \<in> set classes \<Longrightarrow> (c, rpsl_pk, src) \<notin> set (preloaded_deleted rv)"
  by (induction classes) (auto split: if_splits)

lemma check_reference_sound:
  assumes "check_reference_to_others E classes rpsl_pk src rv = Inr (b, rv1)" "rv_ok E rv"
  shows "ref_cached_from E rv rv1 \<and> (b \<longrightarrow> reference_exists E rv classes rpsl_pk src)"
proof (cases "known_reference rv classes rpsl_pk src")
  case None
  with assms(1) obtain rows where rows: "object_rows E (class_pk_query src classes [rpsl_pk]) = Inr rows"
    "rv1 = rv\<lparr>rv_cache := fold (\<lambda>r. List.insert (c_class r, rpsl_pk, src)) rows (rv_cache rv)\<rparr>" "b = (rows \<noteq> [])"
    by (auto simp: check_reference_to_others_def rbind_Inr_conv)
  have found: "stored_object E (c_class r) rpsl_pk src \<and> c_class r \<in> set classes
      \<and> (c_class r, rpsl_pk, src) \<notin> set (preloaded_deleted rv)" if "r \<in> set rows" for r
    using class_pk_rows [OF rows(1) that] known_reference_None [OF None] by (auto simp: stored_object_def)
  then have "rv_ok E rv1" using assms(2) rows(2) by (auto simp: rv_ok_def set_fold_insert)
  then have "ref_cached_from E rv rv1" using rows(2) unfolding ref_cached_from_def by blast
  moreover have "reference_exists E rv classes rpsl_pk src" if b
    using that rows(3) found [of "hd rows"] by (auto simp: reference_exists_def)
  ultimately show ?thesis by blast
next
  case (Some a)
  with assms(1) have "rv1 = rv" "b = a" by (auto simp: check_reference_to_others_def)
  then show ?thesis using known_reference_sound assms(2) Some by (cases a) auto
qed

lemma reference_exists_cached: "ref_cached_from E rv rv1 \<Longrightarrow> reference_exists E rv1 = reference_exists E rv"
  by (intro ext) (auto simp: reference_exists_def ref_cached_from_fields)

lemma check_pks_sound:
  "check_pks E field classes pks src (r, rv) = Inr (r1, rv1) \<Longrightarrow> rv_ok E rv \<Longrightarrow>
   ref_cached_from E rv rv1 \<and> (vr_errors r1 = [] \<longrightarrow> vr_errors r = [] \<and> (\<forall>p \<in> set pks. reference_exists E rv classes p src))"
proof (induction pks arbitrary: r rv)
  case (Cons p pks)
  from Cons.prems(1) obtain b rv2 where c: "check_reference_to_others E classes p src rv = Inr (b, rv2)"
    and rest: "check_pks E field classes pks src
      (if b then r else add_error (reference_error classes field p src) r, rv2) = Inr (r1, rv1)"
    by (auto simp: rbind_Inr_conv)
  from check_reference_sound [OF c Cons.prems(2)]
  have c: "ref_cached_from E rv rv2" "b \<Longrightarrow> reference_exists E rv classes p src" by blast+
  note rv2 = ref_cached_from_fields [OF c(1)]
  from Cons.IH [OF rest] rv2 Cons.prems(2) have ih: "ref_cached_from E rv2 rv1"
    "vr_errors r1 = [] \<longrightarrow> vr_errors (if b then r else add_error (reference_error classes field p src) r) = [] \<and>
       (\<forall>p \<in> set pks. reference_exists E rv2 classes p src)" by blast+
  have "ref_cached_from E rv rv1" using ref_cached_from_trans c(1) ih(1) by blast
  moreover have "vr_errors r1 = [] \<longrightarrow> vr_errors r = [] \<and> b" using ih(2) by (cases b) auto
  ultimately show ?case using ih(2) c(2) reference_exists_cached [OF c(1)] by auto
qed simp

lemma check_reference_fields_sound:
  "check_reference_fields E refs src (r, rv) = Inr (r1, rv1) \<Longrightarrow> rv_ok E rv \<Longrightarrow>
   ref_cached_from E rv rv1 \<and> (vr_errors r1 = [] \<longrightarrow> vr_errors r = [] \<and>
     (\<forall>(field, classes, pks) \<in> set refs. \<forall>p \<in> set (pvalue_items pks). reference_exists E rv classes p src))"
proof (induction refs arbitrary: r rv)
  case (Cons ref refs)
  obtain field classes pks where ref: "ref = (field, classes, pks)" by (cases ref) auto
  from Cons.prems(1) ref obtain r2 rv2 where c: "check_pks E field classes (pvalue_items pks) src (r, rv) = Inr (r2, rv2)"
    and rest: "check_reference_fields E refs src (r2, rv2) = Inr (r1, rv1)" by (auto simp: rbind_Inr_conv)
  note c = check_pks_sound [OF c Cons.prems(2)]
  then have rv2: "rv_ok E rv2" and same: "reference_exists E rv2 = reference_exists E rv"
    using ref_cached_from_fields reference_exists_cached Cons.prems(2) by blast+
  have "ref_cached_from E rv rv1" using Cons.IH [OF rest rv2] c ref_cached_from_trans by blast
  then show ?case using Cons.IH [OF rest rv2] c ref by (simp add: same)
qed simp

text \<open>Every strong reference of the object exists in the database, or will after the submission.\<close>

definition references_exist :: "'ip update_env \<Rightarrow> reference_validator \<Rightarrow> 'ip rpsl_object \<Rightarrow> bool" where
  "references_exist E rv obj \<longleftrightarrow>
     (\<forall>src field classes pks p. source obj = Inr src \<longrightarrow> (field, classes, pks) \<in> set (referred_strong_objects obj) \<longrightarrow>
        p \<in> set (pvalue_items pks) \<longrightarrow> reference_exists E rv classes p src)"

lemma check_references_to_others_sound:
  assumes "check_references_to_others E obj rv = Inr (r, rv1)" "rv_ok E rv"
  shows "ref_cached_from E rv rv1" "vr_errors r = [] \<Longrightarrow> references_exist E rv obj"
proof -
  from assms(1) obtain src where src: "source obj = Inr src"
    and c: "check_reference_fields E (referred_strong_objects obj) src (ValidatorResult, rv) = Inr (r, rv1)"
    by (auto simp: check_references_to_others_def rbind_Inr_conv)
  note c = check_reference_fields_sound [OF c assms(2)]
  then show "ref_cached_from E rv rv1" by blast
  show "references_exist E rv obj" if "vr_errors r = []"
    using c that src unfolding references_exist_def by fastforce
qed

section \<open>One request\<close>

definition keeps :: "'ip change_request \<Rightarrow> 'ip change_request \<Rightarrow> bool" where
  "keeps cr cr1 \<longleftrightarrow> cr_new cr1 = cr_new cr \<and> cr_current cr1 = cr_current cr \<and> cr_type cr1 = cr_type cr \<and>
     cr_auth_result cr1 = cr_auth_result cr \<and> non_strict_mode cr1 = non_strict_mode cr \<and> (cr_valid cr1 \<longrightarrow> cr_valid cr)"

definition roa_inv :: "'ip change_request \<Rightarrow> bool" where
  "roa_inv cr \<longleftrightarrow> (cached_roa_validity cr = Some False \<longrightarrow> \<not> cr_valid cr)"

lemma keeps_trans: "keeps a b \<Longrightarrow> keeps b c \<Longrightarrow> keeps a c"
  by (simp add: keeps_def)

lemma take_result_keeps:
  assumes "take_result s r cr = (ok, cr1)" "\<not> status_ok s"
  shows "keeps cr cr1 \<and> (ok \<longleftrightarrow> vr_errors r = []) \<and> (cr_valid cr1 \<longrightarrow> ok)
    \<and> cached_roa_validity cr1 = cached_roa_validity cr"
  using assms
  by (auto simp: take_result_def keeps_def first_failure_def cr_valid_def result_valid_def Let_def split: if_splits)

lemma check_references_keeps:
  assumes "check_references E cr rv = Inr (ok, cr1, rv1)" "rv_ok E rv"
  shows "keeps cr cr1" "cr_valid cr1 \<Longrightarrow> ok" "cached_roa_validity cr1 = cached_roa_validity cr" "ref_cached_from E rv rv1"
    "\<And>obj. ok \<Longrightarrow> cr_new cr = Some obj \<Longrightarrow> cr_type cr \<noteq> Some UR_DELETE \<Longrightarrow> \<not> non_strict_mode cr \<Longrightarrow> references_exist E rv obj"
proof -
  have "keeps cr cr1 \<and> (cr_valid cr1 \<longrightarrow> ok) \<and> cached_roa_validity cr1 = cached_roa_validity cr \<and> ref_cached_from E rv rv1
     \<and> (\<forall>obj. ok \<and> cr_new cr = Some obj \<and> cr_type cr \<noteq> Some UR_DELETE \<and> \<not> non_strict_mode cr \<longrightarrow> references_exist E rv obj)"
  proof (cases "non_strict_mode cr")
    case True
    with assms(1) show ?thesis by (simp add: check_references_def keeps_def)
  next
    case strict: False
    show ?thesis
    proof (cases "cr_type cr = Some UR_DELETE \<and> cr_current cr \<noteq> None")
      case True
      then obtain old where "cr_type cr = Some UR_DELETE" "cr_current cr = Some old" by blast
      with assms(1) strict obtain r where
        "(case take_result ERROR_REFERENCE r cr of (b, cr') \<Rightarrow> Inr (b, cr', rv)) = (Inr (ok, cr1, rv1) :: _ res)"
        unfolding check_references_def by (auto simp: rbind_Inr_conv)
      then have "take_result ERROR_REFERENCE r cr = (ok, cr1)" "rv1 = rv" by (auto split: prod.splits)
      with take_result_keeps [OF this(1)] True show ?thesis by auto
    next
      case False
      with assms(1) strict obtain obj r where obj: "cr_new cr = Some obj"
        and c: "check_references_to_others E obj rv = Inr (r, rv1)"
        and "(case take_result ERROR_REFERENCE r cr of (b, cr') \<Rightarrow> Inr (b, cr', rv1)) = (Inr (ok, cr1, rv1) :: _ res)"
        by (cases "cr_type cr = Some UR_DELETE"; cases "cr_current cr")
          (auto simp: check_references_def rbind_Inr_conv case_prod_beta split: option.splits)
      then have t: "take_result ERROR_REFERENCE r cr = (ok, cr1)" by (auto split: prod.splits)
      from take_result_keeps [OF t] check_references_to_others_sound [OF c assms(2)] obj show ?thesis by auto
    qed
  qed
  then show "keeps cr cr1" "cr_valid cr1 \<Longrightarrow> ok" "cached_roa_validity cr1 = cached_roa_validity cr" "ref_cached_from E rv rv1"
    "\<And>obj. ok \<Longrightarrow> cr_new cr = Some obj \<Longrightarrow> cr_type cr \<noteq> Some UR_DELETE \<Longrightarrow> \<not> non_strict_mode cr \<Longrightarrow> references_exist E rv obj"
    by blast+
qed

lemma check_protected_names_keeps:
  assumes "check_protected_names E cr rv = Inr (ok, cr1)"
  shows "keeps cr cr1 \<and> (cr_valid cr1 \<longrightarrow> ok) \<and> cached_roa_validity cr1 = cached_roa_validity cr"
proof (cases "cr_type cr = Some UR_CREATE \<and> cr_new cr \<noteq> None")
  case True
  then obtain obj where "cr_type cr = Some UR_CREATE" "cr_new cr = Some obj" by blast
  with assms obtain r where "take_result ERROR_PROTECTED_NAME r cr = (ok, cr1)"
    by (auto simp: check_protected_names_def rbind_Inr_conv)
  from take_result_keeps [OF this] show ?thesis by auto
next
  case False
  with assms have "ok" "cr1 = cr" by (auto simp: check_protected_names_def split: bool.splits option.splits)
  then show ?thesis by (simp add: keeps_def)
qed

lemma check_conflicting_roa_keeps:
  assumes "check_conflicting_roa E cr = Inr (ok, cr1)" "roa_inv cr"
  shows "keeps cr cr1 \<and> (cr_valid cr1 \<longrightarrow> ok) \<and> roa_inv cr1"
  using assms
  by (auto simp: check_conflicting_roa_def rbind_Inr_conv keeps_def roa_inv_def first_failure_def cr_error_def
      cr_valid_def split: option.splits if_splits)

lemma check_scopefilter_keeps:
  assumes "check_scopefilter E cr = Inr (ok, cr1)"
  shows "keeps cr cr1 \<and> (cr_valid cr1 \<longrightarrow> ok) \<and> cached_roa_validity cr1 = cached_roa_validity cr"
proof (cases "cr_type cr = Some UR_DELETE \<or> cr_new cr = None")
  case True
  with assms have "ok" "cr1 = cr" by (auto simp: check_scopefilter_def split: bool.splits option.splits)
  then show ?thesis by (simp add: keeps_def)
next
  case False
  then obtain obj where "cr_type cr \<noteq> Some UR_DELETE" "cr_new cr = Some obj" by blast
  with assms obtain result m where
    "(if result \<in> {out_scope_prefix, out_scope_as}
      then (if cr_type cr = Some UR_CREATE
            then (False, cr_error m (first_failure ERROR_SCOPEFILTER cr))
            else if cr_type cr = Some UR_MODIFY
            then (True, cr\<lparr>cr_infos := cr_infos cr @ [m]\<rparr>)
            else (True, cr))
      else (True, cr)) = (ok, cr1)"
    unfolding check_scopefilter_def by (force simp: rbind2_Inr Let_def)
  then show ?thesis
    by (auto simp: keeps_def first_failure_def cr_error_def cr_valid_def simp del: insert_iff split: if_splits)
qed

text \<open>What every step of the validation keeps of a request; only auth lines of the object change.\<close>

definition same_request :: "'ip change_request \<Rightarrow> 'ip change_request \<Rightarrow> bool" where
  "same_request cr cr1 \<longleftrightarrow> cr_type cr1 = cr_type cr \<and> cr_current cr1 = cr_current cr \<and> non_strict_mode cr1 = non_strict_mode cr
     \<and> (case cr_new cr of None \<Rightarrow> cr_new cr1 = None
        | Some obj \<Rightarrow> \<exists>obj1. cr_new cr1 = Some obj1 \<and> same_but_auth obj obj1)"

lemma same_but_auth_trans: "same_but_auth a b \<Longrightarrow> same_but_auth b c \<Longrightarrow> same_but_auth a c"
  by (simp add: same_but_auth_def)

lemma same_request_refl [simp]: "same_request cr cr"
  by (auto simp: same_request_def split: option.splits)

lemma same_request_trans: "same_request a b \<Longrightarrow> same_request b c \<Longrightarrow> same_request a c"
  unfolding same_request_def by (auto split: option.splits intro: same_but_auth_trans)

lemma keeps_same: "keeps cr cr1 \<Longrightarrow> same_request cr cr1"
  by (auto simp: keeps_def same_request_def split: option.splits)

lemma clean_for_create_same: "clean_for_create gs obj = (b, obj1) \<Longrightarrow> same_but_auth obj obj1"
  by (auto simp: clean_for_create_def RPSLSet_clean_for_create_def same_but_auth_def obj_error_def Let_def
      split: sum.splits if_splits prod.splits)

lemma check_for_create_frame:
  assumes "check_for_create E cr = (b, cr1)"
  shows "same_request cr cr1 \<and> cached_roa_validity cr1 = cached_roa_validity cr \<and>
    (if b then cr_status cr1 = cr_status cr else \<not> cr_valid cr1)"
proof (cases "cr_type cr = Some UR_CREATE \<and> cr_new cr \<noteq> None")
  case True
  then obtain obj where obj: "cr_type cr = Some UR_CREATE" "cr_new cr = Some obj" by blast
  obtain b' obj1 where c: "clean_for_create (e_settings E) obj = (b', obj1)" by (cases "clean_for_create (e_settings E) obj")
  from clean_for_create_same [OF c] assms obj c show ?thesis
    by (cases b') (auto simp: check_for_create_def same_request_def cr_valid_def)
next
  case False
  with assms have "b" "cr1 = cr" by (auto simp: check_for_create_def split: bool.splits option.splits)
  then show ?thesis by simp
qed

lemma check_rules_frame:
  assumes "check_rules E cr = Inr (b, cr1)"
  shows "same_request cr cr1 \<and> cached_roa_validity cr1 = cached_roa_validity cr \<and>
    (if b then cr_status cr1 = cr_status cr else \<not> cr_valid cr1)"
  using assms
  by (auto simp: check_rules_def rbind_Inr_conv same_request_def cr_valid_def Let_def split: option.splits if_splits)

lemma check_auth_sound:
  assumes "check_auth E cr av = Inr (b, cr1, av1)" "cache_ok E (mntner_db_cache av)"
  shows "same_request cr cr1 \<and> cached_roa_validity cr1 = cached_roa_validity cr \<and> cached_from E av av1 \<and>
    (if b then cr_status cr1 = cr_status cr \<and>
       (\<exists>obj obj1. cr_new cr = Some obj \<and> cr_new cr1 = Some obj1 \<and> same_but_auth obj obj1 \<and>
          (override_given E av \<or> authorised_by E av granted obj (cr_current cr)))
     else \<not> cr_valid cr1)"
proof -
  from assms(1) obtain obj r obj1 where obj: "cr_new cr = Some obj"
    and p: "process_auth E obj (cr_current cr) av = Inr (r, obj1, av1)"
    and res: "(b, cr1) = (let cr1 = cr\<lparr>cr_new := Some obj1, cr_auth_result := Some r, cr_infos := cr_infos cr @ vr_infos r\<rparr>
       in if result_valid r then (True, cr1)
          else (False, cr1\<lparr>cr_status := ERROR_AUTH, cr_errors := cr_errors cr1 @ vr_errors r\<rparr>))"
    by (auto simp: check_auth_def rbind3_Inr Let_def split: option.splits if_splits)
  from process_auth_sound [OF p assms(2)] res obj show ?thesis
    by (cases "result_valid r") (auto simp: Let_def same_request_def cr_valid_def)
qed

definition accepted :: "'ip update_env \<Rightarrow> reference_validator \<Rightarrow> 'ip auth_validator
    \<Rightarrow> ('ip update_env \<Rightarrow> 'ip auth_validator \<Rightarrow> 'ip rpsl_object \<Rightarrow> string list \<Rightarrow> string \<Rightarrow> bool) \<Rightarrow> 'ip change_request \<Rightarrow> bool" where
  "accepted E rv av accepts cr \<longleftrightarrow>
     (\<exists>obj0 obj. cr_new cr = Some obj \<and> same_but_auth obj0 obj \<and>
        (override_given E av \<or> authorised_by E av accepts obj0 (cr_current cr)) \<and>
        (cr_type cr \<noteq> Some UR_DELETE \<and> \<not> non_strict_mode cr \<longrightarrow> references_exist E rv obj))"

lemma validate_change_sound:
  assumes v: "validate_change E cr rv av = Inr (ok, cr1, rv1, av1)"
    and inv: "cache_ok E (mntner_db_cache av)" "rv_ok E rv" "roa_inv cr"
  shows "cached_from E av av1 \<and> ref_cached_from E rv rv1 \<and> same_request cr cr1 \<and> roa_inv cr1 \<and>
    (cr_valid cr1 \<longrightarrow> ok \<and> cr_valid cr \<and> accepted E rv av granted cr1)"
proof -
  obtain b1 cra where a: "check_for_create E cr = (b1, cra)" by (cases "check_for_create E cr")
  note fa = check_for_create_frame [OF a]
  then have inv_a: "roa_inv cra" using inv(3) by (auto simp: roa_inv_def cr_valid_def split: if_splits)
  show ?thesis
  proof (cases b1)
    case False
    with v a fa inv_a show ?thesis by (simp add: validate_change_def)
  next
    case b1: True
    with v a obtain b2 crb where b: "check_rules E cra = Inr (b2, crb)"
      by (auto simp: validate_change_def rbind2_Inr)
    note fb = check_rules_frame [OF b]
    have inv_b: "roa_inv crb" and same_b: "same_request cr crb"
      using fa fb inv_a same_request_trans by (auto simp: roa_inv_def cr_valid_def split: if_splits)
    show ?thesis
    proof (cases b2)
      case False
      with v a b b1 fb inv_b same_b show ?thesis by (simp add: validate_change_def)
    next
      case b2: True
      with v a b b1 obtain b3 crc av2 where c: "check_auth E crb av = Inr (b3, crc, av2)"
        by (auto simp: validate_change_def rbind3_Inr)
      note fc = check_auth_sound [OF c inv(1)]
      have inv_c: "roa_inv crc" and same_c: "same_request cr crc"
        using fc same_b inv_b same_request_trans by (auto simp: roa_inv_def cr_valid_def split: if_splits)
      show ?thesis
      proof (cases b3)
        case False
        with v a b b1 b2 c fc inv_c same_c show ?thesis by (simp add: validate_change_def)
      next
        case b3: True
        with v a b b1 b2 c obtain b4 crd b5 cre b6 crf b7 where
          d: "check_references E crc rv = Inr (b4, crd, rv1)" and e: "check_protected_names E crd rv1 = Inr (b5, cre)"
          and f: "check_conflicting_roa E cre = Inr (b6, crf)" and g: "check_scopefilter E crf = Inr (b7, cr1)"
          and ok: "ok = (b4 \<and> b6 \<and> b7 \<and> b5)" and av1: "av1 = av2"
          unfolding validate_change_def by (simp add: rbind2_Inr rbind3_Inr) blast
        note d = check_references_keeps [OF d inv(2)] and e = check_protected_names_keeps [OF e]
          and g = check_scopefilter_keeps [OF g]
        have "roa_inv cre" using inv_c d(1,3) e by (auto simp: roa_inv_def keeps_def)
        note f = check_conflicting_roa_keeps [OF f this]
        have keep: "keeps crc cr1" using d(1) e f g keeps_trans by blast
        have inv1: "roa_inv cr1" using f g by (auto simp: roa_inv_def keeps_def)
        from fc b3 obtain obj obj1 where o: "cr_new crb = Some obj" "cr_new crc = Some obj1" "same_but_auth obj obj1"
          "override_given E av \<or> authorised_by E av granted obj (cr_current crb)" "cr_status crc = cr_status crb" by auto
        have "cr_valid cr1 \<longrightarrow> ok \<and> cr_valid cr \<and> accepted E rv av granted cr1"
        proof
          assume valid: "cr_valid cr1"
          with g have v6: "cr_valid crf" "b7" by (auto simp: keeps_def)
          with f have v5: "cr_valid cre" "b6" by (auto simp: keeps_def)
          with e have v4: "cr_valid crd" "b5" by (auto simp: keeps_def)
          with d(1,2) have v3: "cr_valid crc" "b4" by (auto simp: keeps_def)
          then have "cr_valid cr" using fa fb o(5) b1 b2 by (simp add: cr_valid_def)
          moreover have "references_exist E rv obj1" if "cr_type crc \<noteq> Some UR_DELETE" "\<not> non_strict_mode crc"
            using d(5) [OF v3(2) o(2) that] .
          moreover have "cr_current crb = cr_current cr1" using keep same_b same_c by (simp add: keeps_def same_request_def)
          ultimately show "ok \<and> cr_valid cr \<and> accepted E rv av granted cr1"
            using ok v3 v4 v5 v6 o keep unfolding accepted_def keeps_def by metis
        qed
        then show ?thesis using fc av1 d(4) same_c keep keeps_same same_request_trans inv1 by blast
      qed
    qed
  qed
qed

end
