(* ===== verification/Update_Saved.thy ===== *)
theory Update_Saved
  imports Update_Facts RPSL_Object_Facts
begin

text \<open>
  From one request to a submission: the invariant of the rounds, the last round, and the changes
  that are saved after it.
\<close>

section \<open>Requests as the constructors make them\<close>

definition request_wf :: "'ip request \<Rightarrow> bool" where
  "request_wf rq =
     (case rq of
        Suspend sr \<Rightarrow> True
      | Change cr \<Rightarrow> roa_inv cr \<and> (cr_type cr = Some UR_CREATE \<longrightarrow> cr_current cr = None) \<and>
          (\<forall>obj. cr_new cr = Some obj \<longrightarrow> ''auth'' \<notin> set (pk_fields (klass obj))))"

definition same_rq :: "'ip request \<Rightarrow> 'ip request \<Rightarrow> bool" where
  "same_rq rq rq1 =
     (case rq of
        Suspend sr \<Rightarrow> (\<exists>sr1. rq1 = Suspend sr1 \<and> sr_new sr1 = sr_new sr)
      | Change cr \<Rightarrow> (\<exists>cr1. rq1 = Change cr1 \<and> same_request cr cr1))"

lemma same_rq_refl [simp]: "same_rq rq rq"
  by (auto simp: same_rq_def split: request.splits)

lemma same_rq_trans: "same_rq a b \<Longrightarrow> same_rq b c \<Longrightarrow> same_rq a c"
  by (auto simp: same_rq_def split: request.splits intro: same_request_trans)

lemma same_but_auth_ref:
  assumes "same_but_auth a b" "''auth'' \<notin> set (pk_fields (klass a))"
  shows "pk b = pk a" "source b = source a" "object_ref b = object_ref a" "mnt_by b = mnt_by a" "is_mntner b = is_mntner a"
proof -
  have str: "data_str b k = data_str a k" if "k \<noteq> ''auth''" for k
    using assms(1) that by (simp add: same_but_auth_def data_str_def)
  have "map (data_str b) (pk_fields (klass b)) = map (data_str a) (pk_fields (klass a))"
  proof (rule map_cong)
    show "pk_fields (klass b) = pk_fields (klass a)" using assms(1) by (simp add: same_but_auth_def)
    show "data_str b k = data_str a k" if "k \<in> set (pk_fields (klass a))" for k
      using str [of k] assms(2) that by metis
  qed
  then show pk: "pk b = pk a" by (simp add: pk_def)
  have "dict_get (parsed_data b) ''source'' = dict_get (parsed_data a) ''source''" using assms(1) by (simp add: same_but_auth_def)
  then show src: "source b = source a" using str [of "''source''"] by (simp add: source_def split: option.splits)
  show "object_ref b = object_ref a" using assms(1) pk src by (simp add: object_ref_def same_but_auth_def)
  show "mnt_by b = mnt_by a" "is_mntner b = is_mntner a" using assms(1) by (simp_all add: mnt_by_def is_mntner_def same_but_auth_def)
qed

lemma same_rq_entry:
  assumes "same_rq rq rq1" "request_wf rq"
  shows "preload_entry rq1 = preload_entry rq"
proof (cases rq)
  case (Change cr)
  with assms obtain cr1 where cr1: "rq1 = Change cr1" "same_request cr cr1" by (auto simp: same_rq_def)
  show ?thesis
  proof (cases "cr_new cr")
    case (Some obj)
    with cr1 obtain obj1 where "cr_new cr1 = Some obj1" "same_but_auth obj obj1" by (auto simp: same_request_def)
    then show ?thesis using same_but_auth_ref(3) [of obj obj1] assms(2) Change cr1 Some
      by (simp add: preload_entry_def request_wf_def same_request_def split: option.splits)
  qed (use Change cr1 in \<open>simp add: preload_entry_def same_request_def\<close>)
qed (use assms in \<open>auto simp: same_rq_def preload_entry_def split: option.splits\<close>)

lemma same_rq_wf:
  assumes "same_request cr cr1" "request_wf (Change cr)" "roa_inv cr1"
  shows "request_wf (Change cr1)"
  using assms by (auto simp: request_wf_def same_request_def same_but_auth_def split: option.splits)

section \<open>The validators before a round\<close>

lemma preload_all_sets:
  "set (preloaded_deleted (preload_all es rv)) = {ref. (Some UR_DELETE, ref) \<in> set es} \<union> set (preloaded_deleted rv) \<and>
   set (preloaded_new (preload_all es rv)) =
     {ref. (Some UR_CREATE, ref) \<in> set es \<or> (Some UR_MODIFY, ref) \<in> set es} \<union> set (preloaded_new rv) \<and>
   rv_cache (preload_all es rv) = rv_cache rv"
  by (induction es rv rule: preload_all.induct) (simp, auto)

lemma preload_sets:
  "set (preloaded_deleted (preload es rv)) = {ref. (Some UR_DELETE, ref) \<in> set es}"
  "set (preloaded_new (preload es rv)) = {ref. (Some UR_CREATE, ref) \<in> set es \<or> (Some UR_MODIFY, ref) \<in> set es}"
  "rv_cache (preload es rv) = rv_cache rv"
  by (simp_all add: preload_def preload_all_sets)

lemma rmap_set: "rmap f xs = Inr ys \<Longrightarrow> set ys = {y. \<exists>x \<in> set xs. f x = Inr y}"
  by (induction xs arbitrary: ys) (auto simp: rbind_Inr_conv)

definition refs_of :: "update_request_type set \<Rightarrow> nat list \<Rightarrow> 'ip request list \<Rightarrow> obj_ref set" where
  "refs_of ts valid rqs = {ref. \<exists>i \<in> set valid. \<exists>t \<in> ts. preload_entry (rqs ! i) = Inr (Some t, ref)}"

lemma prepare_round_spec:
  assumes "prepare_round valid s = Inr s1"
  shows "requests s1 = requests s" "rv_cache (ref_validator s1) = rv_cache (ref_validator s)"
    "set (preloaded_deleted (ref_validator s1)) = refs_of {UR_DELETE} valid (requests s)"
    "set (preloaded_new (ref_validator s1)) = refs_of {UR_CREATE, UR_MODIFY} valid (requests s)"
    "au_validator s1 = (au_validator s)
       \<lparr>pre_approved := map pk (List.map_filter (\<lambda>i. potential_new_mntner (requests s ! i)) valid)\<rparr>"
proof -
  from assms obtain es where es: "rmap (\<lambda>i. preload_entry (requests s ! i)) valid = Inr es"
    and s1: "s1 = s\<lparr>ref_validator := preload es (ref_validator s),
      au_validator := pre_approve (List.map_filter (\<lambda>i. potential_new_mntner (requests s ! i)) valid) (au_validator s)\<rparr>"
    by (auto simp: prepare_round_def rbind_Inr_conv)
  show "requests s1 = requests s" "rv_cache (ref_validator s1) = rv_cache (ref_validator s)"
    "au_validator s1 = (au_validator s)
       \<lparr>pre_approved := map pk (List.map_filter (\<lambda>i. potential_new_mntner (requests s ! i)) valid)\<rparr>"
    by (simp_all add: s1 preload_sets pre_approve_def)
  show "set (preloaded_deleted (ref_validator s1)) = refs_of {UR_DELETE} valid (requests s)"
    "set (preloaded_new (ref_validator s1)) = refs_of {UR_CREATE, UR_MODIFY} valid (requests s)"
    by (auto simp: s1 preload_sets rmap_set [OF es] refs_of_def)
qed

section \<open>One round\<close>

definition passed :: "'ip update_env \<Rightarrow> reference_validator \<Rightarrow> 'ip auth_validator
    \<Rightarrow> ('ip update_env \<Rightarrow> 'ip auth_validator \<Rightarrow> 'ip rpsl_object \<Rightarrow> string list \<Rightarrow> string \<Rightarrow> bool) \<Rightarrow> 'ip request \<Rightarrow> bool" where
  "passed E rv av accepts rq =
     (case rq of Change cr \<Rightarrow> accepted E rv av accepts cr | Suspend sr \<Rightarrow> override_given E av)"

definition sub_inv :: "'ip update_env \<Rightarrow> 'ip submission \<Rightarrow> bool" where
  "sub_inv E s \<longleftrightarrow> list_all request_wf (requests s) \<and> cache_ok E (mntner_db_cache (au_validator s)) \<and> rv_ok E (ref_validator s)"

lemma accepted_cached:
  assumes "cached_from E av av1" "ref_cached_from E rv rv1"
  shows "accepted E rv1 av1 granted = accepted E rv av granted"
proof
  have "references_exist E rv1 = references_exist E rv"
    by (intro ext) (simp add: references_exist_def reference_exists_cached [OF assms(2)])
  then show "accepted E rv1 av1 granted cr = accepted E rv av granted cr" for cr
    unfolding accepted_def authorised_by_def cached_from_fields [OF assms(1)] by simp
qed

lemma passed_cached:
  "cached_from E av av1 \<Longrightarrow> ref_cached_from E rv rv1 \<Longrightarrow> passed E rv1 av1 granted = passed E rv av granted"
  by (intro ext) (auto simp: passed_def accepted_cached cached_from_fields split: request.splits)

lemma validate_request_sound:
  assumes v: "validate_request E i s = Inr s1" and i: "i < length (requests s)" and inv: "sub_inv E s"
  shows "sub_inv E s1 \<and> cached_from E (au_validator s) (au_validator s1) \<and>
    ref_cached_from E (ref_validator s) (ref_validator s1) \<and> same_rq (requests s ! i) (requests s1 ! i) \<and>
    (rq_ok (requests s1 ! i) \<longrightarrow> passed E (ref_validator s) (au_validator s) granted (requests s1 ! i))"
proof (cases "requests s ! i")
  case (Change cr)
  with v obtain ok cr1 rv1 av1 where c: "validate_change E cr (ref_validator s) (au_validator s) = Inr (ok, cr1, rv1, av1)"
    and s1: "s1 = \<lparr>requests = (requests s)[i := Change cr1], ref_validator = rv1, au_validator = av1\<rparr>"
    by (auto simp: validate_request_def rbind_Inr_conv)
  have wf: "request_wf (Change cr)" using inv i Change by (metis sub_inv_def list_all_length)
  have "roa_inv cr" using wf by (simp add: request_wf_def)
  with validate_change_sound [OF c] inv have sound: "cached_from E (au_validator s) av1"
    "ref_cached_from E (ref_validator s) rv1" "same_request cr cr1" "roa_inv cr1"
    "cr_valid cr1 \<longrightarrow> accepted E (ref_validator s) (au_validator s) granted cr1"
    by (auto simp: sub_inv_def)
  have "list_all request_wf ((requests s)[i := Change cr1])"
    using inv same_rq_wf [OF sound(3) wf sound(4)] unfolding sub_inv_def list_all_iff
    by (metis insertE set_update_subset_insert subsetD)
  with inv sound have "sub_inv E s1"
    by (auto simp: sub_inv_def s1 cached_from_ok ref_cached_from_fields)
  with sound Change i show ?thesis
    by (auto simp: s1 same_rq_def passed_def rq_ok_def request_status_def cr_valid_def)
next
  case (Suspend sr)
  with v obtain m where m: "check_override E (au_validator s) = Inr m"
    and s1: "s1 = s\<lparr>requests := (requests s)[i := Suspend (if auth_bool m then sr
      else sr\<lparr>sr_status := ERROR_AUTH, sr_errors := sr_errors sr @ [''Invalid authentication: override password invalid or missing'']\<rparr>)]\<rparr>"
    by (auto simp: validate_request_def validate_suspension_def rbind_Inr_conv split: if_splits)
  have "list_all request_wf (requests s1)"
    using inv unfolding sub_inv_def list_all_iff s1
    by (auto simp: request_wf_def dest!: set_update_subset_insert [THEN subsetD])
  with inv have "sub_inv E s1" by (simp add: sub_inv_def s1)
  with m Suspend i show ?thesis
    by (auto simp: s1 same_rq_def passed_def rq_ok_def request_status_def override_given_def)
qed

lemma validate_requests_sound:
  "validate_requests E is s = Inr s1 \<Longrightarrow> distinct is \<Longrightarrow> \<forall>i \<in> set is. i < length (requests s) \<Longrightarrow> sub_inv E s \<Longrightarrow>
   sub_inv E s1 \<and> cached_from E (au_validator s) (au_validator s1) \<and>
   ref_cached_from E (ref_validator s) (ref_validator s1) \<and>
   (\<forall>i. same_rq (requests s ! i) (requests s1 ! i)) \<and>
   (\<forall>i \<in> set is. rq_ok (requests s1 ! i) \<longrightarrow> passed E (ref_validator s) (au_validator s) granted (requests s1 ! i))"
proof (induction "is" arbitrary: s)
  case (Cons i "is")
  from Cons.prems(1) obtain s2 where a: "validate_request E i s = Inr s2" and b: "validate_requests E is s2 = Inr s1"
    by (auto simp: rbind_Inr_conv)
  note fa = validate_request_frame [OF a] and fb = validate_requests_frame [OF b]
  have sa: "sub_inv E s2" "cached_from E (au_validator s) (au_validator s2)"
    "ref_cached_from E (ref_validator s) (ref_validator s2)" "same_rq (requests s ! i) (requests s2 ! i)"
    "rq_ok (requests s2 ! i) \<Longrightarrow> passed E (ref_validator s) (au_validator s) granted (requests s2 ! i)"
    using validate_request_sound [OF a _ Cons.prems(4)] Cons.prems(3) by auto
  have ih: "sub_inv E s1" "cached_from E (au_validator s2) (au_validator s1)"
    "ref_cached_from E (ref_validator s2) (ref_validator s1)" "\<And>j. same_rq (requests s2 ! j) (requests s1 ! j)"
    "\<And>j. j \<in> set is \<Longrightarrow> rq_ok (requests s1 ! j) \<Longrightarrow> passed E (ref_validator s2) (au_validator s2) granted (requests s1 ! j)"
    using Cons.IH [OF b] Cons.prems fa sa(1) by auto
  have "same_rq (requests s ! j) (requests s1 ! j)" for j
    using ih(4) [of j] sa(4) fa by (cases "j = i") (auto intro: same_rq_trans)
  moreover have "requests s1 ! i = requests s2 ! i" using fb Cons.prems(2) by simp
  then have "\<forall>j \<in> set (i # is). rq_ok (requests s1 ! j) \<longrightarrow>
      passed E (ref_validator s) (au_validator s) granted (requests s1 ! j)"
    using ih(5) sa(5) by (simp add: passed_cached [OF sa(2,3)])
  moreover have "cached_from E (au_validator s) (au_validator s1)" "ref_cached_from E (ref_validator s) (ref_validator s1)"
    using cached_from_trans [OF sa(2) ih(2)] ref_cached_from_trans [OF sa(3) ih(3)] by blast+
  ultimately show ?case using ih(1) by blast
qed simp

section \<open>All rounds\<close>

text \<open>The credentials of a submission do not change.\<close>

definition same_creds :: "'ip auth_validator \<Rightarrow> 'ip auth_validator \<Rightarrow> bool" where
  "same_creds av av1 \<longleftrightarrow> av1\<lparr>mntner_db_cache := [], pre_approved := []\<rparr> = av\<lparr>mntner_db_cache := [], pre_approved := []\<rparr>"

lemma same_creds_refl [simp]: "same_creds av av"
  by (simp add: same_creds_def)

lemma same_creds_trans: "same_creds a b \<Longrightarrow> same_creds b c \<Longrightarrow> same_creds a c"
  by (simp add: same_creds_def)

lemma cached_same_creds: "cached_from E av av1 \<Longrightarrow> same_creds av av1"
  by (auto simp: cached_from_def same_creds_def)

lemma same_creds_fields:
  assumes "same_creds av av1"
  shows "credential E av1 = credential E av" "override_given E av1 = override_given E av"
  using assms unfolding same_creds_def by (metis credentials_reset(1), metis credentials_reset(2))

definition loop_inv :: "'ip update_env \<Rightarrow> 'ip auth_validator \<Rightarrow> 'ip submission \<Rightarrow> bool" where
  "loop_inv E av0 s \<longleftrightarrow> list_all request_wf (requests s) \<and> cache_ok E (mntner_db_cache (au_validator s)) \<and>
     (\<forall>(cls, rpsl_pk, src) \<in> set (rv_cache (ref_validator s)). stored_object E cls rpsl_pk src) \<and>
     set (rv_cache (ref_validator s)) \<inter> refs_of {UR_DELETE} (ok_positions (requests s)) (requests s) = {} \<and>
     same_creds av0 (au_validator s)"

lemma request_is_valid_same:
  "request_is_valid E av rq = Inr (b, rq1) \<Longrightarrow> same_rq rq rq1 \<and> (request_wf rq \<longrightarrow> request_wf rq1)"
  by (cases rq) (auto simp: request_is_valid_def suspension_is_valid_def validate_suspension_def rbind_Inr_conv
      same_rq_def request_wf_def split: if_splits)

lemma valid_requests_same:
  "valid_requests E av k rqs = Inr (js, rqs1) \<Longrightarrow>
   list_all2 (\<lambda>rq rq1. same_rq rq rq1 \<and> (request_wf rq \<longrightarrow> request_wf rq1)) rqs rqs1"
proof (induction rqs arbitrary: k js rqs1)
  case (Cons rq rqs)
  from Cons.prems obtain b rq1 js' rqs' where "request_is_valid E av rq = Inr (b, rq1)"
    "valid_requests E av (Suc k) rqs = Inr (js', rqs')" "rqs1 = rq1 # rqs'" by (auto simp: rbind_Inr_conv)
  then show ?case using Cons.IH request_is_valid_same [of E av rq b rq1] by simp
qed simp

lemma update_valid_same:
  assumes "update_valid E s = Inr (valid, s1)"
  shows "list_all request_wf (requests s) \<Longrightarrow> list_all request_wf (requests s1)"
    "\<And>i. i < length (requests s) \<Longrightarrow> same_rq (requests s ! i) (requests s1 ! i)"
proof -
  from assms have "\<exists>js. valid_requests E (au_validator s) 0 (requests s) = Inr (js, requests s1)"
    by (auto simp: update_valid_def rbind_Inr_conv)
  then have "list_all2 (\<lambda>rq rq1. same_rq rq rq1 \<and> (request_wf rq \<longrightarrow> request_wf rq1)) (requests s) (requests s1)"
    using valid_requests_same by blast
  then show "list_all request_wf (requests s) \<Longrightarrow> list_all request_wf (requests s1)"
    "\<And>i. i < length (requests s) \<Longrightarrow> same_rq (requests s ! i) (requests s1 ! i)"
    by (auto simp: list_all2_conv_all_nth list_all_length)
qed

text \<open>What one round does, from a state that satisfies the invariant.\<close>

lemma round_spec:
  assumes r: "resolve_round E (ok_positions (requests s)) s = Inr (valid1, s1)" and inv: "loop_inv E av0 s"
  obtains rv av where
    "set (preloaded_deleted rv) = refs_of {UR_DELETE} (ok_positions (requests s)) (requests s)"
    "set (preloaded_new rv) = refs_of {UR_CREATE, UR_MODIFY} (ok_positions (requests s)) (requests s)"
    "av = (au_validator s)\<lparr>pre_approved :=
       map pk (List.map_filter (\<lambda>i. potential_new_mntner (requests s ! i)) (ok_positions (requests s)))\<rparr>"
    "\<And>i. i \<in> set valid1 \<Longrightarrow> passed E rv av granted (requests s1 ! i)"
    "\<And>i. i < length (requests s) \<Longrightarrow> same_rq (requests s ! i) (requests s1 ! i)"
    "loop_inv E av0 s1"
proof -
  let ?ok = "ok_positions (requests s)"
  from r obtain s2 s3 where p: "prepare_round ?ok s = Inr s2"
    and v: "validate_requests E ?ok s2 = Inr s3" and u: "update_valid E s3 = Inr (valid1, s1)" by (rule resolve_round_cases)
  note p = prepare_round_spec [OF p]
  have ok2: "\<forall>i \<in> set ?ok. i < length (requests s2)" by (simp add: p(1) set_ok_positions)
  have inv2: "sub_inv E s2" using inv p unfolding sub_inv_def loop_inv_def rv_ok_def by simp
  note vs = validate_requests_sound [OF v distinct_ok_positions ok2 inv2]
  note frame = validate_requests_frame [OF v]
  note us = update_valid_spec [OF u] and usame = update_valid_same [OF u]
  note shrink = resolve_round_shrinks [OF r]
  have same: "same_rq (requests s ! i) (requests s1 ! i)" if "i < length (requests s)" for i
    using vs usame(2) [of i] frame p(1) that by (metis same_rq_trans)
  have ok1: "i \<in> set ?ok \<and> i < length (requests s) \<and> rq_ok (requests s3 ! i) \<and> requests s1 ! i = requests s3 ! i"
    if "i \<in> set valid1" for i
    using that shrink us frame p(1) by (auto simp: set_ok_positions)
  have passed: "passed E (ref_validator s2) (au_validator s2) granted (requests s1 ! i)" if "i \<in> set valid1" for i
    using ok1 [OF that] vs by simp
  have entry: "preload_entry (requests s1 ! i) = preload_entry (requests s ! i)" if "i < length (requests s)" for i
    using same_rq_entry [OF same [OF that]] inv that by (simp add: loop_inv_def list_all_length)
  have "refs_of {UR_DELETE} valid1 (requests s1) \<subseteq> refs_of {UR_DELETE} ?ok (requests s)"
    using ok1 entry by (fastforce simp: refs_of_def)
  moreover have "rv_ok E (ref_validator s1)" "preloaded_deleted (ref_validator s1) = preloaded_deleted (ref_validator s2)"
    using vs us(3) ref_cached_from_fields by (auto simp: sub_inv_def)
  moreover have "same_creds (au_validator s) (au_validator s2)" by (simp add: p(5) same_creds_def)
  then have "same_creds (au_validator s) (au_validator s1)"
    using vs us(4) cached_same_creds same_creds_trans by metis
  ultimately have creds: "same_creds av0 (au_validator s1)"
    and refs: "\<forall>(cls, rpsl_pk, src) \<in> set (rv_cache (ref_validator s1)). stored_object E cls rpsl_pk src"
      "set (rv_cache (ref_validator s1)) \<inter> refs_of {UR_DELETE} (ok_positions (requests s1)) (requests s1) = {}"
    using inv p(3) shrink(1) same_creds_trans by (auto simp: loop_inv_def rv_ok_def)
  have "list_all request_wf (requests s1)" "cache_ok E (mntner_db_cache (au_validator s1))"
    using vs usame(1) us(4) by (simp_all add: sub_inv_def)
  with creds refs have "loop_inv E av0 s1" by (simp add: loop_inv_def)
  from that [OF p(3) p(4) p(5) passed same this] show thesis by simp
qed

interpretation update_rounds: round_invariant E "loop_inv E av0" for E :: "'ip update_env" and av0 :: "'ip auth_validator"
proof
  show "loop_inv E av0 s1" if "loop_inv E av0 s" "resolve_round E (ok_positions (requests s)) s = Inr (valid1, s1)"
    for s s1 :: "'ip submission" and valid1
    using round_spec [OF that(2,1)] by blast
qed

section \<open>New requests\<close>

lemma pk_without_auth: "list_all (\<lambda>(n, c). ''auth'' \<notin> set (pk_fields c)) OBJECT_CLASS_MAPPING"
  by code_simp

lemma from_text_pk_fields:
  assumes "from_text E strict t = Inr obj"
  shows "''auth'' \<notin> set (pk_fields (klass obj))"
proof -
  from assms obtain c where c: "dict_get OBJECT_CLASS_MAPPING (py_strip (takeWhile (\<lambda>c. c \<noteq> CHR '':'') t)) = Some c"
    and i: "rpsl_object_init (e_lib E) (e_settings E) c t strict None = Inr obj"
    by (auto simp: from_text_def rpsl_object_from_text_def Let_def split: option.splits)
  have k0: "klass (new_object c strict None) = c" by (simp add: new_object_def)
  have "klass obj = c"
  proof (cases "t = []")
    case False
    with i have "validate_object (e_lib E) (e_settings E) (extract_attributes_values t (new_object c strict None)) = Inr obj"
      by (simp add: rpsl_object_init_def)
    from validate_object_klass [OF _ this] c show ?thesis by (simp add: extract_keeps k0)
  qed (use i k0 in \<open>auto simp: rpsl_object_init_def\<close>)
  with dict_get_in [OF c] pk_without_auth show ?thesis by (auto simp: list_all_iff)
qed

lemma retrieve_existing_version_wf:
  assumes "retrieve_existing_version E obj src cr = Inr cr1" "request_wf (Change cr)" "cached_roa_validity cr = None"
    "cr_current cr = None" "cr_type cr \<noteq> Some UR_CREATE"
  shows "request_wf (Change cr1) \<and> cached_roa_validity cr1 = None"
proof -
  from assms(1) obtain rows where rows: "object_rows E (class_pk_query src [rpsl_object_class (klass obj)] [pk obj]) = Inr rows"
    by (auto simp: retrieve_existing_version_def rbind_Inr_conv)
  consider "rows = []" | r where "rows = [r]" | r r' rest where "rows = r # r' # rest" by (metis list.exhaust)
  then show ?thesis
  proof cases
    case 1
    then show ?thesis using assms rows
      by (auto simp: retrieve_existing_version_def request_wf_def roa_inv_def split: option.splits)
  next
    case 2
    with assms(1) rows obtain old where cr1: "cr1 = cr\<lparr>cr_type := (case cr_type cr of None \<Rightarrow> Some UR_MODIFY | t \<Rightarrow> t), cr_current := Some old\<rparr>"
      by (auto simp: retrieve_existing_version_def rbind_Inr_conv)
    show ?thesis unfolding cr1 using assms(2-5) by (auto simp: request_wf_def roa_inv_def split: option.splits)
  next
    case 3
    with assms(1) rows show ?thesis by (simp add: retrieve_existing_version_def)
  qed
qed

lemma check_source_and_class_wf:
  assumes "check_source_and_class E obj cr = Inr (cr1, ret)" "request_wf (Change cr)" "cached_roa_validity cr = None"
    "cr_current cr = None" "cr_type cr \<noteq> Some UR_CREATE"
  shows "request_wf (Change cr1) \<and> cached_roa_validity cr1 = None"
proof -
  from assms(1) obtain src where src: "source obj = Inr src" by (auto simp: check_source_and_class_def rbind_Inr_conv)
  consider m st where "cr1 = (cr_error m cr)\<lparr>cr_status := st\<rparr>" | "retrieve_existing_version E obj src cr = Inr cr1"
    using assms(1) src by (auto simp: check_source_and_class_def rbind_Inr_conv Let_def split: if_splits)
  then show ?thesis
  proof cases
    case 1
    then show ?thesis using assms(2-5) by (simp add: request_wf_def roa_inv_def cr_error_def)
  next
    case 2
    from retrieve_existing_version_wf [OF this assms(2-5)] show ?thesis .
  qed
qed

lemma ChangeRequest_wf:
  assumes "ChangeRequest E t delete_reason meta = Inr cr"
  shows "request_wf (Change cr)"
proof -
  from assms obtain F where F: "load_filters (e_lib E) (e_settings E) = Inr F" by (auto simp: ChangeRequest_def rbind_Inr_conv)
  define cr0 where "cr0 = new_change_request t delete_reason F meta"
  have cr0: "cached_roa_validity cr0 = None" "cr_new cr0 = None" "cr_current cr0 = None" "cr_type cr0 \<noteq> Some UR_CREATE"
    by (simp_all add: cr0_def new_change_request_def)
  show ?thesis
  proof (cases "submitted_object E t (cr_type cr0 = Some UR_DELETE)")
    case (Inl e)
    with assms F cr0 have "cr_type cr = None \<and> cached_roa_validity cr = None \<and> cr_new cr = None"
      by (cases e) (auto simp: ChangeRequest_def cr0_def [symmetric])
    then show ?thesis by (simp add: request_wf_def roa_inv_def)
  next
    case (Inr x)
    then obtain obj ns where so: "submitted_object E t (cr_type cr0 = Some UR_DELETE) = Inr (obj, ns)" by (cases x) auto
    then have "\<exists>strict. from_text E strict t = Inr obj"
      by (auto simp: submitted_object_def rbind_Inr_conv Let_def split: if_splits)
    then have pk: "''auth'' \<notin> set (pk_fields (klass obj))" using from_text_pk_fields by blast
    define cr1 where "cr1 = cr0\<lparr>cr_new := Some obj, non_strict_mode := ns,
      cr_status := (if errors (obj_messages obj) = [] then PROCESSING else ERROR_PARSING),
      cr_errors := errors (obj_messages obj), cr_infos := infos (obj_messages obj)\<rparr>"
    have wf1: "request_wf (Change cr1)" using cr0 pk by (simp add: request_wf_def roa_inv_def cr1_def)
    have del: "request_wf (Change (check_deletion_target c)) = request_wf (Change c)" if "cached_roa_validity c = None" for c
      using that by (auto simp: check_deletion_target_def cr_error_def request_wf_def roa_inv_def)
    show ?thesis
    proof (cases "cr_valid cr1")
      case False
      with assms F so have "cr = check_deletion_target cr1" by (simp add: ChangeRequest_def cr0_def [symmetric] cr1_def)
      then show ?thesis using wf1 del [of cr1] cr0 by (simp add: cr1_def)
    next
      case True
      with assms F so obtain cr2 ret where c: "check_source_and_class E obj cr1 = Inr (cr2, ret)"
        and cr: "cr = (if ret then cr2 else check_deletion_target cr2)"
        by (auto simp: ChangeRequest_def cr0_def [symmetric] cr1_def rbind2_Inr)
      have "request_wf (Change cr2) \<and> cached_roa_validity cr2 = None"
        using check_source_and_class_wf [OF c wf1] cr0 by (simp add: cr1_def)
      then show ?thesis using cr del by auto
    qed
  qed
qed

lemma make_request_wf: "make_request E meta ol = Inr rq \<Longrightarrow> request_wf rq"
  by (auto simp: make_request_def rbind_Inr_conv request_wf_def [of "Suspend _"] ChangeRequest_wf split: if_splits)

lemma parse_change_requests_wf:
  assumes "parse_change_requests E blob meta av = Inr (rqs, av1)"
  shows "list_all request_wf rqs" "mntner_db_cache av1 = mntner_db_cache av"
proof -
  obtain ols cd where sp: "split_submission (split_blank (filter (\<lambda>c. c \<noteq> CR) blob))
      \<lparr>cd_passwords = [], cd_overrides = [], cd_api_keys = []\<rparr> = (ols, cd)" by fastforce
  with assms have "rmap (make_request E meta) ols = Inr rqs"
    and av1: "av1 = av\<lparr>passwords := cd_passwords cd, overrides := cd_overrides cd, api_keys := cd_api_keys cd\<rparr>"
    by (auto simp: parse_change_requests_def rbind_Inr_conv)
  with rmap_Inr_in make_request_wf show "list_all request_wf rqs" unfolding list_all_iff by metis
  show "mntner_db_cache av1 = mntner_db_cache av" by (simp add: av1)
qed

end
