(* ===== verification/Update_Examples.thy ===== *)
theory Update_Examples
  imports Update_Handler
begin

text \<open>A small database with one maintainer, and submissions to it; the witnesses evaluate them.\<close>

definition example_settings :: settings where
  "example_settings n =
     (if n \<in> {''sources.TT.authoritative'', ''sources.TT.keep_journal''} then Some (CBool True)
      else if n = ''auth.set_creation.COMMON.prefix_required'' then Some (CBool False)
      else if py_startswith n ''auth.password_hashers.'' then Some (CStr ''enabled'')
      else None)"

definition example_mntner_text :: string where
  "example_mntner_text = concat (map (\<lambda>l. l @ [NL]) [''mntner: MM'', ''auth: MD5-PW MD5-PWx'', ''mnt-by: MM'', ''source: TT''])"

definition example_row :: db_row where
  "example_row = \<lparr>c_rpsl_pk = ''MM'', c_source = ''TT'', c_class = ''mntner'',
     c_parsed = [(''mntner'', PStr ''MM''), (''mnt-by'', PList [''MM'']), (''source'', PStr ''TT'')],
     c_text = example_mntner_text, c_ip_version = None, c_ip_first = None, c_ip_last = None, c_ip_size = None,
     c_prefix = None, c_prefix_length = None, c_asn_first = None, c_asn_last = None, c_rpki = RPKI_not_found,
     c_scope = in_scope, c_pref = pref_visible, c_updated = 0, row_pk = ''1'', row_created = 0\<rparr>"

definition example_env :: "ip3 update_env" where
  "example_env = \<lparr>e_lib = ip3_lib, e_pg = example_pg, e_settings = example_settings,
     e_tables = \<lparr>t_objects = [example_row], t_journal = [], t_status = [], t_suspended = [], t_protected = [], t_roas = []\<rparr>,
     e_auth = \<lparr>ad_mntners = [], ad_tokens = []\<rparr>, uuid_of = Some\<rparr>"

definition example_blob :: "string list \<Rightarrow> string" where
  "example_blob extra = concat (map (\<lambda>l. l @ [NL]) ([''as-set: AS-X'', ''mnt-by: MM'', ''source: TT''] @ extra))"

definition example_submission :: "string list \<Rightarrow> (ip3 request list \<times> ip3 save_state) res" where
  "example_submission extra = load_text_blob bits_radix example_env (\<lambda>_ _. False) (\<lambda>_. []) 1 (example_blob extra)
     from_email None None [] 2 1"

text \<open>One object, which is saved and refers to the maintainer.\<close>

fun saved_with_reference :: "(ip3 request list \<times> ip3 save_state) res \<Rightarrow> bool" where
  "saved_with_reference (Inr ([Change cr], st)) =
     (cr_status cr = SAVED \<and> cr_type cr = Some UR_CREATE \<and> \<not> non_strict_mode cr \<and>
      (case cr_new cr of
         None \<Rightarrow> False
       | Some obj \<Rightarrow> source obj = Inr ''TT'' \<and>
           list_ex (\<lambda>(f, cs, ps). cs = [''mntner''] \<and> ''MM'' \<in> set (pvalue_items ps)) (referred_strong_objects obj)))"
| "saved_with_reference r = False"

lemma example_saved: "saved_with_reference (example_submission [''password: x''])"
  by code_simp

lemma saved_with_reference_cases:
  assumes "saved_with_reference r"
  obtains cr h logs obj field pks where "r = Inr ([Change cr], h, logs)" "cr_status cr = SAVED" "cr_type cr = Some UR_CREATE"
    "\<not> non_strict_mode cr" "cr_new cr = Some obj" "source obj = Inr ''TT''"
    "(field, [''mntner''], pks) \<in> set (referred_strong_objects obj)" "''MM'' \<in> set (pvalue_items pks)"
  using assms by (cases r rule: saved_with_reference.cases) (auto simp: list_ex_iff split: option.splits)

text \<open>
  A \<^verbatim>\<open>domain\<close> object needs no \<^verbatim>\<open>mnt-by\<close>, but authentication reads the attribute without asking
  whether it is there: the exception ends the submission, and nothing of it is processed.
\<close>

definition domain_blob :: string where
  "domain_blob = concat (map (\<lambda>l. l @ [NL])
     [''domain: x'', ''admin-c: PP'', ''tech-c: PP'', ''zone-c: PP'', ''source: TT''])"

fun raises_key_error :: "(ip3 request list \<times> ip3 save_state) res \<Rightarrow> bool" where
  "raises_key_error (Inl (KeyError k)) \<longleftrightarrow> k = ''mnt-by''"
| "raises_key_error r \<longleftrightarrow> False"

lemma missing_mnt_by_raises:
  "raises_key_error (load_text_blob bits_radix example_env (\<lambda>_ _. False) (\<lambda>_. []) 1 domain_blob from_email None None [] 2 1)"
  by code_simp

end
