(* ===== verification/Update_Results.thy ===== *)
theory Update_Results
  imports Update_Saved Update_Examples
begin

text \<open>
  The properties of submissions: who authorised a change that is saved, and that its references
  hold after the submission.
\<close>

section \<open>The requests that remain valid\<close>

definition refers_to :: "'ip rpsl_object \<Rightarrow> string list \<Rightarrow> string \<Rightarrow> string \<Rightarrow> bool" where
  "refers_to obj classes rpsl_pk src \<longleftrightarrow>
     source obj = Inr src \<and>
     (\<exists>field pks. (field, classes, pks) \<in> set (referred_strong_objects obj) \<and> rpsl_pk \<in> set (pvalue_items pks))"

lemma granted_without_approval: "pre_approved av = [] \<Longrightarrow> granted E av = credential E av"
  by (intro ext) (simp add: granted_def)

lemma no_new_mntners:
  assumes same: "\<And>i. i \<in> set valid \<Longrightarrow> same_rq (rqs ! i) (rqs1 ! i)"
    and wf: "\<And>i. i \<in> set valid \<Longrightarrow> request_wf (rqs ! i)"
    and ok: "\<And>i. i \<in> set valid \<Longrightarrow> passed E rv av granted (rqs1 ! i)"
    and no: "\<not> override_given E av"
  shows "List.map_filter (\<lambda>i. potential_new_mntner (rqs ! i)) valid = []"
proof -
  have "potential_new_mntner (rqs ! i) = None" if i: "i \<in> set valid" for i
  proof (rule ccontr)
    assume "potential_new_mntner (rqs ! i) \<noteq> None"
    then obtain cr obj where cr: "rqs ! i = Change cr" "cr_type cr = Some UR_CREATE" "cr_new cr = Some obj" "is_mntner obj"
      by (auto simp: potential_new_mntner_def split: request.splits bool.splits option.splits if_splits)
    with same [OF i] obtain cr1 obj1 where cr1: "rqs1 ! i = Change cr1" "same_request cr cr1"
      "cr_new cr1 = Some obj1" "same_but_auth obj obj1" by (auto simp: same_rq_def same_request_def)
    from cr1 ok [OF i] have "accepted E rv av granted cr1" by (simp add: passed_def)
    with cr1 no obtain obj0 where "same_but_auth obj0 obj1" "authorised_by E av granted obj0 (cr_current cr1)"
      by (auto simp: accepted_def)
    then have "is_mntner obj1 \<longrightarrow> cr_current cr1 \<noteq> None"
      by (auto simp: authorised_by_def is_mntner_def same_but_auth_def)
    moreover have "is_mntner obj1" using cr(4) cr1(4) by (simp add: is_mntner_def same_but_auth_def)
    moreover have "cr_current cr1 = None" using wf [OF i] cr cr1(2) by (simp add: request_wf_def same_request_def)
    ultimately show False by simp
  qed
  then show ?thesis by (induction valid) (simp_all add: List.map_filter_simps)
qed

text \<open>A request that the submission accepts: by whom it is authorised, and what it refers to.\<close>

definition change_holds :: "'ip update_env \<Rightarrow> 'ip auth_validator \<Rightarrow> obj_ref set \<Rightarrow> obj_ref set \<Rightarrow> 'ip change_request \<Rightarrow> bool" where
  "change_holds E av saved deleted cr \<longleftrightarrow>
     (\<exists>obj0 obj. cr_new cr = Some obj \<and> same_but_auth obj0 obj \<and>
        (override_given E av \<or> authorised_by E av credential obj0 (cr_current cr)) \<and>
        (cr_type cr \<noteq> Some UR_DELETE \<and> \<not> non_strict_mode cr \<longrightarrow>
         (\<forall>classes p src. refers_to obj classes p src \<longrightarrow>
            (\<exists>c \<in> set classes. (c, p, src) \<in> saved \<or> stored_object E c p src \<and> (c, p, src) \<notin> deleted))))"

lemma accepted_holds:
  assumes "accepted E rv av granted cr" "override_given E av \<or> pre_approved av = []"
  shows "change_holds E av (set (preloaded_new rv)) (set (preloaded_deleted rv)) cr"
proof -
  from assms(1) obtain obj0 obj where obj: "cr_new cr = Some obj" "same_but_auth obj0 obj"
    "override_given E av \<or> authorised_by E av granted obj0 (cr_current cr)"
    "cr_type cr \<noteq> Some UR_DELETE \<and> \<not> non_strict_mode cr \<longrightarrow> references_exist E rv obj"
    by (auto simp: accepted_def)
  have "authorised_by E av granted obj0 (cr_current cr) = authorised_by E av credential obj0 (cr_current cr)"
    if "pre_approved av = []" unfolding authorised_by_def granted_without_approval [OF that] ..
  with obj(3) assms(2) have auth: "override_given E av \<or> authorised_by E av credential obj0 (cr_current cr)" by blast
  have "\<exists>c \<in> set classes. (c, p, src) \<in> set (preloaded_new rv)
      \<or> stored_object E c p src \<and> (c, p, src) \<notin> set (preloaded_deleted rv)"
    if "references_exist E rv obj" "refers_to obj classes p src" for classes p src
    using that unfolding references_exist_def reference_exists_def refers_to_def by blast
  with obj auth show ?thesis unfolding change_holds_def by blast
qed

lemma refs_of_same:
  assumes "\<And>i. i \<in> set valid \<Longrightarrow> preload_entry (rqs1 ! i) = preload_entry (rqs ! i)"
  shows "refs_of ts valid rqs1 = refs_of ts valid rqs"
  using assms by (auto simp: refs_of_def)

lemma resolved_holds:
  assumes r: "resolve E s = Inr (valid, s1)" and wf: "list_all request_wf (requests s)"
    and fresh: "rv_cache (ref_validator s) = []" "mntner_db_cache (au_validator s) = []"
  shows "valid = ok_positions (requests s1)"
    "\<And>i cr. i \<in> set valid \<Longrightarrow> requests s1 ! i = Change cr \<Longrightarrow>
      change_holds E (au_validator s) (refs_of {UR_CREATE, UR_MODIFY} valid (requests s1)) (refs_of {UR_DELETE} valid (requests s1)) cr"
proof -
  have start: "loop_inv E (au_validator s) s'" if "update_valid E s = Inr (v, s')" for v s'
    using update_valid_spec(3,4) [OF that] update_valid_same(1) [OF that wf] fresh by (simp add: loop_inv_def cache_ok_def)
  have e: "loop_inv E (au_validator s) s1 \<and> valid = ok_positions (requests s1) \<and>
    (valid = [] \<or> (\<exists>s0. loop_inv E (au_validator s) s0 \<and> valid = ok_positions (requests s0)
       \<and> resolve_round E valid s0 = Inr (valid, s1)))"
    using r start by (rule update_rounds.resolve_end)
  then show valid: "valid = ok_positions (requests s1)" by blast
  fix i cr assume i: "i \<in> set valid" and cr: "requests s1 ! i = Change cr"
  with e obtain s0 where inv: "loop_inv E (au_validator s) s0" and v0: "valid = ok_positions (requests s0)"
    and rnd: "resolve_round E (ok_positions (requests s0)) s0 = Inr (valid, s1)" by auto
  from round_spec [OF rnd inv] obtain rv av where
    del: "set (preloaded_deleted rv) = refs_of {UR_DELETE} valid (requests s0)" and
    new: "set (preloaded_new rv) = refs_of {UR_CREATE, UR_MODIFY} valid (requests s0)" and
    av: "av = (au_validator s0)\<lparr>pre_approved := map pk (List.map_filter (\<lambda>i. potential_new_mntner (requests s0 ! i)) valid)\<rparr>" and
    ok: "\<And>i. i \<in> set valid \<Longrightarrow> passed E rv av granted (requests s1 ! i)" and
    same: "\<And>i. i < length (requests s0) \<Longrightarrow> same_rq (requests s0 ! i) (requests s1 ! i)"
    unfolding v0 [symmetric] by metis
  have in0: "j < length (requests s0)" if "j \<in> set valid" for j using that v0 by (simp add: set_ok_positions)
  have wf0: "request_wf (requests s0 ! j)" if "j \<in> set valid" for j
    using inv in0 [OF that] by (simp add: loop_inv_def list_all_length)
  have entries: "refs_of ts valid (requests s0) = refs_of ts valid (requests s1)" for ts
    by (rule refs_of_same) (rule same_rq_entry [OF same [OF in0] wf0, symmetric])
  have "same_creds (au_validator s) av" using inv unfolding av loop_inv_def same_creds_def by simp
  note creds = same_creds_fields [OF this]
  have "override_given E av \<or> pre_approved av = []"
    using no_new_mntners [OF same [OF in0] wf0 ok] av by auto
  moreover have "accepted E rv av granted cr" using ok [OF i] cr by (simp add: passed_def)
  ultimately have "change_holds E av (set (preloaded_new rv)) (set (preloaded_deleted rv)) cr" by (rule accepted_holds [rotated])
  then show "change_holds E (au_validator s) (refs_of {UR_CREATE, UR_MODIFY} valid (requests s1))
      (refs_of {UR_DELETE} valid (requests s1)) cr"
    unfolding change_holds_def authorised_by_def creds del new entries .
qed

section \<open>The requests that are saved\<close>

definition saved_rel :: "'ip request \<Rightarrow> 'ip request \<Rightarrow> bool" where
  "saved_rel rq rq1 =
     (case rq of
        Suspend sr \<Rightarrow> (\<exists>sr1. rq1 = Suspend sr1)
      | Change cr \<Rightarrow> (\<exists>cr1. rq1 = Change cr1 \<and> cr_new cr1 = cr_new cr \<and> cr_type cr1 = cr_type cr \<and>
          cr_current cr1 = cr_current cr \<and> non_strict_mode cr1 = non_strict_mode cr \<and>
          (if cr_valid cr then cr_status cr1 = SAVED else cr1 = cr)))"

lemma save_change_rel:
  assumes "save_change L gs isoformat now cr st = Inr (cr1, st1)"
  shows "cr_status cr1 = SAVED \<and> cr_new cr1 = cr_new cr \<and> cr_type cr1 = cr_type cr \<and> cr_current cr1 = cr_current cr \<and>
    non_strict_mode cr1 = non_strict_mode cr"
proof -
  obtain h logs where st: "st = (h, logs)" by (cases st)
  from assms st obtain obj where obj: "cr_status cr = PROCESSING" "cr_new cr = Some obj"
    by (auto simp: save_change_def split: bool.splits option.splits)
  from assms[unfolded save_change_def] st obj obtain identical h1 where
    "(if identical
      then Inr (cr\<lparr>cr_infos := cr_infos cr @ [''Submitted object was identical to current object, no change recorded.''],
                   cr_status := SAVED\<rparr>, h1, logs)
      else rbind (case cr_auth_result cr of None \<Rightarrow> Inr logs
                  | Some r \<Rightarrow> rbind (log_entry gs cr obj r) (\<lambda>e. Inr (logs @ [e]))) (\<lambda>logs1.
             Inr (cr\<lparr>cr_status := SAVED\<rparr>, h1, logs1))) = Inr (cr1, st1)"
    by (simp add: rbind2_Inr) blast
  then show ?thesis by (auto simp: rbind_Inr_conv split: if_splits)
qed

lemma save_requests_rel:
  "save_requests E isoformat now av rqs st = Inr (rqs1, st1) \<Longrightarrow> list_all2 saved_rel rqs rqs1"
proof (induction rqs arbitrary: st rqs1)
  case (Cons rq rqs)
  from Cons.prems obtain b rq' rq1 st' rqs' where v: "request_is_valid E av rq = Inr (b, rq')"
    and sv: "(if b then save_request E isoformat now rq' st else Inr (rq', st)) = Inr (rq1, st')"
    and rest: "save_requests E isoformat now av rqs st' = Inr (rqs', st1)" and r: "rqs1 = rq1 # rqs'"
    by (auto simp: rbind2_Inr)
  have "saved_rel rq rq1"
  proof (cases rq)
    case (Change cr)
    with v have b: "b = cr_valid cr" "rq' = Change cr" by (auto simp: request_is_valid_def)
    show ?thesis
    proof (cases "cr_valid cr")
      case True
      with sv b obtain cr1 where "save_change (e_lib E) (e_settings E) isoformat now cr st = Inr (cr1, st')" "rq1 = Change cr1"
        by (auto simp: save_request_def rbind2_Inr)
      from save_change_rel [OF this(1)] this(2) Change True show ?thesis by (simp add: saved_rel_def)
    next
      case False
      with sv b have "rq1 = Change cr" by simp
      with Change False show ?thesis by (simp add: saved_rel_def)
    qed
  next
    case (Suspend sr)
    with v obtain sr1 where "rq' = Suspend sr1" by (auto simp: request_is_valid_def rbind2_Inr)
    with sv Suspend show ?thesis
      by (auto simp: saved_rel_def save_request_def rbind2_Inr split: if_splits prod.splits)
  qed
  then show ?case using Cons.IH [OF rest] r by simp
qed simp

text \<open>The keys of the changes of some types that a submission saved.\<close>

definition saved_refs :: "update_request_type set \<Rightarrow> 'ip request list \<Rightarrow> obj_ref set" where
  "saved_refs ts results =
     {ref. \<exists>cr t obj. Change cr \<in> set results \<and> cr_status cr = SAVED \<and> cr_type cr = Some t \<and> t \<in> ts \<and>
        cr_new cr = Some obj \<and> object_ref obj = Inr ref}"

lemma saved_position:
  assumes "list_all2 saved_rel rqs results" "Change cr \<in> set results" "cr_status cr = SAVED"
  shows "\<exists>i \<in> set (ok_positions rqs). \<exists>cr0. rqs ! i = Change cr0 \<and> cr_new cr = cr_new cr0 \<and> cr_type cr = cr_type cr0 \<and>
    cr_current cr = cr_current cr0 \<and> non_strict_mode cr = non_strict_mode cr0"
proof -
  from assms(2) obtain i where i: "i < length results" "results ! i = Change cr" by (auto simp: in_set_conv_nth)
  from list_all2_nthD2 [OF assms(1) i(1)] i(2) obtain cr0 where cr0: "rqs ! i = Change cr0"
    "cr_new cr = cr_new cr0" "cr_type cr = cr_type cr0" "cr_current cr = cr_current cr0"
    "non_strict_mode cr = non_strict_mode cr0" "cr_valid cr0 \<or> cr = cr0"
    by (auto simp: saved_rel_def split: request.splits if_splits)
  then have "cr_valid cr0" using assms(3) by (auto simp: cr_valid_def)
  then have "i \<in> set (ok_positions rqs)" using i(1) cr0(1) list_all2_lengthD [OF assms(1)]
    by (simp add: set_ok_positions rq_ok_def request_status_def cr_valid_def)
  with cr0 show ?thesis by blast
qed

lemma saved_refs_of:
  assumes "list_all2 saved_rel rqs results"
  shows "saved_refs ts results = refs_of ts (ok_positions rqs) rqs"
proof (intro equalityI subsetI)
  fix ref assume "ref \<in> saved_refs ts results"
  then obtain cr t obj where cr: "Change cr \<in> set results" "cr_status cr = SAVED" "cr_type cr = Some t" "t \<in> ts"
    "cr_new cr = Some obj" "object_ref obj = Inr ref" by (auto simp: saved_refs_def)
  from saved_position [OF assms cr(1,2)] obtain i cr0 where i: "i \<in> set (ok_positions rqs)" "rqs ! i = Change cr0"
    "cr_new cr0 = Some obj" "cr_type cr0 = Some t" using cr by auto
  then have "preload_entry (rqs ! i) = Inr (Some t, ref)" using cr(6) by (simp add: preload_entry_def)
  then show "ref \<in> refs_of ts (ok_positions rqs) rqs" using i(1) cr(4) by (auto simp: refs_of_def)
next
  fix ref assume "ref \<in> refs_of ts (ok_positions rqs) rqs"
  then obtain i t where i: "i < length rqs" "rq_ok (rqs ! i)" "t \<in> ts" "preload_entry (rqs ! i) = Inr (Some t, ref)"
    by (auto simp: refs_of_def set_ok_positions)
  then obtain cr obj where cr: "rqs ! i = Change cr" "cr_new cr = Some obj" "cr_type cr = Some t" "object_ref obj = Inr ref"
    by (auto simp: preload_entry_def rbind_Inr_conv split: request.splits option.splits)
  from list_all2_nthD [OF assms i(1)] cr i(2) obtain cr1 where "results ! i = Change cr1" "cr_status cr1 = SAVED"
    "cr_new cr1 = Some obj" "cr_type cr1 = Some t" by (auto simp: saved_rel_def rq_ok_def request_status_def cr_valid_def)
  moreover have "results ! i \<in> set results" using assms i(1) by (simp add: list_all2_lengthD)
  ultimately show "ref \<in> saved_refs ts results" using i(3) cr(4) unfolding saved_refs_def by auto
qed

section \<open>Submissions\<close>

lemma handled_changes_hold:
  assumes h: "handle_change_requests E isoformat now s st = Inr (results, st1)" and wf: "list_all request_wf (requests s)"
    and fresh: "rv_cache (ref_validator s) = []" "mntner_db_cache (au_validator s) = []"
    and cr: "Change cr \<in> set results" "cr_status cr = SAVED"
  shows "change_holds E (au_validator s) (saved_refs {UR_CREATE, UR_MODIFY} results) (saved_refs {UR_DELETE} results) cr"
proof -
  from h obtain valid s1 where r: "resolve E s = Inr (valid, s1)"
    and sv: "save_requests E isoformat now (au_validator s1) (requests s1) st = Inr (results, st1)"
    by (auto simp: handle_change_requests_def rbind2_Inr)
  note res = resolved_holds [OF r wf fresh] and rel = save_requests_rel [OF sv]
  from saved_position [OF rel cr] obtain i cr0 where i: "i \<in> set valid" "requests s1 ! i = Change cr0"
    and same: "cr_new cr = cr_new cr0" "cr_type cr = cr_type cr0" "cr_current cr = cr_current cr0"
      "non_strict_mode cr = non_strict_mode cr0" using res(1) by auto
  from res(2) [OF i] show ?thesis unfolding change_holds_def same saved_refs_of [OF rel] res(1) .
qed

lemma commit_submission_results:
  "commit_submission R E cidr_overlaps now (rqs, h, logs) = Inr (results, st) \<Longrightarrow> results = rqs"
  by (cases "commit R (e_lib E) cidr_overlaps (e_settings E) now h")
    (auto simp: commit_submission_def split: option.splits)

lemma blob_changes_hold:
  assumes l: "load_text_blob R E cidr_overlaps isoformat now blob orig pgp_fp user meta pks globals = Inr (results, h, logs)"
    and cr: "Change cr \<in> set results" "cr_status cr = SAVED"
  shows "\<exists>key rqs av. parse_change_requests E blob meta (AuthValidator orig key user None) = Inr (rqs, av) \<and>
    change_holds E av (saved_refs {UR_CREATE, UR_MODIFY} results) (saved_refs {UR_DELETE} results) cr"
proof -
  from l obtain key rqs av where p: "parse_change_requests E blob meta (AuthValidator orig key user None) = Inr (rqs, av)"
    and s: "submit R E cidr_overlaps isoformat now \<lparr>requests = rqs, ref_validator = ReferenceValidator, au_validator = av\<rparr>
      (DatabaseHandler (e_settings E) False (e_tables E) pks globals) = Inr (results, h, logs)"
    by (auto simp: load_text_blob_def rbind_Inr_conv Let_def)
  from s obtain st1 where hc: "handle_change_requests E isoformat now
      \<lparr>requests = rqs, ref_validator = ReferenceValidator, au_validator = av\<rparr>
      (DatabaseHandler (e_settings E) False (e_tables E) pks globals, []) = Inr (results, st1)"
    by (auto simp: submit_def rbind_Inr_conv dest: commit_submission_results)
  from handled_changes_hold [OF hc] parse_change_requests_wf [OF p] cr p show ?thesis
    by (auto simp: ReferenceValidator_def AuthValidator_def)
qed





end
