(* ===== verification/Preload.thy ===== *)
theory Preload
  imports Queries
begin

text \<open>
  \<^verbatim>\<open>irrd/storage/preload.py\<close>: the store of prefixes for each origin and of the members of sets, from
  which set queries are answered. A \<open>PreloadUpdater\<close> reads the visible objects of the database and
  writes them to four hashes of a Redis server, with texts as values; a \<open>Preloader\<close> reads the hashes
  into memory and answers from there. A set of texts is a list without duplicates in the order of
  insertion; nothing that is shown about it depends on the order. The Redis server keeps what is
  written; losing the connection to it is not modelled, and \<open>_memory_loaded\<close> is the existence of the
  store in memory.
\<close>

section \<open>The store in memory\<close>

definition SENTINEL_HASH_CREATED :: string where
  "SENTINEL_HASH_CREATED = ''SENTINEL_HASH_CREATED''"

definition REDIS_PRELOAD_ALL_MESSAGE :: string where
  "REDIS_PRELOAD_ALL_MESSAGE = ''unknown-classes-changed-preload-all''"

abbreviation REDIS_CONTENTS_LIST_SEPARATOR :: char where "REDIS_CONTENTS_LIST_SEPARATOR \<equiv> CHR '',''"
abbreviation REDIS_KEY_PK_SOURCE_SEPARATOR :: char where "REDIS_KEY_PK_SOURCE_SEPARATOR \<equiv> CHR 0x5F"

type_synonym source_store = "(string, (string, string) dict) dict"

record preload_store =
  origin_route4_store :: source_store
  origin_route6_store :: source_store
  as_set_store :: source_store
  route_set_store :: source_store

definition store_get :: "source_store \<Rightarrow> string \<Rightarrow> string \<Rightarrow> string option" where
  "store_get store src key = (case dict_get store src of None \<Rightarrow> None | Some d \<Rightarrow> dict_get d key)"

fun set_in_sources :: "source_store \<Rightarrow> string list \<Rightarrow> string \<Rightarrow> string list option" where
  "set_in_sources store [] set_pk = None"
| "set_in_sources store (src # srcs) set_pk =
     (case store_get store src set_pk of
        Some members \<Rightarrow> Some (py_split REDIS_CONTENTS_LIST_SEPARATOR members)
      | None \<Rightarrow> set_in_sources store srcs set_pk)"

definition set_members :: "preload_store \<Rightarrow> string \<Rightarrow> string list \<Rightarrow> string list \<Rightarrow> (string list \<times> string) option" where
  "set_members P set_pk srcs classes =
     (let key = py_upper set_pk;
          wanted = (\<lambda>c. classes = [] \<or> c \<in> set classes)
      in case (if wanted ''as-set'' then set_in_sources (as_set_store P) srcs key else None) of
           Some members \<Rightarrow> Some (members, ''as-set'')
         | None \<Rightarrow>
             (case (if wanted ''route-set'' then set_in_sources (route_set_store P) srcs key else None) of
                Some members \<Rightarrow> Some (members, ''route-set'')
              | None \<Rightarrow> None))"

definition stored_prefixes :: "source_store \<Rightarrow> string \<Rightarrow> string \<Rightarrow> string list" where
  "stored_prefixes store src orig =
     (case store_get store src orig of None \<Rightarrow> [] | Some s \<Rightarrow> py_split REDIS_CONTENTS_LIST_SEPARATOR s)"

definition version_wanted :: "nat option \<Rightarrow> nat \<Rightarrow> bool" where
  "version_wanted ip_ver v \<longleftrightarrow> ip_ver = None \<or> ip_ver = Some 0 \<or> ip_ver = Some v"

definition routes_for_origins :: "preload_store \<Rightarrow> string list \<Rightarrow> string list \<Rightarrow> nat option \<Rightarrow> string list res" where
  "routes_for_origins P origins srcs ip_ver =
     (if \<not> version_wanted ip_ver 4 \<and> \<not> version_wanted ip_ver 6
      then Inl (ValueError (''Invalid IP version: '' @ str_nat (the ip_ver)))
      else Inr (remdups (concat (map (\<lambda>src. concat (map (\<lambda>orig.
             (if version_wanted ip_ver 4 then stored_prefixes (origin_route4_store P) src orig else [])
             @ (if version_wanted ip_ver 6 then stored_prefixes (origin_route6_store P) src orig else []))
             origins)) srcs))))"

section \<open>The hashes of the Redis server\<close>

type_synonym redis_hash = "(string, string) dict"

text \<open>A hash that does not exist is \<open>None\<close>.\<close>

record redis =
  h_route4 :: "redis_hash option"
  h_route6 :: "redis_hash option"
  h_as_set :: "redis_hash option"
  h_route_set :: "redis_hash option"

definition decode_ascii :: "string \<Rightarrow> string res" where
  "decode_ascii s = (if list_all (\<lambda>c. ord c < 128) s then Inr s else Inl (ValueError ''ordinal not in range(128)''))"

fun load_hash :: "redis_hash \<Rightarrow> source_store \<Rightarrow> source_store res" where
  "load_hash [] target = Inr target"
| "load_hash ((key, routes) # h) target =
     (if key = SENTINEL_HASH_CREATED then load_hash h target
      else rbind (decode_ascii key) (\<lambda>k.
           if REDIS_KEY_PK_SOURCE_SEPARATOR \<notin> set k
           then Inl (ValueError ''not enough values to unpack (expected 2, got 1)'')
           else rbind (decode_ascii routes) (\<lambda>r.
             (case py_split1 REDIS_KEY_PK_SOURCE_SEPARATOR k of (src, orig) \<Rightarrow>
                load_hash h (dict_set src (dict_set orig r (case dict_get target src of None \<Rightarrow> [] | Some d \<Rightarrow> d)) target)))))"

definition hgetall :: "redis_hash option \<Rightarrow> redis_hash" where
  "hgetall h = (case h of None \<Rightarrow> [] | Some d \<Rightarrow> d)"

text \<open>Loading waits for the IPv4 hash: \<open>None\<close> is a load that has to wait.\<close>

definition load_preload_data_into_memory :: "redis \<Rightarrow> preload_store res option" where
  "load_preload_data_into_memory R =
     (if h_route4 R = None then None
      else Some (
        rbind (load_hash (hgetall (h_route4 R)) []) (\<lambda>route4.
        rbind (load_hash (hgetall (h_route6 R)) []) (\<lambda>route6.
        rbind (load_hash (hgetall (h_as_set R)) []) (\<lambda>as_sets.
        rbind (load_hash (hgetall (h_route_set R)) []) (\<lambda>route_sets.
          Inr \<lparr>origin_route4_store = route4, origin_route6_store = route6, as_set_store = as_sets,
               route_set_store = route_sets\<rparr>))))))"

definition clear_existing_data :: "redis \<Rightarrow> redis" where
  "clear_existing_data R = R\<lparr>h_route4 := None, h_route6 := None, h_as_set := None\<rparr>"

type_synonym member_store = "(string, string list) dict"

text \<open>Sets are stored as texts; the sentinel makes the hash exist when it is empty.\<close>

definition store_hash :: "member_store \<Rightarrow> redis_hash" where
  "store_hash store =
     dict_set SENTINEL_HASH_CREATED ''1'' (map (\<lambda>(k, vs). (k, py_join [REDIS_CONTENTS_LIST_SEPARATOR] vs)) store)"

definition update_route_store :: "member_store \<Rightarrow> member_store \<Rightarrow> redis \<Rightarrow> redis" where
  "update_route_store route4 route6 R = R\<lparr>h_route4 := Some (store_hash route4), h_route6 := Some (store_hash route6)\<rparr>"

definition update_as_set_store :: "member_store \<Rightarrow> redis \<Rightarrow> redis" where
  "update_as_set_store store R = R\<lparr>h_as_set := Some (store_hash store)\<rparr>"

definition update_route_set_store :: "member_store \<Rightarrow> redis \<Rightarrow> redis" where
  "update_route_set_store store R = R\<lparr>h_route_set := Some (store_hash store)\<rparr>"

section \<open>Reading the database\<close>

definition add_member :: "string \<Rightarrow> string \<Rightarrow> member_store \<Rightarrow> member_store" where
  "add_member key v store =
     (let vs = (case dict_get store key of None \<Rightarrow> [] | Some vs \<Rightarrow> vs)
      in dict_set key (if v \<in> set vs then vs else vs @ [v]) store)"

definition redis_key :: "string \<Rightarrow> string \<Rightarrow> string" where
  "redis_key src key = src @ [REDIS_KEY_PK_SOURCE_SEPARATOR] @ key"

definition preload_rows :: "pg_lib \<Rightarrow> tables \<Rightarrow> db_row query res \<Rightarrow> db_row list res" where
  "preload_rows PG T query = rbind query (\<lambda>q. Inr (run_query (finalise_statement PG object_columns q) (t_objects T)))"

definition unordered_query :: "db_row query" where
  "unordered_query = BaseRPSLObjectDatabaseQuery True False []"

definition shown_column :: "('a \<Rightarrow> string) \<Rightarrow> 'a option \<Rightarrow> string" where
  "shown_column f v = (case v of None \<Rightarrow> ''None'' | Some x \<Rightarrow> f x)"

definition route_prefix :: "db_row \<Rightarrow> string" where
  "route_prefix r = shown_column id (c_ip_first r) @ ''/'' @ shown_column str_nat (c_prefix_length r)"

definition route_origin :: "db_row \<Rightarrow> string" where
  "route_origin r = ''AS'' @ shown_column str_int (c_asn_first r)"

definition add_route_row :: "nat \<Rightarrow> db_row \<Rightarrow> member_store \<Rightarrow> member_store" where
  "add_route_row v r store =
     (if c_ip_version r = Some v then add_member (redis_key (c_source r) (route_origin r)) (route_prefix r) store
      else store)"

definition update_routes :: "pg_lib \<Rightarrow> tables \<Rightarrow> redis \<Rightarrow> redis res" where
  "update_routes PG T R =
     rbind (preload_rows PG T (rbind (q_object_classes object_columns [''route'', ''route6''] unordered_query)
              default_suppression)) (\<lambda>rows.
       Inr (update_route_store (fold (add_route_row 4) rows []) (fold (add_route_row 6) rows []) R))"

text \<open>The members that a set lists itself, and the maintainers whose objects may join it.\<close>

type_synonym mbrs_by_ref = "((string \<times> string), string list) dict"

fun list_concat :: "pvalue \<Rightarrow> pvalue \<Rightarrow> string list res" where
  "list_concat (PList a) (PList b) = Inr (a @ b)"
| "list_concat (PStr a) (PStr b) = Inr (map (\<lambda>c. [c]) (a @ b))"
| "list_concat _ _ = Inl (TypeError ''can only concatenate list (not \"str\") to list'')"

definition parsed_or_empty :: "db_row \<Rightarrow> string \<Rightarrow> pvalue" where
  "parsed_or_empty r name = (case dict_get (c_parsed r) name of None \<Rightarrow> PList [] | Some v \<Rightarrow> v)"

fun read_sets :: "db_row list \<Rightarrow> member_store \<Rightarrow> mbrs_by_ref \<Rightarrow> (member_store \<times> mbrs_by_ref) res" where
  "read_sets [] store by_ref = Inr (store, by_ref)"
| "read_sets (r # rs) store by_ref =
     rbind (list_concat (parsed_or_empty r ''members'') (parsed_or_empty r ''mp-members'')) (\<lambda>members.
       (let mntners = remdups (pvalue_items (parsed_or_empty r ''mbrs-by-ref''))
        in read_sets rs (dict_set (redis_key (c_source r) (c_rpsl_pk r)) (remdups members) store)
             (if mntners = [] then by_ref else dict_set (c_source r, c_rpsl_pk r) mntners by_ref)))"

text \<open>One attribute \<open>member-of\<close> of an object that joins sets by reference.\<close>

definition may_join :: "db_row \<Rightarrow> string list \<Rightarrow> bool res" where
  "may_join r expected =
     (if ''ANY'' \<in> set expected then Inr True
      else case dict_get (c_parsed r) ''mnt-by'' of
             None \<Rightarrow> Inl (KeyError ''mnt-by'')
           | Some v \<Rightarrow> Inr (list_ex (\<lambda>m. m \<in> set expected) (pvalue_items v)))"

definition own_name :: "db_row \<Rightarrow> string res" where
  "own_name r =
     (case dict_get (c_parsed r) (c_class r) of
        None \<Rightarrow> Inl (KeyError (c_class r))
      | Some (PStr s) \<Rightarrow> Inr s
      | Some (PList vs) \<Rightarrow> Inl (TypeError ''unhashable type: list''))"

definition add_to_known :: "string \<Rightarrow> string \<Rightarrow> member_store \<Rightarrow> member_store res" where
  "add_to_known key name store =
     (case dict_get store key of None \<Rightarrow> Inl (KeyError key) | Some vs \<Rightarrow> Inr (add_member key name store))"

fun join_sets :: "mbrs_by_ref \<Rightarrow> db_row \<Rightarrow> string list \<Rightarrow> member_store \<Rightarrow> member_store res" where
  "join_sets by_ref r [] store = Inr store"
| "join_sets by_ref r (member_of # ms) store =
     (case dict_get by_ref (c_source r, member_of) of
        None \<Rightarrow> join_sets by_ref r ms store
      | Some expected \<Rightarrow>
          rbind (may_join r expected) (\<lambda>ok.
            if ok then rbind (own_name r) (\<lambda>name.
                         rbind (add_to_known (redis_key (c_source r) member_of) name store) (join_sets by_ref r ms))
            else join_sets by_ref r ms store))"

fun read_members :: "mbrs_by_ref \<Rightarrow> db_row list \<Rightarrow> member_store \<Rightarrow> member_store res" where
  "read_members by_ref [] store = Inr store"
| "read_members by_ref (r # rs) store =
     rbind (join_sets by_ref r (pvalue_items (parsed_or_empty r ''member-of'')) store) (read_members by_ref rs)"

definition set_rows :: "pg_lib \<Rightarrow> tables \<Rightarrow> string \<Rightarrow> db_row list res" where
  "set_rows PG T set_class =
     preload_rows PG T (rbind (q_object_classes object_columns [set_class] unordered_query) default_suppression)"

definition member_rows :: "pg_lib \<Rightarrow> tables \<Rightarrow> string list \<Rightarrow> db_row list res" where
  "member_rows PG T member_classes =
     preload_rows PG T (rbind (lookup_attr ''member-of'' None unordered_query) (\<lambda>q.
       rbind (q_object_classes object_columns member_classes q) default_suppression))"

definition update_set :: "pg_lib \<Rightarrow> tables \<Rightarrow> string \<Rightarrow> string list \<Rightarrow> member_store res" where
  "update_set PG T set_class member_classes =
     rbind (set_rows PG T set_class) (\<lambda>sets.
     rbind (read_sets sets [] []) (\<lambda>(store, by_ref).
     rbind (member_rows PG T member_classes) (\<lambda>rows. read_members by_ref rows store)))"

text \<open>A thread that updates the store. It writes in steps; when one raises, the earlier ones stay.\<close>

record updater =
  up_routes :: bool
  up_as_sets :: bool
  up_route_sets :: bool

definition update_step :: "bool \<Rightarrow> (redis \<Rightarrow> redis res) \<Rightarrow> redis \<times> exn option \<Rightarrow> redis \<times> exn option" where
  "update_step wanted f st =
     (case st of
        (R, Some e) \<Rightarrow> (R, Some e)
      | (R, None) \<Rightarrow> if \<not> wanted then (R, None) else (case f R of Inl e \<Rightarrow> (R, Some e) | Inr R1 \<Rightarrow> (R1, None)))"

definition preload_update :: "pg_lib \<Rightarrow> tables \<Rightarrow> updater \<Rightarrow> redis \<Rightarrow> redis \<times> exn option" where
  "preload_update PG T u R =
     update_step (up_route_sets u)
       (\<lambda>R. rbind (update_set PG T ''route-set'' [''route'', ''route6'']) (\<lambda>s. Inr (update_route_set_store s R)))
       (update_step (up_as_sets u)
          (\<lambda>R. rbind (update_set PG T ''as-set'' [''aut-num'']) (\<lambda>s. Inr (update_as_set_store s R)))
          (update_step (up_routes u) (update_routes PG T) (R, None)))"

section \<open>The store manager\<close>

text \<open>
  The manager keeps a list of threads and starts a new one for a change unless two are alive. A
  thread waits for the lock, runs, and dies some time after it has released the lock. What the
  flags of a thread hold when it begins to run is what it updates at least.
\<close>

datatype thread_state = Waiting | Running | Releasing | Dead

record reload_thread =
  th_state :: thread_state
  th_flags :: updater

definition message_flags :: "string \<Rightarrow> updater" where
  "message_flags message =
     (let classes = py_split REDIS_CONTENTS_LIST_SEPARATOR message;
          relevant = (\<lambda>cs. message = REDIS_PRELOAD_ALL_MESSAGE \<or> list_ex (\<lambda>c. c \<in> set classes) cs)
      in \<lparr>up_routes = relevant [''route'', ''route6''], up_as_sets = relevant [''as-set'', ''aut-num''],
          up_route_sets = relevant [''route-set'', ''route'', ''route6'']\<rparr>)"

definition signal_reload :: "string list \<Rightarrow> string" where
  "signal_reload changed = (if changed = [] then REDIS_PRELOAD_ALL_MESSAGE else py_join [REDIS_CONTENTS_LIST_SEPARATOR] changed)"

definition is_alive :: "reload_thread \<Rightarrow> bool" where
  "is_alive t \<longleftrightarrow> th_state t \<noteq> Dead"

text \<open>The list is changed while it is iterated over: after a removal the next thread is skipped.\<close>

function remove_dead_from :: "nat \<Rightarrow> reload_thread list \<Rightarrow> reload_thread list" where
  "remove_dead_from i ts =
     (if length ts \<le> i then ts
      else remove_dead_from (Suc i) (if is_alive (ts ! i) then ts else take i ts @ drop (Suc i) ts))"
  by pat_completeness auto
termination by (relation "measure (\<lambda>(i, ts). length ts - i)") auto

declare remove_dead_from.simps [simp del]

definition remove_dead_threads :: "reload_thread list \<Rightarrow> reload_thread list" where
  "remove_dead_threads ts = remove_dead_from 0 ts"

definition merge_flags :: "updater \<Rightarrow> updater \<Rightarrow> updater" where
  "merge_flags u v = \<lparr>up_routes = up_routes v \<or> up_routes u, up_as_sets = up_as_sets v \<or> up_as_sets u,
     up_route_sets = up_route_sets v \<or> up_route_sets u\<rparr>"

definition perform_reload :: "string \<Rightarrow> reload_thread list \<Rightarrow> reload_thread list" where
  "perform_reload message ts =
     (let flags = message_flags message
      in if \<not> (up_routes flags \<or> up_as_sets flags \<or> up_route_sets flags) then ts
         else (let ts1 = remove_dead_threads (map (\<lambda>t. t\<lparr>th_flags := merge_flags flags (th_flags t)\<rparr>) ts)
               in if length ts1 > 1 then ts1
                  else ts1 @ [\<lparr>th_state = Waiting, th_flags = flags\<rparr>]))"

end
