(* ===== verification/Preload_Threads.thy ===== *)
theory Preload_Threads
  imports Preload
begin

text \<open>
  The threads of the preload store manager as a transition system: the manager handles a reload
  message, a waiting thread takes the lock when no other holds it, a running thread releases it, and
  dies later. At most two threads are kept, at most one runs, and a change is not lost: a thread
  that has not begun its update will cover it.
\<close>

definition covers :: "updater \<Rightarrow> updater \<Rightarrow> bool" where
  "covers u flags \<longleftrightarrow> (up_routes flags \<longrightarrow> up_routes u) \<and> (up_as_sets flags \<longrightarrow> up_as_sets u) \<and>
     (up_route_sets flags \<longrightarrow> up_route_sets u)"

definition some_flag :: "updater \<Rightarrow> bool" where
  "some_flag flags \<longleftrightarrow> up_routes flags \<or> up_as_sets flags \<or> up_route_sets flags"

lemma covers_merge [simp]: "covers (merge_flags flags u) flags"
  by (simp add: covers_def merge_flags_def)

lemma covers_refl [simp]: "covers flags flags"
  by (simp add: covers_def)

section \<open>Steps\<close>

inductive thread_step :: "reload_thread list \<Rightarrow> reload_thread list \<Rightarrow> bool" where
  acquire: "i < length ts \<Longrightarrow> th_state (ts ! i) = Waiting \<Longrightarrow> \<forall>t \<in> set ts. th_state t \<noteq> Running \<Longrightarrow>
    thread_step ts (ts[i := (ts ! i)\<lparr>th_state := Running\<rparr>])"
| release: "i < length ts \<Longrightarrow> th_state (ts ! i) = Running \<Longrightarrow> thread_step ts (ts[i := (ts ! i)\<lparr>th_state := Releasing\<rparr>])"
| die: "i < length ts \<Longrightarrow> th_state (ts ! i) = Releasing \<Longrightarrow> thread_step ts (ts[i := (ts ! i)\<lparr>th_state := Dead\<rparr>])"

inductive manager_step :: "reload_thread list \<Rightarrow> reload_thread list \<Rightarrow> bool" where
  reload: "manager_step ts (perform_reload message ts)"
| thread: "thread_step ts ts' \<Longrightarrow> manager_step ts ts'"

inductive_cases thread_step_E: "thread_step ts ts'"

section \<open>Invariant\<close>

definition running :: "reload_thread list \<Rightarrow> nat" where
  "running ts = length (filter (\<lambda>t. th_state t = Running) ts)"

definition threads_ok :: "reload_thread list \<Rightarrow> bool" where
  "threads_ok ts \<longleftrightarrow> length ts \<le> 2 \<and> running ts \<le> 1"

lemma remove_dead_threads_two:
  "remove_dead_threads [] = []"
  "remove_dead_threads [a] = (if is_alive a then [a] else [])"
  "remove_dead_threads [a, b] = (if is_alive a then (if is_alive b then [a, b] else [a]) else [b])"
  by (simp_all add: remove_dead_threads_def remove_dead_from.simps)

lemma two_cases:
  assumes "length ts \<le> 2"
  obtains "ts = []" | a where "ts = [a]" | a b where "ts = [a, b]"
  using assms by (cases ts rule: list.exhaust; cases "tl ts"; cases "tl (tl ts)") auto

lemma is_alive_flags [simp]: "is_alive (t\<lparr>th_flags := f\<rparr>) = is_alive t"
  by (simp add: is_alive_def)

lemma perform_reload_relevant:
  "some_flag (message_flags message) \<Longrightarrow> perform_reload message ts =
     (let ts1 = remove_dead_threads (map (\<lambda>t. t\<lparr>th_flags := merge_flags (message_flags message) (th_flags t)\<rparr>) ts)
      in if length ts1 > 1 then ts1 else ts1 @ [\<lparr>th_state = Waiting, th_flags = message_flags message\<rparr>])"
  by (auto simp: perform_reload_def some_flag_def Let_def)

lemma perform_reload_ok: "threads_ok ts \<Longrightarrow> threads_ok (perform_reload message ts)"
  by (rule two_cases [of ts])
     (auto simp: threads_ok_def running_def perform_reload_def remove_dead_threads_two Let_def)

lemma running_update:
  "i < length ts \<Longrightarrow> running (ts[i := t]) + (if th_state (ts ! i) = Running then 1 else 0)
     = running ts + (if th_state t = Running then 1 else 0)"
proof (induction ts arbitrary: i)
  case (Cons a ts)
  then show ?case by (cases i) (auto simp: running_def)
qed simp

lemma thread_step_ok:
  assumes "thread_step ts ts'" "threads_ok ts"
  shows "threads_ok ts'"
  using assms(1)
proof cases
  case (acquire i)
  then have "running ts = 0" by (simp add: running_def filter_empty_conv)
  with acquire assms(2) running_update [OF acquire(2), of "(ts ! i)\<lparr>th_state := Running\<rparr>"] show ?thesis
    by (simp add: threads_ok_def)
next
  case (release i)
  with assms(2) running_update [OF release(2), of "(ts ! i)\<lparr>th_state := Releasing\<rparr>"] show ?thesis
    by (simp add: threads_ok_def)
next
  case (die i)
  with assms(2) running_update [OF die(2), of "(ts ! i)\<lparr>th_state := Dead\<rparr>"] show ?thesis
    by (simp add: threads_ok_def)
qed

lemma threads_invariant: "manager_step\<^sup>*\<^sup>* [] ts \<Longrightarrow> threads_ok ts"
proof (induction rule: rtranclp_induct)
  case (step ts ts')
  from step.hyps(2) step.IH show ?case
    by (cases rule: manager_step.cases) (auto intro: perform_reload_ok thread_step_ok)
qed (simp add: threads_ok_def running_def)

text \<open>
  C22: When the manager handles a reload message and no thread is between its update and its end, then
  afterwards a thread that has not begun its update has every flag the message asks for; at most
  two threads are kept and at most one of them runs.
\<close>

theorem reload_not_lost:
  assumes "manager_step\<^sup>*\<^sup>* [] ts" "some_flag (message_flags message)" "\<forall>t \<in> set ts. th_state t \<noteq> Releasing"
  shows "(\<exists>t \<in> set (perform_reload message ts). th_state t = Waiting \<and> covers (th_flags t) (message_flags message)) \<and>
    length (perform_reload message ts) \<le> 2 \<and> running (perform_reload message ts) \<le> 1"
proof -
  have ok: "threads_ok ts" using assms(1) by (rule threads_invariant)
  then have "length ts \<le> 2" by (simp add: threads_ok_def)
  then have "\<exists>t \<in> set (perform_reload message ts). th_state t = Waiting \<and> covers (th_flags t) (message_flags message)"
  proof (cases rule: two_cases)
    case (3 a b)
    have "running [a, b] \<le> 1" "th_state a \<noteq> Releasing" "th_state b \<noteq> Releasing"
      using ok assms(3) unfolding 3 by (simp_all add: threads_ok_def)
    then have "th_state a = Waiting \<or> th_state b = Waiting \<or> \<not> is_alive a \<or> \<not> is_alive b"
      by (cases "th_state a"; cases "th_state b") (simp_all add: running_def is_alive_def)
    with 3 assms(2) show ?thesis
      by (cases "is_alive a"; cases "is_alive b")
         (auto simp: perform_reload_relevant remove_dead_threads_two)
  qed (use assms(2) in \<open>auto simp: perform_reload_relevant remove_dead_threads_two\<close>)
  with perform_reload_ok [OF ok, of message] show ?thesis by (simp add: threads_ok_def)
qed

theorem reload_not_lost_witness:
  "manager_step\<^sup>*\<^sup>* [] (perform_reload ''route'' []) \<and> some_flag (message_flags ''aut-num'') \<and>
   Releasing \<notin> th_state ` set (perform_reload ''route'' []) \<and>
   (\<exists>t \<in> set (perform_reload ''aut-num'' (perform_reload ''route'' [])).
      th_state t = Waiting \<and> covers (th_flags t) (message_flags ''aut-num''))"
proof -
  have r: "manager_step\<^sup>*\<^sup>* [] (perform_reload ''route'' [])" by (rule r_into_rtranclp) (rule manager_step.reload)
  have f: "some_flag (message_flags ''aut-num'')" by code_simp
  have w: "\<forall>t \<in> set (perform_reload ''route'' []). th_state t \<noteq> Releasing" by code_simp
  then have "Releasing \<notin> th_state ` set (perform_reload ''route'' [])" by auto
  with reload_not_lost [OF r f w] r f show ?thesis by blast
qed

text \<open>
  The assumption on threads that have released the lock is needed: while one of them is still
  alive and the next one runs, a message starts no thread, and the running one may already have
  read what the message announces.
\<close>

lemma reload_lost_while_releasing:
  "\<exists>ts. manager_step\<^sup>*\<^sup>* [] ts \<and> some_flag (message_flags ''route'') \<and>
     (\<forall>t \<in> set (perform_reload ''route'' ts). th_state t \<noteq> Waiting)"
proof -
  define u where "u = message_flags ''route''"
  define w where "w = (\<lambda>s. \<lparr>th_state = s, th_flags = u\<rparr>)"
  have flag: "some_flag u" "merge_flags u u = u" unfolding u_def by code_simp+
  have reload: "perform_reload ''route'' [] = [w Waiting]" "perform_reload ''route'' [w Running] = [w Running, w Waiting]"
    "perform_reload ''route'' [w Releasing, w Running] = [w Releasing, w Running]"
    using flag by (simp_all add: perform_reload_def remove_dead_threads_two some_flag_def Let_def w_def u_def [symmetric] is_alive_def)
  have "manager_step [] [w Waiting]" using manager_step.reload [of "[]" "''route''"] reload(1) by simp
  moreover have "manager_step [w Waiting] [w Running]"
    using manager_step.thread [OF acquire [of 0 "[w Waiting]"]] by (simp add: w_def)
  moreover have "manager_step [w Running] [w Running, w Waiting]" using manager_step.reload [of "[w Running]" "''route''"] reload(2) by simp
  moreover have "manager_step [w Running, w Waiting] [w Releasing, w Waiting]"
    using manager_step.thread [OF release [of 0 "[w Running, w Waiting]"]] by (simp add: w_def)
  moreover have "manager_step [w Releasing, w Waiting] [w Releasing, w Running]"
    using manager_step.thread [OF acquire [of 1 "[w Releasing, w Waiting]"]] by (simp add: w_def)
  ultimately have "manager_step\<^sup>*\<^sup>* [] [w Releasing, w Running]"
    by (meson converse_rtranclp_into_rtranclp rtranclp.rtrancl_refl)
  moreover have "\<forall>t \<in> set (perform_reload ''route'' [w Releasing, w Running]). th_state t \<noteq> Waiting"
    unfolding reload by (simp add: w_def)
  ultimately show ?thesis using flag u_def by blast
qed

section \<open>Progress\<close>

fun steps_left :: "thread_state \<Rightarrow> nat" where
  "steps_left Waiting = 3"
| "steps_left Running = 2"
| "steps_left Releasing = 1"
| "steps_left Dead = 0"

definition work_left :: "reload_thread list \<Rightarrow> nat" where
  "work_left ts = sum_list (map (\<lambda>t. steps_left (th_state t)) ts)"

lemma work_left_update:
  "i < length ts \<Longrightarrow> work_left (ts[i := t]) + steps_left (th_state (ts ! i)) = work_left ts + steps_left (th_state t)"
proof (induction ts arbitrary: i)
  case (Cons a ts)
  then show ?case by (cases i) (auto simp: work_left_def)
qed simp

lemma thread_step_work: "thread_step ts ts' \<Longrightarrow> work_left ts' + 1 = work_left ts"
proof (cases rule: thread_step.cases, assumption)
  fix i assume "ts' = ts[i := (ts ! i)\<lparr>th_state := Running\<rparr>]" "i < length ts" "th_state (ts ! i) = Waiting"
  then show ?thesis using work_left_update [of i ts "(ts ! i)\<lparr>th_state := Running\<rparr>"] by simp
next
  fix i assume "ts' = ts[i := (ts ! i)\<lparr>th_state := Releasing\<rparr>]" "i < length ts" "th_state (ts ! i) = Running"
  then show ?thesis using work_left_update [of i ts "(ts ! i)\<lparr>th_state := Releasing\<rparr>"] by simp
next
  fix i assume "ts' = ts[i := (ts ! i)\<lparr>th_state := Dead\<rparr>]" "i < length ts" "th_state (ts ! i) = Releasing"
  then show ?thesis using work_left_update [of i ts "(ts ! i)\<lparr>th_state := Dead\<rparr>"] by simp
qed

lemma thread_step_enabled: "\<exists>t \<in> set ts. is_alive t \<Longrightarrow> \<exists>ts'. thread_step ts ts'"
proof -
  assume "\<exists>t \<in> set ts. is_alive t"
  then obtain i where i: "i < length ts" "th_state (ts ! i) \<noteq> Dead" by (auto simp: in_set_conv_nth is_alive_def)
  show ?thesis
  proof (cases "\<exists>j < length ts. th_state (ts ! j) = Running")
    case True
    then show ?thesis using release by blast
  next
    case False
    then have "\<forall>t \<in> set ts. th_state t \<noteq> Running" by (auto simp: in_set_conv_nth)
    with i acquire [OF i(1)] die [OF i(1)] show ?thesis by (cases "th_state (ts ! i)") (blast | simp)+
  qed
qed



end
