(* ===== verification/Query_Resolver.thy ===== *)
theory Query_Resolver
  imports Preload "HOL-Library.List_Lexorder" "HOL-Library.Char_ord"
begin

text \<open>
  \<^verbatim>\<open>irrd/server/query_resolver.py\<close>: the source manager and the resolver for all queries. The
  resolver reads the database (the tables of a read only handler), the preload store and the
  settings, which are in a \<open>query_env\<close>; what it keeps across queries is its state. The trace of SQL
  statements is left out. Sets of texts are lists without duplicates; nothing that is shown depends
  on their order.
\<close>

record 'ip query_env =
  qe_lib :: "'ip extlib"
  qe_pg :: pg_lib
  qe_settings :: settings
  qe_tables :: tables
  qe_store :: preload_store

section \<open>Sources\<close>

record source_manager =
  all_valid_real_sources :: "string list"
  all_valid_aliases :: "(string, cval) dict"
  all_valid_sources :: "string list"
  sources_default :: "string list"
  selected_sources :: "string list"

definition cval_strings :: "cval \<Rightarrow> string list" where
  "cval_strings v = map cval_str (cval_list v)"

definition default_sources :: "source_manager \<Rightarrow> string list" where
  "default_sources m = (if sources_default m = [] then all_valid_sources m else sources_default m)"

definition QuerySourceManager :: "settings \<Rightarrow> source_manager" where
  "QuerySourceManager gs =
     (let real = map fst (cval_items (get_setting_or gs ''sources'' (CDict [])))
            @ (if truthy (get_setting gs ''rpki.roa_source'') then [RPKI_IRR_PSEUDO_SOURCE] else []);
          aliases = cval_items (get_setting_or gs ''source_aliases'' (CDict []));
          m = \<lparr>all_valid_real_sources = real, all_valid_aliases = aliases, all_valid_sources = real @ map fst aliases,
               sources_default = cval_strings (get_setting_or gs ''sources_default'' (CList [])), selected_sources = []\<rparr>
      in m\<lparr>selected_sources := default_sources m\<rparr>)"

definition set_query_sources :: "string list option \<Rightarrow> source_manager \<Rightarrow> source_manager res" where
  "set_query_sources srcs m =
     (case srcs of
        None \<Rightarrow> Inr (m\<lparr>selected_sources := default_sources m\<rparr>)
      | Some ss \<Rightarrow>
          if list_all (\<lambda>s. s \<in> set (all_valid_sources m)) ss then Inr (m\<lparr>selected_sources := ss\<rparr>)
          else Inl (InvalidQueryException ''One or more selected sources are unavailable.''))"

text \<open>The sources that a selected name stands for.\<close>

definition source_expansion :: "settings \<Rightarrow> source_manager \<Rightarrow> string \<Rightarrow> string list" where
  "source_expansion gs m s =
     (if s \<in> set (all_valid_real_sources m) then [s] else [])
     @ (if s \<in> set (map fst (cval_items (get_setting_or gs ''source_aliases'' (CDict []))))
        then cval_strings (get_setting gs (''source_aliases.'' @ s)) else [])"

definition keep_first :: "'a list \<Rightarrow> 'a list" where
  "keep_first xs = rev (remdups (rev xs))"

definition sources_resolved :: "settings \<Rightarrow> source_manager \<Rightarrow> string list" where
  "sources_resolved gs m = keep_first (concat (map (source_expansion gs m) (selected_sources m)))"

section \<open>The resolver\<close>

datatype route_lookup_type = EXACT | LESS_SPECIFIC_ONE_LEVEL | LESS_SPECIFIC_WITH_EXACT | MORE_SPECIFIC_WITHOUT_EXACT

record resolver =
  rs_manager :: source_manager
  object_class_filter :: "string list"
  rpki_aware :: bool
  rpki_invalid_filter_enabled :: bool
  out_scope_filter_enabled :: bool
  route_preference_filter_enabled :: bool
  user_agent :: "string option"

definition QueryResolver :: "settings \<Rightarrow> resolver" where
  "QueryResolver gs =
     (let aware = truthy (get_setting gs ''rpki.roa_source'')
      in \<lparr>rs_manager = QuerySourceManager gs, object_class_filter = [], rpki_aware = aware,
          rpki_invalid_filter_enabled = aware, out_scope_filter_enabled = True, route_preference_filter_enabled = True,
          user_agent = None\<rparr>)"

definition resolver_set_query_sources :: "string list option \<Rightarrow> resolver \<Rightarrow> resolver res" where
  "resolver_set_query_sources srcs r = rbind (set_query_sources srcs (rs_manager r)) (\<lambda>m. Inr (r\<lparr>rs_manager := m\<rparr>))"

definition disable_rpki_filter :: "resolver \<Rightarrow> resolver" where
  "disable_rpki_filter r = r\<lparr>rpki_invalid_filter_enabled := False\<rparr>"

definition disable_out_of_scope_filter :: "resolver \<Rightarrow> resolver" where
  "disable_out_of_scope_filter r = r\<lparr>out_scope_filter_enabled := False\<rparr>"

definition disable_route_preference_filter :: "resolver \<Rightarrow> resolver" where
  "disable_route_preference_filter r = r\<lparr>route_preference_filter_enabled := False\<rparr>"

definition set_object_class_filter_next_query :: "string list \<Rightarrow> resolver \<Rightarrow> resolver" where
  "set_object_class_filter_next_query classes r = r\<lparr>object_class_filter := classes\<rparr>"

definition resolved :: "'ip query_env \<Rightarrow> resolver \<Rightarrow> string list" where
  "resolved E r = sources_resolved (qe_settings E) (rs_manager r)"

definition apply_if :: "bool \<Rightarrow> ('q \<Rightarrow> 'q res) \<Rightarrow> 'q \<Rightarrow> 'q res" where
  "apply_if b f q = (if b then f q else Inr q)"

text \<open>The filters of every query; the restriction of classes is for one query only.\<close>

definition prepare_query :: "'ip query_env \<Rightarrow> bool \<Rightarrow> resolver \<Rightarrow> db_row query res \<times> resolver" where
  "prepare_query E by_sources r =
     (rbind (apply_if (resolved E r \<noteq> []) (q_sources object_columns (resolved E r))
               (BaseRPSLObjectDatabaseQuery by_sources True [])) (\<lambda>q1.
      rbind (apply_if (object_class_filter r \<noteq> []) (q_object_classes object_columns (object_class_filter r)) q1) (\<lambda>q2.
      rbind (apply_if (rpki_invalid_filter_enabled r) (q_rpki_status [RPKI_not_found, RPKI_valid]) q2) (\<lambda>q3.
      rbind (apply_if (out_scope_filter_enabled r) (q_scopefilter_status [in_scope]) q3)
        (apply_if (route_preference_filter_enabled r) (q_route_preference_status [pref_visible]))))),
      r\<lparr>object_class_filter := []\<rparr>)"

definition resolver_rows :: "'ip query_env \<Rightarrow> db_row query res \<Rightarrow> db_row list res" where
  "resolver_rows E query =
     rbind query (\<lambda>q. Inr (run_query (finalise_statement (qe_pg E) object_columns q) (t_objects (qe_tables E))))"

text \<open>A query that adds \<open>f\<close> to what was prepared.\<close>

definition prepared :: "'ip query_env \<Rightarrow> bool \<Rightarrow> (db_row query \<Rightarrow> db_row query res) \<Rightarrow> resolver \<Rightarrow> db_row list res \<times> resolver" where
  "prepared E by_sources f r = (case prepare_query E by_sources r of (q, r1) \<Rightarrow> (resolver_rows E (rbind q f), r1))"

definition key_lookup :: "'ip query_env \<Rightarrow> string \<Rightarrow> string \<Rightarrow> resolver \<Rightarrow> db_row list res \<times> resolver" where
  "key_lookup E object_class rpsl_pk =
     prepared E True (\<lambda>q. rbind (q_object_classes object_columns [object_class] q) (\<lambda>q1.
       rbind (q_rpsl_pk object_columns rpsl_pk q1) first_only))"

definition rpsl_text_search :: "'ip query_env \<Rightarrow> string \<Rightarrow> resolver \<Rightarrow> db_row list res \<times> resolver" where
  "rpsl_text_search E value = prepared E False (text_search (qe_pg E) (qe_lib E) (qe_settings E) value True)"

definition lookup_query :: "'ip query_env \<Rightarrow> route_lookup_type \<Rightarrow> 'ip \<Rightarrow> db_row query \<Rightarrow> db_row query res" where
  "lookup_query E lookup_type addr =
     (case lookup_type of
        EXACT \<Rightarrow> ip_exact (qe_pg E) (qe_lib E) addr
      | LESS_SPECIFIC_ONE_LEVEL \<Rightarrow> ip_less_specific_one_level (qe_pg E) (qe_lib E) addr
      | LESS_SPECIFIC_WITH_EXACT \<Rightarrow> ip_less_specific (qe_pg E) (qe_lib E) (qe_settings E) addr
      | MORE_SPECIFIC_WITHOUT_EXACT \<Rightarrow> ip_more_specific (qe_pg E) (qe_lib E) (qe_settings E) addr)"

definition route_search :: "'ip query_env \<Rightarrow> 'ip \<Rightarrow> route_lookup_type \<Rightarrow> resolver \<Rightarrow> db_row list res \<times> resolver" where
  "route_search E addr lookup_type =
     prepared E False (\<lambda>q. rbind (q_object_classes object_columns [''route'', ''route6''] q) (lookup_query E lookup_type addr))"

definition readable_lookup_field_names :: "string list" where
  "readable_lookup_field_names = remdups (''origin'' # concat (map (\<lambda>c. filter (\<lambda>f. f \<notin> set (pk_fields c)) (lookup_fields c))
     (map snd OBJECT_CLASS_MAPPING)))"

definition rpsl_attribute_search :: "'ip query_env \<Rightarrow> string \<Rightarrow> string \<Rightarrow> resolver \<Rightarrow> db_row list res \<times> resolver" where
  "rpsl_attribute_search E attr value r =
     (if attr \<notin> lookup_field_names
      then (Inl (InvalidQueryException (''Inverse attribute search not supported for '' @ attr
              @ '',only supported for attributes: '' @ py_join '', '' readable_lookup_field_names)), r)
      else prepared E False (lookup_attr attr (Some value)) r)"

definition routes_for_origin :: "'ip query_env \<Rightarrow> string \<Rightarrow> nat option \<Rightarrow> resolver \<Rightarrow> string list res" where
  "routes_for_origin E orig ip_ver r = routes_for_origins (qe_store E) [orig] (resolved E r) ip_ver"

section \<open>Set resolution\<close>

text \<open>The classes a set is looked for in: an as-set only refers to as-sets.\<close>

definition set_classes :: "string option \<Rightarrow> string list" where
  "set_classes root = (if root = Some ''as-set'' then [''as-set''] else [''route-set'', ''as-set''])"

fun find_members :: "preload_store \<Rightarrow> string list \<Rightarrow> string list \<Rightarrow> string list \<Rightarrow> string list \<times> string list \<times> string option
    \<Rightarrow> string list \<times> string list \<times> string option" where
  "find_members P srcs classes [] st = st"
| "find_members P srcs classes (name # names) (members, leafs, root) =
     (case set_members P name srcs classes of
        None \<Rightarrow> find_members P srcs classes names (members, List.insert name leafs, root)
      | Some (ms, c) \<Rightarrow>
          find_members P srcs classes names
            (List.union members ms, leafs, (if root = None \<or> root = Some [] then Some c else root)))"

definition find_set_members :: "preload_store \<Rightarrow> string list \<Rightarrow> string option \<Rightarrow> string list
    \<Rightarrow> string list \<times> string list \<times> string option" where
  "find_set_members P srcs root names = find_members P srcs (set_classes root) names ([], [], root)"

text \<open>
  What one member adds to the result, and whether it is an AS number that was replaced by its
  prefixes, which happens in route-sets.
\<close>

definition is_prefix :: "'ip extlib \<Rightarrow> string \<Rightarrow> bool" where
  "is_prefix L m = (case IP L (hd (py_split CHR ''^'' m)) 0 of Inr ip \<Rightarrow> True | Inl e \<Rightarrow> False)"

definition resolve_member :: "'ip extlib \<Rightarrow> settings \<Rightarrow> preload_store \<Rightarrow> string list \<Rightarrow> string option \<Rightarrow> string \<Rightarrow> string list \<times> bool" where
  "resolve_member L gs P srcs root m =
     (if (root = None \<or> root = Some ''route-set'') \<and> is_prefix L m then ([m], False)
      else case parse_as_number gs False False (AsStr m) of
             Inl e \<Rightarrow> ([], False)
           | Inr (as_number_formatted, n) \<Rightarrow>
               if root = Some ''route-set''
               then (case routes_for_origins P [as_number_formatted] srcs None of Inr ps \<Rightarrow> (ps, True) | Inl e \<Rightarrow> ([], False))
               else ([m], False))"

definition resolved_members :: "'ip extlib \<Rightarrow> settings \<Rightarrow> preload_store \<Rightarrow> string list \<Rightarrow> string option \<Rightarrow> string list
    \<Rightarrow> string list \<times> string list" where
  "resolved_members L gs P srcs root sub_members =
     (remdups (concat (map (\<lambda>m. fst (resolve_member L gs P srcs root m)) sub_members)),
      filter (\<lambda>m. snd (resolve_member L gs P srcs root m)) sub_members)"

text \<open>All texts that are members of a set in the store; they bound the recursion.\<close>

definition store_texts :: "source_store \<Rightarrow> string list" where
  "store_texts store = concat (map (\<lambda>(src, d). concat (map (\<lambda>(k, v). py_split REDIS_CONTENTS_LIST_SEPARATOR v) d)) store)"

definition store_members :: "preload_store \<Rightarrow> string set" where
  "store_members P = set (store_texts (as_set_store P)) \<union> set (store_texts (route_set_store P))"

lemma set_in_sources_texts: "set_in_sources store srcs k = Some ms \<Longrightarrow> set ms \<subseteq> set (store_texts store)"
proof (induction srcs)
  case (Cons src srcs)
  show ?case
  proof (cases "store_get store src k")
    case (Some v)
    then obtain d where "(src, d) \<in> set store" "(k, v) \<in> set d"
      by (auto simp: store_get_def split: option.splits dest: dict_get_in)
    with Some Cons.prems show ?thesis by (force simp: store_texts_def)
  qed (use Cons in simp)
qed simp

lemma set_members_texts: "set_members P name srcs classes = Some (ms, c) \<Longrightarrow> set ms \<subseteq> store_members P"
  by (auto simp: set_members_def store_members_def Let_def split: option.splits if_splits dest!: set_in_sources_texts)

lemma find_members_texts:
  "find_members P srcs classes names (ms0, leafs0, root0) = (ms, leafs, root) \<Longrightarrow> set ms \<subseteq> set ms0 \<union> store_members P"
proof (induction names arbitrary: ms0 leafs0 root0)
  case (Cons name names)
  show ?case
  proof (cases "set_members P name srcs classes")
    case (Some mc)
    then obtain ms1 c where "set_members P name srcs classes = Some (ms1, c)" by (cases mc) simp
    with Cons set_members_texts [OF this] show ?thesis by fastforce
  qed (use Cons in simp)
qed simp

lemma find_set_members_texts: "find_set_members P srcs root names = (ms, leafs, root') \<Longrightarrow> set ms \<subseteq> store_members P"
  using find_members_texts [of P srcs "set_classes root" names "[]" "[]" root] by (simp add: find_set_members_def)

lemma finite_store_members [simp]: "finite (store_members P)"
  by (simp add: store_members_def)

text \<open>Every call has a set that was not seen before, and all sets that follow are in the store.\<close>

lemma unseen_decreases:
  assumes "\<not> list_all (\<lambda>m. m \<in> set seen) members" "set sub \<subseteq> store_members P" "set further \<subseteq> set sub"
  shows "card ((set further \<union> store_members P) - set (members @ seen)) < card ((set members \<union> store_members P) - set seen)"
proof -
  obtain m where "m \<in> set members" "m \<notin> set seen" using assms(1) by (auto simp: list_all_iff)
  then have "(set further \<union> store_members P) - set (members @ seen) \<subset> (set members \<union> store_members P) - set seen"
    using assms(2,3) by auto
  then show ?thesis by (intro psubset_card_mono) simp_all
qed

function recursive_set_resolve :: "'ip query_env \<Rightarrow> string list \<Rightarrow> string list \<Rightarrow> string option \<Rightarrow> int \<Rightarrow> string list \<Rightarrow> string list
    \<Rightarrow> string option \<Rightarrow> string list" where
  "recursive_set_resolve E srcs excluded root depth members seen root_source =
     (if list_all (\<lambda>m. m \<in> set seen) members then []
      else
        (case find_set_members (qe_store E) (case root_source of None \<Rightarrow> srcs | Some [] \<Rightarrow> srcs | Some s \<Rightarrow> [s]) root members of
           (sub_members, leaf_members, root1) \<Rightarrow>
             (case resolved_members (qe_lib E) (qe_settings E) (qe_store E) srcs root1 sub_members of
                (set_ms, resolved_as) \<Rightarrow>
                  if depth - 1 = 0 then List.union set_ms (List.union sub_members leaf_members)
                  else List.union set_ms
                    (recursive_set_resolve E srcs excluded root1 (depth - 1)
                       (filter (\<lambda>m. m \<notin> set set_ms \<and> m \<notin> set (members @ seen) \<and> m \<notin> set resolved_as \<and> m \<notin> set excluded)
                          sub_members)
                       (members @ seen) None))))"
  by pat_completeness auto
termination
proof (relation "measure (\<lambda>(E, srcs, excluded, root, depth, members, seen, root_source).
    card ((set members \<union> store_members (qe_store E)) - set seen))", goal_cases)
  case (2 E srcs excluded root depth members seen root_source x y xa ya xb yb)
  have "find_set_members (qe_store E) (case root_source of None \<Rightarrow> srcs | Some [] \<Rightarrow> srcs | Some s \<Rightarrow> [s]) root members = (x, xa, ya)"
    using 2(2,3) by simp
  from unseen_decreases [OF 2(1) find_set_members_texts [OF this], of
      "filter (\<lambda>m. m \<notin> set xb \<and> m \<notin> set (members @ seen) \<and> m \<notin> set yb \<and> m \<notin> set excluded) x"]
  show ?case by simp
qed simp

declare recursive_set_resolve.simps [simp del]

definition routes_for_as_set :: "'ip query_env \<Rightarrow> string \<Rightarrow> nat option \<Rightarrow> string list \<Rightarrow> resolver \<Rightarrow> string list res" where
  "routes_for_as_set E set_name ip_ver exclude_sets r =
     routes_for_origins (qe_store E)
       (recursive_set_resolve E (resolved E r) exclude_sets (Some ''as-set'') 0 [set_name] [] None) (resolved E r) ip_ver"

definition not_ipv4 :: "'ip extlib \<Rightarrow> string \<Rightarrow> bool" where
  "not_ipv4 L m \<longleftrightarrow> (case IP L m 0 of Inl e \<Rightarrow> False | Inr ip \<Rightarrow> (case IP L m 4 of Inl e \<Rightarrow> True | Inr ip4 \<Rightarrow> False))"

definition members_for_set :: "'ip query_env \<Rightarrow> string \<Rightarrow> string list \<Rightarrow> int \<Rightarrow> bool \<Rightarrow> string option \<Rightarrow> resolver \<Rightarrow> string list" where
  "members_for_set E parameter exclude_sets depth recursive root_source r =
     (let members =
            (if recursive then recursive_set_resolve E (resolved E r) exclude_sets None depth [parameter] [] root_source
             else (case find_set_members (qe_store E)
                          (case root_source of None \<Rightarrow> resolved E r | Some [] \<Rightarrow> resolved E r | Some s \<Rightarrow> [s]) None [parameter] of
                     (ms, leafs, root) \<Rightarrow> List.union ms leafs));
          others = filter (\<lambda>m. m \<noteq> parameter) members;
          kept = (if truthy (get_setting (qe_settings E) ''compatibility.ipv4_only_route_set_members'')
                  then filter (\<lambda>m. \<not> not_ipv4 (qe_lib E) m) others else others)
      in sort (remdups kept))"

definition members_for_set_per_source :: "'ip query_env \<Rightarrow> string \<Rightarrow> string list \<Rightarrow> int \<Rightarrow> bool \<Rightarrow> resolver
    \<Rightarrow> (string, string list) dict res \<times> resolver" where
  "members_for_set_per_source E parameter exclude_sets depth recursive r =
     (case prepared E True (\<lambda>q. rbind (q_object_classes object_columns [''as-set'', ''route-set''] q)
                                 (q_rpsl_pk object_columns parameter)) r of
        (rows, r1) \<Rightarrow>
          (rbind rows (\<lambda>rs. Inr (fold (\<lambda>row. dict_set (c_source row)
             (members_for_set E parameter exclude_sets depth recursive (Some (c_source row)) r1)) rs [])), r1))"

section \<open>Database status and templates\<close>

text \<open>
  The status of each source as a dictionary of values. \<open>iso\<close> renders a time stamp; the time of the last
  change of a status row, which the database sets, is given by \<open>updated\<close>.
\<close>

definition opt_int :: "int option \<Rightarrow> cval" where
  "opt_int v = (case v of None \<Rightarrow> CNull | Some i \<Rightarrow> CInt i)"

definition opt_str :: "string option \<Rightarrow> cval" where
  "opt_str v = (case v of None \<Rightarrow> CNull | Some s \<Rightarrow> CStr s)"

definition object_class_filter_value :: "string list option \<Rightarrow> cval" where
  "object_class_filter_value v = (case v of None \<Rightarrow> CNull | Some cs \<Rightarrow> CList (map CStr cs))"

definition source_status :: "'ip query_env \<Rightarrow> (int \<Rightarrow> string) \<Rightarrow> (string \<Rightarrow> int) \<Rightarrow> status_row \<Rightarrow> (string \<times> cval) list res" where
  "source_status E isoformat updated s =
     (let gs = qe_settings E; src = py_upper (st_source s)
      in rbind (get_object_class_filter_for_source gs src) (\<lambda>classes.
         Inr [(''source_type'', CStr ''regular''),
              (''authoritative'', get_setting_or gs (source_key src ''authoritative'') (CBool False)),
              (''object_class_filter'', object_class_filter_value classes),
              (''rpki_rov_filter'', CBool (truthy (get_setting gs ''rpki.roa_source'')
                 \<and> \<not> truthy (source_setting gs src ''rpki_excluded''))),
              (''scopefilter_enabled'', CBool (truthy (get_setting gs ''scopefilter'')
                 \<and> \<not> truthy (source_setting gs src ''scopefilter_excluded''))),
              (''route_preference'', source_setting gs src ''route_object_preference''),
              (''local_journal_kept'', get_setting_or gs (source_key src ''keep_journal'') (CBool False)),
              (''serial_oldest_journal'', opt_int (serial_oldest_journal s)),
              (''serial_newest_journal'', opt_int (serial_newest_journal s)),
              (''serial_last_export'', opt_int (serial_last_export s)),
              (''serial_newest_mirror'', opt_int (serial_newest_mirror s)),
              (''nrtm4_client_session_id'', opt_str (cl_session_id (nrtm4_client s))),
              (''nrtm4_client_version'', opt_int (cl_version (nrtm4_client s))),
              (''nrtm4_server_session_id'', opt_str (sv_session_id (nrtm4_server s))),
              (''nrtm4_server_version'', opt_int (sv_version (nrtm4_server s))),
              (''nrtm4_server_last_update_notification_file_update'',
                 opt_str (map_option isoformat (sv_last_update_notification_file_update (nrtm4_server s)))),
              (''nrtm4_server_last_snapshot_version'', opt_int (sv_last_snapshot_version (nrtm4_server s))),
              (''rpsl_data_updated'', CStr (isoformat (rpsl_data_updated s))),
              (''last_update'', CStr (isoformat (updated (st_source s)))),
              (''synchronised_serials'', CBool (is_serial_synchronised gs src False (qe_tables E)))]))"

fun source_statuses :: "'ip query_env \<Rightarrow> (int \<Rightarrow> string) \<Rightarrow> (string \<Rightarrow> int) \<Rightarrow> status_row list \<Rightarrow> (string, cval) dict
    \<Rightarrow> (string, cval) dict res" where
  "source_statuses E isoformat updated [] d = Inr d"
| "source_statuses E isoformat updated (s # ss) d =
     rbind (source_status E isoformat updated s) (\<lambda>v.
       source_statuses E isoformat updated ss (dict_set (py_upper (st_source s)) (CDict v) d))"

definition database_status :: "'ip query_env \<Rightarrow> (int \<Rightarrow> string) \<Rightarrow> (string \<Rightarrow> int) \<Rightarrow> string list option \<Rightarrow> resolver
    \<Rightarrow> (string, cval) dict res" where
  "database_status E isoformat updated requested r =
     (let m = rs_manager r;
          srcs = (case requested of None \<Rightarrow> all_valid_sources m | Some ss \<Rightarrow> ss);
          invalid_sources = filter (\<lambda>s. s \<notin> set (all_valid_sources m)) srcs;
          alias_status = (\<lambda>s d. case dict_get (all_valid_aliases m) s of
             None \<Rightarrow> d
           | Some v \<Rightarrow> dict_set s (CDict [(''source_type'', CStr ''alias''), (''aliased_sources'', CList (map CStr (cval_strings v)))]) d)
      in rbind (source_statuses E isoformat updated (DatabaseStatusQuery (qe_pg E) srcs (qe_tables E)) []) (\<lambda>d.
           Inr (fold (\<lambda>s. dict_set (py_upper s) (CDict [(''error'', CStr ''Unknown source'')])) invalid_sources
                 (fold alias_status srcs d))))"

definition rpsl_object_template :: "string \<Rightarrow> string res" where
  "rpsl_object_template object_class =
     (case dict_get OBJECT_CLASS_MAPPING object_class of
        None \<Rightarrow> Inl (InvalidQueryException (''Unknown object class: '' @ object_class))
      | Some c \<Rightarrow> Inr (generate_template c))"

end
