(* ===== verification/Access_Lists.thy ===== *)
theory Access_Lists
  imports Conf Ext_Libs
begin

text \<open>
  \<^verbatim>\<open>irrd/server/access_check.py\<close>: whether a client may use an interface. The attribute
  \<open>sys._called_from_test\<close> is an argument, \<open>None\<close> when it is not set. The entries of an access list
  are texts.
\<close>

definition STARLETTE_TEST_CLIENT_HOST :: string where
  "STARLETTE_TEST_CLIENT_HOST = ''testclient''"

definition bypass_auth :: "bool option \<Rightarrow> string \<Rightarrow> bool res" where
  "bypass_auth called_from_test ip =
     (if ip = STARLETTE_TEST_CLIENT_HOST
      then (case called_from_test of None \<Rightarrow> Inl (AttributeError ''_called_from_test'') | Some b \<Rightarrow> Inr b)
      else Inr False)"

text \<open>An IPv6 address that maps an IPv4 address is replaced by the latter.\<close>

definition unmapped :: "'ip extlib \<Rightarrow> 'ip \<Rightarrow> 'ip" where
  "unmapped L ip = (if ip_version L ip = 6 then (case ip_v46map L ip of Inr ip4 \<Rightarrow> ip4 | Inl _ \<Rightarrow> ip) else ip)"

fun in_access_list :: "'ip extlib \<Rightarrow> 'ip \<Rightarrow> cval list \<Rightarrow> bool res" where
  "in_access_list L ip [] = Inr False"
| "in_access_list L ip (CStr allowed # vs) =
     (case IP L allowed 0 of
        Inl m \<Rightarrow> Inl (ValueError m)
      | Inr net \<Rightarrow> rbind (in_access_list L ip vs) (\<lambda>b. Inr (ip_contains L net ip \<or> b)))"
| "in_access_list L ip (v # vs) = Inl (TypeError ''access list'')"

definition is_client_permitted :: "'ip extlib \<Rightarrow> settings \<Rightarrow> bool option \<Rightarrow> string \<Rightarrow> string \<Rightarrow> bool \<Rightarrow> bool res" where
  "is_client_permitted L gs called_from_test ip access_list_setting default_deny =
     rbind (bypass_auth called_from_test ip) (\<lambda>bypass.
       (let access_list_name = get_setting gs access_list_setting;
            access_list = get_setting gs (''access_lists.'' @ cval_str access_list_name)
        in case (bypass, IP L ip 0) of
             (False, Inl _) \<Rightarrow> Inr False
           | (_, addr) \<Rightarrow>
               if \<not> truthy access_list_name \<or> \<not> truthy access_list then Inr (\<not> default_deny)
               else if bypass then Inr True
               else (case addr of
                       Inl _ \<Rightarrow> Inr False
                     | Inr client_ip \<Rightarrow> rbind (cval_iter access_list) (in_access_list L (unmapped L client_ip)))))"

section \<open>Lemmas\<close>

lemma in_access_list_Inr:
  "in_access_list L ip vs = Inr b \<Longrightarrow>
   b \<longleftrightarrow> (\<exists>s net. CStr s \<in> set vs \<and> IP L s 0 = Inr net \<and> ip_contains L net ip)"
proof (induction L ip vs arbitrary: b rule: in_access_list.induct)
  case (2 L ip allowed vs)
  from "2.prems" obtain net b' where net: "IP L allowed 0 = Inr net" and b': "in_access_list L ip vs = Inr b'"
    and b: "b = (ip_contains L net ip \<or> b')"
    by (auto simp: rbind_Inr_conv split: sum.splits)
  from "2.IH" [OF net b'] b net show ?case by auto
qed auto

text \<open>
  A client is admitted by a denying access list exactly when the list is set and one of its
  networks contains the address of the client, an IPv4 address in an IPv6 mapping taken out of it;
  the host name of the test client is admitted in tests only.
\<close>

theorem client_permitted_iff:
  assumes "is_client_permitted L gs called_from_test ip setting True = Inr permitted"
  shows "permitted \<longleftrightarrow>
    (let access_list = get_setting gs (''access_lists.'' @ cval_str (get_setting gs setting))
     in truthy (get_setting gs setting) \<and> truthy access_list \<and>
        (ip = STARLETTE_TEST_CLIENT_HOST \<and> called_from_test = Some True \<or>
         (\<exists>addr entries s net. IP L ip 0 = Inr addr \<and> cval_iter access_list = Inr entries \<and> CStr s \<in> set entries \<and>
            IP L s 0 = Inr net \<and> ip_contains L net (unmapped L addr))))"
proof -
  from assms obtain bypass where b: "bypass_auth called_from_test ip = Inr bypass"
    by (auto simp: is_client_permitted_def rbind_Inr_conv)
  then have bypass: "bypass \<longleftrightarrow> ip = STARLETTE_TEST_CLIENT_HOST \<and> called_from_test = Some True"
    by (auto simp: bypass_auth_def split: if_splits option.splits)
  show ?thesis
  proof (cases "IP L ip 0")
    case (Inl m)
    then show ?thesis using assms b bypass
      by (cases bypass) (auto simp: is_client_permitted_def Let_def split: if_splits)
  next
    case (Inr addr)
    then show ?thesis using assms b bypass
      by (cases bypass)
         (auto simp: is_client_permitted_def Let_def rbind_Inr_conv split: if_splits dest!: in_access_list_Inr)
  qed
qed

definition access_example :: settings where
  "access_example n =
     (if n = ''server.whois.access_list'' then Some (CStr ''office'')
      else if n = ''access_lists.office'' then Some (CList [CStr ''0.0.0.0/30'', CStr ''0.0.0.9'']) else None)"

theorem client_permitted_iff_witness:
  "is_client_permitted ip3_lib access_example None ''0.0.0.2'' ''server.whois.access_list'' True = Inr True \<and>
   (\<exists>addr entries s net. IP ip3_lib ''0.0.0.2'' 0 = Inr addr \<and>
      cval_iter (get_setting access_example ''access_lists.office'') = Inr entries \<and> CStr s \<in> set entries \<and>
      IP ip3_lib s 0 = Inr net \<and> ip_contains ip3_lib net (unmapped ip3_lib addr))"
proof -
  have p: "is_client_permitted ip3_lib access_example None ''0.0.0.2'' ''server.whois.access_list'' True = Inr True"
    by code_simp
  have n: "get_setting access_example ''server.whois.access_list'' = CStr ''office''" by code_simp
  from client_permitted_iff [OF p] p show ?thesis unfolding n by (simp add: Let_def)
qed

end
