(* ===== verification/Whois_Query.thy ===== *)
theory Whois_Query
  imports Query_Resolver NRTM Access_Lists Whois_Response
begin

text \<open>
  \<^verbatim>\<open>irrd/server/whois/query_parser.py\<close>: parsing and answering of whois queries in both styles. What a
  session keeps is a \<open>whois_state\<close>; a command that fails keeps the changes it made before. A set of
  prefixes is joined in the order in which it was built up. The JSON encoder of \<open>ujson\<close> is an argument,
  as are the time, the rendering of time stamps and the time stamps that the database sets.
\<close>

record 'ip whois_env =
  we_query :: "'ip query_env"
  we_client_ip :: string
  we_called_from_test :: "bool option"
  we_now :: int
  we_isoformat :: "int \<Rightarrow> string"
  we_updated :: "string \<Rightarrow> int"
  we_json_dumps :: "(string, cval) dict \<Rightarrow> string"

record whois_state =
  ws_resolver :: resolver
  multiple_command_mode :: bool
  session_timeout :: int
  key_fields_only :: bool
  excluded_sets :: "string list"

definition SOCKET_DEFAULT_TIMEOUT :: int where
  "SOCKET_DEFAULT_TIMEOUT = 30"

definition WhoisQueryParser :: "settings \<Rightarrow> whois_state" where
  "WhoisQueryParser gs = \<lparr>ws_resolver = QueryResolver gs, multiple_command_mode = False,
     session_timeout = SOCKET_DEFAULT_TIMEOUT, key_fields_only = False, excluded_sets = []\<rparr>"

type_synonym 'a handled = "'a res \<times> whois_state"

definition hbind :: "'a handled \<Rightarrow> ('a \<Rightarrow> whois_state \<Rightarrow> 'b handled) \<Rightarrow> 'b handled" where
  "hbind h f = (case h of (Inl e, s) \<Rightarrow> (Inl e, s) | (Inr x, s) \<Rightarrow> f x s)"

abbreviation settings_for :: "'ip whois_env \<Rightarrow> settings" where
  "settings_for E \<equiv> qe_settings (we_query E)"

definition on_resolver :: "(resolver \<Rightarrow> 'a res \<times> resolver) \<Rightarrow> whois_state \<Rightarrow> 'a handled" where
  "on_resolver f s = (case f (ws_resolver s) of (x, r) \<Rightarrow> (x, s\<lparr>ws_resolver := r\<rparr>))"

section \<open>Output\<close>

definition add_ordered :: "'a \<Rightarrow> 'a list \<Rightarrow> 'a list" where
  "add_ordered x xs = (if x \<in> set xs then xs else xs @ [x])"

definition key_field_lines :: "db_row \<Rightarrow> string \<Rightarrow> string" where
  "key_field_lines r field_name =
     (case dict_get (c_parsed r) field_name of
        None \<Rightarrow> []
      | Some (PStr v) \<Rightarrow> if v = [] then [] else field_name @ '': '' @ v @ [NL]
      | Some (PList vs) \<Rightarrow> concat (map (\<lambda>v. field_name @ '': '' @ v @ [NL]) vs))"

fun filter_key_fields :: "db_row list \<Rightarrow> string list \<Rightarrow> string res" where
  "filter_key_fields [] results = Inr (py_join [NL] results)"
| "filter_key_fields (r # rs) results =
     (case dict_get OBJECT_CLASS_MAPPING (c_class r) of
        None \<Rightarrow> Inl (KeyError (c_class r))
      | Some c \<Rightarrow>
          filter_key_fields rs
            (add_ordered (concat (map (key_field_lines r) (pk_fields c @ [''members'', ''mp-members'']))) results))"

fun rpki_status_name :: "rpki_status \<Rightarrow> string" where
  "rpki_status_name RPKI_valid = ''valid''"
| "rpki_status_name RPKI_invalid = ''invalid''"
| "rpki_status_name RPKI_not_found = ''not_found''"

definition rpki_line :: "db_row \<Rightarrow> string" where
  "rpki_line r = ''rpki-ov-state:  '' @ rpki_status_name (c_rpki r)
     @ (if c_rpki r = RPKI_not_found then '' # No ROAs found, or RPKI validation not enabled for source'' else []) @ [NL]"

definition flatten_query_output :: "whois_state \<Rightarrow> db_row list \<Rightarrow> string res" where
  "flatten_query_output s rows =
     rbind (if key_fields_only s then filter_key_fields rows []
            else Inr (concat (map (\<lambda>r. c_text r
                   @ (if rpki_aware (ws_resolver s) \<and> c_source r \<noteq> RPKI_IRR_PSEUDO_SOURCE
                        \<and> c_class r \<in> set RPKI_RELEVANT_OBJECT_CLASSES then rpki_line r else [])
                   @ [NL]) rows)))
       (\<lambda>t. Inr (py_strip_chars [NL, CR] t))"

definition flattened :: "db_row list handled \<Rightarrow> string handled" where
  "flattened h = hbind h (\<lambda>rows s. (flatten_query_output s rows, s))"

section \<open>Queries of both styles\<close>

definition handle_inverse_attr_search :: "'ip whois_env \<Rightarrow> string \<Rightarrow> string \<Rightarrow> whois_state \<Rightarrow> string handled" where
  "handle_inverse_attr_search E attr value s = flattened (on_resolver (rpsl_attribute_search (we_query E) attr value) s)"

definition handle_user_agent :: "string \<Rightarrow> whois_state \<Rightarrow> whois_state" where
  "handle_user_agent agent s = s\<lparr>ws_resolver := (ws_resolver s)\<lparr>user_agent := Some agent\<rparr>\<rparr>"

section \<open>IRRD style\<close>

definition handle_irrd_timeout_update :: "string \<Rightarrow> whois_state \<Rightarrow> unit handled" where
  "handle_irrd_timeout_update timeout s =
     (let invalid = (Inl (InvalidQueryException (''Invalid value for timeout: '' @ timeout)), s)
      in case py_int timeout of
           None \<Rightarrow> invalid
         | Some n \<Rightarrow> if 0 < n \<and> n \<le> 1000 then (Inr (), s\<lparr>session_timeout := n\<rparr>) else invalid)"

definition handle_routes_for_origin :: "'ip whois_env \<Rightarrow> string \<Rightarrow> nat \<Rightarrow> whois_state \<Rightarrow> string res" where
  "handle_routes_for_origin E orig ip_ver s =
     (case parse_as_number (settings_for E) False True (AsStr orig) of
        Inl (ValidationError m) \<Rightarrow> Inl (InvalidQueryException m)
      | Inl e \<Rightarrow> Inl e
      | Inr (origin_formatted, n) \<Rightarrow>
          rbind (routes_for_origin (we_query E) origin_formatted (Some ip_ver) (ws_resolver s)) (\<lambda>ps. Inr (py_join '' '' ps)))"

definition split_version :: "string \<Rightarrow> nat option \<times> string" where
  "split_version set_name =
     (if py_startswith set_name ''4'' then (Some 4, drop 1 set_name)
      else if py_startswith set_name ''6'' then (Some 6, drop 1 set_name)
      else (None, set_name))"

definition handle_irrd_routes_for_as_set :: "'ip whois_env \<Rightarrow> string \<Rightarrow> whois_state \<Rightarrow> string res" where
  "handle_irrd_routes_for_as_set E parameter s =
     (case split_version parameter of (ip_ver, set_name) \<Rightarrow>
        if set_name = [] then Inl (InvalidQueryException ''Missing required set name for A query'')
        else rbind (routes_for_as_set (we_query E) set_name ip_ver (remdups (excluded_sets s)) (ws_resolver s)) (\<lambda>ps.
               Inr (py_join '' '' ps)))"

definition py_endswith :: "string \<Rightarrow> string \<Rightarrow> bool" where
  "py_endswith s p = py_startswith (rev s) (rev p)"

definition handle_irrd_set_members :: "'ip whois_env \<Rightarrow> string \<Rightarrow> whois_state \<Rightarrow> string" where
  "handle_irrd_set_members E parameter s =
     (let recursive = py_endswith parameter '',1'';
          name = (if recursive then take (length parameter - 2) parameter else parameter)
      in py_join '' '' (members_for_set (we_query E) name (remdups (excluded_sets s)) 0 recursive None (ws_resolver s)))"

definition serial_range_line :: "settings \<Rightarrow> status_row \<Rightarrow> string" where
  "serial_range_line gs st =
     (let src = py_upper (st_source st);
          known = (\<lambda>v. v \<noteq> None \<and> v \<noteq> Some 0)
      in py_join '':''
           ([src, (if truthy (source_setting gs src ''keep_journal'') then ''Y'' else ''N''),
             (if known (serial_newest_mirror st) then ''0-'' @ str_int (the (serial_newest_mirror st)) else ''-'')]
            @ (if known (serial_last_export st) then [str_int (the (serial_last_export st))] else [])) @ [NL])"

definition handle_irrd_database_serial_range :: "'ip whois_env \<Rightarrow> string \<Rightarrow> whois_state \<Rightarrow> string" where
  "handle_irrd_database_serial_range E parameter s =
     (let real = all_valid_real_sources (rs_manager (ws_resolver s));
          srcs = (if parameter = ''-*'' then real else map py_upper (py_split CHR '','' parameter));
          invalid_sources = filter (\<lambda>src. src \<notin> set real) srcs
      in py_strip (concat (map (serial_range_line (settings_for E))
                     (DatabaseStatusQuery (qe_pg (we_query E)) srcs (qe_tables (we_query E))))
                   @ concat (map (\<lambda>src. py_upper src @ '':X:Database unknown'' @ [NL]) invalid_sources)))"

definition handle_irrd_database_status :: "'ip whois_env \<Rightarrow> string \<Rightarrow> whois_state \<Rightarrow> string res" where
  "handle_irrd_database_status E parameter s =
     rbind (database_status (we_query E) (we_isoformat E) (we_updated E)
              (if parameter = ''-*'' then None else Some (map py_upper (py_split CHR '','' parameter))) (ws_resolver s))
       (\<lambda>results. Inr (we_json_dumps E results))"

definition handle_irrd_exact_key :: "'ip whois_env \<Rightarrow> string \<Rightarrow> whois_state \<Rightarrow> string handled" where
  "handle_irrd_exact_key E parameter s =
     (if CHR '','' \<notin> set parameter
      then (Inl (InvalidQueryException (''Invalid argument for object lookup: '' @ parameter)), s)
      else (case py_split1 CHR '','' parameter of (object_class, key) \<Rightarrow>
              flattened (on_resolver (key_lookup (we_query E) object_class
                (if object_class \<in> {''route'', ''route6''}
                 then py_replace ''-'' [] (py_replace '' '' [] (py_upper key)) else key)) s)))"

definition route_option :: "string \<Rightarrow> (string \<times> string option) res" where
  "route_option parameter =
     (case py_split CHR '','' parameter of
        [addr] \<Rightarrow> Inr (addr, None)
      | [addr, opt] \<Rightarrow> Inr (addr, Some opt)
      | _ \<Rightarrow> Inl (ValueError ''too many values to unpack (expected 2)''))"

definition irrd_lookup_type :: "string option \<Rightarrow> route_lookup_type option" where
  "irrd_lookup_type opt =
     (if opt = None \<or> opt = Some ''o'' then Some EXACT
      else if opt = Some ''l'' then Some LESS_SPECIFIC_ONE_LEVEL
      else if opt = Some ''L'' then Some LESS_SPECIFIC_WITH_EXACT
      else if opt = Some ''M'' then Some MORE_SPECIFIC_WITHOUT_EXACT
      else None)"

fun row_origins :: "db_row list \<Rightarrow> string list res" where
  "row_origins [] = Inr []"
| "row_origins (r # rs) =
     (case dict_get (c_parsed r) ''origin'' of
        None \<Rightarrow> Inl (KeyError ''origin'')
      | Some (PStr v) \<Rightarrow> rbind (row_origins rs) (\<lambda>vs. Inr (v # vs))
      | Some (PList vs) \<Rightarrow> Inl (TypeError ''sequence item: expected str instance, list found''))"

definition handle_irrd_route_search :: "'ip whois_env \<Rightarrow> string \<Rightarrow> whois_state \<Rightarrow> string handled" where
  "handle_irrd_route_search E parameter s =
     (case route_option parameter of
        Inl e \<Rightarrow> (Inl e, s)
      | Inr (addr_text, opt) \<Rightarrow>
          (case IP (qe_lib (we_query E)) addr_text 0 of
             Inl e \<Rightarrow> (Inl (InvalidQueryException (''Invalid input for route search: '' @ parameter)), s)
           | Inr addr \<Rightarrow>
               (case irrd_lookup_type opt of
                  None \<Rightarrow> (Inl (InvalidQueryException (''Invalid route search option: '' @ the opt)), s)
                | Some t \<Rightarrow>
                    if opt = Some ''o''
                    then hbind (on_resolver (route_search (we_query E) addr t) s) (\<lambda>rows s1.
                           (rbind (row_origins rows) (\<lambda>vs. Inr (py_join '' '' vs)), s1))
                    else flattened (on_resolver (route_search (we_query E) addr t) s))))"

definition handle_irrd_sources_list :: "string \<Rightarrow> whois_state \<Rightarrow> string option handled" where
  "handle_irrd_sources_list parameter s =
     (if parameter = ''-*'' then (Inr None, s)
      else if parameter = ''-lc'' then (Inr (Some (py_join '','' (selected_sources (rs_manager (ws_resolver s))))), s)
      else (case resolver_set_query_sources (Some (py_split CHR '','' (py_upper parameter))) (ws_resolver s) of
              Inl e \<Rightarrow> (Inl e, s)
            | Inr r \<Rightarrow> (Inr None, s\<lparr>ws_resolver := r\<rparr>)))"

definition handle_irrd_set_exclusion :: "string \<Rightarrow> whois_state \<Rightarrow> string option \<times> whois_state" where
  "handle_irrd_set_exclusion parameter s =
     (if parameter = ''-lc'' then (Some (py_join '','' (excluded_sets s)), s)
      else (None, s\<lparr>excluded_sets := (if parameter = [] then [] else py_split CHR '','' (py_upper parameter))\<rparr>))"

definition handle_irrd_version :: string where
  "handle_irrd_version = ''IRRd -- version 4.6-dev''"

definition irrd_response :: "whois_response_type \<Rightarrow> string option \<Rightarrow> whois_response" where
  "irrd_response t v = \<lparr>response_type = t, mode = MODE_IRRD, result = v, hide_hashes = True\<rparr>"

definition or_not_found :: "string \<Rightarrow> whois_response" where
  "or_not_found v = irrd_response (if v = [] then KEY_NOT_FOUND else SUCCESS) (Some v)"

text \<open>An answer that is computed without a change of the state.\<close>

definition answer :: "(string \<Rightarrow> whois_response) \<Rightarrow> string res \<Rightarrow> whois_state \<Rightarrow> whois_response handled" where
  "answer f x s = (rbind x (\<lambda>v. Inr (f v)), s)"

definition filter_disabled :: "string \<Rightarrow> string \<Rightarrow> whois_response" where
  "filter_disabled what queries = irrd_response SUCCESS (Some (what @ queries @ ''queries for the rest of this connection.''))"

definition handle_irrd_command :: "'ip whois_env \<Rightarrow> string \<Rightarrow> whois_state \<Rightarrow> whois_response handled" where
  "handle_irrd_command E full_command s =
     (case full_command of
        [] \<Rightarrow> (Inl (InvalidQueryException ''Missing IRRD command''), s)
      | command # parameter \<Rightarrow>
          if command \<in> set ''tg6ijmnors'' \<and> parameter = []
          then (Inl (InvalidQueryException (''Missing parameter for '' @ [command] @ '' query'')), s)
          else if command = CHR ''!'' then (Inr (irrd_response NO_RESPONSE None), s\<lparr>multiple_command_mode := True\<rparr>)
          else if py_upper full_command = ''FNO-RPKI-FILTER''
          then (Inr (filter_disabled ''Filtering out RPKI invalids is disabled for !r and RIPE style '' []),
                s\<lparr>ws_resolver := disable_rpki_filter (ws_resolver s)\<rparr>)
          else if py_upper full_command = ''FNO-SCOPE-FILTER''
          then (Inr (filter_disabled ''Filtering out out-of-scope objects is disabled for !r and RIPE style '' []),
                s\<lparr>ws_resolver := disable_out_of_scope_filter (ws_resolver s)\<rparr>)
          else if py_upper full_command = ''FNO-ROUTE-PREFERENCE-FILTER''
          then (Inr (filter_disabled ''Filtering out objects suppressed due to route preference is disabled for ''
                       ''!r and RIPE style ''),
                s\<lparr>ws_resolver := disable_route_preference_filter (ws_resolver s)\<rparr>)
          else if command = CHR ''v'' then (Inr (irrd_response SUCCESS (Some handle_irrd_version)), s)
          else if command = CHR ''t''
          then hbind (handle_irrd_timeout_update parameter s) (\<lambda>_ s1. (Inr (irrd_response SUCCESS None), s1))
          else if command = CHR ''g'' then answer or_not_found (handle_routes_for_origin E parameter 4 s) s
          else if command = CHR ''6'' then answer or_not_found (handle_routes_for_origin E parameter 6 s) s
          else if command = CHR ''a'' then answer or_not_found (handle_irrd_routes_for_as_set E parameter s) s
          else if command = CHR ''i'' then (Inr (or_not_found (handle_irrd_set_members E parameter s)), s)
          else if command = CHR ''j''
          then (Inr (irrd_response SUCCESS (Some (handle_irrd_database_serial_range E parameter s))), s)
          else if command = CHR ''J''
          then answer (\<lambda>v. irrd_response SUCCESS (Some v)) (handle_irrd_database_status E parameter s) s
          else if command = CHR ''m''
          then hbind (handle_irrd_exact_key E parameter s) (\<lambda>v s1. (Inr (or_not_found v), s1))
          else if command = CHR ''n'' then (Inr (irrd_response SUCCESS None), handle_user_agent parameter s)
          else if command = CHR ''o''
          then hbind (handle_inverse_attr_search E ''mnt-by'' parameter s) (\<lambda>v s1. (Inr (or_not_found v), s1))
          else if command = CHR ''r''
          then hbind (handle_irrd_route_search E parameter s) (\<lambda>v s1. (Inr (or_not_found v), s1))
          else if command = CHR ''s''
          then hbind (handle_irrd_sources_list parameter s) (\<lambda>v s1. (Inr (irrd_response SUCCESS v), s1))
          else if command = CHR ''e''
          then (case handle_irrd_set_exclusion parameter s of (v, s1) \<Rightarrow> (Inr (irrd_response SUCCESS v), s1))
          else (Inl (InvalidQueryException (''Unrecognised command: '' @ [command])), s))"

section \<open>RIPE style\<close>

definition ripe_lookup_type :: "string \<Rightarrow> route_lookup_type" where
  "ripe_lookup_type command =
     (if command = ''x'' then EXACT else if command = ''l'' then LESS_SPECIFIC_ONE_LEVEL
      else if command = ''L'' then LESS_SPECIFIC_WITH_EXACT else MORE_SPECIFIC_WITHOUT_EXACT)"

definition handle_ripe_route_search :: "'ip whois_env \<Rightarrow> string \<Rightarrow> string \<Rightarrow> whois_state \<Rightarrow> string handled" where
  "handle_ripe_route_search E command parameter s =
     (case IP (qe_lib (we_query E)) parameter 0 of
        Inl e \<Rightarrow> (Inl (InvalidQueryException (''Invalid input for route search: '' @ parameter)), s)
      | Inr addr \<Rightarrow> flattened (on_resolver (route_search (we_query E) addr (ripe_lookup_type command)) s))"

definition handle_ripe_sources_list :: "string option \<Rightarrow> whois_state \<Rightarrow> unit handled" where
  "handle_ripe_sources_list sources_text s =
     (case resolver_set_query_sources
             (case sources_text of
                None \<Rightarrow> None | Some [] \<Rightarrow> None | Some t \<Rightarrow> Some (py_split CHR '','' (py_upper t))) (ws_resolver s) of
        Inl e \<Rightarrow> (Inl e, s)
      | Inr r \<Rightarrow> (Inr (), s\<lparr>ws_resolver := r\<rparr>))"

definition handle_ripe_restrict_object_class :: "string \<Rightarrow> whois_state \<Rightarrow> whois_state" where
  "handle_ripe_restrict_object_class classes s =
     s\<lparr>ws_resolver := set_object_class_filter_next_query (py_split CHR '','' classes) (ws_resolver s)\<rparr>"

definition handle_ripe_text_search :: "'ip whois_env \<Rightarrow> string \<Rightarrow> whois_state \<Rightarrow> string handled" where
  "handle_ripe_text_search E value s = flattened (on_resolver (rpsl_text_search (we_query E) value) s)"

definition nrtm_access :: "'ip whois_env \<Rightarrow> string \<Rightarrow> string \<Rightarrow> bool res" where
  "nrtm_access E src which =
     is_client_permitted (qe_lib (we_query E)) (settings_for E) (we_called_from_test E) (we_client_ip E) (source_key src which) True"

fun nrtm_information :: "'ip whois_env \<Rightarrow> status_row list \<Rightarrow> string res" where
  "nrtm_information E [] = Inr []"
| "nrtm_information E (st # sts) =
     (let src = py_upper (st_source st)
      in rbind (nrtm_access E src ''nrtm_access_list'') (\<lambda>in_access_list.
         rbind (nrtm_access E src ''nrtm_access_list_unfiltered'') (\<lambda>in_unfiltered.
         rbind (nrtm_information E sts) (\<lambda>rest.
           Inr (py_join '':'' [src, ''3'', (if \<not> in_access_list \<and> \<not> in_unfiltered then ''N'' else ''X''),
                  (case (serial_oldest_journal st, serial_newest_journal st) of
                     (Some oldest, Some newest) \<Rightarrow>
                       if newest \<noteq> 0 \<and> oldest \<noteq> 0 then str_int oldest @ ''-'' @ str_int newest else ''Unknown''
                   | _ \<Rightarrow> ''Unknown'')] @ [NL] @ rest)))))"

definition handle_nrtm_information_query :: "'ip whois_env \<Rightarrow> string \<Rightarrow> string res" where
  "handle_nrtm_information_query E param =
     (if param \<noteq> ''sources'' then Inl (InvalidQueryException (''Unrecognised parameter: '' @ param))
      else rbind (nrtm_information E (DatabaseStatusQuery (qe_pg (we_query E))
                    (map fst (cval_items (get_setting_or (settings_for E) ''sources'' (CDict [])))) (qe_tables (we_query E))))
             (\<lambda>t. Inr (py_strip t)))"

definition serial_range :: "string \<Rightarrow> (int \<times> int option) res" where
  "serial_range range_text =
     (let invalid = Inl (InvalidQueryException (''Invalid serial range: '' @ range_text))
      in case py_split CHR ''-'' range_text of
           [start_text, end_text] \<Rightarrow>
             (case py_int start_text of
                None \<Rightarrow> invalid
              | Some start \<Rightarrow>
                  if end_text = ''LAST'' then Inr (start, None)
                  else (case py_int end_text of None \<Rightarrow> invalid | Some n \<Rightarrow> Inr (start, Some n)))
         | _ \<Rightarrow> invalid)"

text \<open>The status and the journal of a source, as the generator of NRTM responses reads them.\<close>

definition source_journal_status :: "'ip query_env \<Rightarrow> string \<Rightarrow> (int option \<times> int option) option" where
  "source_journal_status E src =
     (case DatabaseStatusQuery (qe_pg E) [src] (qe_tables E) of
        [] \<Rightarrow> None
      | st # sts \<Rightarrow> Some (serial_oldest_journal st, serial_newest_journal st))"

definition source_journal :: "'ip query_env \<Rightarrow> string \<Rightarrow> int \<Rightarrow> int option \<Rightarrow> journal_row list" where
  "source_journal E src start end_opt =
     (case rbind (q_sources journal_columns [src] (RPSLDatabaseJournalQuery (qe_pg E))) (serial_nrtm_range start end_opt) of
        Inl e \<Rightarrow> []
      | Inr q \<Rightarrow> map (\<lambda>j. \<lparr>jr_operation = je_operation j, jr_serial = je_serial j, jr_object_text = je_text j,
                    jr_object_class = je_class j, jr_rpsl_pk = je_rpsl_pk j, jr_timestamp = je_timestamp j\<rparr>)
                  (run_query (finalise_statement (qe_pg E) journal_columns q) (t_journal (qe_tables E))))"

definition handle_nrtm_request :: "'ip whois_env \<Rightarrow> string \<Rightarrow> whois_state \<Rightarrow> string res" where
  "handle_nrtm_request E param s =
     (case py_split CHR '':'' param of
        [source_text, version, range_text] \<Rightarrow>
          rbind (serial_range range_text) (\<lambda>(start, end_opt).
            if version \<notin> {''1'', ''3''} then Inl (InvalidQueryException (''Invalid NRTM version: '' @ version))
            else (let src = py_upper source_text
                  in if src \<notin> set (all_valid_real_sources (rs_manager (ws_resolver s)))
                     then Inl (InvalidQueryException (''Unknown source: '' @ src))
                     else rbind (nrtm_access E src ''nrtm_access_list'') (\<lambda>in_access_list.
                          rbind (nrtm_access E src ''nrtm_access_list_unfiltered'') (\<lambda>in_unfiltered.
                            if \<not> in_access_list \<and> \<not> in_unfiltered then Inl (InvalidQueryException ''Access denied'')
                            else (case nrtm_generate (settings_for E) (we_now E) (source_journal_status (we_query E) src)
                                         (source_journal (we_query E) src) src version start end_opt (\<not> in_unfiltered) in_unfiltered of
                                    Inl (NRTMGeneratorException m) \<Rightarrow> Inl (InvalidQueryException m)
                                  | r \<Rightarrow> r)))))
      | _ \<Rightarrow> Inl (InvalidQueryException ''Invalid parameter: must contain three elements''))"

text \<open>
  The loop over the parts of a query. \<open>acc\<close> is the result so far and whether hashes are removed;
  a command that ends the loop gives the type of the response.
\<close>

type_synonym ripe_acc = "string option \<times> bool"

definition ripe_response :: "whois_response_type \<Rightarrow> ripe_acc \<Rightarrow> whois_response" where
  "ripe_response t acc = \<lparr>response_type = t, mode = MODE_RIPE, result = fst acc, hide_hashes = snd acc\<rparr>"

definition found_response :: "bool \<Rightarrow> string \<Rightarrow> whois_response" where
  "found_response hide v = ripe_response (if v = [] then KEY_NOT_FOUND else SUCCESS) (Some v, hide)"

definition missing_argument :: "string \<Rightarrow> whois_state \<Rightarrow> 'a handled" where
  "missing_argument command s = (Inl (InvalidQueryException (''Missing argument for flag/search: '' @ command)), s)"

function ripe_loop :: "'ip whois_env \<Rightarrow> string list \<Rightarrow> ripe_acc \<Rightarrow> whois_state \<Rightarrow> whois_response handled" where
  "ripe_loop E [] acc s = (Inr (ripe_response SUCCESS acc), s)"
| "ripe_loop E (component # components) acc s =
     (if \<not> py_startswith component ''-''
      then hbind (handle_ripe_text_search E component s) (\<lambda>v s1. ripe_loop E components (Some v, snd acc) s1)
      else
        (let command = drop 1 component
         in if command = ''k'' then ripe_loop E components acc (s\<lparr>multiple_command_mode := True\<rparr>)
            else if command \<in> {''l'', ''L'', ''M'', ''x''}
            then (case components of
                    [] \<Rightarrow> missing_argument command s
                  | arg # rest \<Rightarrow> hbind (handle_ripe_route_search E command arg s) (\<lambda>v s1. (Inr (found_response (snd acc) v), s1)))
            else if command = ''i''
            then (case components of
                    attr # v # rest \<Rightarrow>
                      hbind (handle_inverse_attr_search E attr v s) (\<lambda>v s1. (Inr (found_response (snd acc) v), s1))
                  | _ \<Rightarrow> missing_argument command s)
            else if command = ''s''
            then (case components of
                    [] \<Rightarrow> missing_argument command s
                  | arg # rest \<Rightarrow> hbind (handle_ripe_sources_list (Some arg) s) (\<lambda>_ s1. ripe_loop E rest acc s1))
            else if command = ''a''
            then hbind (handle_ripe_sources_list None s) (\<lambda>_ s1. ripe_loop E components acc s1)
            else if command = ''T''
            then (case components of
                    [] \<Rightarrow> missing_argument command s
                  | arg # rest \<Rightarrow> ripe_loop E rest acc (handle_ripe_restrict_object_class arg s))
            else if command = ''t''
            then (case components of
                    [] \<Rightarrow> missing_argument command s
                  | arg # rest \<Rightarrow> (rbind (rpsl_object_template arg) (\<lambda>v. Inr (ripe_response SUCCESS (Some v, snd acc))), s))
            else if command = ''K'' then ripe_loop E components acc (s\<lparr>key_fields_only := True\<rparr>)
            else if command = ''V''
            then (case components of
                    [] \<Rightarrow> missing_argument command s
                  | arg # rest \<Rightarrow> ripe_loop E rest acc (handle_user_agent arg s))
            else if command = ''q''
            then (case components of
                    [] \<Rightarrow> missing_argument command s
                  | arg # rest \<Rightarrow>
                      hbind (handle_nrtm_information_query E arg, s) (\<lambda>v s1. ripe_loop E rest (Some v, snd acc) s1))
            else if command = ''g''
            then (case components of
                    [] \<Rightarrow> missing_argument command s
                  | arg # rest \<Rightarrow> hbind (handle_nrtm_request E arg s, s) (\<lambda>v s1. ripe_loop E rest (Some v, False) s1))
            else if command \<in> {''F'', ''r''} then ripe_loop E components acc s
            else (Inl (InvalidQueryException (''Unrecognised flag/search: '' @ command)), s)))"
  by pat_completeness auto
termination by (relation "measure (\<lambda>(E, components, acc, s). length components)") auto

declare ripe_loop.simps [simp del]

fun squeeze_spaces :: "string \<Rightarrow> string" where
  "squeeze_spaces (c # d # s) =
     (if c = CHR '' '' \<and> d = CHR '' '' then squeeze_spaces (d # s) else c # squeeze_spaces (d # s))"
| "squeeze_spaces s = s"

definition handle_ripe_command :: "'ip whois_env \<Rightarrow> string \<Rightarrow> whois_state \<Rightarrow> whois_response handled" where
  "handle_ripe_command E full_query s =
     ripe_loop E (py_split CHR '' '' (py_strip (squeeze_spaces full_query))) (None, True) s"

section \<open>A query\<close>

definition error_response :: "whois_response_mode \<Rightarrow> exn \<Rightarrow> whois_response" where
  "error_response m e =
     (case e of
        InvalidQueryException msg \<Rightarrow> \<lparr>response_type = ERROR_USER, mode = m, result = Some msg, hide_hashes = True\<rparr>
      | _ \<Rightarrow> \<lparr>response_type = ERROR_INTERNAL, mode = m,
                result = Some ''An internal error occurred while processing this query.'', hide_hashes = True\<rparr>)"

definition with_errors :: "whois_response_mode \<Rightarrow> whois_response handled \<Rightarrow> whois_response \<times> whois_state" where
  "with_errors m h = (case h of (Inr w, s) \<Rightarrow> (w, s) | (Inl e, s) \<Rightarrow> (error_response m e, s))"

text \<open>An IRRD style query after a user agent is answered as such.\<close>

definition strip_user_agent :: "string \<Rightarrow> whois_state \<Rightarrow> string \<times> whois_state" where
  "strip_user_agent query s =
     (if py_startswith query ''-V ''
      then (let rest = drop 3 query
            in if CHR '' '' \<in> set rest
               then (case py_split1 CHR '' '' rest of (agent, remainder) \<Rightarrow>
                       if py_startswith remainder ''!'' then (remainder, handle_user_agent agent s) else (query, s))
               else (query, s))
      else (query, s))"

definition handle_query :: "'ip whois_env \<Rightarrow> string \<Rightarrow> whois_state \<Rightarrow> whois_response \<times> whois_state" where
  "handle_query E query s =
     (let s0 = s\<lparr>key_fields_only := False\<rparr>
      in if CHR 0x00 \<in> set query
         then (irrd_response ERROR_USER (Some ''Queries may not contain null bytes''), s0)
         else (case strip_user_agent query s0 of (q, s1) \<Rightarrow>
                 if py_startswith q ''!'' then with_errors MODE_IRRD (handle_irrd_command E (drop 1 q) s1)
                 else with_errors MODE_RIPE (handle_ripe_command E q s1)))"

end
