(* ===== verification/Whois_Server.thy ===== *)
theory Whois_Server
  imports Whois_Query
begin

text \<open>
  \<^verbatim>\<open>irrd/server/whois/server.py\<close>: a worker and one client connection. What arrives is a list of lines; for
  each there is the environment in which it is answered, and whether the answer can be written. The end
  of the list stands for the end of the data, which is also what reading gives when the timer has closed
  the connection. A connection gives what was written, the exception that ended it, if any, and the state
  of its session.
\<close>

record 'ip received =
  rc_env :: "'ip whois_env"
  rc_line :: string
  rc_writable :: bool

record connection =
  written :: "string list"
  raised :: "exn option"
  session :: whois_state

text \<open>One query: what is written, whether the connection stays open, and the session.\<close>

definition server_handle_query :: "'ip received \<Rightarrow> string \<Rightarrow> whois_state \<Rightarrow> (string option \<times> bool) res \<times> whois_state" where
  "server_handle_query rc query s =
     (if py_upper query = ''!Q'' then (Inr (None, False), s)
      else (case handle_query (rc_env rc) query s of (response, s1) \<Rightarrow>
              (rbind (generate_response response) (\<lambda>response_bytes.
                 if \<not> rc_writable rc then Inr (None, False)
                 else Inr (Some response_bytes, multiple_command_mode s1)), s1)))"

fun connection_loop :: "'ip received list \<Rightarrow> whois_state \<Rightarrow> connection" where
  "connection_loop [] s = \<lparr>written = [], raised = None, session = s\<rparr>"
| "connection_loop (rc # rcs) s =
     (let query = py_strip (utf8_decode (rc_line rc))
      in if query = []
         then (if rc_line rc = [] then \<lparr>written = [], raised = None, session = s\<rparr> else connection_loop rcs s)
         else (case server_handle_query rc query s of
                 (Inl e, s1) \<Rightarrow> \<lparr>written = [], raised = Some e, session = s1\<rparr>
               | (Inr (out, keep_open), s1) \<Rightarrow>
                   (let rest = (if keep_open then connection_loop rcs s1 else \<lparr>written = [], raised = None, session = s1\<rparr>)
                    in rest\<lparr>written := (case out of None \<Rightarrow> [] | Some b \<Rightarrow> [b]) @ written rest\<rparr>)))"

definition handle_connection :: "'ip extlib \<Rightarrow> settings \<Rightarrow> bool option \<Rightarrow> string \<Rightarrow> 'ip received list \<Rightarrow> connection" where
  "handle_connection L gs called_from_test client_ip rcs =
     (case is_client_permitted L gs called_from_test client_ip ''server.whois.access_list'' False of
        Inl e \<Rightarrow> \<lparr>written = [], raised = Some e, session = WhoisQueryParser gs\<rparr>
      | Inr False \<Rightarrow> \<lparr>written = [''%% Access denied''], raised = None, session = WhoisQueryParser gs\<rparr>
      | Inr True \<Rightarrow> connection_loop rcs (WhoisQueryParser gs))"

end
