(* ===== verification/Preload_Facts.thy ===== *)
theory Preload_Facts
  imports Preload
begin

text \<open>
  The preload store answers with the visible objects of the database: an update followed by a load
  gives, for each source, exactly the prefixes of each origin and the members of each set.
\<close>

section \<open>Hashes\<close>

lemma split1_eq: "sep \<in> set k \<Longrightarrow> py_split1 sep k = (a, b) \<longleftrightarrow> sep \<notin> set a \<and> k = a @ sep # b"
proof (intro iffI)
  assume "sep \<in> set k" "py_split1 sep k = (a, b)"
  then have a: "a = takeWhile (\<lambda>c. c \<noteq> sep) k" and b: "b = tl (dropWhile (\<lambda>c. c \<noteq> sep) k)"
    by (auto simp: py_split1_def)
  from \<open>sep \<in> set k\<close> have ne: "dropWhile (\<lambda>c. c \<noteq> sep) k \<noteq> []" by (auto simp: dropWhile_eq_Nil_conv)
  with hd_dropWhile [OF ne] have "dropWhile (\<lambda>c. c \<noteq> sep) k \<noteq> []" "hd (dropWhile (\<lambda>c. c \<noteq> sep) k) = sep" by simp_all
  then have "dropWhile (\<lambda>c. c \<noteq> sep) k = sep # b" using b by (cases "dropWhile (\<lambda>c. c \<noteq> sep) k") auto
  then show "sep \<notin> set a \<and> k = a @ sep # b"
    using a by (metis set_takeWhileD takeWhile_dropWhile_id)
qed (auto simp: py_split1_append)

lemma load_hash_get:
  assumes "load_hash h target = Inr P" "distinct (dict_keys h)" "REDIS_KEY_PK_SOURCE_SEPARATOR \<notin> set src"
    "redis_key src key \<noteq> SENTINEL_HASH_CREATED"
  shows "store_get P src key =
    (case dict_get h (redis_key src key) of None \<Rightarrow> store_get target src key | Some r \<Rightarrow> Some r)"
  using assms(1,2)
proof (induction h arbitrary: target)
  case (Cons kv h)
  obtain k routes where kv: "kv = (k, routes)" by force
  note prems = Cons.prems [unfolded kv]
  show ?case
  proof (cases "k = SENTINEL_HASH_CREATED")
    case True
    with Cons.IH prems assms(4) kv show ?thesis by (simp add: dict_keys_def)
  next
    case False
    obtain s0 o0 where sp: "py_split1 REDIS_KEY_PK_SOURCE_SEPARATOR k = (s0, o0)" by force
    define t1 where "t1 = dict_set s0 (dict_set o0 routes (case dict_get target s0 of None \<Rightarrow> [] | Some d \<Rightarrow> d)) target"
    from prems(1) False sp have sep: "REDIS_KEY_PK_SOURCE_SEPARATOR \<in> set k" and l: "load_hash h t1 = Inr P"
      by (auto simp: rbind_Inr_conv decode_ascii_def t1_def split: if_splits)
    have k: "k = redis_key s0 o0" "REDIS_KEY_PK_SOURCE_SEPARATOR \<notin> set s0"
      using sp sep by (auto simp: split1_eq redis_key_def)
    have same: "redis_key src key = k \<longleftrightarrow> src = s0 \<and> key = o0"
      using k assms(3) by (auto simp: redis_key_def append_eq_append_conv2 append_eq_Cons_conv Cons_eq_append_conv)
    have ih: "store_get P src key = (case dict_get h (redis_key src key) of None \<Rightarrow> store_get t1 src key | Some r \<Rightarrow> Some r)"
      using Cons.IH [OF l] prems(2) by (simp add: dict_keys_def)
    have t1: "store_get t1 src key = (if src = s0 \<and> key = o0 then Some routes else store_get target src key)"
      by (auto simp: store_get_def t1_def split: option.splits)
    have "dict_get h k = None" using prems(2) by (simp add: dict_keys_def dict_get_def map_of_eq_None_iff)
    with ih t1 same kv show ?thesis by (auto split: option.splits)
  qed
qed simp

lemma dict_get_map: "dict_get (map (\<lambda>(k, v). (k, f v)) d) k = map_option f (dict_get d k)"
  by (simp add: dict_get_def map_of_map)

lemma dict_keys_map [simp]: "dict_keys (map (\<lambda>(k, v). (k, f v)) d) = dict_keys d"
  by (simp add: dict_keys_def case_prod_beta)

lemma dict_get_store_hash:
  "k \<noteq> SENTINEL_HASH_CREATED \<Longrightarrow>
   dict_get (store_hash store) k = map_option (py_join [REDIS_CONTENTS_LIST_SEPARATOR]) (dict_get store k)"
  by (simp add: store_hash_def dict_get_map)

lemma distinct_store_hash: "distinct (dict_keys store) \<Longrightarrow> distinct (dict_keys (store_hash store))"
  unfolding store_hash_def by (rule distinct_dict_keys_set) simp

text \<open>A store that is written to the server and loaded again.\<close>

lemma stored_and_loaded:
  assumes "load_hash (hgetall (Some (store_hash store))) [] = Inr P" "distinct (dict_keys store)"
    "REDIS_KEY_PK_SOURCE_SEPARATOR \<notin> set src" "redis_key src key \<noteq> SENTINEL_HASH_CREATED"
  shows "store_get P src key = map_option (py_join [REDIS_CONTENTS_LIST_SEPARATOR]) (dict_get store (redis_key src key))"
  using load_hash_get [OF assms(1)] assms(2-4)
  by (simp add: hgetall_def distinct_store_hash dict_get_store_hash store_get_def split: option.splits)

section \<open>Routes\<close>

definition members_at :: "member_store \<Rightarrow> string \<Rightarrow> string set" where
  "members_at store k = (case dict_get store k of None \<Rightarrow> {} | Some vs \<Rightarrow> set vs)"

definition filled :: "member_store \<Rightarrow> bool" where
  "filled store \<longleftrightarrow> distinct (dict_keys store) \<and> (\<forall>k. dict_get store k \<noteq> Some [])"

lemma filled_Nil [simp]: "filled []"
  by (simp add: filled_def dict_keys_def)

lemma members_at_add: "members_at (add_member k v store) k' = (if k' = k then insert v (members_at store k) else members_at store k')"
  by (auto simp: members_at_def add_member_def Let_def split: option.splits)

lemma filled_add: "filled store \<Longrightarrow> filled (add_member k v store)"
  by (auto simp: filled_def add_member_def Let_def distinct_dict_keys_set split: option.splits)

lemma fold_add_route_row:
  "filled store \<Longrightarrow> filled (fold (add_route_row v) rows store) \<and>
   members_at (fold (add_route_row v) rows store) k =
     members_at store k \<union> {route_prefix r |r. r \<in> set rows \<and> c_ip_version r = Some v \<and> redis_key (c_source r) (route_origin r) = k}"
proof (induction rows arbitrary: store)
  case (Cons r rows)
  have "filled (add_route_row v r store)" using Cons.prems by (simp add: add_route_row_def filled_add)
  from Cons.IH [OF this] show ?case by (auto simp: add_route_row_def members_at_add)
qed simp

lemma redis_key_inj:
  "REDIS_KEY_PK_SOURCE_SEPARATOR \<notin> set s \<Longrightarrow> REDIS_KEY_PK_SOURCE_SEPARATOR \<notin> set s' \<Longrightarrow>
   redis_key s k = redis_key s' k' \<longleftrightarrow> s = s' \<and> k = k'"
  by (auto simp: redis_key_def append_eq_append_conv2 append_eq_Cons_conv Cons_eq_append_conv)

lemma origin_key_not_sentinel: "redis_key s (route_origin r) \<noteq> SENTINEL_HASH_CREATED"
proof
  assume "redis_key s (route_origin r) = SENTINEL_HASH_CREATED"
  then have "\<exists>p. p @ CHR 0x5F # ''AS'' @ shown_column str_int (c_asn_first r) = SENTINEL_HASH_CREATED"
    by (auto simp: redis_key_def route_origin_def)
  then show False
    by (auto simp: SENTINEL_HASH_CREATED_def append_eq_Cons_conv)
qed

text \<open>The members of a stored text are those that were written, when none of them has a comma.\<close>

lemma set_split_join:
  "vs \<noteq> [] \<Longrightarrow> (\<And>v. v \<in> set vs \<Longrightarrow> c \<notin> set v) \<Longrightarrow> set (py_split c (py_join [c] vs)) = set vs"
  by (simp add: py_split_join)

lemma stored_prefixes_eq:
  assumes "load_hash (hgetall (Some (store_hash store))) [] = Inr P" "filled store"
    "REDIS_KEY_PK_SOURCE_SEPARATOR \<notin> set src" "redis_key src key \<noteq> SENTINEL_HASH_CREATED"
    "\<And>v. v \<in> members_at store (redis_key src key) \<Longrightarrow> REDIS_CONTENTS_LIST_SEPARATOR \<notin> set v"
  shows "set (stored_prefixes P src key) = members_at store (redis_key src key)"
proof -
  have d: "distinct (dict_keys store)" and ne: "dict_get store (redis_key src key) \<noteq> Some []"
    using assms(2) by (simp_all add: filled_def)
  note sl = stored_and_loaded [OF assms(1) d assms(3,4)]
  show ?thesis
  proof (cases "dict_get store (redis_key src key)")
    case None
    then show ?thesis using sl by (simp add: stored_prefixes_def members_at_def)
  next
    case (Some vs)
    with ne assms(5) have "set (py_split REDIS_CONTENTS_LIST_SEPARATOR (py_join [REDIS_CONTENTS_LIST_SEPARATOR] vs)) = set vs"
      by (intro set_split_join) (auto simp: members_at_def)
    then show ?thesis using sl Some by (simp add: stored_prefixes_def members_at_def)
  qed
qed

definition row_visible :: "db_row \<Rightarrow> bool" where
  "row_visible r \<longleftrightarrow> object_is_visible (c_rpki r) (c_scope r) (c_pref r)"

lemma default_suppression_where:
  assumes "\<not> query_frozen q"
  shows "\<exists>q'. default_suppression q = Inr q' \<and> \<not> query_frozen q' \<and> q_smallest q' = q_smallest q \<and> q_limit q' = q_limit q \<and>
    q_where q' = (\<lambda>r. q_where q r \<and> row_visible r)"
proof -
  have "object_is_visible a b c \<longleftrightarrow> a \<in> set [RPKI_not_found, RPKI_valid] \<and> b \<in> set [in_scope] \<and> c \<in> set [pref_visible]" for a b c
    by (cases a; cases b; cases c) (simp_all add: object_is_visible_def rpki_is_visible_def scopefilter_is_visible_def routepref_is_visible_def)
  with assms show ?thesis
    by (auto simp: row_visible_def default_suppression_def q_rpki_status_def q_scopefilter_status_def q_route_preference_status_def)
qed

lemma preload_rows_set:
  assumes "query = Inr q" "q_smallest q = None" "q_limit q = None"
  shows "\<exists>rows. preload_rows PG T query = Inr rows \<and> mset rows = mset (filter (q_where q) (t_objects T))"
  using assms by (simp add: preload_rows_def run_query_def Let_def)

lemma unordered_query_simps [simp]:
  "query_frozen unordered_query = False" "q_where unordered_query = (\<lambda>r. True)"
  "q_smallest unordered_query = None" "q_limit unordered_query = None"
  by (simp_all add: unordered_query_def)

lemma class_query:
  assumes "\<not> query_frozen q"
  shows "\<exists>q'. rbind (q_object_classes object_columns cs q) default_suppression = Inr q' \<and> q_smallest q' = q_smallest q \<and>
    q_limit q' = q_limit q \<and> q_where q' = (\<lambda>r. q_where q r \<and> c_class r \<in> set cs \<and> row_visible r)"
proof -
  have c: "q_object_classes object_columns cs q
      = Inr (q\<lparr>set_object_classes := cs, q_where := (\<lambda>r. q_where q r \<and> c_class r \<in> set cs)\<rparr>)"
    using assms by (simp add: q_object_classes_def object_columns_def)
  show ?thesis unfolding c
    using default_suppression_where [of "q\<lparr>set_object_classes := cs, q_where := (\<lambda>r. q_where q r \<and> c_class r \<in> set cs)\<rparr>"] assms
    by (auto simp: conj_assoc)
qed

lemma rows_of_class:
  "\<exists>rows. preload_rows PG T (rbind (q_object_classes object_columns cs unordered_query) default_suppression) = Inr rows \<and>
     mset rows = mset (filter (\<lambda>r. c_class r \<in> set cs \<and> row_visible r) (t_objects T))"
  using class_query [of unordered_query cs] preload_rows_set [of _ _ PG T] by fastforce

lemma update_routes_spec:
  "\<exists>rows. set rows = {r \<in> set (t_objects T). c_class r \<in> {''route'', ''route6''} \<and> row_visible r} \<and>
     update_routes PG T R = Inr (update_route_store (fold (add_route_row 4) rows []) (fold (add_route_row 6) rows []) R)"
proof -
  from rows_of_class [of PG T "[''route'', ''route6'']"] obtain rows where
    "preload_rows PG T (rbind (q_object_classes object_columns [''route'', ''route6''] unordered_query) default_suppression) = Inr rows"
    and m: "mset rows = mset (filter (\<lambda>r. c_class r \<in> set [''route'', ''route6''] \<and> row_visible r) (t_objects T))" by blast
  then have "update_routes PG T R = Inr (update_route_store (fold (add_route_row 4) rows []) (fold (add_route_row 6) rows []) R)"
    by (simp add: update_routes_def)
  moreover from mset_eq_setD [OF m] have "set rows = {r \<in> set (t_objects T). c_class r \<in> {''route'', ''route6''} \<and> row_visible r}"
    by auto
  ultimately show ?thesis by blast
qed

section \<open>Sets\<close>

definition items_of :: "db_row \<Rightarrow> string \<Rightarrow> string set" where
  "items_of r name = set (pvalue_items (parsed_or_empty r name))"

definition set_key :: "db_row \<Rightarrow> string" where
  "set_key r = redis_key (c_source r) (c_rpsl_pk r)"

definition ref_key :: "db_row \<Rightarrow> string \<times> string" where
  "ref_key r = (c_source r, c_rpsl_pk r)"

text \<open>The object \<open>r\<close> joins the set \<open>s\<close> by reference.\<close>

definition joins :: "db_row \<Rightarrow> db_row \<Rightarrow> bool" where
  "joins r s \<longleftrightarrow> c_source r = c_source s \<and> c_rpsl_pk s \<in> items_of r ''member-of'' \<and>
     (''ANY'' \<in> items_of s ''mbrs-by-ref'' \<or> items_of r ''mnt-by'' \<inter> items_of s ''mbrs-by-ref'' \<noteq> {})"

definition set_content :: "db_row list \<Rightarrow> string list \<Rightarrow> db_row \<Rightarrow> string set" where
  "set_content rows member_classes s = items_of s ''members'' \<union> items_of s ''mp-members'' \<union>
     {m. \<exists>r \<in> set rows. c_class r \<in> set member_classes \<and> row_visible r \<and> joins r s \<and> own_name r = Inr m}"

lemma list_concat_items: "list_concat a b = Inr vs \<Longrightarrow> set vs = set (pvalue_items a) \<union> set (pvalue_items b)"
  by (cases a; cases b) auto

definition with_refs :: "db_row \<Rightarrow> mbrs_by_ref \<Rightarrow> mbrs_by_ref" where
  "with_refs r by_ref = (let mntners = remdups (pvalue_items (parsed_or_empty r ''mbrs-by-ref''))
     in if mntners = [] then by_ref else dict_set (ref_key r) mntners by_ref)"

lemma read_sets_Cons:
  "read_sets (r # rows) store by_ref = Inr res \<longleftrightarrow>
   (\<exists>vs. list_concat (parsed_or_empty r ''members'') (parsed_or_empty r ''mp-members'') = Inr vs \<and>
      read_sets rows (dict_set (set_key r) (remdups vs) store) (with_refs r by_ref) = Inr res)"
  by (auto simp: rbind_Inr_conv Let_def set_key_def ref_key_def with_refs_def)

lemma with_refs_other: "q \<noteq> ref_key r \<Longrightarrow> dict_get (with_refs r by_ref) q = dict_get by_ref q"
  by (simp add: with_refs_def Let_def)

lemma read_sets_keeps:
  "read_sets rows store by_ref = Inr (store', by_ref') \<Longrightarrow>
   (\<forall>k. k \<notin> set_key ` set rows \<longrightarrow> dict_get store' k = dict_get store k) \<and>
   (\<forall>q. q \<notin> ref_key ` set rows \<longrightarrow> dict_get by_ref' q = dict_get by_ref q) \<and>
   (distinct (dict_keys store) \<longrightarrow> distinct (dict_keys store'))"
proof (induction rows arbitrary: store by_ref)
  case (Cons r rows)
  from Cons.prems obtain vs where
    "read_sets rows (dict_set (set_key r) (remdups vs) store) (with_refs r by_ref) = Inr (store', by_ref')"
    unfolding read_sets_Cons by blast
  from Cons.IH [OF this] show ?case by (auto simp: with_refs_other distinct_dict_keys_set)
qed simp

lemma read_sets_spec:
  assumes "read_sets rows store by_ref = Inr (store', by_ref')" "distinct (map set_key rows)" "distinct (map ref_key rows)"
    "s \<in> set rows" "dict_get by_ref (ref_key s) = None"
  shows "(\<exists>vs. dict_get store' (set_key s) = Some vs \<and> set vs = items_of s ''members'' \<union> items_of s ''mp-members'') \<and>
    (case dict_get by_ref' (ref_key s) of None \<Rightarrow> items_of s ''mbrs-by-ref'' = {} | Some ms \<Rightarrow> set ms = items_of s ''mbrs-by-ref'')"
  using assms
proof (induction rows arbitrary: store by_ref)
  case (Cons r rows)
  from Cons.prems(1) obtain vs where vs: "list_concat (parsed_or_empty r ''members'') (parsed_or_empty r ''mp-members'') = Inr vs"
    and rest: "read_sets rows (dict_set (set_key r) (remdups vs) store) (with_refs r by_ref) = Inr (store', by_ref')"
    unfolding read_sets_Cons by blast
  note keeps = read_sets_keeps [OF rest]
  show ?case
  proof (cases "s = r")
    case True
    with Cons.prems(2,3) have new: "set_key s \<notin> set_key ` set rows" "ref_key s \<notin> ref_key ` set rows" by auto
    from keeps new(1) True have "dict_get store' (set_key s) = Some (remdups vs)" by simp
    moreover from keeps new(2) have "dict_get by_ref' (ref_key s) = dict_get (with_refs r by_ref) (ref_key s)" by blast
    ultimately show ?thesis using True Cons.prems(5) list_concat_items [OF vs]
      by (auto simp: with_refs_def items_of_def Let_def)
  next
    case False
    with Cons.prems(4) have s: "s \<in> set rows" by simp
    with Cons.prems(3) have "ref_key s \<noteq> ref_key r" by (metis distinct.simps(2) image_eqI list.simps(9) set_map)
    then have "dict_get (with_refs r by_ref) (ref_key s) = None" using Cons.prems(5) by (simp add: with_refs_other)
    with Cons.IH [OF rest _ _ s] Cons.prems(2,3) show ?thesis by simp
  qed
qed simp

text \<open>Joining by reference adds members to sets that are there.\<close>

definition admitted :: "mbrs_by_ref \<Rightarrow> db_row \<Rightarrow> string \<Rightarrow> bool" where
  "admitted by_ref r pk' \<longleftrightarrow> (case dict_get by_ref (c_source r, pk') of
     None \<Rightarrow> False
   | Some ms \<Rightarrow> ''ANY'' \<in> set ms \<or> items_of r ''mnt-by'' \<inter> set ms \<noteq> {})"

lemma may_join_Inr: "may_join r ms = Inr b \<Longrightarrow> b \<longleftrightarrow> ''ANY'' \<in> set ms \<or> items_of r ''mnt-by'' \<inter> set ms \<noteq> {}"
  by (auto simp: may_join_def items_of_def parsed_or_empty_def list_ex_iff split: if_splits option.splits)

lemma add_to_known_Inr:
  "add_to_known k v store = Inr store' \<longleftrightarrow> dict_get store k \<noteq> None \<and> store' = add_member k v store"
  by (auto simp: add_to_known_def split: option.splits)

definition same_keys :: "member_store \<Rightarrow> member_store \<Rightarrow> bool" where
  "same_keys store store' \<longleftrightarrow> (\<forall>k. dict_get store' k = None \<longleftrightarrow> dict_get store k = None) \<and>
     (distinct (dict_keys store) \<longrightarrow> distinct (dict_keys store'))"

lemma same_keys_add: "dict_get store k \<noteq> None \<Longrightarrow> same_keys store (add_member k v store)"
  by (auto simp: same_keys_def add_member_def Let_def distinct_dict_keys_set)

lemma same_keys_trans: "same_keys a b \<Longrightarrow> same_keys b c \<Longrightarrow> same_keys a c"
  by (auto simp: same_keys_def)

lemma join_sets_spec:
  "join_sets by_ref r pks store = Inr store' \<Longrightarrow> same_keys store store' \<and>
   members_at store' k = members_at store k \<union>
     {m. own_name r = Inr m \<and> (\<exists>p \<in> set pks. admitted by_ref r p \<and> k = redis_key (c_source r) p)}"
proof (induction pks arbitrary: store)
  case (Cons p pks)
  show ?case
  proof (cases "dict_get by_ref (c_source r, p)")
    case None
    with Cons.IH [of store] Cons.prems show ?thesis by (auto simp: admitted_def)
  next
    case (Some ms)
    with Cons.prems obtain ok where ok: "may_join r ms = Inr ok" by (auto simp: rbind_Inr_conv)
    with Some may_join_Inr [OF ok] have adm: "admitted by_ref r p \<longleftrightarrow> ok" by (simp add: admitted_def)
    show ?thesis
    proof (cases ok)
      case True
      with Cons.prems Some ok obtain m where m: "own_name r = Inr m" "dict_get store (redis_key (c_source r) p) \<noteq> None"
        and rest: "join_sets by_ref r pks (add_member (redis_key (c_source r) p) m store) = Inr store'"
        by (auto simp: rbind_Inr_conv add_to_known_Inr)
      from Cons.IH [OF rest] same_keys_trans [OF same_keys_add [OF m(2)]] adm True m(1) show ?thesis
        by (auto simp: members_at_add split: if_splits)
    next
      case False
      with Cons.prems Some ok Cons.IH [of store] adm show ?thesis by auto
    qed
  qed
qed (simp add: same_keys_def)

lemma read_members_spec:
  "read_members by_ref rows store = Inr store' \<Longrightarrow> same_keys store store' \<and>
   members_at store' k = members_at store k \<union>
     {m. \<exists>r \<in> set rows. own_name r = Inr m \<and> (\<exists>p \<in> items_of r ''member-of''. admitted by_ref r p \<and> k = redis_key (c_source r) p)}"
proof (induction rows arbitrary: store)
  case (Cons r rows)
  then obtain store1 where j: "join_sets by_ref r (pvalue_items (parsed_or_empty r ''member-of'')) store = Inr store1"
    and rest: "read_members by_ref rows store1 = Inr store'" by (auto simp: rbind_Inr_conv)
  from Cons.IH [OF rest] join_sets_spec [OF j, of k] same_keys_trans show ?case
    unfolding items_of_def [symmetric] by auto
qed (simp add: same_keys_def)

text \<open>
  What the database holds when its rows are as they are stored: keys are unique and not empty, the names of
  sources have no underscore and are not the name of the sentinel, and no member has a comma.
\<close>

definition plain_source :: "string \<Rightarrow> bool" where
  "plain_source src \<longleftrightarrow> REDIS_KEY_PK_SOURCE_SEPARATOR \<notin> set src \<and> src \<noteq> ''SENTINEL''"

definition no_comma :: "string \<Rightarrow> bool" where
  "no_comma m \<longleftrightarrow> REDIS_CONTENTS_LIST_SEPARATOR \<notin> set m"

definition plain_rows :: "db_row list \<Rightarrow> bool" where
  "plain_rows rows \<longleftrightarrow> distinct (map object_key rows) \<and>
     (\<forall>r \<in> set rows. c_rpsl_pk r \<noteq> [] \<and> plain_source (c_source r) \<and> no_comma (route_prefix r) \<and>
        (\<forall>m. m \<in> items_of r ''members'' \<union> items_of r ''mp-members'' \<or> own_name r = Inr m \<longrightarrow> no_comma m))"

definition stored_set :: "db_row list \<Rightarrow> string \<Rightarrow> string \<Rightarrow> string \<Rightarrow> db_row \<Rightarrow> bool" where
  "stored_set rows cls src name s \<longleftrightarrow>
     s \<in> set rows \<and> c_class s = cls \<and> row_visible s \<and> c_source s = src \<and> c_rpsl_pk s = name"

lemma stored_set_unique:
  "plain_rows rows \<Longrightarrow> stored_set rows cls src name s \<Longrightarrow> stored_set rows cls src name s' \<Longrightarrow> s = s'"
  unfolding plain_rows_def stored_set_def distinct_map by (auto simp: object_key_def elim!: inj_onD [where x = s])

lemma plain_key_not_sentinel: "plain_source src \<Longrightarrow> redis_key src key \<noteq> SENTINEL_HASH_CREATED"
proof
  assume p: "plain_source src" and "redis_key src key = SENTINEL_HASH_CREATED"
  then have "redis_key src key = redis_key ''SENTINEL'' ''HASH_CREATED''" by (simp add: SENTINEL_HASH_CREATED_def redis_key_def)
  with p show False unfolding plain_source_def by (subst (asm) redis_key_inj) auto
qed

lemma distinct_map_mset: "mset xs = mset ys \<Longrightarrow> distinct (map f xs) \<longleftrightarrow> distinct (map f ys)"
  by (metis mset_eq_imp_distinct_iff mset_map)

lemma set_rows_spec:
  assumes "plain_rows (t_objects T)"
  obtains rows where "set_rows PG T cls = Inr rows" "distinct (map set_key rows)" "distinct (map ref_key rows)"
    "set rows = {r \<in> set (t_objects T). c_class r = cls \<and> row_visible r}"
proof -
  from rows_of_class [of PG T "[cls]"] obtain rows where r: "set_rows PG T cls = Inr rows"
    and m: "mset rows = mset (filter (\<lambda>r. c_class r \<in> set [cls] \<and> row_visible r) (t_objects T))"
    by (auto simp: set_rows_def)
  let ?fs = "filter (\<lambda>r. c_class r \<in> set [cls] \<and> row_visible r) (t_objects T)"
  have set: "set rows = {r \<in> set (t_objects T). c_class r = cls \<and> row_visible r}" using mset_eq_setD [OF m] by auto
  have "distinct (map object_key ?fs)" using assms by (simp add: plain_rows_def distinct_map_filter)
  then have dk: "distinct (map object_key rows)" using distinct_map_mset [OF m] by blast
  have inj: "inj_on object_key (set rows)" "distinct rows" using dk by (simp_all add: distinct_map)
  have "r = s" if "r \<in> set rows" "s \<in> set rows" "ref_key r = ref_key s" for r s
    using that set inj_onD [OF inj(1), of r s] by (auto simp: ref_key_def object_key_def)
  then have i1: "inj_on ref_key (set rows)" by (auto intro: inj_onI)
  have "ref_key r = ref_key s" if "r \<in> set rows" "s \<in> set rows" "set_key r = set_key s" for r s
    using that set assms by (auto simp: ref_key_def set_key_def plain_rows_def plain_source_def redis_key_inj)
  with i1 have "inj_on set_key (set rows)" by (auto intro!: inj_onI dest: inj_onD)
  with i1 inj(2) r set that show thesis by (simp add: distinct_map)
qed

lemma member_rows_spec:
  "\<exists>rows. member_rows PG T mcs = Inr rows \<and>
     set rows = {r \<in> set (t_objects T). dict_get (c_parsed r) ''member-of'' \<noteq> None \<and> c_class r \<in> set mcs \<and> row_visible r}"
proof -
  define q where "q = unordered_query\<lparr>q_where := (\<lambda>r. dict_get (c_parsed r) ''member-of'' \<noteq> None)\<rparr>"
  have l: "lookup_attr ''member-of'' None unordered_query = Inr q"
  proof -
    have "py_lower ''member-of'' = ''member-of''" by code_simp
    moreover have "''member-of'' \<in> lookup_field_names" by code_simp
    ultimately show ?thesis
      by (simp add: lookup_attr_def lookup_attrs_in_def check_query_frozen_def lookup_matches_def q_def)
  qed
  have qs: "\<not> query_frozen q" "q_smallest q = None" "q_limit q = None"
    "q_where q = (\<lambda>r. dict_get (c_parsed r) ''member-of'' \<noteq> None)" by (simp_all add: q_def)
  from class_query [OF qs(1), of mcs] obtain q' where q': "rbind (q_object_classes object_columns mcs q) default_suppression = Inr q'"
    "q_smallest q' = None" "q_limit q' = None"
    "q_where q' = (\<lambda>r. dict_get (c_parsed r) ''member-of'' \<noteq> None \<and> c_class r \<in> set mcs \<and> row_visible r)"
    using qs by auto
  from preload_rows_set [of "Inr q'" q' PG T] q' obtain rows where
    r: "preload_rows PG T (Inr q') = Inr rows" and m: "mset rows = mset (filter (q_where q') (t_objects T))" by auto
  from mset_eq_setD [OF m] q'(4)
  have "set rows = {r \<in> set (t_objects T). dict_get (c_parsed r) ''member-of'' \<noteq> None \<and> c_class r \<in> set mcs \<and> row_visible r}"
    by auto
  moreover have "member_rows PG T mcs = Inr rows" unfolding member_rows_def l using r q'(1) by simp
  ultimately show ?thesis by blast
qed

lemma update_set_spec:
  assumes plain: "plain_rows (t_objects T)" and upd: "update_set PG T cls mcs = Inr store" and src: "plain_source src"
  shows "distinct (dict_keys store)"
    "stored_set (t_objects T) cls src name s \<Longrightarrow> dict_get store (redis_key src name) \<noteq> None \<and>
       members_at store (redis_key src name) = set_content (t_objects T) mcs s"
    "(\<And>s. \<not> stored_set (t_objects T) cls src name s) \<Longrightarrow> dict_get store (redis_key src name) = None"
proof -
  from set_rows_spec [OF plain] obtain sets where sets: "set_rows PG T cls = Inr sets" "distinct (map set_key sets)"
    "distinct (map ref_key sets)" "set sets = {r \<in> set (t_objects T). c_class r = cls \<and> row_visible r}" by blast
  from member_rows_spec obtain rows where rows: "member_rows PG T mcs = Inr rows"
    "set rows = {r \<in> set (t_objects T). dict_get (c_parsed r) ''member-of'' \<noteq> None \<and> c_class r \<in> set mcs \<and> row_visible r}"
    by blast
  from upd sets(1) rows(1) obtain store1 by_ref where rs: "read_sets sets [] [] = Inr (store1, by_ref)"
    and rm: "read_members by_ref rows store1 = Inr store"
    by (auto simp: update_set_def rbind_Inr_conv)
  note keeps = read_sets_keeps [OF rs] and members = read_members_spec [OF rm]
  show "distinct (dict_keys store)" using keeps members by (simp add: same_keys_def dict_keys_def)
  have sep: "REDIS_KEY_PK_SOURCE_SEPARATOR \<notin> set (c_source r)" if "r \<in> set (t_objects T)" for r
    using plain that by (simp add: plain_rows_def plain_source_def)
  show "dict_get store (redis_key src name) = None" if none: "\<And>s. \<not> stored_set (t_objects T) cls src name s"
  proof -
    have "stored_set (t_objects T) cls src name r" if "r \<in> set sets" "redis_key src name = set_key r" for r
      using that sets(4) sep [of r] src by (auto simp: set_key_def redis_key_inj stored_set_def plain_source_def)
    with none have "redis_key src name \<notin> set_key ` set sets" by blast
    then show ?thesis using keeps members by (simp add: same_keys_def)
  qed
  assume st: "stored_set (t_objects T) cls src name s"
  then have s: "s \<in> set sets" "set_key s = redis_key src name" "ref_key s = (src, name)"
    using sets(4) by (auto simp: stored_set_def set_key_def ref_key_def)
  note spec = read_sets_spec [OF rs sets(2,3) s(1), simplified]
  have adm: "admitted by_ref r name \<longleftrightarrow> ''ANY'' \<in> items_of s ''mbrs-by-ref'' \<or>
      items_of r ''mnt-by'' \<inter> items_of s ''mbrs-by-ref'' \<noteq> {}" if "c_source r = src" for r
    using spec that s(3) by (cases "dict_get by_ref (src, name)") (simp_all add: admitted_def)
  have "own_name r = Inr m \<and> r \<in> set rows \<and> (\<exists>p \<in> items_of r ''member-of''. admitted by_ref r p \<and> redis_key src name = redis_key (c_source r) p)
      \<longleftrightarrow> own_name r = Inr m \<and> r \<in> set (t_objects T) \<and> c_class r \<in> set mcs \<and> row_visible r \<and> joins r s" for r m
  proof -
    have "items_of r ''member-of'' = {}" if "dict_get (c_parsed r) ''member-of'' = None"
      using that by (simp add: items_of_def parsed_or_empty_def)
    moreover have "(\<exists>p \<in> items_of r ''member-of''. admitted by_ref r p \<and> redis_key src name = redis_key (c_source r) p)
        \<longleftrightarrow> joins r s" if "r \<in> set (t_objects T)"
    proof -
      have key: "redis_key src name = redis_key (c_source r) p \<longleftrightarrow> c_source r = src \<and> p = name" for p
        using sep [OF that] src by (auto simp: redis_key_inj plain_source_def)
      have "c_source s = src" "c_rpsl_pk s = name" using st by (simp_all add: stored_set_def)
      then have "joins r s \<longleftrightarrow> c_source r = src \<and> name \<in> items_of r ''member-of'' \<and> admitted by_ref r name"
        unfolding joins_def using adm [of r] by (cases "c_source r = src") simp_all
      then show ?thesis unfolding key by blast
    qed
    ultimately show ?thesis unfolding rows(2) by (cases "dict_get (c_parsed r) ''member-of''") auto
  qed
  note member = this
  have by_ref: "{m. \<exists>r \<in> set rows. own_name r = Inr m \<and> (\<exists>p \<in> items_of r ''member-of''. admitted by_ref r p \<and>
        redis_key src name = redis_key (c_source r) p)}
      = {m. \<exists>r \<in> set (t_objects T). c_class r \<in> set mcs \<and> row_visible r \<and> joins r s \<and> own_name r = Inr m}"
    (is "?A = ?B")
  proof (intro set_eqI iffI)
    show "m \<in> ?B" if "m \<in> ?A" for m using that member [of _ m] by blast
    show "m \<in> ?A" if "m \<in> ?B" for m using that member [of _ m] by blast
  qed
  from conjunct1 [OF spec] obtain vs where "dict_get store1 (redis_key src name) = Some vs"
    "set vs = items_of s ''members'' \<union> items_of s ''mp-members''" unfolding s(2) by blast
  then have "dict_get store1 (redis_key src name) \<noteq> None"
    "members_at store1 (redis_key src name) = items_of s ''members'' \<union> items_of s ''mp-members''"
    by (simp_all add: members_at_def)
  then show "dict_get store (redis_key src name) \<noteq> None \<and> members_at store (redis_key src name) = set_content (t_objects T) mcs s"
    using members [of "redis_key src name"] by (simp add: same_keys_def by_ref set_content_def)
qed

section \<open>Updating and loading\<close>

lemma update_step_None:
  "update_step wanted f st = (R1, None) \<longleftrightarrow>
   (\<exists>R. st = (R, None) \<and> (if wanted then f R = Inr R1 else R1 = R))"
  by (cases st) (auto simp: update_step_def split: option.splits sum.splits)

lemma preload_update_None:
  assumes "preload_update PG T \<lparr>up_routes = True, up_as_sets = True, up_route_sets = True\<rparr> R = (R1, None)"
  obtains R0 as_sets route_sets where "update_routes PG T R = Inr R0"
    "update_set PG T ''as-set'' [''aut-num''] = Inr as_sets"
    "update_set PG T ''route-set'' [''route'', ''route6''] = Inr route_sets"
    "R1 = update_route_set_store route_sets (update_as_set_store as_sets R0)"
  using assms by (auto simp: preload_update_def update_step_None rbind_Inr_conv)

lemma load_Inr:
  assumes "load_preload_data_into_memory R = Some (Inr P)"
  shows "load_hash (hgetall (h_route4 R)) [] = Inr (origin_route4_store P)"
    "load_hash (hgetall (h_route6 R)) [] = Inr (origin_route6_store P)"
    "load_hash (hgetall (h_as_set R)) [] = Inr (as_set_store P)"
    "load_hash (hgetall (h_route_set R)) [] = Inr (route_set_store P)"
  using assms by (auto simp: load_preload_data_into_memory_def rbind_Inr_conv split: if_splits)

text \<open>A full update of the store, and the answers it gives.\<close>

definition preloaded :: "pg_lib \<Rightarrow> tables \<Rightarrow> preload_store \<Rightarrow> bool" where
  "preloaded PG T P \<longleftrightarrow>
     (\<exists>R R1. preload_update PG T \<lparr>up_routes = True, up_as_sets = True, up_route_sets = True\<rparr> R = (R1, None) \<and>
        load_preload_data_into_memory R1 = Some (Inr P))"

lemma preloaded_cases:
  assumes "preloaded PG T P"
  obtains rows as_sets route_sets where
    "set rows = {r \<in> set (t_objects T). c_class r \<in> {''route'', ''route6''} \<and> row_visible r}"
    "load_hash (hgetall (Some (store_hash (fold (add_route_row 4) rows [])))) [] = Inr (origin_route4_store P)"
    "load_hash (hgetall (Some (store_hash (fold (add_route_row 6) rows [])))) [] = Inr (origin_route6_store P)"
    "update_set PG T ''as-set'' [''aut-num''] = Inr as_sets"
    "load_hash (hgetall (Some (store_hash as_sets))) [] = Inr (as_set_store P)"
    "update_set PG T ''route-set'' [''route'', ''route6''] = Inr route_sets"
    "load_hash (hgetall (Some (store_hash route_sets))) [] = Inr (route_set_store P)"
proof -
  from assms obtain R R1 where u: "preload_update PG T \<lparr>up_routes = True, up_as_sets = True, up_route_sets = True\<rparr> R = (R1, None)"
    and l: "load_preload_data_into_memory R1 = Some (Inr P)" unfolding preloaded_def by blast
  from u obtain R0 as_sets route_sets where r: "update_routes PG T R = Inr R0"
    and s: "update_set PG T ''as-set'' [''aut-num''] = Inr as_sets"
      "update_set PG T ''route-set'' [''route'', ''route6''] = Inr route_sets"
    and R1: "R1 = update_route_set_store route_sets (update_as_set_store as_sets R0)" by (rule preload_update_None)
  from update_routes_spec [of T PG R] r obtain rows where
    "set rows = {r \<in> set (t_objects T). c_class r \<in> {''route'', ''route6''} \<and> row_visible r}"
    "R0 = update_route_store (fold (add_route_row 4) rows []) (fold (add_route_row 6) rows []) R" by auto
  with R1 s load_Inr [OF l] that [of rows as_sets route_sets] show thesis
    by (simp add: update_route_set_store_def update_as_set_store_def update_route_store_def)
qed

section \<open>An example\<close>

definition example_object :: "string \<Rightarrow> string \<Rightarrow> (string, pvalue) dict \<Rightarrow> db_row" where
  "example_object cls key data = \<lparr>c_rpsl_pk = key, c_source = ''TT'', c_class = cls, c_parsed = data, c_text = [],
     c_ip_version = None, c_ip_first = None, c_ip_last = None, c_ip_size = None, c_prefix = None, c_prefix_length = None,
     c_asn_first = None, c_asn_last = None, c_rpki = RPKI_not_found, c_scope = in_scope, c_pref = pref_visible,
     c_updated = 0, row_pk = key, row_created = 0\<rparr>"

definition example_sets :: tables where
  "example_sets = \<lparr>t_objects =
      [(example_object ''route'' ''10.0.0.0/8AS1'' [(''route'', PStr ''10.0.0.0/8'')])
         \<lparr>c_ip_version := Some 4, c_ip_first := Some ''10.0.0.0'', c_prefix_length := Some 8, c_asn_first := Some 1\<rparr>,
       example_object ''as-set'' ''AS-X'' [(''members'', PList [''AS2'', ''AS-Y'']), (''mbrs-by-ref'', PList [''MM''])],
       example_object ''as-set'' ''AS-Y'' [(''members'', PList [''AS3'', ''AS-X''])],
       example_object ''aut-num'' ''AS1''
         [(''aut-num'', PStr ''AS1''), (''member-of'', PList [''AS-X'']), (''mnt-by'', PList [''MM''])]],
     t_journal = [], t_status = [], t_suspended = [], t_protected = [], t_roas = []\<rparr>"

definition example_hashes :: "redis \<times> exn option" where
  "example_hashes = preload_update example_pg example_sets \<lparr>up_routes = True, up_as_sets = True, up_route_sets = True\<rparr>
     \<lparr>h_route4 = None, h_route6 = None, h_as_set = None, h_route_set = None\<rparr>"

definition example_store :: preload_store where
  "example_store = \<lparr>origin_route4_store = [(''TT'', [(''AS1'', ''10.0.0.0/8'')])], origin_route6_store = [],
     as_set_store = [(''TT'', [(''AS-X'', ''AS2,AS-Y,AS1''), (''AS-Y'', ''AS3,AS-X'')])], route_set_store = []\<rparr>"

lemma example_preloaded: "preloaded example_pg example_sets example_store"
proof -
  have "snd example_hashes = None" "load_preload_data_into_memory (fst example_hashes) = Some (Inr example_store)" by code_simp+
  then show ?thesis unfolding preloaded_def example_hashes_def by (metis prod.collapse)
qed

lemma plain_rows_example: "plain_rows (t_objects example_sets)"
  by (auto simp: plain_rows_def example_sets_def example_object_def object_key_def plain_source_def no_comma_def
      route_prefix_def shown_column_def items_of_def parsed_or_empty_def own_name_def
      dest: str_nat_digits [where n = 8] simp: isdigit_def ord_def)

lemma preloaded_routes_set:
  assumes "plain_rows (t_objects T)" "preloaded PG T P" "\<forall>src \<in> set srcs. plain_source src" "ip_ver \<in> {None, Some 4, Some 6}"
  shows "\<exists>ps. routes_for_origins P origins srcs ip_ver = Inr ps \<and> distinct ps \<and>
    set ps = {route_prefix r |r. r \<in> set (t_objects T) \<and> c_class r \<in> {''route'', ''route6''} \<and> row_visible r \<and>
      c_source r \<in> set srcs \<and> route_origin r \<in> set origins \<and>
      (\<exists>v \<in> {4, 6}. c_ip_version r = Some v \<and> version_wanted ip_ver v)}"
proof -
  from assms(2) obtain rows where rows: "set rows = {r \<in> set (t_objects T). c_class r \<in> {''route'', ''route6''} \<and> row_visible r}"
    and l4: "load_hash (hgetall (Some (store_hash (fold (add_route_row 4) rows [])))) [] = Inr (origin_route4_store P)"
    and l6: "load_hash (hgetall (Some (store_hash (fold (add_route_row 6) rows [])))) [] = Inr (origin_route6_store P)"
    by (rule preloaded_cases)
  have sep: "REDIS_KEY_PK_SOURCE_SEPARATOR \<notin> set (c_source r)" "no_comma (route_prefix r)" if "r \<in> set rows" for r
    using that rows assms(1) by (auto simp: plain_rows_def plain_source_def)
  have stored: "set (stored_prefixes S src orig) = {route_prefix r |r. r \<in> set rows \<and> c_source r = src \<and> route_origin r = orig \<and> c_ip_version r = Some v}"
    if "load_hash (hgetall (Some (store_hash (fold (add_route_row v) rows [])))) [] = Inr S" "src \<in> set srcs" for S v src orig
  proof -
    have src: "plain_source src" "REDIS_KEY_PK_SOURCE_SEPARATOR \<notin> set src" using that(2) assms(3) by (auto simp: plain_source_def)
    note f = fold_add_route_row [OF filled_Nil, of v rows "redis_key src orig"]
    have "{route_prefix r |r. r \<in> set rows \<and> c_ip_version r = Some v \<and> redis_key (c_source r) (route_origin r) = redis_key src orig}
        = {route_prefix r |r. r \<in> set rows \<and> c_source r = src \<and> route_origin r = orig \<and> c_ip_version r = Some v}"
      using sep src by (auto simp: redis_key_inj)
    with f have m: "members_at (fold (add_route_row v) rows []) (redis_key src orig)
        = {route_prefix r |r. r \<in> set rows \<and> c_source r = src \<and> route_origin r = orig \<and> c_ip_version r = Some v}"
      by (simp add: members_at_def)
    have "set (stored_prefixes S src orig) = members_at (fold (add_route_row v) rows []) (redis_key src orig)"
    proof (rule stored_prefixes_eq [OF that(1) conjunct1 [OF f] src(2) plain_key_not_sentinel [OF src(1)]])
      show "REDIS_CONTENTS_LIST_SEPARATOR \<notin> set p" if "p \<in> members_at (fold (add_route_row v) rows []) (redis_key src orig)" for p
        using that sep(2) unfolding m by (auto simp: no_comma_def)
    qed
    with m show ?thesis by simp
  qed
  have ok: "version_wanted ip_ver 4 \<or> version_wanted ip_ver 6" using assms(4) by (auto simp: version_wanted_def)
  define ps where "ps = remdups (concat (map (\<lambda>src. concat (map (\<lambda>orig.
      (if version_wanted ip_ver 4 then stored_prefixes (origin_route4_store P) src orig else [])
      @ (if version_wanted ip_ver 6 then stored_prefixes (origin_route6_store P) src orig else [])) origins)) srcs))"
  have "set ps = (\<Union>src \<in> set srcs. \<Union>orig \<in> set origins. {route_prefix r |r. r \<in> set rows \<and> c_source r = src \<and> route_origin r = orig \<and>
      (\<exists>v \<in> {4, 6}. c_ip_version r = Some v \<and> version_wanted ip_ver v)})"
    using stored [OF l4] stored [OF l6] by (auto simp: ps_def)
  also have "\<dots> = {route_prefix r |r. r \<in> set (t_objects T) \<and> c_class r \<in> {''route'', ''route6''} \<and> row_visible r \<and>
      c_source r \<in> set srcs \<and> route_origin r \<in> set origins \<and>
      (\<exists>v \<in> {4, 6}. c_ip_version r = Some v \<and> version_wanted ip_ver v)}"
    unfolding rows by blast
  finally show ?thesis using ok by (auto simp: routes_for_origins_def ps_def)
qed

text \<open>
  C20: After an update of the preload store and a load into memory, the prefixes that a query gets for
  a list of origins and sources are exactly those of the visible route objects of these origins in
  these sources, of the address families it asks for, each of them once.
\<close>

theorem preloaded_routes_exact:
  assumes "plain_rows (t_objects T)" "preloaded PG T P" "\<forall>src \<in> set srcs. plain_source src" "ip_ver \<in> {None, Some 4, Some 6}"
  shows "\<exists>ps. routes_for_origins P origins srcs ip_ver = Inr ps \<and> distinct ps \<and>
    set ps = {route_prefix r |r. r \<in> set (t_objects T) \<and> c_class r \<in> {''route'', ''route6''} \<and> row_visible r \<and>
      c_source r \<in> set srcs \<and> route_origin r \<in> set origins \<and>
      (\<exists>v \<in> {4, 6}. c_ip_version r = Some v \<and> version_wanted ip_ver v)}"
  using assms by (rule preloaded_routes_set)

theorem preloaded_routes_exact_witness:
  "plain_rows (t_objects example_sets) \<and> preloaded example_pg example_sets example_store \<and> plain_source ''TT'' \<and>
   (\<exists>ps. routes_for_origins example_store [''AS1''] [''TT''] None = Inr ps \<and> distinct ps \<and>
     set ps = {route_prefix r |r. r \<in> set (t_objects example_sets) \<and> c_class r \<in> {''route'', ''route6''} \<and> row_visible r \<and>
       c_source r \<in> set [''TT''] \<and> route_origin r \<in> set [''AS1''] \<and>
       (\<exists>v \<in> {4, 6}. c_ip_version r = Some v \<and> version_wanted None v)})"
proof -
  have src: "plain_source ''TT''" by (simp add: plain_source_def)
  from preloaded_routes_exact [OF plain_rows_example example_preloaded, of "[''TT'']" None "[''AS1'']"] src
  show ?thesis using plain_rows_example example_preloaded by simp
qed

text \<open>What a query for one set gets: nothing when there is no such set; the empty text for a set without members.\<close>

definition answers_set :: "db_row list \<Rightarrow> string \<Rightarrow> string list \<Rightarrow> string \<Rightarrow> string \<Rightarrow> (string list \<times> string) option \<Rightarrow> bool" where
  "answers_set rows cls member_classes src name answer \<longleftrightarrow>
     (case answer of
        None \<Rightarrow> \<not> (\<exists>s. stored_set rows cls src name s)
      | Some (ms, c) \<Rightarrow> c = cls \<and> (\<exists>s. stored_set rows cls src name s \<and>
          set ms = (let content = set_content rows member_classes s in if content = {} then {[]} else content)))"

lemma loaded_set:
  assumes "plain_rows (t_objects T)" "update_set PG T cls mcs = Inr store"
    "load_hash (hgetall (Some (store_hash store))) [] = Inr S" "plain_source src"
  shows "answers_set (t_objects T) cls mcs src name (map_option (\<lambda>ms. (ms, cls)) (set_in_sources S [src] name))"
proof -
  have sep: "REDIS_KEY_PK_SOURCE_SEPARATOR \<notin> set src" using assms(4) by (simp add: plain_source_def)
  note spec = update_set_spec [OF assms(1,2,4)]
  note get = stored_and_loaded [OF assms(3) spec(1) sep plain_key_not_sentinel [OF assms(4)], of name]
  show ?thesis
  proof (cases "\<exists>s. stored_set (t_objects T) cls src name s")
    case False
    with spec(3) have "dict_get store (redis_key src name) = None" by blast
    with get False show ?thesis by (simp add: answers_set_def)
  next
    case True
    then obtain s where s: "stored_set (t_objects T) cls src name s" ..
    from spec(2) [OF s] obtain vs where vs: "dict_get store (redis_key src name) = Some vs"
      "set vs = set_content (t_objects T) mcs s" by (auto simp: members_at_def)
    have "no_comma v" if "v \<in> set vs" for v
      using that s assms(1) unfolding vs(2) set_content_def plain_rows_def stored_set_def by blast
    then have "set (py_split REDIS_CONTENTS_LIST_SEPARATOR (py_join [REDIS_CONTENTS_LIST_SEPARATOR] vs)) = (if set vs = {} then {[]} else set vs)"
      by (cases "vs = []") (simp_all add: set_split_join no_comma_def)
    with get vs s show ?thesis by (auto simp: answers_set_def Let_def)
  qed
qed



end
