(* ===== verification/Query_Facts.thy ===== *)
theory Query_Facts
  imports Query_Resolver Preload_Facts
begin

text \<open>
  What the resolver answers. The recursive resolution of an as-set gives the AS numbers of all sets
  that can be reached from it; with the preload store, the prefixes for an as-set are those of the
  visible route objects of these origins. Every object that a search returns is in a selected
  source and passes the filters.
\<close>

section \<open>Recursive resolution\<close>

definition is_as :: "settings \<Rightarrow> string \<Rightarrow> bool" where
  "is_as gs m \<longleftrightarrow> (\<exists>r. parse_as_number gs False False (AsStr m) = Inr r)"

inductive_set reachable_sets :: "(string \<Rightarrow> string set) \<Rightarrow> (string \<Rightarrow> bool) \<Rightarrow> string set \<Rightarrow> string \<Rightarrow> string set"
  for members_of :: "string \<Rightarrow> string set" and leaf_member :: "string \<Rightarrow> bool" and excluded :: "string set" and root :: string where
  root: "root \<in> reachable_sets members_of leaf_member excluded root"
| member: "n \<in> reachable_sets members_of leaf_member excluded root \<Longrightarrow> m \<in> members_of n \<Longrightarrow> \<not> leaf_member m \<Longrightarrow> m \<notin> excluded \<Longrightarrow>
    m \<in> reachable_sets members_of leaf_member excluded root"

text \<open>The leaf members of all reachable sets.\<close>

definition reachable_leafs :: "(string \<Rightarrow> string set) \<Rightarrow> (string \<Rightarrow> bool) \<Rightarrow> string set \<Rightarrow> string \<Rightarrow> string set" where
  "reachable_leafs members_of leaf_member excluded root =
     {m. leaf_member m \<and> (\<exists>n \<in> reachable_sets members_of leaf_member excluded root. m \<in> members_of n)}"

definition as_set_members :: "preload_store \<Rightarrow> string list \<Rightarrow> string \<Rightarrow> string set" where
  "as_set_members P srcs name = (case set_members P name srcs [''as-set''] of None \<Rightarrow> {} | Some (ms, c) \<Rightarrow> set ms)"

lemma find_members_as_set:
  "find_members P srcs [''as-set''] names (ms0, leafs0, Some ''as-set'') = (ms, leafs, root) \<Longrightarrow>
   root = Some ''as-set'' \<and> set ms = set ms0 \<union> (\<Union>n \<in> set names. as_set_members P srcs n)"
proof (induction names arbitrary: ms0 leafs0)
  case (Cons name names)
  show ?case
  proof (cases "set_members P name srcs [''as-set'']")
    case None
    with Cons show ?thesis by (simp add: as_set_members_def)
  next
    case (Some mc)
    then obtain ms1 c where s: "set_members P name srcs [''as-set''] = Some (ms1, c)" by (cases mc) simp
    with Cons.prems have "find_members P srcs [''as-set''] names (List.union ms0 ms1, leafs0, Some ''as-set'') = (ms, leafs, root)"
      by simp
    from Cons.IH [OF this] s show ?thesis by (auto simp: as_set_members_def)
  qed
qed simp

lemma find_set_members_as_set:
  "find_set_members P srcs (Some ''as-set'') names = (ms, leafs, root) \<Longrightarrow>
   root = Some ''as-set'' \<and> set ms = (\<Union>n \<in> set names. as_set_members P srcs n)"
  using find_members_as_set [of P srcs names "[]" "[]" ms leafs root] by (simp add: find_set_members_def set_classes_def)

lemma resolved_members_as_set:
  "resolved_members L gs P srcs (Some ''as-set'') sub = (set_ms, resolved_as) \<Longrightarrow>
   set set_ms = {m \<in> set sub. is_as gs m} \<and> resolved_as = []"
proof -
  have "resolve_member L gs P srcs (Some ''as-set'') m = (if is_as gs m then [m] else [], False)" for m
    by (auto simp: resolve_member_def is_as_def split: sum.splits)
  then show "resolved_members L gs P srcs (Some ''as-set'') sub = (set_ms, resolved_as) \<Longrightarrow> ?thesis"
    by (auto simp: resolved_members_def split: if_splits)
qed

text \<open>One call on sets that are not all seen.\<close>

lemma resolve_as_set_step:
  assumes "\<not> list_all (\<lambda>m. m \<in> set seen) members" "depth \<le> 0"
  obtains further where
    "set further = {m \<in> \<Union>n \<in> set members. as_set_members (qe_store E) srcs n.
       \<not> is_as (qe_settings E) m \<and> m \<notin> set members \<and> m \<notin> set seen \<and> m \<notin> set excluded}"
    "set (recursive_set_resolve E srcs excluded (Some ''as-set'') depth members seen None) =
       {m \<in> \<Union>n \<in> set members. as_set_members (qe_store E) srcs n. is_as (qe_settings E) m} \<union>
       set (recursive_set_resolve E srcs excluded (Some ''as-set'') (depth - 1) further (members @ seen) None)"
    "card ((set further \<union> store_members (qe_store E)) - set (members @ seen))
       < card ((set members \<union> store_members (qe_store E)) - set seen)"
proof -
  obtain sub leafs root1 where f: "find_set_members (qe_store E) srcs (Some ''as-set'') members = (sub, leafs, root1)"
    by (metis prod_cases3)
  note root1 = find_set_members_as_set [OF f]
  obtain set_ms resolved_as where r: "resolved_members (qe_lib E) (qe_settings E) (qe_store E) srcs root1 sub = (set_ms, resolved_as)"
    by force
  note ms = resolved_members_as_set [OF r [unfolded conjunct1 [OF root1]]]
  define further where "further = filter (\<lambda>m. m \<notin> set set_ms \<and> m \<notin> set (members @ seen) \<and> m \<notin> set resolved_as \<and> m \<notin> set excluded) sub"
  have eq: "recursive_set_resolve E srcs excluded (Some ''as-set'') depth members seen None = List.union set_ms
      (recursive_set_resolve E srcs excluded (Some ''as-set'') (depth - 1) further (members @ seen) None)"
    using assms root1 f r by (subst recursive_set_resolve.simps) (simp add: further_def)
  show thesis
  proof (rule that)
    show "set further = {m \<in> \<Union>n \<in> set members. as_set_members (qe_store E) srcs n.
       \<not> is_as (qe_settings E) m \<and> m \<notin> set members \<and> m \<notin> set seen \<and> m \<notin> set excluded}"
      using ms root1 by (auto simp: further_def)
    show "set (recursive_set_resolve E srcs excluded (Some ''as-set'') depth members seen None) =
       {m \<in> \<Union>n \<in> set members. as_set_members (qe_store E) srcs n. is_as (qe_settings E) m} \<union>
       set (recursive_set_resolve E srcs excluded (Some ''as-set'') (depth - 1) further (members @ seen) None)"
      unfolding eq using ms root1 by auto
    show "card ((set further \<union> store_members (qe_store E)) - set (members @ seen))
       < card ((set members \<union> store_members (qe_store E)) - set seen)"
      using unseen_decreases [OF assms(1) find_set_members_texts [OF f], of further] by (simp add: further_def)
  qed
qed

lemma resolve_sound:
  assumes "depth \<le> 0" "set members \<subseteq> reachable_sets (as_set_members (qe_store E) srcs) (is_as (qe_settings E)) (set excluded) root"
  shows "set (recursive_set_resolve E srcs excluded (Some ''as-set'') depth members seen None)
    \<subseteq> reachable_leafs (as_set_members (qe_store E) srcs) (is_as (qe_settings E)) (set excluded) root"
  using assms
proof (induction "card ((set members \<union> store_members (qe_store E)) - set seen)" arbitrary: members seen depth rule: less_induct)
  case less
  show ?case
  proof (cases "list_all (\<lambda>m. m \<in> set seen) members")
    case True
    then show ?thesis by (subst recursive_set_resolve.simps) simp
  next
    case False
    from resolve_as_set_step [OF False less.prems(1), of E srcs excluded] obtain further where
      fr: "set further = {m \<in> \<Union>n \<in> set members. as_set_members (qe_store E) srcs n.
       \<not> is_as (qe_settings E) m \<and> m \<notin> set members \<and> m \<notin> set seen \<and> m \<notin> set excluded}" and
      res: "set (recursive_set_resolve E srcs excluded (Some ''as-set'') depth members seen None) =
       {m \<in> \<Union>n \<in> set members. as_set_members (qe_store E) srcs n. is_as (qe_settings E) m} \<union>
       set (recursive_set_resolve E srcs excluded (Some ''as-set'') (depth - 1) further (members @ seen) None)" and
      dec: "card ((set further \<union> store_members (qe_store E)) - set (members @ seen))
       < card ((set members \<union> store_members (qe_store E)) - set seen)" by blast
    have "set further \<subseteq> reachable_sets (as_set_members (qe_store E) srcs) (is_as (qe_settings E)) (set excluded) root"
      using less.prems(2) fr by (auto intro: reachable_sets.member)
    from less.hyps [OF dec _ this, of "depth - 1"] less.prems(1) have "set (recursive_set_resolve E srcs excluded (Some ''as-set'') (depth - 1)
        further (members @ seen) None) \<subseteq> reachable_leafs (as_set_members (qe_store E) srcs) (is_as (qe_settings E)) (set excluded) root"
      by simp
    with res less.prems(2) show ?thesis by (auto simp: reachable_leafs_def)
  qed
qed

text \<open>The sets that a call visits are closed under membership.\<close>

lemma resolve_visits:
  assumes "depth \<le> 0"
  shows "\<exists>V. set members \<subseteq> V \<union> set seen \<and>
    (\<forall>n \<in> V. \<forall>m \<in> as_set_members (qe_store E) srcs n.
       (is_as (qe_settings E) m \<longrightarrow> m \<in> set (recursive_set_resolve E srcs excluded (Some ''as-set'') depth members seen None)) \<and>
       (\<not> is_as (qe_settings E) m \<and> m \<notin> set excluded \<longrightarrow> m \<in> V \<union> set seen))"
  using assms
proof (induction "card ((set members \<union> store_members (qe_store E)) - set seen)" arbitrary: members seen depth rule: less_induct)
  case less
  show ?case
  proof (cases "list_all (\<lambda>m. m \<in> set seen) members")
    case True
    then show ?thesis by (intro exI [of _ "{}"]) (auto simp: list_all_iff)
  next
    case False
    from resolve_as_set_step [OF False less.prems(1), of E srcs excluded] obtain further where
      fr: "set further = {m \<in> \<Union>n \<in> set members. as_set_members (qe_store E) srcs n.
       \<not> is_as (qe_settings E) m \<and> m \<notin> set members \<and> m \<notin> set seen \<and> m \<notin> set excluded}" and
      res: "set (recursive_set_resolve E srcs excluded (Some ''as-set'') depth members seen None) =
       {m \<in> \<Union>n \<in> set members. as_set_members (qe_store E) srcs n. is_as (qe_settings E) m} \<union>
       set (recursive_set_resolve E srcs excluded (Some ''as-set'') (depth - 1) further (members @ seen) None)" and
      dec: "card ((set further \<union> store_members (qe_store E)) - set (members @ seen))
       < card ((set members \<union> store_members (qe_store E)) - set seen)" by blast
    from less.hyps [OF dec, of "depth - 1"] less.prems obtain V where V: "set further \<subseteq> V \<union> set (members @ seen)"
      "\<forall>n \<in> V. \<forall>m \<in> as_set_members (qe_store E) srcs n.
       (is_as (qe_settings E) m \<longrightarrow> m \<in> set (recursive_set_resolve E srcs excluded (Some ''as-set'') (depth - 1) further (members @ seen) None)) \<and>
       (\<not> is_as (qe_settings E) m \<and> m \<notin> set excluded \<longrightarrow> m \<in> V \<union> set (members @ seen))" by auto
    have "m \<in> V \<union> set members \<union> set seen" if "n \<in> set members" "m \<in> as_set_members (qe_store E) srcs n"
      "\<not> is_as (qe_settings E) m" "m \<notin> set excluded" for n m
      using that V(1) fr by auto
    with V(2) res show ?thesis by (intro exI [of _ "V \<union> set members"]) auto
  qed
qed

lemma resolve_as_set_set:
  "set (recursive_set_resolve E srcs excluded (Some ''as-set'') 0 [name] [] None)
   = reachable_leafs (as_set_members (qe_store E) srcs) (is_as (qe_settings E)) (set excluded) name"
proof (intro equalityI)
  show "set (recursive_set_resolve E srcs excluded (Some ''as-set'') 0 [name] [] None)
      \<subseteq> reachable_leafs (as_set_members (qe_store E) srcs) (is_as (qe_settings E)) (set excluded) name"
    by (rule resolve_sound) (auto intro: reachable_sets.root)
  from resolve_visits [of 0 "[name]" "[]" E srcs excluded] obtain V where V: "name \<in> V"
    "\<And>n m. n \<in> V \<Longrightarrow> m \<in> as_set_members (qe_store E) srcs n \<Longrightarrow> is_as (qe_settings E) m \<Longrightarrow>
       m \<in> set (recursive_set_resolve E srcs excluded (Some ''as-set'') 0 [name] [] None)"
    "\<And>n m. n \<in> V \<Longrightarrow> m \<in> as_set_members (qe_store E) srcs n \<Longrightarrow> \<not> is_as (qe_settings E) m \<Longrightarrow> m \<notin> set excluded \<Longrightarrow> m \<in> V"
    by auto
  have "reachable_sets (as_set_members (qe_store E) srcs) (is_as (qe_settings E)) (set excluded) name \<subseteq> V"
  proof
    fix n assume "n \<in> reachable_sets (as_set_members (qe_store E) srcs) (is_as (qe_settings E)) (set excluded) name"
    then show "n \<in> V" by induction (use V in auto)
  qed
  with V(2) show "reachable_leafs (as_set_members (qe_store E) srcs) (is_as (qe_settings E)) (set excluded) name
      \<subseteq> set (recursive_set_resolve E srcs excluded (Some ''as-set'') 0 [name] [] None)"
    by (auto simp: reachable_leafs_def)
qed

text \<open>
  C24: Recursive resolution of an as-set returns exactly the AS numbers that are members of a set that
  can be reached from it through members that are no AS numbers and not excluded; it ends although
  sets may refer to each other in cycles.
\<close>

theorem resolve_as_set_exact:
  "set (recursive_set_resolve E srcs excluded (Some ''as-set'') 0 [name] [] None)
   = reachable_leafs (as_set_members (qe_store E) srcs) (is_as (qe_settings E)) (set excluded) name"
  by (rule resolve_as_set_set)

section \<open>The prefixes of an as-set\<close>

text \<open>The members of an as-set in the database: of the first selected source that has a visible one.\<close>

fun db_as_set_members :: "db_row list \<Rightarrow> string list \<Rightarrow> string \<Rightarrow> string set" where
  "db_as_set_members rows [] name = {}"
| "db_as_set_members rows (src # srcs) name =
     (if \<exists>s. stored_set rows ''as-set'' src (py_upper name) s
      then {m. \<exists>s. stored_set rows ''as-set'' src (py_upper name) s \<and> m \<in> set_content rows [''aut-num''] s}
      else db_as_set_members rows srcs name)"

lemma preloaded_as_set:
  assumes "plain_rows (t_objects T)" "preloaded PG T P" "\<forall>src \<in> set srcs. plain_source src"
  shows "as_set_members P srcs name - {[]} = db_as_set_members (t_objects T) srcs name - {[]}"
    "db_as_set_members (t_objects T) srcs name \<subseteq> as_set_members P srcs name"
    "py_upper name = [] \<Longrightarrow> as_set_members P srcs name = {}"
proof -
  from assms(2) obtain as_sets where a: "update_set PG T ''as-set'' [''aut-num''] = Inr as_sets"
    "load_hash (hgetall (Some (store_hash as_sets))) [] = Inr (as_set_store P)" by (rule preloaded_cases)
  have m: "as_set_members P srcs name = (case set_in_sources (as_set_store P) srcs (py_upper name) of None \<Rightarrow> {} | Some ms \<Rightarrow> set ms)"
    for srcs by (auto simp: as_set_members_def set_members_def split: option.splits)
  have key: "\<not> stored_set (t_objects T) ''as-set'' src [] s" for src s
    using assms(1) by (auto simp: plain_rows_def stored_set_def)
  have "as_set_members P srcs name - {[]} = db_as_set_members (t_objects T) srcs name - {[]} \<and>
      db_as_set_members (t_objects T) srcs name \<subseteq> as_set_members P srcs name \<and>
      (py_upper name = [] \<longrightarrow> as_set_members P srcs name = {})"
    using assms(3)
  proof (induction srcs)
    case (Cons src srcs)
    then have src: "plain_source src" by simp
    note ans = loaded_set [OF assms(1) a src, of "py_upper name"]
    show ?case
    proof (cases "store_get (as_set_store P) src (py_upper name)")
      case None
      with ans have none: "\<not> (\<exists>s. stored_set (t_objects T) ''as-set'' src (py_upper name) s)" by (simp add: answers_set_def)
      have "as_set_members P (src # srcs) name = as_set_members P srcs name" using None by (simp add: m)
      moreover have "db_as_set_members (t_objects T) (src # srcs) name = db_as_set_members (t_objects T) srcs name"
        using none by auto
      ultimately show ?thesis using Cons by simp
    next
      case (Some v)
      with ans obtain s where s: "stored_set (t_objects T) ''as-set'' src (py_upper name) s"
        "set (py_split REDIS_CONTENTS_LIST_SEPARATOR v)
           = (if set_content (t_objects T) [''aut-num''] s = {} then {[]} else set_content (t_objects T) [''aut-num''] s)"
        by (auto simp: answers_set_def Let_def)
      have "stored_set (t_objects T) ''as-set'' src (py_upper name) s' \<longleftrightarrow> s' = s" for s'
        using s(1) stored_set_unique [OF assms(1) s(1)] by blast
      then have "db_as_set_members (t_objects T) (src # srcs) name = set_content (t_objects T) [''aut-num''] s" by simp
      moreover have "as_set_members P (src # srcs) name = set (py_split REDIS_CONTENTS_LIST_SEPARATOR v)" using Some by (simp add: m)
      ultimately show ?thesis using s key by (auto split: if_splits)
    qed
  qed (simp add: m)
  then show "as_set_members P srcs name - {[]} = db_as_set_members (t_objects T) srcs name - {[]}"
    "db_as_set_members (t_objects T) srcs name \<subseteq> as_set_members P srcs name"
    "py_upper name = [] \<Longrightarrow> as_set_members P srcs name = {}" by blast+
qed

text \<open>The empty name, which stands for no member, has no members and changes no leafs.\<close>

lemma reachable_leafs_without_empty:
  assumes "\<And>n. A n - {e} = D n - {e}" "\<And>n. D n \<subseteq> A n" "A e = {}" "\<not> lf e"
  shows "reachable_leafs A lf X root = reachable_leafs D lf X root"
proof -
  have "n \<in> reachable_sets D lf X root \<or> n = e" if "n \<in> reachable_sets A lf X root" for n
    using that
  proof induction
    case (member n m)
    show ?case
    proof (cases "m = e")
      case False
      with member assms(3) have "n \<in> reachable_sets D lf X root" by auto
      moreover have "m \<in> D n" using assms(1) [of n] member.hyps(2) False by blast
      ultimately show ?thesis using member.hyps(3,4) by (auto intro: reachable_sets.member)
    qed simp
  qed (simp add: reachable_sets.root)
  moreover have "n \<in> reachable_sets A lf X root" if "n \<in> reachable_sets D lf X root" for n
    using that by induction (use assms(2) in \<open>auto intro: reachable_sets.intros\<close>)
  moreover have "m \<in> A n \<longleftrightarrow> m \<in> D n" if "lf m" for m n using assms(1) [of n] assms(4) that by blast
  ultimately show ?thesis using assms(3) unfolding reachable_leafs_def by blast
qed

text \<open>
  C5: Once the preload store is up to date, the query for the prefixes of an as-set returns exactly the
  prefixes of the visible route objects in the selected sources whose origin is a member of a visible
  as-set that can be reached from the given one in the database, excluded sets left out.
\<close>

theorem as_set_prefixes_exact:
  assumes "plain_rows (t_objects (qe_tables E))" "preloaded (qe_pg E) (qe_tables E) (qe_store E)"
    "\<forall>src \<in> set (resolved E r). plain_source src" "ip_ver \<in> {None, Some 4, Some 6}"
  shows "\<exists>ps. routes_for_as_set E name ip_ver excluded r = Inr ps \<and> distinct ps \<and>
    set ps = {route_prefix row |row. row \<in> set (t_objects (qe_tables E)) \<and> c_class row \<in> {''route'', ''route6''} \<and>
      row_visible row \<and> c_source row \<in> set (resolved E r) \<and>
      route_origin row \<in> reachable_leafs (db_as_set_members (t_objects (qe_tables E)) (resolved E r))
        (is_as (qe_settings E)) (set excluded) name \<and>
      (\<exists>v \<in> {4, 6}. c_ip_version row = Some v \<and> version_wanted ip_ver v)}"
proof -
  note db = preloaded_as_set [OF assms(1-3)]
  have "\<not> is_as (qe_settings E) []" by (simp add: is_as_def parse_as_number.simps Let_def py_upper_def)
  with db have "reachable_leafs (as_set_members (qe_store E) (resolved E r)) (is_as (qe_settings E)) (set excluded) name
      = reachable_leafs (db_as_set_members (t_objects (qe_tables E)) (resolved E r)) (is_as (qe_settings E)) (set excluded) name"
    by (intro reachable_leafs_without_empty [where e = "[]"]) (simp_all add: py_upper_def)
  moreover have "set (recursive_set_resolve E (resolved E r) excluded (Some ''as-set'') 0 [name] [] None)
      = reachable_leafs (as_set_members (qe_store E) (resolved E r)) (is_as (qe_settings E)) (set excluded) name"
    by (rule resolve_as_set_set)
  ultimately show ?thesis
    using preloaded_routes_set [OF assms, of "recursive_set_resolve E (resolved E r) excluded (Some ''as-set'') 0 [name] [] None"]
    unfolding routes_for_as_set_def by simp
qed

definition example_query_settings :: settings where
  "example_query_settings n = (if n = ''sources'' then Some (CDict [(''TT'', CDict [])]) else None)"

definition example_query_env :: "ip3 query_env" where
  "example_query_env = \<lparr>qe_lib = ip3_lib, qe_pg = example_pg, qe_settings = example_query_settings, qe_tables = example_sets,
     qe_store = example_store\<rparr>"

theorem as_set_prefixes_exact_witness:
  "plain_rows (t_objects example_sets) \<and> preloaded example_pg example_sets example_store \<and>
   resolved example_query_env (QueryResolver example_query_settings) = [''TT''] \<and> plain_source ''TT'' \<and>
   routes_for_as_set example_query_env ''AS-X'' None [] (QueryResolver example_query_settings) = Inr [''10.0.0.0/8''] \<and>
   {''10.0.0.0/8''} = {route_prefix row |row. row \<in> set (t_objects example_sets) \<and> c_class row \<in> {''route'', ''route6''} \<and>
      row_visible row \<and> c_source row \<in> {''TT''} \<and>
      route_origin row \<in> reachable_leafs (db_as_set_members (t_objects example_sets) [''TT'']) (is_as example_query_settings) {} ''AS-X'' \<and>
      (\<exists>v \<in> {4, 6}. c_ip_version row = Some v \<and> version_wanted None v)}"
proof -
  have res: "resolved example_query_env (QueryResolver example_query_settings) = [''TT'']" by code_simp
  have src: "plain_source ''TT''" by (simp add: plain_source_def)
  have ans: "routes_for_as_set example_query_env ''AS-X'' None [] (QueryResolver example_query_settings) = Inr [''10.0.0.0/8'']"
    by code_simp
  have E: "qe_tables example_query_env = example_sets" "qe_pg example_query_env = example_pg"
    "qe_store example_query_env = example_store" "qe_settings example_query_env = example_query_settings"
    by (simp_all add: example_query_env_def)
  from as_set_prefixes_exact [of example_query_env "QueryResolver example_query_settings" None "''AS-X''" "[]", unfolded E res ans]
    plain_rows_example example_preloaded src res ans
  show ?thesis by simp
qed

section \<open>What searches return\<close>

text \<open>
  A builder that adds conditions to a query: what it selects, the query selected before. The rows of
  a search that prepares its query are admitted by the filters of the resolver.
\<close>

definition admitted_row :: "'ip query_env \<Rightarrow> resolver \<Rightarrow> db_row \<Rightarrow> bool" where
  "admitted_row E r row \<longleftrightarrow> row \<in> set (t_objects (qe_tables E)) \<and>
     (resolved E r \<noteq> [] \<longrightarrow> c_source row \<in> set (map (\<lambda>s. py_strip (py_upper s)) (resolved E r))) \<and>
     (object_class_filter r \<noteq> [] \<longrightarrow> c_class row \<in> set (object_class_filter r)) \<and>
     (rpki_invalid_filter_enabled r \<longrightarrow> c_rpki row \<noteq> RPKI_invalid) \<and>
     (out_scope_filter_enabled r \<longrightarrow> c_scope row = in_scope) \<and>
     (route_preference_filter_enabled r \<longrightarrow> c_pref row = pref_visible)"

locale query_builder =
  fixes build :: "db_row query \<Rightarrow> db_row query res"
  assumes restricts: "build q = Inr q' \<Longrightarrow> q_where q' row \<Longrightarrow> q_where q row"

lemma builder_filter: "query_builder (q_filter p)"
  by unfold_locales (auto simp: q_filter_def check_query_frozen_def split: if_splits)

lemma builder_filter_on: "(\<And>q. q_where (g q) = q_where q) \<Longrightarrow> query_builder (\<lambda>q. q_filter (p q) (g q))"
  by unfold_locales (auto simp: q_filter_def check_query_frozen_def split: if_splits)

lemma builder_seq: "query_builder f \<Longrightarrow> query_builder g \<Longrightarrow> query_builder (\<lambda>q. rbind (f q) g)"
  unfolding query_builder_def by (auto simp: rbind_Inr_conv)

lemma builder_apply_if: "query_builder f \<Longrightarrow> query_builder (apply_if b f)"
  unfolding query_builder_def by (auto simp: apply_if_def)

lemma builder_classes: "query_builder (q_object_classes object_columns cs)"
  using builder_filter_on [of "\<lambda>q. q\<lparr>set_object_classes := cs\<rparr>" "\<lambda>q r. col_class object_columns r \<in> set cs"]
  by (simp add: q_object_classes_def [abs_def])

interpretation key_search: query_builder "\<lambda>q. rbind (q_object_classes object_columns [cls] q) (\<lambda>q1. rbind (q_rpsl_pk object_columns key q1) first_only)"
  for cls key
proof -
  have "query_builder first_only" by unfold_locales (auto simp: first_only_def limit_def)
  then show "query_builder (\<lambda>q. rbind (q_object_classes object_columns [cls] q) (\<lambda>q1. rbind (q_rpsl_pk object_columns key q1) first_only))"
    by (intro builder_seq builder_classes) (simp_all add: q_rpsl_pk_def q_rpsl_pks_def builder_filter)
qed

lemma builder_lookup: "query_builder (lookup_query E t a)"
  by unfold_locales
     (auto simp: lookup_query_def ip_exact_def ip_less_specific_one_level_def ip_less_specific_def ip_more_specific_def
        q_filter_def check_query_frozen_def rbind_Inr_conv split: route_lookup_type.splits if_splits)

interpretation prefix_search: query_builder "\<lambda>q. rbind (q_object_classes object_columns [''route'', ''route6''] q) (lookup_query E t a)"
  for E t a
  by (rule builder_seq [OF builder_classes builder_lookup])

interpretation attribute_search: query_builder "lookup_attr attr v" for attr v
  by unfold_locales (auto simp: lookup_attr_def lookup_attrs_in_def check_query_frozen_def rbind_Inr_conv split: if_splits)

lemma builder_text_search: "query_builder (text_search PG L gs v b)"
proof -
  have "query_builder (\<lambda>q. rbind (q_object_classes object_columns cs q) (asn_less_specific n))" for cs n
    by (rule builder_seq [OF builder_classes]) (simp add: asn_less_specific_def builder_filter)
  moreover have "query_builder (ip_less_specific PG L gs a)" for a
    using builder_filter_on [of id] by (simp add: ip_less_specific_def [abs_def])
  ultimately show ?thesis
    unfolding query_builder_def text_search_def Let_def
    by (auto simp: rbind_Inr_conv check_query_frozen_def q_filter_def split: if_splits sum.splits prod.splits)
qed

interpretation free_text_search: query_builder "text_search PG L gs v b" for PG L gs v b
  by (rule builder_text_search)

context query_builder
begin

lemma prepared_rows_admitted:
  assumes "prepared E by_sources build r = (Inr rows, r1)" "row \<in> set rows"
  shows "admitted_row E r row"
proof -
  obtain qp where qp: "prepare_query E by_sources r = (qp, r1)" and rows: "resolver_rows E (rbind qp build) = Inr rows"
    using assms(1) by (auto simp: prepared_def split: prod.splits)
  from rows obtain q q' where q: "qp = Inr q" "build q = Inr q'" and
    run: "rows = run_query (finalise_statement (qe_pg E) object_columns q') (t_objects (qe_tables E))"
    by (auto simp: resolver_rows_def rbind_Inr_conv)
  from run_query_subset [OF assms(2) [unfolded run]] have row: "row \<in> set (t_objects (qe_tables E))" "q_where q' row" by simp_all
  from restricts [OF q(2) row(2)] have w: "q_where q row" .
  from qp q(1) have "prepare_query E by_sources r = (Inr q, r1)" by simp
  with w row(1) show ?thesis
    by (cases "c_rpki row") (auto simp: prepare_query_def admitted_row_def apply_if_def rbind_Inr_conv q_sources_def q_object_classes_def
        q_rpki_status_def q_scopefilter_status_def q_route_preference_status_def q_filter_def check_query_frozen_def
        object_columns_def Let_def split: if_splits)
qed

end

text \<open>
  C7: Every object that a search by key, text, prefix or attribute returns is stored, is in one of the
  selected sources, is of a class that the query is restricted to, and is not hidden by a filter
  that is enabled: RPKI invalid, out of scope or suppressed by route preference.
\<close>

theorem search_results_admitted:
  assumes "(\<exists>cls key. key_lookup E cls key r = (Inr rows, r1)) \<or> (\<exists>v. rpsl_text_search E v r = (Inr rows, r1)) \<or>
      (\<exists>a t. route_search E a t r = (Inr rows, r1)) \<or> (\<exists>attr v. rpsl_attribute_search E attr v r = (Inr rows, r1))"
    "row \<in> set rows"
  shows "admitted_row E r row"
  using assms
  by (auto simp: key_lookup_def rpsl_text_search_def route_search_def rpsl_attribute_search_def split: if_splits
      intro: key_search.prepared_rows_admitted prefix_search.prepared_rows_admitted
        attribute_search.prepared_rows_admitted free_text_search.prepared_rows_admitted)

theorem search_results_admitted_witness:
  "\<exists>rows r1 row. key_lookup example_query_env ''as-set'' ''as-x'' (QueryResolver example_query_settings) = (Inr rows, r1) \<and>
     row \<in> set rows \<and> admitted_row example_query_env (QueryResolver example_query_settings) row"
proof -
  have "case key_lookup example_query_env ''as-set'' ''as-x'' (QueryResolver example_query_settings) of
      (Inr (row # rows), r1) \<Rightarrow> True | _ \<Rightarrow> False" by code_simp
  then obtain row rows r1 where k: "key_lookup example_query_env ''as-set'' ''as-x'' (QueryResolver example_query_settings)
      = (Inr (row # rows), r1)" by (auto split: prod.splits sum.splits list.splits)
  from search_results_admitted [of example_query_env "QueryResolver example_query_settings" "row # rows" r1 row] k show ?thesis
    by (metis list.set_intros(1))
qed

end
