(* ===== verification/Whois_Query_Facts.thy ===== *)
theory Whois_Query_Facts
  imports Whois_Server Query_Facts
begin

text \<open>
  Whois sessions: what any sequence of queries can change of the state, and who can see password
  hashes.
\<close>

section \<open>What a query may change\<close>

definition valid_selection :: "source_manager \<Rightarrow> bool" where
  "valid_selection m \<longleftrightarrow> selected_sources m = default_sources m \<or> set (selected_sources m) \<subseteq> set (all_valid_sources m)"

definition same_sources :: "source_manager \<Rightarrow> source_manager \<Rightarrow> bool" where
  "same_sources m m' \<longleftrightarrow> all_valid_real_sources m' = all_valid_real_sources m \<and> all_valid_aliases m' = all_valid_aliases m \<and>
     all_valid_sources m' = all_valid_sources m \<and> sources_default m' = sources_default m \<and>
     (valid_selection m \<longrightarrow> valid_selection m')"

definition resolver_keeps :: "resolver \<Rightarrow> resolver \<Rightarrow> bool" where
  "resolver_keeps r r' \<longleftrightarrow> same_sources (rs_manager r) (rs_manager r') \<and> rpki_aware r' = rpki_aware r \<and>
     (rpki_invalid_filter_enabled r' \<longrightarrow> rpki_invalid_filter_enabled r) \<and>
     (out_scope_filter_enabled r' \<longrightarrow> out_scope_filter_enabled r) \<and>
     (route_preference_filter_enabled r' \<longrightarrow> route_preference_filter_enabled r)"

definition session_keeps :: "whois_state \<Rightarrow> whois_state \<Rightarrow> bool" where
  "session_keeps s s' \<longleftrightarrow> resolver_keeps (ws_resolver s) (ws_resolver s') \<and>
     (session_timeout s' = session_timeout s \<or> 0 < session_timeout s' \<and> session_timeout s' \<le> 1000) \<and>
     (multiple_command_mode s \<longrightarrow> multiple_command_mode s')"

named_theorems keeps \<open>handlers that keep the session\<close>

lemma same_sources_refl [simp]: "same_sources m m"
  by (simp add: same_sources_def)

lemma resolver_keeps_refl [simp]: "resolver_keeps r r"
  by (simp add: resolver_keeps_def)

lemma session_keeps_refl [simp, keeps]: "session_keeps s s"
  by (simp add: session_keeps_def)

lemma same_sources_trans: "same_sources a b \<Longrightarrow> same_sources b c \<Longrightarrow> same_sources a c"
  by (simp add: same_sources_def)

lemma resolver_keeps_trans: "resolver_keeps a b \<Longrightarrow> resolver_keeps b c \<Longrightarrow> resolver_keeps a c"
  unfolding resolver_keeps_def using same_sources_trans by auto

lemma session_keeps_trans [trans]: "session_keeps a b \<Longrightarrow> session_keeps b c \<Longrightarrow> session_keeps a c"
  unfolding session_keeps_def by (elim conjE) (intro conjI; (metis resolver_keeps_trans | simp))

lemma keeps_hbind:
  "session_keeps s (snd h) \<Longrightarrow> (\<And>x s1. h = (Inr x, s1) \<Longrightarrow> session_keeps s1 (snd (f x s1))) \<Longrightarrow> session_keeps s (snd (hbind h f))"
  by (auto simp: hbind_def split: prod.splits sum.splits intro: session_keeps_trans)

lemma keeps_prepared: "resolver_keeps r (snd (prepared E b f r))"
  by (simp add: prepared_def prepare_query_def resolver_keeps_def)

lemma keeps_attribute_search: "resolver_keeps r (snd (rpsl_attribute_search E attr v r))"
  by (simp add: rpsl_attribute_search_def keeps_prepared)

lemma keeps_on_resolver: "(\<And>r. resolver_keeps r (snd (f r))) \<Longrightarrow> session_keeps s (snd (on_resolver f s))"
  by (simp add: on_resolver_def session_keeps_def split_beta)

lemma keeps_searches:
  "resolver_keeps r (snd (key_lookup E c k r))"
  "resolver_keeps r (snd (rpsl_text_search E v r))"
  "resolver_keeps r (snd (route_search E addr t r))"
  by (simp_all add: key_lookup_def rpsl_text_search_def route_search_def keeps_prepared)

lemma keeps_flattened: "(\<And>r. resolver_keeps r (snd (f r))) \<Longrightarrow> session_keeps s (snd (flattened (on_resolver f s)))"
  unfolding flattened_def by (intro keeps_hbind keeps_on_resolver) simp_all

lemma keeps_update: "resolver_keeps (ws_resolver s) r \<Longrightarrow> session_keeps s (s\<lparr>ws_resolver := r\<rparr>)"
  by (simp add: session_keeps_def)

lemma keeps_set_sources:
  "resolver_set_query_sources srcs r = Inr r' \<Longrightarrow> resolver_keeps r r'"
  by (auto simp: resolver_set_query_sources_def set_query_sources_def rbind_Inr_conv resolver_keeps_def same_sources_def
      valid_selection_def default_sources_def list_all_iff split: option.splits if_splits)

lemma keeps_plain [keeps]:
  "session_keeps s (handle_user_agent agent s)"
  "session_keeps s (handle_ripe_restrict_object_class classes s)"
  "session_keeps s (s\<lparr>multiple_command_mode := True\<rparr>)"
  "session_keeps s (s\<lparr>key_fields_only := b\<rparr>)"
  "session_keeps s (snd (handle_irrd_set_exclusion p s))"
  "session_keeps s (s\<lparr>ws_resolver := disable_rpki_filter (ws_resolver s)\<rparr>)"
  "session_keeps s (s\<lparr>ws_resolver := disable_out_of_scope_filter (ws_resolver s)\<rparr>)"
  "session_keeps s (s\<lparr>ws_resolver := disable_route_preference_filter (ws_resolver s)\<rparr>)"
  "session_keeps s (snd (handle_irrd_timeout_update p s))"
  "session_keeps s (snd (answer f x s))"
  by (simp_all add: session_keeps_def resolver_keeps_def handle_user_agent_def handle_ripe_restrict_object_class_def
      set_object_class_filter_next_query_def handle_irrd_set_exclusion_def disable_rpki_filter_def disable_out_of_scope_filter_def
      disable_route_preference_filter_def handle_irrd_timeout_update_def answer_def Let_def split: option.splits)

lemma keeps_handlers [keeps]:
  "session_keeps s (snd (handle_inverse_attr_search E attr v s))"
  "session_keeps s (snd (handle_ripe_text_search E v s))"
  "session_keeps s (snd (handle_irrd_exact_key E p s))"
  "session_keeps s (snd (handle_ripe_route_search E c p s))"
  by (auto simp: handle_inverse_attr_search_def handle_ripe_text_search_def handle_irrd_exact_key_def handle_ripe_route_search_def
      split: sum.splits prod.splits intro!: keeps_flattened keeps_attribute_search keeps_searches)

lemma keeps_source_lists [keeps]:
  "session_keeps s (snd (handle_irrd_sources_list p s))"
  "session_keeps s (snd (handle_ripe_sources_list t s))"
  by (auto simp: handle_irrd_sources_list_def handle_ripe_sources_list_def split: sum.splits intro!: keeps_update keeps_set_sources)

lemma keeps_route_search [keeps]: "session_keeps s (snd (handle_irrd_route_search E p s))"
  unfolding handle_irrd_route_search_def
  by (auto split: sum.splits prod.splits option.splits intro!: keeps_hbind keeps_on_resolver keeps_flattened keeps_searches)

lemma keeps_then [keeps]: "session_keeps s (snd h) \<Longrightarrow> session_keeps s (snd (hbind h (\<lambda>v s1. (f v, s1))))"
  by (rule keeps_hbind) simp_all

lemma session_if [keeps]: "(b \<Longrightarrow> session_keeps s (snd x)) \<Longrightarrow> (\<not> b \<Longrightarrow> session_keeps s (snd y)) \<Longrightarrow> session_keeps s (snd (if b then x else y))"
  by simp

lemma keeps_pair [keeps]: "session_keeps s s1 \<Longrightarrow> session_keeps s (snd (x, s1))"
  by simp

lemma keeps_exclusion [keeps]:
  "session_keeps s (snd (case handle_irrd_set_exclusion p s of (v, s1) \<Rightarrow> (f v, s1)))"
  using keeps_plain(5) [of s p] by (simp add: split_beta)

lemma keeps_irrd_command: "session_keeps s (snd (handle_irrd_command E q s))"
proof (cases q)
  case Nil
  then show ?thesis by (simp add: handle_irrd_command_def)
next
  case (Cons command parameter)
  then show ?thesis unfolding handle_irrd_command_def by (simp only: list.case) (intro keeps)
qed

lemma keeps_missing [keeps]: "session_keeps s (snd (missing_argument c s))"
  by (simp add: missing_argument_def)

lemma keeps_list:
  "(xs = [] \<Longrightarrow> session_keeps s (snd h)) \<Longrightarrow> (\<And>x ys. xs = x # ys \<Longrightarrow> session_keeps s (snd (f x ys)))
   \<Longrightarrow> session_keeps s (snd (case xs of [] \<Rightarrow> h | x # ys \<Rightarrow> f x ys))"
  by (simp split: list.split)

lemma keeps_ripe_loop: "session_keeps s (snd (ripe_loop E components acc s))"
proof (induction "length components" arbitrary: components acc s rule: less_induct)
  case less
  show ?case
  proof (cases components)
    case Nil
    then show ?thesis by (simp add: ripe_loop.simps)
  next
    case (Cons component rest)
    have loop: "session_keeps s (snd (ripe_loop E cs a s1))" if "session_keeps s s1" "length cs \<le> length rest" for cs a s1
      using that less [of cs s1 a] Cons by (auto intro: session_keeps_trans)
    have after: "session_keeps s (snd (hbind h (\<lambda>v s1. ripe_loop E cs (a v) s1)))"
      if "session_keeps s (snd h)" "length cs \<le> length rest" for h :: "'c handled" and cs a
      using that less [of cs] Cons by (intro keeps_hbind) simp_all
    show ?thesis
      unfolding Cons ripe_loop.simps(2) Let_def
      by (intro session_if keeps_list after loop keeps; simp)
  qed
qed

lemma keeps_with_errors: "snd (with_errors m h) = snd h"
  by (simp add: with_errors_def split: prod.splits sum.splits)

lemma keeps_handle_query: "session_keeps s (snd (handle_query E q s))"
proof -
  have start: "session_keeps s (s\<lparr>key_fields_only := False\<rparr>)" by (rule keeps)
  have agent: "session_keeps s1 (snd (strip_user_agent q s1))" for s1
    by (simp add: strip_user_agent_def Let_def keeps split: prod.split)
  obtain q1 s1 where q1: "strip_user_agent q (s\<lparr>key_fields_only := False\<rparr>) = (q1, s1)" by fastforce
  then have "session_keeps s s1"
    using start agent [of "s\<lparr>key_fields_only := False\<rparr>"] session_keeps_trans by force
  with q1 start show ?thesis
    by (simp add: handle_query_def Let_def keeps_with_errors)
       (metis keeps_irrd_command keeps_ripe_loop handle_ripe_command_def session_keeps_trans)
qed

lemma keeps_server_query: "session_keeps s (snd (server_handle_query rc q s))"
  using keeps_handle_query [of s "rc_env rc" q] by (simp add: server_handle_query_def split_beta)

lemma keeps_connection: "session_keeps s (session (connection_loop rcs s))"
proof (induction rcs s rule: connection_loop.induct)
  case (2 rc rcs s)
  let ?q = "py_strip (utf8_decode (rc_line rc))"
  show ?case
  proof (cases "?q = []")
    case True
    with 2 show ?thesis by simp
  next
    case False
    obtain h s1 where h: "server_handle_query rc ?q s = (h, s1)" by fastforce
    then have "session_keeps s s1" using keeps_server_query [of s rc ?q] by simp
    with False h 2(2) [OF refl False h [symmetric]] show ?thesis
      by (auto simp: Let_def split: sum.split intro: session_keeps_trans)
  qed
qed simp

text \<open>
  C8: Whatever a client sends over a connection, and however the data changes in between, at every moment
  the timeout of its session is between 1 and 1000 seconds, the sources that can be selected are those of
  the settings, and the sources that are selected are the default ones or can be selected. A filter for
  objects that are invalid under RPKI, out of scope or suppressed by route preference is never switched on
  again once it is off, and the mode for several queries is never left.
\<close>

theorem connection_invariant:
  assumes "0 < session_timeout s" "session_timeout s \<le> 1000" "valid_selection (rs_manager (ws_resolver s))"
  shows "let s' = session (connection_loop rcs s); r = ws_resolver s; r' = ws_resolver s'
    in 0 < session_timeout s' \<and> session_timeout s' \<le> 1000 \<and>
       all_valid_sources (rs_manager r') = all_valid_sources (rs_manager r) \<and> valid_selection (rs_manager r') \<and>
       (rpki_invalid_filter_enabled r' \<longrightarrow> rpki_invalid_filter_enabled r) \<and>
       (out_scope_filter_enabled r' \<longrightarrow> out_scope_filter_enabled r) \<and>
       (route_preference_filter_enabled r' \<longrightarrow> route_preference_filter_enabled r) \<and>
       (multiple_command_mode s \<longrightarrow> multiple_command_mode s')"
  using assms keeps_connection [of s rcs]
  by (simp add: Let_def session_keeps_def resolver_keeps_def same_sources_def) linarith

definition example_whois_settings :: settings where
  "example_whois_settings n =
     (if n = ''sources'' then Some (CDict [(''TT'', CDict [])])
      else if n = ''sources.TT.keep_journal'' then Some (CBool True)
      else if n = ''sources.TT.nrtm_access_list'' then Some (CStr ''mirrors'')
      else if n = ''access_lists.mirrors'' then Some (CList [CStr ''0.0.0.0/30'']) else None)"

definition example_mntner :: db_row where
  "example_mntner = (example_object ''mntner'' ''MM'' [(''mntner'', PStr ''MM'')])
     \<lparr>c_text := ''mntner: MM'' @ [NL] @ ''auth: MD5-PW $1$hash'' @ [NL]\<rparr>"

definition example_whois :: "string \<Rightarrow> ip3 whois_env" where
  "example_whois client_ip = \<lparr>we_query = \<lparr>qe_lib = ip3_lib, qe_pg = example_pg, qe_settings = example_whois_settings,
       qe_tables = example_sets\<lparr>t_objects := [example_mntner], t_status := [(new_status ''TT'' True 0)
         \<lparr>serial_oldest_journal := Some 1, serial_newest_journal := Some 2\<rparr>]\<rparr>, qe_store = example_store\<rparr>,
     we_client_ip = client_ip, we_called_from_test = None, we_now = 0, we_isoformat = str_int, we_updated = (\<lambda>_. 0),
     we_json_dumps = (\<lambda>_. [])\<rparr>"

definition example_lines :: "string \<Rightarrow> string list \<Rightarrow> ip3 received list" where
  "example_lines client_ip lines = map (\<lambda>l. \<lparr>rc_env = example_whois client_ip, rc_line = l @ [NL], rc_writable = True\<rparr>) lines"

theorem connection_invariant_witness:
  "let c = connection_loop (example_lines ''0.0.0.9'' [''!!'', ''!t6'', ''!stt'']) (WhoisQueryParser example_whois_settings)
   in valid_selection (rs_manager (ws_resolver (session c))) \<and> session_timeout (session c) \<le> 1000 \<and>
      session_timeout (session c) = 6 \<and>
      written c = [[], ''C'' @ [NL], ''C'' @ [NL]]"
proof -
  have start: "0 < session_timeout (WhoisQueryParser example_whois_settings)" "session_timeout (WhoisQueryParser example_whois_settings) \<le> 1000"
    "valid_selection (rs_manager (ws_resolver (WhoisQueryParser example_whois_settings)))" by code_simp+
  have run: "let c = connection_loop (example_lines ''0.0.0.9'' [''!!'', ''!t6'', ''!stt'']) (WhoisQueryParser example_whois_settings)
   in session_timeout (session c) = 6 \<and> written c = [[], ''C'' @ [NL], ''C'' @ [NL]]"
    by code_simp
  from connection_invariant [OF start, of "example_lines ''0.0.0.9'' [''!!'', ''!t6'', ''!stt'']"] run show ?thesis by (simp add: Let_def)
qed

section \<open>Who can see password hashes\<close>

text \<open>A client that may read the journal of one of the sources, with or without the filter for hashes.\<close>

definition nrtm_client :: "'ip whois_env \<Rightarrow> whois_state \<Rightarrow> bool" where
  "nrtm_client E s \<longleftrightarrow> (\<exists>src \<in> set (all_valid_real_sources (rs_manager (ws_resolver s))).
     nrtm_access E src ''nrtm_access_list'' = Inr True \<or> nrtm_access E src ''nrtm_access_list_unfiltered'' = Inr True)"

lemma nrtm_request_client: "handle_nrtm_request E p s = Inr v \<Longrightarrow> nrtm_client E s"
  by (auto simp: handle_nrtm_request_def nrtm_client_def rbind_Inr_conv Let_def split: list.splits if_splits)

lemma nrtm_client_keeps: "session_keeps s s1 \<Longrightarrow> nrtm_client E s1 = nrtm_client E s"
  by (simp add: nrtm_client_def session_keeps_def resolver_keeps_def same_sources_def)

definition hides :: "'ip whois_env \<Rightarrow> whois_state \<Rightarrow> whois_response handled \<Rightarrow> bool" where
  "hides E s h \<longleftrightarrow> (\<forall>w. fst h = Inr w \<longrightarrow> hide_hashes w \<or> nrtm_client E s)"

named_theorems hide_intros \<open>answers that hide hashes\<close>

lemma hides_plain [hide_intros]:
  "hides E s (Inr (irrd_response t v), s1)"
  "hides E s (Inr (or_not_found x), s1)"
  "hides E s (Inr (filter_disabled a b), s1)"
  "hides E s (Inl e, s1)"
  "hides E s (missing_argument c s)"
  "hides E s (answer or_not_found y s)"
  "hides E s (answer (\<lambda>v. irrd_response t (f v)) y s)"
  by (auto simp: hides_def irrd_response_def or_not_found_def filter_disabled_def missing_argument_def answer_def rbind_Inr_conv)

lemma hides_if [hide_intros]: "(b \<Longrightarrow> hides E s x) \<Longrightarrow> (\<not> b \<Longrightarrow> hides E s y) \<Longrightarrow> hides E s (if b then x else y)"
  by simp

lemma hides_hbind:
  "(\<And>v s1. h = (Inr v, s1) \<Longrightarrow> hides E s (f v s1)) \<Longrightarrow> hides E s (hbind h f)"
  by (auto simp: hides_def hbind_def split: prod.splits sum.splits)

lemma hides_list:
  "(xs = [] \<Longrightarrow> hides E s h) \<Longrightarrow> (\<And>x ys. xs = x # ys \<Longrightarrow> hides E s (f x ys))
   \<Longrightarrow> hides E s (case xs of [] \<Rightarrow> h | x # ys \<Rightarrow> f x ys)"
  by (simp split: list.split)

lemma hides_irrd_command: "hides E s (handle_irrd_command E q s)"
proof (cases q)
  case Nil
  then show ?thesis by (simp add: handle_irrd_command_def hide_intros)
next
  case (Cons command parameter)
  have "hides E s (case handle_irrd_set_exclusion p s of (v, s1) \<Rightarrow> (Inr (irrd_response SUCCESS v), s1))" for p
    by (simp add: split_beta hide_intros)
  with Cons show ?thesis unfolding handle_irrd_command_def by (simp only: list.case) (intro hide_intros hides_hbind)
qed

lemma hides_ripe_loop:
  "session_keeps s0 s \<Longrightarrow> snd acc \<or> nrtm_client E s0 \<Longrightarrow> hides E s0 (ripe_loop E components acc s)"
proof (induction "length components" arbitrary: components acc s rule: less_induct)
  case less
  show ?case
  proof (cases components)
    case Nil
    with less.prems show ?thesis by (simp add: ripe_loop.simps hides_def ripe_response_def)
  next
    case (Cons component rest)
    have found: "hides E s0 (Inr (found_response (snd acc) v), s1)" "hides E s0 (rbind x (\<lambda>v. Inr (ripe_response t (Some v, snd acc))), s1)"
      for v s1 t and x :: "string res"
      using less.prems(2) by (auto simp: hides_def found_response_def ripe_response_def rbind_Inr_conv)
    have answered: "hides E s0 (hbind h (\<lambda>v s1. (Inr (found_response (snd acc) v), s1)))" for h
      by (intro hides_hbind found)
    have loop: "hides E s0 (ripe_loop E cs a s1)"
      if "session_keeps s s1" "snd a = snd acc" "length cs \<le> length rest" for cs a s1
      using that less.hyps [of cs s1 a] less.prems Cons session_keeps_trans by auto
    have after: "hides E s0 (hbind h (\<lambda>v s1. ripe_loop E cs (a v) s1))"
      if "session_keeps s (snd h)" "\<And>v. snd (a v) = snd acc" "length cs \<le> length rest" for h :: "'c handled" and cs a
      using that loop by (intro hides_hbind) auto
    have nrtm: "hides E s0 (hbind (handle_nrtm_request E arg s, s) (\<lambda>v. ripe_loop E cs (Some v, False)))"
      if "length cs \<le> length rest" for cs arg
    proof (rule hides_hbind)
      fix v s1
      assume "(handle_nrtm_request E arg s, s) = (Inr v, s1)"
      then have "nrtm_client E s0" using nrtm_request_client nrtm_client_keeps less.prems(1) by blast
      with less.hyps [of cs s1 "(Some v, False)"] that less.prems(1) Cons \<open>(handle_nrtm_request E arg s, s) = (Inr v, s1)\<close>
      show "hides E s0 (ripe_loop E cs (Some v, False) s1)" by simp
    qed
    have miss: "hides E s0 (missing_argument c s)" for c by (simp add: hides_def missing_argument_def)
    show ?thesis
      unfolding Cons ripe_loop.simps(2) Let_def
      by (intro hides_if hides_list nrtm after loop found answered miss hides_plain keeps; simp)
  qed
qed

lemma hides_with_errors: "hides E s h \<Longrightarrow> hide_hashes (fst (with_errors m h)) \<or> nrtm_client E s"
  by (cases "fst h") (auto simp: hides_def with_errors_def error_response_def split: prod.splits sum.splits exn.splits)

lemma hides_handle_query: "hide_hashes (fst (handle_query E q s)) \<or> nrtm_client E s"
proof -
  let ?s = "s\<lparr>key_fields_only := False\<rparr>"
  obtain q1 s1 where q1: "strip_user_agent q ?s = (q1, s1)" by fastforce
  have kept: "session_keeps s s1"
    using q1 by (auto simp: strip_user_agent_def Let_def keeps split: if_splits prod.splits
        intro: session_keeps_trans [OF keeps_plain(4) keeps_plain(1)])
  have "hide_hashes (fst (with_errors m (handle_irrd_command E q2 s1))) \<or> nrtm_client E s" for m q2
    using hides_with_errors [OF hides_irrd_command [of E s1 q2], of m] nrtm_client_keeps [OF kept, of E] by simp
  moreover have "hide_hashes (fst (with_errors m (handle_ripe_command E q2 s1))) \<or> nrtm_client E s" for m q2
    unfolding handle_ripe_command_def by (intro hides_with_errors hides_ripe_loop kept) simp
  ultimately show ?thesis using q1 by (simp add: handle_query_def irrd_response_def Let_def)
qed

text \<open>
  C6: Password hashes are removed from every answer to a client that is in no NRTM access list of the
  sources, filtered or not: whatever the client asks, in whatever state of its session, the text of the
  answer has been through the removal of hashes before it is sent.
\<close>

theorem hashes_hidden:
  assumes "\<forall>src \<in> set (all_valid_real_sources (rs_manager (ws_resolver s))).
      nrtm_access E src ''nrtm_access_list'' \<noteq> Inr True \<and> nrtm_access E src ''nrtm_access_list_unfiltered'' \<noteq> Inr True"
    and "fst (handle_query E q s) = w"
  shows "clean_response w = w\<lparr>result := map_option remove_auth_hashes (result w)\<rparr>"
  using assms hides_handle_query [of E q s] by (auto simp: clean_response_def nrtm_client_def)

theorem hashes_hidden_witness:
  "\<exists>w. fst (handle_query (example_whois ''0.0.0.9'') ''MM'' (WhoisQueryParser example_whois_settings)) = w \<and>
     result w = Some (''mntner: MM'' @ [NL] @ ''auth: MD5-PW $1$hash'') \<and>
     clean_response w = w\<lparr>result := map_option remove_auth_hashes (result w)\<rparr>"
proof -
  let ?E = "example_whois ''0.0.0.9''" and ?s = "WhoisQueryParser example_whois_settings"
  have srcs: "all_valid_real_sources (rs_manager (ws_resolver ?s)) = [''TT'']" by code_simp
  have "nrtm_access ?E ''TT'' ''nrtm_access_list'' = Inr False" "nrtm_access ?E ''TT'' ''nrtm_access_list_unfiltered'' = Inr False"
    by code_simp+
  moreover have "result (fst (handle_query ?E ''MM'' ?s)) = Some (''mntner: MM'' @ [NL] @ ''auth: MD5-PW $1$hash'')" by code_simp
  ultimately show ?thesis using hashes_hidden [of ?s ?E "''MM''"] srcs by simp
qed

text \<open>
  A client that is only in the filtered access list gets the hashes of any object: after a journal request
  the rest of the query is still answered, and its answer is sent as it is.
\<close>

lemma hashes_leak_after_journal_request:
  "nrtm_access (example_whois ''0.0.0.2'') ''TT'' ''nrtm_access_list_unfiltered'' = Inr False \<and>
   fst (handle_query (example_whois ''0.0.0.2'') ''-g TT:3:1-LAST MM'' (WhoisQueryParser example_whois_settings))
     = \<lparr>response_type = SUCCESS, mode = MODE_RIPE, result = Some (''mntner: MM'' @ [NL] @ ''auth: MD5-PW $1$hash''),
        hide_hashes = False\<rparr>"
  by code_simp

text \<open>A restriction of classes without a search is not for this query but for the next one.\<close>

lemma class_filter_outlives_query:
  "object_class_filter (ws_resolver (snd (handle_query (example_whois ''0.0.0.9'') ''-T route'' (WhoisQueryParser example_whois_settings))))
     = [''route'']"
  by code_simp

text \<open>Two commas in a route search are an internal error, which the server logs with a traceback.\<close>

lemma route_search_two_commas:
  "response_type (fst (handle_query (example_whois ''0.0.0.9'') ''!r0.0.0.0/30,o,l'' (WhoisQueryParser example_whois_settings)))
     = ERROR_INTERNAL"
  by code_simp

end
