(* ===== verification/Crypto.thy ===== *)
theory Crypto
  imports Conf
begin

text \<open>
  \<^verbatim>\<open>irrd/utils/crypto.py\<close>: the wrappers around the keys and signatures of \<open>joserfc\<close>, which is a record
  of functions over an arbitrary type of keys. Verifying gives the payload that was signed.
\<close>

record 'k ec_lib =
  ec_import_key :: "cval \<Rightarrow> 'k res"
  ec_is_private :: "'k \<Rightarrow> bool"
  ec_as_pem :: "bool \<Rightarrow> 'k \<Rightarrow> string res"
  deserialize_compact :: "string \<Rightarrow> 'k \<Rightarrow> string res"
  serialize_compact :: "string \<Rightarrow> 'k \<Rightarrow> string res"

definition as_value_error :: "bool \<Rightarrow> 'a res \<Rightarrow> 'a res" where
  "as_value_error jose r =
     (case r of
        Inl (UnsupportedAlgorithm m) \<Rightarrow> Inl (ValueError m)
      | Inl (JoseError m) \<Rightarrow> (if jose then Inl (ValueError m) else Inl (JoseError m))
      | _ \<Rightarrow> r)"

definition eckey_from_str :: "'k ec_lib \<Rightarrow> cval \<Rightarrow> bool \<Rightarrow> 'k res" where
  "eckey_from_str EC encoded require_private =
     rbind (as_value_error False (ec_import_key EC encoded)) (\<lambda>key.
       if require_private \<and> \<not> ec_is_private EC key
       then Inl (ValueError ''ECKey is a public key, but must be a private key'') else Inr key)"

definition eckey_from_config :: "'k ec_lib \<Rightarrow> settings \<Rightarrow> string \<Rightarrow> bool \<Rightarrow> 'k option res" where
  "eckey_from_config EC gs setting permit_empty =
     (let v = get_setting gs setting
      in if \<not> truthy v \<and> permit_empty then Inr None
         else rbind (eckey_from_str EC v False) (\<lambda>key. Inr (Some key)))"

definition eckey_public_key_as_str :: "'k ec_lib \<Rightarrow> 'k \<Rightarrow> string res" where
  "eckey_public_key_as_str EC key = as_value_error False (ec_as_pem EC False key)"

definition eckey_private_key_as_str :: "'k ec_lib \<Rightarrow> 'k \<Rightarrow> string res" where
  "eckey_private_key_as_str EC key = as_value_error False (ec_as_pem EC True key)"

definition jws_deserialize :: "'k ec_lib \<Rightarrow> string \<Rightarrow> 'k \<Rightarrow> string res" where
  "jws_deserialize EC value public_key = as_value_error True (deserialize_compact EC value public_key)"

definition jws_serialize :: "'k ec_lib \<Rightarrow> string \<Rightarrow> 'k \<Rightarrow> string res" where
  "jws_serialize EC value private_key = as_value_error True (serialize_compact EC value private_key)"

end
