(* ===== verification/Retrieval.thy ===== *)
theory Retrieval
  imports RPSL_Parser Whois_Response
begin

text \<open>
  \<^verbatim>\<open>irrd/mirroring/retrieval.py\<close>: files from the network or the local disk. The network, the disk, gzip
  and SHA256 are a record of functions. Where the code returns the path of a local file, the model
  returns its content; the second component says whether the caller unlinks the path.
\<close>

section \<open>URLs\<close>

text \<open>The path of a URL, and the host without user, port and zone case, for what is left after the scheme.\<close>

definition url_path :: "string \<Rightarrow> string" where
  "url_path rest =
     takeWhile (\<lambda>c. c \<notin> set ''?#'')
       (if py_startswith rest ''//'' then dropWhile (\<lambda>c. c \<notin> set ''/?#'') (drop 2 rest) else rest)"

definition uses_params :: "string list" where
  "uses_params = [[], ''ftp'', ''http'', ''https'', ''sftp'']"

text \<open>The parameters of the last segment are not part of the path.\<close>

definition without_params :: "string \<Rightarrow> string \<Rightarrow> string" where
  "without_params scheme path =
     (let segment = rev (takeWhile (\<lambda>c. c \<noteq> CHR ''/'') (rev path))
      in if scheme \<in> set uses_params
         then take (length path - length segment) path @ takeWhile (\<lambda>c. c \<noteq> CHR '';'') segment else path)"

definition url_hostname :: "string \<Rightarrow> string" where
  "url_hostname netloc =
     (let hostinfo = rev (takeWhile (\<lambda>c. c \<noteq> CHR ''@'') (rev netloc));
          host = (if CHR ''['' \<in> set hostinfo
                  then takeWhile (\<lambda>c. c \<noteq> CHR '']'') (tl (dropWhile (\<lambda>c. c \<noteq> CHR ''['') hostinfo))
                  else takeWhile (\<lambda>c. c \<noteq> CHR '':'') hostinfo)
      in py_lower (takeWhile (\<lambda>c. c \<noteq> CHR ''%'') host) @ dropWhile (\<lambda>c. c \<noteq> CHR ''%'') host)"

definition url_parts :: "'ip extlib \<Rightarrow> string \<Rightarrow> (string \<times> string \<times> string) res" where
  "url_parts L url =
     rbind (urlparse L url) (\<lambda>(scheme, netloc).
       Inr (scheme, netloc, without_params scheme (url_path (snd (url_scheme (url_clean url))))))"

definition uses_netloc :: "string list" where
  "uses_netloc = [[], ''ftp'', ''http'', ''file'', ''https'', ''sftp'']"

definition urlunparse :: "string \<Rightarrow> string \<Rightarrow> string \<Rightarrow> string" where
  "urlunparse scheme netloc path =
     (let url = (if netloc \<noteq> [] \<or> scheme \<noteq> [] \<and> scheme \<in> set uses_netloc \<and> \<not> py_startswith path ''//''
                 then ''//'' @ netloc @ (if path \<noteq> [] \<and> \<not> py_startswith path ''/'' then ''/'' @ path else path)
                 else path)
      in if scheme = [] then url else scheme @ '':'' @ url)"

section \<open>Contents\<close>

record net_lib =
  net_urlopen :: "string \<Rightarrow> int \<Rightarrow> string + string"
  net_get :: "string \<Rightarrow> int \<Rightarrow> (int \<times> string list \<times> string) res"
  local_file :: "string \<Rightarrow> string res"
  gzip_open :: "string \<Rightarrow> string res"
  sha256_hex :: "string \<Rightarrow> string"
  temp_name :: string

definition utf8_strict :: "string \<Rightarrow> string res" where
  "utf8_strict s = (if utf8_encode (utf8_decode s) = s then Inr (utf8_decode s) else Inl (ValueError ''invalid utf-8''))"

text \<open>Reading in text mode makes every kind of line end a line feed.\<close>

fun universal_newlines :: "string \<Rightarrow> string" where
  "universal_newlines [] = []"
| "universal_newlines (c # s) =
     (if c = CR then NL # universal_newlines (if take 1 s = [NL] then tl s else s) else c # universal_newlines s)"

definition hex_val :: "char \<Rightarrow> nat option" where
  "hex_val c =
     (let d = lower_char c
      in if isdigit d then Some (digit_val d)
         else if 97 \<le> ord d \<and> ord d \<le> 102 then Some (ord d - 87) else None)"

fun bytes_fromhex :: "string \<Rightarrow> nat list option" where
  "bytes_fromhex [] = Some []"
| "bytes_fromhex [c] = (if isspace c then Some [] else None)"
| "bytes_fromhex (c # d # s) =
     (if isspace c then bytes_fromhex (d # s)
      else (case (hex_val c, hex_val d) of
              (Some h, Some l) \<Rightarrow> map_option (\<lambda>bs. (16 * h + l) # bs) (bytes_fromhex s)
            | _ \<Rightarrow> None))"

definition check_file_hash_sha256 :: "net_lib \<Rightarrow> string \<Rightarrow> string \<Rightarrow> string option \<Rightarrow> unit res" where
  "check_file_hash_sha256 N filename content expected_hash =
     (if \<not> str_truthy expected_hash then Inr ()
      else (case bytes_fromhex (the expected_hash) of
              None \<Rightarrow> Inl (ValueError ''non-hexadecimal number found in fromhex() arg'')
            | Some bs \<Rightarrow>
                if bytes_fromhex (sha256_hex N content) = Some bs then Inr ()
                else Inl (ValueError (''Invalid hash in '' @ filename @ '': expected '' @ the expected_hash
                        @ '', found '' @ sha256_hex N content))))"

definition download_file :: "net_lib \<Rightarrow> settings \<Rightarrow> string \<Rightarrow> string \<Rightarrow> string res" where
  "download_file N gs url scheme =
     rbind (cval_int (get_setting gs ''download_timeout'')) (\<lambda>download_timeout.
       if scheme = ''ftp''
       then (case net_urlopen N url download_timeout of
               Inl m \<Rightarrow> Inl (OSError (''Failed to download '' @ url @ '': '' @ m)) | Inr body \<Rightarrow> Inr body)
       else rbind (net_get N url download_timeout) (\<lambda>(status_code, chunks, shown_content).
              if status_code = 200 then Inr (concat chunks)
              else Inl (OSError (''Failed to download '' @ url @ '': '' @ str_int status_code @ '': '' @ shown_content))))"

definition ends_gz :: "string \<Rightarrow> bool" where
  "ends_gz url = py_startswith (rev url) (rev ''.gz'')"

definition retrieve_file_download :: "net_lib \<Rightarrow> settings \<Rightarrow> string \<Rightarrow> string \<Rightarrow> bool \<Rightarrow> string option \<Rightarrow> (string \<times> bool) res" where
  "retrieve_file_download N gs url scheme return_contents expected_hash =
     rbind (download_file N gs url scheme) (\<lambda>content.
       if return_contents then rbind (utf8_strict content) (\<lambda>t. Inr (py_strip t, False))
       else rbind (check_file_hash_sha256 N (temp_name N) content expected_hash) (\<lambda>_.
            rbind (if ends_gz url then gzip_open N content else Inr content) (\<lambda>data. Inr (data, True))))"

definition retrieve_file_local :: "net_lib \<Rightarrow> string \<Rightarrow> bool \<Rightarrow> string option \<Rightarrow> (string \<times> bool) res" where
  "retrieve_file_local N path return_contents expected_hash =
     (if \<not> return_contents
      then rbind (if str_truthy expected_hash \<or> ends_gz path then local_file N path else Inr []) (\<lambda>content.
           rbind (check_file_hash_sha256 N path content expected_hash) (\<lambda>_.
             if ends_gz path then rbind (gzip_open N content) (\<lambda>data. Inr (data, True))
             else rbind (local_file N path) (\<lambda>data. Inr (data, False))))
      else rbind (local_file N path) (\<lambda>content. rbind (utf8_strict content) (\<lambda>t. Inr (py_strip (universal_newlines t), False))))"

definition retrieve_file :: "net_lib \<Rightarrow> 'ip extlib \<Rightarrow> settings \<Rightarrow> string \<Rightarrow> bool \<Rightarrow> string option \<Rightarrow> (string \<times> bool) res" where
  "retrieve_file N L gs url return_contents expected_hash =
     rbind (url_parts L url) (\<lambda>(scheme, netloc, path).
       if scheme \<in> {''ftp'', ''http'', ''https''} then retrieve_file_download N gs url scheme return_contents expected_hash
       else if scheme = ''file'' then retrieve_file_local N path return_contents expected_hash
       else Inl (ValueError (''Invalid URL: '' @ url @ '' - scheme '' @ scheme @ '' is not supported'')))"

text \<open>What is retrieved with a hash has that hash before it is unpacked.\<close>

lemma retrieved_hash:
  assumes "retrieve_file N L gs url False (Some h) = Inr (data, unlink)" "h \<noteq> []"
  shows "\<exists>content. bytes_fromhex (sha256_hex N content) = bytes_fromhex h \<and> (data = content \<or> gzip_open N content = Inr data)"
  using assms
  by (auto simp: retrieve_file_def retrieve_file_download_def retrieve_file_local_def check_file_hash_sha256_def
      str_truthy_def rbind_Inr_conv split: if_splits prod.splits option.splits)

end
