(* ===== verification/NRTM4_Types.thy ===== *)
theory NRTM4_Types
  imports Crypto Retrieval
begin

text \<open>
  \<^verbatim>\<open>irrd/mirroring/nrtm4/nrtm4_types.py\<close>: the files of NRTM version 4 and their consistency rules.
  \<open>pydantic\<close> checks the types of fields and collects the errors; what it makes of a value is a record of
  functions. A validator that raises a \<open>ValueError\<close> adds an error, any other exception is raised. Points
  in time are seconds. The validators of a whole model run when all its fields are valid, the one that is
  inherited first, and the first error ends them.
\<close>

section \<open>Validation\<close>

record pydantic =
  px_str :: "cval \<Rightarrow> string option"
  px_uuid :: "cval \<Rightarrow> string option"
  px_positive_int :: "cval \<Rightarrow> int option"
  px_datetime :: "cval \<Rightarrow> (bool \<times> int) option"
  px_isoformat :: "int \<Rightarrow> string"
  px_message :: "string \<Rightarrow> cval \<Rightarrow> string"
  px_json :: "string \<Rightarrow> string + cval"

type_synonym field_errors = "(string \<times> string) list"

datatype 'a validation = Valid 'a | Invalid field_errors | Raises exn

fun vapp :: "('a \<Rightarrow> 'b) validation \<Rightarrow> 'a validation \<Rightarrow> 'b validation" where
  "vapp (Raises e) v = Raises e"
| "vapp f (Raises e) = Raises e"
| "vapp (Invalid es) (Invalid es') = Invalid (es @ es')"
| "vapp (Invalid es) (Valid x) = Invalid es"
| "vapp (Valid f) (Invalid es) = Invalid es"
| "vapp (Valid f) (Valid x) = Valid (f x)"

definition vbind :: "'a validation \<Rightarrow> ('a \<Rightarrow> 'b validation) \<Rightarrow> 'b validation" where
  "vbind v f = (case v of Valid x \<Rightarrow> f x | Invalid es \<Rightarrow> Invalid es | Raises e \<Rightarrow> Raises e)"

text \<open>The value of a validator: errors of its own become errors of the location.\<close>

definition validator_result :: "string \<Rightarrow> 'a res \<Rightarrow> 'a validation" where
  "validator_result loc r =
     (case r of
        Inr x \<Rightarrow> Valid x
      | Inl (ValueError m) \<Rightarrow> Invalid [(loc, ''Value error, '' @ m)]
      | Inl (AssertionError m) \<Rightarrow> Invalid [(loc, ''Assertion failed, '' @ m)]
      | Inl e \<Rightarrow> Raises e)"

definition typed_field :: "pydantic \<Rightarrow> (cval \<Rightarrow> 'a option) \<Rightarrow> string \<Rightarrow> string \<Rightarrow> cval \<Rightarrow> 'a validation" where
  "typed_field PX convert loc name v =
     (case dict_get (cval_items v) name of
        None \<Rightarrow> Invalid [(loc @ name, px_message PX ''missing'' v)]
      | Some x \<Rightarrow> (case convert x of None \<Rightarrow> Invalid [(loc @ name, px_message PX name x)] | Some y \<Rightarrow> Valid y))"

definition literal_field :: "pydantic \<Rightarrow> cval \<Rightarrow> string \<Rightarrow> cval \<Rightarrow> unit validation" where
  "literal_field PX expected = typed_field PX (\<lambda>x. if x = expected then Some () else None) []"

definition model_of :: "pydantic \<Rightarrow> string \<Rightarrow> (cval \<Rightarrow> 'a validation) \<Rightarrow> cval \<Rightarrow> 'a validation" where
  "model_of PX loc f v = (case v of CDict d \<Rightarrow> f v | _ \<Rightarrow> Invalid [(loc, px_message PX ''model_type'' v)])"

definition format_pydantic_errors :: "field_errors \<Rightarrow> string list" where
  "format_pydantic_errors es = map (\<lambda>(loc, msg). (if loc = [] then [] else loc @ '': '') @ msg) es"

section \<open>The models\<close>

record nrtm4_common =
  nc_source :: string
  nc_session_id :: string
  nc_version :: int

record file_reference =
  fr_version :: int
  fr_url :: string
  fr_hash :: string

record unf = nrtm4_common +
  unf_timestamp :: int
  unf_snapshot :: file_reference
  unf_deltas :: "file_reference list"
  next_signing_key :: "string option"

record expected_values =
  ex_source :: string
  ex_session_id :: "string option"
  ex_version :: "int option"

definition mismatch :: "string \<Rightarrow> string \<Rightarrow> string \<Rightarrow> 'a res" where
  "mismatch key expected found = Inl (ValueError (''Mismatch in '' @ key @ '' field: expected '' @ expected @ '', found '' @ found))"

definition validate_expected_values :: "expected_values \<Rightarrow> ('a) nrtm4_common_scheme \<Rightarrow> unit res" where
  "validate_expected_values ex m =
     (if nc_source m \<noteq> ex_source ex then mismatch ''source'' (ex_source ex) (nc_source m)
      else if ex_session_id ex \<noteq> None \<and> ex_session_id ex \<noteq> Some (nc_session_id m)
      then mismatch ''session_id'' (the (ex_session_id ex)) (nc_session_id m)
      else if ex_version ex \<noteq> None \<and> ex_version ex \<noteq> Some (nc_version m)
      then mismatch ''version'' (str_int (the (ex_version ex))) (str_int (nc_version m))
      else Inr ())"

definition common_fields :: "pydantic \<Rightarrow> (string \<Rightarrow> string \<Rightarrow> int \<Rightarrow> 'a) \<Rightarrow> cval \<Rightarrow> 'a validation" where
  "common_fields PX f v =
     vapp (vapp (vapp (vapp (Valid (\<lambda>_. f)) (literal_field PX (CInt 4) ''nrtm_version'' v))
       (typed_field PX (px_str PX) [] ''source'' v))
       (typed_field PX (px_uuid PX) [] ''session_id'' v))
       (typed_field PX (px_positive_int PX) [] ''version'' v)"

definition header_model :: "string \<Rightarrow> pydantic \<Rightarrow> expected_values \<Rightarrow> cval \<Rightarrow> nrtm4_common validation" where
  "header_model file_type PX ex =
     model_of PX [] (\<lambda>v.
       vbind (vapp (common_fields PX (\<lambda>src session version _. \<lparr>nc_source = src, nc_session_id = session, nc_version = version\<rparr>) v)
                (literal_field PX (CStr file_type) ''type'' v)) (\<lambda>m.
         vbind (validator_result [] (validate_expected_values ex m)) (\<lambda>_. Valid m)))"

definition NRTM4SnapshotHeader :: "pydantic \<Rightarrow> expected_values \<Rightarrow> cval \<Rightarrow> nrtm4_common validation" where
  "NRTM4SnapshotHeader = header_model ''snapshot''"

definition NRTM4DeltaHeader :: "pydantic \<Rightarrow> expected_values \<Rightarrow> cval \<Rightarrow> nrtm4_common validation" where
  "NRTM4DeltaHeader = header_model ''delta''"

definition snapshot_origin_identifier :: "('a) nrtm4_common_scheme \<Rightarrow> string" where
  "snapshot_origin_identifier m = nc_session_id m @ ''/S'' @ str_int (nc_version m)"

definition delta_origin_identifier :: "('a) nrtm4_common_scheme \<Rightarrow> string" where
  "delta_origin_identifier m = nc_session_id m @ ''/D'' @ str_int (nc_version m)"

definition file_reference_model :: "pydantic \<Rightarrow> string \<Rightarrow> cval \<Rightarrow> file_reference validation" where
  "file_reference_model PX loc =
     model_of PX loc (\<lambda>v.
       vapp (vapp (vapp (Valid (\<lambda>version url hash. \<lparr>fr_version = version, fr_url = url, fr_hash = hash\<rparr>))
         (typed_field PX (px_positive_int PX) (loc @ ''->'') ''version'' v))
         (typed_field PX (px_str PX) (loc @ ''->'') ''url'' v))
         (typed_field PX (px_str PX) (loc @ ''->'') ''hash'' v))"

definition UPDATE_NOTIFICATION_FILENAME :: string where
  "UPDATE_NOTIFICATION_FILENAME = ''update-notification-file.jose''"

definition full_url :: "'ip extlib \<Rightarrow> string \<Rightarrow> file_reference \<Rightarrow> string res" where
  "full_url L unf_url f =
     rbind (url_parts L unf_url) (\<lambda>(scheme, netloc, path).
       Inr (urlunparse scheme (url_hostname netloc) (py_replace UPDATE_NOTIFICATION_FILENAME (fr_url f) path)))"

definition min_delta_version :: "('a) unf_scheme \<Rightarrow> int option" where
  "min_delta_version u = (case unf_deltas u of [] \<Rightarrow> None | d # ds \<Rightarrow> Some (fr_version d))"

definition max_delta_version :: "('a) unf_scheme \<Rightarrow> int option" where
  "max_delta_version u = (if unf_deltas u = [] then None else Some (fr_version (List.last (unf_deltas u))))"

text \<open>Versions are positive, so that the truth value of a version is that there is one.\<close>

definition expected_unf_version :: "('a) unf_scheme \<Rightarrow> int" where
  "expected_unf_version u =
     (case max_delta_version u of
        None \<Rightarrow> fr_version (unf_snapshot u) | Some n \<Rightarrow> max (fr_version (unf_snapshot u)) n)"

definition check_version_consistency :: "('a) unf_scheme \<Rightarrow> unit res" where
  "check_version_consistency u =
     (if nc_version u \<noteq> expected_unf_version u
      then Inl (ValueError (''Update Notification File version '' @ str_int (nc_version u) @ '' should have version ''
                  @ str_int (expected_unf_version u) @ '' based on Snapshot and Delta versions''))
      else if unf_deltas u \<noteq> []
              \<and> map fr_version (unf_deltas u) \<noteq> [the (min_delta_version u)..the (max_delta_version u)]
      then Inl (ValueError ''Deltas in Update Notification File do not have contiguous serials.'')
      else Inr ())"

definition validate_timestamp :: "pydantic \<Rightarrow> int \<Rightarrow> bool \<times> int \<Rightarrow> int res" where
  "validate_timestamp PX now t =
     (case t of (aware, timestamp) \<Rightarrow>
        if \<not> aware then Inl (TypeError (''can't subtract offset-naive and offset-aware datetimes''))
        else if now - timestamp > 24 * 3600
        then Inl (ValueError (''Update Notification File is older than 24 hours, timestamp '' @ px_isoformat PX timestamp))
        else Inr timestamp)"

definition validate_next_signing_key :: "'k ec_lib \<Rightarrow> string option \<Rightarrow> string option res" where
  "validate_next_signing_key EC next_key =
     (if str_truthy next_key
      then (case eckey_from_str EC (CStr (the next_key)) False of
              Inl (ValueError m) \<Rightarrow>
                Inl (ValueError (''Update Notification File has invalid next_signing_key '' @ the next_key @ '': '' @ m))
            | Inl e \<Rightarrow> Inl e
            | Inr key \<Rightarrow> Inr next_key)
      else Inr next_key)"

definition optional_str :: "pydantic \<Rightarrow> cval \<Rightarrow> string option validation" where
  "optional_str PX v =
     (case dict_get (cval_items v) ''next_signing_key'' of
        None \<Rightarrow> Valid None
      | Some CNull \<Rightarrow> Valid None
      | Some x \<Rightarrow> (case px_str PX x of
          None \<Rightarrow> Invalid [(''next_signing_key'', px_message PX ''next_signing_key'' x)] | Some s \<Rightarrow> Valid (Some s)))"

fun delta_references :: "pydantic \<Rightarrow> nat \<Rightarrow> cval list \<Rightarrow> file_reference list validation" where
  "delta_references PX i [] = Valid []"
| "delta_references PX i (v # vs) =
     vapp (vapp (Valid (#)) (file_reference_model PX (''deltas->'' @ str_nat i) v)) (delta_references PX (i + 1) vs)"

definition deltas_field :: "pydantic \<Rightarrow> cval \<Rightarrow> file_reference list validation" where
  "deltas_field PX v =
     vbind (typed_field PX (\<lambda>x. case x of CList vs \<Rightarrow> Some vs | _ \<Rightarrow> None) [] ''deltas'' v) (delta_references PX 0)"

definition snapshot_field :: "pydantic \<Rightarrow> cval \<Rightarrow> file_reference validation" where
  "snapshot_field PX v = vbind (typed_field PX Some [] ''snapshot'' v) (file_reference_model PX ''snapshot'')"

text \<open>The consistency rules of a model whose fields are valid.\<close>

definition unf_rules :: "expected_values option \<Rightarrow> unf \<Rightarrow> unf validation" where
  "unf_rules ex u =
     vbind (validator_result [] (case ex of None \<Rightarrow> Inr () | Some e \<Rightarrow> validate_expected_values e u)) (\<lambda>_.
     vbind (validator_result [] (check_version_consistency u)) (\<lambda>_. Valid u))"

definition NRTM4UpdateNotificationFile :: "pydantic \<Rightarrow> 'k ec_lib \<Rightarrow> int \<Rightarrow> expected_values option \<Rightarrow> cval \<Rightarrow> unf validation" where
  "NRTM4UpdateNotificationFile PX EC now ex =
     model_of PX [] (\<lambda>v.
       vbind (vapp (vapp (vapp (vapp (vapp
          (common_fields PX (\<lambda>src session version t _ snapshot deltas key.
              \<lparr>nc_source = src, nc_session_id = session, nc_version = version, unf_timestamp = t, unf_snapshot = snapshot,
               unf_deltas = deltas, next_signing_key = key\<rparr>) v)
          (vbind (typed_field PX (px_datetime PX) [] ''timestamp'' v)
             (\<lambda>t. validator_result ''timestamp'' (validate_timestamp PX now t))))
          (literal_field PX (CStr ''notification'') ''type'' v))
          (snapshot_field PX v))
          (deltas_field PX v))
          (vbind (optional_str PX v) (\<lambda>k. validator_result ''next_signing_key'' (validate_next_signing_key EC k))))
         (unf_rules ex))"

definition model_validate_json :: "pydantic \<Rightarrow> (cval \<Rightarrow> 'a validation) \<Rightarrow> string \<Rightarrow> 'a validation" where
  "model_validate_json PX f payload =
     (case px_json PX payload of Inl m \<Rightarrow> Invalid [([], m)] | Inr v \<Rightarrow> f v)"

section \<open>What a valid file says\<close>

lemma vbind_Valid: "vbind v f = Valid y \<longleftrightarrow> (\<exists>x. v = Valid x \<and> f x = Valid y)"
  by (cases v) (simp_all add: vbind_def)

lemma validator_result_Valid: "validator_result loc r = Valid x \<longleftrightarrow> r = Inr x"
  by (auto simp: validator_result_def split: sum.splits exn.splits)

lemma unf_rules_Valid:
  assumes "unf_rules ex u = Valid u'"
  shows "u' = u \<and> check_version_consistency u = Inr () \<and> (\<forall>e. ex = Some e \<longrightarrow> validate_expected_values e u = Inr ())"
  using assms by (auto simp: unf_rules_def vbind_Valid validator_result_Valid)

lemma unf_valid:
  "NRTM4UpdateNotificationFile PX EC now ex v = Valid u \<Longrightarrow>
   check_version_consistency u = Inr () \<and> (\<forall>e. ex = Some e \<longrightarrow> validate_expected_values e u = Inr ())"
  by (auto simp: NRTM4UpdateNotificationFile_def model_of_def vbind_Valid split: cval.splits dest!: unf_rules_Valid)

lemma consistent_versions:
  assumes "check_version_consistency u = Inr ()"
  shows "nc_version u = expected_unf_version u"
    and "unf_deltas u \<noteq> [] \<Longrightarrow> map fr_version (unf_deltas u) = [the (min_delta_version u)..the (max_delta_version u)]"
  using assms by (auto simp: check_version_consistency_def split: if_splits)

end
