(* ===== verification/JSON_Seq.thy ===== *)
theory JSON_Seq
  imports Whois_Response Conf
begin

text \<open>
  \<^verbatim>\<open>irrd/mirroring/nrtm4/jsonseq.py\<close>: sequences of JSON values, each after a record separator and
  followed by a line feed (RFC 7464). The functions \<open>loads\<close> and \<open>dumps\<close> of \<open>ujson\<close> are arguments. A
  generator is the list of the values it yields and the exception that ends it, if any; the input is the
  list of the chunks that are read.
\<close>

definition RS :: char where
  "RS = chr 30"

definition CHUNK_SIZE :: nat where
  "CHUNK_SIZE = 1024 * 100"

type_synonym 'a generated = "'a list \<times> exn option"

definition gen_append :: "'a generated \<Rightarrow> 'a generated \<Rightarrow> 'a generated" where
  "gen_append g g' = (case g of (vs, Some e) \<Rightarrow> (vs, Some e) | (vs, None) \<Rightarrow> (case g' of (ws, e) \<Rightarrow> (vs @ ws, e)))"

fun load_sequences :: "(string \<Rightarrow> 'j res) \<Rightarrow> string list \<Rightarrow> 'j generated" where
  "load_sequences loads [] = ([], None)"
| "load_sequences loads (s # ss) =
     (if s = [] then load_sequences loads ss
      else (case loads s of Inl e \<Rightarrow> ([], Some e) | Inr v \<Rightarrow> gen_append ([v], None) (load_sequences loads ss)))"

text \<open>What is yielded of a buffer, and the rest after the last separator.\<close>

definition yield_buffer :: "(string \<Rightarrow> 'j res) \<Rightarrow> string \<Rightarrow> 'j generated \<times> string" where
  "yield_buffer loads buf =
     (if RS \<in> set buf
      then (let parts = py_split RS buf in (load_sequences loads (butlast parts), List.last parts))
      else (([], None), buf))"

fun decode_from :: "(string \<Rightarrow> 'j res) \<Rightarrow> string \<Rightarrow> string list \<Rightarrow> 'j generated" where
  "decode_from loads buf [] =
     (case yield_buffer loads buf of (g, rest) \<Rightarrow> gen_append g (load_sequences loads [rest]))"
| "decode_from loads buf (chunk # chunks) =
     (if chunk = [] then decode_from loads buf []
      else (case yield_buffer loads (buf @ chunk) of (g, rest) \<Rightarrow> gen_append g (decode_from loads rest chunks)))"

definition jsonseq_decode :: "(string \<Rightarrow> 'j res) \<Rightarrow> string list \<Rightarrow> 'j generated" where
  "jsonseq_decode loads chunks = decode_from loads [] chunks"

definition jsonseq_encode_one :: "('j \<Rightarrow> string) \<Rightarrow> 'j \<Rightarrow> string" where
  "jsonseq_encode_one dumps item = RS # utf8_encode (dumps item) @ [NL]"

definition jsonseq_encode :: "('j \<Rightarrow> string) \<Rightarrow> 'j list \<Rightarrow> string" where
  "jsonseq_encode dumps items = concat (map (jsonseq_encode_one dumps) items)"

section \<open>Round trip\<close>

lemma gen_append_simps [simp]:
  "gen_append ([], None) g = g"
  "gen_append (vs, None) (ws, e) = (vs @ ws, e)"
  "gen_append g ([], None) = g"
  by (auto simp: gen_append_def split: prod.splits option.splits)

lemma gen_append_assoc: "gen_append (gen_append a b) c = gen_append a (gen_append b c)"
  by (auto simp: gen_append_def split: prod.splits option.splits)

lemma load_sequences_append:
  "load_sequences loads (ss @ ts) = gen_append (load_sequences loads ss) (load_sequences loads ts)"
  by (induction ss) (simp_all add: gen_append_assoc split: sum.splits, simp add: gen_append_def)

text \<open>However the input is cut into chunks, the values are those of the pieces between the separators.\<close>

lemma py_split_append_last:
  "py_split sep (a @ b) = butlast (py_split sep a) @ py_split sep (List.last (py_split sep a) @ b)"
proof (induction a)
  case (Cons c a)
  obtain p ps where ps: "py_split sep a = p # ps" by (cases "py_split sep a") (simp_all add: py_split_not_Nil)
  show ?case
  proof (cases "c = sep")
    case True
    with Cons ps show ?thesis by simp
  next
    case False
    with Cons ps show ?thesis by (cases ps) (auto split: list.splits)
  qed
qed simp

lemma decode_pieces: "[] \<notin> set chunks \<Longrightarrow> decode_from loads buf chunks = load_sequences loads (py_split RS (buf @ concat chunks))"
proof (induction chunks arbitrary: buf)
  case Nil
  have "py_split RS buf \<noteq> []" by (rule py_split_not_Nil)
  then have "load_sequences loads (py_split RS buf)
      = gen_append (load_sequences loads (butlast (py_split RS buf))) (load_sequences loads [List.last (py_split RS buf)])"
    by (metis append_butlast_last_id load_sequences_append)
  then show ?case by (cases "RS \<in> set buf") (simp_all add: yield_buffer_def Let_def py_split_no_sep)
next
  case (Cons chunk chunks)
  then have c: "chunk \<noteq> []" "[] \<notin> set chunks" by auto
  have "load_sequences loads (py_split RS (buf @ chunk @ concat chunks))
      = gen_append (load_sequences loads (butlast (py_split RS (buf @ chunk))))
          (load_sequences loads (py_split RS (List.last (py_split RS (buf @ chunk)) @ concat chunks)))"
    using py_split_append_last [of RS "buf @ chunk" "concat chunks"] by (simp add: load_sequences_append)
  with c Cons.IH show ?case
    by (cases "RS \<in> set (buf @ chunk)") (simp_all add: yield_buffer_def Let_def py_split_no_sep)
qed

text \<open>
  What is encoded as a sequence is decoded to the same values, in order and without an exception,
  whatever chunks the bytes are read in.
\<close>

theorem jsonseq_roundtrip:
  assumes "concat chunks = jsonseq_encode dumps items" "[] \<notin> set chunks"
    and "\<And>v. v \<in> set items \<Longrightarrow> RS \<notin> set (utf8_encode (dumps v)) \<and> loads (utf8_encode (dumps v) @ [NL]) = Inr v"
  shows "jsonseq_decode loads chunks = (items, None)"
proof -
  have nl: "RS \<noteq> NL" by code_simp
  have "load_sequences loads (py_split RS (t @ jsonseq_encode dumps items))
      = gen_append (load_sequences loads [t]) (items, None)" if "RS \<notin> set t" for t
    using assms(3) that
  proof (induction items arbitrary: t)
    case Nil
    then show ?case by (simp add: jsonseq_encode_def py_split_no_sep)
  next
    case (Cons v items)
    let ?t = "utf8_encode (dumps v) @ [NL]"
    have v: "RS \<notin> set ?t" "loads ?t = Inr v" using Cons.prems(1) [of v] nl by auto
    have e: "t @ jsonseq_encode dumps (v # items) = t @ RS # (?t @ jsonseq_encode dumps items)"
      by (simp add: jsonseq_encode_def jsonseq_encode_one_def)
    have "py_split RS (t @ jsonseq_encode dumps (v # items)) = [t] @ py_split RS (?t @ jsonseq_encode dumps items)"
      unfolding e using py_split_append [OF Cons.prems(2)] by simp
    then have "load_sequences loads (py_split RS (t @ jsonseq_encode dumps (v # items)))
        = gen_append (load_sequences loads [t]) (load_sequences loads (py_split RS (?t @ jsonseq_encode dumps items)))"
      by (simp only: load_sequences_append)
    also have "load_sequences loads (py_split RS (?t @ jsonseq_encode dumps items))
        = gen_append (load_sequences loads [?t]) (items, None)"
      using Cons.IH [OF _ v(1)] Cons.prems(1) by simp
    finally show ?case using v(2) by (simp add: gen_append_assoc [symmetric])
  qed
  from this [of "[]"] have "load_sequences loads (py_split RS (concat chunks)) = (items, None)" using assms(1) by simp
  with decode_pieces [OF assms(2), of loads "[]"] show ?thesis by (simp add: jsonseq_decode_def)
qed

definition example_dumps :: "nat \<Rightarrow> string" where
  "example_dumps n = (if n = 0 then ''0'' else ''1'')"

definition example_loads :: "string \<Rightarrow> nat res" where
  "example_loads s = (if take 1 s = ''0'' then Inr 0 else Inr 1)"

theorem jsonseq_roundtrip_witness:
  "jsonseq_decode example_loads [[RS], ''0'' @ [NL, RS], ''1'' @ [NL]] = ([0, 1], None)"
proof (rule jsonseq_roundtrip [where dumps = example_dumps])
  show "concat [[RS], ''0'' @ [NL, RS], ''1'' @ [NL]] = jsonseq_encode example_dumps [0, 1]" by code_simp
  fix v :: nat
  assume "v \<in> set [0, 1]"
  moreover have "RS \<notin> set (utf8_encode (example_dumps 0))" "RS \<notin> set (utf8_encode (example_dumps 1))"
    "example_loads (utf8_encode (example_dumps 0) @ [NL]) = Inr 0" "example_loads (utf8_encode (example_dumps 1) @ [NL]) = Inr 1"
    by code_simp+
  ultimately show "RS \<notin> set (utf8_encode (example_dumps v)) \<and> example_loads (utf8_encode (example_dumps v) @ [NL]) = Inr v"
    by auto
qed simp

end
