(* ===== verification/NRTM4_Client.thy ===== *)
theory NRTM4_Client
  imports NRTM4_Types JSON_Seq NRTM Queries
begin

text \<open>
  \<^verbatim>\<open>irrd/mirroring/nrtm4/nrtm4_client.py\<close> on the real database handler. The libraries, the configuration
  and the time of the run are a record. A run that raises leaves a handler that its caller closes without
  a commit, so that an exception carries no state. Deleting temporary files and logging are left out. The
  configured initial key is a text.
\<close>

record ('ip, 't, 'k) client_env =
  ce_lib :: "'ip extlib"
  ce_trie :: "'t trie_lib"
  ce_pg :: pg_lib
  ce_settings :: settings
  ce_isoformat :: "int \<Rightarrow> string"
  ce_now :: int
  ce_pydantic :: pydantic
  ce_ec :: "'k ec_lib"
  ce_net :: net_lib
  ce_loads :: "string \<Rightarrow> cval res"
  ce_repr :: "cval \<Rightarrow> string"

record nrtm4_run =
  run_source :: string
  run_rpki_aware :: bool
  run_notification_file_url :: cval
  run_force_reload :: bool
  run_last_status :: nrtm4_client_status

section \<open>Exceptions\<close>

text \<open>The message of an exception that is a \<open>ValueError\<close>.\<close>

fun value_error :: "exn \<Rightarrow> string option" where
  "value_error (ValueError m) = Some m"
| "value_error (ValidationError m) = Some m"
| "value_error (InvalidQueryException m) = Some m"
| "value_error (WhoisQueryError m) = Some m"
| "value_error (NRTM4ClientError m) = Some m"
| "value_error e = None"

text \<open>
  What \<open>run_client\<close> makes of validation errors; nothing in between handles them, so that the conversion is
  done where they are raised.
\<close>

definition from_pydantic_error :: "field_errors \<Rightarrow> exn" where
  "from_pydantic_error es = NRTM4ClientError (py_join ''; '' (format_pydantic_errors es))"

definition raise_invalid :: "'a validation \<Rightarrow> 'a res" where
  "raise_invalid v = (case v of Valid x \<Rightarrow> Inr x | Invalid es \<Rightarrow> Inl (from_pydantic_error es) | Raises e \<Rightarrow> Inl e)"

definition as_client_error :: "'a res \<Rightarrow> 'a res" where
  "as_client_error r =
     (case r of
        Inl e \<Rightarrow> (case value_error e of Some m \<Rightarrow> Inl (NRTM4ClientError m) | None \<Rightarrow> Inl e)
      | Inr x \<Rightarrow> Inr x)"

section \<open>The database handler\<close>

definition flush_for_query :: "('ip, 't, 'k) client_env \<Rightarrow> 'ip handler \<Rightarrow> 'ip handler res" where
  "flush_for_query E h =
     (if readonly h then Inr h else flush_rpsl_object_writing_buffer (ce_settings E) (ce_now E) h)"

text \<open>A query on ROAs, which the validator of single routes makes, flushes the buffer.\<close>

definition queries_roas :: "('ip, 't, 'k) client_env \<Rightarrow> bool \<Rightarrow> 'ip rpsl_object \<Rightarrow> bool" where
  "queries_roas E aware obj \<longleftrightarrow>
     aware \<and> is_route (klass obj) \<and> rpsl_object.prefix obj \<noteq> None \<and> asn_first obj \<notin> {None, Some 0}
     \<and> (case source obj of Inl e \<Rightarrow> False
        | Inr src \<Rightarrow> \<not> truthy (source_setting (ce_settings E) src ''rpki_excluded''))"

definition call_queries_roas :: "('ip, 't, 'k) client_env \<Rightarrow> bool \<Rightarrow> 'ip db_call \<Rightarrow> bool" where
  "call_queries_roas E aware c =
     (case c of UpsertObject co orig serial \<Rightarrow> queries_roas E aware (co_obj co) | _ \<Rightarrow> False)"

fun apply_call :: "('ip, 't, 'k) client_env \<Rightarrow> 'ip db_call \<Rightarrow> 'ip handler \<Rightarrow> 'ip handler res" where
  "apply_call E (UpsertObject co orig serial) h =
     upsert_rpsl_object (ce_lib E) (ce_settings E) (ce_isoformat E) (ce_now E) co orig False serial None h"
| "apply_call E (DeleteObject src rpsl_pk cls orig serial) h =
     delete_rpsl_object (ce_settings E) (ce_now E) orig None (Some src) (Some rpsl_pk) (Some cls) serial False h"
| "apply_call E (RecordMirrorError src m) h = record_mirror_error src m h"
| "apply_call E (RecordSerialSeen src n) h = record_serial_seen src n h"
| "apply_call E (RecordSerialNewestMirror src n) h = record_serial_newest_mirror src n h"

fun apply_calls :: "('ip, 't, 'k) client_env \<Rightarrow> 'ip db_call list \<Rightarrow> 'ip handler \<Rightarrow> 'ip handler res" where
  "apply_calls E [] h = Inr h"
| "apply_calls E (c # cs) h = rbind (apply_call E c h) (apply_calls E cs)"

text \<open>Saving one operation: the call is made after the validation of a route has queried the ROAs.\<close>

definition save_operation :: "('ip, 't, 'k) client_env \<Rightarrow> nrtm_operation \<Rightarrow> 'ip handler \<Rightarrow> 'ip handler res" where
  "save_operation E nop h =
     (case nrtm_save (ce_lib E) (ce_settings E)
             (roa_ip_less_specific_or_exact (ce_pg E) (ce_lib E) (cur h)) nop of
        (Inl e, cs) \<Rightarrow> Inl e
      | (Inr saved, cs) \<Rightarrow>
          rbind (if list_ex (call_queries_roas E (rpki_aware nop)) cs
                 then flush_for_query E h else Inr h) (apply_calls E cs))"

section \<open>The start of a run\<close>

definition current_db_status :: "('ip, 't, 'k) client_env \<Rightarrow> string \<Rightarrow> 'ip handler
    \<Rightarrow> ((bool \<times> nrtm4_client_status) \<times> 'ip handler) res" where
  "current_db_status E src h =
     rbind (flush_for_query E h) (\<lambda>h1.
       Inr (case DatabaseStatusQuery (ce_pg E) [src] (cur h1) of
              [] \<Rightarrow> (False, no_client_status)
            | s # ss \<Rightarrow> (force_reload s, nrtm4_client s), h1))"

definition NRTM4Client :: "('ip, 't, 'k) client_env \<Rightarrow> string \<Rightarrow> 'ip handler \<Rightarrow> (nrtm4_run \<times> 'ip handler) res" where
  "NRTM4Client E src h =
     rbind (current_db_status E src h) (\<lambda>((reload, status), h1).
       Inr (\<lparr>run_source = src, run_rpki_aware = truthy (get_setting (ce_settings E) ''rpki.roa_source''),
             run_notification_file_url = source_setting (ce_settings E) src ''nrtm4_client_notification_file_url'',
             run_force_reload = reload, run_last_status = status\<rparr>, h1))"

definition notification_url :: "('ip, 't, 'k) client_env \<Rightarrow> nrtm4_run \<Rightarrow> string" where
  "notification_url E c = (case run_notification_file_url c of CStr s \<Rightarrow> s | v \<Rightarrow> ce_repr E v)"

section \<open>Signatures\<close>

text \<open>
  The keys are tried in order; a result is the payload with the key that verified it, or the error of each
  key. A key that cannot be imported ends the run.
\<close>

fun try_keys :: "'k ec_lib \<Rightarrow> string \<Rightarrow> string option list \<Rightarrow> (string, string) dict
    \<Rightarrow> ((string, string) dict + string \<times> string) res" where
  "try_keys EC content [] errs = Inr (Inl errs)"
| "try_keys EC content (None # ks) errs = try_keys EC content ks errs"
| "try_keys EC content (Some k # ks) errs =
     (if k = [] then try_keys EC content ks errs
      else rbind (eckey_from_str EC (CStr k) False) (\<lambda>pubkey.
        case jws_deserialize EC content pubkey of
          Inr payload \<Rightarrow> Inr (Inr (payload, k))
        | Inl e \<Rightarrow>
            (case value_error e of Some m \<Rightarrow> try_keys EC content ks (dict_set k m errs) | None \<Rightarrow> Inl e)))"

definition initial_public_key :: "settings \<Rightarrow> string \<Rightarrow> string option" where
  "initial_public_key gs src =
     (case source_setting gs src ''nrtm4_client_initial_public_key'' of CStr k \<Rightarrow> Some k | _ \<Rightarrow> None)"

definition known_keys :: "settings \<Rightarrow> string \<Rightarrow> nrtm4_client_status \<Rightarrow> string option list" where
  "known_keys gs src last_status =
     (if str_truthy (cl_current_key last_status) then [cl_current_key last_status, cl_next_key last_status]
      else [initial_public_key gs src])"

text \<open>Whether the file would verify with the configured key, though other keys are known.\<close>

definition valid_for_initial_key :: "'k ec_lib \<Rightarrow> settings \<Rightarrow> string \<Rightarrow> string \<Rightarrow> bool res" where
  "valid_for_initial_key EC gs src content =
     (case rbind (eckey_from_config EC gs (source_key src ''nrtm4_client_initial_public_key'') False) (\<lambda>key_opt.
             case key_opt of None \<Rightarrow> Inr False | Some key \<Rightarrow> rbind (jws_deserialize EC content key) (\<lambda>_. Inr True)) of
        Inl e \<Rightarrow> (if value_error e = None then Inl e else Inr False)
      | Inr valid \<Rightarrow> Inr valid)"

definition initial_key_message :: "string \<Rightarrow> string \<Rightarrow> nrtm4_client_status \<Rightarrow> string" where
  "initial_key_message src config_key last_status =
     src @ '': No valid signature found for the Update Notification File. The signature is valid for public key ''
     @ config_key @ '' set in the nrtm4_client_initial_public_key setting, but that is only used for initial validation.''
     @ '' IRRD is currently expecting the public key '' @ the (cl_current_key last_status)
     @ (if str_truthy (cl_next_key last_status) then '' or '' @ the (cl_next_key last_status) else [])
     @ ''. If you want to clear IRRDs key information and revert to nrtm4_client_initial_public_key, use the ''
     @ [CHR 0x27] @ ''irrdctl nrtm4 client-clear-known-keys'' @ [CHR 0x27] @ '' command.''"

definition key_error_message :: "string \<times> string \<Rightarrow> string" where
  "key_error_message e =
     ''; attempting '' @ [CHR 0x27] @ py_replace [NL] (CHR 0x5C # ''n'') (fst e) @ [CHR 0x27]
     @ '' resulted in error: '' @ [CHR 0x27] @ snd e @ [CHR 0x27]"

definition deserialize_unf :: "('ip, 't, 'k) client_env \<Rightarrow> nrtm4_run \<Rightarrow> string \<Rightarrow> (string \<times> string) res" where
  "deserialize_unf E c unf_content =
     (let EC = ce_ec E; gs = ce_settings E; src = run_source c; last_status = run_last_status c;
          content = utf8_encode unf_content
      in rbind (try_keys EC content (known_keys gs src last_status) []) (\<lambda>r.
           case r of
             Inr verified \<Rightarrow> Inr verified
           | Inl errs \<Rightarrow>
               rbind (if str_truthy (cl_current_key last_status)
                      then valid_for_initial_key EC gs src content else Inr False) (\<lambda>initial.
                 if initial
                 then Inl (NRTM4ClientError (initial_key_message src
                        (cval_str (source_setting gs src ''nrtm4_client_initial_public_key'')) last_status))
                 else Inl (NRTM4ClientError (src @ '': No valid signature found for any known keys''
                        @ concat (map key_error_message errs))))))"

definition retrieve_unf :: "('ip, 't, 'k) client_env \<Rightarrow> nrtm4_run \<Rightarrow> (unf \<times> string) res" where
  "retrieve_unf E c =
     (if \<not> truthy (run_notification_file_url c)
      then Inl (RuntimeError ''NRTM4 client called for a source without a Update Notification File URL'')
      else rbind (retrieve_file (ce_net E) (ce_lib E) (ce_settings E) (notification_url E c) True None) (\<lambda>(unf_signed, _).
           rbind (deserialize_unf E c unf_signed) (\<lambda>(unf_payload, used_key).
           rbind (raise_invalid (model_validate_json (ce_pydantic E)
                    (NRTM4UpdateNotificationFile (ce_pydantic E) (ce_ec E) (ce_now E)
                      (Some \<lparr>ex_source = run_source c, ex_session_id = None, ex_version = None\<rparr>)) unf_payload)) (\<lambda>u.
             Inr (u, used_key)))))"

section \<open>Versions and references\<close>

text \<open>The next version to load; none when a snapshot has to be loaded.\<close>

definition needs_snapshot :: "nrtm4_run \<Rightarrow> unf \<Rightarrow> bool" where
  "needs_snapshot c u \<longleftrightarrow>
     run_force_reload c \<or> \<not> str_truthy (cl_session_id (run_last_status c))
     \<or> cl_version (run_last_status c) \<in> {None, Some 0}
     \<or> Some (nc_session_id u) \<noteq> cl_session_id (run_last_status c)"

definition next_version_after :: "nrtm4_run \<Rightarrow> unf \<Rightarrow> int \<Rightarrow> int option res" where
  "next_version_after c u last_version =
     (if nc_version u < last_version
      then Inl (NRTM4ClientError (''Update Notification File '' @ run_source c @ ''/'' @ nc_session_id u
             @ '' has matching session ID, but version '' @ str_int (nc_version u)
             @ '' is older than local version '' @ str_int last_version))
      else if (case min_delta_version u of None \<Rightarrow> False | Some m \<Rightarrow> last_version + 1 < m) then Inr None
      else Inr (Some (last_version + 1)))"

definition find_next_version :: "nrtm4_run \<Rightarrow> unf \<Rightarrow> int option \<Rightarrow> int option res" where
  "find_next_version c u last_version =
     (if last_version \<in> {None, Some 0}
      then (if needs_snapshot c u then Inr None
            else next_version_after c u (the (cl_version (run_last_status c))))
      else next_version_after c u (the last_version))"

definition current_files :: "unf \<Rightarrow> (string, string list) dict" where
  "current_files u =
     fold (\<lambda>d. dict_set (''delta-'' @ str_int (fr_version d)) [fr_url d, fr_hash d]) (unf_deltas u)
       [(''snapshot-'' @ str_int (fr_version (unf_snapshot u)), [fr_url (unf_snapshot u), fr_hash (unf_snapshot u)])]"

fun check_history :: "string \<Rightarrow> (string, string list) dict \<Rightarrow> (string, string list) dict \<Rightarrow> unit res" where
  "check_history src previous [] = Inr ()"
| "check_history src previous ((reference, details) # files) =
     (case dict_get previous reference of
        None \<Rightarrow> check_history src previous files
      | Some previous_details \<Rightarrow>
          if details \<noteq> previous_details
          then Inl (NRTM4ClientError (src @ '': Reference '' @ reference @ '' has filename '' @ [CHR 0x27] @ details ! 0
                 @ [CHR 0x27] @ '' with hash '' @ [CHR 0x27] @ details ! 1 @ [CHR 0x27]
                 @ '' in current Update Notification File, but had filename '' @ [CHR 0x27] @ previous_details ! 0
                 @ [CHR 0x27] @ '' with hash '' @ [CHR 0x27] @ previous_details ! 1 @ [CHR 0x27]
                 @ '' in a previous Update Notification File. Server is rewriting history.''))
          else check_history src previous files)"

definition validate_aggregate_previous_file_hashes :: "nrtm4_run \<Rightarrow> unf \<Rightarrow> (string, string list) dict res" where
  "validate_aggregate_previous_file_hashes c u =
     (case cl_previous_file_hashes (run_last_status c) of
        None \<Rightarrow> Inr (current_files u)
      | Some previous \<Rightarrow>
          rbind (check_history (run_source c) previous (current_files u)) (\<lambda>_. Inr (current_files u)))"

section \<open>Items\<close>

definition item_get :: "cval \<Rightarrow> string \<Rightarrow> cval res" where
  "item_get item key =
     (case item of
        CDict d \<Rightarrow> (case dict_get d key of None \<Rightarrow> Inl (KeyError (py_repr key)) | Some v \<Rightarrow> Inr v)
      | _ \<Rightarrow> Inl (TypeError ''indices must be integers''))"

definition item_text :: "cval \<Rightarrow> string res" where
  "item_text v = (case v of CStr s \<Rightarrow> Inr s | _ \<Rightarrow> Inl (AttributeError ''object has no attribute of str''))"

text \<open>The text of an object: what is false means that there is none, and only a text can be parsed.\<close>

definition object_text_item :: "cval \<Rightarrow> string option res" where
  "object_text_item v = (if truthy v then rbind (item_text v) (\<lambda>t. Inr (Some t)) else Inr None)"

text \<open>The key of a dictionary; a list or a dictionary is no key.\<close>

definition NRTM4_OPERATION_MAPPING :: "(string \<times> database_operation) list" where
  "NRTM4_OPERATION_MAPPING = [(''add_modify'', add_or_update), (''delete'', op_delete)]"

definition item_operation :: "('ip, 't, 'k) client_env \<Rightarrow> cval \<Rightarrow> database_operation res" where
  "item_operation E action =
     (case action of
        CStr a \<Rightarrow> (case dict_get NRTM4_OPERATION_MAPPING a of
                      None \<Rightarrow> Inl (KeyError (py_repr a)) | Some operation \<Rightarrow> Inr operation)
      | CList vs \<Rightarrow> Inl (TypeError ''unhashable type'')
      | CDict d \<Rightarrow> Inl (TypeError ''unhashable type'')
      | v \<Rightarrow> Inl (KeyError (ce_repr E v)))"

section \<open>Snapshots\<close>

definition item_loads :: "('ip, 't, 'k) client_env \<Rightarrow> string \<Rightarrow> cval generated" where
  "item_loads E data = jsonseq_decode (ce_loads E) (chunked_iterable data CHUNK_SIZE)"

text \<open>The first item of a generator, which is the header, and the rest.\<close>

definition next_item :: "'a generated \<Rightarrow> ('a \<times> 'a generated) res" where
  "next_item g =
     (case g of
        (x # xs, e) \<Rightarrow> Inr (x, xs, e)
      | ([], Some e) \<Rightarrow> Inl e
      | ([], None) \<Rightarrow> Inl StopIteration)"

definition header_values :: "nrtm4_run \<Rightarrow> unf \<Rightarrow> int \<Rightarrow> expected_values" where
  "header_values c u version =
     \<lparr>ex_source = run_source c, ex_session_id = Some (nc_session_id u), ex_version = Some version\<rparr>"

text \<open>The counters of the importer are only logged.\<close>

definition load_snapshot_item :: "('ip, 't, 'k) client_env \<Rightarrow> ('ip, 't) importer \<Rightarrow> cval \<Rightarrow> 'ip handler \<Rightarrow> 'ip handler res" where
  "load_snapshot_item E P item h =
     rbind (item_get item ''object'') (\<lambda>v.
     rbind (item_text v) (\<lambda>t.
       case parse_object (ce_lib E) (ce_trie E) (ce_settings E) P t import_init of
         (Inl e, st) \<Rightarrow> Inl e
       | (Inr (Inl m), st) \<Rightarrow> apply_calls E (calls st) h
       | (Inr (Inr None), st) \<Rightarrow> apply_calls E (calls st) h
       | (Inr (Inr (Some obj)), st) \<Rightarrow> apply_calls E (calls st @ [UpsertObject obj origin_mirror None]) h))"

fun load_items :: "(cval \<Rightarrow> 'ip handler \<Rightarrow> 'ip handler res) \<Rightarrow> cval list \<Rightarrow> exn option \<Rightarrow> 'ip handler \<Rightarrow> 'ip handler res" where
  "load_items f [] None h = Inr h"
| "load_items f [] (Some e) h = Inl e"
| "load_items f (item # items) e h = rbind (f item h) (load_items f items e)"

definition bulk_roa_validator :: "('ip, 't, 'k) client_env \<Rightarrow> 'ip handler \<Rightarrow> ('t bulk_validator \<times> 'ip handler) res" where
  "bulk_roa_validator E h =
     rbind (flush_for_query E h) (\<lambda>h1.
     rbind (bulk_validator_init (ce_lib E) (ce_settings E) (ce_trie E) None
              (map (\<lambda>r. \<lparr>row_prefix = ro_prefix r, row_asn = ro_asn r, row_max_length = ro_max_length r\<rparr>) (t_roas (cur h1)))) (\<lambda>V.
       Inr (V, h1)))"

definition load_snapshot :: "('ip, 't, 'k) client_env \<Rightarrow> nrtm4_run \<Rightarrow> unf \<Rightarrow> 'ip handler \<Rightarrow> 'ip handler res" where
  "load_snapshot E c u h =
     rbind (full_url (ce_lib E) (notification_url E c) (unf_snapshot u)) (\<lambda>url.
     rbind (retrieve_file (ce_net E) (ce_lib E) (ce_settings E) url False (Some (fr_hash (unf_snapshot u)))) (\<lambda>(data, _).
     rbind (next_item (item_loads E data)) (\<lambda>(header, items, e).
     rbind (raise_invalid (NRTM4SnapshotHeader (ce_pydantic E) (header_values c u (fr_version (unf_snapshot u))) header)) (\<lambda>_.
     rbind (if run_rpki_aware c
            then rbind (bulk_roa_validator E h) (\<lambda>(V, h1). Inr (Some V, h1)) else Inr (None, h)) (\<lambda>(V, h1).
     rbind (delete_all_rpsl_objects_with_journal (ce_settings E) (ce_now E) (run_source c) False h1) (\<lambda>h2.
     rbind (MirrorFileImportParserBase (ce_lib E) (ce_settings E) (run_source c) False V) (\<lambda>P.
     rbind (load_items (load_snapshot_item E P) items e (disable_journaling h2)) (\<lambda>h3.
       Inr (enable_journaling h3)))))))))"

section \<open>Deltas\<close>

definition delta_operation :: "('ip, 't, 'k) client_env \<Rightarrow> nrtm4_run \<Rightarrow> nrtm4_common \<Rightarrow> string list option \<Rightarrow> cval
    \<Rightarrow> nrtm_operation res" where
  "delta_operation E c header class_filter item =
     rbind (rbind (item_get item ''action'') (item_operation E)) (\<lambda>operation.
       case operation of
         add_or_update \<Rightarrow>
           rbind (rbind (item_get item ''object'') object_text_item) (\<lambda>t.
             NRTMOperation (run_source c) operation None (Some (delta_origin_identifier header)) t None None False
               (run_rpki_aware c) class_filter)
       | op_delete \<Rightarrow>
           rbind (rbind (item_get item ''primary_key'') item_text) (\<lambda>rpsl_pk.
           rbind (rbind (item_get item ''object_class'') item_text) (\<lambda>cls.
             NRTMOperation (run_source c) operation None (Some (delta_origin_identifier header)) None
               (Some (py_upper rpsl_pk)) (Some (py_lower cls)) False (run_rpki_aware c) class_filter)))"

text \<open>The text of a \<open>KeyError\<close> is the representation of its key, which the items above raise it with.\<close>

definition shown_key :: "'a res \<Rightarrow> 'a res" where
  "shown_key r = (case r of Inl (KeyError k) \<Rightarrow> Inl (KeyError (py_repr k)) | _ \<Rightarrow> r)"

definition process_delta_item :: "('ip, 't, 'k) client_env \<Rightarrow> nrtm4_run \<Rightarrow> nrtm4_common \<Rightarrow> string list option \<Rightarrow> cval
    \<Rightarrow> 'ip handler \<Rightarrow> 'ip handler res" where
  "process_delta_item E c header class_filter item h =
     (case rbind (delta_operation E c header class_filter item) (\<lambda>nop. shown_key (save_operation E nop h)) of
        Inl (KeyError ke) \<Rightarrow>
          Inl (NRTM4ClientError (''Delta file '' @ run_source c @ ''/'' @ nc_session_id header @ ''/''
             @ str_int (nc_version header) @ '' contained invalid entry: '' @ ke @ '': '' @ ce_repr E item))
      | r \<Rightarrow> r)"

definition load_delta :: "('ip, 't, 'k) client_env \<Rightarrow> nrtm4_run \<Rightarrow> unf \<Rightarrow> string list option \<Rightarrow> file_reference
    \<Rightarrow> 'ip handler \<Rightarrow> 'ip handler res" where
  "load_delta E c u class_filter d h =
     rbind (full_url (ce_lib E) (notification_url E c) d) (\<lambda>url.
     rbind (retrieve_file (ce_net E) (ce_lib E) (ce_settings E) url False (Some (fr_hash d))) (\<lambda>(data, _).
     rbind (next_item (item_loads E data)) (\<lambda>(header_item, items, e).
     rbind (raise_invalid (NRTM4DeltaHeader (ce_pydantic E) (header_values c u (fr_version d)) header_item)) (\<lambda>header.
     rbind (load_items (process_delta_item E c header class_filter) items e h) (\<lambda>h1.
       if items = []
       then Inl (NRTM4ClientError (''Delta file '' @ run_source c @ ''/'' @ nc_session_id u @ ''/'' @ str_int (fr_version d)
              @ '' did not contain any entries.''))
       else Inr h1)))))"

fun load_delta_files :: "(file_reference \<Rightarrow> 'ip handler \<Rightarrow> 'ip handler res) \<Rightarrow> int \<Rightarrow> file_reference list
    \<Rightarrow> 'ip handler \<Rightarrow> 'ip handler res" where
  "load_delta_files f next_version [] h = Inr h"
| "load_delta_files f next_version (d # ds) h =
     (if fr_version d < next_version then load_delta_files f next_version ds h
      else rbind (f d h) (load_delta_files f next_version ds))"

definition load_deltas :: "('ip, 't, 'k) client_env \<Rightarrow> nrtm4_run \<Rightarrow> unf \<Rightarrow> int \<Rightarrow> 'ip handler \<Rightarrow> 'ip handler res" where
  "load_deltas E c u next_version h =
     rbind (get_object_class_filter_for_source (ce_settings E) (run_source c)) (\<lambda>class_filter.
       load_delta_files (load_delta E c u class_filter) next_version (unf_deltas u) h)"

section \<open>A run\<close>

text \<open>
  Loading without or after a snapshot. Comparing no next version with a number raises; it can only happen
  after a snapshot that is older than the deltas.
\<close>

definition load_pending :: "('ip, 't, 'k) client_env \<Rightarrow> nrtm4_run \<Rightarrow> unf \<Rightarrow> int option \<Rightarrow> 'ip handler \<Rightarrow> 'ip handler res" where
  "load_pending E c u next_version h =
     (case (max_delta_version u, next_version) of
        (None, _) \<Rightarrow> Inr h
      | (Some m, None) \<Rightarrow> Inl (TypeError ''not supported between instances of NoneType and int'')
      | (Some m, Some n) \<Rightarrow> if n \<le> m then load_deltas E c u n h else Inr h)"

definition new_client_status :: "unf \<Rightarrow> string \<Rightarrow> bool \<Rightarrow> (string, string list) dict \<Rightarrow> nrtm4_client_status" where
  "new_client_status u used_key deferred files =
     \<lparr>cl_session_id = Some (nc_session_id u),
      cl_version = Some (if deferred then fr_version (unf_snapshot u) else nc_version u),
      cl_current_key = Some used_key, cl_next_key = next_signing_key u, cl_previous_file_hashes = Some files\<rparr>"

definition load_update :: "('ip, 't, 'k) client_env \<Rightarrow> nrtm4_run \<Rightarrow> bool \<Rightarrow> unf \<Rightarrow> 'ip handler
    \<Rightarrow> (bool \<times> bool \<times> 'ip handler) res" where
  "load_update E c force_load_delta u h =
     rbind (find_next_version c u None) (\<lambda>next_version.
     rbind (if next_version = None
            then rbind (load_snapshot E c u h) (\<lambda>h1.
                 rbind (find_next_version c u (Some (fr_version (unf_snapshot u)))) (\<lambda>n. Inr (True, n, h1)))
            else Inr (False, next_version, h)) (\<lambda>(has_loaded_snapshot, n, h1).
       (let deferred = (has_loaded_snapshot \<and> \<not> force_load_delta)
        in if deferred then Inr (has_loaded_snapshot, deferred, h1)
           else rbind (load_pending E c u n h1) (\<lambda>h2. Inr (has_loaded_snapshot, deferred, h2)))))"

definition inner_run_client :: "('ip, 't, 'k) client_env \<Rightarrow> nrtm4_run \<Rightarrow> bool \<Rightarrow> 'ip handler \<Rightarrow> (bool \<times> 'ip handler) res" where
  "inner_run_client E c force_load_delta h =
     rbind (retrieve_unf E c) (\<lambda>(u, used_key).
     rbind (load_update E c force_load_delta u h) (\<lambda>(has_loaded_snapshot, deferred, h1).
     rbind (validate_aggregate_previous_file_hashes c u) (\<lambda>files.
     rbind (record_nrtm4_client_status (run_source c) (new_client_status u used_key deferred files) h1) (\<lambda>h2.
       Inr (has_loaded_snapshot, h2)))))"

definition run_client :: "('ip, 't, 'k) client_env \<Rightarrow> nrtm4_run \<Rightarrow> bool \<Rightarrow> 'ip handler \<Rightarrow> (bool \<times> 'ip handler) res" where
  "run_client E c force_load_delta h = as_client_error (inner_run_client E c force_load_delta h)"

end
