(* ===== verification/NRTM4_Client_Facts.thy ===== *)
theory NRTM4_Client_Facts
  imports NRTM4_Client
begin

text \<open>
  What a run of the NRTM version 4 client does: it trusts only the configured key and keys that were
  announced under a trusted key, loads the deltas after its version in order, and accepts no file that
  was published with other contents before.
\<close>

section \<open>The parts of a successful run\<close>

lemma raise_invalid_Inr [simp]: "raise_invalid v = Inr x \<longleftrightarrow> v = Valid x"
  by (cases v) (simp_all add: raise_invalid_def)

lemma as_client_error_Inr [simp]: "as_client_error r = Inr x \<longleftrightarrow> r = Inr x"
  by (auto simp: as_client_error_def split: sum.splits option.splits)

lemma model_validate_json_Valid:
  "model_validate_json PX f payload = Valid x \<longleftrightarrow> (\<exists>v. px_json PX payload = Inr v \<and> f v = Valid x)"
  by (auto simp: model_validate_json_def split: sum.splits)

lemma inner_run_clientE:
  assumes "inner_run_client E c force h = Inr (reloaded, h')"
  obtains u key deferred h1 files where "retrieve_unf E c = Inr (u, key)"
    "load_update E c force u h = Inr (reloaded, deferred, h1)"
    "validate_aggregate_previous_file_hashes c u = Inr files"
    "record_nrtm4_client_status (run_source c) (new_client_status u key deferred files) h1 = Inr h'"
  using assms by (auto simp: inner_run_client_def rbind_Inr_conv split: prod.splits)

lemma recorded_client_status:
  assumes "record_nrtm4_client_status src status h = Inr h'"
  shows "h' = on_tracker (\<lambda>t. (see_source src t)\<lparr>nrtm4_client_updates := dict_set src status (nrtm4_client_updates t)\<rparr>) h"
  using assms by (auto simp: record_nrtm4_client_status_def rbind_Inr_conv check_write_permitted_def split: if_splits)

section \<open>Keys\<close>

definition verifies :: "'k ec_lib \<Rightarrow> string \<Rightarrow> string \<Rightarrow> string \<Rightarrow> bool" where
  "verifies EC k content payload \<longleftrightarrow>
     (\<exists>pubkey. eckey_from_str EC (CStr k) False = Inr pubkey \<and> jws_deserialize EC content pubkey = Inr payload)"

lemma try_keys_verified:
  "try_keys EC content ks errs = Inr (Inr (payload, k)) \<Longrightarrow> Some k \<in> set ks \<and> k \<noteq> [] \<and> verifies EC k content payload"
proof (induction EC content ks errs rule: try_keys.induct)
  case (3 EC content k' ks errs)
  show ?case
  proof (cases "k' = []")
    case False
    with "3.prems" obtain pubkey where p: "eckey_from_str EC (CStr k') False = Inr pubkey"
      by (auto simp: rbind_Inr_conv)
    show ?thesis
    proof (cases "jws_deserialize EC content pubkey")
      case (Inl e)
      with p False "3.prems" obtain m where m: "value_error e = Some m"
          "try_keys EC content ks (dict_set k' m errs) = Inr (Inr (payload, k))" by (auto split: option.splits)
      with "3.IH"(2) [OF False p Inl m] show ?thesis by simp
    next
      case (Inr payload')
      with p False "3.prems" show ?thesis by (auto simp: verifies_def)
    qed
  qed (use "3.IH"(1) "3.prems" in simp)
qed auto

text \<open>
  A key is trusted when it is the configured one, or when a file that a trusted key verifies announces it.
  Such a file is accepted by the rules of the notification file, at some time.
\<close>

inductive trusted_key :: "'k ec_lib \<Rightarrow> pydantic \<Rightarrow> string option \<Rightarrow> string \<Rightarrow> string \<Rightarrow> bool" for EC PX initial_key src where
  configured: "initial_key = Some k \<Longrightarrow> trusted_key EC PX initial_key src k"
| announced: "trusted_key EC PX initial_key src k \<Longrightarrow> verifies EC k content payload \<Longrightarrow>
    model_validate_json PX (NRTM4UpdateNotificationFile PX EC now
      (Some \<lparr>ex_source = src, ex_session_id = None, ex_version = None\<rparr>)) payload = Valid u \<Longrightarrow>
    next_signing_key u = Some k' \<Longrightarrow> trusted_key EC PX initial_key src k'"

definition trusted_status :: "'k ec_lib \<Rightarrow> pydantic \<Rightarrow> string option \<Rightarrow> string \<Rightarrow> nrtm4_client_status \<Rightarrow> bool" where
  "trusted_status EC PX initial_key src status \<longleftrightarrow>
     (\<forall>k. k \<noteq> [] \<longrightarrow> cl_current_key status = Some k \<or> str_truthy (cl_current_key status) \<and> cl_next_key status = Some k \<longrightarrow>
        trusted_key EC PX initial_key src k)"

lemma retrieve_unfE:
  assumes "retrieve_unf E c = Inr (u, k)"
  obtains content payload where
    "Some k \<in> set (known_keys (ce_settings E) (run_source c) (run_last_status c))" "k \<noteq> []"
    "verifies (ce_ec E) k content payload"
    "model_validate_json (ce_pydantic E) (NRTM4UpdateNotificationFile (ce_pydantic E) (ce_ec E) (ce_now E)
       (Some \<lparr>ex_source = run_source c, ex_session_id = None, ex_version = None\<rparr>)) payload = Valid u"
proof -
  from assms obtain signed payload where
    d: "deserialize_unf E c signed = Inr (payload, k)" and
    u: "model_validate_json (ce_pydantic E) (NRTM4UpdateNotificationFile (ce_pydantic E) (ce_ec E) (ce_now E)
       (Some \<lparr>ex_source = run_source c, ex_session_id = None, ex_version = None\<rparr>)) payload = Valid u"
    by (auto simp: retrieve_unf_def rbind_Inr_conv split: if_splits prod.splits)
  from d have "try_keys (ce_ec E) (utf8_encode signed)
      (known_keys (ce_settings E) (run_source c) (run_last_status c)) [] = Inr (Inr (payload, k))"
    by (auto simp: deserialize_unf_def Let_def rbind_Inr_conv split: if_splits)
      (auto split: sum.splits simp: rbind_Inr_conv split: if_splits)
  from try_keys_verified [OF this] u that show ?thesis by blast
qed

lemma retrieved_key_trusted:
  assumes "retrieve_unf E c = Inr (u, k)"
    and "trusted_status (ce_ec E) (ce_pydantic E) (initial_public_key (ce_settings E) (run_source c)) (run_source c) (run_last_status c)"
  shows "trusted_status (ce_ec E) (ce_pydantic E) (initial_public_key (ce_settings E) (run_source c)) (run_source c)
           (new_client_status u k deferred files)"
proof -
  obtain content payload where k: "Some k \<in> set (known_keys (ce_settings E) (run_source c) (run_last_status c))" "k \<noteq> []"
    and v: "verifies (ce_ec E) k content payload"
    and u: "model_validate_json (ce_pydantic E) (NRTM4UpdateNotificationFile (ce_pydantic E) (ce_ec E) (ce_now E)
       (Some \<lparr>ex_source = run_source c, ex_session_id = None, ex_version = None\<rparr>)) payload = Valid u"
    by (rule retrieve_unfE [OF assms(1)])
  have t: "trusted_key (ce_ec E) (ce_pydantic E) (initial_public_key (ce_settings E) (run_source c)) (run_source c) k"
    using k assms(2) by (auto simp: known_keys_def trusted_status_def split: if_splits intro: trusted_key.configured)
  show ?thesis using t trusted_key.announced [OF t v u]
    by (auto simp: trusted_status_def new_client_status_def)
qed

section \<open>Files\<close>

lemma check_history_kept:
  "check_history src previous files = Inr () \<Longrightarrow> (r, details) \<in> set files \<Longrightarrow> dict_get previous r \<in> {None, Some details}"
  by (induction files) (auto split: option.splits if_splits)

text \<open>A file that was retrieved: with the hash of its reference, unpacked when it has to be, and not empty.\<close>

definition referenced_items :: "('ip, 't, 'k) client_env \<Rightarrow> file_reference \<Rightarrow> cval generated \<Rightarrow> bool" where
  "referenced_items E d items \<longleftrightarrow>
     (\<exists>content data. (fr_hash d = [] \<or> bytes_fromhex (sha256_hex (ce_net E) content) = bytes_fromhex (fr_hash d))
        \<and> (fr_hash d = [] \<or> data = content \<or> gzip_open (ce_net E) content = Inr data) \<and> items = item_loads E data)"

lemma next_item_Inr: "next_item g = Inr (x, xs, e) \<longleftrightarrow> g = (x # xs, e)"
  by (auto simp: next_item_def split: prod.splits list.splits option.splits)

lemma load_items_Inr: "load_items f items e h = Inr h' \<Longrightarrow> e = None"
  by (induction f items e h rule: load_items.induct) (auto simp: rbind_Inr_conv)

lemma validated_header:
  assumes "header_model file_type PX (header_values c u version) v = Valid m"
  shows "nc_source m = run_source c \<and> nc_session_id m = nc_session_id u \<and> nc_version m = version"
  using assms
  by (auto simp: header_model_def model_of_def vbind_Valid validator_result_Valid validate_expected_values_def header_values_def
      mismatch_def split: cval.splits if_splits)

text \<open>A delta that was loaded: its file has the hash and the header of its reference, and at least one entry.\<close>

definition loaded_delta :: "('ip, 't, 'k) client_env \<Rightarrow> nrtm4_run \<Rightarrow> unf \<Rightarrow> string list option \<Rightarrow> file_reference
    \<Rightarrow> 'ip handler \<Rightarrow> 'ip handler \<Rightarrow> bool" where
  "loaded_delta E c u class_filter d h h' \<longleftrightarrow>
     (\<exists>header_item header items. referenced_items E d (header_item # items, None) \<and> items \<noteq> []
        \<and> NRTM4DeltaHeader (ce_pydantic E) (header_values c u (fr_version d)) header_item = Valid header
        \<and> nc_source header = run_source c \<and> nc_session_id header = nc_session_id u \<and> nc_version header = fr_version d
        \<and> load_items (process_delta_item E c header class_filter) items None h = Inr h')"

lemma load_delta_loaded:
  assumes "load_delta E c u class_filter d h = Inr h'"
  shows "loaded_delta E c u class_filter d h h'"
proof -
  from assms obtain url data unlink header_item items e header where
    r: "retrieve_file (ce_net E) (ce_lib E) (ce_settings E) url False (Some (fr_hash d)) = Inr (data, unlink)" and
    i: "item_loads E data = (header_item # items, e)" "items \<noteq> []" and
    v: "NRTM4DeltaHeader (ce_pydantic E) (header_values c u (fr_version d)) header_item = Valid header" and
    l: "load_items (process_delta_item E c header class_filter) items e h = Inr h'"
    by (auto simp: load_delta_def rbind_Inr_conv next_item_Inr split: prod.splits if_splits)
  have e: "e = None" by (rule load_items_Inr [OF l])
  have "referenced_items E d (header_item # items, None)"
    using retrieved_hash [OF r] i(1) [symmetric] e unfolding referenced_items_def by metis
  then show ?thesis
    using v l i(2) validated_header [OF v [unfolded NRTM4DeltaHeader_def]] unfolding loaded_delta_def e by blast
qed

section \<open>Versions\<close>

fun loads_deltas :: "(file_reference \<Rightarrow> 'ip handler \<Rightarrow> 'ip handler \<Rightarrow> bool) \<Rightarrow> file_reference list
    \<Rightarrow> 'ip handler \<Rightarrow> 'ip handler \<Rightarrow> bool" where
  "loads_deltas R [] h h' \<longleftrightarrow> h' = h"
| "loads_deltas R (d # ds) h h' \<longleftrightarrow> (\<exists>h1. R d h h1 \<and> loads_deltas R ds h1 h')"

lemma load_delta_files_filter:
  "load_delta_files (load_delta E c u class_filter) n ds h = Inr h' \<Longrightarrow>
   loads_deltas (loaded_delta E c u class_filter) (filter (\<lambda>d. n \<le> fr_version d) ds) h h'"
  by (induction ds arbitrary: h) (auto simp: rbind_Inr_conv dest: load_delta_loaded split: if_splits)

lemma retrieved_consistent:
  assumes "retrieve_unf E c = Inr (u, k)"
  shows "check_version_consistency u = Inr ()" "nc_source u = run_source c"
  using assms
  by (auto simp: retrieve_unf_def rbind_Inr_conv model_validate_json_Valid validate_expected_values_def mismatch_def
      dest!: unf_valid split: if_splits prod.splits)

lemma filter_map_versions: "map f (filter (\<lambda>d. n \<le> f d) ds) = filter (\<lambda>v. n \<le> v) (map f ds)"
  by (simp add: filter_map comp_def)

lemma filter_upto: "a \<le> n \<or> b < n \<Longrightarrow> filter (\<lambda>v. n \<le> v) [a..b] = [n..b]" for a b n :: int
proof (induction a b rule: upto.induct)
  case (1 a b)
  show ?case
  proof (cases "a \<le> b")
    case True
    with 1 show ?thesis
      by (cases "n \<le> a") (auto simp: upto_rec1 [of a b] upto_rec1 [of n b] filter_id_conv)
  qed (use 1 in auto)
qed

lemma pending_versions:
  assumes "check_version_consistency u = Inr ()" "\<And>m. min_delta_version u = Some m \<Longrightarrow> m \<le> n"
  shows "map fr_version (filter (\<lambda>d. n \<le> fr_version d) (unf_deltas u))
    = [n..(case max_delta_version u of None \<Rightarrow> n - 1 | Some m \<Rightarrow> m)]"
proof (cases "unf_deltas u = []")
  case False
  from consistent_versions(2) [OF assms(1) this]
  have "map fr_version (unf_deltas u) = [the (min_delta_version u)..the (max_delta_version u)]" .
  moreover from False obtain m where m: "min_delta_version u = Some m" by (cases "unf_deltas u") (auto simp: min_delta_version_def)
  moreover from False obtain m' where "max_delta_version u = Some m'" by (simp add: max_delta_version_def)
  ultimately show ?thesis using assms(2) [OF m] filter_upto [of m n m'] by (simp add: filter_map_versions)
qed (simp add: max_delta_version_def)

text \<open>A run that loads no snapshot, in terms of the status that it started from.\<close>

lemma load_updateE:
  assumes "load_update E c force u h = Inr (False, deferred, h1)" "check_version_consistency u = Inr ()"
  obtains v class_filter where "\<not> deferred" "cl_version (run_last_status c) = Some v" "v \<le> nc_version u"
    "cl_session_id (run_last_status c) = Some (nc_session_id u)"
    "map fr_version (filter (\<lambda>d. v < fr_version d) (unf_deltas u)) = [v + 1..(case max_delta_version u of None \<Rightarrow> v | Some m \<Rightarrow> m)]"
    "loads_deltas (loaded_delta E c u class_filter) (filter (\<lambda>d. v < fr_version d) (unf_deltas u)) h h1"
proof -
  from assms(1) obtain next_version where n: "find_next_version c u None = Inr (Some next_version)" and d: "\<not> deferred"
    and p: "load_pending E c u (Some next_version) h = Inr h1"
    by (auto simp: load_update_def rbind_Inr_conv Let_def split: if_splits option.splits prod.splits)
  from n obtain v where v: "cl_version (run_last_status c) = Some v" "next_version = v + 1" "v \<le> nc_version u"
      "cl_session_id (run_last_status c) = Some (nc_session_id u)"
      "\<And>m. min_delta_version u = Some m \<Longrightarrow> m \<le> v + 1"
    by (auto simp: find_next_version_def needs_snapshot_def next_version_after_def split: if_splits option.splits)
  have versions: "map fr_version (filter (\<lambda>d. v < fr_version d) (unf_deltas u))
      = [v + 1..(case max_delta_version u of None \<Rightarrow> v | Some m \<Rightarrow> m)]"
    using pending_versions [OF assms(2) v(5)] by (simp add: add1_zle_eq cong: option.case_cong)
  show ?thesis
  proof (cases "unf_deltas u = [] \<or> the (max_delta_version u) \<le> v")
    case True
    with p v(2) have "h1 = h" by (auto simp: load_pending_def max_delta_version_def split: if_splits)
    moreover from versions True have "filter (\<lambda>d. v < fr_version d) (unf_deltas u) = []"
      by (auto simp: max_delta_version_def split: if_splits)
    ultimately show ?thesis using that [OF d v(1,3,4) versions] by simp
  next
    case False
    with p v(2) have "load_deltas E c u (v + 1) h = Inr h1"
      by (auto simp: load_pending_def max_delta_version_def split: if_splits)
    then obtain cf where "load_delta_files (load_delta E c u cf) (v + 1) (unf_deltas u) h = Inr h1"
      by (auto simp: load_deltas_def rbind_Inr_conv)
    from load_delta_files_filter [OF this] show ?thesis using that [OF d v(1,3,4) versions] by (simp add: add1_zle_eq)
  qed
qed

end
