(* ===== verification/Status_Rows.thy ===== *)
theory Status_Rows
  imports NRTM4_Client
begin

text \<open>
  What the database handler does to the rows of the source status, for the two statuses of NRTM version 4
  that are written through the status tracker: nothing but a commit stores one, and it stores those that
  were recorded.
\<close>

section \<open>Calls that keep the status\<close>

text \<open>A call that leaves the status of sources alone, or drops rows.\<close>

definition status_kept :: "'ip handler \<Rightarrow> 'ip handler \<Rightarrow> bool" where
  "status_kept h h' \<longleftrightarrow> set (t_status (cur h')) \<subseteq> set (t_status (cur h)) \<and>
     nrtm4_client_updates (status_tracker h') = nrtm4_client_updates (status_tracker h) \<and>
     nrtm4_server_updates (status_tracker h') = nrtm4_server_updates (status_tracker h) \<and> committed h' = committed h"

lemma status_kept_refl [simp]: "status_kept h h"
  by (simp add: status_kept_def)

lemma status_kept_trans: "status_kept h h' \<Longrightarrow> status_kept h' h'' \<Longrightarrow> status_kept h h''"
  by (auto simp: status_kept_def)

lemma status_keptI:
  "t_status (cur h') = t_status (cur h) \<Longrightarrow> nrtm4_client_updates (status_tracker h') = nrtm4_client_updates (status_tracker h) \<Longrightarrow>
   nrtm4_server_updates (status_tracker h') = nrtm4_server_updates (status_tracker h) \<Longrightarrow> committed h' = committed h \<Longrightarrow>
   status_kept h h'"
  by (simp add: status_kept_def)

lemma rbind_InrE: "rbind r f = Inr y \<Longrightarrow> (\<And>x. r = Inr x \<Longrightarrow> f x = Inr y \<Longrightarrow> P) \<Longrightarrow> P"
  by (cases r) auto

lemma rbind_pairE: "rbind r (\<lambda>(a, b). f a b) = Inr y \<Longrightarrow> (\<And>a b. r = Inr (a, b) \<Longrightarrow> f a b = Inr y \<Longrightarrow> P) \<Longrightarrow> P"
  by (cases r) auto

lemma rbind_tripleE:
  "rbind r (\<lambda>(a, b, c). f a b c) = Inr y \<Longrightarrow> (\<And>a b c. r = Inr (a, b, c) \<Longrightarrow> f a b c = Inr y \<Longrightarrow> P) \<Longrightarrow> P"
  by (cases r) auto

lemma write_permittedE: "check_write_permitted h = Inr h1 \<Longrightarrow> h1 = h"
  by (simp add: check_write_permitted_def split: if_splits)

lemma synchronised_kept: "tracker_is_serial_synchronised gs src h = (b, h') \<Longrightarrow> status_kept h h'"
  by (auto simp: tracker_is_serial_synchronised_def on_tracker_def Let_def split: option.splits intro!: status_keptI)

lemma operation_serial_kept: "operation_serial gs src serial h = (n, h') \<Longrightarrow> status_kept h h'"
  by (auto simp: operation_serial_def dest!: synchronised_kept split: prod.splits bool.splits)

lemma insert_journal_kept: "insert_journal e h = Inr h' \<Longrightarrow> status_kept h h'"
  by (auto simp: insert_journal_def on_tables_def split: if_splits intro!: status_keptI)

lemma tracker_kept:
  "nrtm4_client_updates (f (status_tracker h)) = nrtm4_client_updates (status_tracker h) \<Longrightarrow>
   nrtm4_server_updates (f (status_tracker h)) = nrtm4_server_updates (status_tracker h) \<Longrightarrow> status_kept h (on_tracker f h)"
  by (auto simp: on_tracker_def intro!: status_keptI)

lemma record_operation_kept:
  assumes "record_operation gs now operation rpsl_pk src cls txt' orig serial h = Inr h'"
  shows "status_kept h h'"
proof -
  let ?h = "on_tracker (\<lambda>t. t\<lparr>sources_seen := List.insert src (sources_seen t),
      sources_rpsl_data_updated := List.insert src (sources_rpsl_data_updated t)\<rparr>) h"
  have s: "status_kept h ?h" by (rule tracker_kept) simp_all
  show ?thesis
  proof (cases "journaling_enabled (status_tracker ?h) \<and> truthy (source_setting gs src ''keep_journal'')")
    case False
    from assms s show ?thesis unfolding record_operation_def Let_def if_not_P [OF False] by simp
  next
    case True
    let ?h1 = "on_tracker (\<lambda>t. t\<lparr>journal_table_locked := True\<rparr>) ?h"
    have s1: "status_kept h ?h1" by (rule status_kept_trans [OF s]) (rule tracker_kept, simp_all)
    obtain n h2 where o: "operation_serial gs src serial ?h1 = (n, h2)" by fastforce
    from assms True o obtain m e h3 where n: "n = Some m"
      and j: "insert_journal e (h2\<lparr>next_global := next_global h2 + 1\<rparr>) = Inr h3" and h': "h' = on_tracker (add_new_serial src m) h3"
      by (auto simp: record_operation_def Let_def rbind_Inr_conv split: option.splits)
    have "status_kept h2 (h2\<lparr>next_global := next_global h2 + 1\<rparr>)" by (rule status_keptI) simp_all
    moreover have "status_kept h3 h'" unfolding h' by (rule tracker_kept) (simp_all add: add_new_serial_def)
    ultimately show ?thesis
      using s1 operation_serial_kept [OF o] insert_journal_kept [OF j] by (blast intro: status_kept_trans)
  qed
qed

lemma upsert_row_kept: "status_kept h (upsert_row now cols created h)"
  by (auto simp: upsert_row_def Let_def on_tables_def intro!: status_keptI)

lemma upsert_rows_kept: "status_kept h (fold (\<lambda>b. upsert_row now (fst b) (fst (snd b))) bs h)"
  by (induction bs arbitrary: h) (auto intro: status_kept_trans upsert_row_kept)

lemma journal_buffer_kept: "journal_buffer gs now bs h = Inr h' \<Longrightarrow> status_kept h h'"
proof (induction gs now bs h rule: journal_buffer.induct)
  case (2 gs now cols created orig serial bs h)
  then show ?case
    by (auto simp: rbind_Inr_conv split: if_splits) (blast intro: status_kept_trans record_operation_kept)
qed simp

lemma flush_kept:
  assumes "flush_rpsl_object_writing_buffer gs now h = Inr h'"
  shows "status_kept h h'"
proof (cases "rpsl_upsert_buffer h = []")
  case True
  then show ?thesis using assms by (simp add: flush_rpsl_object_writing_buffer_def)
next
  case False
  with assms obtain h1 h2 where i: "insert_buffer now h = Inr h1" and j: "journal_buffer gs now (rpsl_upsert_buffer h1) h1 = Inr h2"
    and h': "h' = h2\<lparr>rpsl_pk_source_seen := [], rpsl_upsert_buffer := []\<rparr>"
    by (auto simp: flush_rpsl_object_writing_buffer_def rbind_Inr_conv dest!: write_permittedE)
  from i have "status_kept h h1" by (auto simp: insert_buffer_def upsert_rows_kept split: if_splits)
  moreover have "status_kept h2 h'" unfolding h' by (rule status_keptI) simp_all
  ultimately show ?thesis using journal_buffer_kept [OF j] by (blast intro: status_kept_trans)
qed

lemma object_modified_kept: "status_kept h (object_modified cls src p orig h)"
  by (auto simp: object_modified_def Let_def split: option.splits intro!: status_keptI)


lemma buffer_object_kept:
  assumes "buffer_object gs now cols p orig serial created h = Inr h'"
  shows "status_kept h h'"
proof -
  obtain h1 where f: "(if pk_source_text cols \<in> set (rpsl_pk_source_seen h) then flush_rpsl_object_writing_buffer gs now h else Inr h) = Inr h1"
    using assms by (auto simp: buffer_object_def rbind_Inr_conv simp del: if_split)
  let ?h2 = "object_modified (c_class cols) (c_source cols) (map_option Inl p) None
        (h1\<lparr>rpsl_upsert_buffer := rpsl_upsert_buffer h1 @ [(cols, created, orig, serial)],
            rpsl_pk_source_seen := List.insert (pk_source_text cols) (rpsl_pk_source_seen h1)\<rparr>)"
  have b: "(if MAX_RECORDS_BUFFER_BEFORE_INSERT < int (length (rpsl_upsert_buffer ?h2))
      then flush_rpsl_object_writing_buffer gs now ?h2 else Inr ?h2) = Inr h'"
    using assms unfolding buffer_object_def f Let_def by simp
  have h1: "status_kept h h1" using f by (auto split: if_splits dest: flush_kept)
  have "status_kept h1 ?h2"
    by (rule status_kept_trans [OF _ object_modified_kept]) (rule status_keptI, simp_all)
  moreover have "status_kept ?h2 h'" using b by (auto split: if_splits dest: flush_kept)
  ultimately show ?thesis using h1 by (blast intro: status_kept_trans)
qed

lemma upsert_kept: "upsert_rpsl_object L gs isoformat now co orig ne serial created h = Inr h' \<Longrightarrow> status_kept h h'"
  by (auto simp: upsert_rpsl_object_def rbind_Inr_conv split: if_splits dest!: write_permittedE buffer_object_kept)
    (auto simp: status_kept_def)

lemma delete_matching_kept:
  assumes "delete_matching gs now orig matches ident serial protect h = Inr h'"
  shows "status_kept h h'"
proof -
  from assms obtain found where f: "(case found of None \<Rightarrow> Inr h | Some r \<Rightarrow>
      rbind (record_operation gs now op_delete (c_rpsl_pk r) (c_source r) (c_class r) (c_text r) orig serial
               (on_tables (\<lambda>T. T\<lparr>t_objects := filter (\<lambda>r. \<not> matches r) (t_objects T)\<rparr>) h)) (\<lambda>h1.
        Inr (if protect then on_tables (protect_name r) (object_modified_dict r orig h1) else object_modified_dict r orig h1))) = Inr h'"
    by (auto simp: delete_matching_def rbind_Inr_conv)
  show ?thesis
  proof (cases found)
    case None
    with f show ?thesis by simp
  next
    case (Some r)
    let ?h = "on_tables (\<lambda>T. T\<lparr>t_objects := filter (\<lambda>r. \<not> matches r) (t_objects T)\<rparr>) h"
    from f Some obtain h1 where r: "record_operation gs now op_delete (c_rpsl_pk r) (c_source r) (c_class r) (c_text r) orig serial ?h = Inr h1"
      and h': "h' = (if protect then on_tables (protect_name r) (object_modified_dict r orig h1) else object_modified_dict r orig h1)"
      by (auto simp: rbind_Inr_conv)
    have "status_kept h ?h" by (rule status_keptI) (simp_all add: on_tables_def)
    moreover have m: "status_kept h1 (object_modified_dict r orig h1)" by (simp add: object_modified_dict_def object_modified_kept)
    then have "status_kept h1 h'"
      unfolding h' by (auto intro!: status_kept_trans [OF m] status_keptI simp: on_tables_def protect_name_def)
    ultimately show ?thesis using record_operation_kept [OF r] by (blast intro: status_kept_trans)
  qed
qed

lemma delete_kept:
  assumes "delete_rpsl_object gs now orig obj src_opt pk_opt cls_opt serial protect h = Inr h'"
  shows "status_kept h h'"
proof -
  from assms obtain h1 where f: "flush_rpsl_object_writing_buffer gs now h = Inr h1"
    by (auto simp: delete_rpsl_object_def rbind_Inr_conv dest!: write_permittedE)
  have "status_kept h1 h'" using assms f
    by (auto simp: delete_rpsl_object_def rbind_Inr_conv Let_def dest!: write_permittedE delete_matching_kept split: if_splits)
  then show ?thesis using flush_kept [OF f] by (blast intro: status_kept_trans)
qed

lemma delete_all_kept:
  assumes "delete_all_rpsl_objects_with_journal gs now src b h = Inr h'"
  shows "status_kept h h'"
proof -
  from assms obtain h1 where f: "flush_rpsl_object_writing_buffer gs now h = Inr h1"
    by (auto simp: delete_all_rpsl_objects_with_journal_def rbind_Inr_conv dest!: write_permittedE)
  have "status_kept h1 h'" using assms f
    by (auto simp: delete_all_rpsl_objects_with_journal_def rbind_Inr_conv status_kept_def all_object_classes_updated_def on_tables_def dest!: write_permittedE)
  then show ?thesis by (rule status_kept_trans [OF flush_kept [OF f]])
qed

lemma recorder_kept:
  "record_mirror_error src m h = Inr h' \<Longrightarrow> status_kept h h'"
  "record_serial_seen src n h = Inr h' \<Longrightarrow> status_kept h h'"
  "record_serial_newest_mirror src n h = Inr h' \<Longrightarrow> status_kept h h'"
  by (auto simp: record_mirror_error_def record_serial_seen_def record_serial_newest_mirror_def rbind_Inr_conv see_source_def
      add_new_serial_def dest!: write_permittedE intro!: tracker_kept)

lemma apply_call_kept: "apply_call E c h = Inr h' \<Longrightarrow> status_kept h h'"
  by (cases c) (auto dest: upsert_kept delete_kept recorder_kept)

lemma apply_calls_kept: "apply_calls E cs h = Inr h' \<Longrightarrow> status_kept h h'"
  by (induction cs arbitrary: h) (auto simp: rbind_Inr_conv dest!: apply_call_kept, blast intro: status_kept_trans)

lemma flush_for_query_kept: "flush_for_query E h = Inr h' \<Longrightarrow> status_kept h h'"
  by (auto simp: flush_for_query_def split: if_splits dest: flush_kept)

lemma save_operation_kept: "save_operation E nop h = Inr h' \<Longrightarrow> status_kept h h'"
  by (auto simp: save_operation_def rbind_Inr_conv split: prod.splits sum.splits if_splits
      dest!: apply_calls_kept flush_for_query_kept intro: status_kept_trans)

section \<open>Calls of a commit\<close>

lemma journal_pref_kept: "journal_pref_changes gs now operation rs h = Inr h' \<Longrightarrow> status_kept h h'"
proof (induction gs now operation rs h rule: journal_pref_changes.induct)
  case (2 gs now operation r rs h)
  then obtain h1 where h1: "(if object_is_visible (c_rpki r) (c_scope r) pref_visible
      then rbind (record_operation_from_rpsl_dict gs now operation r origin_route_preference h) (\<lambda>h1.
             Inr (object_modified_dict r origin_route_preference h1)) else Inr h) = Inr h1"
    and t: "journal_pref_changes gs now operation rs h1 = Inr h'" by (auto simp: rbind_Inr_conv simp del: if_split)
  have "status_kept h h1" using h1
    by (auto simp: rbind_Inr_conv record_operation_from_rpsl_dict_def object_modified_dict_def split: if_splits
        intro: status_kept_trans [OF record_operation_kept object_modified_kept])
  from status_kept_trans [OF this 2(1) [OF h1 t]] show ?case .
qed simp

lemma set_pref_chunks_status: "t_status (set_pref_chunks rows status T) = t_status T"
proof -
  have "t_status (fold (\<lambda>chunk. set_pref_status (map row_pk chunk) status) cs T) = t_status T" for cs
    by (induction cs arbitrary: T) (simp_all add: set_pref_status_def)
  then show ?thesis by (simp add: set_pref_chunks_def)
qed

lemma update_pref_kept:
  assumes "update_route_preference_status gs now vis supp h = Inr h'"
  shows "status_kept h h'"
proof -
  from assms obtain h1 h2 where j: "journal_pref_changes gs now add_or_update vis h = Inr h1"
      "journal_pref_changes gs now op_delete supp h1 = Inr h2"
    and h': "h' = on_tables (\<lambda>T. set_pref_chunks supp pref_suppressed (set_pref_chunks vis pref_visible T)) h2"
    by (auto simp: update_route_preference_status_def rbind_Inr_conv dest!: write_permittedE)
  have "status_kept h2 h'" unfolding h' by (rule status_keptI) (simp_all add: on_tables_def set_pref_chunks_status)
  with journal_pref_kept [OF j(1)] journal_pref_kept [OF j(2)] show ?thesis by (blast intro: status_kept_trans)
qed

lemma pre_commit_kept: "pre_commit R L overlaps gs now h = Inr h' \<Longrightarrow> status_kept h h'"
  by (auto simp: pre_commit_def Let_def rbind_Inr_conv split: if_splits option.splits dest: update_pref_kept)

text \<open>The parts of a commit that succeeds.\<close>

lemma commit_NoneE:
  assumes "commit R L overlaps gs now h = (h', None)"
  obtains h1 h2 h5 where "flush_rpsl_object_writing_buffer gs now h = Inr h1" "flush_roa_writing_buffer h1 = Inr h2"
    "pre_commit R L overlaps gs now
       (if h_journaling (finalise_transaction gs now h2) then finalise_transaction gs now h2
        else transaction_commit (finalise_transaction gs now h2)) = Inr h5"
    "committed h' = cur h5" "cur h' = cur h5" "status_tracker h' = tracker_init (h_journaling h')"
proof -
  define r where "r = rbind (check_write_permitted h) (\<lambda>h. rbind (flush_rpsl_object_writing_buffer gs now h) (\<lambda>h1.
    rbind (flush_roa_writing_buffer h1) (\<lambda>h2. Inr (finalise_transaction gs now h2))))"
  have c: "commit R L overlaps gs now h = (case r of Inl e \<Rightarrow> (h, Some e)
      | Inr h3 \<Rightarrow> (let h4 = (if h_journaling h3 then h3 else transaction_commit h3)
           in case pre_commit R L overlaps gs now h4 of
                Inl e \<Rightarrow> (transaction_rollback h4, Some e)
              | Inr h5 \<Rightarrow> (let h6 = publish_event_stream (changed_commit (transaction_commit h5))
                   in (start_transaction (on_tracker tracker_reset h6), None))))"
    unfolding commit_def r_def ..
  from assms c obtain h3 where h3: "r = Inr h3" by (cases r) auto
  then obtain h1 h2 where f: "flush_rpsl_object_writing_buffer gs now h = Inr h1" "flush_roa_writing_buffer h1 = Inr h2"
    and h2: "h3 = finalise_transaction gs now h2" by (auto simp: r_def rbind_Inr_conv dest!: write_permittedE)
  define h4 where "h4 = (if h_journaling h3 then h3 else transaction_commit h3)"
  from assms obtain h5 where p: "pre_commit R L overlaps gs now h4 = Inr h5"
    unfolding c h3 by (cases "pre_commit R L overlaps gs now h4") (simp_all add: Let_def h4_def [symmetric])
  with assms have "h' = start_transaction (on_tracker tracker_reset (publish_event_stream (changed_commit (transaction_commit h5))))"
    unfolding c h3 by (simp add: Let_def h4_def [symmetric])
  then show ?thesis
    using that [OF f p [unfolded h4_def h2]]
    by (simp add: start_transaction_def on_tracker_def publish_event_stream_def changed_commit_def transaction_commit_def Let_def)
qed

section \<open>Stored and pending rows\<close>

text \<open>The statuses that the rows of the tables hold, and those that a handler may store.\<close>

definition stored_rows :: "(status_row \<Rightarrow> 'a) \<Rightarrow> tables \<Rightarrow> (string \<times> 'a) set" where
  "stored_rows status_of T = (\<lambda>s. (st_source s, status_of s)) ` set (t_status T)"

definition pending_rows :: "(status_row \<Rightarrow> 'a) \<Rightarrow> (tracker \<Rightarrow> (string, 'a) dict) \<Rightarrow> 'a \<Rightarrow> 'ip handler \<Rightarrow> (string \<times> 'a) set" where
  "pending_rows status_of updates_of no_status h =
     stored_rows status_of (cur h) \<union> stored_rows status_of (committed h) \<union> set (updates_of (status_tracker h))
     \<union> {(src, no_status) | src. True}"

lemma kept_stored: "status_kept h h' \<Longrightarrow> stored_rows status_of (cur h') \<subseteq> stored_rows status_of (cur h)"
  by (auto simp: status_kept_def stored_rows_def)

lemma update_status_rows:
  assumes "\<And>s. st_source (f s) = st_source s" "\<And>s. status_of (f s) = status_of s"
  shows "stored_rows status_of (update_status src f T) = stored_rows status_of T"
proof -
  have "map (\<lambda>s. (st_source s, status_of s)) (map (\<lambda>s. if st_source s = src then f s else s) xs)
      = map (\<lambda>s. (st_source s, status_of s)) xs" for xs by (induction xs) (simp_all add: assms)
  from arg_cong [OF this, of set "t_status T"] show ?thesis
    unfolding stored_rows_def update_status_def set_map [symmetric] by simp
qed

lemma update_each_rows:
  assumes "\<And>v s. st_source (f v s) = st_source s" "\<And>v s. status_of (f v s) = status_of s"
  shows "stored_rows status_of (update_each f entries T) = stored_rows status_of T"
  by (induction entries arbitrary: T) (auto simp: update_each_def update_status_rows assms)

lemma update_each_stored:
  assumes "\<And>v s. st_source (f v s) = st_source s" "\<And>v s. status_of (f v s) = v"
  shows "stored_rows status_of (update_each f entries T) \<subseteq> stored_rows status_of T \<union> set entries"
proof (induction entries arbitrary: T)
  case (Cons e entries)
  obtain src v where e: "e = (src, v)" by (cases e)
  have "stored_rows status_of (update_status src (f v) T) \<subseteq> stored_rows status_of T \<union> {(src, v)}"
    by (auto simp: stored_rows_def update_status_def assms)
  with Cons.IH [of "update_status src (f v) T"] show ?case by (auto simp: e update_each_def)
qed (simp add: update_each_def)

lemma fold_rows:
  "(\<And>x T. stored_rows status_of (f x T) = stored_rows status_of T) \<Longrightarrow> stored_rows status_of (fold f xs T) = stored_rows status_of T"
  by (induction xs arbitrary: T) auto

text \<open>
  A status of a source that the tracker records: no statement of a commit writes it but the one for its
  entries, and a new source starts without one.
\<close>

locale tracked_status =
  fixes status_of :: "status_row \<Rightarrow> 'a" and updates_of :: "tracker \<Rightarrow> (string, 'a) dict" and no_status :: 'a
  assumes of_new: "status_of (new_status src b now) = no_status"
    and of_reloaded: "status_of (s\<lparr>force_reload := r, synchronised_serials := b\<rparr>) = status_of s"
    and of_serials: "stored_rows status_of (finalise_serials now e T) = stored_rows status_of T"
    and of_fields: "status_of (s\<lparr>rpsl_data_updated := now\<rparr>) = status_of s" "status_of (s\<lparr>serial_last_export := x\<rparr>) = status_of s"
      "status_of (s\<lparr>serial_newest_mirror := x\<rparr>) = status_of s" "status_of (s\<lparr>last_error := m\<rparr>) = status_of s"
      "status_of (s\<lparr>last_error_timestamp := x\<rparr>) = status_of s"
    and of_recorded: "stored_rows status_of (update_each (\<lambda>v s. s\<lparr>nrtm4_server := v\<rparr>) (nrtm4_server_updates t)
      (update_each (\<lambda>v s. s\<lparr>nrtm4_client := v\<rparr>) (nrtm4_client_updates t) T)) \<subseteq> stored_rows status_of T \<union> set (updates_of t)"
    and of_kept: "nrtm4_client_updates t' = nrtm4_client_updates t \<Longrightarrow> nrtm4_server_updates t' = nrtm4_server_updates t \<Longrightarrow>
      updates_of t' = updates_of t"
begin

lemma kept_pending: "status_kept h h' \<Longrightarrow> pending_rows status_of updates_of no_status h' \<subseteq> pending_rows status_of updates_of no_status h"
  using kept_stored [of h h' status_of] of_kept [of "status_tracker h'" "status_tracker h"]
  by (auto simp: pending_rows_def status_kept_def)

lemma on_tables_pending:
  assumes "\<And>T. stored_rows status_of (f T) \<subseteq> stored_rows status_of T \<union> {(src, no_status) | src. True}"
  shows "pending_rows status_of updates_of no_status (on_tables f h) \<subseteq> pending_rows status_of updates_of no_status h"
  using assms [of "cur h"] unfolding pending_rows_def on_tables_def by auto

lemma finalise_seen_pending:
  "pending_rows status_of updates_of no_status (finalise_seen gs now src h) \<subseteq> pending_rows status_of updates_of no_status h"
proof -
  obtain b h1 where s: "tracker_is_serial_synchronised gs src h = (b, h1)" by fastforce
  let ?f = "\<lambda>T. if find_status src T = None then T\<lparr>t_status := t_status T @ [new_status src b now]\<rparr>
      else update_status src (\<lambda>s. s\<lparr>force_reload := False, synchronised_serials := b\<rparr>) T"
  have "stored_rows status_of (?f T) \<subseteq> stored_rows status_of T \<union> {(src, no_status) | src. True}" for T
    by (simp add: update_status_rows of_reloaded) (auto simp: stored_rows_def of_new)
  then have "pending_rows status_of updates_of no_status (on_tables ?f h1) \<subseteq> pending_rows status_of updates_of no_status h1"
    by (rule on_tables_pending)
  then show ?thesis using kept_pending [OF synchronised_kept [OF s]] s by (auto simp: finalise_seen_def)
qed

lemma finalise_pending:
  "pending_rows status_of updates_of no_status (finalise_transaction gs now h) \<subseteq> pending_rows status_of updates_of no_status h"
proof -
  have seen: "pending_rows status_of updates_of no_status (fold (finalise_seen gs now) srcs h) \<subseteq> pending_rows status_of updates_of no_status h" for srcs
    by (induction srcs arbitrary: h) (use finalise_seen_pending in \<open>auto, blast\<close>)
  let ?t = "status_tracker h" and ?h = "fold (finalise_seen gs now) (sources_seen (status_tracker h)) h"
  let ?g = "\<lambda>T. update_each (\<lambda>n s. s\<lparr>serial_last_export := n\<rparr>) (exported_serials ?t)
      (update_each (\<lambda>n s. s\<lparr>serial_newest_mirror := Some n, rpsl_data_updated := now\<rparr>) (newest_mirror_serials ?t)
      (update_each (\<lambda>e s. s\<lparr>last_error := Some e, last_error_timestamp := Some now\<rparr>) (mirroring_error ?t)
      (fold (finalise_serials now) (new_serials_per_source ?t)
      (fold (\<lambda>src. update_status src (\<lambda>s. s\<lparr>rpsl_data_updated := now\<rparr>)) (sources_rpsl_data_updated ?t) T))))"
  have g: "stored_rows status_of (?g T) = stored_rows status_of T" for T
    by (simp add: update_each_rows fold_rows of_serials update_status_rows of_fields)
  have "finalise_transaction gs now h = on_tables (\<lambda>T. update_each (\<lambda>v s. s\<lparr>nrtm4_server := v\<rparr>) (nrtm4_server_updates ?t)
      (update_each (\<lambda>v s. s\<lparr>nrtm4_client := v\<rparr>) (nrtm4_client_updates ?t) (?g T))) ?h"
    by (simp add: finalise_transaction_def Let_def)
  moreover have "pending_rows status_of updates_of no_status (on_tables (\<lambda>T. update_each (\<lambda>v s. s\<lparr>nrtm4_server := v\<rparr>) (nrtm4_server_updates ?t)
      (update_each (\<lambda>v s. s\<lparr>nrtm4_client := v\<rparr>) (nrtm4_client_updates ?t) (?g T))) ?h)
      \<subseteq> pending_rows status_of updates_of no_status ?h \<union> set (updates_of ?t)"
    using of_recorded [of ?t "?g (cur ?h)"] g [of "cur ?h"] by (auto simp: pending_rows_def on_tables_def)
  moreover have "set (updates_of ?t) \<subseteq> pending_rows status_of updates_of no_status h" by (auto simp: pending_rows_def)
  ultimately show ?thesis using seen [of "sources_seen (status_tracker h)"] by auto
qed

lemma commit_rows:
  "stored_rows status_of (committed (fst (commit R L overlaps gs now h))) \<subseteq> pending_rows status_of updates_of no_status h"
proof (cases "rbind (check_write_permitted h) (\<lambda>h. rbind (flush_rpsl_object_writing_buffer gs now h) (\<lambda>h1.
    rbind (flush_roa_writing_buffer h1) (\<lambda>h2. Inr (finalise_transaction gs now h2))))")
  case (Inl e)
  then show ?thesis by (auto simp: commit_def pending_rows_def)
next
  case (Inr h3)
  then obtain h1 h2 where f: "flush_rpsl_object_writing_buffer gs now h = Inr h1" and r: "flush_roa_writing_buffer h1 = Inr h2"
    and h3: "h3 = finalise_transaction gs now h2" by (auto simp: rbind_Inr_conv dest!: write_permittedE)
  have "status_kept h1 h2" using r
    by (auto simp: flush_roa_writing_buffer_def rbind_Inr_conv on_tables_def split: if_splits dest!: write_permittedE
        intro!: status_keptI)
  then have p: "pending_rows status_of updates_of no_status h3 \<subseteq> pending_rows status_of updates_of no_status h"
    unfolding h3 using finalise_pending kept_pending flush_kept [OF f] by blast
  let ?h4 = "if h_journaling h3 then h3 else transaction_commit h3"
  have h4: "stored_rows status_of (cur ?h4) \<subseteq> pending_rows status_of updates_of no_status h" "stored_rows status_of (committed ?h4) \<subseteq> pending_rows status_of updates_of no_status h"
    using p by (auto simp: pending_rows_def transaction_commit_def)
  show ?thesis
  proof (cases "pre_commit R L overlaps gs now ?h4")
    case (Inl e)
    with Inr h4 show ?thesis by (simp add: commit_def Let_def transaction_rollback_def split: if_splits)
  next
    case pc: (Inr h5)
    from kept_stored [OF pre_commit_kept [OF this], of status_of] h4 have "stored_rows status_of (cur h5) \<subseteq> pending_rows status_of updates_of no_status h" by auto
    with Inr pc show ?thesis
      by (simp add: commit_def Let_def start_transaction_def on_tracker_def publish_event_stream_def changed_commit_def
          transaction_commit_def)
  qed
qed

end

text \<open>The statuses of the client and of the server.\<close>

lemmas tracked_status_laws = new_status_def finalise_serials_def Let_def update_status_rows update_each_rows

lemma update_client_stored: "stored_rows nrtm4_client (update_each (\<lambda>v s. s\<lparr>nrtm4_client := v\<rparr>) cs T) \<subseteq> stored_rows nrtm4_client T \<union> set cs"
  by (rule update_each_stored) simp_all

lemma update_server_stored: "stored_rows nrtm4_server (update_each (\<lambda>v s. s\<lparr>nrtm4_server := v\<rparr>) vs T) \<subseteq> stored_rows nrtm4_server T \<union> set vs"
  by (rule update_each_stored) simp_all

interpretation client_status: tracked_status nrtm4_client nrtm4_client_updates no_client_status
  by unfold_locales (use update_client_stored in \<open>auto simp: tracked_status_laws split: prod.splits\<close>)

interpretation server_status: tracked_status nrtm4_server nrtm4_server_updates no_server_status
proof unfold_locales
  fix t T
  have "stored_rows nrtm4_server (update_each (\<lambda>v s. s\<lparr>nrtm4_client := v\<rparr>) (nrtm4_client_updates t) T) = stored_rows nrtm4_server T"
    by (rule update_each_rows) simp_all
  with update_server_stored show "stored_rows nrtm4_server (update_each (\<lambda>v s. s\<lparr>nrtm4_server := v\<rparr>) (nrtm4_server_updates t)
      (update_each (\<lambda>v s. s\<lparr>nrtm4_client := v\<rparr>) (nrtm4_client_updates t) T)) \<subseteq> stored_rows nrtm4_server T \<union> set (nrtm4_server_updates t)"
    by metis
qed (auto simp: tracked_status_laws split: prod.splits)

end
