(* ===== verification/Mirror_Runners.thy ===== *)
theory Mirror_Runners
  imports NRTM4_Client
begin

text \<open>
  \<^verbatim>\<open>irrd/mirroring/mirror_runners_import.py\<close> and \<open>whois_query\<close> of \<^verbatim>\<open>irrd/utils/whois_client.py\<close>, with the
  storing of ROAs of \<^verbatim>\<open>irrd/rpki/importer.py\<close>. A run opens a handler and closes it at the end; what was
  not committed is lost then. The result of a run is the closed handler, from which the next run starts.
  The chunks that a whois server sends, and the decoding of JSON, are functions of the environment.
\<close>

record ('ip, 't, 'k, 'rk, 'rt) runner_env =
  re_client :: "('ip, 't, 'k) client_env"
  re_radix :: "('rk, 'rt) radix_lib"
  re_overlaps :: "string \<Rightarrow> string \<Rightarrow> bool"
  re_connect :: "string \<Rightarrow> int \<Rightarrow> string \<Rightarrow> int \<Rightarrow> string list res"
  re_roa_json :: "string \<Rightarrow> roa_dict list res"
  re_slurm_json :: "string \<Rightarrow> slurm res"
  re_format :: "string \<Rightarrow> (string \<times> string) list \<Rightarrow> string res"

definition re_settings :: "('ip, 't, 'k, 'rk, 'rt) runner_env \<Rightarrow> settings" where
  "re_settings X = ce_settings (re_client X)"

section \<open>The database connection of a run\<close>

definition open_handler :: "('ip, 't, 'k, 'rk, 'rt) runner_env \<Rightarrow> 'ip handler \<Rightarrow> 'ip handler" where
  "open_handler X h =
     (DatabaseHandler (re_settings X) False (committed h) (next_pk h) (next_global h))\<lparr>events := events h\<rparr>"

definition close_handler :: "'ip handler \<Rightarrow> 'ip handler" where
  "close_handler h = transaction_rollback h"

definition run_commit :: "('ip, 't, 'k, 'rk, 'rt) runner_env \<Rightarrow> 'ip handler \<Rightarrow> 'ip handler \<times> exn option" where
  "run_commit X h =
     commit (re_radix X) (ce_lib (re_client X)) (re_overlaps X) (re_settings X) (ce_now (re_client X)) h"

section \<open>Files\<close>

definition keep_line_ends :: "string \<Rightarrow> string list" where
  "keep_line_ends s =
     (let parts = py_split NL s
      in map (\<lambda>l. l @ [NL]) (butlast parts) @ (if List.last parts = [] then [] else [List.last parts]))"

definition text_lines :: "string \<Rightarrow> string list" where
  "text_lines data = keep_line_ends (universal_newlines (utf8_decode data))"

section \<open>Full imports\<close>

definition import_file :: "('ip, 't, 'k) client_env \<Rightarrow> string \<Rightarrow> 't bulk_validator option \<Rightarrow> string \<Rightarrow> 'ip handler \<Rightarrow> 'ip handler res" where
  "import_file E src V data h =
     rbind (MirrorFileImportParserBase (ce_lib E) (ce_settings E) src False V) (\<lambda>P.
       case file_run_import (ce_lib E) (ce_trie E) (ce_settings E) P None (text_lines data) of
         (r, st) \<Rightarrow> rbind (apply_calls E (calls st) h) (\<lambda>h1. rbind r (\<lambda>_. Inr h1)))"

fun import_files :: "('ip, 't, 'k) client_env \<Rightarrow> string \<Rightarrow> 't bulk_validator option \<Rightarrow> string list \<Rightarrow> 'ip handler \<Rightarrow> 'ip handler res" where
  "import_files E src V [] h = Inr h"
| "import_files E src V (data # files) h = rbind (import_file E src V data h) (import_files E src V files)"

fun retrieve_files :: "('ip, 't, 'k) client_env \<Rightarrow> cval list \<Rightarrow> string list res" where
  "retrieve_files E [] = Inr []"
| "retrieve_files E (v # vs) =
     rbind (retrieve_file (ce_net E) (ce_lib E) (ce_settings E) (cval_str v) False None) (\<lambda>(data, _).
       rbind (retrieve_files E vs) (\<lambda>files. Inr (data # files)))"

definition import_sources :: "settings \<Rightarrow> string \<Rightarrow> cval list" where
  "import_sources gs src = (case source_setting gs src ''import_source'' of CStr s \<Rightarrow> if s = [] then [] else [CStr s] | v \<Rightarrow> cval_list v)"

definition retrieve_serial :: "('ip, 't, 'k) client_env \<Rightarrow> string \<Rightarrow> int option res" where
  "retrieve_serial E src =
     (let v = source_setting (ce_settings E) src ''import_serial_source''
      in if \<not> truthy v then Inr None
         else rbind (retrieve_file (ce_net E) (ce_lib E) (ce_settings E) (cval_str v) True None) (\<lambda>(t, _).
                case py_int t of None \<Rightarrow> Inl (ValueError (''invalid literal for int() with base 10: '' @ py_repr t)) | Some n \<Rightarrow> Inr (Some n)))"

definition optional_roa_validator :: "('ip, 't, 'k) client_env \<Rightarrow> 'ip handler \<Rightarrow> ('t bulk_validator option \<times> 'ip handler) res" where
  "optional_roa_validator E h =
     (if truthy (get_setting (ce_settings E) ''rpki.roa_source'')
      then rbind (bulk_roa_validator E h) (\<lambda>(V, h1). Inr (Some V, h1)) else Inr (None, h))"

text \<open>A serial is only recorded when its source is set and it is not zero; journaling stays disabled.\<close>

definition full_import :: "('ip, 't, 'k) client_env \<Rightarrow> string \<Rightarrow> int option \<Rightarrow> bool \<Rightarrow> 'ip handler \<Rightarrow> 'ip handler res" where
  "full_import E src newest_mirror reload h =
     (if import_sources (ce_settings E) src = [] then Inr h
      else rbind (retrieve_serial E src) (\<lambda>import_serial.
        if \<not> reload \<and> newest_mirror \<noteq> None \<and> import_serial \<noteq> None \<and> the import_serial \<le> the newest_mirror then Inr h
        else rbind (delete_all_rpsl_objects_with_journal (ce_settings E) (ce_now E) src False h) (\<lambda>h1.
             rbind (retrieve_files E (import_sources (ce_settings E) src)) (\<lambda>files.
             rbind (optional_roa_validator E h1) (\<lambda>(V, h2).
             rbind (import_files E src V files (disable_journaling h2)) (\<lambda>h3.
               if import_serial \<in> {None, Some 0} then Inr h3
               else record_serial_newest_mirror src (the import_serial) h3))))))"

section \<open>Updates over NRTM\<close>

definition contains_mark :: "string list \<Rightarrow> string \<Rightarrow> bool" where
  "contains_mark marks buf = list_ex (\<lambda>m. py_contains m buf) marks"

text \<open>What was received until a mark, the end of the connection, or a time out, which ends the chunks.\<close>

fun receive_until :: "string list \<Rightarrow> string \<Rightarrow> string list \<Rightarrow> string" where
  "receive_until marks buf [] = buf"
| "receive_until marks buf (chunk # chunks) =
     (if contains_mark marks buf \<or> chunk = [] then buf else receive_until marks (buf @ chunk) chunks)"

definition whois_query :: "('ip, 't, 'k, 'rk, 'rt) runner_env \<Rightarrow> string \<Rightarrow> int \<Rightarrow> string \<Rightarrow> string list \<Rightarrow> int \<Rightarrow> string res" where
  "whois_query X host port query end_markings socket_timeout =
     rbind (re_connect X host port (utf8_encode (py_strip query @ [NL])) socket_timeout) (\<lambda>chunks.
       Inr (utf8_decode (receive_until (map utf8_encode end_markings) [] chunks)))"

definition end_markings :: "string \<Rightarrow> string list" where
  "end_markings src =
     [NL # ''%END '' @ src @ [NL], NL # ''% END '' @ src @ [NL], NL # ''%ERROR'', NL # ''% ERROR'',
      NL # ''% Warning: there are no newer updates available'',
      NL # ''% Warning (1): there are no newer updates available'']"

fun save_operations :: "('ip, 't, 'k) client_env \<Rightarrow> nrtm_operation list \<Rightarrow> 'ip handler \<Rightarrow> 'ip handler res" where
  "save_operations E [] h = Inr h"
| "save_operations E (nop # nops) h = rbind (save_operation E nop h) (save_operations E nops)"

definition stream_update :: "('ip, 't, 'k, 'rk, 'rt) runner_env \<Rightarrow> string \<Rightarrow> int \<Rightarrow> 'ip handler \<Rightarrow> 'ip handler res" where
  "stream_update X src newest_mirror h =
     (let gs = re_settings X; E = re_client X; host = source_setting gs src ''nrtm_host''
      in rbind (cval_int (get_setting_or gs (source_key src ''nrtm_port'') (CStr ''43''))) (\<lambda>port.
           if \<not> truthy host then Inr h
           else rbind (cval_int (get_setting_or gs (source_key src ''nrtm3_client_timeout'') (CInt 15))) (\<lambda>socket_timeout.
                rbind (whois_query X (cval_str host) port
                         (''-g '' @ src @ '':3:'' @ str_int (newest_mirror + 1) @ ''-LAST'') (end_markings src) socket_timeout) (\<lambda>response.
                  case NRTMStreamParser gs src response of
                    (r, st) \<Rightarrow> rbind (apply_calls E (stream_calls st) h) (\<lambda>h1.
                                rbind r (\<lambda>_. save_operations E (operations st) h1))))))"

section \<open>The update of a mirror\<close>

definition mirror_status :: "('ip, 't, 'k) client_env \<Rightarrow> string \<Rightarrow> 'ip handler \<Rightarrow> ((int option \<times> bool) \<times> 'ip handler) res" where
  "mirror_status E src h =
     rbind (flush_for_query E h) (\<lambda>h1.
       Inr (case DatabaseStatusQuery (ce_pg E) [src] (cur h1) of
              [] \<Rightarrow> (None, False) | s # ss \<Rightarrow> (serial_newest_mirror s, force_reload s), h1))"

definition full_or_nrtm3_import :: "('ip, 't, 'k, 'rk, 'rt) runner_env \<Rightarrow> string \<Rightarrow> 'ip handler \<Rightarrow> (bool \<times> 'ip handler) res" where
  "full_or_nrtm3_import X src h =
     rbind (mirror_status (re_client X) src h) (\<lambda>((newest_mirror, reload), h1).
       if reload \<or> newest_mirror \<in> {None, Some 0} \<or> \<not> truthy (source_setting (re_settings X) src ''nrtm_host'')
       then rbind (full_import (re_client X) src newest_mirror reload h1) (\<lambda>h2. Inr (True, h2))
       else rbind (stream_update X src (the newest_mirror) h1) (\<lambda>h2. Inr (False, h2)))"

definition mirror_import :: "('ip, 't, 'k, 'rk, 'rt) runner_env \<Rightarrow> string \<Rightarrow> 'ip handler \<Rightarrow> (bool \<times> 'ip handler) res" where
  "mirror_import X src h =
     (if truthy (source_setting (re_settings X) src ''nrtm4_client_notification_file_url'')
      then rbind (NRTM4Client (re_client X) src h) (\<lambda>(c, h1). run_client (re_client X) c False h1)
      else full_or_nrtm3_import X src h)"

text \<open>
  The handler of a failed run is closed without a commit, after an error of the client was recorded in
  its tracker. The result says whether a full reload was published. An error while committing is logged
  as all others; then nothing is published.
\<close>

definition mirror_import_update_run :: "('ip, 't, 'k, 'rk, 'rt) runner_env \<Rightarrow> string \<Rightarrow> 'ip handler \<Rightarrow> bool \<times> 'ip handler" where
  "mirror_import_update_run X src h =
     (let h0 = open_handler X h
      in case mirror_import X src h0 of
           Inl (NRTM4ClientError m) \<Rightarrow>
             (False, close_handler (case record_mirror_error src m h0 of Inl e \<Rightarrow> h0 | Inr h1 \<Rightarrow> h1))
         | Inl e \<Rightarrow> (False, close_handler h0)
         | Inr (full_reload, h1) \<Rightarrow>
             (case run_commit X h1 of
                (h2, Some e) \<Rightarrow> (False, close_handler h2)
              | (h2, None) \<Rightarrow> (full_reload, close_handler h2)))"

section \<open>ROAs and pseudo-IRR objects\<close>

text \<open>
  The object of a ROA has no field parser. Its parsed data also holds the maximum length, which is a
  number there and left out. Its remarks are a setting that is formatted.
\<close>

definition roa_class :: "'ip extlib \<Rightarrow> 'ip roa \<Rightarrow> string" where
  "roa_class L r = (if ip_version L (roa_prefix r) = 6 then ''route6'' else ''route'')"

definition roa_remarks :: "('ip, 't, 'k, 'rk, 'rt) runner_env \<Rightarrow> 'ip roa \<Rightarrow> string res" where
  "roa_remarks X r =
     (case get_setting (re_settings X) ''rpki.pseudo_irr_remarks'' of
        CStr t \<Rightarrow> re_format X (py_strip (py_replace [NL] (NL # replicate RPSL_ATTRIBUTE_TEXT_WIDTH CHR '' '') t))
                    [(''asn'', str_int (roa_asn r)), (''prefix'', roa_prefix_str r)]
      | _ \<Rightarrow> Inl (AttributeError ''object has no attribute replace''))"

definition render_roa_text :: "('ip, 't, 'k, 'rk, 'rt) runner_env \<Rightarrow> 'ip roa \<Rightarrow> string res" where
  "render_roa_text X r =
     rbind (roa_remarks X r) (\<lambda>remarks.
       Inr (py_strip
         (NL # py_ljust RPSL_ATTRIBUTE_TEXT_WIDTH (roa_class (ce_lib (re_client X)) r @ '':'') @ roa_prefix_str r @ [NL]
          @ ''descr:          RPKI ROA for '' @ roa_prefix_str r @ '' / AS'' @ str_int (roa_asn r) @ [NL]
          @ ''remarks:        '' @ remarks @ [NL]
          @ ''max-length:     '' @ str_int (roa_max_length r) @ [NL]
          @ ''origin:         AS'' @ str_int (roa_asn r) @ [NL]
          @ ''source:         '' @ RPKI_IRR_PSEUDO_SOURCE @ ''  # Trust Anchor: '' @ trust_anchor r @ [NL]) @ [NL]))"

definition roa_columns :: "('ip, 't, 'k, 'rk, 'rt) runner_env \<Rightarrow> scopefilter_status \<Rightarrow> 'ip roa \<Rightarrow> columns res" where
  "roa_columns X scope r =
     (let L = ce_lib (re_client X); p = roa_prefix r; first_ip = ip_net L p; last_ip = ip_broadcast L p
      in rbind (render_roa_text X r) (\<lambda>txt.
           Inr \<lparr>c_rpsl_pk = roa_pk r, c_source = RPKI_IRR_PSEUDO_SOURCE, c_class = roa_class L r,
                c_parsed = [(roa_class L r, PStr (roa_prefix_str r)), (''origin'', PStr (''AS'' @ str_int (roa_asn r))),
                  (''source'', PStr RPKI_IRR_PSEUDO_SOURCE)],
                c_text = txt, c_ip_version = Some (ip_version L first_ip),
                c_ip_first = Some (ip_str L first_ip), c_ip_last = Some (ip_str L last_ip),
                c_ip_size = Some (ip_int L last_ip - ip_int L first_ip + 1),
                c_prefix = Some (ip_str L p), c_prefix_length = Some (ip_prefixlen L p),
                c_asn_first = Some (roa_asn r), c_asn_last = Some (roa_asn r), c_rpki = RPKI_valid,
                c_scope = scope, c_pref = pref_visible, c_updated = ce_now (re_client X)\<rparr>))"

definition save_roa :: "('ip, 't, 'k, 'rk, 'rt) runner_env \<Rightarrow> 'ip scope_filter \<Rightarrow> 'ip roa \<Rightarrow> 'ip handler \<Rightarrow> 'ip handler res" where
  "save_roa X F r h =
     (let L = ce_lib (re_client X); gs = re_settings X; now = ce_now (re_client X)
      in rbind (insert_roa_object \<lparr>ro_ip_version = ip_version L (roa_prefix r), ro_prefix = roa_prefix_str r,
                  ro_asn = roa_asn r, ro_max_length = roa_max_length r, ro_trust_anchor = trust_anchor r\<rparr> h) (\<lambda>h1.
         rbind (validate_rpsl_data L gs F RPKI_IRR_PSEUDO_SOURCE (roa_class L r) (Some (roa_prefix r)) (Some (roa_asn r))) (\<lambda>(scope, _).
         rbind (check_write_permitted h1) (\<lambda>h2.
         rbind (roa_columns X scope r) (\<lambda>cols.
           buffer_object gs now cols (Some (roa_prefix r)) origin_pseudo_irr None None h2)))))"

fun save_roas :: "('ip, 't, 'k, 'rk, 'rt) runner_env \<Rightarrow> 'ip scope_filter \<Rightarrow> 'ip roa list \<Rightarrow> 'ip handler \<Rightarrow> 'ip handler res" where
  "save_roas X F [] h = Inr h"
| "save_roas X F (r # rs) h = rbind (save_roa X F r h) (save_roas X F rs)"

definition optional_slurm :: "('ip, 't, 'k, 'rk, 'rt) runner_env \<Rightarrow> slurm option res" where
  "optional_slurm X =
     (let E = re_client X; v = get_setting (re_settings X) ''rpki.slurm_source''
      in if \<not> truthy v then Inr None
         else rbind (retrieve_file (ce_net E) (ce_lib E) (re_settings X) (cval_str v) True None) (\<lambda>(t, _).
                if t = [] then Inr None else rbind (re_slurm_json X t) (\<lambda>s. Inr (Some s))))"

text \<open>
  A record that cannot be imported ends the import and nothing of it is committed, so that the ROAs are
  stored after all of them have been read.
\<close>

definition runner_import_roas :: "('ip, 't, 'k, 'rk, 'rt) runner_env \<Rightarrow> (roa_dict \<Rightarrow> string) \<Rightarrow> 'ip handler
    \<Rightarrow> ('ip roa list \<times> 'ip handler) res" where
  "runner_import_roas X show_dict h =
     (let E = re_client X; gs = re_settings X
      in rbind (delete_all_roa_objects h) (\<lambda>h1.
         rbind (delete_all_rpsl_objects_with_journal gs (ce_now E) RPKI_IRR_PSEUDO_SOURCE True h1) (\<lambda>h2.
         rbind (optional_slurm X) (\<lambda>slurm_data.
         rbind (retrieve_file (ce_net E) (ce_lib E) gs (cval_str (get_setting gs ''rpki.roa_source'')) False None) (\<lambda>(data, _).
         rbind (utf8_strict data) (\<lambda>t.
         rbind (re_roa_json X (universal_newlines t)) (\<lambda>roa_dicts.
         rbind (ROADataImporter (ce_lib E) gs show_dict roa_dicts slurm_data) (\<lambda>roas.
         rbind (load_filters (ce_lib E) gs) (\<lambda>F.
         rbind (save_roas X F roas h2) (\<lambda>h3. Inr (roas, h3)))))))))))"

section \<open>Updates of status\<close>

definition route_row_of :: "db_row \<Rightarrow> route_row" where
  "route_row_of r = \<lparr>rr_pk = row_pk r, rr_ip_first = (case c_ip_first r of None \<Rightarrow> ''None'' | Some s \<Rightarrow> s),
     rr_prefix_length = (case c_prefix_length r of None \<Rightarrow> 0 | Some n \<Rightarrow> n),
     rr_asn_first = (case c_asn_first r of None \<Rightarrow> 0 | Some n \<Rightarrow> n), rr_source = c_source r, rr_status = c_rpki r\<rparr>"

definition scope_row_of :: "db_row \<Rightarrow> scope_row" where
  "scope_row_of r = \<lparr>sr_pk = row_pk r, sr_prefix = c_prefix r, sr_asn_first = c_asn_first r, sr_source = c_source r,
     sr_object_class = c_class r, sr_status = c_scope r\<rparr>"

text \<open>The rows of changed objects, each with its new status and together with the old one.\<close>

definition changed_rpki :: "tables \<Rightarrow> rpki_status \<Rightarrow> route_row list \<Rightarrow> (db_row \<times> rpki_status) list" where
  "changed_rpki T status rows =
     map (\<lambda>r. (r\<lparr>c_rpki := status\<rparr>, c_rpki r)) (enrich_pks T (map rr_pk rows))"

definition changed_scope :: "tables \<Rightarrow> scopefilter_status \<Rightarrow> scope_row list \<Rightarrow> (db_row \<times> scopefilter_status) list" where
  "changed_scope T status rows =
     map (\<lambda>r. (r\<lparr>c_scope := status\<rparr>, c_scope r)) (enrich_pks T (map sr_pk rows))"

definition update_rpki_from :: "('ip, 't, 'k) client_env \<Rightarrow> 't bulk_validator \<Rightarrow> 'ip handler \<Rightarrow> 'ip handler res" where
  "update_rpki_from E V h =
     rbind (flush_for_query E h) (\<lambda>h1.
     rbind (RPKI.validate_all_routes (ce_lib E) (ce_trie E) V (map route_row_of (route_rows (cur h1)))) (\<lambda>(valid, invalid, not_found).
       update_rpki_status (ce_settings E) (ce_now E) (changed_rpki (cur h1) RPKI_valid valid)
         (changed_rpki (cur h1) RPKI_invalid invalid) (changed_rpki (cur h1) RPKI_not_found not_found) h1))"

definition scope_rows :: "tables \<Rightarrow> db_row list" where
  "scope_rows T = filter (\<lambda>r. c_class r \<in> {''route'', ''route6'', ''aut-num''}) (t_objects T)"

definition update_scope_from :: "('ip, 't, 'k) client_env \<Rightarrow> 'ip scope_filter \<Rightarrow> 'ip handler \<Rightarrow> 'ip handler res" where
  "update_scope_from E F h =
     rbind (flush_for_query E h) (\<lambda>h1.
     rbind (validate_all_rpsl_objects (ce_lib E) (ce_settings E) F (map scope_row_of (scope_rows (cur h1)))) (\<lambda>(now_in, now_as, now_prefix).
       update_scopefilter_status (ce_settings E) (ce_now E) (changed_scope (cur h1) in_scope now_in)
         (changed_scope (cur h1) out_scope_as now_as) (changed_scope (cur h1) out_scope_prefix now_prefix) h1))"

text \<open>
  Each run with its exception, which is only logged. The ROAs are committed before the statuses are
  updated; the notifications are sent at the end.
\<close>

definition roa_import_run :: "('ip, 't, 'k, 'rk, 'rt) runner_env \<Rightarrow> (roa_dict \<Rightarrow> string) \<Rightarrow> 'ip handler \<Rightarrow> exn option \<times> 'ip handler" where
  "roa_import_run X show_dict h =
     (let E = re_client X; h0 = disable_journaling (open_handler X h)
      in case runner_import_roas X show_dict h0 of
           Inl e \<Rightarrow> (Some e, close_handler h0)
         | Inr (roas, h1) \<Rightarrow>
             (case run_commit X h1 of
                (h2, Some e) \<Rightarrow> (Some e, close_handler h2)
              | (h2, None) \<Rightarrow>
                  (case rbind (bulk_validator_init (ce_lib E) (ce_settings E) (ce_trie E) (Some roas) [])
                          (\<lambda>V. update_rpki_from E V (enable_journaling h2)) of
                     Inl e \<Rightarrow> (Some e, close_handler h2)
                   | Inr h3 \<Rightarrow> (case run_commit X h3 of (h4, e) \<Rightarrow> (e, close_handler h4)))))"

definition scope_filter_update_run :: "('ip, 't, 'k, 'rk, 'rt) runner_env \<Rightarrow> 'ip handler \<Rightarrow> exn option \<times> 'ip handler" where
  "scope_filter_update_run X h =
     (let E = re_client X; h0 = open_handler X h
      in case rbind (load_filters (ce_lib E) (ce_settings E)) (\<lambda>F. update_scope_from E F h0) of
           Inl e \<Rightarrow> (Some e, close_handler h0)
         | Inr h1 \<Rightarrow> (case run_commit X h1 of (h2, e) \<Rightarrow> (e, close_handler h2)))"

definition update_all_preferences :: "('ip, 't, 'k, 'rk, 'rt) runner_env \<Rightarrow> 'ip handler \<Rightarrow> 'ip handler res" where
  "update_all_preferences X h =
     (let E = re_client X
      in rbind (flush_for_query E h) (\<lambda>h1.
         rbind (Route_Pref.update_route_preference_status (re_radix X) (re_settings X) (map pref_row_of (route_rows (cur h1)))
                  (ip_any_rows (ce_lib E) (re_overlaps X) (cur h1)) []) (\<lambda>changes.
           case changes of
             None \<Rightarrow> Inr h1
           | Some (to_visible, to_suppressed) \<Rightarrow>
               update_route_preference_status (re_settings X) (ce_now E) (enrich_pks (cur h1) to_visible)
                 (enrich_pks (cur h1) to_suppressed) h1)))"

definition route_preference_update_run :: "('ip, 't, 'k, 'rk, 'rt) runner_env \<Rightarrow> 'ip handler \<Rightarrow> exn option \<times> 'ip handler" where
  "route_preference_update_run X h =
     (let h0 = open_handler X h
      in case update_all_preferences X h0 of
           Inl e \<Rightarrow> (Some e, close_handler h0)
         | Inr h1 \<Rightarrow> (case run_commit X h1 of (h2, e) \<Rightarrow> (e, close_handler h2)))"

end
