(* ===== verification/NRTM4_Runs.thy ===== *)
theory NRTM4_Runs
  imports NRTM4_Client_Facts Status_Rows Mirror_Runners RPKI_Facts
begin

text \<open>
  Runs of the NRTM version 4 client in the runner of mirrors: what any number of them leaves in the source
  status.
\<close>

abbreviation client_rows :: "tables \<Rightarrow> (string \<times> nrtm4_client_status) set" where
  "client_rows \<equiv> stored_rows nrtm4_client"

abbreviation client_pending :: "'ip handler \<Rightarrow> (string \<times> nrtm4_client_status) set" where
  "client_pending \<equiv> pending_rows nrtm4_client nrtm4_client_updates no_client_status"

section \<open>Client status and a run\<close>

lemma load_items_kept:
  assumes "\<And>item h h'. f item h = Inr h' \<Longrightarrow> status_kept h h'" "load_items f items e h = Inr h'"
  shows "status_kept h h'"
  using assms(2)
proof (induction items arbitrary: h)
  case Nil
  then show ?case by (cases e) simp_all
next
  case (Cons item items)
  then obtain h1 where "f item h = Inr h1" "load_items f items e h1 = Inr h'" by (auto simp: rbind_Inr_conv)
  with Cons.IH assms(1) show ?case by (blast intro: status_kept_trans)
qed

lemma process_delta_item_kept:
  assumes "process_delta_item E c header cf item h = Inr h'"
  shows "status_kept h h'"
proof -
  from assms have "rbind (delta_operation E c header cf item) (\<lambda>nop. shown_key (save_operation E nop h)) = Inr h'"
    unfolding process_delta_item_def
    by (cases "rbind (delta_operation E c header cf item) (\<lambda>nop. shown_key (save_operation E nop h))")
      (auto split: exn.splits)
  then obtain nop where "shown_key (save_operation E nop h) = Inr h'" by (auto simp: rbind_Inr_conv)
  then have "save_operation E nop h = Inr h'" by (auto simp: shown_key_def split: sum.splits exn.splits)
  then show ?thesis by (rule save_operation_kept)
qed

lemma load_snapshot_item_kept:
  assumes "load_snapshot_item E P item h = Inr h'"
  shows "status_kept h h'"
proof -
  from assms obtain t where p: "(case parse_object (ce_lib E) (ce_trie E) (ce_settings E) P t import_init of
         (Inl e, st) \<Rightarrow> Inl e
       | (Inr (Inl m), st) \<Rightarrow> apply_calls E (calls st) h
       | (Inr (Inr None), st) \<Rightarrow> apply_calls E (calls st) h
       | (Inr (Inr (Some obj)), st) \<Rightarrow> apply_calls E (calls st @ [UpsertObject obj origin_mirror None]) h) = Inr h'"
    unfolding load_snapshot_item_def by (elim rbind_InrE) (rule that)
  obtain r st where r: "parse_object (ce_lib E) (ce_trie E) (ce_settings E) P t import_init = (r, st)" by fastforce
  from p show ?thesis unfolding r by (auto split: sum.split_asm option.split_asm dest: apply_calls_kept)
qed

lemma load_delta_kept:
  assumes "load_delta E c u cf d h = Inr h'"
  shows "status_kept h h'"
proof -
  from load_delta_loaded [OF assms] obtain header items where
    "load_items (process_delta_item E c header cf) items None h = Inr h'" by (auto simp: loaded_delta_def)
  from load_items_kept [OF process_delta_item_kept this] show ?thesis .
qed

lemma load_delta_files_kept:
  assumes "load_delta_files (load_delta E c u cf) n ds h = Inr h'"
  shows "status_kept h h'"
  using assms
proof (induction ds arbitrary: h)
  case (Cons d ds)
  then show ?case
    by (auto simp: rbind_Inr_conv split: if_splits) (blast intro: status_kept_trans load_delta_kept)
qed simp

lemma load_pending_kept: "load_pending E c u n h = Inr h' \<Longrightarrow> status_kept h h'"
  by (auto simp: load_pending_def load_deltas_def rbind_Inr_conv split: option.splits if_splits intro: load_delta_files_kept)

lemma journaling_kept: "status_kept h (disable_journaling h)" "status_kept h (enable_journaling h)"
  by (auto simp: disable_journaling_def enable_journaling_def intro!: status_keptI)

lemma bulk_roa_validator_kept: "bulk_roa_validator E h = Inr (V, h') \<Longrightarrow> status_kept h h'"
  by (auto simp: bulk_roa_validator_def rbind_Inr_conv dest: flush_for_query_kept)

lemma load_snapshot_kept:
  assumes "load_snapshot E c u h = Inr h'"
  shows "status_kept h h'"
proof -
  from assms show ?thesis
    unfolding load_snapshot_def
  proof (elim rbind_tripleE rbind_pairE rbind_InrE, goal_cases)
    case (1 url data b header items e m V h1 h2 P h3)
    from 1(5) have v: "status_kept h h1" by (auto simp: rbind_Inr_conv split: if_splits dest: bulk_roa_validator_kept)
    have l: "status_kept (disable_journaling h2) h3" by (rule load_items_kept [OF load_snapshot_item_kept 1(8)])
    from 1(9) have h': "h' = enable_journaling h3" by simp
    show ?case
      unfolding h' by (rule status_kept_trans [OF v status_kept_trans [OF delete_all_kept [OF 1(6)]
        status_kept_trans [OF journaling_kept(1) status_kept_trans [OF l journaling_kept(2)]]]])
  qed
qed

lemma load_update_kept:
  assumes "load_update E c force u h = Inr (reloaded, deferred, h')"
  shows "status_kept h h'"
proof -
  from assms obtain next_version b n h1 where
    s: "(if next_version = None
         then rbind (load_snapshot E c u h) (\<lambda>h1. rbind (find_next_version c u (Some (fr_version (unf_snapshot u)))) (\<lambda>n. Inr (True, n, h1)))
         else Inr (False, next_version, h)) = Inr (b, n, h1)" and
    p: "(if b \<and> \<not> force then Inr (b, b \<and> \<not> force, h1)
         else rbind (load_pending E c u n h1) (\<lambda>h2. Inr (b, b \<and> \<not> force, h2))) = Inr (reloaded, deferred, h')"
    unfolding load_update_def Let_def by (elim rbind_tripleE rbind_InrE) (rule that)
  from s have "status_kept h h1" by (auto simp: rbind_Inr_conv split: if_splits dest: load_snapshot_kept)
  moreover from p have "status_kept h1 h'" by (auto simp: rbind_Inr_conv split: if_splits dest: load_pending_kept)
  ultimately show ?thesis by (rule status_kept_trans)
qed

section \<open>Trusted keys\<close>

lemma import_file_kept: "import_file E src V data h = Inr h' \<Longrightarrow> status_kept h h'"
  unfolding import_file_def
proof (elim rbind_InrE, goal_cases)
  case (1 P)
  obtain r st where r: "file_run_import (ce_lib E) (ce_trie E) (ce_settings E) P None (text_lines data) = (r, st)" by fastforce
  from 1(2) show ?case unfolding r by (auto simp: rbind_Inr_conv dest: apply_calls_kept)
qed

lemma import_files_kept: "import_files E src V files h = Inr h' \<Longrightarrow> status_kept h h'"
  by (induction files arbitrary: h) (auto simp: rbind_Inr_conv intro: status_kept_trans [OF import_file_kept])

lemma full_import_kept:
  assumes "full_import E src newest reload h = Inr h'"
  shows "status_kept h h'"
proof (cases "h' = h")
  case False
  with assms obtain import_serial where
    f: "rbind (delete_all_rpsl_objects_with_journal (ce_settings E) (ce_now E) src False h) (\<lambda>h1.
             rbind (retrieve_files E (import_sources (ce_settings E) src)) (\<lambda>files.
             rbind (optional_roa_validator E h1) (\<lambda>(V, h2).
             rbind (import_files E src V files (disable_journaling h2)) (\<lambda>h3.
               if import_serial \<in> {None, Some 0} then Inr h3
               else record_serial_newest_mirror src (the import_serial) h3)))) = Inr h'"
    by (auto simp: full_import_def rbind_Inr_conv [of "retrieve_serial E src"] split: if_splits)
  then show ?thesis
  proof (elim rbind_pairE rbind_InrE, goal_cases)
    case (1 h1 files V h2 h3)
    from 1(3) have o: "status_kept h1 h2"
      by (auto simp: optional_roa_validator_def rbind_Inr_conv split: if_splits dest: bulk_roa_validator_kept)
    from 1(5) have r: "status_kept h3 h'" by (auto split: if_splits dest: recorder_kept)
    show ?case
      by (rule status_kept_trans [OF delete_all_kept [OF 1(1)] status_kept_trans [OF o
        status_kept_trans [OF journaling_kept(1) status_kept_trans [OF import_files_kept [OF 1(4)] r]]]])
  qed
qed simp

lemma save_operations_kept: "save_operations E nops h = Inr h' \<Longrightarrow> status_kept h h'"
  by (induction nops arbitrary: h) (auto simp: rbind_Inr_conv intro: status_kept_trans [OF save_operation_kept])

lemma stream_update_kept:
  assumes "stream_update X src newest h = Inr h'"
  shows "status_kept h h'"
proof (cases "h' = h")
  case False
  with assms obtain response where
    s: "(case NRTMStreamParser (re_settings X) src response of (r, st) \<Rightarrow>
          rbind (apply_calls (re_client X) (stream_calls st) h) (\<lambda>h1.
            rbind r (\<lambda>_. save_operations (re_client X) (operations st) h1))) = Inr h'"
    by (auto simp: stream_update_def Let_def elim!: rbind_InrE split: if_splits)
  obtain r st where r: "NRTMStreamParser (re_settings X) src response = (r, st :: 'a nrtm_stream)" by fastforce
  from s obtain h1 where "apply_calls (re_client X) (stream_calls st) h = Inr h1" "save_operations (re_client X) (operations st) h1 = Inr h'"
    unfolding r by (auto elim!: rbind_InrE)
  then show ?thesis by (blast intro: status_kept_trans apply_calls_kept save_operations_kept)
qed simp

lemma full_or_nrtm3_kept:
  assumes "full_or_nrtm3_import X src h = Inr (b, h')"
  shows "status_kept h h'"
proof -
  from assms obtain newest reload h1 where m: "mirror_status (re_client X) src h = Inr ((newest, reload), h1)"
    and i: "full_import (re_client X) src newest reload h1 = Inr h' \<or> stream_update X src (the newest) h1 = Inr h'"
    unfolding full_or_nrtm3_import_def by (elim rbind_InrE) (auto simp: rbind_Inr_conv split: if_splits)
  from i have "status_kept h1 h'" using full_import_kept stream_update_kept by blast
  moreover from m have "status_kept h h1" by (auto simp: mirror_status_def rbind_Inr_conv dest: flush_for_query_kept)
  ultimately show ?thesis by (blast intro: status_kept_trans)
qed

lemma run_client_rows:
  assumes r: "NRTM4Client E src h = Inr (c, h1)" "run_client E c force h1 = Inr (reloaded, h')"
  obtains status where "client_pending h' \<subseteq> client_pending h \<union> {(src, status)}"
    "\<And>k0. k0 = initial_public_key (ce_settings E) src \<Longrightarrow>
       (\<And>st. (py_upper src, st) \<in> client_pending h \<Longrightarrow> trusted_status (ce_ec E) (ce_pydantic E) k0 src st) \<Longrightarrow>
       trusted_status (ce_ec E) (ce_pydantic E) k0 src status"
proof -
  from r(1) obtain h2 where f: "flush_for_query E h = Inr h2" and "h1 = h2" and src: "run_source c = src"
    and last: "run_last_status c = (case DatabaseStatusQuery (ce_pg E) [src] (cur h2) of [] \<Rightarrow> no_client_status | s # ss \<Rightarrow> nrtm4_client s)"
    by (auto simp: NRTM4Client_def current_db_status_def rbind_Inr_conv split: list.splits)
  have c: "(py_upper src, run_last_status c) \<in> client_pending h"
  proof (cases "DatabaseStatusQuery (ce_pg E) [src] (cur h2)")
    case Nil
    then show ?thesis by (simp add: last pending_rows_def)
  next
    case (Cons s ss)
    then have "s \<in> set (DatabaseStatusQuery (ce_pg E) [src] (cur h2))" by simp
    then have "s \<in> set (t_status (cur h2))" "st_source s = py_upper src" by (auto simp: DatabaseStatusQuery_def Let_def)
    then have "(py_upper src, nrtm4_client s) \<in> client_rows (cur h2)" by (force simp: stored_rows_def)
    with client_status.kept_pending [OF flush_for_query_kept [OF f]] Cons show ?thesis by (auto simp: last pending_rows_def)
  qed
  from r(2) obtain u key deferred h3 files where
    u: "retrieve_unf E c = Inr (u, key)" "load_update E c force u h1 = Inr (reloaded, deferred, h3)" and
    rec: "record_nrtm4_client_status (run_source c) (new_client_status u key deferred files) h3 = Inr h'"
    by (auto simp: run_client_def elim: inner_run_clientE)
  let ?st = "new_client_status u key deferred files"
  from load_update_kept [OF u(2)] flush_for_query_kept [OF f] \<open>h1 = h2\<close> have "status_kept h h3" by (blast intro: status_kept_trans)
  then have "client_pending h3 \<subseteq> client_pending h" by (rule client_status.kept_pending)
  moreover have "set (dict_set src ?st d) \<subseteq> set d \<union> {(src, ?st)}" for d :: "(string, nrtm4_client_status) dict"
    by (induction d) (auto split: if_splits)
  ultimately have "client_pending h' \<subseteq> client_pending h \<union> {(src, ?st)}"
    unfolding recorded_client_status [OF rec] src
    by (fastforce simp: pending_rows_def on_tracker_def see_source_def)
  then show ?thesis
  proof (rule that, goal_cases)
    case (1 k0)
    from retrieved_key_trusted [OF u(1)] 1(2) [OF c] show ?case by (simp add: src 1(1))
  qed
qed

text \<open>
  The states of a database in which the runner updates a mirror any number of times, at any time and
  with any answers from the network. Everything else that writes leaves the status of clients alone, or
  drops it.
\<close>

inductive mirror_history :: "('ip, 't, 'k, 'rk, 'rt) runner_env set \<Rightarrow> string \<Rightarrow> 'ip handler \<Rightarrow> bool" for envs src where
  no_source: "src \<notin> st_source ` set (t_status (committed h)) \<Longrightarrow> mirror_history envs src h"
| mirror_run: "mirror_history envs src h \<Longrightarrow> X \<in> envs \<Longrightarrow>
    mirror_history envs src (snd (mirror_import_update_run X src h))"
| other_write: "mirror_history envs src h \<Longrightarrow>
    client_rows (committed h') \<subseteq> client_rows (committed h) \<union> {(s, no_client_status) | s. True} \<Longrightarrow>
    mirror_history envs src h'"

definition key_env :: "'k ec_lib \<Rightarrow> pydantic \<Rightarrow> string option \<Rightarrow> string \<Rightarrow> ('ip, 't, 'k, 'rk, 'rt) runner_env set" where
  "key_env EC PX initial_key src =
     {X. ce_ec (re_client X) = EC \<and> ce_pydantic (re_client X) = PX \<and> initial_public_key (re_settings X) src = initial_key}"

definition trusted_rows :: "'k ec_lib \<Rightarrow> pydantic \<Rightarrow> string option \<Rightarrow> string \<Rightarrow> (string \<times> nrtm4_client_status) set \<Rightarrow> bool" where
  "trusted_rows EC PX initial_key src rows \<longleftrightarrow> (\<forall>st. (src, st) \<in> rows \<longrightarrow> trusted_status EC PX initial_key src st)"

lemma no_status_trusted: "trusted_status EC PX k0 src no_client_status"
  by (simp add: trusted_status_def no_client_status_def str_truthy_def)

lemma opened_pending:
  "trusted_rows EC PX k0 src (client_pending (open_handler X h)) = trusted_rows EC PX k0 src (client_rows (committed h))"
  by (auto simp: trusted_rows_def pending_rows_def open_handler_def DatabaseHandler_def tracker_init_def no_status_trusted)

text \<open>
  A run that fails commits nothing, not even the error of the client that it has recorded.
\<close>

lemma failed_run_commits_nothing:
  assumes "mirror_import X src (open_handler X h) = Inl e"
  shows "committed (snd (mirror_import_update_run X src h)) = committed h"
proof -
  have c: "committed (case record_mirror_error src m h of Inl e \<Rightarrow> h | Inr h1 \<Rightarrow> h1) = committed h" for m and h :: "_ handler"
    by (auto simp: record_mirror_error_def rbind_def on_tracker_def check_write_permitted_def)
  have o: "committed (open_handler X h) = committed h" by (simp add: open_handler_def DatabaseHandler_def)
  from assms show ?thesis
    by (cases e) (simp_all add: mirror_import_update_run_def Let_def close_handler_def transaction_rollback_def o c)
qed

lemma mirror_run_trusted:
  assumes t: "trusted_rows EC PX k0 src (client_rows (committed h))" and src: "py_upper src = src"
    and X: "ce_ec (re_client X) = EC" "ce_pydantic (re_client X) = PX" "initial_public_key (re_settings X) src = k0"
  shows "trusted_rows EC PX k0 src (client_rows (committed (snd (mirror_import_update_run X src h))))"
proof (cases "mirror_import X src (open_handler X h)")
  case (Inl e)
  with t show ?thesis by (simp add: failed_run_commits_nothing)
next
  case (Inr r)
  then obtain full_reload h1 where i: "mirror_import X src (open_handler X h) = Inr (full_reload, h1)" by (cases r) auto
  let ?h = "open_handler X h"
  have o: "trusted_rows EC PX k0 src (client_pending ?h)" using t by (simp only: opened_pending)
  have "trusted_rows EC PX k0 src (client_pending h1)"
  proof (cases "truthy (source_setting (re_settings X) src ''nrtm4_client_notification_file_url'')")
    case True
    with i obtain c h2 where c: "NRTM4Client (re_client X) src ?h = Inr (c, h2)" "run_client (re_client X) c False h2 = Inr (full_reload, h1)"
      by (auto simp: mirror_import_def rbind_Inr_conv)
    then obtain status where s: "client_pending h1 \<subseteq> client_pending ?h \<union> {(src, status)}"
      and k: "\<And>k0. k0 = initial_public_key (ce_settings (re_client X)) src \<Longrightarrow>
       (\<And>st. (py_upper src, st) \<in> client_pending ?h \<Longrightarrow> trusted_status (ce_ec (re_client X)) (ce_pydantic (re_client X)) k0 src st) \<Longrightarrow>
       trusted_status (ce_ec (re_client X)) (ce_pydantic (re_client X)) k0 src status"
      by (rule run_client_rows) blast
    have "trusted_status EC PX k0 src status"
      using k [of k0] o by (simp add: X src re_settings_def [symmetric] trusted_rows_def)
    with s o show ?thesis by (auto simp: trusted_rows_def)
  next
    case False
    with i have "status_kept ?h h1" by (auto simp: mirror_import_def dest: full_or_nrtm3_kept)
    with client_status.kept_pending [OF this] o show ?thesis by (auto simp: trusted_rows_def)
  qed
  moreover have "client_rows (committed (snd (mirror_import_update_run X src h))) \<subseteq> client_pending h1"
    using client_status.commit_rows [of "re_radix X" "ce_lib (re_client X)" "re_overlaps X" "re_settings X" "ce_now (re_client X)" h1] i
    by (auto simp: mirror_import_update_run_def Let_def run_commit_def close_handler_def transaction_rollback_def
        split: prod.splits option.splits)
  ultimately show ?thesis by (auto simp: trusted_rows_def)
qed

text \<open>
  C13: the client only ever uses keys that it was given or that were announced to it: in every state, a
  current or next key in the status of the source is the configured initial key, or it was announced by
  a well formed notification file of this source that an earlier key of this kind verifies.
\<close>

theorem client_keys_trusted:
  assumes "mirror_history (key_env EC PX initial_key src) src h" "py_upper src = src"
    and "s \<in> set (t_status (committed h))" "st_source s = src"
  shows "trusted_status EC PX initial_key src (nrtm4_client s)"
proof -
  from assms(1) have "trusted_rows EC PX initial_key src (client_rows (committed h))"
  proof (induction rule: mirror_history.induct)
    case (no_source h)
    then show ?case by (auto simp: trusted_rows_def stored_rows_def)
  next
    case (mirror_run h X)
    from mirror_run_trusted [OF mirror_run.IH assms(2), of X] mirror_run.hyps show ?case by (simp add: key_env_def)
  next
    case (other_write h h')
    then show ?case using no_status_trusted [of EC PX initial_key src] by (fastforce simp: trusted_rows_def)
  qed
  then show ?thesis using assms(3,4) by (force simp: trusted_rows_def stored_rows_def)
qed

section \<open>Deltas\<close>


section \<open>Examples\<close>

text \<open>For evaluation: a file that fits in one chunk.\<close>

lemma item_loads_code [code]:
  "item_loads E data =
     jsonseq_decode (ce_loads E) (if data = [] then [] else if int (length data) \<le> 102400 then [data]
       else chunked_iterable data CHUNK_SIZE)"
proof (cases "data = [] \<or> 102400 < int (length data)")
  case True
  then show ?thesis by (auto simp: item_loads_def chunked_iterable.simps [of "[]"])
next
  case False
  then have "take CHUNK_SIZE data = data" "drop CHUNK_SIZE data = []" by (simp_all add: CHUNK_SIZE_def)
  then show ?thesis using False
    by (simp add: item_loads_def chunked_iterable.simps [of data] chunked_iterable.simps [of "[]"] CHUNK_SIZE_def)
qed

lemma all_object_classes: "map fst OBJECT_CLASS_MAPPING = [''as-block'', ''as-set'', ''aut-num'', ''domain'', ''filter-set'', ''inet-rtr'', ''inet6num'',
    ''inetnum'', ''irt'', ''key-cert'', ''mntner'', ''organisation'', ''peering-set'', ''person'', ''role'', ''route'',
    ''route-set'', ''route6'', ''rtr-set'']"
  by (simp add: OBJECT_CLASS_MAPPING_def)

lemma fold_insert_new: "distinct xs \<Longrightarrow> set xs \<inter> set ys = {} \<Longrightarrow> fold List.insert xs ys = rev xs @ ys"
  by (induction xs arbitrary: ys) auto

lemma all_object_classes_code [code]:
  "all_object_classes_updated h =
     h\<lparr>changed_objects_tracker := (changed_objects_tracker h)\<lparr>object_classes :=
         (if object_classes (changed_objects_tracker h) = []
          then [''rtr-set'', ''route6'', ''route-set'', ''route'', ''role'', ''person'', ''peering-set'', ''organisation'', ''mntner'',
            ''key-cert'', ''irt'', ''inetnum'', ''inet6num'', ''inet-rtr'', ''filter-set'', ''domain'', ''aut-num'', ''as-set'', ''as-block'']
          else fold List.insert (map fst OBJECT_CLASS_MAPPING) (object_classes (changed_objects_tracker h)))\<rparr>\<rparr>"
proof -
  have "distinct (map fst OBJECT_CLASS_MAPPING)" unfolding all_object_classes by simp
  from fold_insert_new [OF this, of "[]"]
  have "fold List.insert (map fst OBJECT_CLASS_MAPPING) [] = rev (map fst OBJECT_CLASS_MAPPING)" by simp
  then have "fold List.insert (map fst OBJECT_CLASS_MAPPING) [] =
      [''rtr-set'', ''route6'', ''route-set'', ''route'', ''role'', ''person'', ''peering-set'', ''organisation'', ''mntner'',
       ''key-cert'', ''irt'', ''inetnum'', ''inet6num'', ''inet-rtr'', ''filter-set'', ''domain'', ''aut-num'', ''as-set'', ''as-block'']"
    by (simp only: all_object_classes rev.simps append.simps)
  then show ?thesis
    by (cases "object_classes (changed_objects_tracker h) = []") (simp_all only: all_object_classes_updated_def if_True if_False simp_thms)
qed

text \<open>A mirror of a repository with a snapshot at version 1 and one delta; signatures are prefixes.\<close>

definition client_settings :: settings where
  "client_settings n =
     (if n = ''sources.TEST.nrtm4_client_notification_file_url'' then Some (CStr ''file:///u/update-notification-file.jose'')
      else if n = ''sources.TEST.nrtm4_client_initial_public_key'' then Some (CStr ''key'')
      else None)"

definition example_ec :: "string ec_lib" where
  "example_ec = \<lparr>ec_import_key = (\<lambda>v. Inr (cval_str v)), ec_is_private = (\<lambda>k. True), ec_as_pem = (\<lambda>private k. Inr k),
     deserialize_compact = (\<lambda>content k. if py_startswith content (k @ ''.'') then Inr (drop (length k + 1) content)
        else Inl (JoseError ''bad_signature'')),
     serialize_compact = (\<lambda>content k. Inr (k @ ''.'' @ content))\<rparr>"

definition example_header :: "string \<Rightarrow> int \<Rightarrow> (string \<times> cval) list" where
  "example_header file_type version = [(''nrtm_version'', CInt 4), (''source'', CStr ''TEST''), (''session_id'', CStr ''s''),
     (''version'', CInt version), (''type'', CStr file_type)]"

definition example_reference :: "int \<Rightarrow> string \<Rightarrow> cval" where
  "example_reference version url = CDict [(''version'', CInt version), (''url'', CStr url), (''hash'', CStr ''ab'')]"

definition example_pydantic :: pydantic where
  "example_pydantic = \<lparr>px_str = (\<lambda>v. case v of CStr s \<Rightarrow> Some s | _ \<Rightarrow> None), px_uuid = (\<lambda>v. case v of CStr s \<Rightarrow> Some s | _ \<Rightarrow> None),
     px_positive_int = (\<lambda>v. case v of CInt n \<Rightarrow> if 0 < n then Some n else None | _ \<Rightarrow> None),
     px_datetime = (\<lambda>v. case v of CInt n \<Rightarrow> Some (True, n) | _ \<Rightarrow> None), px_isoformat = str_int, px_message = (\<lambda>name v. name),
     px_json = (\<lambda>t. if t = ''unf'' then Inr (CDict (example_header ''notification'' 2 @
         [(''timestamp'', CInt 5), (''snapshot'', example_reference 1 ''snapshot''), (''deltas'', CList [example_reference 2 ''delta''])]))
       else Inl ''invalid JSON'')\<rparr>"

definition example_net :: net_lib where
  "example_net = \<lparr>net_urlopen = (\<lambda>url t. Inl []), net_get = (\<lambda>url t. Inl (OSError [])),
     local_file = (\<lambda>path. if path = ''/u/update-notification-file.jose'' then Inr ''key.unf''
        else if path = ''/u/snapshot'' then Inr (RS # ''s'')
        else if path = ''/u/delta'' then Inr (RS # ''d'' @ RS # ''i'') else Inl (OSError path)),
     gzip_open = Inr, sha256_hex = (\<lambda>content. ''ab''), temp_name = ''tmp''\<rparr>"

definition example_client :: "(ip3, (string, roa_entry list) dict, string) client_env" where
  "example_client = \<lparr>ce_lib = ip3_lib, ce_trie = assoc_trie, ce_pg = example_pg, ce_settings = client_settings,
     ce_isoformat = str_int, ce_now = 7, ce_pydantic = example_pydantic, ce_ec = example_ec, ce_net = example_net,
     ce_loads = (\<lambda>t. if t = ''s'' then Inr (CDict (example_header ''snapshot'' 1))
        else if t = ''d'' then Inr (CDict (example_header ''delta'' 2))
        else Inr (CDict [(''action'', CStr ''delete''), (''object_class'', CStr ''aut-num''), (''primary_key'', CStr ''AS1'')])),
     ce_repr = cval_str\<rparr>"

definition example_runner where
  "example_runner = \<lparr>re_client = example_client, re_radix = bits_radix, re_overlaps = (\<lambda>_ _. False),
     re_connect = (\<lambda>_ _ _ _. Inr []), re_roa_json = (\<lambda>_. Inr []), re_slurm_json = (\<lambda>_. Inl StopIteration),
     re_format = (\<lambda>t args. Inr t)\<rparr>"

definition example_db :: "ip3 handler" where
  "example_db = DatabaseHandler client_settings False
     \<lparr>t_objects = [], t_journal = [], t_status = [], t_suspended = [], t_protected = [], t_roas = []\<rparr> 0 1"

definition example_unf :: unf where
  "example_unf = \<lparr>nc_source = ''TEST'', nc_session_id = ''s'', nc_version = 2, unf_timestamp = 5,
     unf_snapshot = \<lparr>fr_version = 1, fr_url = ''snapshot'', fr_hash = ''ab''\<rparr>,
     unf_deltas = [\<lparr>fr_version = 2, fr_url = ''delta'', fr_hash = ''ab''\<rparr>], next_signing_key = None\<rparr>"

definition example_run :: "nrtm4_client_status \<Rightarrow> nrtm4_run" where
  "example_run status = \<lparr>run_source = ''TEST'', run_rpki_aware = False,
     run_notification_file_url = CStr ''file:///u/update-notification-file.jose'', run_force_reload = False, run_last_status = status\<rparr>"

definition example_status :: nrtm4_client_status where
  "example_status = \<lparr>cl_session_id = Some ''s'', cl_version = Some 1, cl_current_key = Some ''key'', cl_next_key = None,
     cl_previous_file_hashes = Some [(''snapshot-1'', [''snapshot'', ''ab''])]\<rparr>"

definition example_files :: "(string, string list) dict" where
  "example_files = [(''snapshot-1'', [''snapshot'', ''ab'']), (''delta-2'', [''delta'', ''ab''])]"

definition example_deleted :: "ip3 handler" where
  "example_deleted = all_object_classes_updated example_db"

lemma example_unf_retrieved: "retrieve_unf example_client (example_run no_client_status) = Inr (example_unf, ''key'')"
  by code_simp

lemma example_snapshot: "load_snapshot example_client (example_run no_client_status) example_unf example_db = Inr example_deleted"
proof -
  let ?c = "example_run no_client_status"
  have "full_url (ce_lib example_client) (notification_url example_client ?c) (unf_snapshot example_unf) = Inr ''file:///u/snapshot''"
    by code_simp
  moreover have "retrieve_file (ce_net example_client) (ce_lib example_client) (ce_settings example_client) ''file:///u/snapshot'' False
      (Some (fr_hash (unf_snapshot example_unf))) = Inr (RS # ''s'', False)" by code_simp
  moreover have "item_loads example_client (RS # ''s'') = ([CDict (example_header ''snapshot'' 1)], None)" by code_simp
  moreover have "raise_invalid (NRTM4SnapshotHeader (ce_pydantic example_client) (header_values ?c example_unf (fr_version (unf_snapshot example_unf)))
      (CDict (example_header ''snapshot'' 1))) = Inr \<lparr>nc_source = ''TEST'', nc_session_id = ''s'', nc_version = 1\<rparr>" by code_simp
  moreover have "delete_all_rpsl_objects_with_journal (ce_settings example_client) (ce_now example_client) (run_source ?c) False example_db
      = Inr example_deleted" by code_simp
  moreover have "MirrorFileImportParserBase (ce_lib example_client) (ce_settings example_client) (run_source ?c) False
      (None :: (string, roa_entry list) dict bulk_validator option)
      = Inr \<lparr>im_source = ''TEST'', direct_error_return = False, roa_validator = None,
          scopefilter_validator = \<lparr>filter_prefixes = [], filtered_as_numbers = [], filtered_asn_ranges = []\<rparr>,
          strict_validation_key_cert = False, object_class_filter = None\<rparr>" by code_simp
  moreover have "enable_journaling (disable_journaling example_deleted) = example_deleted" by code_simp
  ultimately show ?thesis by (simp add: load_snapshot_def next_item_def example_run_def raise_invalid_def)
qed

definition example_recorded :: "ip3 handler" where
  "example_recorded = on_tracker (\<lambda>t. (see_source ''TEST'' t)\<lparr>nrtm4_client_updates :=
     [(''TEST'', new_client_status example_unf ''key'' True example_files)]\<rparr>) example_deleted"

lemma example_mirror_import: "mirror_import example_runner ''TEST'' example_db = Inr (True, example_recorded)"
proof -
  let ?c = "example_run no_client_status"
  have t: "truthy (source_setting (re_settings example_runner) ''TEST'' ''nrtm4_client_notification_file_url'')" by code_simp
  have c: "NRTM4Client (re_client example_runner) ''TEST'' example_db = Inr (?c, example_db)" by code_simp
  have e: "re_client example_runner = example_client" by (simp add: example_runner_def)
  have n: "find_next_version ?c example_unf None = Inr None"
    "find_next_version ?c example_unf (Some (fr_version (unf_snapshot example_unf))) = Inr (Some 2)" by code_simp+
  have "load_update example_client ?c False example_unf example_db = Inr (True, True, example_deleted)"
    by (simp add: load_update_def n example_snapshot)
  moreover have "validate_aggregate_previous_file_hashes ?c example_unf = Inr example_files" by code_simp
  moreover have "record_nrtm4_client_status (run_source ?c) (new_client_status example_unf ''key'' True example_files) example_deleted
      = Inr example_recorded" by code_simp
  ultimately show ?thesis
    using t c by (simp add: mirror_import_def e run_client_def inner_run_client_def example_unf_retrieved as_client_error_def)
qed

lemma example_after_run:
  "committed (snd (mirror_import_update_run example_runner ''TEST'' example_db)) = committed (fst (run_commit example_runner example_recorded))"
proof -
  have "open_handler example_runner example_db = example_db" by code_simp
  moreover have "snd (run_commit example_runner example_recorded) = None" by code_simp
  ultimately show ?thesis
    by (simp add: mirror_import_update_run_def example_mirror_import close_handler_def transaction_rollback_def split: prod.splits option.splits)
qed

lemma example_status_rows:
  "map (\<lambda>s. (st_source s, nrtm4_client s)) (t_status (committed (fst (run_commit example_runner example_recorded))))
   = [(''TEST'', new_client_status example_unf ''key'' True example_files)]"
  by code_simp

theorem client_keys_trusted_witness:
  "\<exists>s. s \<in> set (t_status (committed (snd (mirror_import_update_run example_runner ''TEST'' example_db)))) \<and>
     cl_current_key (nrtm4_client s) = Some ''key'' \<and>
     trusted_status example_ec example_pydantic (Some ''key'') ''TEST'' (nrtm4_client s)"
proof -
  let ?h = "snd (mirror_import_update_run example_runner ''TEST'' example_db)"
  have e: "example_runner \<in> key_env example_ec example_pydantic (Some ''key'') ''TEST''"
    by (simp add: key_env_def example_runner_def example_client_def re_settings_def initial_public_key_def) code_simp
  have n: "''TEST'' \<notin> st_source ` set (t_status (committed example_db))" by code_simp
  have m: "mirror_history (key_env example_ec example_pydantic (Some ''key'') ''TEST''
      :: (ip3, (string, roa_entry list) dict, string, bool list, bool list list) runner_env set) ''TEST'' ?h"
    by (rule mirror_history.mirror_run [OF mirror_history.no_source [OF n] e])
  have u: "py_upper ''TEST'' = ''TEST''" by code_simp
  from example_status_rows obtain s where s: "t_status (committed ?h) = [s]" "st_source s = ''TEST''"
      "nrtm4_client s = new_client_status example_unf ''key'' True example_files"
    unfolding example_after_run by (auto simp: map_eq_Cons_conv)
  from client_keys_trusted [OF m u, of s] s show ?thesis by (intro exI [of _ s]) (simp add: new_client_status_def)
qed

lemma example_delta: "load_delta example_client (example_run example_status) example_unf None
    \<lparr>fr_version = 2, fr_url = ''delta'', fr_hash = ''ab''\<rparr> example_db = Inr example_db"
proof -
  let ?c = "example_run example_status" and ?d = "\<lparr>fr_version = 2, fr_url = ''delta'', fr_hash = ''ab''\<rparr>"
  let ?header = "\<lparr>nc_source = ''TEST'', nc_session_id = ''s'', nc_version = 2\<rparr>"
  let ?item = "CDict [(''action'', CStr ''delete''), (''object_class'', CStr ''aut-num''), (''primary_key'', CStr ''AS1'')]"
  let ?nop = "\<lparr>no_source = ''TEST'', no_operation = op_delete, no_serial = None, origin_identifier = ''s/D2'', no_text = None,
    no_rpsl_pk = Some ''AS1'', no_object_class = Some ''aut-num'', no_strict_key_cert = False, rpki_aware = False,
    no_class_filter = None\<rparr>"
  have "full_url (ce_lib example_client) (notification_url example_client ?c) ?d = Inr ''file:///u/delta''" by code_simp
  moreover have "retrieve_file (ce_net example_client) (ce_lib example_client) (ce_settings example_client) ''file:///u/delta'' False
      (Some (fr_hash ?d)) = Inr (RS # ''d'' @ RS # ''i'', False)" by code_simp
  moreover have "item_loads example_client (RS # ''d'' @ RS # ''i'') = ([CDict (example_header ''delta'' 2), ?item], None)" by code_simp
  moreover have "raise_invalid (NRTM4DeltaHeader (ce_pydantic example_client) (header_values ?c example_unf (fr_version ?d))
      (CDict (example_header ''delta'' 2))) = Inr ?header" by code_simp
  moreover have "process_delta_item example_client ?c ?header None ?item example_db = Inr example_db"
  proof -
    have "delta_operation example_client ?c ?header None ?item = Inr ?nop" by code_simp
    moreover have "nrtm_save (ce_lib example_client) (ce_settings example_client) roas ?nop
        = (Inr True, [DeleteObject ''TEST'' ''AS1'' ''aut-num'' origin_mirror None])" for roas
      by (simp add: nrtm_save_def save_parsed_def class_filtered_def str_truthy_def)
    moreover have "apply_call example_client (DeleteObject ''TEST'' ''AS1'' ''aut-num'' origin_mirror None) example_db = Inr example_db"
      by code_simp
    ultimately show ?thesis by (simp add: process_delta_item_def save_operation_def call_queries_roas_def shown_key_def)
  qed
  ultimately show ?thesis by (simp add: load_delta_def next_item_def raise_invalid_def)
qed

lemma example_second_run:
  "run_client example_client (example_run example_status) False example_db
   = Inr (False, on_tracker (\<lambda>t. (see_source ''TEST'' t)\<lparr>nrtm4_client_updates :=
       [(''TEST'', new_client_status example_unf ''key'' False example_files)]\<rparr>) example_db)"
proof -
  let ?c = "example_run example_status"
  have u: "retrieve_unf example_client ?c = Inr (example_unf, ''key'')" by code_simp
  have n: "find_next_version ?c example_unf None = Inr (Some 2)" by code_simp
  have f: "get_object_class_filter_for_source (ce_settings example_client) (run_source ?c) = Inr None" by code_simp
  have m: "max_delta_version example_unf = Some 2" "unf_deltas example_unf = [\<lparr>fr_version = 2, fr_url = ''delta'', fr_hash = ''ab''\<rparr>]"
    by code_simp+
  have "load_update example_client ?c False example_unf example_db = Inr (False, False, example_db)"
    by (simp add: load_update_def n load_pending_def m load_deltas_def f example_delta)
  moreover have "validate_aggregate_previous_file_hashes ?c example_unf = Inr example_files" by code_simp
  moreover have "record_nrtm4_client_status (run_source ?c) (new_client_status example_unf ''key'' False example_files) example_db
    = Inr (on_tracker (\<lambda>t. (see_source ''TEST'' t)\<lparr>nrtm4_client_updates :=
       [(''TEST'', new_client_status example_unf ''key'' False example_files)]\<rparr>) example_db)" by code_simp
  ultimately show ?thesis by (simp add: run_client_def inner_run_client_def u as_client_error_def)
qed


section \<open>Limits\<close>

text \<open>
  A client at version 1 that reads a notification file with a snapshot at version 5 and no deltas, because
  they expired, loads nothing, and records version 5.
\<close>

lemma expired_deltas_skipped:
  "load_update E (example_run example_status) False
     (example_unf\<lparr>nc_version := 5, unf_snapshot := \<lparr>fr_version = 5, fr_url = ''snapshot'', fr_hash = ''ab''\<rparr>, unf_deltas := []\<rparr>) h
   = Inr (False, False, h)"
  by (simp add: load_update_def find_next_version_def needs_snapshot_def next_version_after_def example_run_def example_status_def
      example_unf_def min_delta_version_def load_pending_def max_delta_version_def str_truthy_def)

text \<open>An import that is skipped, because there is no file to import, is reported as a full reload.\<close>

lemma skipped_import_is_reload:
  assumes "import_sources (re_settings X) src = []" "mirror_status (re_client X) src h = Inr ((None, False), h)"
  shows "full_or_nrtm3_import X src h = Inr (True, h)"
  using assms by (simp add: full_or_nrtm3_import_def full_import_def re_settings_def)

end
