(* ===== verification/Mirror_Export.thy ===== *)
theory Mirror_Export
  imports NRTM4_Runs
begin

text \<open>
  \<^verbatim>\<open>irrd/mirroring/mirror_runners_export.py\<close>: the export of the visible objects of a source. A run gives the
  files that it moved into place, with the content before compression, in the order in which they were
  written; those of an export before a failure stay.
\<close>

record export_file =
  ef_directory :: string
  ef_name :: string
  ef_content :: string

text \<open>The text of an exported object.\<close>

definition export_text :: "settings \<Rightarrow> string \<Rightarrow> bool \<Rightarrow> bool \<Rightarrow> db_row \<Rightarrow> string res" where
  "export_text gs src remove_hashes dummify r =
     (let t = (if remove_hashes then remove_auth_hashes (c_text r) else c_text r)
      in if dummify then dummify_object_text gs t (c_class r) src (c_rpsl_pk r) else Inr t)"

fun export_texts :: "settings \<Rightarrow> string \<Rightarrow> bool \<Rightarrow> bool \<Rightarrow> db_row list \<Rightarrow> string res" where
  "export_texts gs src remove_hashes dummify [] = Inr (''# EOF'' @ [NL])"
| "export_texts gs src remove_hashes dummify (r # rs) =
     rbind (export_text gs src remove_hashes dummify r) (\<lambda>t.
     rbind (export_texts gs src remove_hashes dummify rs) (\<lambda>rest.
       Inr (utf8_encode t @ [NL] @ rest)))"

definition newest_seen :: "('ip, 't, 'k) client_env \<Rightarrow> string \<Rightarrow> tables \<Rightarrow> int option" where
  "newest_seen E src T = (case DatabaseStatusQuery (ce_pg E) [src] T of [] \<Rightarrow> None | s # ss \<Rightarrow> serial_newest_seen s)"

definition exported_rows :: "('ip, 't, 'k) client_env \<Rightarrow> string \<Rightarrow> 'ip handler \<Rightarrow> (db_row list \<times> 'ip handler) res" where
  "exported_rows E src h =
     execute_query (ce_pg E) (ce_settings E) (ce_now E) object_columns t_objects
       (rbind (q_sources object_columns [src] RPSLDatabaseQuery) default_suppression) h"

definition source_export :: "('ip, 't, 'k) client_env \<Rightarrow> string \<Rightarrow> string \<Rightarrow> bool \<Rightarrow> bool \<Rightarrow> 'ip handler
    \<Rightarrow> (export_file list \<times> 'ip handler) res" where
  "source_export E src destination remove_hashes dummify h =
     rbind (flush_for_query E h) (\<lambda>h1.
       (let serial = newest_seen E src (cur h1)
        in rbind (exported_rows E src h1) (\<lambda>(rows, h2).
           rbind (export_texts (ce_settings E) src remove_hashes dummify rows) (\<lambda>content.
           rbind (record_serial_exported src serial h2) (\<lambda>h3.
             Inr (\<lparr>ef_directory = destination, ef_name = py_lower src @ ''.db.gz'', ef_content = content\<rparr>
                  # (case serial of None \<Rightarrow> [] | Some n \<Rightarrow>
                       [\<lparr>ef_directory = destination, ef_name = py_upper src @ ''.CURRENTSERIAL'', ef_content = str_int n\<rparr>]),
                  h3))))))"

definition export_if_set :: "('ip, 't, 'k) client_env \<Rightarrow> string \<Rightarrow> string \<Rightarrow> bool \<Rightarrow> 'ip handler
    \<Rightarrow> (export_file list \<times> 'ip handler) res" where
  "export_if_set E src setting filtered h =
     (let destination = source_setting (ce_settings E) src setting
      in if truthy destination then source_export E src (cval_str destination) filtered filtered h else Inr ([], h))"

text \<open>The files, the exception, and the closed handler.\<close>

definition source_export_run :: "('ip, 't, 'k, 'rk, 'rt) runner_env \<Rightarrow> string \<Rightarrow> 'ip handler
    \<Rightarrow> export_file list \<times> exn option \<times> 'ip handler" where
  "source_export_run X src h =
     (let E = re_client X; h0 = open_handler X h
      in case export_if_set E src ''export_destination'' True h0 of
           Inl e \<Rightarrow> ([], Some e, close_handler h0)
         | Inr (files, h1) \<Rightarrow>
             (case export_if_set E src ''export_destination_unfiltered'' False h1 of
                Inl e \<Rightarrow> (files, Some e, close_handler h1)
              | Inr (files', h2) \<Rightarrow> (case run_commit X h2 of (h3, e) \<Rightarrow> (files @ files', e, close_handler h3))))"

section \<open>A limit\<close>

text \<open>
  Every source that a transaction has to do with loses its request for a full reload when the transaction is
  committed. Here the export of a source that was marked for a reload commits, and the mark is gone.
\<close>

definition export_settings :: settings where
  "export_settings n = (if n = ''sources.TEST.export_destination'' then Some (CStr ''/export'') else None)"

definition marked_for_reload :: "ip3 handler" where
  "marked_for_reload = DatabaseHandler export_settings False
     \<lparr>t_objects = [], t_journal = [], t_status = [(new_status ''TEST'' False 1)\<lparr>force_reload := True\<rparr>], t_suspended = [],
      t_protected = [], t_roas = []\<rparr> 0 1"

lemma export_clears_reload:
  "map force_reload (t_status (committed marked_for_reload)) = [True] \<and>
   (case source_export_run (example_runner\<lparr>re_client := example_client\<lparr>ce_settings := export_settings\<rparr>\<rparr>) ''TEST'' marked_for_reload of
      (files, e, h) \<Rightarrow> e = None \<and> map ef_name files = [''test.db.gz''] \<and> map force_reload (t_status (committed h)) = [False])"
  by code_simp

end
