(* ===== verification/NRTM4_Server.thy ===== *)
theory NRTM4_Server
  imports Mirror_Runners
begin

text \<open>
  \<^verbatim>\<open>irrd/mirroring/nrtm4/nrtm4_server.py\<close>: the repository that a server publishes for a source. Its
  directory maps file names to contents with the time of their last change. A step gives its result
  together with the directory, since files that were changed before an exception stay changed. A run
  starts with the statistics of the journal, goes on when it has the lock of the status, and writes a
  snapshot without that lock, so that the parts of a run are steps of their own. Times are seconds; random
  tokens, compression and the JSON encoders are functions of the environment.
\<close>

type_synonym repository = "(string, string \<times> int) dict"

record ('ip, 't, 'k, 'rk, 'rt) server_env =
  se_run :: "('ip, 't, 'k, 'rk, 'rt) runner_env"
  se_clock :: int
  se_uuid :: string
  se_token :: string
  se_gzip :: "string \<Rightarrow> string"
  se_dumps :: "cval \<Rightarrow> string"
  se_unf_json :: "unf \<Rightarrow> string"

record server_writer =
  sw_source :: string
  sw_timestamp :: int
  sw_max_serial_global :: int
  sw_status :: nrtm4_server_status
  sw_original_status :: nrtm4_server_status

definition se_client :: "('ip, 't, 'k, 'rk, 'rt) server_env \<Rightarrow> ('ip, 't, 'k) client_env" where
  "se_client Z = re_client (se_run Z)"

definition se_settings :: "('ip, 't, 'k, 'rk, 'rt) server_env \<Rightarrow> settings" where
  "se_settings Z = re_settings (se_run Z)"

definition NRTM4_SERVER_DELTA_EXPIRY_TIME :: int where
  "NRTM4_SERVER_DELTA_EXPIRY_TIME = 24 * 3600"

definition DANGLING_SNAPSHOT_EXPIRY_TIME :: int where
  "DANGLING_SNAPSHOT_EXPIRY_TIME = 24 * 3600"

section \<open>Files\<close>

definition write_file :: "('ip, 't, 'k, 'rk, 'rt) server_env \<Rightarrow> string \<Rightarrow> string \<Rightarrow> repository \<Rightarrow> repository" where
  "write_file Z name content dir = dict_set name (content, se_clock Z) dir"

definition unlink :: "string \<Rightarrow> repository \<Rightarrow> repository" where
  "unlink name dir = filter (\<lambda>f. fst f \<noteq> name) dir"

definition file_hash_sha256 :: "('ip, 't, 'k, 'rk, 'rt) server_env \<Rightarrow> repository \<Rightarrow> string \<Rightarrow> string res" where
  "file_hash_sha256 Z dir name =
     (case dict_get dir name of
        None \<Rightarrow> Inl (OSError (''No such file or directory: '' @ py_repr name))
      | Some (content, _) \<Rightarrow> Inr (sha256_hex (ce_net (se_client Z)) content))"

text \<open>A file name that matches a pattern with one star between two texts.\<close>

definition glob_match :: "string \<Rightarrow> string \<Rightarrow> string \<Rightarrow> bool" where
  "glob_match front back name \<longleftrightarrow>
     py_startswith name front \<and> py_startswith (rev name) (rev back) \<and> length front + length back \<le> length name"

definition delta_file :: "string \<Rightarrow> bool" where
  "delta_file = glob_match ''nrtm-delta.'' ''.json.gz''"

definition snapshot_file :: "string \<Rightarrow> bool" where
  "snapshot_file = glob_match ''nrtm-snapshot.'' ''.json.gz''"

definition file_name :: "('ip, 't, 'k, 'rk, 'rt) server_env \<Rightarrow> string \<Rightarrow> nrtm4_server_status \<Rightarrow> int \<Rightarrow> string" where
  "file_name Z file_type status version =
     ''nrtm-'' @ file_type @ ''.'' @ (case sv_session_id status of None \<Rightarrow> ''None'' | Some s \<Rightarrow> s) @ ''.'' @ str_int version
     @ ''.'' @ se_token Z @ ''.json.gz''"

text \<open>The items that a loop writes, up to an exception that ends it.\<close>

fun gen_map :: "('a \<Rightarrow> 'b res) \<Rightarrow> 'a list \<Rightarrow> 'b generated" where
  "gen_map f [] = ([], None)"
| "gen_map f (x # xs) =
     (case f x of Inl e \<Rightarrow> ([], Some e) | Inr y \<Rightarrow> gen_append ([y], None) (gen_map f xs))"

definition header_json :: "string \<Rightarrow> string \<Rightarrow> nrtm4_server_status \<Rightarrow> int \<Rightarrow> cval" where
  "header_json file_type src status version =
     CDict [(''nrtm_version'', CInt 4), (''source'', CStr src),
            (''session_id'', case sv_session_id status of None \<Rightarrow> CNull | Some s \<Rightarrow> CStr s),
            (''version'', CInt version), (''type'', CStr file_type)]"

definition published_text :: "settings \<Rightarrow> string \<Rightarrow> string \<Rightarrow> string \<Rightarrow> string \<Rightarrow> string res" where
  "published_text gs src txt cls rpsl_pk = dummify_object_text gs (remove_auth_hashes txt) cls src rpsl_pk"

text \<open>A file of items, which is written and closed also when the loop raises.\<close>

definition write_items :: "('ip, 't, 'k, 'rk, 'rt) server_env \<Rightarrow> string \<Rightarrow> cval \<Rightarrow> cval generated \<Rightarrow> repository
    \<Rightarrow> unit res \<times> repository" where
  "write_items Z name header items dir =
     (case snd items of None \<Rightarrow> Inr () | Some e \<Rightarrow> Inl e,
      write_file Z name (se_gzip Z (jsonseq_encode (se_dumps Z) (header # fst items))) dir)"

section \<open>Deltas and snapshots\<close>

definition delta_rows :: "('ip, 't, 'k, 'rk, 'rt) server_env \<Rightarrow> string \<Rightarrow> int \<Rightarrow> 'ip handler \<Rightarrow> (journal_entry list \<times> 'ip handler) res" where
  "delta_rows Z src serial_global_start h =
     execute_query (ce_pg (se_client Z)) (se_settings Z) (ce_now (se_client Z)) journal_columns t_journal
       (rbind (q_sources journal_columns [src] (RPSLDatabaseJournalQuery (ce_pg (se_client Z))))
         (serial_global_range serial_global_start None)) h"

definition delta_item :: "settings \<Rightarrow> string \<Rightarrow> journal_entry \<Rightarrow> cval res" where
  "delta_item gs src e =
     (case je_operation e of
        add_or_update \<Rightarrow>
          rbind (published_text gs src (je_text e) (je_class e) (je_rpsl_pk e)) (\<lambda>t.
            Inr (CDict [(''action'', CStr ''add_modify''), (''object'', CStr t)]))
      | op_delete \<Rightarrow>
          Inr (CDict [(''action'', CStr ''delete''), (''object_class'', CStr (je_class e)),
                      (''primary_key'', CStr (je_rpsl_pk e))]))"

definition write_delta :: "('ip, 't, 'k, 'rk, 'rt) server_env \<Rightarrow> server_writer \<Rightarrow> int \<Rightarrow> int \<Rightarrow> 'ip handler \<Rightarrow> repository
    \<Rightarrow> string option res \<times> repository" where
  "write_delta Z w version serial_global_start h dir =
     (case delta_rows Z (sw_source w) serial_global_start h of
        Inl e \<Rightarrow> (Inl e, dir)
      | Inr ([], h1) \<Rightarrow> (Inr None, dir)
      | Inr (rows, h1) \<Rightarrow>
          (let name = file_name Z ''delta'' (sw_status w) version
           in case write_items Z name (header_json ''delta'' (sw_source w) (sw_status w) version)
                     (gen_map (delta_item (se_settings Z) (sw_source w)) rows) dir of
                (Inl e, dir1) \<Rightarrow> (Inl e, dir1)
              | (Inr u, dir1) \<Rightarrow> (Inr (Some name), dir1)))"

definition snapshot_rows :: "('ip, 't, 'k, 'rk, 'rt) server_env \<Rightarrow> string \<Rightarrow> 'ip handler \<Rightarrow> (db_row list \<times> 'ip handler) res" where
  "snapshot_rows Z src h =
     execute_query (ce_pg (se_client Z)) (se_settings Z) (ce_now (se_client Z)) object_columns t_objects
       (rbind (q_sources object_columns [src] RPSLDatabaseQuery) default_suppression) h"

definition snapshot_item :: "settings \<Rightarrow> string \<Rightarrow> db_row \<Rightarrow> cval res" where
  "snapshot_item gs src r =
     rbind (published_text gs src (c_text r) (c_class r) (c_rpsl_pk r)) (\<lambda>t. Inr (CDict [(''object'', CStr t)]))"

definition write_snapshot :: "('ip, 't, 'k, 'rk, 'rt) server_env \<Rightarrow> server_writer \<Rightarrow> int \<Rightarrow> 'ip handler \<Rightarrow> repository
    \<Rightarrow> string res \<times> repository" where
  "write_snapshot Z w version h dir =
     (case snapshot_rows Z (sw_source w) h of
        Inl e \<Rightarrow> (Inl e, dir)
      | Inr (rows, h1) \<Rightarrow>
          (let name = file_name Z ''snapshot'' (sw_status w) version
           in case write_items Z name (header_json ''snapshot'' (sw_source w) (sw_status w) version)
                     (gen_map (snapshot_item (se_settings Z) (sw_source w)) rows) dir of
                (Inl e, dir1) \<Rightarrow> (Inl e, dir1)
              | (Inr u, dir1) \<Rightarrow> (Inr name, dir1)))"

section \<open>Expiry\<close>

text \<open>The deltas that stay; an expired one whose file is gone raises, after others were deleted.\<close>

fun expire_loop :: "int \<Rightarrow> server_delta list \<Rightarrow> repository \<Rightarrow> server_delta list res \<times> repository" where
  "expire_loop now [] dir = (Inr [], dir)"
| "expire_loop now (d # ds) dir =
     (if now - sd_timestamp d > NRTM4_SERVER_DELTA_EXPIRY_TIME
      then (if dict_get dir (sd_filename d) = None
            then (Inl (OSError (''No such file or directory: '' @ py_repr (sd_filename d))), dir)
            else expire_loop now ds (unlink (sd_filename d) dir))
      else (case expire_loop now ds dir of
              (Inl e, dir1) \<Rightarrow> (Inl e, dir1) | (Inr kept, dir1) \<Rightarrow> (Inr (d # kept), dir1)))"

definition expire_deltas :: "server_writer \<Rightarrow> repository \<Rightarrow> server_writer res \<times> repository" where
  "expire_deltas w dir =
     (case expire_loop (sw_timestamp w) (sv_previous_deltas (sw_status w)) dir of
        (Inl e, dir1) \<Rightarrow> (Inl e, dir1)
      | (Inr kept, dir1) \<Rightarrow>
          (Inr (w\<lparr>sw_status := (sw_status w)\<lparr>sv_previous_deltas := kept\<rparr>\<rparr>),
           filter (\<lambda>(name, f). \<not> delta_file name \<or> name \<in> set (map sd_filename kept)) dir1))"

definition expire_snapshots :: "server_writer \<Rightarrow> repository \<Rightarrow> repository" where
  "expire_snapshots w dir =
     filter (\<lambda>(name, content, modified).
       \<not> (snapshot_file name \<and> sw_timestamp w - modified > DANGLING_SNAPSHOT_EXPIRY_TIME
          \<and> Some name \<noteq> sv_last_snapshot_filename (sw_status w))) dir"

section \<open>The Update Notification File\<close>

definition int_or_null :: "int option \<Rightarrow> cval" where
  "int_or_null n = (case n of None \<Rightarrow> CNull | Some i \<Rightarrow> CInt i)"

definition str_or_null :: "string option \<Rightarrow> cval" where
  "str_or_null t = (case t of None \<Rightarrow> CNull | Some s \<Rightarrow> CStr s)"

definition reference_args :: "int option \<Rightarrow> string option \<Rightarrow> string option \<Rightarrow> cval" where
  "reference_args version name hash =
     CDict [(''version'', int_or_null version), (''url'', str_or_null name), (''hash'', str_or_null hash)]"

definition delta_reference_args :: "server_delta \<Rightarrow> cval" where
  "delta_reference_args d = reference_args (Some (sd_version d)) (Some (sd_filename d)) (Some (sd_hash d))"

text \<open>The arguments of the constructor of the model, which validates them as it does a file.\<close>

definition unf_args :: "server_writer \<Rightarrow> string option \<Rightarrow> cval" where
  "unf_args w next_key =
     (let st = sw_status w
      in CDict [(''nrtm_version'', CInt 4), (''type'', CStr ''notification''), (''source'', CStr (sw_source w)),
                (''session_id'', str_or_null (sv_session_id st)), (''version'', int_or_null (sv_version st)),
                (''timestamp'', CInt (sw_timestamp w)), (''next_signing_key'', str_or_null next_key),
                (''snapshot'', reference_args (sv_last_snapshot_version st) (sv_last_snapshot_filename st) (sv_last_snapshot_hash st)),
                (''deltas'', CList (map delta_reference_args (sv_previous_deltas st)))])"

definition next_public_key :: "('ip, 't, 'k, 'rk, 'rt) server_env \<Rightarrow> string \<Rightarrow> string option res" where
  "next_public_key Z src =
     (let EC = ce_ec (se_client Z)
      in rbind (eckey_from_config EC (se_settings Z) (source_key src ''nrtm4_server_private_key_next'') True) (\<lambda>key_opt.
           case key_opt of None \<Rightarrow> Inr None | Some key \<Rightarrow> rbind (eckey_public_key_as_str EC key) (\<lambda>k. Inr (Some k))))"

definition built_unf :: "('ip, 't, 'k, 'rk, 'rt) server_env \<Rightarrow> server_writer \<Rightarrow> unf res" where
  "built_unf Z w =
     rbind (next_public_key Z (sw_source w)) (\<lambda>next_key.
       raise_invalid (NRTM4UpdateNotificationFile (ce_pydantic (se_client Z)) (ce_ec (se_client Z)) (se_clock Z) None
         (unf_args w next_key)))"

definition signed_unf :: "('ip, 't, 'k, 'rk, 'rt) server_env \<Rightarrow> server_writer \<Rightarrow> unf \<Rightarrow> string res" where
  "signed_unf Z w u =
     (if list_ex (\<lambda>c. 128 \<le> ord c) (se_unf_json Z u) then Inl (ValueError ''ordinal not in range(128)'')
      else rbind (eckey_from_config (ce_ec (se_client Z)) (se_settings Z) (source_key (sw_source w) ''nrtm4_server_private_key'') False) (\<lambda>key_opt.
           case key_opt of
             None \<Rightarrow> Inl (AssertionError [])
           | Some key \<Rightarrow> jws_serialize (ce_ec (se_client Z)) (se_unf_json Z u) key))"

definition write_unf :: "('ip, 't, 'k, 'rk, 'rt) server_env \<Rightarrow> server_writer \<Rightarrow> repository \<Rightarrow> server_writer res \<times> repository" where
  "write_unf Z w dir =
     (case rbind (built_unf Z w) (\<lambda>u. rbind (signed_unf Z w u) (\<lambda>content. Inr (u, content))) of
        Inl e \<Rightarrow> (Inl e, dir)
      | Inr (u, content) \<Rightarrow>
          (Inr (w\<lparr>sw_status := (sw_status w)\<lparr>sv_last_update_notification_file_update := Some (unf_timestamp u)\<rparr>\<rparr>),
           write_file Z UPDATE_NOTIFICATION_FILENAME content dir))"

section \<open>The status\<close>

definition load_server_status :: "('ip, 't, 'k, 'rk, 'rt) server_env \<Rightarrow> string \<Rightarrow> 'ip handler
    \<Rightarrow> ((bool \<times> nrtm4_server_status) option \<times> 'ip handler) res" where
  "load_server_status Z src h =
     rbind (flush_for_query (se_client Z) h) (\<lambda>h1.
       Inr (case DatabaseStatusQuery (ce_pg (se_client Z)) [src] (cur h1) of
              [] \<Rightarrow> None | s # ss \<Rightarrow> Some (force_reload s, nrtm4_server s), h1))"

definition NRTM4ServerWriter :: "('ip, 't, 'k, 'rk, 'rt) server_env \<Rightarrow> string \<Rightarrow> 'ip handler \<Rightarrow> server_writer" where
  "NRTM4ServerWriter Z src h =
     \<lparr>sw_source = src, sw_timestamp = ce_now (se_client Z),
      sw_max_serial_global = (case fst (RPSLDatabaseJournalStatisticsQuery (cur h)) of None \<Rightarrow> 0 | Some n \<Rightarrow> n),
      sw_status = no_server_status, sw_original_status = no_server_status\<rparr>"

text \<open>A record of the status, when it has changed, and a commit.\<close>

definition store_status :: "('ip, 't, 'k, 'rk, 'rt) server_env \<Rightarrow> server_writer \<Rightarrow> 'ip handler \<Rightarrow> 'ip handler res" where
  "store_status Z w h =
     rbind (if sw_status w \<noteq> sw_original_status w then record_nrtm4_server_status (sw_source w) (sw_status w) h else Inr h) (\<lambda>h1.
       case run_commit (se_run Z) h1 of (h2, Some e) \<Rightarrow> Inl e | (h2, None) \<Rightarrow> Inr h2)"

definition commit_status :: "('ip, 't, 'k, 'rk, 'rt) server_env \<Rightarrow> server_writer \<Rightarrow> 'ip handler \<Rightarrow> repository
    \<Rightarrow> (server_writer \<times> 'ip handler) res \<times> repository" where
  "commit_status Z w h dir =
     (case expire_deltas w dir of
        (Inl e, dir1) \<Rightarrow> (Inl e, dir1)
      | (Inr w1, dir1) \<Rightarrow>
          (case write_unf Z w1 dir1 of
             (Inl e, dir2) \<Rightarrow> (Inl e, dir2)
           | (Inr w2, dir2) \<Rightarrow>
               (let dir3 = expire_snapshots w2 dir2
                in case store_status Z w2 h of
                     Inl e \<Rightarrow> (Inl e, dir3) | Inr h1 \<Rightarrow> (Inr (w2, h1), dir3))))"

section \<open>A run\<close>

definition status_files :: "nrtm4_server_status \<Rightarrow> string list" where
  "status_files st =
     map sd_filename (sv_previous_deltas st)
     @ (if str_truthy (sv_last_snapshot_filename st) then [the (sv_last_snapshot_filename st)] else [])"

definition verify_integrity :: "nrtm4_server_status \<Rightarrow> repository \<Rightarrow> bool" where
  "verify_integrity st dir = list_all (\<lambda>name. dict_get dir name \<noteq> None) (status_files st)"

definition new_session :: "('ip, 't, 'k, 'rk, 'rt) server_env \<Rightarrow> nrtm4_server_status \<Rightarrow> nrtm4_server_status" where
  "new_session Z st =
     st\<lparr>sv_session_id := Some (se_uuid Z), sv_version := Some 1, sv_last_snapshot_version := None,
        sv_last_snapshot_global_serial := None, sv_previous_deltas := []\<rparr>"

definition next_serial_start :: "nrtm4_server_status \<Rightarrow> int res" where
  "next_serial_start st =
     (if sv_previous_deltas st \<noteq> [] then Inr (sd_serial_global_end (List.last (sv_previous_deltas st)) + 1)
      else (case sv_last_snapshot_global_serial st of
              None \<Rightarrow> Inl (TypeError ''unsupported operand type(s) for +=: NoneType and int'') | Some n \<Rightarrow> Inr (n + 1)))"

text \<open>The status with a delta, when there is anything to publish.\<close>

definition add_delta :: "('ip, 't, 'k, 'rk, 'rt) server_env \<Rightarrow> server_writer \<Rightarrow> 'ip handler \<Rightarrow> repository
    \<Rightarrow> server_writer res \<times> repository" where
  "add_delta Z w h dir =
     (case next_serial_start (sw_status w) of
        Inl e \<Rightarrow> (Inl e, dir)
      | Inr start \<Rightarrow>
          (case sv_version (sw_status w) of
             None \<Rightarrow> (Inl (TypeError ''unsupported operand type(s) for +: NoneType and int''), dir)
           | Some version \<Rightarrow>
               (case write_delta Z w (version + 1) start h dir of
                  (Inl e, dir1) \<Rightarrow> (Inl e, dir1)
                | (Inr None, dir1) \<Rightarrow> (Inr w, dir1)
                | (Inr (Some name), dir1) \<Rightarrow>
                    (case file_hash_sha256 Z dir1 name of
                       Inl e \<Rightarrow> (Inl e, dir1)
                     | Inr hash \<Rightarrow>
                         (Inr (w\<lparr>sw_status := (sw_status w)\<lparr>sv_version := Some (version + 1),
                            sv_previous_deltas := sv_previous_deltas (sw_status w) @
                              [\<lparr>sd_filename = name, sd_hash = hash, sd_timestamp = sw_timestamp w, sd_version = version + 1,
                                sd_serial_global_start = start, sd_serial_global_end = sw_max_serial_global w\<rparr>]\<rparr>\<rparr>), dir1)))))"

definition snapshot_frequency :: "settings \<Rightarrow> string \<Rightarrow> int res" where
  "snapshot_frequency gs src = cval_int (get_setting_or gs (source_key src ''nrtm4_server_snapshot_frequency'') (CInt (3600 * 4)))"

definition should_create_snapshot :: "server_writer \<Rightarrow> int \<Rightarrow> bool res" where
  "should_create_snapshot w frequency =
     (let st = sw_status w
      in if sv_last_snapshot_version st \<in> {None, Some 0} then Inr True
         else if sv_last_snapshot_version st = sv_version st then Inr False
         else (case sv_last_snapshot_timestamp st of
                 None \<Rightarrow> Inl (TypeError ''unsupported operand type(s) for -'')
               | Some t \<Rightarrow> Inr (frequency < sw_timestamp w - t)))"

text \<open>
  The first part of a run. Its result is the writer that goes on with a snapshot, and whether it still has
  the lock of the status, which is so for a new session.
\<close>

definition after_status :: "('ip, 't, 'k, 'rk, 'rt) server_env \<Rightarrow> bool \<Rightarrow> bool \<Rightarrow> server_writer \<Rightarrow> 'ip handler \<Rightarrow> repository
    \<Rightarrow> (server_writer \<times> bool) option res \<times> 'ip handler \<times> repository" where
  "after_status Z snapshot_lock initial w h dir =
     (case rbind (snapshot_frequency (se_settings Z) (sw_source w)) (should_create_snapshot w) of
        Inl e \<Rightarrow> (Inl e, h, dir)
      | Inr False \<Rightarrow> (Inr None, h, dir)
      | Inr True \<Rightarrow>
          if snapshot_lock then (Inr (Some (w, initial)), h, dir)
          else if initial
          then (case commit_status Z w h dir of
                  (Inl e, dir1) \<Rightarrow> (Inl e, h, dir1) | (Inr (w1, h1), dir1) \<Rightarrow> (Inr None, h1, dir1))
          else (Inr None, h, dir))"

definition server_start :: "('ip, 't, 'k, 'rk, 'rt) server_env \<Rightarrow> server_writer \<Rightarrow> bool \<Rightarrow> bool \<Rightarrow> 'ip handler \<Rightarrow> repository
    \<Rightarrow> (server_writer \<times> bool) option res \<times> 'ip handler \<times> repository" where
  "server_start Z w0 status_lock snapshot_lock h0 dir =
     (if \<not> status_lock then (Inr None, h0, dir)
      else case load_server_status Z (sw_source w0) h0 of
        Inl e \<Rightarrow> (Inl e, h0, dir)
      | Inr (None, h) \<Rightarrow> (Inr None, h, dir)
      | Inr (Some (reload, st), h) \<Rightarrow>
          if reload then (Inr None, h, dir)
          else if \<not> str_truthy (sv_session_id st) \<or> \<not> verify_integrity st dir
          then after_status Z snapshot_lock True (w0\<lparr>sw_status := new_session Z st, sw_original_status := st\<rparr>) h dir
          else (case add_delta Z (w0\<lparr>sw_status := st, sw_original_status := st\<rparr>) h dir of
                  (Inl e, dir1) \<Rightarrow> (Inl e, h, dir1)
                | (Inr w1, dir1) \<Rightarrow>
                    (case commit_status Z w1 h dir1 of
                       (Inl e, dir2) \<Rightarrow> (Inl e, h, dir2)
                     | (Inr (w2, h2), dir2) \<Rightarrow> after_status Z snapshot_lock False w2 h2 dir2)))"

text \<open>
  The second part, after the snapshot was written, with the lock of the status again. A run that is not
  the first of its session reads the status anew.
\<close>

definition with_snapshot :: "server_writer \<Rightarrow> string \<Rightarrow> int option \<Rightarrow> string \<Rightarrow> server_writer" where
  "with_snapshot w name version hash =
     w\<lparr>sw_status := (sw_status w)\<lparr>sv_last_snapshot_filename := Some name, sv_last_snapshot_version := version,
        sv_last_snapshot_global_serial := Some (sw_max_serial_global w),
        sv_last_snapshot_timestamp := Some (sw_timestamp w), sv_last_snapshot_hash := Some hash\<rparr>\<rparr>"

definition refreshed_status :: "('ip, 't, 'k, 'rk, 'rt) server_env \<Rightarrow> server_writer \<Rightarrow> bool \<Rightarrow> 'ip handler
    \<Rightarrow> (server_writer \<times> 'ip handler) res" where
  "refreshed_status Z w initial h =
     (if initial then Inr (w, h)
      else (case run_commit (se_run Z) h of
              (h1, Some e) \<Rightarrow> Inl e
            | (h1, None) \<Rightarrow>
                rbind (load_server_status Z (sw_source w) h1) (\<lambda>(status, h2).
                  case status of
                    None \<Rightarrow> Inl (AttributeError ''NoneType object has no attribute last_snapshot_filename'')
                  | Some (reload, st) \<Rightarrow> Inr (w\<lparr>sw_status := st, sw_original_status := st\<rparr>, h2))))"

definition server_finish :: "('ip, 't, 'k, 'rk, 'rt) server_env \<Rightarrow> server_writer \<Rightarrow> bool \<Rightarrow> string \<Rightarrow> 'ip handler \<Rightarrow> repository
    \<Rightarrow> unit res \<times> 'ip handler \<times> repository" where
  "server_finish Z w initial name h dir =
     (case rbind (refreshed_status Z w initial h) (\<lambda>(w1, h1).
             rbind (file_hash_sha256 Z dir name) (\<lambda>hash.
               Inr (with_snapshot w1 name (sv_version (sw_status w)) hash, h1))) of
        Inl e \<Rightarrow> (Inl e, h, dir)
      | Inr (w2, h1) \<Rightarrow>
          (case commit_status Z w2 h1 dir of
             (Inl e, dir1) \<Rightarrow> (Inl e, h1, dir1) | (Inr (w3, h2), dir1) \<Rightarrow> (Inr (), h2, dir1)))"

text \<open>A run that nothing interrupts.\<close>

definition server_run :: "('ip, 't, 'k, 'rk, 'rt) server_env \<Rightarrow> string \<Rightarrow> 'ip handler \<Rightarrow> repository
    \<Rightarrow> unit res \<times> 'ip handler \<times> repository" where
  "server_run Z src h dir =
     (let h0 = open_handler (se_run Z) h
      in case server_start Z (NRTM4ServerWriter Z src h0) True True h0 dir of
           (Inl e, h1, dir1) \<Rightarrow> (Inl e, close_handler h1, dir1)
         | (Inr None, h1, dir1) \<Rightarrow> (Inr (), close_handler h1, dir1)
         | (Inr (Some (w, initial)), h1, dir1) \<Rightarrow>
             (case write_snapshot Z w (the (sv_version (sw_status w))) h1 dir1 of
                (Inl e, dir2) \<Rightarrow> (Inl e, close_handler h1, dir2)
              | (Inr name, dir2) \<Rightarrow>
                  (case server_finish Z w initial name h1 dir2 of (r, h2, dir3) \<Rightarrow> (r, close_handler h2, dir3))))"

end
