(* ===== verification/NRTM4_Server_Facts.thy ===== *)
theory NRTM4_Server_Facts
  imports NRTM4_Server NRTM4_Client_Facts Status_Rows
begin

text \<open>
  What a repository of the NRTM version 4 server holds: every file that the status of the source announces,
  as long as it exists, has the announced hash, and after a run that published, the notification file
  refers to files that exist.
\<close>

section \<open>The directory\<close>

text \<open>A step changes at most the files \<open>D\<close>, and may remove others.\<close>

definition only_changes :: "string set \<Rightarrow> repository \<Rightarrow> repository \<Rightarrow> bool" where
  "only_changes D dir dir' \<longleftrightarrow> distinct (dict_keys dir') \<and> (\<forall>n. n \<notin> D \<longrightarrow> dict_get dir' n \<in> {None, dict_get dir n})"

lemma only_changes_refl: "distinct (dict_keys dir) \<Longrightarrow> only_changes D dir dir"
  by (simp add: only_changes_def)

lemma only_changes_trans: "only_changes D dir dir' \<Longrightarrow> only_changes D' dir' dir'' \<Longrightarrow> only_changes (D \<union> D') dir dir''"
  by (fastforce simp: only_changes_def)

lemma only_changes_mono: "only_changes D dir dir' \<Longrightarrow> D \<subseteq> D' \<Longrightarrow> only_changes D' dir dir'"
  by (auto simp: only_changes_def)

lemma filter_changes:
  assumes "distinct (dict_keys dir)"
  shows "only_changes D dir (filter P dir)"
proof -
  have d: "distinct (dict_keys (filter P dir))" using assms by (simp add: dict_keys_def distinct_map_filter)
  moreover have "dict_get (filter P dir) n \<in> {None, dict_get dir n}" for n
  proof (cases "dict_get (filter P dir) n")
    case (Some v)
    from dict_get_in [OF this] have "(n, v) \<in> set dir" by simp
    with Some show ?thesis using assms by (simp add: dict_get_iff)
  qed simp
  ultimately show ?thesis by (simp add: only_changes_def)
qed

lemma filter_keeps: "dict_get (filter (\<lambda>f. P (fst f)) dir) n = (if P n then dict_get dir n else None)"
  by (induction dir) auto

lemma write_changes:
  "distinct (dict_keys dir) \<Longrightarrow> only_changes {name} dir (write_file Z name content dir)"
  by (simp add: only_changes_def write_file_def distinct_dict_keys_set)

lemma expire_loop_changes: "distinct (dict_keys dir) \<Longrightarrow> only_changes {} dir (snd (expire_loop now ds dir))"
proof (induction now ds dir rule: expire_loop.induct)
  case (2 now d ds dir)
  have u: "only_changes {} dir (unlink (sd_filename d) dir)" unfolding unlink_def by (rule filter_changes) (rule 2(3))
  then have "distinct (dict_keys (unlink (sd_filename d) dir))" by (simp add: only_changes_def)
  with 2 only_changes_trans [OF u] show ?case
    by (cases "expire_loop now ds dir") (auto simp: only_changes_refl split: sum.splits)
qed (simp add: only_changes_refl)

lemma only_changes_distinct: "only_changes D dir dir' \<Longrightarrow> distinct (dict_keys dir')"
  by (simp add: only_changes_def)

lemma expire_deltas_changes:
  assumes "distinct (dict_keys dir)"
  shows "only_changes {} dir (snd (expire_deltas w dir))"
proof -
  obtain r dir1 where e: "expire_loop (sw_timestamp w) (sv_previous_deltas (sw_status w)) dir = (r, dir1)" by fastforce
  with expire_loop_changes [OF assms, of "sw_timestamp w" "sv_previous_deltas (sw_status w)"] have c: "only_changes {} dir dir1" by simp
  have "only_changes {} dir1 (filter P dir1)" for P by (rule filter_changes) (rule only_changes_distinct [OF c])
  from only_changes_trans [OF c this] c e show ?thesis by (auto simp: expire_deltas_def split: sum.splits)
qed

lemma write_items_changes:
  "write_items Z name header items dir = (r, dir') \<Longrightarrow> distinct (dict_keys dir) \<Longrightarrow> only_changes {name} dir dir'"
  by (auto simp: write_items_def write_changes)

lemma write_items_written:
  "write_items Z name header items dir = (Inr u, dir') \<Longrightarrow>
   snd items = None \<and> dict_get dir' name = Some (se_gzip Z (jsonseq_encode (se_dumps Z) (header # fst items)), se_clock Z)"
  by (auto simp: write_items_def write_file_def split: option.splits)

lemma write_unf_changes:
  "write_unf Z w dir = (r, dir') \<Longrightarrow> distinct (dict_keys dir) \<Longrightarrow> only_changes {UPDATE_NOTIFICATION_FILENAME} dir dir'"
  by (auto simp: write_unf_def only_changes_refl write_changes split: sum.splits)

lemma write_delta_changes:
  assumes "write_delta Z w version start h dir = (r, dir')" "distinct (dict_keys dir)"
  shows "only_changes {file_name Z ''delta'' (sw_status w) version} dir dir'"
  using assms unfolding write_delta_def
  by (auto simp: only_changes_refl Let_def split: sum.splits list.splits prod.splits dest!: write_items_changes)

lemma write_snapshot_changes:
  assumes "write_snapshot Z w version h dir = (r, dir')" "distinct (dict_keys dir)"
  shows "only_changes {file_name Z ''snapshot'' (sw_status w) version} dir dir'"
  using assms unfolding write_snapshot_def
  by (auto simp: only_changes_refl Let_def split: sum.splits prod.splits dest!: write_items_changes)

lemma write_delta_Some:
  "write_delta Z w version start h dir = (Inr (Some name), dir') \<Longrightarrow>
   name = file_name Z ''delta'' (sw_status w) version \<and> dict_get dir' name \<noteq> None"
  unfolding write_delta_def
  by (auto simp: Let_def split: sum.splits list.splits prod.splits dest!: write_items_written)

lemma write_snapshot_Inr:
  "write_snapshot Z w version h dir = (Inr name, dir') \<Longrightarrow>
   name = file_name Z ''snapshot'' (sw_status w) version \<and> dict_get dir' name \<noteq> None"
  unfolding write_snapshot_def
  by (auto simp: Let_def split: sum.splits prod.splits dest!: write_items_written)

section \<open>File names\<close>

lemma startswith_append: "py_startswith (p @ s) p"
  by (induction p) simp_all

lemma glob_match_append: "glob_match front back (front @ s @ back)"
  using startswith_append [of "rev back" "rev s @ rev front"] by (simp add: glob_match_def startswith_append)

lemma file_name_parts: "\<exists>s. file_name Z file_type st v = ''nrtm-'' @ file_type @ ''.'' @ s @ ''.json.gz''"
  unfolding file_name_def by (rule exI [of _ "(case sv_session_id st of None \<Rightarrow> ''None'' | Some s \<Rightarrow> s) @ ''.'' @ str_int v @ ''.'' @ se_token Z"]) simp

lemma delta_file_name: "delta_file (file_name Z ''delta'' st v)"
proof -
  obtain s where "file_name Z ''delta'' st v = ''nrtm-delta.'' @ s @ ''.json.gz''" using file_name_parts [of Z "''delta''" st v] by auto
  then show ?thesis unfolding delta_file_def by (simp only: glob_match_append)
qed

lemma snapshot_file_name: "snapshot_file (file_name Z ''snapshot'' st v)"
proof -
  obtain s where "file_name Z ''snapshot'' st v = ''nrtm-snapshot.'' @ s @ ''.json.gz''" using file_name_parts [of Z "''snapshot''" st v] by auto
  then show ?thesis unfolding snapshot_file_def by (simp only: glob_match_append)
qed

lemma not_both: "delta_file n \<Longrightarrow> \<not> snapshot_file n"
  by (cases n; cases "tl n"; cases "tl (tl n)"; cases "tl (tl (tl n))"; cases "tl (tl (tl (tl n)))"; cases "tl (tl (tl (tl (tl n))))")
    (auto simp: delta_file_def snapshot_file_def glob_match_def)

lemma notification_name: "\<not> delta_file UPDATE_NOTIFICATION_FILENAME" "\<not> snapshot_file UPDATE_NOTIFICATION_FILENAME"
  by code_simp+

section \<open>The status of a source\<close>

definition published :: "nrtm4_server_status \<Rightarrow> (string \<times> string) list" where
  "published st = map (\<lambda>d. (sd_filename d, sd_hash d)) (sv_previous_deltas st)
     @ (case (sv_last_snapshot_filename st, sv_last_snapshot_hash st) of (Some n, Some x) \<Rightarrow> [(n, x)] | _ \<Rightarrow> [])"

definition published_names :: "nrtm4_server_status \<Rightarrow> string list" where
  "published_names st = map sd_filename (sv_previous_deltas st)
     @ (case sv_last_snapshot_filename st of None \<Rightarrow> [] | Some n \<Rightarrow> [n])"

lemma published_named: "(n, x) \<in> set (published st) \<Longrightarrow> n \<in> set (published_names st)"
  by (auto simp: published_def published_names_def split: option.splits)

text \<open>The names are those of deltas and of a snapshot, and a file that exists has the hash of the status.\<close>

definition repository_ok :: "(string \<Rightarrow> string) \<Rightarrow> nrtm4_server_status \<Rightarrow> repository \<Rightarrow> bool" where
  "repository_ok sha st dir \<longleftrightarrow>
     distinct (map sd_filename (sv_previous_deltas st)) \<and> (\<forall>d\<in>set (sv_previous_deltas st). delta_file (sd_filename d))
     \<and> (\<forall>n. sv_last_snapshot_filename st = Some n \<longrightarrow> snapshot_file n)
     \<and> (\<forall>(n, x)\<in>set (published st). \<forall>data t. dict_get dir n = Some (data, t) \<longrightarrow> sha data = x)"

definition files_exist :: "nrtm4_server_status \<Rightarrow> repository \<Rightarrow> bool" where
  "files_exist st dir \<longleftrightarrow> (\<forall>n\<in>set (published_names st). dict_get dir n \<noteq> None)"

definition fresh_for :: "('ip, 't, 'k, 'rk, 'rt) server_env \<Rightarrow> string \<Rightarrow> nrtm4_server_status \<Rightarrow> bool" where
  "fresh_for Z file_type st \<longleftrightarrow> (\<forall>st' v. file_name Z file_type st' v \<notin> set (published_names st))"

lemma repository_ok_names: "repository_ok sha st dir \<Longrightarrow> n \<in> set (published_names st) \<Longrightarrow> delta_file n \<or> snapshot_file n"
  by (auto simp: repository_ok_def published_names_def split: option.splits)

lemma not_notification: "repository_ok sha st dir \<Longrightarrow> UPDATE_NOTIFICATION_FILENAME \<notin> set (published_names st)"
  using repository_ok_names notification_name by blast

lemma repository_ok_changes:
  assumes "repository_ok sha st dir" "only_changes D dir dir'" "set (published_names st) \<inter> D = {}"
  shows "repository_ok sha st dir'"
proof -
  have "sha data = x" if p: "(n, x) \<in> set (published st)" and d: "dict_get dir' n = Some (data, t)" for n x data t
  proof -
    from published_named [OF p] assms(3) have "n \<notin> D" by auto
    with assms(2) d have "dict_get dir n = Some (data, t)" by (fastforce simp: only_changes_def)
    with assms(1) p show ?thesis by (auto simp: repository_ok_def)
  qed
  with assms(1) show ?thesis by (auto simp: repository_ok_def)
qed

lemma no_status_ok [simp]: "repository_ok sha no_server_status dir" "files_exist no_server_status dir" "fresh_for Z file_type no_server_status"
  by (simp_all add: repository_ok_def files_exist_def fresh_for_def no_server_status_def published_def published_names_def)

abbreviation server_pending :: "'ip handler \<Rightarrow> (string \<times> nrtm4_server_status) set" where
  "server_pending \<equiv> pending_rows nrtm4_server nrtm4_server_updates no_server_status"

text \<open>
  The invariant of a run: it holds of every status of the source that a commit may store. The files that
  the run still writes, of the types \<open>ts\<close>, are in none of them.
\<close>

definition server_inv :: "('ip, 't, 'k, 'rk, 'rt) server_env \<Rightarrow> string \<Rightarrow> string set \<Rightarrow> 'ip handler \<Rightarrow> repository \<Rightarrow> bool" where
  "server_inv Z src ts h dir \<longleftrightarrow> distinct (dict_keys dir) \<and> nrtm4_server_updates (status_tracker h) = [] \<and>
     (\<forall>st. (src, st) \<in> server_pending h \<longrightarrow>
        repository_ok (sha256_hex (ce_net (se_client Z))) st dir \<and> (\<forall>file_type\<in>ts. fresh_for Z file_type st))"

lemma server_inv_changes:
  assumes "server_inv Z src ts h dir" "only_changes D dir dir'" "ts' \<subseteq> ts"
    and "\<And>st. (src, st) \<in> server_pending h \<Longrightarrow> repository_ok (sha256_hex (ce_net (se_client Z))) st dir \<Longrightarrow>
      \<forall>file_type\<in>ts. fresh_for Z file_type st \<Longrightarrow> set (published_names st) \<inter> D = {}"
  shows "server_inv Z src ts' h dir'"
  using assms repository_ok_changes [OF _ assms(2)] by (fastforce simp: server_inv_def dest: only_changes_distinct)

lemma server_inv_notification:
  assumes "server_inv Z src ts h dir" "only_changes {UPDATE_NOTIFICATION_FILENAME} dir dir'"
  shows "server_inv Z src ts h dir'"
  using assms by (rule server_inv_changes) (use not_notification in auto)

lemma server_inv_removed: "server_inv Z src ts h dir \<Longrightarrow> only_changes {} dir dir' \<Longrightarrow> server_inv Z src ts h dir'"
  by (erule server_inv_changes) auto

lemma server_inv_kept:
  assumes "server_inv Z src ts h dir" "status_kept h h'"
  shows "server_inv Z src ts h' dir"
  using assms server_status.kept_pending [OF assms(2)] by (auto simp: server_inv_def status_kept_def)

section \<open>A commit\<close>

lemma commit_fresh:
  assumes "commit R L overlaps gs now h = (h', None)"
  shows "nrtm4_server_updates (status_tracker h') = []" "cur h' = committed h'"
    "server_pending h' \<subseteq> server_pending h"
proof -
  show u: "nrtm4_server_updates (status_tracker h') = []" and c: "cur h' = committed h'"
    using assms by (auto simp: tracker_init_def elim: commit_NoneE)
  from server_status.commit_rows [of R L overlaps gs now h] assms have "stored_rows nrtm4_server (committed h') \<subseteq> server_pending h" by simp
  then show "server_pending h' \<subseteq> server_pending h" using u c by (auto simp: pending_rows_def)
qed

lemma update_one_server:
  "\<forall>s\<in>set (t_status (update_each (\<lambda>v s. s\<lparr>nrtm4_server := v\<rparr>) [(src, st)] T)). st_source s = src \<longrightarrow> nrtm4_server s = st"
proof
  fix s
  assume "s \<in> set (t_status (update_each (\<lambda>v s. s\<lparr>nrtm4_server := v\<rparr>) [(src, st)] T))"
  then obtain s0 where "s = (if st_source s0 = src then s0\<lparr>nrtm4_server := st\<rparr> else s0)"
    by (simp add: update_each_def update_status_def image_iff del: if_image_distrib) blast
  then show "st_source s = src \<longrightarrow> nrtm4_server s = st" by (cases "st_source s0 = src") simp_all
qed

lemma commit_stores:
  assumes c: "commit R L overlaps gs now h = (h', None)" and u: "nrtm4_server_updates (status_tracker h) = [(src, st)]"
    and r: "(src, st') \<in> server_pending h'"
  shows "st' = st \<or> st' = no_server_status"
proof -
  obtain h1 h2 h5 where f: "flush_rpsl_object_writing_buffer gs now h = Inr h1" and r2: "flush_roa_writing_buffer h1 = Inr h2"
    and p: "pre_commit R L overlaps gs now
       (if h_journaling (finalise_transaction gs now h2) then finalise_transaction gs now h2
        else transaction_commit (finalise_transaction gs now h2)) = Inr h5" and h': "committed h' = cur h5"
    using c by (rule commit_NoneE)
  let ?h3 = "finalise_transaction gs now h2"
  have "status_kept h1 h2" using r2
    by (auto simp: flush_roa_writing_buffer_def rbind_Inr_conv on_tables_def split: if_splits dest!: write_permittedE
        intro!: status_keptI)
  with flush_kept [OF f] u have u2: "nrtm4_server_updates (status_tracker h2) = [(src, st)]" by (simp add: status_kept_def)
  have "\<forall>s\<in>set (t_status (cur ?h3)). st_source s = src \<longrightarrow> nrtm4_server s = st"
    unfolding finalise_transaction_def Let_def u2 on_tables_def by (simp add: update_one_server)
  moreover have "set (t_status (cur h5)) \<subseteq> set (t_status (cur ?h3))"
    using pre_commit_kept [OF p] by (auto simp: status_kept_def transaction_commit_def split: if_splits)
  ultimately have "st' = st" if "(src, st') \<in> stored_rows nrtm4_server (committed h')" using that h' by (auto simp: stored_rows_def)
  with r commit_fresh(1,2) [OF c] show ?thesis by (auto simp: pending_rows_def)
qed

lemma store_status_Inr:
  assumes s: "store_status Z w h = Inr h'" and u: "nrtm4_server_updates (status_tracker h) = []"
  shows "nrtm4_server_updates (status_tracker h') = []"
    "server_pending h' \<subseteq> server_pending h \<union> {(sw_source w, sw_status w)}"
    "(sw_source w, st) \<in> server_pending h' \<Longrightarrow> st = sw_status w \<or> st = no_server_status
       \<or> sw_status w = sw_original_status w \<and> (sw_source w, st) \<in> server_pending h"
proof -
  obtain h1 where r: "(if sw_status w \<noteq> sw_original_status w then record_nrtm4_server_status (sw_source w) (sw_status w) h else Inr h) = Inr h1"
    and c: "run_commit (se_run Z) h1 = (h', None)"
    using s unfolding store_status_def by (elim rbind_InrE) (auto split: prod.splits option.splits)
  note c = c [unfolded run_commit_def]
  show "nrtm4_server_updates (status_tracker h') = []" by (rule commit_fresh(1) [OF c])
  have "server_pending h' \<subseteq> server_pending h \<union> {(sw_source w, sw_status w)} \<and>
      ((sw_source w, st) \<in> server_pending h' \<longrightarrow> st = sw_status w \<or> st = no_server_status
       \<or> sw_status w = sw_original_status w \<and> (sw_source w, st) \<in> server_pending h)"
  proof (cases "sw_status w = sw_original_status w")
    case True
    with r have "h1 = h" by simp
    with commit_fresh(3) [OF c] True show ?thesis by auto
  next
    case False
    with r have h1: "h1 = on_tracker (\<lambda>t. (see_source (sw_source w) t)\<lparr>nrtm4_server_updates :=
        dict_set (sw_source w) (sw_status w) (nrtm4_server_updates t)\<rparr>) h"
      by (auto simp: record_nrtm4_server_status_def rbind_Inr_conv dest!: write_permittedE)
    then have u1: "nrtm4_server_updates (status_tracker h1) = [(sw_source w, sw_status w)]"
      by (simp add: on_tracker_def see_source_def u)
    have "server_pending h1 \<subseteq> server_pending h \<union> {(sw_source w, sw_status w)}"
      using u1 by (auto simp: h1 on_tracker_def pending_rows_def)
    with commit_fresh(3) [OF c] commit_stores [OF c u1] show ?thesis by blast
  qed
  then show "server_pending h' \<subseteq> server_pending h \<union> {(sw_source w, sw_status w)}"
    "(sw_source w, st) \<in> server_pending h' \<Longrightarrow> st = sw_status w \<or> st = no_server_status
       \<or> sw_status w = sw_original_status w \<and> (sw_source w, st) \<in> server_pending h" by auto
qed

section \<open>The notification file\<close>

text \<open>What is relied on of \<open>pydantic\<close>: a text is a valid text as it is, and null is none.\<close>

definition px_texts :: "pydantic \<Rightarrow> bool" where
  "px_texts PX \<longleftrightarrow> (\<forall>s. px_str PX (CStr s) = Some s) \<and> px_str PX CNull = None"

definition notification_consistent :: "('ip, 't, 'k, 'rk, 'rt) server_env \<Rightarrow> string \<Rightarrow> repository \<Rightarrow> bool" where
  "notification_consistent Z src dir \<longleftrightarrow>
     (\<exists>u key content t. dict_get dir UPDATE_NOTIFICATION_FILENAME = Some (content, t)
        \<and> nc_source u = src \<and> check_version_consistency u = Inr ()
        \<and> eckey_from_config (ce_ec (se_client Z)) (se_settings Z) (source_key src ''nrtm4_server_private_key'') False = Inr (Some key)
        \<and> jws_serialize (ce_ec (se_client Z)) (se_unf_json Z u) key = Inr content
        \<and> (\<forall>f\<in>set (unf_snapshot u # unf_deltas u). \<exists>data t'.
             dict_get dir (fr_url f) = Some (data, t') \<and> sha256_hex (ce_net (se_client Z)) data = fr_hash f))"

lemma vapp_Valid: "vapp f v = Valid y \<longleftrightarrow> (\<exists>g x. f = Valid g \<and> v = Valid x \<and> y = g x)"
  by (cases f; cases v) auto

lemma typed_field_Valid:
  "typed_field PX convert loc name v = Valid y \<longleftrightarrow> (\<exists>x. dict_get (cval_items v) name = Some x \<and> convert x = Some y)"
  by (auto simp: typed_field_def split: option.splits)

lemma reference_args_Valid:
  assumes "px_texts PX" "file_reference_model PX loc (reference_args version name hash) = Valid f"
  shows "name = Some (fr_url f) \<and> hash = Some (fr_hash f)"
  using assms
  by (auto simp: file_reference_model_def model_of_def reference_args_def vapp_Valid typed_field_Valid px_texts_def
      str_or_null_def split: option.splits)

lemma delta_references_Valid:
  "px_texts PX \<Longrightarrow> delta_references PX i (map delta_reference_args ds) = Valid fs \<Longrightarrow>
   map (\<lambda>f. (fr_url f, fr_hash f)) fs = map (\<lambda>d. (sd_filename d, sd_hash d)) ds"
proof (induction ds arbitrary: i fs)
  case (Cons d ds)
  then show ?case
    by (auto simp: vapp_Valid delta_reference_args_def dest!: reference_args_Valid)
qed simp

lemma unf_argsE:
  assumes "NRTM4UpdateNotificationFile PX EC now ex (unf_args w next_key) = Valid u" "px_texts PX"
  shows "nc_source u = sw_source w" "check_version_consistency u = Inr ()"
    "sv_last_snapshot_filename (sw_status w) = Some (fr_url (unf_snapshot u))"
    "sv_last_snapshot_hash (sw_status w) = Some (fr_hash (unf_snapshot u))"
    "map (\<lambda>f. (fr_url f, fr_hash f)) (unf_deltas u) = map (\<lambda>d. (sd_filename d, sd_hash d)) (sv_previous_deltas (sw_status w))"
proof -
  let ?v = "unf_args w next_key"
  have m: "model_of PX [] F ?v = F ?v" for F :: "cval \<Rightarrow> unf validation" by (simp add: model_of_def unf_args_def Let_def)
  from assms(1) obtain u0 where u0: "unf_rules ex u0 = Valid u" and
    s: "typed_field PX (px_str PX) [] ''source'' ?v = Valid (nc_source u0)" and
    f: "snapshot_field PX ?v = Valid (unf_snapshot u0)" and d: "deltas_field PX ?v = Valid (unf_deltas u0)"
    by (auto simp: NRTM4UpdateNotificationFile_def m vbind_Valid vapp_Valid common_fields_def)
  from unf_rules_Valid [OF u0] have u: "u = u0" "check_version_consistency u0 = Inr ()" by simp_all
  show "check_version_consistency u = Inr ()" using u by simp
  from s show "nc_source u = sw_source w" using assms(2) by (simp add: u typed_field_Valid unf_args_def Let_def px_texts_def)
  from f have "file_reference_model PX ''snapshot'' (reference_args (sv_last_snapshot_version (sw_status w))
      (sv_last_snapshot_filename (sw_status w)) (sv_last_snapshot_hash (sw_status w))) = Valid (unf_snapshot u)"
    by (simp add: u snapshot_field_def vbind_Valid typed_field_Valid unf_args_def Let_def)
  from reference_args_Valid [OF assms(2) this]
  show "sv_last_snapshot_filename (sw_status w) = Some (fr_url (unf_snapshot u))"
    "sv_last_snapshot_hash (sw_status w) = Some (fr_hash (unf_snapshot u))" by simp_all
  from d have "delta_references PX 0 (map delta_reference_args (sv_previous_deltas (sw_status w))) = Valid (unf_deltas u)"
    by (simp add: u deltas_field_def vbind_Valid typed_field_Valid unf_args_def Let_def)
  from delta_references_Valid [OF assms(2) this]
  show "map (\<lambda>f. (fr_url f, fr_hash f)) (unf_deltas u) = map (\<lambda>d. (sd_filename d, sd_hash d)) (sv_previous_deltas (sw_status w))" .
qed

lemma write_unf_Inr:
  assumes "write_unf Z w dir = (Inr w', dir')"
  obtains u key content where "built_unf Z w = Inr u"
    "eckey_from_config (ce_ec (se_client Z)) (se_settings Z) (source_key (sw_source w) ''nrtm4_server_private_key'') False = Inr (Some key)"
    "jws_serialize (ce_ec (se_client Z)) (se_unf_json Z u) key = Inr content"
    "dir' = write_file Z UPDATE_NOTIFICATION_FILENAME content dir"
    "w' = w\<lparr>sw_status := (sw_status w)\<lparr>sv_last_update_notification_file_update := Some (unf_timestamp u)\<rparr>\<rparr>"
proof -
  from assms obtain u content where u: "built_unf Z w = Inr u" "signed_unf Z w u = Inr content"
    "dir' = write_file Z UPDATE_NOTIFICATION_FILENAME content dir"
    "w' = w\<lparr>sw_status := (sw_status w)\<lparr>sv_last_update_notification_file_update := Some (unf_timestamp u)\<rparr>\<rparr>"
    unfolding write_unf_def by (cases "built_unf Z w"; cases "signed_unf Z w (projr (built_unf Z w))") auto
  from u(2) obtain key where
    "eckey_from_config (ce_ec (se_client Z)) (se_settings Z) (source_key (sw_source w) ''nrtm4_server_private_key'') False = Inr (Some key)"
    "jws_serialize (ce_ec (se_client Z)) (se_unf_json Z u) key = Inr content"
    unfolding signed_unf_def by (auto simp: rbind_Inr_conv split: if_splits option.splits)
  from that [OF u(1) this u(3,4)] show ?thesis .
qed

lemma built_unfE:
  assumes "built_unf Z w = Inr u" "px_texts (ce_pydantic (se_client Z))"
  shows "nc_source u = sw_source w" "check_version_consistency u = Inr ()"
    "f \<in> set (unf_snapshot u # unf_deltas u) \<Longrightarrow> (fr_url f, fr_hash f) \<in> set (published (sw_status w))"
proof -
  from assms(1) obtain next_key where v: "NRTM4UpdateNotificationFile (ce_pydantic (se_client Z)) (ce_ec (se_client Z)) (se_clock Z) None
      (unf_args w next_key) = Valid u"
    unfolding built_unf_def by (auto simp: rbind_Inr_conv)
  note e = unf_argsE [OF v assms(2)]
  show "nc_source u = sw_source w" "check_version_consistency u = Inr ()" by (fact e)+
  assume "f \<in> set (unf_snapshot u # unf_deltas u)"
  moreover have "(fr_url f, fr_hash f) \<in> set (map (\<lambda>d. (sd_filename d, sd_hash d)) (sv_previous_deltas (sw_status w)))"
    if "f \<in> set (unf_deltas u)" unfolding e(5) [symmetric] using that by auto
  ultimately show "(fr_url f, fr_hash f) \<in> set (published (sw_status w))" using e(3,4) by (auto simp: published_def)
qed

section \<open>A commit of the status\<close>

definition expired :: "server_writer \<Rightarrow> server_delta \<Rightarrow> bool" where
  "expired w d \<longleftrightarrow> sw_timestamp w - sd_timestamp d > NRTM4_SERVER_DELTA_EXPIRY_TIME"

lemma filter_get: "(\<And>v. P (n, v)) \<Longrightarrow> dict_get (filter P dir) n = dict_get dir n"
  by (induction dir) (auto simp del: dict_get_Cons simp: dict_get_def)

lemma expire_loop_Inr:
  "expire_loop (sw_timestamp w) ds dir = (Inr kept, dir') \<Longrightarrow>
   kept = filter (\<lambda>d. \<not> expired w d) ds \<and>
   (n \<notin> sd_filename ` set (filter (expired w) ds) \<longrightarrow> dict_get dir' n = dict_get dir n)"
proof (induction ds arbitrary: kept dir)
  case (Cons d ds)
  then show ?case
  proof (cases "expired w d")
    case True
    with Cons.prems have e: "expire_loop (sw_timestamp w) ds (unlink (sd_filename d) dir) = (Inr kept, dir')"
      by (simp add: expired_def split: if_splits)
    have "n \<noteq> sd_filename d \<Longrightarrow> dict_get (unlink (sd_filename d) dir) n = dict_get dir n"
      unfolding unlink_def by (rule filter_get) simp
    with Cons.IH [OF e] True show ?thesis by auto
  next
    case False
    with Cons.prems obtain kept' where e: "expire_loop (sw_timestamp w) ds dir = (Inr kept', dir')" and "kept = d # kept'"
      by (auto simp: expired_def split: prod.splits sum.splits)
    with Cons.IH [OF e] False show ?thesis by auto
  qed
qed simp

definition unexpired :: "server_writer \<Rightarrow> nrtm4_server_status" where
  "unexpired w = (sw_status w)\<lparr>sv_previous_deltas := filter (\<lambda>d. \<not> expired w d) (sv_previous_deltas (sw_status w))\<rparr>"

lemma unexpired_names: "set (published_names (unexpired w)) \<subseteq> set (published_names (sw_status w))"
  by (auto simp: unexpired_def published_names_def)

lemma unexpired_ok:
  assumes "repository_ok sha (sw_status w) dir"
  shows "repository_ok sha (unexpired w) dir"
proof -
  have "set (published (unexpired w)) \<subseteq> set (published (sw_status w))" by (auto simp: unexpired_def published_def)
  then have "\<forall>(n, x)\<in>set (published (unexpired w)). \<forall>data t. dict_get dir n = Some (data, t) \<longrightarrow> sha data = x"
    using assms unfolding repository_ok_def by blast
  with assms show ?thesis unfolding repository_ok_def by (auto simp: unexpired_def distinct_map_filter)
qed

lemma updated_names [simp]:
  "published_names (st\<lparr>sv_last_update_notification_file_update := t\<rparr>) = published_names st"
  "published (st\<lparr>sv_last_update_notification_file_update := t\<rparr>) = published st"
  by (simp_all add: published_names_def published_def)

lemma repository_ok_updated [simp]:
  "repository_ok sha (st\<lparr>sv_last_update_notification_file_update := t\<rparr>) dir = repository_ok sha st dir"
  by (simp add: repository_ok_def)

lemma expire_deltas_Inr:
  assumes "expire_deltas w dir = (Inr w1, dir1)" and ok: "repository_ok sha (sw_status w) dir"
  shows "w1 = w\<lparr>sw_status := unexpired w\<rparr> \<and> (\<forall>n\<in>set (published_names (unexpired w)). dict_get dir1 n = dict_get dir n)"
proof -
  from assms(1) obtain kept dir0 where e: "expire_loop (sw_timestamp w) (sv_previous_deltas (sw_status w)) dir = (Inr kept, dir0)"
    and w1: "w1 = w\<lparr>sw_status := (sw_status w)\<lparr>sv_previous_deltas := kept\<rparr>\<rparr>"
    and dir1: "dir1 = filter (\<lambda>(name, f). \<not> delta_file name \<or> name \<in> set (map sd_filename kept)) dir0"
    unfolding expire_deltas_def by (auto split: prod.splits sum.splits)
  from expire_loop_Inr [OF e] have kept: "kept = filter (\<lambda>d. \<not> expired w d) (sv_previous_deltas (sw_status w))" by blast
  have "dict_get dir1 n = dict_get dir n" if n: "n \<in> set (published_names (unexpired w))" for n
  proof -
    consider d where "d \<in> set (sv_previous_deltas (sw_status w))" "\<not> expired w d" "n = sd_filename d"
      | "sv_last_snapshot_filename (sw_status w) = Some n"
      using n by (auto simp: published_names_def unexpired_def split: option.splits)
    then have k: "(\<not> delta_file n \<or> n \<in> set (map sd_filename kept)) \<and>
        n \<notin> sd_filename ` set (filter (expired w) (sv_previous_deltas (sw_status w)))"
    proof cases
      case 1
      with ok show ?thesis by (auto simp: kept repository_ok_def distinct_map inj_on_def)
    next
      case 2
      with ok have "snapshot_file n" by (simp add: repository_ok_def)
      with ok not_both show ?thesis by (auto simp: repository_ok_def)
    qed
    then have "dict_get dir1 n = dict_get dir0 n" unfolding dir1 by (intro filter_get) auto
    also have "\<dots> = dict_get dir n" using expire_loop_Inr [OF e] k by blast
    finally show ?thesis .
  qed
  with w1 kept show ?thesis by (simp add: unexpired_def)
qed

lemma expire_snapshots_get:
  "\<not> snapshot_file n \<or> Some n = sv_last_snapshot_filename (sw_status w) \<Longrightarrow> dict_get (expire_snapshots w dir) n = dict_get dir n"
  unfolding expire_snapshots_def by (rule filter_get) auto

text \<open>A commit that succeeds leaves every published file as it is and writes a consistent notification file.\<close>

lemma commit_status_Inr:
  assumes c: "commit_status Z w h dir = (Inr (w', h'), dir')" and d: "distinct (dict_keys dir)"
    and ok: "repository_ok (sha256_hex (ce_net (se_client Z))) (sw_status w) dir"
  obtains t where "w' = w\<lparr>sw_status := (unexpired w)\<lparr>sv_last_update_notification_file_update := t\<rparr>\<rparr>"
    "store_status Z w' h = Inr h'" "only_changes {UPDATE_NOTIFICATION_FILENAME} dir dir'"
    "\<And>n. n \<in> set (published_names (unexpired w)) \<Longrightarrow> dict_get dir' n = dict_get dir n"
    "px_texts (ce_pydantic (se_client Z)) \<Longrightarrow> files_exist (sw_status w) dir \<Longrightarrow> notification_consistent Z (sw_source w) dir'"
proof -
  let ?sha = "sha256_hex (ce_net (se_client Z))"
  from c obtain w1 dir1 where e: "expire_deltas w dir = (Inr w1, dir1)"
    by (cases "expire_deltas w dir"; cases "fst (expire_deltas w dir)") (auto simp: commit_status_def)
  with c obtain dir2 where u: "write_unf Z w1 dir1 = (Inr w', dir2)" and s: "store_status Z w' h = Inr h'"
    and dir': "dir' = expire_snapshots w' dir2"
    by (auto simp: commit_status_def Let_def split: prod.splits sum.splits)
  from expire_deltas_Inr [OF e ok] have w1: "w1 = w\<lparr>sw_status := unexpired w\<rparr>"
    and g1: "\<And>n. n \<in> set (published_names (unexpired w)) \<Longrightarrow> dict_get dir1 n = dict_get dir n" by auto
  have c1: "only_changes {} dir dir1" using expire_deltas_changes [OF d, of w] e by simp
  have c2: "only_changes {UPDATE_NOTIFICATION_FILENAME} dir1 dir2" by (rule write_unf_changes [OF u only_changes_distinct [OF c1]])
  have c3: "only_changes {} dir2 dir'" unfolding dir' expire_snapshots_def by (rule filter_changes) (rule only_changes_distinct [OF c2])
  from only_changes_trans [OF c1 only_changes_trans [OF c2 c3]]
  have ch: "only_changes {UPDATE_NOTIFICATION_FILENAME} dir dir'" by simp
  from u obtain n key content where b: "built_unf Z w1 = Inr n"
    "eckey_from_config (ce_ec (se_client Z)) (se_settings Z) (source_key (sw_source w1) ''nrtm4_server_private_key'') False = Inr (Some key)"
    "jws_serialize (ce_ec (se_client Z)) (se_unf_json Z n) key = Inr content"
    and dir2: "dir2 = write_file Z UPDATE_NOTIFICATION_FILENAME content dir1"
    and w': "w' = w1\<lparr>sw_status := (sw_status w1)\<lparr>sv_last_update_notification_file_update := Some (unf_timestamp n)\<rparr>\<rparr>"
    by (rule write_unf_Inr)
  have ok1: "repository_ok ?sha (unexpired w) dir" by (rule unexpired_ok [OF ok])
  have g: "dict_get dir' m = dict_get dir m" if m: "m \<in> set (published_names (unexpired w))" for m
  proof -
    have "\<not> snapshot_file m \<or> Some m = sv_last_snapshot_filename (sw_status w')"
    proof (cases "m \<in> set (map sd_filename (sv_previous_deltas (unexpired w)))")
      case True
      with ok1 have "delta_file m" by (auto simp: repository_ok_def)
      with not_both show ?thesis by blast
    next
      case False
      with m show ?thesis by (auto simp: published_names_def w' w1 split: option.splits)
    qed
    from expire_snapshots_get [OF this] have "dict_get dir' m = dict_get dir2 m" by (simp add: dir')
    also have "\<dots> = dict_get dir1 m" using not_notification [OF ok1] m by (auto simp: dir2 write_file_def)
    finally show ?thesis using g1 [OF m] by simp
  qed
  have "notification_consistent Z (sw_source w) dir'" if px: "px_texts (ce_pydantic (se_client Z))" and ex: "files_exist (sw_status w) dir"
  proof -
    have "dict_get dir' UPDATE_NOTIFICATION_FILENAME = dict_get dir2 UPDATE_NOTIFICATION_FILENAME"
      unfolding dir' by (rule expire_snapshots_get) (simp add: notification_name)
    then have "dict_get dir' UPDATE_NOTIFICATION_FILENAME = Some (content, se_clock Z)" by (simp add: dir2 write_file_def)
    moreover have "\<exists>data t'. dict_get dir' (fr_url f) = Some (data, t') \<and> ?sha data = fr_hash f"
      if f: "f \<in> set (unf_snapshot n # unf_deltas n)" for f
    proof -
      from built_unfE(3) [OF b(1) px f] have p: "(fr_url f, fr_hash f) \<in> set (published (unexpired w))" by (simp add: w1)
      from published_named [OF this] have m: "fr_url f \<in> set (published_names (unexpired w))" .
      with unexpired_names ex obtain data t' where "dict_get dir (fr_url f) = Some (data, t')" by (fastforce simp: files_exist_def)
      with ok1 p g [OF m] show ?thesis by (fastforce simp: repository_ok_def)
    qed
    ultimately show ?thesis
      using built_unfE(1,2) [OF b(1) px] b(2,3) unfolding notification_consistent_def w1 by auto
  qed
  then show ?thesis using that [of "Some (unf_timestamp n)"] s ch g by (simp add: w' w1)
qed

lemma commit_status_changes:
  assumes c: "commit_status Z w h dir = (r, dir')" and d: "distinct (dict_keys dir)"
  shows "only_changes {UPDATE_NOTIFICATION_FILENAME} dir dir'"
proof -
  obtain r1 dir1 where e: "expire_deltas w dir = (r1, dir1)" by fastforce
  have c1: "only_changes {} dir dir1" using expire_deltas_changes [OF d, of w] e by simp
  show ?thesis
  proof (cases r1)
    case (Inl x)
    with c e c1 show ?thesis by (auto simp: commit_status_def intro: only_changes_mono)
  next
    case (Inr w1)
    obtain r2 dir2 where u: "write_unf Z w1 dir1 = (r2, dir2)" by fastforce
    have c2: "only_changes {UPDATE_NOTIFICATION_FILENAME} dir1 dir2" by (rule write_unf_changes [OF u only_changes_distinct [OF c1]])
    have c3: "only_changes {} dir2 (expire_snapshots w2 dir2)" for w2
      unfolding expire_snapshots_def by (rule filter_changes) (rule only_changes_distinct [OF c2])
    from only_changes_trans [OF c1 c2] only_changes_trans [OF c1 only_changes_trans [OF c2 c3]] c e u Inr
    show ?thesis by (auto simp: commit_status_def Let_def split: sum.splits)
  qed
qed

lemma commit_status_inv:
  assumes c: "commit_status Z w h dir = (r, dir')" and i: "server_inv Z src ts h dir" and src: "sw_source w = src"
    and ok: "repository_ok (sha256_hex (ce_net (se_client Z))) (sw_status w) dir" "\<forall>file_type\<in>ts. fresh_for Z file_type (sw_status w)"
  shows "server_inv Z src ts h dir'" "r = Inr (w', h') \<Longrightarrow> server_inv Z src ts h' dir'"
    "r = Inr (w', h') \<Longrightarrow> px_texts (ce_pydantic (se_client Z)) \<Longrightarrow> files_exist (sw_status w) dir \<Longrightarrow> notification_consistent Z src dir'"
    "r = Inr (w', h') \<Longrightarrow> files_exist (sw_status w) dir \<Longrightarrow>
       (\<And>st. (src, st) \<in> server_pending h \<Longrightarrow> st = sw_original_status w \<or> st = no_server_status) \<Longrightarrow>
       (src, st) \<in> server_pending h' \<Longrightarrow> files_exist st dir'"
    "r = Inr (w', h') \<Longrightarrow> sw_source w' = src"
proof -
  let ?sha = "sha256_hex (ce_net (se_client Z))"
  from i have d: "distinct (dict_keys dir)" and u: "nrtm4_server_updates (status_tracker h) = []" by (simp_all add: server_inv_def)
  have ch: "only_changes {UPDATE_NOTIFICATION_FILENAME} dir dir'" by (rule commit_status_changes [OF c d])
  show i': "server_inv Z src ts h dir'" by (rule server_inv_notification [OF i ch])
  assume r: "r = Inr (w', h')"
  obtain t where w': "w' = w\<lparr>sw_status := (unexpired w)\<lparr>sv_last_update_notification_file_update := t\<rparr>\<rparr>" and
    s: "store_status Z w' h = Inr h'" and g: "\<And>n. n \<in> set (published_names (unexpired w)) \<Longrightarrow> dict_get dir' n = dict_get dir n" and
    n: "px_texts (ce_pydantic (se_client Z)) \<Longrightarrow> files_exist (sw_status w) dir \<Longrightarrow> notification_consistent Z (sw_source w) dir'"
    by (rule commit_status_Inr [OF c [unfolded r] d ok(1)]) blast
  show "sw_source w' = src" using src by (simp add: w')
  show "px_texts (ce_pydantic (se_client Z)) \<Longrightarrow> files_exist (sw_status w) dir \<Longrightarrow> notification_consistent Z src dir'"
    using n src by simp
  have "repository_ok ?sha (unexpired w) dir'"
    by (rule repository_ok_changes [OF unexpired_ok [OF ok(1)] ch]) (use not_notification [OF unexpired_ok [OF ok(1)]] in simp)
  then have ok': "repository_ok ?sha (sw_status w') dir'" by (simp add: w')
  have "\<forall>file_type\<in>ts. fresh_for Z file_type (sw_status w')" using ok(2) unexpired_names by (fastforce simp: fresh_for_def w')
  with i' ok' store_status_Inr(1,2) [OF s u] src show "server_inv Z src ts h' dir'" by (auto simp: server_inv_def w')
  assume ex: "files_exist (sw_status w) dir" and one: "\<And>st. (src, st) \<in> server_pending h \<Longrightarrow> st = sw_original_status w \<or> st = no_server_status"
    and p: "(src, st) \<in> server_pending h'"
  have "files_exist (sw_status w') dir'" using ex g unexpired_names by (fastforce simp: files_exist_def w')
  with store_status_Inr(3) [OF s u, of st] p one [of st] src show "files_exist st dir'" by (fastforce simp: w')
qed

section \<open>The parts of a run\<close>

lemma write_items_get: "write_items Z name header items dir = (r, dir') \<Longrightarrow> n \<noteq> name \<Longrightarrow> dict_get dir' n = dict_get dir n"
  by (auto simp: write_items_def write_file_def)

lemma write_delta_get:
  "write_delta Z w version start h dir = (r, dir') \<Longrightarrow> n \<noteq> file_name Z ''delta'' (sw_status w) version \<Longrightarrow> dict_get dir' n = dict_get dir n"
  unfolding write_delta_def
  by (auto simp: Let_def split: sum.splits list.splits prod.splits dest!: write_items_get)

lemma write_snapshot_get:
  "write_snapshot Z w version h dir = (r, dir') \<Longrightarrow> n \<noteq> file_name Z ''snapshot'' (sw_status w) version \<Longrightarrow> dict_get dir' n = dict_get dir n"
  unfolding write_snapshot_def
  by (auto simp: Let_def split: sum.splits prod.splits dest!: write_items_get)

lemma delta_not_snapshot_name: "file_name Z ''delta'' st v \<noteq> file_name Z ''snapshot'' st' v'"
  using delta_file_name snapshot_file_name not_both by metis

lemma file_hash_Inr: "file_hash_sha256 Z dir name = Inr x \<Longrightarrow> \<exists>data t. dict_get dir name = Some (data, t) \<and> x = sha256_hex (ce_net (se_client Z)) data"
  by (auto simp: file_hash_sha256_def split: option.splits)

lemma add_delta_inv:
  assumes a: "add_delta Z w h dir = (r, dir')" and i: "server_inv Z src {''delta'', ''snapshot''} h dir"
    and p: "(src, sw_status w) \<in> server_pending h"
  shows "server_inv Z src {''snapshot''} h dir'"
    "r = Inr w' \<Longrightarrow> repository_ok (sha256_hex (ce_net (se_client Z))) (sw_status w') dir' \<and> fresh_for Z ''snapshot'' (sw_status w')
       \<and> sw_source w' = sw_source w \<and> sw_original_status w' = sw_original_status w
       \<and> (files_exist (sw_status w) dir \<longrightarrow> files_exist (sw_status w') dir')"
proof -
  let ?sha = "sha256_hex (ce_net (se_client Z))" and ?st = "sw_status w"
  from i have d: "distinct (dict_keys dir)" by (simp add: server_inv_def)
  from i p have ok: "repository_ok ?sha ?st dir" and fr: "fresh_for Z ''delta'' ?st" "fresh_for Z ''snapshot'' ?st"
    by (auto simp: server_inv_def)
  have w: "server_inv Z src {''snapshot''} h dir1 \<and> (\<forall>n\<in>set (published_names ?st). dict_get dir1 n = dict_get dir n)
      \<and> repository_ok ?sha ?st dir1" if "write_delta Z w version start h dir = (r1, dir1)" for version start r1 dir1
  proof -
    have c: "only_changes {file_name Z ''delta'' ?st version} dir dir1" by (rule write_delta_changes [OF that d])
    have "server_inv Z src {''snapshot''} h dir1" by (rule server_inv_changes [OF i c]) (auto simp: fresh_for_def)
    moreover have "repository_ok ?sha ?st dir1" by (rule repository_ok_changes [OF ok c]) (use fr in \<open>simp add: fresh_for_def\<close>)
    moreover have "\<forall>n\<in>set (published_names ?st). dict_get dir1 n = dict_get dir n"
      using write_delta_get [OF that] fr(1) unfolding fresh_for_def by metis
    ultimately show ?thesis by simp
  qed
  have i0: "server_inv Z src {''snapshot''} h dir" using i by (simp add: server_inv_def)
  show "server_inv Z src {''snapshot''} h dir'"
    using a i0 w unfolding add_delta_def by (auto split: sum.splits option.splits prod.splits)
  assume r: "r = Inr w'"
  show "repository_ok ?sha (sw_status w') dir' \<and> fresh_for Z ''snapshot'' (sw_status w')
       \<and> sw_source w' = sw_source w \<and> sw_original_status w' = sw_original_status w
       \<and> (files_exist (sw_status w) dir \<longrightarrow> files_exist (sw_status w') dir')"
  proof (cases "w' = w")
    case True
    with a r fr have "\<exists>version start. write_delta Z w version start h dir = (Inr None, dir')"
      unfolding add_delta_def by (auto split: sum.splits option.splits prod.splits dest: arg_cong [of _ _ "\<lambda>w. length (sv_previous_deltas (sw_status w))"])
    with w fr True show ?thesis by (fastforce simp: files_exist_def)
  next
    case False
    with a r obtain start version name x where wd: "write_delta Z w (version + 1) start h dir = (Inr (Some name), dir')"
      and x: "file_hash_sha256 Z dir' name = Inr x"
      and w': "w' = w\<lparr>sw_status := ?st\<lparr>sv_version := Some (version + 1), sv_previous_deltas := sv_previous_deltas ?st @
          [\<lparr>sd_filename = name, sd_hash = x, sd_timestamp = sw_timestamp w, sd_version = version + 1,
            sd_serial_global_start = start, sd_serial_global_end = sw_max_serial_global w\<rparr>]\<rparr>\<rparr>"
      unfolding add_delta_def by (auto split: sum.splits option.splits prod.splits)
    from write_delta_Some [OF wd] have name: "name = file_name Z ''delta'' ?st (version + 1)" and ex: "dict_get dir' name \<noteq> None" by auto
    from w [OF wd] have ok': "repository_ok ?sha ?st dir'" by simp
    have nn: "name \<notin> set (published_names ?st)" using fr by (simp add: fresh_for_def name)
    have pub: "set (published (sw_status w')) = insert (name, x) (set (published ?st))"
      "set (published_names (sw_status w')) = insert name (set (published_names ?st))"
      by (auto simp: published_def published_names_def w')
    have "repository_ok ?sha (sw_status w') dir'"
    proof -
      have "name \<notin> sd_filename ` set (sv_previous_deltas ?st)" using nn by (auto simp: published_names_def)
      moreover have "sha256_hex (ce_net (se_client Z)) data = x" if "dict_get dir' name = Some (data, t)" for data t
        using file_hash_Inr [OF x] that by auto
      ultimately show ?thesis
        using ok' delta_file_name [of Z ?st "version + 1"] unfolding repository_ok_def pub
        by (auto simp: w' name)
    qed
    moreover have "fresh_for Z ''snapshot'' (sw_status w')"
      using fr delta_not_snapshot_name [of Z, THEN not_sym] by (auto simp: fresh_for_def pub name)
    moreover have "files_exist ?st dir \<longrightarrow> files_exist (sw_status w') dir'" using w [OF wd] ex by (auto simp: files_exist_def pub)
    ultimately show ?thesis by (simp add: w')
  qed
qed

section \<open>A run\<close>

text \<open>The server status of the source that a run reads, unless the source is new or waits for a reload.\<close>

definition current_status :: "('ip, 't, 'k, 'rk, 'rt) server_env \<Rightarrow> string \<Rightarrow> tables \<Rightarrow> nrtm4_server_status option" where
  "current_status Z src T =
     (case DatabaseStatusQuery (ce_pg (se_client Z)) [src] T of
        [] \<Rightarrow> None | s # ss \<Rightarrow> if force_reload s then None else Some (nrtm4_server s))"

lemma status_row_stored:
  assumes "DatabaseStatusQuery PG [src] T = s # ss" "py_upper src = src"
  shows "(src, nrtm4_server s) \<in> stored_rows nrtm4_server T"
proof -
  from assms(1) have "s \<in> set (DatabaseStatusQuery PG [src] T)" by simp
  then have "s \<in> set (t_status T)" "st_source s = src" using assms(2) by (auto simp: DatabaseStatusQuery_def Let_def)
  then show ?thesis by (force simp: stored_rows_def)
qed

lemma load_server_statusE:
  assumes "load_server_status Z src h = Inr (r, h1)" "py_upper src = src"
  shows "status_kept h h1" "r = Some (reload, st) \<Longrightarrow> (src, st) \<in> server_pending h"
    "rpsl_upsert_buffer h = [] \<Longrightarrow> r = Some (False, st) \<longleftrightarrow> current_status Z src (cur h) = Some st"
    "rpsl_upsert_buffer h = [] \<Longrightarrow> h1 = h"
proof -
  from assms(1) have f: "flush_for_query (se_client Z) h = Inr h1"
    and r: "r = (case DatabaseStatusQuery (ce_pg (se_client Z)) [src] (cur h1) of
              [] \<Rightarrow> None | s # ss \<Rightarrow> Some (force_reload s, nrtm4_server s))"
    by (auto simp: load_server_status_def rbind_Inr_conv)
  show k: "status_kept h h1" by (rule flush_for_query_kept [OF f])
  show "r = Some (reload, st) \<Longrightarrow> (src, st) \<in> server_pending h"
    using r status_row_stored [OF _ assms(2), of "ce_pg (se_client Z)" "cur h1"] server_status.kept_pending [OF k]
    by (auto simp: pending_rows_def split: list.splits)
  assume "rpsl_upsert_buffer h = []"
  with f show h: "h1 = h" by (auto simp: flush_for_query_def flush_rpsl_object_writing_buffer_def split: if_splits)
  show "r = Some (False, st) \<longleftrightarrow> current_status Z src (cur h) = Some st" by (auto simp: r h current_status_def split: list.splits)
qed

lemma integrity_exists:
  assumes "verify_integrity st dir" "repository_ok sha st dir"
  shows "files_exist st dir"
proof -
  have "n \<noteq> []" if "sv_last_snapshot_filename st = Some n" for n
  proof -
    have "\<not> snapshot_file []" by code_simp
    then show ?thesis using assms(2) that by (auto simp: repository_ok_def)
  qed
  then have "set (published_names st) = set (status_files st)"
    by (auto simp: published_names_def status_files_def str_truthy_def split: option.splits)
  with assms(1) show ?thesis by (simp add: files_exist_def verify_integrity_def list_all_iff)
qed

lemma new_session_status: "sv_previous_deltas (new_session Z st) = []" "sv_last_snapshot_filename (new_session Z st) = sv_last_snapshot_filename st"
  "sv_last_snapshot_version (new_session Z st) = None"
  by (simp_all add: new_session_def)

text \<open>The state in which a snapshot is written.\<close>

definition snapshot_ready :: "('ip, 't, 'k, 'rk, 'rt) server_env \<Rightarrow> string \<Rightarrow> bool \<Rightarrow> server_writer \<Rightarrow> bool \<Rightarrow> 'ip handler \<Rightarrow> repository \<Rightarrow> bool" where
  "snapshot_ready Z src single w initial h dir \<longleftrightarrow> sw_source w = src \<and> (initial \<longrightarrow> sv_previous_deltas (sw_status w) = [])
     \<and> (\<not> initial \<longrightarrow> single \<longrightarrow> (\<forall>st. (src, st) \<in> server_pending h \<longrightarrow> files_exist st dir))"

lemma after_status_locked:
  "after_status Z True initial w h dir = (r, h', dir') \<Longrightarrow>
   h' = h \<and> dir' = dir \<and> (\<forall>w' b. r = Inr (Some (w', b)) \<longrightarrow> w' = w \<and> b = initial)
   \<and> (sv_last_snapshot_version (sw_status w) = None \<longrightarrow> r \<noteq> Inr None)"
  unfolding after_status_def
  by (auto simp: should_create_snapshot_def Let_def rbind_def split: sum.splits bool.splits if_splits option.splits)

lemma server_start_inv:
  assumes s: "server_start Z w0 True True h dir = (r, h', dir')" and i: "server_inv Z src {''delta'', ''snapshot''} h dir"
    and src: "sw_source w0 = src" "py_upper src = src" and h: "rpsl_upsert_buffer h = []"
    and single: "\<And>st st'. single \<Longrightarrow> (src, st) \<in> server_pending h \<Longrightarrow> (src, st') \<in> server_pending h \<Longrightarrow>
      st = st' \<or> st = no_server_status \<or> st' = no_server_status"
  shows "server_inv Z src {''snapshot''} h' dir'"
    "r = Inr (Some (w, initial)) \<Longrightarrow> snapshot_ready Z src single w initial h' dir'"
    "r = Inr None \<Longrightarrow> current_status Z src (cur h) \<noteq> None \<Longrightarrow> px_texts (ce_pydantic (se_client Z)) \<Longrightarrow> notification_consistent Z src dir'"
proof -
  let ?ready = "\<lambda>r h' dir'. \<forall>w initial. r = Inr (Some (w, initial)) \<longrightarrow> snapshot_ready Z src single w initial h' dir'"
  let ?done = "\<lambda>r dir'. r = Inr None \<longrightarrow> current_status Z src (cur h) \<noteq> None \<longrightarrow> px_texts (ce_pydantic (se_client Z))
      \<longrightarrow> notification_consistent Z src dir'"
  have i1: "server_inv Z src {''snapshot''} h dir" using i by (simp add: server_inv_def)
  have "server_inv Z src {''snapshot''} h' dir' \<and> ?ready r h' dir' \<and> ?done r dir'"
  proof (cases "load_server_status Z (sw_source w0) h")
    case (Inl e)
    with s i1 show ?thesis by (auto simp: server_start_def)
  next
    case (Inr p)
    obtain found h1 where l: "load_server_status Z src h = Inr (found, h1)" using Inr src by (cases p) auto
    note l' = load_server_statusE [OF l src(2)]
    from l'(4) h have h1: "h1 = h" by simp
    consider "found = None \<or> (\<exists>st. found = Some (True, st))" | st where "found = Some (False, st)" by (cases found) auto
    then show ?thesis
    proof cases
      case 1
      with l'(3) [OF h] have "current_status Z src (cur h) = None" by (cases "current_status Z src (cur h)") auto
      moreover from 1 s l src have "r = Inr None" "h' = h" "dir' = dir" by (auto simp: server_start_def h1)
      ultimately show ?thesis using i1 by auto
    next
      case (2 st)
      from l'(2) [OF 2] have p: "(src, st) \<in> server_pending h" .
      show ?thesis
      proof (cases "\<not> str_truthy (sv_session_id st) \<or> \<not> verify_integrity st dir")
        case True
        let ?w = "w0\<lparr>sw_status := new_session Z st, sw_original_status := st\<rparr>"
        from True s l 2 src have "after_status Z True True ?w h dir = (r, h', dir')" by (auto simp: server_start_def h1)
        note af = after_status_locked [OF this]
        have "snapshot_ready Z src single ?w True h dir" using src by (simp add: snapshot_ready_def new_session_status)
        moreover have "r \<noteq> Inr None" using af by (simp add: new_session_status)
        ultimately show ?thesis using af i1 by blast
      next
        case False
        let ?w = "w0\<lparr>sw_status := st, sw_original_status := st\<rparr>"
        from i p have ok: "repository_ok (sha256_hex (ce_net (se_client Z))) st dir" by (auto simp: server_inv_def)
        from False integrity_exists [OF _ ok] have ex: "files_exist st dir" by blast
        have "\<not> str_truthy (sv_session_id no_server_status)" by (simp add: no_server_status_def str_truthy_def)
        with False have "st \<noteq> no_server_status" by metis
        with single p have one: "single \<Longrightarrow> (src, st') \<in> server_pending h \<Longrightarrow> st' = st \<or> st' = no_server_status" for st' by blast
        obtain r1 dir1 where a: "add_delta Z ?w h dir = (r1, dir1)" by fastforce
        have "(src, sw_status ?w) \<in> server_pending h" using p by simp
        note d = add_delta_inv [OF a i this]
        show ?thesis
        proof (cases r1)
          case (Inl e)
          with False s l 2 src a d(1) show ?thesis by (auto simp: server_start_def h1)
        next
          case (Inr w1)
          from d(2) [OF this] ex src have w1: "repository_ok (sha256_hex (ce_net (se_client Z))) (sw_status w1) dir1"
            "\<forall>t\<in>{''snapshot''}. fresh_for Z t (sw_status w1)" "sw_source w1 = src" "sw_original_status w1 = st" "files_exist (sw_status w1) dir1"
            by auto
          obtain r2 dir2 where c: "commit_status Z w1 h dir1 = (r2, dir2)" by fastforce
          note ci = commit_status_inv [OF c d(1) w1(3,1,2)]
          show ?thesis
          proof (cases r2)
            case (Inl e)
            with False s l 2 src a Inr c ci(1) show ?thesis by (auto simp: server_start_def h1)
          next
            case r2: (Inr p2)
            obtain w2 h2 where p2: "p2 = (w2, h2)" by fastforce
            note r2 = r2 [unfolded p2]
            from False s l 2 src a Inr c r2 have "after_status Z True False w2 h2 dir2 = (r, h', dir')" by (auto simp: server_start_def h1)
            note af = after_status_locked [OF this]
            have "single \<Longrightarrow> (src, st') \<in> server_pending h2 \<Longrightarrow> files_exist st' dir2" for st'
              by (rule ci(4) [OF r2 w1(5)]) (use one w1(4) in auto)
            then show ?thesis using af ci(2) [OF r2] ci(3) [OF r2 _ w1(5)] ci(5) [OF r2] by (auto simp: snapshot_ready_def)
          qed
        qed
      qed
    qed
  qed
  then show "server_inv Z src {''snapshot''} h' dir'"
    "r = Inr (Some (w, initial)) \<Longrightarrow> snapshot_ready Z src single w initial h' dir'"
    "r = Inr None \<Longrightarrow> current_status Z src (cur h) \<noteq> None \<Longrightarrow> px_texts (ce_pydantic (se_client Z)) \<Longrightarrow> notification_consistent Z src dir'"
    by blast+
qed

lemma with_snapshot_ok:
  assumes ok: "repository_ok (sha256_hex (ce_net (se_client Z))) (sw_status w) dir \<or> sv_previous_deltas (sw_status w) = []"
    and x: "file_hash_sha256 Z dir (file_name Z ''snapshot'' st v) = Inr x"
  shows "repository_ok (sha256_hex (ce_net (se_client Z))) (sw_status (with_snapshot w (file_name Z ''snapshot'' st v) version x)) dir"
    "files_exist (sw_status w) dir \<or> sv_previous_deltas (sw_status w) = [] \<Longrightarrow>
       files_exist (sw_status (with_snapshot w (file_name Z ''snapshot'' st v) version x)) dir"
    "sw_source (with_snapshot w (file_name Z ''snapshot'' st v) version x) = sw_source w"
proof -
  let ?sha = "sha256_hex (ce_net (se_client Z))" and ?name = "file_name Z ''snapshot'' st v"
  from file_hash_Inr [OF x] obtain data t where data: "dict_get dir ?name = Some (data, t)" "x = ?sha data" by blast
  have d: "\<forall>(n, x)\<in>set (map (\<lambda>d. (sd_filename d, sd_hash d)) (sv_previous_deltas (sw_status w))).
      \<forall>data t. dict_get dir n = Some (data, t) \<longrightarrow> ?sha data = x"
  proof (cases "sv_previous_deltas (sw_status w) = []")
    case False
    have "set (map (\<lambda>d. (sd_filename d, sd_hash d)) (sv_previous_deltas (sw_status w))) \<subseteq> set (published (sw_status w))"
      by (simp add: published_def)
    with False ok show ?thesis unfolding repository_ok_def by blast
  qed simp
  then show "repository_ok ?sha (sw_status (with_snapshot w ?name version x)) dir"
    using ok data snapshot_file_name [of Z st v] by (auto simp: with_snapshot_def repository_ok_def published_def)
  show "files_exist (sw_status w) dir \<or> sv_previous_deltas (sw_status w) = [] \<Longrightarrow> files_exist (sw_status (with_snapshot w ?name version x)) dir"
    using data by (auto simp: with_snapshot_def files_exist_def published_names_def)
  show "sw_source (with_snapshot w ?name version x) = sw_source w" by (simp add: with_snapshot_def)
qed

lemma refreshed_status_inv:
  assumes r: "refreshed_status Z w initial h = Inr (w1, h1)" and i: "server_inv Z src ts h dir" and src: "sw_source w = src" "py_upper src = src"
  shows "server_inv Z src ts h1 dir" "sw_source w1 = src" "initial \<Longrightarrow> w1 = w" "\<not> initial \<Longrightarrow> (src, sw_status w1) \<in> server_pending h"
proof -
  have "server_inv Z src ts h1 dir \<and> sw_source w1 = src \<and> (initial \<longrightarrow> w1 = w) \<and> (\<not> initial \<longrightarrow> (src, sw_status w1) \<in> server_pending h)"
  proof (cases initial)
    case True
    with r i src show ?thesis by (simp add: refreshed_status_def)
  next
    case False
    with r obtain h2 reload st where c: "run_commit (se_run Z) h = (h2, None)" and l: "load_server_status Z src h2 = Inr (Some (reload, st), h1)"
      and w1: "w1 = w\<lparr>sw_status := st, sw_original_status := st\<rparr>"
      unfolding refreshed_status_def src(1) by (auto simp: rbind_Inr_conv split: prod.splits option.splits)
    note f = commit_fresh [OF c [unfolded run_commit_def]]
    from i f have "server_inv Z src ts h2 dir" by (auto simp: server_inv_def)
    from server_inv_kept [OF this load_server_statusE(1) [OF l src(2)]] have "server_inv Z src ts h1 dir" .
    moreover from load_server_statusE(2) [OF l src(2)] f(3) have "(src, st) \<in> server_pending h" by blast
    ultimately show ?thesis using False src by (simp add: w1)
  qed
  then show "server_inv Z src ts h1 dir" "sw_source w1 = src" "initial \<Longrightarrow> w1 = w" "\<not> initial \<Longrightarrow> (src, sw_status w1) \<in> server_pending h"
    by auto
qed

lemma server_finish_inv:
  assumes f: "server_finish Z w initial (file_name Z ''snapshot'' st v) h dir = (r, h', dir')" and i: "server_inv Z src {} h dir"
    and ready: "snapshot_ready Z src single w initial h dir" and src: "py_upper src = src"
  shows "server_inv Z src {} h' dir'"
    "r = Inr () \<Longrightarrow> single \<Longrightarrow> px_texts (ce_pydantic (se_client Z)) \<Longrightarrow> notification_consistent Z src dir'"
proof -
  let ?name = "file_name Z ''snapshot'' st v"
  from ready have w: "sw_source w = src" by (simp add: snapshot_ready_def)
  have "server_inv Z src {} h' dir' \<and> (r = Inr () \<longrightarrow> single \<longrightarrow> px_texts (ce_pydantic (se_client Z)) \<longrightarrow> notification_consistent Z src dir')"
  proof (cases "rbind (refreshed_status Z w initial h) (\<lambda>(w1, h1). rbind (file_hash_sha256 Z dir ?name) (\<lambda>hash.
               Inr (with_snapshot w1 ?name (sv_version (sw_status w)) hash, h1)))")
    case (Inl e)
    with f i show ?thesis by (auto simp: server_finish_def)
  next
    case (Inr p)
    then obtain w1 h1 x where a: "refreshed_status Z w initial h = Inr (w1, h1)" "file_hash_sha256 Z dir ?name = Inr x"
      and p: "p = (with_snapshot w1 ?name (sv_version (sw_status w)) x, h1)"
      by (auto simp: rbind_Inr_conv)
    note g = refreshed_status_inv [OF a(1) i w src]
    let ?w = "with_snapshot w1 ?name (sv_version (sw_status w)) x"
    obtain r1 dir1 where c: "commit_status Z ?w h1 dir = (r1, dir1)" by fastforce
    have ok: "repository_ok (sha256_hex (ce_net (se_client Z))) (sw_status w1) dir \<or> sv_previous_deltas (sw_status w1) = []"
      using g(3,4) ready i by (cases initial) (auto simp: snapshot_ready_def server_inv_def)
    have ex: "single \<Longrightarrow> files_exist (sw_status w1) dir \<or> sv_previous_deltas (sw_status w1) = []"
      using g(3,4) ready by (cases initial) (auto simp: snapshot_ready_def)
    note wo = with_snapshot_ok [OF ok a(2)]
    have "sw_source ?w = src" using g(2) by (simp add: wo(3))
    note ci = commit_status_inv [OF c g(1) this wo(1)]
    show ?thesis
    proof (cases r1)
      case (Inl e)
      with f Inr p c ci(1) show ?thesis by (auto simp: server_finish_def)
    next
      case r1: (Inr q)
      obtain w2 h2 where q: "q = (w2, h2)" by fastforce
      note r1 = r1 [unfolded q]
      from f Inr p c r1 have "h' = h2" "dir' = dir1" by (auto simp: server_finish_def)
      with ci(2,3) [OF _ r1] wo(2) ex show ?thesis by auto
    qed
  qed
  then show "server_inv Z src {} h' dir'"
    "r = Inr () \<Longrightarrow> single \<Longrightarrow> px_texts (ce_pydantic (se_client Z)) \<Longrightarrow> notification_consistent Z src dir'" by auto
qed

lemma close_inv: "server_inv Z src ts h dir \<Longrightarrow> (src, st) \<in> stored_rows nrtm4_server (committed (close_handler h)) \<Longrightarrow>
  repository_ok (sha256_hex (ce_net (se_client Z))) st dir"
  by (auto simp: close_handler_def transaction_rollback_def server_inv_def pending_rows_def)

text \<open>The directory and the stored statuses of a source.\<close>

definition stored_ok :: "(string \<Rightarrow> string) \<Rightarrow> string \<Rightarrow> 'ip handler \<Rightarrow> repository \<Rightarrow> bool" where
  "stored_ok sha src h dir \<longleftrightarrow> distinct (dict_keys dir) \<and>
     (\<forall>st. (src, st) \<in> stored_rows nrtm4_server (committed h) \<longrightarrow> repository_ok sha st dir)"

text \<open>No published file has a name of the run.\<close>

definition fresh_names :: "('ip, 't, 'k, 'rk, 'rt) server_env \<Rightarrow> string \<Rightarrow> 'ip handler \<Rightarrow> bool" where
  "fresh_names Z src h \<longleftrightarrow> (\<forall>st file_type. (src, st) \<in> stored_rows nrtm4_server (committed h) \<longrightarrow>
     file_type \<in> {''delta'', ''snapshot''} \<longrightarrow> fresh_for Z file_type st)"

lemma opened_server:
  "server_pending (open_handler X h) = stored_rows nrtm4_server (committed h) \<union> {(src, no_server_status) | src. True}"
  "nrtm4_server_updates (status_tracker (open_handler X h)) = []" "rpsl_upsert_buffer (open_handler X h) = []"
  "cur (open_handler X h) = committed h"
  by (auto simp: pending_rows_def open_handler_def DatabaseHandler_def tracker_init_def)

lemma server_inv_stored: "server_inv Z src ts h dir \<Longrightarrow> stored_ok (sha256_hex (ce_net (se_client Z))) src (close_handler h) dir"
  using close_inv by (fastforce simp: stored_ok_def server_inv_def)

lemma server_run_inv:
  assumes r: "server_run Z src h dir = (r, h', dir')" and ok: "stored_ok (sha256_hex (ce_net (se_client Z))) src h dir"
    and fr: "fresh_names Z src h" and src: "py_upper src = src"
  shows "stored_ok (sha256_hex (ce_net (se_client Z))) src h' dir'"
    "r = Inr () \<Longrightarrow> distinct (map st_source (t_status (committed h))) \<Longrightarrow> current_status Z src (committed h) \<noteq> None \<Longrightarrow>
     px_texts (ce_pydantic (se_client Z)) \<Longrightarrow> notification_consistent Z src dir'"
proof -
  let ?h = "open_handler (se_run Z) h" and ?single = "distinct (map st_source (t_status (committed h)))"
  have i: "server_inv Z src {''delta'', ''snapshot''} ?h dir"
    using ok fr by (auto simp: server_inv_def opened_server stored_ok_def fresh_names_def)
  have single: "st = st' \<or> st = no_server_status \<or> st' = no_server_status"
    if "?single" "(src, st) \<in> server_pending ?h" "(src, st') \<in> server_pending ?h" for st st'
    using that unfolding opened_server stored_rows_def by (auto simp: distinct_map inj_on_def)
  obtain r1 h1 dir1 where s: "server_start Z (NRTM4ServerWriter Z src ?h) True True ?h dir = (r1, h1, dir1)" by (metis prod_cases3)
  have "sw_source (NRTM4ServerWriter Z src ?h) = src" by (simp add: NRTM4ServerWriter_def)
  note st = server_start_inv [OF s i this src opened_server(3) single]
  have "stored_ok (sha256_hex (ce_net (se_client Z))) src h' dir' \<and>
    (r = Inr () \<longrightarrow> ?single \<longrightarrow> current_status Z src (committed h) \<noteq> None \<longrightarrow> px_texts (ce_pydantic (se_client Z))
       \<longrightarrow> notification_consistent Z src dir')"
  proof (cases r1)
    case (Inl e)
    with r s server_inv_stored [OF st(1)] show ?thesis by (auto simp: server_run_def)
  next
    case (Inr found)
    show ?thesis
    proof (cases found)
      case None
      with Inr r s have "r = Inr ()" "h' = close_handler h1" "dir' = dir1" by (auto simp: server_run_def)
      with server_inv_stored [OF st(1)] st(3) Inr None show ?thesis by (auto simp: opened_server)
    next
      case (Some p)
      obtain w initial where p: "p = (w, initial)" by fastforce
      obtain r2 dir2 where ws: "write_snapshot Z w (the (sv_version (sw_status w))) h1 dir1 = (r2, dir2)" by fastforce
      let ?name = "file_name Z ''snapshot'' (sw_status w) (the (sv_version (sw_status w)))"
      from st(1) have d1: "distinct (dict_keys dir1)" by (simp add: server_inv_def)
      have i2: "server_inv Z src {} h1 dir2"
        by (rule server_inv_changes [OF st(1) write_snapshot_changes [OF ws d1]]) (auto simp: fresh_for_def)
      show ?thesis
      proof (cases r2)
        case (Inl e)
        with r s Inr Some p ws server_inv_stored [OF i2] show ?thesis by (auto simp: server_run_def)
      next
        case r2: (Inr name)
        from write_snapshot_Inr [OF ws [unfolded r2]] have name: "name = ?name" "dict_get dir2 ?name \<noteq> None" by auto
        have get: "dict_get dir1 n \<noteq> None \<Longrightarrow> dict_get dir2 n \<noteq> None" for n
          using write_snapshot_get [OF ws, of n] name(2) by (cases "n = ?name") auto
        have "snapshot_ready Z src ?single w initial h1 dir1" using st(2) Inr Some p by simp
        then have ready: "snapshot_ready Z src ?single w initial h1 dir2" using get by (auto simp: snapshot_ready_def files_exist_def)
        obtain r3 h3 dir3 where f: "server_finish Z w initial ?name h1 dir2 = (r3, h3, dir3)" by (metis prod_cases3)
        note fi = server_finish_inv [OF f i2 ready src]
        from r s Inr Some p ws r2 name(1) f have "r = r3" "h' = close_handler h3" "dir' = dir3" by (auto simp: server_run_def)
        with server_inv_stored [OF fi(1)] fi(2) show ?thesis by auto
      qed
    qed
  qed
  then show "stored_ok (sha256_hex (ce_net (se_client Z))) src h' dir'"
    "r = Inr () \<Longrightarrow> distinct (map st_source (t_status (committed h))) \<Longrightarrow> current_status Z src (committed h) \<noteq> None \<Longrightarrow>
     px_texts (ce_pydantic (se_client Z)) \<Longrightarrow> notification_consistent Z src dir'" by auto
qed

end
