(* ===== verification/NRTM4_Published.thy ===== *)
theory NRTM4_Published
  imports NRTM4_Server_Facts NRTM4_Runs
begin

text \<open>
  What mirrors see of an NRTM version 4 server: over any number of runs, the files that the status and the
  notification file announce, and the changes in a delta.
\<close>

section \<open>Any number of runs\<close>

text \<open>
  The databases and directories that the server of a source leaves, when it runs at any time, with any
  settings and clocks. A random token is new; other writers drop the status of a source or leave it
  alone, and files may get lost.
\<close>

inductive server_history :: "('ip, 't, 'k, 'rk, 'rt) server_env set \<Rightarrow> string \<Rightarrow> 'ip handler \<Rightarrow> repository \<Rightarrow> bool"
  for envs src where
  no_server: "distinct (dict_keys dir) \<Longrightarrow>
    (\<And>s. s \<in> set (t_status (committed h)) \<Longrightarrow> st_source s = src \<Longrightarrow> nrtm4_server s = no_server_status) \<Longrightarrow>
    server_history envs src h dir"
| run: "server_history envs src h dir \<Longrightarrow> Z \<in> envs \<Longrightarrow> fresh_names Z src h \<Longrightarrow>
    server_run Z src h dir = (r, h', dir') \<Longrightarrow> server_history envs src h' dir'"
| other_write: "server_history envs src h dir \<Longrightarrow>
    stored_rows nrtm4_server (committed h') \<subseteq> stored_rows nrtm4_server (committed h) \<union> {(s, no_server_status) | s. True} \<Longrightarrow>
    server_history envs src h' dir"
| lost_files: "server_history envs src h dir \<Longrightarrow> only_changes {} dir dir' \<Longrightarrow> server_history envs src h dir'"

definition hash_env :: "(string \<Rightarrow> string) \<Rightarrow> ('ip, 't, 'k, 'rk, 'rt) server_env set" where
  "hash_env sha = {Z. sha256_hex (ce_net (se_client Z)) = sha}"

lemma history_stored_ok:
  assumes "server_history (hash_env sha) src h dir" "py_upper src = src"
  shows "stored_ok sha src h dir"
  using assms(1)
proof (induction rule: server_history.induct)
  case (no_server dir h)
  then show ?case by (auto simp: stored_ok_def stored_rows_def)
next
  case (run h dir Z r h' dir')
  then have "sha256_hex (ce_net (se_client Z)) = sha" by (simp add: hash_env_def)
  with server_run_inv(1) [OF run(4) _ run(3) assms(2)] run.IH show ?case by simp
next
  case (other_write h dir h')
  then show ?case by (auto simp: stored_ok_def)
next
  case (lost_files h dir dir')
  then show ?case using repository_ok_changes [OF _ lost_files(2)] by (auto simp: stored_ok_def dest: only_changes_distinct)
qed

text \<open>
  C16: in every state that runs of the server lead to, runs that failed included, a delta or snapshot that
  the stored status of a source announces, and that exists in its directory, has the announced hash.
\<close>

theorem published_files_match:
  assumes "server_history (hash_env sha) src h dir" "py_upper src = src"
    and "s \<in> set (t_status (committed h))" "st_source s = src"
    and "(n, x) \<in> set (published (nrtm4_server s))" "dict_get dir n = Some (data, t)"
  shows "sha data = x"
proof -
  from assms(3,4) have "(src, nrtm4_server s) \<in> stored_rows nrtm4_server (committed h)" by (force simp: stored_rows_def)
  with history_stored_ok [OF assms(1,2)] have "repository_ok sha (nrtm4_server s) dir" by (simp add: stored_ok_def)
  with assms(5,6) show ?thesis by (auto simp: repository_ok_def)
qed

text \<open>
  C15: after a run that succeeds for a source that is known and does not wait for a reload, the notification
  file is signed with the configured key, is for the source, has consistent versions, and each file that it
  refers to is in the directory with the hash of the reference.
\<close>

theorem notification_refers_to_files:
  assumes "server_history (hash_env sha) src h dir" "py_upper src = src" "Z \<in> hash_env sha" "fresh_names Z src h"
    and "px_texts (ce_pydantic (se_client Z))" "distinct (map st_source (t_status (committed h)))"
    and "current_status Z src (committed h) = Some st" "server_run Z src h dir = (Inr (), h', dir')"
  shows "notification_consistent Z src dir'"
proof -
  from history_stored_ok [OF assms(1,2)] assms(3) have "stored_ok (sha256_hex (ce_net (se_client Z))) src h dir"
    by (simp add: hash_env_def)
  from server_run_inv(2) [OF assms(8) this assms(4,2) refl assms(6)] assms(5,7) show ?thesis by simp
qed

section \<open>Deltas for mirrors\<close>

text \<open>The operation that a client makes of an entry of the journal.\<close>

definition journal_operation_of :: "settings \<Rightarrow> string \<Rightarrow> journal_entry \<Rightarrow> nrtm_operation \<Rightarrow> bool" where
  "journal_operation_of gs src e nop \<longleftrightarrow> no_source nop = src \<and> no_operation nop = je_operation e \<and>
     (case je_operation e of
        add_or_update \<Rightarrow> published_text gs src (je_text e) (je_class e) (je_rpsl_pk e) = Inr (the (no_text nop)) \<and> no_text nop \<noteq> None
      | op_delete \<Rightarrow> no_text nop = None \<and> no_rpsl_pk nop = Some (py_upper (je_rpsl_pk e))
          \<and> no_object_class nop = Some (py_lower (je_class e)))"

text \<open>An entry of an object with a key, a class and a text.\<close>

definition entry_complete :: "settings \<Rightarrow> string \<Rightarrow> journal_entry \<Rightarrow> bool" where
  "entry_complete gs src e \<longleftrightarrow> je_rpsl_pk e \<noteq> [] \<and> je_class e \<noteq> [] \<and>
     published_text gs src (je_text e) (je_class e) (je_rpsl_pk e) \<noteq> Inr []"

lemma chunks_read: "concat (chunked_iterable xs CHUNK_SIZE) = xs" "[] \<notin> set (chunked_iterable xs CHUNK_SIZE)"
proof -
  have "0 < n \<Longrightarrow> concat (chunked_iterable xs n) = xs \<and> [] \<notin> set (chunked_iterable xs n)" for n and xs :: "'b list"
    by (induction xs n rule: chunked_iterable.induct) (subst (1 2) chunked_iterable.simps, auto)
  moreover have "0 < CHUNK_SIZE" by (simp add: CHUNK_SIZE_def)
  ultimately show "concat (chunked_iterable xs CHUNK_SIZE) = xs" "[] \<notin> set (chunked_iterable xs CHUNK_SIZE)" by blast+
qed

lemma gen_map_Inr: "gen_map f xs = (ys, None) \<longleftrightarrow> list_all2 (\<lambda>x y. f x = Inr y) xs ys"
proof (induction xs arbitrary: ys)
  case (Cons x xs)
  obtain zs e where g: "gen_map f xs = (zs, e)" by fastforce
  show ?case
    using Cons.IH g by (cases e) (auto simp: list_all2_Cons1 gen_append_def split: sum.splits)
qed auto

lemma delta_item_operation:
  assumes "delta_item gs src e = Inr item" "entry_complete gs src e" "run_source c = src"
  shows "\<exists>nop. delta_operation E c header None item = Inr nop \<and> journal_operation_of gs src e nop"
proof (cases "je_operation e")
  case add_or_update
  with assms obtain t where t: "published_text gs src (je_text e) (je_class e) (je_rpsl_pk e) = Inr t" "t \<noteq> []"
    and item: "item = CDict [(''action'', CStr ''add_modify''), (''object'', CStr t)]"
    by (auto simp: delta_item_def entry_complete_def rbind_Inr_conv)
  have "item_operation E (CStr ''add_modify'') = Inr add_or_update" by (simp add: item_operation_def NRTM4_OPERATION_MAPPING_def)
  with t assms(3) add_or_update show ?thesis
    by (simp add: delta_operation_def item item_get_def object_text_item_def item_text_def NRTMOperation_def str_truthy_def journal_operation_of_def)
next
  case op_delete
  with assms have item: "item = CDict [(''action'', CStr ''delete''), (''object_class'', CStr (je_class e)), (''primary_key'', CStr (je_rpsl_pk e))]"
    by (simp add: delta_item_def)
  have "item_operation E (CStr ''delete'') = Inr op_delete" by (simp add: item_operation_def NRTM4_OPERATION_MAPPING_def)
  moreover have "py_upper (je_rpsl_pk e) \<noteq> []" "py_lower (je_class e) \<noteq> []" using assms(2) by (auto simp: entry_complete_def py_upper_def py_lower_def)
  ultimately show ?thesis using assms(3) op_delete
    by (simp add: delta_operation_def item item_get_def item_text_def NRTMOperation_def str_truthy_def journal_operation_of_def)
qed


section \<open>Examples\<close>

text \<open>A source that is published for the first time; a hash is a prefix.\<close>

definition server_settings :: settings where
  "server_settings n = (if n = ''sources.TEST.nrtm4_server_private_key'' then Some (CStr ''key'') else None)"

definition example_server where
  "example_server = \<lparr>se_run = example_runner\<lparr>re_client := example_client\<lparr>ce_settings := server_settings,
       ce_net := example_net\<lparr>sha256_hex := take 3\<rparr>\<rparr>\<rparr>,
     se_clock = 7, se_uuid = ''u'', se_token = ''t'', se_gzip = (\<lambda>data. data), se_dumps = (\<lambda>v. ''j''), se_unf_json = (\<lambda>u. ''unf'')\<rparr>"

definition published_db :: "ip3 handler" where
  "published_db = DatabaseHandler server_settings False
     \<lparr>t_objects = [], t_journal = [], t_status = [new_status ''TEST'' False 1], t_suspended = [], t_protected = [], t_roas = []\<rparr> 0 1"

definition published_run where
  "published_run = server_run example_server ''TEST'' published_db []"

lemma published_run_result:
  "fst published_run = Inr () \<and>
   map (\<lambda>s. (st_source s, published (nrtm4_server s))) (t_status (committed (fst (snd published_run))))
     = [(''TEST'', [(''nrtm-snapshot.u.1.t.json.gz'', [RS, CHR ''j'', NL])])] \<and>
   snd (snd published_run) = [(''nrtm-snapshot.u.1.t.json.gz'', [RS, CHR ''j'', NL], 7), (''update-notification-file.jose'', ''key.unf'', 7)]"
  by code_simp

lemma example_hash: "example_server \<in> hash_env (take 3)"
  by (simp add: hash_env_def example_server_def se_client_def example_client_def example_net_def)

lemma example_start:
  "server_history (hash_env (take 3) :: (ip3, (string, roa_entry list) dict, string, bool list, bool list list) server_env set)
     ''TEST'' published_db []"
  by (rule server_history.no_server) (simp_all add: dict_keys_def published_db_def DatabaseHandler_def new_status_def)

lemma example_fresh: "fresh_names example_server ''TEST'' published_db"
  by (simp add: fresh_names_def stored_rows_def published_db_def DatabaseHandler_def new_status_def)

theorem published_files_match_witness:
  "\<exists>s x data t. s \<in> set (t_status (committed (fst (snd published_run)))) \<and>
     (''nrtm-snapshot.u.1.t.json.gz'', x) \<in> set (published (nrtm4_server s)) \<and>
     dict_get (snd (snd published_run)) ''nrtm-snapshot.u.1.t.json.gz'' = Some (data, t) \<and> take 3 data = x"
proof -
  obtain r h' dir' where run: "server_run example_server ''TEST'' published_db [] = (r, h', dir')" by (metis prod_cases3)
  have h: "server_history (hash_env (take 3) :: (ip3, (string, roa_entry list) dict, string, bool list, bool list list) server_env set)
      ''TEST'' h' dir'" by (rule server_history.run [OF example_start example_hash example_fresh run])
  have u: "py_upper ''TEST'' = ''TEST''" by code_simp
  from published_run_result run obtain s where s: "t_status (committed h') = [s]" "st_source s = ''TEST''"
      "published (nrtm4_server s) = [(''nrtm-snapshot.u.1.t.json.gz'', [RS, CHR ''j'', NL])]"
    and d: "dict_get dir' ''nrtm-snapshot.u.1.t.json.gz'' = Some ([RS, CHR ''j'', NL], 7)"
    by (auto simp: published_run_def map_eq_Cons_conv)
  from published_files_match [OF h u, of s] s d run show ?thesis
    by (intro exI [of _ s] exI [of _ "[RS, CHR ''j'', NL]"] exI [of _ 7]) (auto simp: published_run_def)
qed

theorem notification_refers_to_files_witness:
  "notification_consistent example_server ''TEST'' (snd (snd published_run))"
proof (rule notification_refers_to_files [OF example_start _ example_hash example_fresh])
  show "py_upper ''TEST'' = ''TEST''" by code_simp
  show "px_texts (ce_pydantic (se_client example_server))"
    by (simp add: px_texts_def example_server_def se_client_def example_client_def example_pydantic_def)
  show "distinct (map st_source (t_status (committed published_db)))" by code_simp
  show "current_status example_server ''TEST'' (committed published_db) = Some no_server_status" by code_simp
  show "server_run example_server ''TEST'' published_db [] = (Inr (), fst (snd published_run), snd (snd published_run))"
    unfolding published_run_def [symmetric] using published_run_result by (metis prod.collapse)
qed

text \<open>A delta with a deletion; the encoder tells headers from entries.\<close>

definition example_entry :: journal_entry where
  "example_entry = \<lparr>je_serial_global = 1, je_rpsl_pk = ''AS1'', je_source = ''TEST'', je_origin = origin_auth_change, je_serial = 1,
     je_operation = op_delete, je_class = ''aut-num'', je_text = ''aut-num: AS1'', je_timestamp = 1\<rparr>"

definition example_delta_header :: cval where
  "example_delta_header = CDict [(''nrtm_version'', CInt 4), (''source'', CStr ''TEST''), (''session_id'', CStr ''u''),
     (''version'', CInt 2), (''type'', CStr ''delta'')]"

definition example_deletion :: cval where
  "example_deletion = CDict [(''action'', CStr ''delete''), (''object_class'', CStr ''aut-num''), (''primary_key'', CStr ''AS1'')]"

definition delta_server where
  "delta_server = example_server\<lparr>se_dumps := (\<lambda>v. if v = example_delta_header then ''h'' else ''d'')\<rparr>"

definition delta_client where
  "delta_client = example_client\<lparr>ce_loads := (\<lambda>t. if t = ''h'' @ [NL] then Inr example_delta_header else Inr example_deletion)\<rparr>"

definition journal_db :: "ip3 handler" where
  "journal_db = DatabaseHandler server_settings False
     \<lparr>t_objects = [], t_journal = [example_entry], t_status = [], t_suspended = [], t_protected = [], t_roas = []\<rparr> 0 2"

definition delta_writer :: server_writer where
  "delta_writer = \<lparr>sw_source = ''TEST'', sw_timestamp = 7, sw_max_serial_global = 1,
     sw_status = no_server_status\<lparr>sv_session_id := Some ''u''\<rparr>, sw_original_status = no_server_status\<rparr>"


section \<open>A limit\<close>

text \<open>
  Deltas expire before a new snapshot is written. A server that did not run for more than a day, with a
  delta since its last snapshot, deletes that delta; then the version of the notification file is not
  consistent any more, and the run fails. The old notification file stays and refers to the deleted
  delta, until the next run finds the file missing and starts a new session.
\<close>

definition expired_status :: nrtm4_server_status where
  "expired_status = \<lparr>sv_session_id = Some ''u'', sv_version = Some 2, sv_last_update_notification_file_update = Some 7,
     sv_last_snapshot_version = Some 1, sv_last_snapshot_global_serial = Some 0,
     sv_last_snapshot_filename = Some ''nrtm-snapshot.u.1.a.json.gz'', sv_last_snapshot_timestamp = Some 6, sv_last_snapshot_hash = Some ''abc'',
     sv_previous_deltas = [\<lparr>sd_filename = ''nrtm-delta.u.2.a.json.gz'', sd_hash = ''def'', sd_timestamp = 7, sd_version = 2,
       sd_serial_global_start = 1, sd_serial_global_end = 1\<rparr>]\<rparr>"

definition late_server where
  "late_server = example_server\<lparr>se_run := (se_run example_server)\<lparr>re_client := (se_client example_server)\<lparr>ce_now := 200000\<rparr>\<rparr>,
     se_clock := 200000\<rparr>"

definition late_db :: "ip3 handler" where
  "late_db = DatabaseHandler server_settings False
     \<lparr>t_objects = [], t_journal = [], t_status = [(new_status ''TEST'' False 1)\<lparr>nrtm4_server := expired_status\<rparr>],
      t_suspended = [], t_protected = [], t_roas = []\<rparr> 0 1"

definition late_files :: repository where
  "late_files = [(''nrtm-snapshot.u.1.a.json.gz'', ''abcd'', 6), (''nrtm-delta.u.2.a.json.gz'', ''defg'', 7),
     (''update-notification-file.jose'', ''key.old'', 7)]"

lemma expired_delta_breaks_notification:
  "case server_run late_server ''TEST'' late_db late_files of (r, h', dir') \<Rightarrow>
     isl r \<and> dict_get dir' ''nrtm-delta.u.2.a.json.gz'' = None \<and>
     dict_get dir' ''update-notification-file.jose'' = dict_get late_files ''update-notification-file.jose'' \<and>
     map nrtm4_server (t_status (committed h')) = [expired_status] \<and>
     (case server_run late_server ''TEST'' h' dir' of (r', h'', dir'') \<Rightarrow>
        map (sv_version \<circ> nrtm4_server) (t_status (committed h'')) = [Some 1])"
  by code_simp

end
