(* ===== verification/Spec2Isabelle.thy ===== *)
theory Spec2Isabelle
  imports Text_Facts RPSL_Object_Facts RPKI_Facts Scope_Filter Whois_Response Scheduler Route_Pref
    Mirror_Import_Facts NRTM_Facts Journal_Mirror Update_Results Preload_Threads Whois_Query_Facts
    Mirror_Export NRTM4_Published
begin

text \<open>
  A verification library for IRRd, the Internet Routing Registry daemon: a shallow embedding of its
  Python code under \<^verbatim>\<open>src/irrd\<close>, and the theorems that make the parts correct.

  \<^bold>\<open>The program.\<close> IRRd stores RPSL objects (routes, maintainers, sets) of several sources in a
  PostgreSQL database. Objects come from authoritative updates (\<^verbatim>\<open>updates/\<close>), from files and from NRTM
  streams of other registries (\<^verbatim>\<open>mirroring/\<close>); each is parsed and checked against the schema of its class
  (\<^verbatim>\<open>rpsl/\<close>), and gets three statuses: of RPKI validation (\<^verbatim>\<open>rpki/\<close>), of the scope filter
  (\<^verbatim>\<open>scopefilter/\<close>) and of route preference (\<^verbatim>\<open>routepref/\<close>). Objects with a negative status are
  suppressed. The database handler (\<^verbatim>\<open>storage/database_handler.py\<close>) buffers writes, keeps a journal
  and tracks serials; the journal is what mirrors of this instance read over NRTM. Whois queries
  (\<^verbatim>\<open>server/whois\<close>) are answered by the resolver (\<^verbatim>\<open>server/query_resolver.py\<close>), from the database through
  the query builders (\<^verbatim>\<open>storage/queries.py\<close>), or, for sets and origins, from a store in memory that is
  preloaded through Redis (\<^verbatim>\<open>storage/preload.py\<close>).

  \<^bold>\<open>Conventions.\<close> A Python text is a \<open>string\<close>, one HOL character for each code point up to 255; an \<open>int\<close>
  is an \<open>int\<close>, a dictionary an association list in the order of insertion (\<open>('k, 'v) dict\<close>), a class a
  record, an enumeration a datatype. An exception is a value of \<open>exn\<close>, a call that may raise one gives
  \<open>exn + 'a\<close> (\<open>'a res\<close>), composed with \<open>rbind\<close>; where a handler keeps changes that it made before it
  raised, the result is a pair of the result and the new state. The configuration is a function from
  dotted names to values. A set whose order is not observable is a list without duplicates.

  \<^bold>\<open>Theories.\<close> In the order of the imports, with the source each is about:
  \<^item> \<open>Py_Prelude\<close>, \<open>Py_Regex\<close>: the Python values, operations on texts, dictionaries and regular
    expressions that the code uses, and the lemmas that the components share. \<open>Ext_Libs\<close>: the interface
    of the packages outside of the repository, as a record of functions.
  \<^item> \<open>Conf\<close>: \<^verbatim>\<open>conf/\<close>, the lookup of settings. \<open>Text_Utils\<close>, \<open>Text_Facts\<close>: \<^verbatim>\<open>utils/text.py\<close>; masking of
    password hashes leaves nothing of a hash. \<open>AS_Numbers\<close>: \<^verbatim>\<open>utils/validators.py\<close>; bounds and round
    trip of AS numbers.
  \<^item> \<open>RPSL_State\<close>, \<open>RPSL_Fields\<close>, \<open>RPSL_Schema\<close>, \<open>RPSL_Parser\<close>, \<open>RPSL_Objects\<close>: \<^verbatim>\<open>rpsl/parser_state.py\<close>,
    \<^verbatim>\<open>auth.py\<close>, \<^verbatim>\<open>fields.py\<close>, \<^verbatim>\<open>rpsl_objects.py\<close>, \<^verbatim>\<open>parser.py\<close>. \<open>RPSL_Field_Facts\<close>: every field parser only
    appends messages, fails exactly when it appends an error, and which of them never raise.
    \<open>RPSL_Object_Facts\<close>: what strict acceptance means, the shape of parsed data, passwords.
  \<^item> \<open>RPKI\<close>, \<open>RPKI_Facts\<close>: \<^verbatim>\<open>rpki/\<close>; the trie based validator equals the reference definition of route
    origin validation. \<open>Scope_Filter\<close>: \<^verbatim>\<open>scopefilter/\<close>. \<open>Route_Pref\<close>: \<^verbatim>\<open>routepref/\<close>; suppression is exact,
    and a second update changes nothing. \<open>Status_Scan\<close>: what the full updates of statuses share.
  \<^item> \<open>Scheduler\<close>: \<^verbatim>\<open>mirroring/scheduler.py\<close> as a transition system. \<open>Mirror_Import\<close> and its facts:
    \<^verbatim>\<open>mirroring/parsers.py\<close>; an import synchronises the rows of its source with the file. \<open>NRTM\<close> and its
    facts: \<^verbatim>\<open>nrtm_operation.py\<close>, \<^verbatim>\<open>nrtm_generator.py\<close> and the stream parser; what is generated reads back.
  \<^item> \<open>Database\<close>, \<open>Database_Facts\<close>, \<open>Journal_Mirror\<close>: \<^verbatim>\<open>storage/database_handler.py\<close> and \<^verbatim>\<open>models.py\<close>; the
    journal describes the visible objects, in every state that is reachable by calls of the handler.
    \<open>Queries\<close>: \<^verbatim>\<open>storage/queries.py\<close>.
  \<^item> \<open>Crypto\<close>, \<open>Retrieval\<close>: \<^verbatim>\<open>utils/crypto.py\<close> and \<^verbatim>\<open>mirroring/retrieval.py\<close>. \<open>JSON_Seq\<close>, \<open>NRTM4_Types\<close>,
    \<open>NRTM4_Client\<close>, \<open>NRTM4_Server\<close>: \<^verbatim>\<open>mirroring/nrtm4/\<close>, each on the real database handler; a decoded sequence
    is what was encoded. \<open>Mirror_Runners\<close>, \<open>Mirror_Export\<close>: \<^verbatim>\<open>mirror_runners_import.py\<close> and
    \<^verbatim>\<open>mirror_runners_export.py\<close>, whole runs with their handler from open to close. \<open>Status_Rows\<close>:
    which calls of the handler store a status. \<open>NRTM4_Client_Facts\<close>, \<open>NRTM4_Runs\<close>: which keys a client
    trusts, and that it applies deltas in order. \<open>NRTM4_Server_Facts\<close>, \<open>NRTM4_Published\<close>: over any number
    of runs of the server, published files have the hashes that are announced, a notification file refers
    to files that exist, and a client reads a delta as the changes of the journal.
  \<^item> \<open>Update_State\<close>, \<open>Update_Validators\<close>, \<open>Suspension\<close>, \<open>Update_Requests\<close>, \<open>Update_Handler\<close>: \<^verbatim>\<open>updates/\<close>.
    \<open>Update_Loop\<close> shows that resolving a submission ends, \<open>Update_Auth\<close>, \<open>Update_Facts\<close>,
    \<open>Update_Saved\<close> and \<open>Update_Results\<close> that what is saved was authorised and refers to what exists;
    \<open>Update_Examples\<close> holds the submissions of the witnesses.
  \<^item> \<open>Preload\<close>, \<open>Preload_Facts\<close>, \<open>Preload_Threads\<close>: \<^verbatim>\<open>storage/preload.py\<close>; the store answers with what is
    visible in the database, and a change is not lost while threads queue up.
  \<^item> \<open>Access_Lists\<close>: \<^verbatim>\<open>server/access_check.py\<close>. \<open>Query_Resolver\<close>, \<open>Query_Facts\<close>: \<^verbatim>\<open>server/query_resolver.py\<close>.
    \<open>Whois_Response\<close>, \<open>Whois_Query\<close>, \<open>Whois_Server\<close>: \<^verbatim>\<open>server/whois/\<close>, with \<^verbatim>\<open>utils/whois_client.py\<close>.
    \<open>Whois_Query_Facts\<close>: the invariant of a session, and who can see password hashes.

  \<^bold>\<open>Interfaces.\<close> Where several operations share a contract, or a component relies on another, the
  contract is a locale with the lemmas that follow from it, interpreted on the definitions of the model:
  parsers of fields that only append messages (\<open>field_contract\<close>), scans that report the rows whose status
  is out of date (\<open>status_scan\<close>), loops that journal for each item (\<open>journal_loop\<close>), status columns of a
  row (\<open>row_status\<close>), properties of a submission that a round keeps (\<open>round_invariant\<close>), query builders that only
  restrict (\<open>query_builder\<close>), and statuses that the tracker of the database handler stores at a commit
  (\<open>tracked_status\<close>).

  \<^bold>\<open>Parameters.\<close> Code that is not under \<^verbatim>\<open>src\<close> is an argument: IPy, passlib, python-gnupg and the check
  of bracketed hosts of urlparse (\<open>extlib\<close>), datrie and py-radix (tries over prefixes), the comparisons,
  text operators and generated keys of PostgreSQL (\<open>pg_lib\<close>), joserfc and cryptography (\<open>ec_lib\<close>), pydantic's
  parsers of JSON, URLs, UUIDs and time stamps (\<open>pydantic\<close>), what is downloaded, gzip and SHA-256 (\<open>net_lib\<close>),
  difflib, \<open>str.format\<close>, ujson and the clock. Theorems that need something of them have it as a hypothesis,
  with a witness over a concrete library (such as \<open>ip3_lib\<close>, addresses as triples).

  \<^bold>\<open>Bounds.\<close> No definition runs on fuel. The loop over a submission, \<open>resolve_loop\<close>, has the limit that the
  code has, ten rounds more than there are requests; \<open>resolve_terminates\<close> shows that it is never reached.
  The recursion over sets, \<open>recursive_set_resolve\<close>, ends because each call has a name that was not seen
  and all names come from the store; the loop over a RIPE style query consumes its parts.

  \<^bold>\<open>Not modelled.\<close> Sockets, processes, signals, lock files, connections to PostgreSQL and Redis and their
  errors, and logging. The HTTP, GraphQL and web interfaces (\<^verbatim>\<open>server/http\<close>, \<^verbatim>\<open>server/graphql\<close>, \<^verbatim>\<open>webui\<close>),
  which are glue to frameworks around the resolver and the update handler. The jobs that signal the
  preloader, email parsing and notifications, scripts, migrations and vendored code. The manifest lists
  each part.
\<close>

end
